(* ===== verification/Prelude.thy ===== *)
theory Prelude
  imports Main "HOL-Library.Word" "HOL-Library.FSet" "HOL-Library.List_Lexorder"
    "HOL-Library.Char_ord" "HOL-Library.AList" "HOL-Library.Sublist"
begin

text \<open>
  Shared vocabulary of the development: the outcome of a fallible Rust operation (a value, an
  error, or a panic), traversals that stop at the first error, traversals that thread a mutable
  table, first-position search, and ordered collections.  \<open>BTreeSet\<close> is represented by the
  strictly increasing list of its elements and \<open>BTreeMap\<close> by the association list of its entries
  in increasing key order; \<open>HashMap\<close> and \<open>HashSet\<close> by lists without repetition, whose order
  stands for one iteration order.
\<close>

section \<open>Machine types\<close>

type_synonym u8 = "8 word"
type_synonym i64 = "64 word"
type_synonym bytes = "u8 list"

abbreviation usize_max :: nat where
  "usize_max \<equiv> 18446744073709551615"

section \<open>Outcomes\<close>

datatype ('e, 'a) outcome = Ok 'a | Err 'e | Panic

named_theorems outcome_simps

fun obind :: "('e, 'a) outcome \<Rightarrow> ('a \<Rightarrow> ('e, 'b) outcome) \<Rightarrow> ('e, 'b) outcome" where
  "obind (Ok x) f = f x"
| "obind (Err e) f = Err e"
| "obind Panic f = Panic"

fun omap_err :: "('e \<Rightarrow> 'f) \<Rightarrow> ('e, 'a) outcome \<Rightarrow> ('f, 'a) outcome" where
  "omap_err g (Ok x) = Ok x"
| "omap_err g (Err e) = Err (g e)"
| "omap_err g Panic = Panic"

fun ok_or :: "'e \<Rightarrow> 'a option \<Rightarrow> ('e, 'a) outcome" where
  "ok_or e None = Err e"
| "ok_or e (Some x) = Ok x"

fun or_panic :: "'a option \<Rightarrow> ('e, 'a) outcome" where
  "or_panic None = Panic"
| "or_panic (Some x) = Ok x"

fun is_ok :: "('e, 'a) outcome \<Rightarrow> bool" where
  "is_ok (Ok _) = True"
| "is_ok _ = False"

lemma obind_cong [fundef_cong]:
  "m = m' \<Longrightarrow> (\<And>x. m' = Ok x \<Longrightarrow> f x = g x) \<Longrightarrow> obind m f = obind m' g"
  by (cases m') auto

lemma obind_assoc: "obind (obind m f) g = obind m (\<lambda>x. obind (f x) g)"
  by (cases m) simp_all

lemma obind_Ok: "obind m Ok = m"
  by (cases m) simp_all

lemma obind_eq_Ok [outcome_simps]: "obind m f = Ok y \<longleftrightarrow> (\<exists>x. m = Ok x \<and> f x = Ok y)"
  by (cases m) auto

lemma obind_eq_Err [outcome_simps]:
  "obind m f = Err e \<longleftrightarrow> m = Err e \<or> (\<exists>x. m = Ok x \<and> f x = Err e)"
  by (cases m) auto

lemma obind_eq_Panic [outcome_simps]:
  "obind m f = Panic \<longleftrightarrow> m = Panic \<or> (\<exists>x. m = Ok x \<and> f x = Panic)"
  by (cases m) auto

lemma ok_or_eq_Ok [simp]: "ok_or e m = Ok x \<longleftrightarrow> m = Some x"
  by (cases m) auto

lemma ok_or_eq_Err [simp]: "ok_or e m = Err d \<longleftrightarrow> m = None \<and> d = e"
  by (cases m) auto

lemma ok_or_not_Panic [simp]: "ok_or e m \<noteq> Panic"
  by (cases m) auto

lemma omap_err_eq_Ok [simp]: "omap_err g m = Ok x \<longleftrightarrow> m = Ok x"
  by (cases m) auto

lemma omap_err_eq_Panic [simp]: "omap_err g m = Panic \<longleftrightarrow> m = Panic"
  by (cases m) auto

lemma omap_err_eq_Err [simp]: "omap_err g m = Err d \<longleftrightarrow> (\<exists>e. m = Err e \<and> d = g e)"
  by (cases m) auto

lemma or_panic_eq_Ok [simp]: "or_panic m = Ok x \<longleftrightarrow> m = Some x"
  by (cases m) auto

lemma or_panic_not_Err [simp]: "or_panic m \<noteq> Err e"
  by (cases m) auto

lemma is_ok_iff: "is_ok m \<longleftrightarrow> (\<exists>x. m = Ok x)"
  by (cases m) auto

section \<open>Traversals\<close>

text \<open>\<open>iter().map(f).collect::<Result<Vec<_>, _>>()\<close>: left to right, stopping at the first failure.\<close>

fun traverse :: "('a \<Rightarrow> ('e, 'b) outcome) \<Rightarrow> 'a list \<Rightarrow> ('e, 'b list) outcome" where
  "traverse f [] = Ok []"
| "traverse f (x # xs) = obind (f x) (\<lambda>y. obind (traverse f xs) (\<lambda>ys. Ok (y # ys)))"

lemma traverse_cong [fundef_cong]:
  "xs = ys \<Longrightarrow> (\<And>x. x \<in> set ys \<Longrightarrow> f x = g x) \<Longrightarrow> traverse f xs = traverse g ys"
  by (induction ys arbitrary: xs) auto

lemma traverse_map_Ok:
  "(\<And>x. x \<in> set xs \<Longrightarrow> f (g x) = Ok (h x)) \<Longrightarrow> traverse f (map g xs) = Ok (map h xs)"
  by (induction xs) auto

lemma traverse_map_id:
  "(\<And>x. x \<in> set xs \<Longrightarrow> f (g x) = Ok x) \<Longrightarrow> traverse f (map g xs) = Ok xs"
  by (induction xs) auto

lemma traverse_Ok_list_all2:
  "traverse f xs = Ok ys \<longleftrightarrow> list_all2 (\<lambda>x y. f x = Ok y) xs ys"
  by (induction xs arbitrary: ys) (auto simp: outcome_simps list_all2_Cons1)

lemma traverse_Ok_length: "traverse f xs = Ok ys \<Longrightarrow> length ys = length xs"
  by (auto simp: traverse_Ok_list_all2 dest: list_all2_lengthD)

text \<open>A traversal that threads mutable state; \<open>None\<close> is a panic.\<close>

fun smap :: "('a \<Rightarrow> 's \<Rightarrow> ('b \<times> 's) option) \<Rightarrow> 'a list \<Rightarrow> 's \<Rightarrow> ('b list \<times> 's) option" where
  "smap f [] s = Some ([], s)"
| "smap f (x # xs) s =
     (case f x s of None \<Rightarrow> None
      | Some (y, s') \<Rightarrow>
          (case smap f xs s' of None \<Rightarrow> None | Some (ys, s'') \<Rightarrow> Some (y # ys, s'')))"

lemma smap_cong [fundef_cong]:
  "xs = ys \<Longrightarrow> s = t \<Longrightarrow> (\<And>x u. x \<in> set ys \<Longrightarrow> f x u = g x u) \<Longrightarrow> smap f xs s = smap g ys t"
  by (induction ys arbitrary: xs s t) (auto split: option.splits)

lemma smap_Some_Cons:
  "smap f (x # xs) s = Some (zs, u) \<longleftrightarrow>
     (\<exists>y t ys. f x s = Some (y, t) \<and> smap f xs t = Some (ys, u) \<and> zs = y # ys)"
  by (auto split: option.splits)

lemma smap_invariant:
  "smap f xs s = Some (ys, t) \<Longrightarrow> I s \<Longrightarrow>
     (\<And>x y u v. x \<in> set xs \<Longrightarrow> I u \<Longrightarrow> f x u = Some (y, v) \<Longrightarrow> I v) \<Longrightarrow> I t"
proof (induction xs arbitrary: s ys)
  case Nil
  then show ?case by simp
next
  case (Cons x xs)
  from Cons.prems(1) obtain y u zs where step: "f x s = Some (y, u)" and rest: "smap f xs u = Some (zs, t)"
    unfolding smap_Some_Cons by blast
  from Cons.prems(2,3) step have "I u" by (meson list.set_intros(1))
  then show ?case by (rule Cons.IH [OF rest]) (use Cons.prems(3) in auto)
qed

text \<open>A traversal that threads mutable state and stops at the first error.\<close>

fun otraverse :: "('a \<Rightarrow> 's \<Rightarrow> ('e, 'b \<times> 's) outcome) \<Rightarrow> 'a list \<Rightarrow> 's \<Rightarrow>
    ('e, 'b list \<times> 's) outcome" where
  "otraverse f [] s = Ok ([], s)"
| "otraverse f (x # xs) s =
     obind (f x s) (\<lambda>(y, s'). obind (otraverse f xs s') (\<lambda>(ys, s''). Ok (y # ys, s'')))"

lemma otraverse_Ok_Cons:
  "otraverse f (x # xs) s = Ok (zs, u) \<longleftrightarrow>
     (\<exists>y t ys. f x s = Ok (y, t) \<and> otraverse f xs t = Ok (ys, u) \<and> zs = y # ys)"
  by (auto simp: outcome_simps)

lemma otraverse_cong [fundef_cong]:
  "xs = ys \<Longrightarrow> s = t \<Longrightarrow> (\<And>x u. x \<in> set ys \<Longrightarrow> f x u = g x u) \<Longrightarrow> otraverse f xs s = otraverse g ys t"
proof (induction ys arbitrary: xs s t)
  case (Cons y ys)
  then have "otraverse f ys = otraverse g ys" by (intro ext) simp
  with Cons.prems show ?case by simp
qed simp

text \<open>A step that is a fallible reading followed by a panicking write.\<close>

definition read_then_write :: "('e, 'b) outcome \<Rightarrow> ('b \<Rightarrow> 's \<Rightarrow> ('c \<times> 's) option) \<Rightarrow> 's \<Rightarrow>
    ('e, 'c \<times> 's) outcome" where
  "read_then_write m f s = obind m (\<lambda>b. or_panic (f b s))"

section \<open>Searching\<close>

text \<open>\<open>iter().position(|y| y == x)\<close>: the index of the first equal element.\<close>

fun position :: "'a \<Rightarrow> 'a list \<Rightarrow> nat option" where
  "position x [] = None"
| "position x (y # ys) = (if y = x then Some 0 else map_option Suc (position x ys))"

lemma position_Some_nth: "position x xs = Some i \<Longrightarrow> i < length xs \<and> xs ! i = x"
  by (induction xs arbitrary: i) (auto split: if_splits)

lemma position_None_iff: "position x xs = None \<longleftrightarrow> x \<notin> set xs"
  by (induction xs) auto

lemma position_nth_distinct: "distinct xs \<Longrightarrow> i < length xs \<Longrightarrow> position (xs ! i) xs = Some i"
proof (induction xs arbitrary: i)
  case Nil
  then show ?case by simp
next
  case (Cons x xs)
  then show ?case by (cases i) (auto simp: nth_mem)
qed

lemma position_append:
  "position x (xs @ ys) =
     (case position x xs of Some i \<Rightarrow> Some i
      | None \<Rightarrow> map_option (\<lambda>i. length xs + i) (position x ys))"
proof (induction xs)
  case Nil
  show ?case by (cases "position x ys") simp_all
next
  case (Cons a xs)
  then show ?case
    by (cases "position x xs"; cases "position x ys") auto
qed

text \<open>\<open>slice::get\<close>: \<open>None\<close> out of range.\<close>

definition nth_opt :: "'a list \<Rightarrow> nat \<Rightarrow> 'a option" where
  "nth_opt xs i = (if i < length xs then Some (xs ! i) else None)"

lemma nth_opt_append_left: "nth_opt xs i = Some x \<Longrightarrow> nth_opt (xs @ ys) i = Some x"
  by (auto simp: nth_opt_def nth_append split: if_splits)

lemma nth_opt_last [simp]: "nth_opt (xs @ [x]) (length xs) = Some x"
  by (simp add: nth_opt_def)

section \<open>Ordered sets and maps\<close>

fun bt_insert :: "'a::linorder \<Rightarrow> 'a list \<Rightarrow> 'a list" where
  "bt_insert x [] = [x]"
| "bt_insert x (y # ys) =
     (if x < y then x # y # ys else if x = y then y # ys else y # bt_insert x ys)"

definition bt_of_list :: "'a::linorder list \<Rightarrow> 'a list" where
  "bt_of_list xs = fold bt_insert xs []"

definition strict_sorted :: "'a::linorder list \<Rightarrow> bool" where
  "strict_sorted xs \<longleftrightarrow> sorted_wrt (<) xs"

lemma set_bt_insert [simp]: "set (bt_insert x xs) = insert x (set xs)"
  by (induction xs) auto

lemma strict_sorted_bt_insert: "strict_sorted xs \<Longrightarrow> strict_sorted (bt_insert x xs)"
  by (induction xs) (auto simp: strict_sorted_def)

lemma bt_insert_snoc:
  "\<forall>y \<in> set xs. y < x \<Longrightarrow> bt_insert x xs = xs @ [x]"
  by (induction xs) auto

lemma fold_bt_insert_set: "set (fold bt_insert xs acc) = set xs \<union> set acc"
  by (induction xs arbitrary: acc) auto

lemma set_bt_of_list [simp]: "set (bt_of_list xs) = set xs"
  by (simp add: bt_of_list_def fold_bt_insert_set)

lemma strict_sorted_fold: "strict_sorted acc \<Longrightarrow> strict_sorted (fold bt_insert xs acc)"
  by (induction xs arbitrary: acc) (auto simp: strict_sorted_bt_insert)

lemma strict_sorted_bt_of_list [simp]: "strict_sorted (bt_of_list xs)"
  unfolding bt_of_list_def by (rule strict_sorted_fold) (simp add: strict_sorted_def)

lemma fold_bt_insert_sorted:
  "sorted_wrt (<) (acc @ xs) \<Longrightarrow> fold bt_insert xs acc = acc @ xs"
proof (induction xs arbitrary: acc)
  case Nil
  then show ?case by simp
next
  case (Cons x xs)
  from Cons.prems have "\<forall>y \<in> set acc. y < x"
    by (auto simp: sorted_wrt_append)
  then have "bt_insert x acc = acc @ [x]" by (rule bt_insert_snoc)
  with Cons show ?case by simp
qed

lemma bt_of_list_sorted: "strict_sorted xs \<Longrightarrow> bt_of_list xs = xs"
  using fold_bt_insert_sorted [of "[]" xs] by (simp add: bt_of_list_def strict_sorted_def)

lemma strict_sorted_unique:
  "strict_sorted xs \<Longrightarrow> strict_sorted ys \<Longrightarrow> set xs = set ys \<Longrightarrow> xs = ys"
  unfolding strict_sorted_def
  by (simp add: strict_sorted_equal)

lemma strict_sorted_filter: "strict_sorted xs \<Longrightarrow> strict_sorted (filter P xs)"
  by (simp add: strict_sorted_def sorted_wrt_filter)

lemma strict_sorted_distinct: "strict_sorted xs \<Longrightarrow> distinct xs"
  by (induction xs) (auto simp: strict_sorted_def)

text \<open>\<open>BTreeMap::insert\<close> replaces the value of a present key.\<close>

fun bm_insert :: "'k::linorder \<Rightarrow> 'v \<Rightarrow> ('k \<times> 'v) list \<Rightarrow> ('k \<times> 'v) list" where
  "bm_insert k v [] = [(k, v)]"
| "bm_insert k v ((l, w) # m) =
     (if k < l then (k, v) # (l, w) # m else if k = l then (l, v) # m else (l, w) # bm_insert k v m)"

definition bm_of_list :: "('k::linorder \<times> 'v) list \<Rightarrow> ('k \<times> 'v) list" where
  "bm_of_list xs = fold (\<lambda>(k, v) m. bm_insert k v m) xs []"

lemma set_keys_bm_insert [simp]: "fst ` set (bm_insert k v m) = insert k (fst ` set m)"
  by (induction k v m rule: bm_insert.induct) auto

lemma set_bm_insert_subset: "set (bm_insert k v m) \<subseteq> insert (k, v) (set m)"
  by (induction k v m rule: bm_insert.induct) auto

lemma strict_sorted_bm_insert:
  "strict_sorted (map fst m) \<Longrightarrow> strict_sorted (map fst (bm_insert k v m))"
proof (induction k v m rule: bm_insert.induct)
  case (2 k v l w m)
  then show ?case
    using set_keys_bm_insert [of k v m] by (auto simp: strict_sorted_def image_iff)
qed (simp add: strict_sorted_def)

lemma map_of_bm_insert:
  "strict_sorted (map fst m) \<Longrightarrow> map_of (bm_insert k v m) = (map_of m)(k \<mapsto> v)"
  by (induction k v m rule: bm_insert.induct) (auto simp: strict_sorted_def fun_eq_iff)

lemma bm_insert_snoc:
  "\<forall>l \<in> fst ` set m. l < k \<Longrightarrow> bm_insert k v m = m @ [(k, v)]"
  by (induction k v m rule: bm_insert.induct) auto

lemma fold_bm_insert_sorted:
  "sorted_wrt (<) (map fst (acc @ xs)) \<Longrightarrow> fold (\<lambda>(k, v) m. bm_insert k v m) xs acc = acc @ xs"
proof (induction xs arbitrary: acc)
  case Nil
  then show ?case by simp
next
  case (Cons x xs)
  obtain k v where x: "x = (k, v)" by force
  from Cons.prems x have "\<forall>l \<in> fst ` set acc. l < k"
    by (auto simp: sorted_wrt_append)
  then have "bm_insert k v acc = acc @ [(k, v)]" by (rule bm_insert_snoc)
  with Cons x show ?case by simp
qed

lemma bm_of_list_sorted: "strict_sorted (map fst xs) \<Longrightarrow> bm_of_list xs = xs"
  using fold_bm_insert_sorted [of "[]" xs] by (simp add: bm_of_list_def strict_sorted_def)

lemma strict_sorted_fold_bm:
  "strict_sorted (map fst acc) \<Longrightarrow>
     strict_sorted (map fst (fold (\<lambda>(k, v) m. bm_insert k v m) xs acc))"
  by (induction xs arbitrary: acc) (auto simp: strict_sorted_bm_insert)

lemma strict_sorted_bm_of_list [simp]: "strict_sorted (map fst (bm_of_list xs))"
  unfolding bm_of_list_def by (rule strict_sorted_fold_bm) (simp add: strict_sorted_def)

lemma set_fold_bm_subset: "set (fold (\<lambda>(k, v) m. bm_insert k v m) xs acc) \<subseteq> set xs \<union> set acc"
proof (induction xs arbitrary: acc)
  case (Cons x xs)
  obtain k v where x: "x = (k, v)" by force
  show ?case
    using Cons [of "bm_insert k v acc"] set_bm_insert_subset [of k v acc] x by auto
qed simp

lemma set_bm_of_list_subset: "set (bm_of_list xs) \<subseteq> set xs"
  using set_fold_bm_subset [of xs "[]"] by (simp add: bm_of_list_def)

end
