(* ===== verification/Terms.thy ===== *)
theory Terms
  imports Prelude
begin

text \<open>
  The data of the Datalog engine (\<open>biscuit-auth/src/datalog/mod.rs\<close>, \<open>expression.rs\<close> and the
  scope of \<open>token/mod.rs\<close>): terms over symbol indices, predicates, facts, operations,
  expressions, rules and checks.  The derived \<open>Ord\<close> of terms (by variant, then by contents,
  lexicographically) is the order of their codes as integer lists; the lemmas below show that
  this is the derived order.  A term is well formed (\<open>wf_term\<close>) when each of its sets is
  strictly increasing and each of its maps has strictly increasing keys, which is what
  \<open>BTreeSet\<close> and \<open>BTreeMap\<close> guarantee by construction.
\<close>

section \<open>Terms\<close>

datatype map_key = KInteger i64 | KStr nat

datatype dterm =
    Variable nat
  | Integer i64
  | Str nat
  | Date nat
  | Bytes bytes
  | Bool bool
  | Set "dterm list"
  | Null
  | Array "dterm list"
  | Map "(map_key \<times> dterm) list"

datatype scope = Scope_Authority | Scope_Previous | Scope_PublicKey nat

section \<open>The derived order\<close>

fun enc_key :: "map_key \<Rightarrow> int list" where
  "enc_key (KInteger i) = [0, sint i]"
| "enc_key (KStr s) = [1, int s]"

text \<open>Sequences: each element is announced by 1 and the end by 0, so a prefix is smaller.\<close>

fun enc_seq :: "('a \<Rightarrow> int list) \<Rightarrow> 'a list \<Rightarrow> int list" where
  "enc_seq f [] = [0]"
| "enc_seq f (x # xs) = 1 # f x @ enc_seq f xs"

lemma enc_seq_cong [fundef_cong]:
  "xs = ys \<Longrightarrow> (\<And>x. x \<in> set ys \<Longrightarrow> f x = g x) \<Longrightarrow> enc_seq f xs = enc_seq g ys"
  by (induction ys arbitrary: xs) auto

fun enc :: "dterm \<Rightarrow> int list" where
  "enc (Variable v) = [0, int v]"
| "enc (Integer i) = [1, sint i]"
| "enc (Str s) = [2, int s]"
| "enc (Date d) = [3, int d]"
| "enc (Bytes bs) = 4 # enc_seq (\<lambda>b. [uint b]) bs"
| "enc (Bool b) = [5, if b then 1 else 0]"
| "enc (Set ts) = 6 # enc_seq enc ts"
| "enc Null = [7]"
| "enc (Array ts) = 8 # enc_seq enc ts"
| "enc (Map m) = 9 # enc_seq (\<lambda>(k, t). enc_key k @ enc t) m"

text \<open>Codes are prefix free, so they are injective and compare componentwise.\<close>

definition prefix_free_on :: "'a set \<Rightarrow> ('a \<Rightarrow> int list) \<Rightarrow> bool" where
  "prefix_free_on A f \<longleftrightarrow>
     (\<forall>x \<in> A. \<forall>y us vs. f x @ us = f y @ vs \<longrightarrow> x = y \<and> us = vs)"

lemma prefix_free_onD:
  "prefix_free_on A f \<Longrightarrow> x \<in> A \<Longrightarrow> f x @ us = f y @ vs \<Longrightarrow> x = y \<and> us = vs"
  unfolding prefix_free_on_def by blast

lemma prefix_free_on_Cons: "prefix_free_on (set (x # xs)) f \<Longrightarrow> prefix_free_on (set xs) f"
  unfolding prefix_free_on_def list.set by blast

lemma enc_seq_prefix_free:
  "prefix_free_on (set xs) f \<Longrightarrow> enc_seq f xs @ us = enc_seq f ys @ vs \<Longrightarrow> xs = ys \<and> us = vs"
proof (induction xs arbitrary: ys)
  case Nil
  then show ?case by (cases ys) auto
next
  case (Cons x xs)
  then obtain y zs where ys: "ys = y # zs" by (cases ys) auto
  with Cons.prems(2) have "f x @ (enc_seq f xs @ us) = f y @ (enc_seq f zs @ vs)" by simp
  from prefix_free_onD [where x = x and y = y and f = f, OF Cons.prems(1) _ this]
  have "x = y" and eq: "enc_seq f xs @ us = enc_seq f zs @ vs" by simp_all
  from Cons.prems(1) have "prefix_free_on (set xs) f" by (rule prefix_free_on_Cons)
  from Cons.IH [OF this eq] \<open>x = y\<close> ys show ?case by simp
qed

lemma enc_key_prefix_free: "enc_key k @ us = enc_key l @ vs \<Longrightarrow> k = l \<and> us = vs"
  by (cases k; cases l) (auto intro: signed_word_eqI)

lemma enc_prefix_free: "enc t @ us = enc u @ vs \<Longrightarrow> t = u \<and> us = vs"
proof (induction t arbitrary: u us vs rule: enc.induct)
  case (5 bs)
  have "prefix_free_on (set bs) (\<lambda>b. [uint b])"
    by (auto simp: prefix_free_on_def intro: unsigned_word_eqI)
  with 5 show ?case by (cases u) (auto dest: enc_seq_prefix_free)
next
  case (6 b)
  then show ?case by (cases u) (auto split: if_splits)
next
  case (7 ts)
  then have "prefix_free_on (set ts) enc" by (auto simp: prefix_free_on_def)
  with 7 show ?case by (cases u) (auto dest: enc_seq_prefix_free)
next
  case (9 ts)
  then have "prefix_free_on (set ts) enc" by (auto simp: prefix_free_on_def)
  with 9 show ?case by (cases u) (auto dest: enc_seq_prefix_free)
next
  case (10 m)
  have "prefix_free_on (set m) (\<lambda>(k, t). enc_key k @ enc t)"
    unfolding prefix_free_on_def
  proof (intro ballI allI impI)
    fix x y us vs
    assume x: "x \<in> set m"
      and eq: "(case x of (k, t) \<Rightarrow> enc_key k @ enc t) @ us = (case y of (k, t) \<Rightarrow> enc_key k @ enc t) @ vs"
    obtain k t l u' where xy: "x = (k, t)" "y = (l, u')" by (cases x; cases y)
    with eq have "k = l" and "enc t @ us = enc u' @ vs"
      using enc_key_prefix_free [of k "enc t @ us" l "enc u' @ vs"] by auto
    with 10(1) [OF x, of k t] xy show "x = y \<and> us = vs" by auto
  qed
  with 10(2) show ?case by (cases u) (auto dest: enc_seq_prefix_free)
qed (rename_tac u us vs, case_tac u; auto intro: signed_word_eqI)+

lemma enc_inject [simp]: "enc t = enc u \<longleftrightarrow> t = u"
  using enc_prefix_free [of t "[]" u "[]"] by auto

lemma enc_key_inject [simp]: "enc_key k = enc_key l \<longleftrightarrow> k = l"
  using enc_key_prefix_free [of k "[]" l "[]"] by auto

instantiation map_key :: linorder
begin

definition less_map_key :: "map_key \<Rightarrow> map_key \<Rightarrow> bool" where
  "k < l \<longleftrightarrow> enc_key k < enc_key l"

definition less_eq_map_key :: "map_key \<Rightarrow> map_key \<Rightarrow> bool" where
  "k \<le> l \<longleftrightarrow> enc_key k \<le> enc_key l"

instance
  by standard (auto simp: less_map_key_def less_eq_map_key_def less_le)

end

instantiation dterm :: linorder
begin

definition less_dterm :: "dterm \<Rightarrow> dterm \<Rightarrow> bool" where
  "t < u \<longleftrightarrow> enc t < enc u"

definition less_eq_dterm :: "dterm \<Rightarrow> dterm \<Rightarrow> bool" where
  "t \<le> u \<longleftrightarrow> enc t \<le> enc u"

instance
  by standard (auto simp: less_dterm_def less_eq_dterm_def less_le)

end

lemma append_less_iff:
  fixes a b :: "int list"
  assumes "\<And>us vs. a @ us = b @ vs \<Longrightarrow> a = b"
  shows "a @ us < b @ vs \<longleftrightarrow> a < b \<or> (a = b \<and> us < vs)"
  using assms
proof (induction a arbitrary: b)
  case Nil
  have "b = []" using Nil [of b "[]"] by simp
  then show ?case by simp
next
  case (Cons x xs)
  show ?case
  proof (cases b)
    case Nil
    with Cons.prems [of "[]" "x # xs"] show ?thesis by simp
  next
    case (Cons y ys)
    show ?thesis
    proof (cases "x = y")
      case True
      have "\<And>us vs. xs @ us = ys @ vs \<Longrightarrow> xs = ys"
        using Cons.prems Cons True by simp
      then show ?thesis using Cons.IH [of ys] Cons True by simp
    next
      case False
      then show ?thesis using Cons by auto
    qed
  qed
qed

text \<open>The order is the derived one: by variant, then by contents.\<close>

lemma less_Integer [simp]: "Integer i < Integer j \<longleftrightarrow> sint i < sint j"
  by (simp add: less_dterm_def)

lemma less_Str [simp]: "Str i < Str j \<longleftrightarrow> i < j"
  by (simp add: less_dterm_def)

lemma less_variants:
  "Integer i < Str s" "Str s < Date d" "Date d < Bytes bs" "Bytes bs < Bool b" "Bool b < Set ts"
  "Set ts < Null" "Null < Array us" "Array us < Map m" "Variable v < Integer i"
  by (simp_all add: less_dterm_def)

lemma less_Array_Cons:
  "Array (t # ts) < Array (u # us) \<longleftrightarrow> t < u \<or> (t = u \<and> Array ts < Array us)"
proof -
  have "enc t @ enc_seq enc ts < enc u @ enc_seq enc us \<longleftrightarrow>
      enc t < enc u \<or> (enc t = enc u \<and> enc_seq enc ts < enc_seq enc us)"
    by (rule append_less_iff) (use enc_prefix_free in auto)
  then show ?thesis by (simp add: less_dterm_def)
qed

lemma less_Array_Nil: "Array [] < Array (u # us)" "\<not> Array ts < Array []"
  by (auto simp: less_dterm_def) (cases ts; simp)

section \<open>Predicates, facts, expressions, rules and checks\<close>

record predicate =
  p_name :: nat
  p_terms :: "dterm list"

record fact =
  f_predicate :: predicate

datatype unary = Negate | Parens | Length | TypeOf | Ffi_unary nat

datatype binary =
    LessThan | GreaterThan | LessOrEqual | GreaterOrEqual | Equal | Contains | Prefix | Suffix
  | Regex | Add | Sub | Mul | Div | And_op | Or_op | Intersection | Union_op | BitwiseAnd
  | BitwiseOr | BitwiseXor | NotEqual | HeterogeneousEqual | HeterogeneousNotEqual | LazyAnd
  | LazyOr | All_op | Any_op | Get | Ffi nat | TryOr

datatype op = Value dterm | Unary unary | Binary binary | Closure "nat list" "op list"

record expression =
  e_ops :: "op list"

record rule =
  r_head :: predicate
  r_body :: "predicate list"
  r_expressions :: "expression list"
  r_scopes :: "scope list"

datatype check_kind = One_kind | All_kind | Reject_kind

record check =
  c_queries :: "rule list"
  c_kind :: check_kind

section \<open>Well-formed terms\<close>

fun wf_term :: "dterm \<Rightarrow> bool" where
  "wf_term (Set ts) \<longleftrightarrow> strict_sorted ts \<and> (\<forall>t \<in> set ts. wf_term t)"
| "wf_term (Array ts) \<longleftrightarrow> (\<forall>t \<in> set ts. wf_term t)"
| "wf_term (Map m) \<longleftrightarrow> strict_sorted (map fst m) \<and> (\<forall>(k, t) \<in> set m. wf_term t)"
| "wf_term _ \<longleftrightarrow> True"

fun wf_op :: "op \<Rightarrow> bool" where
  "wf_op (Value t) \<longleftrightarrow> wf_term t"
| "wf_op (Closure ps ops) \<longleftrightarrow> (\<forall>p \<in> set ops. wf_op p)"
| "wf_op _ \<longleftrightarrow> True"

definition wf_predicate :: "predicate \<Rightarrow> bool" where
  "wf_predicate p \<longleftrightarrow> (\<forall>t \<in> set (p_terms p). wf_term t)"

definition wf_rule :: "rule \<Rightarrow> bool" where
  "wf_rule r \<longleftrightarrow> wf_predicate (r_head r) \<and> (\<forall>p \<in> set (r_body r). wf_predicate p) \<and>
     (\<forall>e \<in> set (r_expressions r). \<forall>p \<in> set (e_ops e). wf_op p)"

end
