(* ===== verification/Errors.thy ===== *)
theory Errors
  imports Prelude
begin

text \<open>
  The error values of \<open>biscuit-auth/src/error.rs\<close> and of \<open>biscuit-parser/src/error.rs\<close>, one
  constructor per variant.  Where two enums share a variant name the constructor carries the
  name of its enum as a prefix.
\<close>

datatype expr_error =
    UnknownSymbol nat
  | UnknownVariable nat
  | InvalidType
  | Overflow
  | DivideByZero
  | InvalidStack
  | ShadowedVariable
  | UndefinedExtern string
  | ExternEvalError string string

datatype run_limit =
    TooManyFacts
  | TooManyIterations
  | Timeout
  | UnexpectedQueryResult nat nat

datatype execution =
    Execution_RunLimit run_limit
  | Execution_Expression expr_error

datatype signature_error =
    InvalidFormat
  | InvalidSignature string
  | InvalidSignatureGeneration string

datatype format_error =
    Signature_error signature_error
  | SealedSignature
  | EmptyKeys
  | UnknownPublicKey
  | DeserializationError string
  | SerializationError string
  | BlockDeserializationError string
  | BlockSerializationError string
  | Version_error nat nat nat \<comment> \<open>maximum, minimum, actual\<close>
  | InvalidKeySize nat
  | InvalidSignatureSize nat
  | InvalidKey string
  | SignatureDeserializationError string
  | BlockSignatureDeserializationError string
  | InvalidBlockId nat
  | ExistingPublicKey string
  | SymbolTableOverlap
  | PublicKeyTableOverlap
  | UnknownExternalKey
  | Format_UnknownSymbol nat
  | PKCS8 string

record parse_error =
  pe_input :: string
  pe_message :: "string option"

datatype language_error =
    ParseError "parse_error list"
  | Parameters "string list" "string list" \<comment> \<open>missing, unused\<close>

datatype matched_policy = MatchedAllow nat | MatchedDeny nat

record failed_block_check =
  fb_block_id :: nat
  fb_check_id :: nat
  fb_rule :: string

record failed_authorizer_check =
  fa_check_id :: nat
  fa_rule :: string

datatype failed_check =
    FailedCheck_Block failed_block_check
  | FailedCheck_Authorizer failed_authorizer_check

datatype logic_error =
    InvalidBlockRule nat string
  | Unauthorized matched_policy "failed_check list"
  | AuthorizerNotEmpty
  | NoMatchingPolicy "failed_check list"

datatype base64_error =
    InvalidByte nat u8
  | InvalidLength
  | InvalidLastSymbol nat u8

datatype token_error =
    InternalError
  | Token_Format format_error
  | AppendOnSealed
  | AlreadySealed
  | FailedLogic logic_error
  | Token_Language language_error
  | Token_RunLimit run_limit
  | ConversionError string
  | Token_Base64 base64_error
  | Token_Execution expr_error

text \<open>\<open>impl From<Execution> for Token\<close>.\<close>

fun token_of_execution :: "execution \<Rightarrow> token_error" where
  "token_of_execution (Execution_RunLimit limit) = Token_RunLimit limit"
| "token_of_execution (Execution_Expression e) = Token_Execution e"

lemma token_of_execution_inj: "token_of_execution a = token_of_execution b \<longleftrightarrow> a = b"
  by (cases a; cases b) auto

end
