(* ===== verification/Versions.thy ===== *)
theory Versions
  imports Terms Errors
begin

text \<open>
  The schema version of a block (\<open>SchemaVersion\<close> and \<open>get_schema_version\<close> of \<open>datalog/mod.rs\<close>):
  which version its elements need, and whether a declared version allows them.
\<close>

definition MIN_SCHEMA_VERSION :: nat where "MIN_SCHEMA_VERSION = 3"
definition MAX_SCHEMA_VERSION :: nat where "MAX_SCHEMA_VERSION = 6"
definition DATALOG_3_1 :: nat where "DATALOG_3_1 = 4"
definition DATALOG_3_2 :: nat where "DATALOG_3_2 = 5"
definition DATALOG_3_3 :: nat where "DATALOG_3_3 = 6"

lemmas version_numbers =
  MIN_SCHEMA_VERSION_def MAX_SCHEMA_VERSION_def DATALOG_3_1_def DATALOG_3_2_def DATALOG_3_3_def

record schema_version =
  contains_scopes :: bool
  contains_v3_1 :: bool
  contains_check_all :: bool
  contains_v3_3 :: bool

definition schema_version_number :: "schema_version \<Rightarrow> nat" where
  "schema_version_number sv =
     (if contains_v3_3 sv then DATALOG_3_3
      else if contains_scopes sv \<or> contains_v3_1 sv \<or> contains_check_all sv then DATALOG_3_1
      else MIN_SCHEMA_VERSION)"

definition check_compatibility :: "schema_version \<Rightarrow> nat \<Rightarrow> (format_error, unit) outcome" where
  "check_compatibility sv version =
     (if version < DATALOG_3_1 then
        if contains_scopes sv then
          Err (DeserializationError ''scopes are only supported in datalog v3.1+'')
        else if contains_v3_1 sv then
          Err (DeserializationError ''bitwise operators and != are only supported in datalog v3.1+'')
        else if contains_check_all sv then
          Err (DeserializationError ''check all is only supported in datalog v3.1+'')
        else Ok ()
      else if version < DATALOG_3_3 \<and> contains_v3_3 sv then
        Err (DeserializationError ''maps, arrays, null, closures are only supported in datalog v3.3+'')
      else Ok ())"

fun v3_1_op :: "op \<Rightarrow> bool" where
  "v3_1_op (Binary b) = (b \<in> {BitwiseAnd, BitwiseOr, BitwiseXor, NotEqual})"
| "v3_1_op _ = False"

definition contains_v3_1_op :: "expression list \<Rightarrow> bool" where
  "contains_v3_1_op es \<longleftrightarrow> (\<exists>e \<in> set es. \<exists>p \<in> set (e_ops e). v3_1_op p)"

fun contains_v3_3_term :: "dterm \<Rightarrow> bool" where
  "contains_v3_3_term Null = True"
| "contains_v3_3_term (Set s) = (Null \<in> set s)"
| "contains_v3_3_term _ = False"

fun v3_3_unary :: "unary \<Rightarrow> bool" where
  "v3_3_unary TypeOf = True"
| "v3_3_unary (Ffi_unary _) = True"
| "v3_3_unary _ = False"

fun v3_3_binary :: "binary \<Rightarrow> bool" where
  "v3_3_binary HeterogeneousEqual = True"
| "v3_3_binary HeterogeneousNotEqual = True"
| "v3_3_binary LazyAnd = True"
| "v3_3_binary LazyOr = True"
| "v3_3_binary All_op = True"
| "v3_3_binary Any_op = True"
| "v3_3_binary (Ffi _) = True"
| "v3_3_binary _ = False"

fun v3_3_op :: "op \<Rightarrow> bool" where
  "v3_3_op (Value t) = contains_v3_3_term t"
| "v3_3_op (Closure _ _) = True"
| "v3_3_op (Unary u) = v3_3_unary u"
| "v3_3_op (Binary b) = v3_3_binary b"

definition contains_v3_3_op :: "expression list \<Rightarrow> bool" where
  "contains_v3_3_op es \<longleftrightarrow> (\<exists>e \<in> set es. \<exists>p \<in> set (e_ops e). v3_3_op p)"

definition contains_v3_3_predicate :: "predicate \<Rightarrow> bool" where
  "contains_v3_3_predicate p \<longleftrightarrow> (\<exists>t \<in> set (p_terms p). contains_v3_3_term t)"

definition rule_contains_v3_3 :: "rule \<Rightarrow> bool" where
  "rule_contains_v3_3 r \<longleftrightarrow>
     contains_v3_3_predicate (r_head r) \<or> (\<exists>p \<in> set (r_body r). contains_v3_3_predicate p) \<or>
     contains_v3_3_op (r_expressions r)"

definition query_contains_v3_3 :: "rule \<Rightarrow> bool" where
  "query_contains_v3_3 q \<longleftrightarrow>
     (\<exists>p \<in> set (r_body q). contains_v3_3_predicate p) \<or> contains_v3_3_op (r_expressions q)"

definition get_schema_version ::
    "fact list \<Rightarrow> rule list \<Rightarrow> check list \<Rightarrow> scope list \<Rightarrow> schema_version" where
  "get_schema_version facts rules checks scopes =
     (let scoped = (scopes \<noteq> [] \<or> (\<exists>r \<in> set rules. r_scopes r \<noteq> []) \<or>
            (\<exists>c \<in> set checks. \<exists>q \<in> set (c_queries c). r_scopes q \<noteq> []));
          check_all = (\<exists>c \<in> set checks. c_kind c = All_kind);
          reject = (\<exists>c \<in> set checks. c_kind c = Reject_kind);
          v3_1 = ((\<exists>r \<in> set rules. contains_v3_1_op (r_expressions r)) \<or>
            (\<exists>c \<in> set checks. \<exists>q \<in> set (c_queries c). contains_v3_1_op (r_expressions q)));
          v3_3 = (if reject then True
            else (\<exists>r \<in> set rules. rule_contains_v3_3 r) \<or>
              (\<exists>c \<in> set checks. \<exists>q \<in> set (c_queries c). query_contains_v3_3 q));
          v3_3' = (if v3_3 then True else (\<exists>f \<in> set facts. contains_v3_3_predicate (f_predicate f)))
      in \<lparr>contains_scopes = scoped, contains_v3_1 = v3_1, contains_check_all = check_all,
          contains_v3_3 = v3_3'\<rparr>)"

section \<open>Properties\<close>

text \<open>
  C36: at versions from the minimum on, the compatibility check accepts a block exactly from the
  version computed for it on, with one exception: a block that needs v3.3 and uses no feature of
  v3.1 is also accepted at the minimum version, because the v3.3 test is skipped below v3.1.
\<close>

theorem schema_version_least:
  assumes "MIN_SCHEMA_VERSION \<le> v"
  shows "is_ok (check_compatibility sv v) \<longleftrightarrow>
    schema_version_number sv \<le> v \<or>
    (contains_v3_3 sv \<and> v = MIN_SCHEMA_VERSION \<and> \<not> contains_scopes sv \<and> \<not> contains_v3_1 sv \<and>
       \<not> contains_check_all sv)"
  using assms by (auto simp: check_compatibility_def schema_version_number_def version_numbers)

lemma schema_version_least_witness:
  "is_ok (check_compatibility (get_schema_version [] [] [] [Scope_Authority]) 4)"
  using schema_version_least [of 4 "get_schema_version [] [] [] [Scope_Authority]"]
  by (simp add: version_numbers schema_version_number_def get_schema_version_def Let_def)

text \<open>
  the version computed for a block ignores arrays, maps and the operators \<open>get\<close> and \<open>try_or\<close>,
  although the compatibility check's message announces that maps and arrays need v3.3: a block
  whose facts hold only arrays and maps gets the minimum version and is accepted there.
\<close>

theorem collections_escape_version:
  assumes "\<forall>f \<in> set facts. \<forall>t \<in> set (p_terms (f_predicate f)). (\<exists>ts. t = Array ts) \<or> (\<exists>m. t = Map m)"
  shows "schema_version_number (get_schema_version facts [] [] []) = MIN_SCHEMA_VERSION \<and>
    is_ok (check_compatibility (get_schema_version facts [] [] []) MIN_SCHEMA_VERSION) \<and>
    v3_3_op (Binary Get) = False \<and> v3_3_op (Binary TryOr) = False"
proof -
  have "\<not> contains_v3_3_predicate (f_predicate f)" if "f \<in> set facts" for f
    using assms that by (fastforce simp: contains_v3_3_predicate_def)
  then show ?thesis
    by (auto simp: get_schema_version_def schema_version_number_def check_compatibility_def
        version_numbers Let_def)
qed

lemma collections_escape_version_witness:
  "schema_version_number (get_schema_version
     [\<lparr>f_predicate = \<lparr>p_name = 0, p_terms = [Array [Integer 1]]\<rparr>\<rparr>] [] [] []) = 3"
  using collections_escape_version [of "[\<lparr>f_predicate = \<lparr>p_name = 0, p_terms = [Array [Integer 1]]\<rparr>\<rparr>]"]
  by (simp add: version_numbers)

end
