(* ===== verification/Symbols.thy ===== *)
theory Symbols
  imports Errors
begin

text \<open>
  The interning tables: \<open>PublicKeys\<close> (\<open>token/public_keys.rs\<close>), \<open>SymbolTable\<close> and
  \<open>TemporarySymbolTable\<close> (\<open>datalog/symbol.rs\<close>).  The locale \<open>interner\<close> states the contract
  the rest of the engine relies on: an inserted item is found again under the index that was
  returned, an insertion never changes what an existing index denotes, and inserting a known
  item changes nothing.  All three tables are interpretations of it.  Indices are \<open>nat\<close>: a
  \<open>Vec\<close> never holds the \<open>2\<^sup>6\<^sup>4 - 1024\<close> entries that would make \<open>OFFSET + index\<close> wrap.
\<close>

section \<open>The contract of an interning table\<close>

locale interner =
  fixes ins :: "'k \<Rightarrow> 't \<Rightarrow> nat \<times> 't"
    and find :: "'t \<Rightarrow> 'k \<Rightarrow> nat option"
    and lookup :: "'t \<Rightarrow> nat \<Rightarrow> 'k option"
    and invar :: "'t \<Rightarrow> bool"
  assumes lookup_ins: "ins k t = (i, t') \<Longrightarrow> invar t \<Longrightarrow> lookup t' i = Some k"
    and lookup_mono: "ins k t = (i, t') \<Longrightarrow> invar t \<Longrightarrow> lookup t j = Some l \<Longrightarrow> lookup t' j = Some l"
    and invar_ins: "ins k t = (i, t') \<Longrightarrow> invar t \<Longrightarrow> invar t'"
    and ins_known: "find t k = Some i \<Longrightarrow> ins k t = (i, t)"
    and find_lookup: "invar t \<Longrightarrow> find t k = Some i \<longleftrightarrow> lookup t i = Some k"
begin

definition extends :: "'t \<Rightarrow> 't \<Rightarrow> bool" where
  "extends t u \<longleftrightarrow> invar t \<and> invar u \<and> (\<forall>j l. lookup t j = Some l \<longrightarrow> lookup u j = Some l)"

lemma extends_refl: "invar t \<Longrightarrow> extends t t"
  by (simp add: extends_def)

lemma extends_trans: "extends t u \<Longrightarrow> extends u v \<Longrightarrow> extends t v"
  by (simp add: extends_def)

lemma extends_ins: "ins k t = (i, t') \<Longrightarrow> invar t \<Longrightarrow> extends t t'"
  unfolding extends_def using invar_ins lookup_mono by blast

lemma find_ins: "ins k t = (i, t') \<Longrightarrow> invar t \<Longrightarrow> find t' k = Some i"
  using lookup_ins invar_ins find_lookup by blast

lemma ins_idempotent: "ins k t = (i, t') \<Longrightarrow> invar t \<Longrightarrow> ins k t' = (i, t')"
  using find_ins ins_known by blast

lemma ins_injective:
  assumes "ins k t = (i, t')" "ins l t' = (j, t'')" "invar t"
  shows "i = j \<longleftrightarrow> k = l"
proof -
  have "lookup t' i = Some k" "invar t'" using assms lookup_ins invar_ins by blast+
  then have "lookup t'' i = Some k" "lookup t'' j = Some l"
    using assms(2) lookup_mono lookup_ins by blast+
  moreover have "k = l \<Longrightarrow> i = j"
    using ins_idempotent [OF assms(1,3)] assms(2) by auto
  ultimately show ?thesis by auto
qed

text \<open>An index handed out earlier denotes the same item after any run of insertions.\<close>

fun ins_all :: "'k list \<Rightarrow> 't \<Rightarrow> nat list \<times> 't" where
  "ins_all [] t = ([], t)"
| "ins_all (k # ks) t = (case ins k t of (i, u) \<Rightarrow> (case ins_all ks u of (is, v) \<Rightarrow> (i # is, v)))"

lemma ins_all_extends: "invar t \<Longrightarrow> ins_all ks t = (is, u) \<Longrightarrow> extends t u"
proof (induction ks arbitrary: t "is")
  case Nil
  then show ?case by (simp add: extends_refl)
next
  case (Cons k ks)
  obtain i v where step: "ins k t = (i, v)" by force
  obtain js where rest: "ins_all ks v = (js, u)"
    using Cons.prems(2) step by (auto split: prod.splits)
  have tv: "extends t v" using extends_ins [OF step Cons.prems(1)] .
  then have "invar v" by (simp add: extends_def)
  from extends_trans [OF tv Cons.IH [OF this rest]] show ?case .
qed

lemma ins_all_lookup: "invar t \<Longrightarrow> ins_all ks t = (is, u) \<Longrightarrow> map (lookup u) is = map Some ks"
proof (induction ks arbitrary: t "is")
  case Nil
  then show ?case by simp
next
  case (Cons k ks)
  obtain i v where step: "ins k t = (i, v)" by force
  obtain js where rest: "ins_all ks v = (js, u)" and is_eq: "is = i # js"
    using Cons.prems(2) step by (auto split: prod.splits)
  have v: "invar v" using invar_ins step Cons.prems(1) by blast
  have "lookup u i = Some k"
    using ins_all_extends [OF v rest] lookup_ins [OF step Cons.prems(1)] by (simp add: extends_def)
  with Cons.IH [OF v rest] is_eq show ?case by simp
qed

end

section \<open>Public keys\<close>

text \<open>
  \<open>crypto::PublicKey\<close>: the key material belongs to the signature crates and is represented by
  its byte encoding (\<open>to_bytes\<close>), by which those crates compare keys.
\<close>

datatype public_key = Ed25519_key bytes | P256_key bytes

record public_keys =
  pk_keys :: "public_key list"

definition pk_new :: public_keys where
  "pk_new = \<lparr>pk_keys = []\<rparr>"

definition pk_from :: "public_key list \<Rightarrow> public_keys" where
  "pk_from keys = \<lparr>pk_keys = keys\<rparr>"

definition pk_is_disjoint :: "public_keys \<Rightarrow> public_keys \<Rightarrow> bool" where
  "pk_is_disjoint t other \<longleftrightarrow> set (pk_keys t) \<inter> set (pk_keys other) = {}"

definition pk_extend :: "public_keys \<Rightarrow> public_keys \<Rightarrow> (format_error, public_keys) outcome" where
  "pk_extend t other =
     (if \<not> pk_is_disjoint t other then Err PublicKeyTableOverlap
      else Ok (t\<lparr>pk_keys := pk_keys t @ pk_keys other\<rparr>))"

definition pk_insert :: "public_key \<Rightarrow> public_keys \<Rightarrow> nat \<times> public_keys" where
  "pk_insert k t =
     (case position k (pk_keys t) of
        Some index \<Rightarrow> (index, t)
      | None \<Rightarrow> (length (pk_keys t), t\<lparr>pk_keys := pk_keys t @ [k]\<rparr>))"

definition pk_insert_fallible ::
    "public_key \<Rightarrow> public_keys \<Rightarrow> (format_error, nat \<times> public_keys) outcome" where
  "pk_insert_fallible k t =
     (case position k (pk_keys t) of
        Some _ \<Rightarrow> Err PublicKeyTableOverlap
      | None \<Rightarrow> Ok (length (pk_keys t), t\<lparr>pk_keys := pk_keys t @ [k]\<rparr>))"

definition pk_get :: "public_keys \<Rightarrow> public_key \<Rightarrow> nat option" where
  "pk_get t k = position k (pk_keys t)"

definition pk_current_offset :: "public_keys \<Rightarrow> nat" where
  "pk_current_offset t = length (pk_keys t)"

text \<open>\<open>Vec::split_off\<close> panics past the end; the remaining table comes second.\<close>

definition pk_split_at :: "nat \<Rightarrow> public_keys \<Rightarrow> (public_keys \<times> public_keys) option" where
  "pk_split_at n t =
     (if n \<le> length (pk_keys t)
      then Some (\<lparr>pk_keys = drop n (pk_keys t)\<rparr>, t\<lparr>pk_keys := take n (pk_keys t)\<rparr>)
      else None)"

definition pk_get_key :: "public_keys \<Rightarrow> nat \<Rightarrow> public_key option" where
  "pk_get_key t i = nth_opt (pk_keys t) i"

definition pk_wf :: "public_keys \<Rightarrow> bool" where
  "pk_wf t \<longleftrightarrow> distinct (pk_keys t)"

interpretation pk: interner pk_insert pk_get pk_get_key pk_wf
proof unfold_locales
  fix k t i t'
  assume step: "pk_insert k t = (i, t')" and "pk_wf t"
  show "pk_get_key t' i = Some k"
    using step by (auto simp: pk_insert_def pk_get_key_def nth_opt_def
        split: option.splits dest: position_Some_nth)
  show "pk_wf t'"
    using step \<open>pk_wf t\<close> by (auto simp: pk_insert_def pk_wf_def position_None_iff split: option.splits)
  fix j l
  assume "pk_get_key t j = Some l"
  then show "pk_get_key t' j = Some l"
    using step by (auto simp: pk_insert_def pk_get_key_def nth_opt_append_left split: option.splits)
next
  fix t k i
  assume "pk_get t k = Some i"
  then show "pk_insert k t = (i, t)" by (simp add: pk_insert_def pk_get_def)
next
  fix t k i
  assume "pk_wf t"
  then show "pk_get t k = Some i \<longleftrightarrow> pk_get_key t i = Some k"
    by (auto simp: pk_get_def pk_get_key_def pk_wf_def nth_opt_def position_nth_distinct
        dest: position_Some_nth)
qed

section \<open>The symbol table\<close>

record symbol_table =
  st_symbols :: "string list"
  st_public_keys :: public_keys

definition default_symbols :: "string list" where
  "default_symbols =
    [''read'', ''write'', ''resource'', ''operation'', ''right'', ''time'', ''role'', ''owner'',
     ''tenant'', ''namespace'', ''user'', ''team'', ''service'', ''admin'', ''email'', ''group'',
     ''member'', ''ip_address'', ''client'', ''client_ip'', ''domain'', ''path'', ''version'',
     ''cluster'', ''node'', ''hostname'', ''nonce'', ''query'']"

definition symbol_offset :: nat where
  "symbol_offset = 1024"

definition st_new :: symbol_table where
  "st_new = \<lparr>st_symbols = [], st_public_keys = pk_new\<rparr>"

definition st_from :: "string list \<Rightarrow> (format_error, symbol_table) outcome" where
  "st_from symbols =
     (if set default_symbols \<inter> set symbols \<noteq> {} then Err SymbolTableOverlap
      else Ok \<lparr>st_symbols = symbols, st_public_keys = pk_new\<rparr>)"

definition st_from_symbols_and_public_keys ::
    "string list \<Rightarrow> public_key list \<Rightarrow> (format_error, symbol_table) outcome" where
  "st_from_symbols_and_public_keys symbols keys =
     obind (st_from symbols) (\<lambda>table. Ok (table\<lparr>st_public_keys := pk_from keys\<rparr>))"

definition st_is_disjoint :: "symbol_table \<Rightarrow> symbol_table \<Rightarrow> bool" where
  "st_is_disjoint t other \<longleftrightarrow> set (st_symbols t) \<inter> set (st_symbols other) = {}"

definition st_extend :: "symbol_table \<Rightarrow> symbol_table \<Rightarrow> (format_error, symbol_table) outcome" where
  "st_extend t other =
     (if \<not> st_is_disjoint t other then Err SymbolTableOverlap
      else let t' = t\<lparr>st_symbols := st_symbols t @ st_symbols other\<rparr>
           in obind (pk_extend (st_public_keys t') (st_public_keys other))
                (\<lambda>keys. Ok (t'\<lparr>st_public_keys := keys\<rparr>)))"

definition st_insert :: "string \<Rightarrow> symbol_table \<Rightarrow> nat \<times> symbol_table" where
  "st_insert s t =
     (case position s default_symbols of
        Some index \<Rightarrow> (index, t)
      | None \<Rightarrow>
          (case position s (st_symbols t) of
             Some index \<Rightarrow> (symbol_offset + index, t)
           | None \<Rightarrow> (symbol_offset + length (st_symbols t), t\<lparr>st_symbols := st_symbols t @ [s]\<rparr>)))"

definition st_get :: "symbol_table \<Rightarrow> string \<Rightarrow> nat option" where
  "st_get t s =
     (case position s default_symbols of
        Some index \<Rightarrow> Some index
      | None \<Rightarrow> map_option (\<lambda>i. symbol_offset + i) (position s (st_symbols t)))"

definition st_current_offset :: "symbol_table \<Rightarrow> nat" where
  "st_current_offset t = length (st_symbols t)"

definition st_split_at :: "nat \<Rightarrow> symbol_table \<Rightarrow> (symbol_table \<times> symbol_table) option" where
  "st_split_at n t =
     (if n \<le> length (st_symbols t)
      then Some (st_new\<lparr>st_symbols := drop n (st_symbols t)\<rparr>, t\<lparr>st_symbols := take n (st_symbols t)\<rparr>)
      else None)"

definition get_symbol :: "symbol_table \<Rightarrow> nat \<Rightarrow> string option" where
  "get_symbol t i =
     (if i \<ge> symbol_offset then nth_opt (st_symbols t) (i - symbol_offset)
      else nth_opt default_symbols i)"

definition print_symbol :: "symbol_table \<Rightarrow> nat \<Rightarrow> (format_error, string) outcome" where
  "print_symbol t i = ok_or (Format_UnknownSymbol i) (get_symbol t i)"

definition st_wf :: "symbol_table \<Rightarrow> bool" where
  "st_wf t \<longleftrightarrow> distinct (st_symbols t) \<and> set (st_symbols t) \<inter> set default_symbols = {}"

lemma default_symbols_facts:
  "distinct default_symbols" "length default_symbols = 28" "length default_symbols < symbol_offset"
  by (simp_all add: default_symbols_def symbol_offset_def)

lemma get_symbol_offset [simp]: "get_symbol t (symbol_offset + i) = nth_opt (st_symbols t) i"
  by (simp add: get_symbol_def)

lemma get_symbol_default:
  "position s default_symbols = Some i \<Longrightarrow> get_symbol t i = Some s"
  using position_Some_nth [of s default_symbols i] default_symbols_facts(3)
  by (simp add: get_symbol_def nth_opt_def)

lemma st_insert_cases:
  assumes "st_insert s t = (i, t')"
  obtains (known) "st_get t s = Some i" "t' = t"
    | (fresh) "st_get t s = None" "i = symbol_offset + length (st_symbols t)"
        "t' = t\<lparr>st_symbols := st_symbols t @ [s]\<rparr>"
  using assms by (auto simp: st_insert_def st_get_def split: option.splits)

lemma st_get_symbol: "st_get t s = Some i \<Longrightarrow> get_symbol t i = Some s"
  by (auto simp: st_get_def get_symbol_default nth_opt_def split: option.splits dest: position_Some_nth)

lemma get_symbol_append: "get_symbol t i = Some s \<Longrightarrow>
    get_symbol (t\<lparr>st_symbols := st_symbols t @ ys\<rparr>) i = Some s"
  by (auto simp: get_symbol_def nth_opt_append_left split: if_splits)

lemma get_symbol_st_get:
  assumes "st_wf t" "get_symbol t i = Some s"
  shows "st_get t s = Some i"
proof (cases "symbol_offset \<le> i")
  case True
  then have "i - symbol_offset < length (st_symbols t)" "st_symbols t ! (i - symbol_offset) = s"
    using assms(2) by (auto simp: get_symbol_def nth_opt_def split: if_splits)
  then show ?thesis
    using assms(1) True position_nth_distinct [of "st_symbols t" "i - symbol_offset"]
    by (auto simp: st_get_def st_wf_def position_None_iff split: option.splits
        dest!: position_Some_nth nth_mem)
next
  case False
  then have "i < length default_symbols" "default_symbols ! i = s"
    using assms(2) by (auto simp: get_symbol_def nth_opt_def split: if_splits)
  then show ?thesis
    using position_nth_distinct [OF default_symbols_facts(1), of i] by (simp add: st_get_def)
qed

interpretation st: interner st_insert st_get get_symbol st_wf
proof unfold_locales
  fix k t i t'
  assume step: "st_insert k t = (i, t')" and wf: "st_wf t"
  from step show "get_symbol t' i = Some k"
    by (cases rule: st_insert_cases) (auto simp: st_get_symbol)
  from step wf show "st_wf t'"
    by (cases rule: st_insert_cases)
      (auto simp: st_wf_def st_get_def position_None_iff split: option.splits)
  fix j l
  assume "get_symbol t j = Some l"
  with step show "get_symbol t' j = Some l"
    by (cases rule: st_insert_cases) (auto simp: get_symbol_append)
next
  fix t k i
  assume "st_get t k = Some i"
  then show "st_insert k t = (i, t)" by (auto simp: st_insert_def st_get_def split: option.splits)
next
  fix t k i
  assume "st_wf t"
  then show "st_get t k = Some i \<longleftrightarrow> get_symbol t i = Some k"
    using st_get_symbol get_symbol_st_get by blast
qed

lemma st_wf_new [simp]: "st_wf st_new"
  by (simp add: st_wf_def st_new_def)

lemma st_insert_public_keys: "st_insert s t = (i, t') \<Longrightarrow> st_public_keys t' = st_public_keys t"
  by (auto simp: st_insert_def split: option.splits)

section \<open>The temporary symbol table\<close>

text \<open>
  Strings computed while an expression runs are interned above the base table, which stays
  untouched.
\<close>

record tmp_symbols =
  tmp_base :: symbol_table
  tmp_offset :: nat
  tmp_strings :: "string list"

definition tmp_new :: "symbol_table \<Rightarrow> tmp_symbols" where
  "tmp_new base =
     \<lparr>tmp_base = base, tmp_offset = symbol_offset + st_current_offset base, tmp_strings = []\<rparr>"

definition tmp_get_symbol :: "tmp_symbols \<Rightarrow> nat \<Rightarrow> string option" where
  "tmp_get_symbol t i =
     (if i \<ge> tmp_offset t then nth_opt (tmp_strings t) (i - tmp_offset t)
      else get_symbol (tmp_base t) i)"

definition tmp_insert :: "string \<Rightarrow> tmp_symbols \<Rightarrow> nat \<times> tmp_symbols" where
  "tmp_insert s t =
     (case st_get (tmp_base t) s of
        Some index \<Rightarrow> (index, t)
      | None \<Rightarrow>
          (case position s (tmp_strings t) of
             Some index \<Rightarrow> (tmp_offset t + index, t)
           | None \<Rightarrow> (tmp_offset t + length (tmp_strings t), t\<lparr>tmp_strings := tmp_strings t @ [s]\<rparr>)))"

definition tmp_find :: "tmp_symbols \<Rightarrow> string \<Rightarrow> nat option" where
  "tmp_find t s =
     (case st_get (tmp_base t) s of
        Some index \<Rightarrow> Some index
      | None \<Rightarrow> map_option (\<lambda>i. tmp_offset t + i) (position s (tmp_strings t)))"

definition tmp_wf :: "tmp_symbols \<Rightarrow> bool" where
  "tmp_wf t \<longleftrightarrow> st_wf (tmp_base t) \<and> tmp_offset t = symbol_offset + length (st_symbols (tmp_base t)) \<and>
     distinct (tmp_strings t) \<and> (\<forall>s \<in> set (tmp_strings t). st_get (tmp_base t) s = None)"

lemma st_get_bound: "st_get t s = Some i \<Longrightarrow> i < symbol_offset + length (st_symbols t)"
  using default_symbols_facts(3)
  by (auto simp: st_get_def split: option.splits dest!: position_Some_nth)

lemma tmp_get_symbol_base:
  "tmp_wf t \<Longrightarrow> st_get (tmp_base t) s = Some i \<Longrightarrow> tmp_get_symbol t i = Some s"
  using st_get_bound [of "tmp_base t" s i] by (auto simp: tmp_get_symbol_def tmp_wf_def st_get_symbol)

lemma tmp_insert_cases:
  assumes "tmp_insert s t = (i, t')"
  obtains (known) "tmp_find t s = Some i" "t' = t"
    | (fresh) "tmp_find t s = None" "i = tmp_offset t + length (tmp_strings t)"
        "t' = t\<lparr>tmp_strings := tmp_strings t @ [s]\<rparr>"
proof (cases "tmp_find t s")
  case None
  with assms show thesis by (intro fresh) (simp_all add: tmp_insert_def tmp_find_def split: option.splits)
next
  case (Some j)
  with assms show thesis by (intro known) (auto simp add: tmp_insert_def tmp_find_def split: option.splits)
qed

lemma tmp_find_lookup:
  assumes "tmp_wf t"
  shows "tmp_find t s = Some i \<longleftrightarrow> tmp_get_symbol t i = Some s"
proof
  assume found: "tmp_find t s = Some i"
  show "tmp_get_symbol t i = Some s"
  proof (cases "st_get (tmp_base t) s")
    case None
    then show ?thesis using found
      by (auto simp: tmp_find_def tmp_get_symbol_def nth_opt_def dest: position_Some_nth)
  next
    case (Some j)
    then have "i = j" using found by (simp add: tmp_find_def)
    with Some tmp_get_symbol_base [OF assms] show ?thesis by blast
  qed
next
  assume found: "tmp_get_symbol t i = Some s"
  show "tmp_find t s = Some i"
  proof (cases "tmp_offset t \<le> i")
    case True
    then have i: "i - tmp_offset t < length (tmp_strings t)" "tmp_strings t ! (i - tmp_offset t) = s"
      using found by (auto simp: tmp_get_symbol_def nth_opt_def split: if_splits)
    then have "st_get (tmp_base t) s = None"
      using assms by (auto simp: tmp_wf_def)
    then show ?thesis
      using i True assms position_nth_distinct [of "tmp_strings t" "i - tmp_offset t"]
      by (simp add: tmp_find_def tmp_wf_def)
  next
    case False
    then have "st_get (tmp_base t) s = Some i"
      using found assms by (auto simp: tmp_get_symbol_def tmp_wf_def get_symbol_st_get)
    then show ?thesis by (simp add: tmp_find_def)
  qed
qed

interpretation tmp: interner tmp_insert tmp_find tmp_get_symbol tmp_wf
proof unfold_locales
  fix k t i t'
  assume step: "tmp_insert k t = (i, t')" and wf: "tmp_wf t"
  from step wf show wf': "tmp_wf t'"
    by (cases rule: tmp_insert_cases)
      (auto simp: tmp_wf_def tmp_find_def position_None_iff split: option.splits)
  from step wf show "tmp_get_symbol t' i = Some k"
    by (cases rule: tmp_insert_cases) (auto simp: tmp_find_lookup tmp_get_symbol_def)
  fix j l
  assume "tmp_get_symbol t j = Some l"
  with step show "tmp_get_symbol t' j = Some l"
    by (cases rule: tmp_insert_cases)
      (auto simp: tmp_get_symbol_def nth_opt_append_left split: if_splits)
next
  fix t k i
  assume "tmp_find t k = Some i"
  then show "tmp_insert k t = (i, t)" by (auto simp: tmp_insert_def tmp_find_def split: option.splits)
next
  fix t k i
  assume "tmp_wf t"
  then show "tmp_find t k = Some i \<longleftrightarrow> tmp_get_symbol t i = Some k" by (rule tmp_find_lookup)
qed

lemma tmp_wf_new: "st_wf t \<Longrightarrow> tmp_wf (tmp_new t)"
  by (simp add: tmp_wf_def tmp_new_def st_current_offset_def)

lemma tmp_insert_base: "tmp_insert s t = (i, t') \<Longrightarrow> tmp_base t' = tmp_base t"
  by (auto simp: tmp_insert_def split: option.splits)

lemma tmp_new_lookup: "get_symbol t i = Some s \<Longrightarrow> tmp_get_symbol (tmp_new t) i = Some s"
  by (auto simp: tmp_get_symbol_def tmp_new_def st_current_offset_def get_symbol_def nth_opt_def
      split: if_splits)

end
