(* ===== verification/Printing.thy ===== *)
theory Printing
  imports Symbols Terms
begin

text \<open>
  The printing methods of \<open>SymbolTable\<close> (\<open>datalog/symbol.rs\<close>) and of the operators
  (\<open>datalog/expression.rs\<close>): the strings that failed checks carry.  The formatting of dates
  (crate \<open>time\<close>, \<open>None\<close> for a timestamp out of its range), of bytes (crate \<open>hex\<close>) and the
  derived \<open>Debug\<close> of an operation list are parameters.
\<close>

record formats =
  fmt_date :: "nat \<Rightarrow> string option"
  fmt_hex :: "bytes \<Rightarrow> string"
  fmt_debug_ops :: "op list \<Rightarrow> string"

section \<open>Numbers and joins\<close>

definition digit :: "nat \<Rightarrow> string" where
  "digit d = [char_of (48 + d mod 10)]"

fun string_of_nat :: "nat \<Rightarrow> string" where
  "string_of_nat i = (if i \<ge> 10 then string_of_nat (i div 10) else []) @ digit i"

declare string_of_nat.simps [simp del]

definition string_of_int :: "int \<Rightarrow> string" where
  "string_of_int i = (if i < 0 then ''-'' @ string_of_nat (nat (- i)) else string_of_nat (nat i))"

fun join :: "string \<Rightarrow> string list \<Rightarrow> string" where
  "join sep [] = []"
| "join sep [s] = s"
| "join sep (s # t # ss) = s @ sep @ join sep (t # ss)"

section \<open>Symbols, keys and terms\<close>

definition print_symbol_default :: "symbol_table \<Rightarrow> nat \<Rightarrow> string" where
  "print_symbol_default symbols i =
     (case get_symbol symbols i of Some s \<Rightarrow> s | None \<Rightarrow> ''<'' @ string_of_nat i @ ''?>'')"

fun print_public_key :: "formats \<Rightarrow> public_key \<Rightarrow> string" where
  "print_public_key fmt (Ed25519_key k) = ''ed25519/'' @ fmt_hex fmt k"
| "print_public_key fmt (P256_key k) = ''secp256r1/'' @ fmt_hex fmt k"

definition quoted :: "string \<Rightarrow> string" where
  "quoted s = [char_of (34 :: nat)] @ s @ [char_of (34 :: nat)]"

fun print_key :: "symbol_table \<Rightarrow> map_key \<Rightarrow> string" where
  "print_key symbols (KInteger i) = string_of_int (sint i)"
| "print_key symbols (KStr s) = quoted (print_symbol_default symbols s)"

fun print_term :: "formats \<Rightarrow> symbol_table \<Rightarrow> dterm \<Rightarrow> string" where
  "print_term fmt symbols (Variable i) = ''$'' @ print_symbol_default symbols i"
| "print_term fmt symbols (Integer i) = string_of_int (sint i)"
| "print_term fmt symbols (Str s) = quoted (print_symbol_default symbols s)"
| "print_term fmt symbols (Date d) =
     (case fmt_date fmt d of Some s \<Rightarrow> s | None \<Rightarrow> ''<invalid date>'')"
| "print_term fmt symbols (Bytes b) = ''hex:'' @ fmt_hex fmt b"
| "print_term fmt symbols (Bool b) = (if b then ''true'' else ''false'')"
| "print_term fmt symbols (Set s) =
     (if s = [] then ''{,}''
      else ''{'' @ join '', '' (map (print_term fmt symbols) s) @ ''}'')"
| "print_term fmt symbols Null = ''null''"
| "print_term fmt symbols (Array a) = ''['' @ join '', '' (map (print_term fmt symbols) a) @ '']''"
| "print_term fmt symbols (Map m) =
     ''{'' @ join '', '' (map (\<lambda>(k, t). print_key symbols k @ '': '' @ print_term fmt symbols t) m) @ ''}''"

definition print_predicate :: "formats \<Rightarrow> symbol_table \<Rightarrow> predicate \<Rightarrow> string" where
  "print_predicate fmt symbols p =
     (case get_symbol symbols (p_name p) of Some s \<Rightarrow> s | None \<Rightarrow> ''<?>'') @ ''('' @
     join '', '' (map (print_term fmt symbols) (p_terms p)) @ '')''"

definition print_fact :: "formats \<Rightarrow> symbol_table \<Rightarrow> fact \<Rightarrow> string" where
  "print_fact fmt symbols f = print_predicate fmt symbols (f_predicate f)"

section \<open>Expressions\<close>

fun print_unary :: "symbol_table \<Rightarrow> unary \<Rightarrow> string \<Rightarrow> string" where
  "print_unary symbols Negate v = ''!'' @ v"
| "print_unary symbols Parens v = ''('' @ v @ '')''"
| "print_unary symbols Length v = v @ ''.length()''"
| "print_unary symbols TypeOf v = v @ ''.type()''"
| "print_unary symbols (Ffi_unary f) v = v @ ''.extern::'' @ print_symbol_default symbols f @ ''()''"

definition print_infix :: "string \<Rightarrow> string \<Rightarrow> string \<Rightarrow> string" where
  "print_infix s l r = l @ '' '' @ s @ '' '' @ r"

definition print_method :: "string \<Rightarrow> string \<Rightarrow> string \<Rightarrow> string" where
  "print_method s l r = l @ ''.'' @ s @ ''('' @ r @ '')''"

fun print_binary :: "symbol_table \<Rightarrow> binary \<Rightarrow> string \<Rightarrow> string \<Rightarrow> string" where
  "print_binary symbols LessThan l r = print_infix ''<'' l r"
| "print_binary symbols GreaterThan l r = print_infix ''>'' l r"
| "print_binary symbols LessOrEqual l r = print_infix ''<='' l r"
| "print_binary symbols GreaterOrEqual l r = print_infix ''>='' l r"
| "print_binary symbols Equal l r = print_infix ''==='' l r"
| "print_binary symbols HeterogeneousEqual l r = print_infix ''=='' l r"
| "print_binary symbols NotEqual l r = print_infix ''!=='' l r"
| "print_binary symbols HeterogeneousNotEqual l r = print_infix ''!='' l r"
| "print_binary symbols Contains l r = print_method ''contains'' l r"
| "print_binary symbols Prefix l r = print_method ''starts_with'' l r"
| "print_binary symbols Suffix l r = print_method ''ends_with'' l r"
| "print_binary symbols Regex l r = print_method ''matches'' l r"
| "print_binary symbols Add l r = print_infix ''+'' l r"
| "print_binary symbols Sub l r = print_infix ''-'' l r"
| "print_binary symbols Mul l r = print_infix ''*'' l r"
| "print_binary symbols Div l r = print_infix ''/'' l r"
| "print_binary symbols And_op l r = print_infix ''&&!'' l r"
| "print_binary symbols Or_op l r = print_infix ''||!'' l r"
| "print_binary symbols Intersection l r = print_method ''intersection'' l r"
| "print_binary symbols Union_op l r = print_method ''union'' l r"
| "print_binary symbols BitwiseAnd l r = print_infix ''&'' l r"
| "print_binary symbols BitwiseOr l r = print_infix ''|'' l r"
| "print_binary symbols BitwiseXor l r = print_infix ''^'' l r"
| "print_binary symbols LazyAnd l r = print_infix ''&&'' l r"
| "print_binary symbols LazyOr l r = print_infix ''||'' l r"
| "print_binary symbols All_op l r = print_method ''all'' l r"
| "print_binary symbols Any_op l r = print_method ''any'' l r"
| "print_binary symbols Get l r = print_method ''get'' l r"
| "print_binary symbols (Ffi f) l r = print_method (''extern::'' @ print_symbol_default symbols f) l r"
| "print_binary symbols TryOr l r = print_method ''try_or'' l r"

text \<open>\<open>Expression::print\<close>: the stack of printed operands; \<open>None\<close> on an unbalanced expression.\<close>

fun print_ops :: "formats \<Rightarrow> symbol_table \<Rightarrow> op list \<Rightarrow> string list \<Rightarrow> string option" where
  "print_ops fmt symbols [] stack = (case stack of [s] \<Rightarrow> Some s | _ \<Rightarrow> None)"
| "print_ops fmt symbols (Value t # ops) stack =
     print_ops fmt symbols ops (print_term fmt symbols t # stack)"
| "print_ops fmt symbols (Unary u # ops) stack =
     (case stack of
        [] \<Rightarrow> None
      | s # stack \<Rightarrow> print_ops fmt symbols ops (print_unary symbols u s # stack))"
| "print_ops fmt symbols (Binary b # ops) stack =
     (case stack of
        r # l # stack \<Rightarrow> print_ops fmt symbols ops (print_binary symbols b l r # stack)
      | _ \<Rightarrow> None)"
| "print_ops fmt symbols (Closure ps body # ops) stack =
     (case print_ops fmt symbols body [] of
        None \<Rightarrow> None
      | Some s \<Rightarrow>
          print_ops fmt symbols ops
            ((if ps = [] then s
              else join '', '' (map (\<lambda>p. print_term fmt symbols (Variable p)) ps) @ '' -> '' @ s) # stack))"

definition print_expression :: "formats \<Rightarrow> symbol_table \<Rightarrow> expression \<Rightarrow> string" where
  "print_expression fmt symbols e =
     (case print_ops fmt symbols (e_ops e) [] of
        Some s \<Rightarrow> s
      | None \<Rightarrow> ''<invalid expression: '' @ fmt_debug_ops fmt (e_ops e) @ ''>'')"

section \<open>Rules and checks\<close>

definition print_scope :: "formats \<Rightarrow> symbol_table \<Rightarrow> scope \<Rightarrow> string" where
  "print_scope fmt symbols s =
     (case s of
        Scope_Authority \<Rightarrow> ''authority''
      | Scope_Previous \<Rightarrow> ''previous''
      | Scope_PublicKey k \<Rightarrow>
          (case pk_get_key (st_public_keys symbols) k of
             Some key \<Rightarrow> print_public_key fmt key
           | None \<Rightarrow> ''<unknown public key id>''))"

definition print_rule_body :: "formats \<Rightarrow> symbol_table \<Rightarrow> rule \<Rightarrow> string" where
  "print_rule_body fmt symbols r =
     (let preds = map (print_predicate fmt symbols) (r_body r);
          exprs = map (print_expression fmt symbols) (r_expressions r);
          e = (if exprs = [] then ''''
               else if preds = [] then join '', '' exprs
               else '', '' @ join '', '' exprs);
          scopes = (if r_scopes r = [] then ''''
                    else '' trusting '' @ join '', '' (map (print_scope fmt symbols) (r_scopes r)))
      in join '', '' preds @ e @ scopes)"

definition print_rule :: "formats \<Rightarrow> symbol_table \<Rightarrow> rule \<Rightarrow> string" where
  "print_rule fmt symbols r =
     print_predicate fmt symbols (r_head r) @ '' <- '' @ print_rule_body fmt symbols r"

definition print_check :: "formats \<Rightarrow> symbol_table \<Rightarrow> check \<Rightarrow> string" where
  "print_check fmt symbols c =
     (case c_kind c of
        One_kind \<Rightarrow> ''check if''
      | All_kind \<Rightarrow> ''check all''
      | Reject_kind \<Rightarrow> ''reject if'') @ '' '' @
     join '' or '' (map (print_rule_body fmt symbols) (c_queries c))"

end
