(* ===== verification/Schema.thy ===== *)
theory Schema
  imports Prelude
begin

text \<open>
  The messages of the wire format (\<open>biscuit-auth/src/format/schema.rs\<close>).  A message whose only
  field is an optional \<open>oneof\<close> is the datatype of the \<open>oneof\<close> with one more constructor for its
  absence; a message with a single repeated field is that list.  \<open>i32\<close> enumeration fields are
  \<open>int\<close>: a decoded message may hold a number that is no variant.  The bytes themselves are
  produced and parsed by the crate \<open>prost\<close>; here a message is a value.
\<close>

section \<open>Keys and signed blocks\<close>

datatype algorithm = Ed25519 | Secp256r1

text \<open>\<open>algorithm as i32\<close>.\<close>

fun algorithm_tag :: "algorithm \<Rightarrow> int" where
  "algorithm_tag Ed25519 = 0"
| "algorithm_tag Secp256r1 = 1"

record ppublic_key =
  ppk_algorithm :: int
  ppk_key :: bytes

record pexternal_signature =
  pes_signature :: bytes
  pes_public_key :: ppublic_key

record psigned_block =
  psb_block :: bytes
  psb_next_key :: ppublic_key
  psb_signature :: bytes
  psb_external_signature :: "pexternal_signature option"
  psb_version :: "nat option"

datatype pproof = Proof_Empty | Next_Secret bytes | Final_Signature bytes

record pbiscuit =
  pbi_root_key_id :: "nat option"
  pbi_authority :: psigned_block
  pbi_blocks :: "psigned_block list"
  pbi_proof :: pproof

section \<open>Terms\<close>

datatype pmap_key = Key_Empty | Key_Integer i64 | Key_String nat

datatype pterm =
    Term_Empty
  | Term_Variable nat
  | Term_Integer i64
  | Term_String nat
  | Term_Date nat
  | Term_Bytes bytes
  | Term_Bool bool
  | Term_Set "pterm list"
  | Term_Null
  | Term_Array "pterm list"
  | Term_Map "(pmap_key \<times> pterm) list"

record ppredicate =
  pp_name :: nat
  pp_terms :: "pterm list"

record pfact =
  pf_predicate :: ppredicate

section \<open>Operations\<close>

datatype unary_kind = UK_Negate | UK_Parens | UK_Length | UK_TypeOf | UK_Ffi

datatype binary_kind =
    BK_LessThan | BK_GreaterThan | BK_LessOrEqual | BK_GreaterOrEqual | BK_Equal | BK_Contains
  | BK_Prefix | BK_Suffix | BK_Regex | BK_Add | BK_Sub | BK_Mul | BK_Div | BK_And | BK_Or
  | BK_Intersection | BK_Union | BK_BitwiseAnd | BK_BitwiseOr | BK_BitwiseXor | BK_NotEqual
  | BK_HeterogeneousEqual | BK_HeterogeneousNotEqual | BK_LazyAnd | BK_LazyOr | BK_All | BK_Any
  | BK_Get | BK_Ffi | BK_TryOr

text \<open>The variants in the order of their numbers, which start at 0.\<close>

definition unary_kinds :: "unary_kind list" where
  "unary_kinds = [UK_Negate, UK_Parens, UK_Length, UK_TypeOf, UK_Ffi]"

definition binary_kinds :: "binary_kind list" where
  "binary_kinds =
     [BK_LessThan, BK_GreaterThan, BK_LessOrEqual, BK_GreaterOrEqual, BK_Equal, BK_Contains,
      BK_Prefix, BK_Suffix, BK_Regex, BK_Add, BK_Sub, BK_Mul, BK_Div, BK_And, BK_Or,
      BK_Intersection, BK_Union, BK_BitwiseAnd, BK_BitwiseOr, BK_BitwiseXor, BK_NotEqual,
      BK_HeterogeneousEqual, BK_HeterogeneousNotEqual, BK_LazyAnd, BK_LazyOr, BK_All, BK_Any,
      BK_Get, BK_Ffi, BK_TryOr]"

text \<open>\<open>kind as i32\<close> and the derived \<open>from_i32\<close>.\<close>

definition tag_in :: "'k list \<Rightarrow> 'k \<Rightarrow> int" where
  "tag_in kinds k = (case position k kinds of Some i \<Rightarrow> int i | None \<Rightarrow> int (length kinds))"

definition of_tag_in :: "'k list \<Rightarrow> int \<Rightarrow> 'k option" where
  "of_tag_in kinds i = (if 0 \<le> i then nth_opt kinds (nat i) else None)"

lemma of_tag_tag: "k \<in> set kinds \<Longrightarrow> of_tag_in kinds (tag_in kinds k) = Some k"
  using position_Some_nth [of k kinds] position_None_iff [of k kinds]
  by (auto simp: tag_in_def of_tag_in_def nth_opt_def split: option.splits)

lemma of_tag_unary [simp]: "of_tag_in unary_kinds (tag_in unary_kinds k) = Some k"
  by (rule of_tag_tag) (cases k; simp add: unary_kinds_def)

lemma of_tag_binary [simp]: "of_tag_in binary_kinds (tag_in binary_kinds k) = Some k"
  by (rule of_tag_tag) (cases k; simp add: binary_kinds_def)

record pop_unary =
  pu_kind :: int
  pu_ffi_name :: "nat option"

record pop_binary =
  pb_kind :: int
  pb_ffi_name :: "nat option"

datatype pop = Op_Empty | Op_Value pterm | Op_Unary pop_unary | Op_Binary pop_binary | Op_Closure "nat list" "pop list"

record pexpression =
  pe_ops :: "pop list"

section \<open>Rules, checks and policies\<close>

datatype pscope = Scope_Empty | Scope_Type int | Scope_Key i64

datatype scope_type = ST_Authority | ST_Previous

fun scope_type_tag :: "scope_type \<Rightarrow> int" where
  "scope_type_tag ST_Authority = 0"
| "scope_type_tag ST_Previous = 1"

record prule =
  pr_head :: ppredicate
  pr_body :: "ppredicate list"
  pr_expressions :: "pexpression list"
  pr_scope :: "pscope list"

datatype pcheck_kind = CK_One | CK_All | CK_Reject

fun check_kind_tag :: "pcheck_kind \<Rightarrow> int" where
  "check_kind_tag CK_One = 0"
| "check_kind_tag CK_All = 1"
| "check_kind_tag CK_Reject = 2"

record pcheck =
  pc_queries :: "prule list"
  pc_kind :: "int option"

datatype ppolicy_kind = PK_Allow | PK_Deny

definition policy_kinds :: "ppolicy_kind list" where
  "policy_kinds = [PK_Allow, PK_Deny]"

record ppolicy =
  ppo_queries :: "prule list"
  ppo_kind :: int

section \<open>Blocks\<close>

record pblock =
  pbl_symbols :: "string list"
  pbl_context :: "string option"
  pbl_version :: "nat option"
  pbl_facts :: "pfact list"
  pbl_rules :: "prule list"
  pbl_checks :: "pcheck list"
  pbl_scope :: "pscope list"
  pbl_public_keys :: "ppublic_key list"

record psnapshot_block =
  psn_context :: "string option"
  psn_version :: "nat option"
  psn_facts :: "pfact list"
  psn_rules :: "prule list"
  psn_checks :: "pcheck list"
  psn_scope :: "pscope list"
  psn_external_key :: "ppublic_key option"

record pthird_party_request =
  ptr_legacy_previous_key :: "ppublic_key option"
  ptr_legacy_public_keys :: "ppublic_key list"
  ptr_previous_signature :: bytes

record pthird_party_contents =
  ptc_payload :: bytes
  ptc_external_signature :: pexternal_signature

section \<open>Authorizers\<close>

record pauthorizer_policies =
  pap_symbols :: "string list"
  pap_version :: "nat option"
  pap_facts :: "pfact list"
  pap_rules :: "prule list"
  pap_checks :: "pcheck list"
  pap_policies :: "ppolicy list"

record prun_limits =
  prl_max_facts :: nat
  prl_max_iterations :: nat
  prl_max_time :: nat

datatype porigin = Origin_Empty | Origin_Authorizer | Origin_Block nat

record pgenerated_facts =
  pgf_origins :: "porigin list"
  pgf_facts :: "pfact list"

record pauthorizer_world =
  paw_version :: "nat option"
  paw_symbols :: "string list"
  paw_public_keys :: "ppublic_key list"
  paw_blocks :: "psnapshot_block list"
  paw_authorizer_block :: psnapshot_block
  paw_authorizer_policies :: "ppolicy list"
  paw_generated_facts :: "pgenerated_facts list"
  paw_iterations :: nat

record pauthorizer_snapshot =
  pas_limits :: prun_limits
  pas_execution_time :: nat
  pas_world :: pauthorizer_world

end
