(* ===== verification/Keys.thy ===== *)
theory Keys
  imports Printing Schema Errors
begin

text \<open>
  Keys and signatures (\<open>biscuit-auth/src/crypto/{mod,ed25519,p256}.rs\<close>).  The signature schemes
  themselves belong to the crates \<open>ed25519-dalek\<close> and \<open>p256\<close>: they are the fields of the record
  \<open>primitives\<close>, over byte encodings.  \<open>primitives_ok\<close> states what their documentation promises
  and the library relies on: a decoded key encodes to a key that decodes to itself (on 32 bytes
  for Ed25519, 33 for a compressed P-256 point), and a
  signature made with a secret verifies under its public key.
\<close>

section \<open>The signature crates\<close>

record primitives =
  ed_verifying_key :: "bytes \<Rightarrow> (string, bytes) outcome"
    \<comment> \<open>\<open>VerifyingKey::from_bytes\<close> on 32 bytes, answering the encoding of the key\<close>
  ed_public :: "bytes \<Rightarrow> bytes"
    \<comment> \<open>the encoding of the verifying key of a 32-byte secret\<close>
  ed_sign :: "bytes \<Rightarrow> bytes \<Rightarrow> (string, bytes) outcome"
  ed_verify :: "bytes \<Rightarrow> bytes \<Rightarrow> bytes \<Rightarrow> (string, unit) outcome"
    \<comment> \<open>\<open>verify_strict\<close>: key, data, 64-byte signature\<close>
  p256_verifying_key :: "bytes \<Rightarrow> (string, bytes) outcome"
    \<comment> \<open>\<open>from_sec1_bytes\<close>, answering the compressed encoding of the point\<close>
  p256_signing_key :: "bytes \<Rightarrow> (string, bytes) outcome"
    \<comment> \<open>\<open>SigningKey::from_bytes\<close> on 32 bytes, answering the encoding of the scalar\<close>
  p256_public :: "bytes \<Rightarrow> bytes"
  p256_sign :: "bytes \<Rightarrow> bytes \<Rightarrow> (string, bytes) outcome"
    \<comment> \<open>the DER encoding of the signature\<close>
  p256_from_der :: "bytes \<Rightarrow> (string, bytes) outcome"
    \<comment> \<open>\<open>Signature::from_der\<close>\<close>
  p256_verify :: "bytes \<Rightarrow> bytes \<Rightarrow> bytes \<Rightarrow> (string, unit) outcome"
    \<comment> \<open>key, data, decoded signature\<close>
  debug_bytes :: "bytes \<Rightarrow> string"
    \<comment> \<open>the derived \<open>Debug\<close> of a byte vector, used in an error message\<close>

section \<open>Keys\<close>

datatype private_key = Ed25519_private bytes | P256_private bytes

text \<open>A key pair is a signing key, of which \<open>private\<close> and \<open>from\<close> only change the wrapper.\<close>

datatype keypair = Ed25519_pair bytes | P256_pair bytes

fun keypair_from :: "private_key \<Rightarrow> keypair" where
  "keypair_from (Ed25519_private s) = Ed25519_pair s"
| "keypair_from (P256_private s) = P256_pair s"

fun keypair_private :: "keypair \<Rightarrow> private_key" where
  "keypair_private (Ed25519_pair s) = Ed25519_private s"
| "keypair_private (P256_pair s) = P256_private s"

fun keypair_public :: "primitives \<Rightarrow> keypair \<Rightarrow> public_key" where
  "keypair_public p (Ed25519_pair s) = Ed25519_key (ed_public p s)"
| "keypair_public p (P256_pair s) = P256_key (p256_public p s)"

fun private_public :: "primitives \<Rightarrow> private_key \<Rightarrow> public_key" where
  "private_public p (Ed25519_private s) = Ed25519_key (ed_public p s)"
| "private_public p (P256_private s) = P256_key (p256_public p s)"

fun keypair_algorithm :: "keypair \<Rightarrow> algorithm" where
  "keypair_algorithm (Ed25519_pair _) = Ed25519"
| "keypair_algorithm (P256_pair _) = Secp256r1"

fun private_algorithm :: "private_key \<Rightarrow> algorithm" where
  "private_algorithm (Ed25519_private _) = Ed25519"
| "private_algorithm (P256_private _) = Secp256r1"

fun public_algorithm :: "public_key \<Rightarrow> algorithm" where
  "public_algorithm (Ed25519_key _) = Ed25519"
| "public_algorithm (P256_key _) = Secp256r1"

fun public_to_bytes :: "public_key \<Rightarrow> bytes" where
  "public_to_bytes (Ed25519_key k) = k"
| "public_to_bytes (P256_key k) = k"

fun private_to_bytes :: "private_key \<Rightarrow> bytes" where
  "private_to_bytes (Ed25519_private s) = s"
| "private_to_bytes (P256_private s) = s"

section \<open>Decoding keys\<close>

definition ed_public_from_bytes :: "primitives \<Rightarrow> bytes \<Rightarrow> (format_error, bytes) outcome" where
  "ed_public_from_bytes p bs =
     (if length bs \<noteq> 32 then Err (InvalidKeySize (length bs))
      else omap_err InvalidKey (ed_verifying_key p bs))"

definition p256_public_from_bytes :: "primitives \<Rightarrow> bytes \<Rightarrow> (format_error, bytes) outcome" where
  "p256_public_from_bytes p bs = omap_err InvalidKey (p256_verifying_key p bs)"

definition ed_private_from_bytes :: "bytes \<Rightarrow> (format_error, bytes) outcome" where
  "ed_private_from_bytes bs = (if length bs \<noteq> 32 then Err (InvalidKeySize (length bs)) else Ok bs)"

definition p256_private_from_bytes :: "primitives \<Rightarrow> bytes \<Rightarrow> (format_error, bytes) outcome" where
  "p256_private_from_bytes p bs =
     (if length bs \<noteq> 32 then Err (InvalidKeySize (length bs))
      else omap_err InvalidKey (p256_signing_key p bs))"

fun public_from_bytes :: "primitives \<Rightarrow> bytes \<Rightarrow> algorithm \<Rightarrow> (format_error, public_key) outcome" where
  "public_from_bytes p bs Ed25519 = obind (ed_public_from_bytes p bs) (\<lambda>k. Ok (Ed25519_key k))"
| "public_from_bytes p bs Secp256r1 = obind (p256_public_from_bytes p bs) (\<lambda>k. Ok (P256_key k))"

fun private_from_bytes :: "primitives \<Rightarrow> bytes \<Rightarrow> algorithm \<Rightarrow> (format_error, private_key) outcome" where
  "private_from_bytes p bs Ed25519 = obind (ed_private_from_bytes bs) (\<lambda>s. Ok (Ed25519_private s))"
| "private_from_bytes p bs Secp256r1 = obind (p256_private_from_bytes p bs) (\<lambda>s. Ok (P256_private s))"

fun keypair_from_bytes :: "primitives \<Rightarrow> bytes \<Rightarrow> algorithm \<Rightarrow> (format_error, keypair) outcome" where
  "keypair_from_bytes p bs Ed25519 = obind (ed_private_from_bytes bs) (\<lambda>s. Ok (Ed25519_pair s))"
| "keypair_from_bytes p bs Secp256r1 = obind (p256_private_from_bytes p bs) (\<lambda>s. Ok (P256_pair s))"

definition public_from_proto :: "primitives \<Rightarrow> ppublic_key \<Rightarrow> (format_error, public_key) outcome" where
  "public_from_proto p key =
     (if ppk_algorithm key = algorithm_tag Ed25519 then
        obind (ed_public_from_bytes p (ppk_key key)) (\<lambda>k. Ok (Ed25519_key k))
      else if ppk_algorithm key = algorithm_tag Secp256r1 then
        obind (p256_public_from_bytes p (ppk_key key)) (\<lambda>k. Ok (P256_key k))
      else Err (DeserializationError
        (''deserialization error: unexpected key algorithm '' @ string_of_int (ppk_algorithm key))))"

definition public_to_proto :: "public_key \<Rightarrow> ppublic_key" where
  "public_to_proto k = \<lparr>ppk_algorithm = algorithm_tag (public_algorithm k), ppk_key = public_to_bytes k\<rparr>"

section \<open>Signing and verifying\<close>

definition signature_failed :: "string \<Rightarrow> format_error" where
  "signature_failed s = Signature_error (InvalidSignatureGeneration s)"

fun keypair_sign :: "primitives \<Rightarrow> keypair \<Rightarrow> bytes \<Rightarrow> (format_error, bytes) outcome" where
  "keypair_sign p (Ed25519_pair s) data = omap_err signature_failed (ed_sign p s data)"
| "keypair_sign p (P256_pair s) data = omap_err signature_failed (p256_sign p s data)"

definition bad_signature_bytes :: "string \<Rightarrow> format_error" where
  "bad_signature_bytes s =
     BlockSignatureDeserializationError (''block signature deserialization error: '' @ s)"

definition verification_failed :: "string \<Rightarrow> format_error" where
  "verification_failed s = Signature_error (InvalidSignature s)"

fun verify_signature :: "primitives \<Rightarrow> public_key \<Rightarrow> bytes \<Rightarrow> bytes \<Rightarrow> (format_error, unit) outcome" where
  "verify_signature p (Ed25519_key k) data sig =
     (if length sig \<noteq> 64 then Err (bad_signature_bytes (debug_bytes p sig))
      else omap_err verification_failed (ed_verify p k data sig))"
| "verify_signature p (P256_key k) data sig =
     obind (omap_err bad_signature_bytes (p256_from_der p sig))
       (\<lambda>sg. omap_err verification_failed (p256_verify p k data sg))"

section \<open>What the crates promise\<close>

definition ed_keys_law :: "primitives \<Rightarrow> bool" where
  "ed_keys_law p \<longleftrightarrow>
     (\<forall>s. length s = 32 \<longrightarrow>
        length (ed_public p s) = 32 \<and> ed_verifying_key p (ed_public p s) = Ok (ed_public p s)) \<and>
     (\<forall>b k. length b = 32 \<longrightarrow> ed_verifying_key p b = Ok k \<longrightarrow> length k = 32 \<and> ed_verifying_key p k = Ok k)"

definition p256_keys_law :: "primitives \<Rightarrow> bool" where
  "p256_keys_law p \<longleftrightarrow>
     (\<forall>b k. p256_signing_key p b = Ok k \<longrightarrow> length k = 32 \<and> p256_signing_key p k = Ok k \<and>
        p256_verifying_key p (p256_public p k) = Ok (p256_public p k)) \<and>
     (\<forall>b k. p256_verifying_key p b = Ok k \<longrightarrow> length k = 33 \<and> p256_verifying_key p k = Ok k)"

definition ed_sign_law :: "primitives \<Rightarrow> bool" where
  "ed_sign_law p \<longleftrightarrow>
     (\<forall>s m g. length s = 32 \<longrightarrow> ed_sign p s m = Ok g \<longrightarrow>
        length g = 64 \<and> ed_verify p (ed_public p s) m g = Ok ())"

definition p256_sign_law :: "primitives \<Rightarrow> bool" where
  "p256_sign_law p \<longleftrightarrow>
     (\<forall>s m g. p256_signing_key p s = Ok s \<longrightarrow> p256_sign p s m = Ok g \<longrightarrow>
        (\<exists>sg. p256_from_der p g = Ok sg \<and> p256_verify p (p256_public p s) m sg = Ok ()))"

definition primitives_ok :: "primitives \<Rightarrow> bool" where
  "primitives_ok p \<longleftrightarrow> ed_keys_law p \<and> p256_keys_law p \<and> ed_sign_law p \<and> p256_sign_law p"

lemma ed_public_ok:
  assumes "primitives_ok p" "length s = 32"
  shows "length (ed_public p s) = 32" "ed_verifying_key p (ed_public p s) = Ok (ed_public p s)"
  using assms unfolding primitives_ok_def ed_keys_law_def by blast+

lemma ed_verifying_ok:
  assumes "primitives_ok p" "length b = 32" "ed_verifying_key p b = Ok k"
  shows "length k = 32" "ed_verifying_key p k = Ok k"
  using assms unfolding primitives_ok_def ed_keys_law_def by blast+

lemma p256_signing_ok:
  assumes "primitives_ok p" "p256_signing_key p b = Ok k"
  shows "length k = 32" "p256_signing_key p k = Ok k"
    "p256_verifying_key p (p256_public p k) = Ok (p256_public p k)"
  using assms unfolding primitives_ok_def p256_keys_law_def by blast+

lemma p256_verifying_ok:
  assumes "primitives_ok p" "p256_verifying_key p b = Ok k"
  shows "length k = 33" "p256_verifying_key p k = Ok k"
  using assms unfolding primitives_ok_def p256_keys_law_def by blast+

lemma ed_sign_ok:
  assumes "primitives_ok p" "length s = 32" "ed_sign p s m = Ok g"
  shows "length g = 64" "ed_verify p (ed_public p s) m g = Ok ()"
  using assms unfolding primitives_ok_def ed_sign_law_def by blast+

lemma p256_sign_ok:
  assumes "primitives_ok p" "p256_signing_key p s = Ok s" "p256_sign p s m = Ok g"
  shows "\<exists>sg. p256_from_der p g = Ok sg \<and> p256_verify p (p256_public p s) m sg = Ok ()"
  using assms unfolding primitives_ok_def p256_sign_law_def by blast

text \<open>The keys a program can hold: decoded ones.\<close>

fun valid_public :: "primitives \<Rightarrow> public_key \<Rightarrow> bool" where
  "valid_public p (Ed25519_key k) \<longleftrightarrow> length k = 32 \<and> ed_verifying_key p k = Ok k"
| "valid_public p (P256_key k) \<longleftrightarrow> length k = 33 \<and> p256_verifying_key p k = Ok k"

fun valid_keypair :: "primitives \<Rightarrow> keypair \<Rightarrow> bool" where
  "valid_keypair p (Ed25519_pair s) \<longleftrightarrow> length s = 32"
| "valid_keypair p (P256_pair s) \<longleftrightarrow> length s = 32 \<and> p256_signing_key p s = Ok s"

fun valid_private :: "primitives \<Rightarrow> private_key \<Rightarrow> bool" where
  "valid_private p (Ed25519_private s) \<longleftrightarrow> length s = 32"
| "valid_private p (P256_private s) \<longleftrightarrow> length s = 32 \<and> p256_signing_key p s = Ok s"

lemma keypair_from_private [simp]: "keypair_from (keypair_private kp) = kp"
  by (cases kp) simp_all

lemma keypair_private_from [simp]: "keypair_private (keypair_from k) = k"
  by (cases k) simp_all

lemma private_public_pair [simp]: "private_public p (keypair_private kp) = keypair_public p kp"
  by (cases kp) simp_all

lemma keypair_public_from [simp]: "keypair_public p (keypair_from k) = private_public p k"
  by (cases k) simp_all

lemma algorithm_pair [simp]:
  "public_algorithm (keypair_public p kp) = keypair_algorithm kp"
  "private_algorithm (keypair_private kp) = keypair_algorithm kp"
  by (cases kp; simp)+

lemma algorithm_tag_inj [simp]: "algorithm_tag a = algorithm_tag b \<longleftrightarrow> a = b"
  by (cases a; cases b) simp_all

lemma valid_keypair_public: "primitives_ok p \<Longrightarrow> valid_keypair p kp \<Longrightarrow> valid_public p (keypair_public p kp)"
  by (cases kp) (auto intro: ed_public_ok p256_signing_ok p256_verifying_ok)

lemma valid_private_pair [simp]: "valid_private p (keypair_private kp) = valid_keypair p kp"
  by (cases kp) simp_all

lemma valid_keypair_from [simp]: "valid_keypair p (keypair_from k) = valid_private p k"
  by (cases k) simp_all

lemma public_roundtrip: "valid_public p k \<Longrightarrow> public_from_proto p (public_to_proto k) = Ok k"
  by (cases k) (auto simp: public_from_proto_def public_to_proto_def ed_public_from_bytes_def
      p256_public_from_bytes_def)

lemma private_roundtrip:
  "valid_private p k \<Longrightarrow> private_from_bytes p (private_to_bytes k) (private_algorithm k) = Ok k"
  by (cases k) (auto simp: ed_private_from_bytes_def p256_private_from_bytes_def)

lemma public_from_proto_valid:
  assumes "primitives_ok p" "public_from_proto p key = Ok k"
  shows "valid_public p k"
  using assms(2) by (auto simp: public_from_proto_def ed_public_from_bytes_def p256_public_from_bytes_def
      outcome_simps split: if_splits intro: ed_verifying_ok [OF assms(1)] p256_verifying_ok [OF assms(1)])

lemma private_from_bytes_valid:
  assumes "primitives_ok p" "private_from_bytes p bs a = Ok k"
  shows "valid_private p k \<and> private_algorithm k = a"
  using assms(2) by (cases a) (auto simp: ed_private_from_bytes_def p256_private_from_bytes_def
      outcome_simps split: if_splits intro: p256_signing_ok [OF assms(1)])

lemma sign_verify:
  assumes "primitives_ok p" "valid_keypair p kp" "keypair_sign p kp m = Ok g"
  shows "verify_signature p (keypair_public p kp) m g = Ok ()"
proof (cases kp)
  case (Ed25519_pair s)
  with assms(2,3) ed_sign_ok [OF assms(1), of s m g] show ?thesis by simp
next
  case (P256_pair s)
  with assms(2,3) p256_sign_ok [OF assms(1), of s m g] show ?thesis by auto
qed

section \<open>An instance\<close>

text \<open>
  The laws can hold: the scheme whose public key is the secret itself.  It is of no use as a
  signature scheme and only serves to evaluate the properties at concrete inputs.
\<close>

definition digest :: "bytes \<Rightarrow> bytes" where
  "digest m = take 32 (m @ replicate 32 0)"

definition demo :: primitives where
  "demo =
     \<lparr>ed_verifying_key = Ok,
      ed_public = (\<lambda>s. s),
      ed_sign = (\<lambda>s m. Ok (s @ digest m)),
      ed_verify = (\<lambda>k m g. if g = k @ digest m then Ok () else Err []),
      p256_verifying_key = (\<lambda>b. if length b = 33 then Ok b else Err []),
      p256_signing_key = (\<lambda>b. if length b = 32 then Ok b else Err []),
      p256_public = (\<lambda>s. 2 # s),
      p256_sign = (\<lambda>s m. Ok (s @ digest m)),
      p256_from_der = Ok,
      p256_verify = (\<lambda>k m g. if 2 # g = k @ digest m then Ok () else Err []),
      debug_bytes = (\<lambda>_. [])\<rparr>"

lemma length_digest [simp]: "length (digest m) = 32"
  by (simp add: digest_def)

lemma demo_ok: "primitives_ok demo"
  by (simp add: primitives_ok_def ed_keys_law_def p256_keys_law_def ed_sign_law_def p256_sign_law_def
      demo_def)

end
