(* ===== verification/Builder_Terms.thy ===== *)
theory Builder_Terms
  imports Terms Symbols
begin

text \<open>
  The terms of the builder API (\<open>token/builder/term.rs\<close>): strings in place of symbol indices,
  plus named parameters.  \<open>intern_term\<close> is the traversal that \<open>Term::to_datalog\<close> (over a
  \<open>TemporarySymbolTable\<close>) and \<open>Term::convert\<close> (over a \<open>SymbolTable\<close>) share, \<open>extern_term\<close> the one
  of \<open>from_datalog\<close> and \<open>convert_from\<close>.  The round trip is proved once, for any table that
  satisfies the contract \<open>interner\<close>.
\<close>

section \<open>Data\<close>

datatype bkey = BKInteger i64 | BKStr string | BKParameter string

datatype bterm =
    BVariable string
  | BInteger i64
  | BStr string
  | BDate nat
  | BBytes bytes
  | BBool bool
  | BSet "bterm list"
  | BParameter string
  | BNull
  | BArray "bterm list"
  | BMap "(bkey \<times> bterm) list"

section \<open>The derived order\<close>

definition enc_str :: "string \<Rightarrow> int list" where
  "enc_str s = enc_seq (\<lambda>c. [of_char c]) s"

fun enc_bkey :: "bkey \<Rightarrow> int list" where
  "enc_bkey (BKInteger i) = [0, sint i]"
| "enc_bkey (BKStr s) = 1 # enc_str s"
| "enc_bkey (BKParameter s) = 2 # enc_str s"

fun enc_bterm :: "bterm \<Rightarrow> int list" where
  "enc_bterm (BVariable v) = 0 # enc_str v"
| "enc_bterm (BInteger i) = [1, sint i]"
| "enc_bterm (BStr s) = 2 # enc_str s"
| "enc_bterm (BDate d) = [3, int d]"
| "enc_bterm (BBytes bs) = 4 # enc_seq (\<lambda>b. [uint b]) bs"
| "enc_bterm (BBool b) = [5, if b then 1 else 0]"
| "enc_bterm (BSet ts) = 6 # enc_seq enc_bterm ts"
| "enc_bterm (BParameter p) = 7 # enc_str p"
| "enc_bterm BNull = [8]"
| "enc_bterm (BArray ts) = 9 # enc_seq enc_bterm ts"
| "enc_bterm (BMap m) = 10 # enc_seq (\<lambda>(k, t). enc_bkey k @ enc_bterm t) m"

lemma enc_str_prefix_free: "enc_str s @ us = enc_str r @ vs \<Longrightarrow> s = r \<and> us = vs"
  unfolding enc_str_def by (rule enc_seq_prefix_free) (auto simp: prefix_free_on_def)

lemma enc_bkey_prefix_free: "enc_bkey k @ us = enc_bkey l @ vs \<Longrightarrow> k = l \<and> us = vs"
  by (cases k; cases l) (auto intro: signed_word_eqI dest: enc_str_prefix_free)

lemma enc_bterm_prefix_free: "enc_bterm t @ us = enc_bterm u @ vs \<Longrightarrow> t = u \<and> us = vs"
proof (induction t arbitrary: u us vs rule: enc_bterm.induct)
  case (5 bs)
  have "prefix_free_on (set bs) (\<lambda>b. [uint b])"
    by (auto simp: prefix_free_on_def intro: unsigned_word_eqI)
  with 5 show ?case by (cases u) (auto dest: enc_seq_prefix_free)
next
  case (6 b)
  then show ?case by (cases u) (auto split: if_splits)
next
  case (7 ts)
  then have "prefix_free_on (set ts) enc_bterm" by (auto simp: prefix_free_on_def)
  with 7 show ?case by (cases u) (auto dest: enc_seq_prefix_free)
next
  case (10 ts)
  then have "prefix_free_on (set ts) enc_bterm" by (auto simp: prefix_free_on_def)
  with 10 show ?case by (cases u) (auto dest: enc_seq_prefix_free)
next
  case (11 m)
  have "prefix_free_on (set m) (\<lambda>(k, t). enc_bkey k @ enc_bterm t)"
    unfolding prefix_free_on_def
  proof (intro ballI allI impI)
    fix x y us vs
    assume x: "x \<in> set m"
      and eq: "(case x of (k, t) \<Rightarrow> enc_bkey k @ enc_bterm t) @ us =
        (case y of (k, t) \<Rightarrow> enc_bkey k @ enc_bterm t) @ vs"
    obtain k t l u' where xy: "x = (k, t)" "y = (l, u')" by (cases x; cases y)
    with eq have "k = l" and "enc_bterm t @ us = enc_bterm u' @ vs"
      using enc_bkey_prefix_free [of k "enc_bterm t @ us" l "enc_bterm u' @ vs"] by auto
    with 11(1) [OF x, of k t] xy show "x = y \<and> us = vs" by auto
  qed
  with 11(2) show ?case by (cases u) (auto dest: enc_seq_prefix_free)
qed (rename_tac u us vs, case_tac u; auto intro: signed_word_eqI dest: enc_str_prefix_free)+

lemma enc_bterm_inject [simp]: "enc_bterm t = enc_bterm u \<longleftrightarrow> t = u"
  using enc_bterm_prefix_free [of t "[]" u "[]"] by auto

lemma enc_bkey_inject [simp]: "enc_bkey k = enc_bkey l \<longleftrightarrow> k = l"
  using enc_bkey_prefix_free [of k "[]" l "[]"] by auto

instantiation bkey :: linorder
begin

definition less_bkey :: "bkey \<Rightarrow> bkey \<Rightarrow> bool" where
  "k < l \<longleftrightarrow> enc_bkey k < enc_bkey l"

definition less_eq_bkey :: "bkey \<Rightarrow> bkey \<Rightarrow> bool" where
  "k \<le> l \<longleftrightarrow> enc_bkey k \<le> enc_bkey l"

instance
  by standard (auto simp: less_bkey_def less_eq_bkey_def less_le)

end

instantiation bterm :: linorder
begin

definition less_bterm :: "bterm \<Rightarrow> bterm \<Rightarrow> bool" where
  "t < u \<longleftrightarrow> enc_bterm t < enc_bterm u"

definition less_eq_bterm :: "bterm \<Rightarrow> bterm \<Rightarrow> bool" where
  "t \<le> u \<longleftrightarrow> enc_bterm t \<le> enc_bterm u"

instance
  by standard (auto simp: less_bterm_def less_eq_bterm_def less_le)

end

fun wf_bterm :: "bterm \<Rightarrow> bool" where
  "wf_bterm (BSet ts) \<longleftrightarrow> strict_sorted ts \<and> (\<forall>t \<in> set ts. wf_bterm t)"
| "wf_bterm (BArray ts) \<longleftrightarrow> (\<forall>t \<in> set ts. wf_bterm t)"
| "wf_bterm (BMap m) \<longleftrightarrow> strict_sorted (map fst m) \<and> (\<forall>(k, t) \<in> set m. wf_bterm t)"
| "wf_bterm _ \<longleftrightarrow> True"

section \<open>Conversions\<close>

definition as_u32 :: "nat \<Rightarrow> nat" where
  "as_u32 i = i mod 2 ^ 32"

fun intern_key :: "(string \<Rightarrow> 's \<Rightarrow> nat \<times> 's) \<Rightarrow> bkey \<Rightarrow> 's \<Rightarrow> (map_key \<times> 's) option" where
  "intern_key ins (BKInteger i) s = Some (KInteger i, s)"
| "intern_key ins (BKStr k) s = (case ins k s of (i, s') \<Rightarrow> Some (KStr i, s'))"
| "intern_key ins (BKParameter k) s = None"

fun intern_term :: "(string \<Rightarrow> 's \<Rightarrow> nat \<times> 's) \<Rightarrow> bterm \<Rightarrow> 's \<Rightarrow> (dterm \<times> 's) option" where
  "intern_term ins (BVariable v) s = (case ins v s of (i, s') \<Rightarrow> Some (Variable (as_u32 i), s'))"
| "intern_term ins (BInteger i) s = Some (Integer i, s)"
| "intern_term ins (BStr x) s = (case ins x s of (i, s') \<Rightarrow> Some (Str i, s'))"
| "intern_term ins (BDate d) s = Some (Date d, s)"
| "intern_term ins (BBytes b) s = Some (Bytes b, s)"
| "intern_term ins (BBool b) s = Some (Bool b, s)"
| "intern_term ins (BSet ts) s =
     map_option (\<lambda>(us, s'). (Set (bt_of_list us), s')) (smap (intern_term ins) ts s)"
| "intern_term ins BNull s = Some (Null, s)"
| "intern_term ins (BArray ts) s =
     map_option (\<lambda>(us, s'). (Array us, s')) (smap (intern_term ins) ts s)"
| "intern_term ins (BMap m) s =
     map_option (\<lambda>(us, s'). (Map (bm_of_list us), s'))
       (smap (\<lambda>(k, t) s. case intern_key ins k s of None \<Rightarrow> None
              | Some (l, s') \<Rightarrow> map_option (\<lambda>(u, s''). ((l, u), s'')) (intern_term ins t s')) m s)"
| "intern_term ins (BParameter p) s = None"

text \<open>\<open>Term::to_datalog\<close> and \<open>Term::convert\<close>; \<open>None\<close> is the panic on a remaining parameter.\<close>

definition to_datalog :: "bterm \<Rightarrow> tmp_symbols \<Rightarrow> (dterm \<times> tmp_symbols) option" where
  "to_datalog = intern_term tmp_insert"

definition term_convert :: "bterm \<Rightarrow> symbol_table \<Rightarrow> (dterm \<times> symbol_table) option" where
  "term_convert = intern_term st_insert"

fun extern_key :: "(nat \<Rightarrow> ('e, string) outcome) \<Rightarrow> map_key \<Rightarrow> ('e, bkey) outcome" where
  "extern_key rd (KInteger i) = Ok (BKInteger i)"
| "extern_key rd (KStr s) = obind (rd s) (\<lambda>x. Ok (BKStr x))"

fun extern_term :: "(nat \<Rightarrow> ('e, string) outcome) \<Rightarrow> (nat \<Rightarrow> ('e, string) outcome) \<Rightarrow>
    dterm \<Rightarrow> ('e, bterm) outcome" where
  "extern_term rdv rd (Variable v) = obind (rdv v) (\<lambda>x. Ok (BVariable x))"
| "extern_term rdv rd (Integer i) = Ok (BInteger i)"
| "extern_term rdv rd (Str s) = obind (rd s) (\<lambda>x. Ok (BStr x))"
| "extern_term rdv rd (Date d) = Ok (BDate d)"
| "extern_term rdv rd (Bytes b) = Ok (BBytes b)"
| "extern_term rdv rd (Bool b) = Ok (BBool b)"
| "extern_term rdv rd (Set ts) =
     obind (traverse (extern_term rdv rd) ts) (\<lambda>us. Ok (BSet (bt_of_list us)))"
| "extern_term rdv rd Null = Ok BNull"
| "extern_term rdv rd (Array ts) = obind (traverse (extern_term rdv rd) ts) (\<lambda>us. Ok (BArray us))"
| "extern_term rdv rd (Map m) =
     obind (traverse (\<lambda>(k, t). obind (extern_key rd k) (\<lambda>l.
                obind (extern_term rdv rd t) (\<lambda>u. Ok (l, u)))) m)
       (\<lambda>us. Ok (BMap (bm_of_list us)))"

definition from_datalog :: "dterm \<Rightarrow> tmp_symbols \<Rightarrow> (expr_error, bterm) outcome" where
  "from_datalog t symbols =
     extern_term (\<lambda>v. ok_or (UnknownVariable v) (tmp_get_symbol symbols v))
       (\<lambda>s. ok_or (UnknownSymbol s) (tmp_get_symbol symbols s)) t"

definition term_convert_from :: "dterm \<Rightarrow> symbol_table \<Rightarrow> (format_error, bterm) outcome" where
  "term_convert_from t symbols = extern_term (print_symbol symbols) (print_symbol symbols) t"

section \<open>Parameters\<close>

text \<open>
  A parameter table is a \<open>HashMap<String, Option<Term>>\<close>: a declared name is bound to \<open>None\<close>
  until a value is set.  It is an association list with distinct keys.
\<close>

type_synonym params = "(string \<times> bterm option) list"

fun key_parameters :: "bkey \<Rightarrow> string list" where
  "key_parameters (BKParameter p) = [p]"
| "key_parameters _ = []"

fun term_parameters :: "bterm \<Rightarrow> string list" where
  "term_parameters (BParameter p) = [p]"
| "term_parameters (BSet ts) = concat (map term_parameters ts)"
| "term_parameters (BArray ts) = concat (map term_parameters ts)"
| "term_parameters (BMap m) = concat (map (\<lambda>(k, t). key_parameters k @ term_parameters t) m)"
| "term_parameters _ = []"

definition extract_parameters :: "bterm \<Rightarrow> params \<Rightarrow> params" where
  "extract_parameters t ps = fold (\<lambda>p m. AList.update p None m) (term_parameters t) ps"

fun key_apply_parameters :: "params \<Rightarrow> bkey \<Rightarrow> bkey" where
  "key_apply_parameters ps (BKParameter p) =
     (case map_of ps p of
        Some (Some (BInteger i)) \<Rightarrow> BKInteger i
      | Some (Some (BStr s)) \<Rightarrow> BKStr s
      | _ \<Rightarrow> BKParameter p)"
| "key_apply_parameters ps k = k"

fun term_apply_parameters :: "params \<Rightarrow> bterm \<Rightarrow> bterm" where
  "term_apply_parameters ps (BParameter p) =
     (case map_of ps p of Some (Some t) \<Rightarrow> t | _ \<Rightarrow> BParameter p)"
| "term_apply_parameters ps (BMap m) =
     BMap (bm_of_list (map (\<lambda>(k, t). (key_apply_parameters ps k, term_apply_parameters ps t)) m))"
| "term_apply_parameters ps (BArray ts) = BArray (map (term_apply_parameters ps) ts)"
| "term_apply_parameters ps (BSet ts) = BSet (bt_of_list (map (term_apply_parameters ps) ts))"
| "term_apply_parameters ps t = t"

section \<open>The round trip\<close>

lemma smap_related:
  assumes "smap f xs s = Some (ys, t)" "I s"
    and step: "\<And>x y u v. x \<in> set xs \<Longrightarrow> I u \<Longrightarrow> f x u = Some (y, v) \<Longrightarrow> I v \<and> R u v"
    and refl: "\<And>u. I u \<Longrightarrow> R u u" and trans: "\<And>u v w. R u v \<Longrightarrow> R v w \<Longrightarrow> R u w"
  shows "I t \<and> R s t \<and> list_all2 (\<lambda>x y. \<exists>u v. I u \<and> f x u = Some (y, v) \<and> R v t) xs ys"
  using assms(1,2) step
proof (induction xs arbitrary: s ys)
  case Nil
  then show ?case using refl by simp
next
  case (Cons x xs)
  from Cons.prems(1) obtain y u zs where first: "f x s = Some (y, u)"
    and rest: "smap f xs u = Some (zs, t)" and ys: "ys = y # zs"
    unfolding smap_Some_Cons by blast
  have u: "I u" "R s u" using Cons.prems(2) first Cons.prems(3) by (meson list.set_intros(1))+
  have "I t \<and> R u t \<and> list_all2 (\<lambda>x y. \<exists>u v. I u \<and> f x u = Some (y, v) \<and> R v t) xs zs"
    by (rule Cons.IH [OF rest u(1)]) (use Cons.prems(3) in auto)
  then have "I t" "R s t" and zs: "list_all2 (\<lambda>x y. \<exists>u v. I u \<and> f x u = Some (y, v) \<and> R v t) xs zs"
    and "R u t" using trans [OF u(2)] by simp_all
  moreover from zs \<open>R u t\<close> first Cons.prems(2)
  have "list_all2 (\<lambda>x y. \<exists>u v. I u \<and> f x u = Some (y, v) \<and> R v t) (x # xs) (y # zs)" by auto
  ultimately show ?case unfolding ys by blast
qed

lemma set_bm_insert_fresh: "k \<notin> fst ` set m \<Longrightarrow> set (bm_insert k v m) = insert (k, v) (set m)"
  by (induction k v m rule: bm_insert.induct) auto

lemma set_fold_bm_distinct:
  "distinct (map fst xs) \<Longrightarrow> fst ` set xs \<inter> fst ` set acc = {} \<Longrightarrow>
     set (fold (\<lambda>(k, v) m. bm_insert k v m) xs acc) = set xs \<union> set acc"
proof (induction xs arbitrary: acc)
  case (Cons x xs)
  obtain k v where x: "x = (k, v)" by force
  have "set (bm_insert k v acc) = insert (k, v) (set acc)"
    using Cons.prems(2) x by (intro set_bm_insert_fresh) auto
  moreover from this have "fst ` set xs \<inter> fst ` set (bm_insert k v acc) = {}"
    using Cons.prems x by auto
  ultimately show ?case using Cons.IH [of "bm_insert k v acc"] Cons.prems(1) x by auto
qed simp

lemma set_bm_of_list_distinct: "distinct (map fst xs) \<Longrightarrow> set (bm_of_list xs) = set xs"
  using set_fold_bm_distinct [of xs "[]"] by (simp add: bm_of_list_def)

lemma strict_sorted_map_unique:
  assumes "strict_sorted (map fst xs)" "strict_sorted (map fst ys)" "set xs = set ys"
  shows "xs = ys"
proof (rule map_sorted_distinct_set_unique [where f = fst])
  have sd: "sorted (map fst xs)" "distinct (map fst xs)" "sorted (map fst ys)" "distinct (map fst ys)"
    using assms(1,2) unfolding strict_sorted_def strict_sorted_iff by blast+
  from sd show "sorted (map fst xs)" "distinct (map fst xs)" "sorted (map fst ys)" "distinct (map fst ys)"
    by blast+
  show "inj_on fst (set xs \<union> set ys)"
    using sd(2) unfolding assms(3) [symmetric] by (simp add: distinct_map)
qed (rule assms(3))

lemma traverse_inverse:
  assumes "list_all2 (\<lambda>x y. f y = Ok x) xs ys"
  obtains g where "\<And>y. y \<in> set ys \<Longrightarrow> f y = Ok (g y)" "map g ys = xs"
proof
  let ?g = "\<lambda>y. case f y of Ok x \<Rightarrow> x | _ \<Rightarrow> undefined"
  show "map ?g ys = xs" using assms by (induction rule: list_all2_induct) auto
  show "f y = Ok (?g y)" if "y \<in> set ys" for y
    using assms that by (induction rule: list_all2_induct) auto
qed

lemma bt_roundtrip:
  assumes "strict_sorted xs" "list_all2 (\<lambda>x y. f y = Ok x) xs ys"
  shows "\<exists>zs. traverse f (bt_of_list ys) = Ok zs \<and> bt_of_list zs = xs"
proof -
  from traverse_inverse [OF assms(2)] obtain g
    where g: "\<And>y. y \<in> set ys \<Longrightarrow> f y = Ok (g y)" "map g ys = xs" by blast
  have "traverse f (bt_of_list ys) = Ok (map g (bt_of_list ys))"
    using traverse_map_Ok [of "bt_of_list ys" f "\<lambda>x. x" g] g(1) by simp
  moreover have "bt_of_list (map g (bt_of_list ys)) = xs"
    using assms(1) g(2) by (intro strict_sorted_unique) auto
  ultimately show ?thesis by blast
qed

lemma bm_roundtrip:
  assumes "strict_sorted (map fst xs)"
    and "list_all2 (\<lambda>x y. fk (fst y) = Ok (fst x) \<and> f (snd y) = Ok (snd x)) xs ys"
  shows "\<exists>zs. traverse (\<lambda>(k, t). obind (fk k) (\<lambda>l. obind (f t) (\<lambda>u. Ok (l, u)))) (bm_of_list ys) = Ok zs \<and>
    bm_of_list zs = xs"
proof -
  let ?F = "\<lambda>(k, t). obind (fk k) (\<lambda>l. obind (f t) (\<lambda>u. Ok (l, u)))"
  have pairs: "list_all2 (\<lambda>x y. ?F y = Ok x) xs ys"
    using assms(2) by (rule list_all2_mono) (auto split: prod.splits)
  from traverse_inverse [OF this] obtain g
    where g: "\<And>y. y \<in> set ys \<Longrightarrow> ?F y = Ok (g y)" "map g ys = xs" by blast
  have "list_all2 (\<lambda>k l. fk l = Ok k) (map fst xs) (map fst ys)"
    using assms(2) by (auto simp: list_all2_map1 list_all2_map2 elim: list_all2_mono)
  from traverse_inverse [OF this] obtain gk
    where gk: "\<And>l. l \<in> set (map fst ys) \<Longrightarrow> fk l = Ok (gk l)" "map gk (map fst ys) = map fst xs"
    by blast
  have fst_g: "fst (g y) = gk (fst y)" if "y \<in> set ys" for y
    using g(1) [OF that] gk(1) [of "fst y"] that by (auto simp: outcome_simps split: prod.splits) (metis fst_conv)
  have dist: "distinct (map gk (map fst ys))"
    using gk(2) strict_sorted_distinct [OF assms(1)] by simp
  then have dist_ys: "distinct (map fst ys)" by (rule distinct_map [THEN iffD1, THEN conjunct1])
  have set_ys: "set (bm_of_list ys) = set ys" using dist_ys by (rule set_bm_of_list_distinct)
  have "traverse ?F (bm_of_list ys) = Ok (map g (bm_of_list ys))"
    using traverse_map_Ok [of "bm_of_list ys" ?F "\<lambda>x. x" g] g(1) set_ys by simp
  moreover have "bm_of_list (map g (bm_of_list ys)) = xs"
  proof (rule strict_sorted_map_unique)
    have keys: "map fst (map g (bm_of_list ys)) = map gk (map fst (bm_of_list ys))"
      using fst_g set_ys by simp
    have "inj_on gk (set (map fst ys))" using dist unfolding distinct_map [of gk] by blast
    then have "distinct (map fst (map g (bm_of_list ys)))"
      unfolding keys using set_ys strict_sorted_distinct [OF strict_sorted_bm_of_list]
      by (metis distinct_map list.set_map)
    then show "set (bm_of_list (map g (bm_of_list ys))) = set xs"
      using set_ys g(2) by (simp add: set_bm_of_list_distinct) (metis list.set_map)
  qed (use assms(1) in simp_all)
  ultimately show ?thesis by blast
qed

locale term_table = interner ins find lookup invar
  for ins :: "string \<Rightarrow> 't \<Rightarrow> nat \<times> 't" and find lookup invar
begin

lemma intern_key_extends:
  "intern_key ins k t = Some (l, u) \<Longrightarrow> invar t \<Longrightarrow> invar u \<and> extends t u"
  by (cases k) (auto intro: extends_refl extends_ins invar_ins split: prod.splits)

definition reads :: "'t \<Rightarrow> (nat \<Rightarrow> ('e, string) outcome) \<Rightarrow> bool" where
  "reads t rd \<longleftrightarrow> (\<forall>i s. lookup t i = Some s \<longrightarrow> rd i = Ok s)"

definition small :: "'t \<Rightarrow> bool" where
  "small t \<longleftrightarrow> (\<forall>i s. lookup t i = Some s \<longrightarrow> i < 2 ^ 32)"

lemma reads_ins:
  "ins s t = (i, u) \<Longrightarrow> invar t \<Longrightarrow> extends u v \<Longrightarrow> reads v rd \<Longrightarrow> rd i = Ok s"
  using lookup_ins unfolding extends_def reads_def by blast

lemma small_ins:
  "ins s t = (i, u) \<Longrightarrow> invar t \<Longrightarrow> extends u v \<Longrightarrow> small v \<Longrightarrow> as_u32 i = i"
  using lookup_ins unfolding extends_def small_def as_u32_def by (metis mod_less)

lemma smap_extends:
  assumes "smap f xs t = Some (us, u)" "invar t"
    and "\<And>x y v w. x \<in> set xs \<Longrightarrow> invar v \<Longrightarrow> f x v = Some (y, w) \<Longrightarrow> invar w \<and> extends v w"
  shows "invar u" "extends t u"
    and "list_all2 (\<lambda>x y. \<exists>s s'. invar s \<and> f x s = Some (y, s') \<and> extends s' u) xs us"
  using smap_related [where I = invar and R = extends, OF assms extends_refl extends_trans] by simp_all

lemma smap_extends_invar:
  assumes "smap f xs t = Some (us, u)" "invar t"
    and "\<And>x y v w. x \<in> set xs \<Longrightarrow> invar v \<Longrightarrow> f x v = Some (y, w) \<Longrightarrow> invar w \<and> extends v w"
  shows "invar u \<and> extends t u"
  using smap_extends(1,2) [OF assms] by simp

lemma intern_extends:
  "intern_term ins b t = Some (d, u) \<Longrightarrow> invar t \<Longrightarrow> invar u \<and> extends t u"
proof (induction b arbitrary: t d u)
  case (BSet ts)
  then obtain us where "smap (intern_term ins) ts t = Some (us, u)" by auto
  with smap_extends(1,2) BSet.prems(2) BSet.IH show ?case by blast
next
  case (BArray ts)
  then obtain us where "smap (intern_term ins) ts t = Some (us, u)" by auto
  with smap_extends(1,2) BArray.prems(2) BArray.IH show ?case by blast
next
  case (BMap m)
  let ?F = "\<lambda>(k, t) s. case intern_key ins k s of None \<Rightarrow> None
    | Some (l, s') \<Rightarrow> map_option (\<lambda>(u, s''). ((l, u), s'')) (intern_term ins t s')"
  from BMap.prems(1) obtain us where run: "smap ?F m t = Some (us, u)" by auto
  have step: "invar w \<and> extends v w" if x: "x \<in> set m" and v: "invar v" and F: "?F x v = Some (y, w)" for x y v w
  proof -
    obtain k b where xk: "x = (k, b)" by force
    from F xk obtain l v' d where k: "intern_key ins k v = Some (l, v')"
      and b: "intern_term ins b v' = Some (d, w)" by (auto split: option.splits)
    from intern_key_extends [OF k v] have v': "invar v'" "extends v v'" by auto
    with BMap.IH [OF x, of b v' d w] xk b have "invar w" "extends v' w" by auto
    with extends_trans [OF v'(2)] show ?thesis by blast
  qed
  show ?case by (rule smap_extends_invar [OF run BMap.prems(2)]) (rule step)
next
  case (BVariable x)
  then obtain i where "ins x t = (i, u)" by (auto split: prod.splits)
  with BVariable.prems(2) extends_ins invar_ins show ?case by blast
next
  case (BStr x)
  then obtain i where "ins x t = (i, u)" by (auto split: prod.splits)
  with BStr.prems(2) extends_ins invar_ins show ?case by blast
qed (simp_all add: extends_refl)

lemma intern_key_extern:
  "intern_key ins k t = Some (l, u) \<Longrightarrow> invar t \<Longrightarrow> extends u v \<Longrightarrow> reads v rd \<Longrightarrow>
     extern_key rd l = Ok k"
  by (cases k) (auto simp: reads_ins split: prod.splits)

text \<open>Interning, then reading back from any later table, gives the term back.\<close>

lemma intern_extern:
  assumes "reads v rdv" "reads v rd" "small v"
  shows "intern_term ins b t = Some (d, u) \<Longrightarrow> invar t \<Longrightarrow> extends u v \<Longrightarrow> wf_bterm b \<Longrightarrow>
     extern_term rdv rd d = Ok b"
proof (induction b arbitrary: t d u)
  case (BVariable x)
  then obtain i where i: "ins x t = (i, u)" "d = Variable (as_u32 i)" by (auto split: prod.splits)
  with small_ins [OF i(1) BVariable.prems(2,3) assms(3)] reads_ins [OF i(1) BVariable.prems(2,3) assms(1)]
  show ?case by simp
next
  case (BStr x)
  then obtain i where i: "ins x t = (i, u)" "d = Str i" by (auto split: prod.splits)
  with reads_ins [OF i(1) BStr.prems(2,3) assms(2)] show ?case by simp
next
  case (BSet ts)
  from BSet.prems(1) obtain us where run: "smap (intern_term ins) ts t = Some (us, u)"
    and d: "d = Set (bt_of_list us)" by auto
  from smap_extends(3) [OF run BSet.prems(2) intern_extends]
  have "list_all2 (\<lambda>x y. extern_term rdv rd y = Ok x) ts us"
  proof (rule list.rel_mono_strong)
    fix x y
    assume x: "x \<in> set ts"
      and "\<exists>s s'. invar s \<and> intern_term ins x s = Some (y, s') \<and> extends s' u"
    then obtain s s' where s: "invar s" "intern_term ins x s = Some (y, s')" "extends s' u" by blast
    have "wf_bterm x" using BSet.prems(4) x by simp
    with BSet.IH [OF x s(2,1) extends_trans [OF s(3) BSet.prems(3)]]
    show "extern_term rdv rd y = Ok x" by blast
  qed
  from bt_roundtrip [OF _ this] BSet.prems(4) d show ?case by auto
next
  case (BArray ts)
  from BArray.prems(1) obtain us where run: "smap (intern_term ins) ts t = Some (us, u)"
    and d: "d = Array us" by auto
  from smap_extends(3) [OF run BArray.prems(2) intern_extends]
  have "list_all2 (\<lambda>x y. extern_term rdv rd y = Ok x) ts us"
  proof (rule list.rel_mono_strong)
    fix x y
    assume x: "x \<in> set ts"
      and "\<exists>s s'. invar s \<and> intern_term ins x s = Some (y, s') \<and> extends s' u"
    then obtain s s' where s: "invar s" "intern_term ins x s = Some (y, s')" "extends s' u" by blast
    have "wf_bterm x" using BArray.prems(4) x by simp
    with BArray.IH [OF x s(2,1) extends_trans [OF s(3) BArray.prems(3)]]
    show "extern_term rdv rd y = Ok x" by blast
  qed
  then have "list_all2 (\<lambda>y x. extern_term rdv rd y = Ok x) us ts"
    by (simp add: list_all2_conv_all_nth)
  with d show ?case by (simp add: traverse_Ok_list_all2 [symmetric])
next
  case (BMap m)
  let ?F = "\<lambda>(k, t) s. case intern_key ins k s of None \<Rightarrow> None
    | Some (l, s') \<Rightarrow> map_option (\<lambda>(u, s''). ((l, u), s'')) (intern_term ins t s')"
  from BMap.prems(1) obtain us where run: "smap ?F m t = Some (us, u)"
    and d: "d = Map (bm_of_list us)" by auto
  have step: "invar w \<and> extends v w" if v: "invar v" and F: "?F x v = Some (y, w)" for x y v w
  proof -
    obtain k b where xk: "x = (k, b)" by force
    from F xk obtain l v' d where k: "intern_key ins k v = Some (l, v')"
      and b: "intern_term ins b v' = Some (d, w)" by (auto split: option.splits)
    from intern_key_extends [OF k v] intern_extends [OF b] extends_trans show ?thesis by blast
  qed
  from smap_extends(3) [OF run BMap.prems(2) step]
  have "list_all2 (\<lambda>x y. extern_key rd (fst y) = Ok (fst x) \<and>
      extern_term rdv rd (snd y) = Ok (snd x)) m us"
  proof (rule list.rel_mono_strong)
    fix x y
    assume x: "x \<in> set m"
      and "\<exists>s s'. invar s \<and> ?F x s = Some (y, s') \<and> extends s' u"
    then obtain s s' where s: "invar s" "?F x s = Some (y, s')" "extends s' u" by blast
    obtain k b l e where xy: "x = (k, b)" "y = (l, e)" by (cases x; cases y)
    obtain w where k: "intern_key ins k s = Some (l, w)" and b: "intern_term ins b w = Some (e, s')"
      using s(2) xy by (auto split: option.splits)
    have w: "invar w" using intern_key_extends [OF k s(1)] by blast
    have s': "extends s' v" using extends_trans [OF s(3) BMap.prems(3)] .
    have wv: "extends w v" using intern_extends [OF b w] extends_trans s' by blast
    have "wf_bterm b" using BMap.prems(4) x xy by auto
    then have "extern_term rdv rd e = Ok b"
      using BMap.IH [OF x _ b w s'] xy by auto
    with intern_key_extern [OF k s(1) wv assms(2)] xy
    show "extern_key rd (fst y) = Ok (fst x) \<and> extern_term rdv rd (snd y) = Ok (snd x)" by simp
  qed
  from bm_roundtrip [OF _ this] BMap.prems(4) d show ?case by auto
qed auto

end

interpretation st_terms: term_table st_insert st_get get_symbol st_wf
  by unfold_locales

interpretation tmp_terms: term_table tmp_insert tmp_find tmp_get_symbol tmp_wf
  by unfold_locales

section \<open>Panics and well-formedness\<close>

lemma smap_None_iff:
  "(\<And>x s. x \<in> set xs \<Longrightarrow> f x s = None \<longleftrightarrow> P x) \<Longrightarrow> smap f xs s = None \<longleftrightarrow> (\<exists>x \<in> set xs. P x)"
proof (induction xs arbitrary: s)
  case (Cons x xs)
  have x: "f x s = None \<longleftrightarrow> P x" by (rule Cons.prems) simp
  have xs: "smap f xs u = None \<longleftrightarrow> (\<exists>y \<in> set xs. P y)" for u
    by (rule Cons.IH) (use Cons.prems in simp)
  show ?case
  proof (cases "f x s")
    case None
    with x show ?thesis by simp
  next
    case (Some r)
    moreover obtain y u where "r = (y, u)" by force
    ultimately show ?thesis using x xs [of u] by (auto split: option.splits)
  qed
qed simp

lemma intern_key_None: "intern_key ins k s = None \<longleftrightarrow> key_parameters k \<noteq> []"
  by (cases k) (auto split: prod.splits)

lemma intern_term_None: "intern_term ins b s = None \<longleftrightarrow> term_parameters b \<noteq> []"
proof (induction b arbitrary: s)
  case (BSet ts)
  then show ?case using smap_None_iff [of ts "intern_term ins" "\<lambda>t. term_parameters t \<noteq> []"] by simp
next
  case (BArray ts)
  then show ?case using smap_None_iff [of ts "intern_term ins" "\<lambda>t. term_parameters t \<noteq> []"] by simp
next
  case (BMap m)
  have "smap (\<lambda>(k, t) s. case intern_key ins k s of None \<Rightarrow> None
      | Some (l, s') \<Rightarrow> map_option (\<lambda>(u, s''). ((l, u), s'')) (intern_term ins t s')) m s = None \<longleftrightarrow>
    (\<exists>x \<in> set m. key_parameters (fst x) @ term_parameters (snd x) \<noteq> [])"
  proof (rule smap_None_iff)
    fix x s
    assume "x \<in> set m"
    with BMap.IH [of x "snd x"] intern_key_None [of ins "fst x"]
    show "(case x of (k, t) \<Rightarrow> \<lambda>s. case intern_key ins k s of None \<Rightarrow> None
        | Some (l, s') \<Rightarrow> map_option (\<lambda>(u, s''). ((l, u), s'')) (intern_term ins t s')) s = None \<longleftrightarrow>
      key_parameters (fst x) @ term_parameters (snd x) \<noteq> []"
      by (cases x) (force split: option.splits)
  qed
  then show ?case by (auto simp: case_prod_unfold)
qed (auto split: prod.splits)

lemma smap_all: 
  "smap f xs s = Some (ys, t) \<Longrightarrow> (\<And>x s y u. x \<in> set xs \<Longrightarrow> f x s = Some (y, u) \<Longrightarrow> P y) \<Longrightarrow>
     \<forall>y \<in> set ys. P y"
proof (induction xs arbitrary: s ys)
  case (Cons x xs)
  from Cons.prems(1) obtain y u zs where first: "f x s = Some (y, u)"
    and rest: "smap f xs u = Some (zs, t)" and ys: "ys = y # zs"
    unfolding smap_Some_Cons by blast
  have "\<forall>y \<in> set zs. P y" by (rule Cons.IH [OF rest]) (use Cons.prems(2) in auto)
  moreover have "P y" using Cons.prems(2) [OF _ first] by simp
  ultimately show ?case using ys by simp
qed simp

text \<open>Whatever the builder term, the collections built from it are ordered.\<close>

lemma intern_term_wf: "intern_term ins b s = Some (d, s') \<Longrightarrow> wf_term d"
proof (induction b arbitrary: d s s')
  case (BSet ts)
  then obtain us where "smap (intern_term ins) ts s = Some (us, s')" "d = Set (bt_of_list us)" by auto
  with smap_all [of "intern_term ins" ts s us s' wf_term] BSet.IH show ?case by auto
next
  case (BArray ts)
  then obtain us where "smap (intern_term ins) ts s = Some (us, s')" "d = Array us" by auto
  with smap_all [of "intern_term ins" ts s us s' wf_term] BArray.IH show ?case by auto
next
  case (BMap m)
  let ?F = "\<lambda>(k, t) s. case intern_key ins k s of None \<Rightarrow> None
    | Some (l, s') \<Rightarrow> map_option (\<lambda>(u, s''). ((l, u), s'')) (intern_term ins t s')"
  from BMap.prems obtain us where run: "smap ?F m s = Some (us, s')" and d: "d = Map (bm_of_list us)"
    by auto
  have "\<forall>y \<in> set us. wf_term (snd y)"
  proof (rule smap_all [OF run])
    fix x s y u
    assume "x \<in> set m" "?F x s = Some (y, u)"
    with BMap.IH [of x "snd x"] show "wf_term (snd y)" by (cases x) (auto split: option.splits)
  qed
  then show ?case using d set_bm_of_list_subset [of us] by fastforce
qed (auto split: prod.splits)

lemma traverse_not_Panic: "(\<And>x. x \<in> set xs \<Longrightarrow> f x \<noteq> Panic) \<Longrightarrow> traverse f xs \<noteq> Panic"
  by (induction xs) (auto simp: outcome_simps)

lemma extern_key_not_Panic: "(\<And>i. rd i \<noteq> Panic) \<Longrightarrow> extern_key rd k \<noteq> Panic"
  by (cases k) (auto simp: outcome_simps)

lemma extern_term_not_Panic:
  "(\<And>i. rdv i \<noteq> Panic) \<Longrightarrow> (\<And>i. rd i \<noteq> Panic) \<Longrightarrow> extern_term rdv rd t \<noteq> Panic"
proof (induction t)
  case (Map m)
  have "traverse (\<lambda>(k, t). obind (extern_key rd k) (\<lambda>l. obind (extern_term rdv rd t) (\<lambda>u. Ok (l, u)))) m \<noteq> Panic"
  proof (rule traverse_not_Panic)
    fix x
    assume "x \<in> set m"
    with Map.IH [of x "snd x"] Map.prems extern_key_not_Panic [of rd "fst x"]
    show "(case x of (k, t) \<Rightarrow> obind (extern_key rd k) (\<lambda>l. obind (extern_term rdv rd t) (\<lambda>u. Ok (l, u)))) \<noteq> Panic"
      by (cases x) (force simp: outcome_simps)
  qed
  then show ?case by (simp add: outcome_simps)
qed (auto simp: outcome_simps traverse_not_Panic)

lemma from_datalog_not_Panic [simp]: "from_datalog t s \<noteq> Panic"
  unfolding from_datalog_def by (rule extern_term_not_Panic) simp_all

end
