(* ===== verification/Builder.thy ===== *)
theory Builder
  imports Builder_Terms
begin

text \<open>
  The builder API's predicates, facts, expressions, rules, scopes and checks
  (\<open>token/builder/{predicate,fact,expression,rule,scope,check,policy}.rs\<close>): their parameters,
  and the trait \<open>Convert\<close> in both directions.  \<open>convert\<close> threads the symbol table and panics
  (\<open>None\<close>) on a remaining parameter; \<open>convert_from\<close> fails on an unknown index.
\<close>

section \<open>Data\<close>

datatype bunary = BNegate | BParens | BLength | BTypeOf | BFfi_unary string

datatype bbinary =
    BLessThan | BGreaterThan | BLessOrEqual | BGreaterOrEqual | BEqual | BContains
  | BPrefix | BSuffix | BRegex | BAdd | BSub | BMul
  | BDiv | BAnd_op | BOr_op | BIntersection | BUnion_op | BBitwiseAnd
  | BBitwiseOr | BBitwiseXor | BNotEqual | BHeterogeneousEqual | BHeterogeneousNotEqual | BLazyAnd
  | BLazyOr | BAll_op | BAny_op | BGet | BFfi string | BTryOr

datatype bop = BValue bterm | BUnary bunary | BBinary bbinary | BClosure "string list" "bop list"

record bexpression =
  be_ops :: "bop list"

record bpredicate =
  bp_name :: string
  bp_terms :: "bterm list"

datatype bscope = BScope_Authority | BScope_Previous | BScope_PublicKey public_key | BScope_Parameter string

type_synonym scope_params = "(string \<times> public_key option) list"

record bfact =
  bf_predicate :: bpredicate
  bf_parameters :: "params option"

record brule =
  br_head :: bpredicate
  br_body :: "bpredicate list"
  br_expressions :: "bexpression list"
  br_parameters :: "params option"
  br_scopes :: "bscope list"
  br_scope_parameters :: "scope_params option"

record bcheck =
  bc_queries :: "brule list"
  bc_kind :: check_kind

datatype policy_kind = Allow | Deny

record policy =
  po_queries :: "brule list"
  po_kind :: policy_kind

section \<open>Parameters\<close>

fun op_collect_parameters :: "bop \<Rightarrow> params \<Rightarrow> params" where
  "op_collect_parameters (BValue t) ps =
     (case t of BParameter p \<Rightarrow> AList.update p None ps | _ \<Rightarrow> ps)"
| "op_collect_parameters (BClosure _ ops) ps = fold op_collect_parameters ops ps"
| "op_collect_parameters _ ps = ps"

fun op_apply_parameters :: "params \<Rightarrow> bop \<Rightarrow> bop" where
  "op_apply_parameters ps (BValue t) =
     (case t of
        BParameter p \<Rightarrow> (case map_of ps p of Some (Some u) \<Rightarrow> BValue u | _ \<Rightarrow> BValue t)
      | _ \<Rightarrow> BValue t)"
| "op_apply_parameters ps (BUnary u) = BUnary u"
| "op_apply_parameters ps (BBinary b) = BBinary b"
| "op_apply_parameters ps (BClosure args ops) = BClosure args (map (op_apply_parameters ps) ops)"

definition fact_new :: "string \<Rightarrow> bterm list \<Rightarrow> bfact" where
  "fact_new name ts =
     \<lparr>bf_predicate = \<lparr>bp_name = name, bp_terms = ts\<rparr>,
      bf_parameters = Some (fold extract_parameters ts [])\<rparr>"

definition unset_parameters :: "('k \<times> 'v option) list \<Rightarrow> 'k list" where
  "unset_parameters ps = map fst (filter (\<lambda>(name, v). v = None) ps)"

definition fact_validate :: "bfact \<Rightarrow> (token_error, unit) outcome" where
  "fact_validate f =
     (case bf_parameters f of
        None \<Rightarrow> Ok ()
      | Some ps \<Rightarrow>
          (if unset_parameters ps = [] then Ok ()
           else Err (Token_Language (Parameters (unset_parameters ps) []))))"

text \<open>\<open>set\<close> and \<open>set_lenient\<close>, shared by facts, rules and scopes.\<close>

definition unused_parameter :: "string \<Rightarrow> token_error" where
  "unused_parameter name = Token_Language (Parameters [] [name])"

definition set_parameter ::
    "string \<Rightarrow> 'v \<Rightarrow> (string \<times> 'v option) list option \<Rightarrow> (token_error, (string \<times> 'v option) list option) outcome" where
  "set_parameter name v parameters =
     (case parameters of
        None \<Rightarrow> Err (unused_parameter name)
      | Some ps \<Rightarrow>
          (case map_of ps name of
             None \<Rightarrow> Err (unused_parameter name)
           | Some _ \<Rightarrow> Ok (Some (AList.update name (Some v) ps))))"

definition set_parameter_lenient ::
    "string \<Rightarrow> 'v \<Rightarrow> (string \<times> 'v option) list option \<Rightarrow> (token_error, (string \<times> 'v option) list option) outcome" where
  "set_parameter_lenient name v parameters =
     (case parameters of
        None \<Rightarrow> Err (unused_parameter name)
      | Some ps \<Rightarrow>
          (case map_of ps name of
             None \<Rightarrow> Ok (Some ps)
           | Some _ \<Rightarrow> Ok (Some (AList.update name (Some v) ps))))"

definition fact_set :: "string \<Rightarrow> bterm \<Rightarrow> bfact \<Rightarrow> (token_error, bfact) outcome" where
  "fact_set name t f =
     obind (set_parameter name t (bf_parameters f)) (\<lambda>ps. Ok (f\<lparr>bf_parameters := ps\<rparr>))"

definition fact_set_lenient :: "string \<Rightarrow> bterm \<Rightarrow> bfact \<Rightarrow> (token_error, bfact) outcome" where
  "fact_set_lenient name t f =
     obind (set_parameter_lenient name t (bf_parameters f)) (\<lambda>ps. Ok (f\<lparr>bf_parameters := ps\<rparr>))"

definition fact_apply_parameters :: "bfact \<Rightarrow> bfact" where
  "fact_apply_parameters f =
     (case bf_parameters f of
        None \<Rightarrow> f
      | Some ps \<Rightarrow>
          f\<lparr>bf_predicate := (bf_predicate f)\<lparr>bp_terms :=
              map (term_apply_parameters ps) (bp_terms (bf_predicate f))\<rparr>\<rparr>)"

fun scope_collect :: "bscope \<Rightarrow> scope_params \<Rightarrow> scope_params" where
  "scope_collect (BScope_Parameter p) ps = AList.update p None ps"
| "scope_collect _ ps = ps"

definition rule_new :: "bpredicate \<Rightarrow> bpredicate list \<Rightarrow> bexpression list \<Rightarrow> bscope list \<Rightarrow> brule" where
  "rule_new head body es scopes =
     (let ps = fold extract_parameters (bp_terms head) [];
          ps = fold (\<lambda>p. fold extract_parameters (bp_terms p)) body ps;
          ps = fold (\<lambda>e. fold op_collect_parameters (be_ops e)) es ps
      in \<lparr>br_head = head, br_body = body, br_expressions = es, br_parameters = Some ps,
          br_scopes = scopes, br_scope_parameters = Some (fold scope_collect scopes [])\<rparr>)"

definition rule_validate_parameters :: "brule \<Rightarrow> (token_error, unit) outcome" where
  "rule_validate_parameters r =
     (let missing =
        (case br_parameters r of None \<Rightarrow> [] | Some ps \<Rightarrow> unset_parameters ps) @
        (case br_scope_parameters r of None \<Rightarrow> [] | Some ps \<Rightarrow> unset_parameters ps)
      in if missing = [] then Ok () else Err (Token_Language (Parameters missing [])))"

definition rule_set :: "string \<Rightarrow> bterm \<Rightarrow> brule \<Rightarrow> (token_error, brule) outcome" where
  "rule_set name t r =
     obind (set_parameter name t (br_parameters r)) (\<lambda>ps. Ok (r\<lparr>br_parameters := ps\<rparr>))"

definition rule_set_lenient :: "string \<Rightarrow> bterm \<Rightarrow> brule \<Rightarrow> (token_error, brule) outcome" where
  "rule_set_lenient name t r =
     obind (set_parameter_lenient name t (br_parameters r)) (\<lambda>ps. Ok (r\<lparr>br_parameters := ps\<rparr>))"

definition rule_set_scope :: "string \<Rightarrow> public_key \<Rightarrow> brule \<Rightarrow> (token_error, brule) outcome" where
  "rule_set_scope name k r =
     obind (set_parameter name k (br_scope_parameters r)) (\<lambda>ps. Ok (r\<lparr>br_scope_parameters := ps\<rparr>))"

definition rule_set_scope_lenient :: "string \<Rightarrow> public_key \<Rightarrow> brule \<Rightarrow> (token_error, brule) outcome" where
  "rule_set_scope_lenient name k r =
     obind (set_parameter_lenient name k (br_scope_parameters r))
       (\<lambda>ps. Ok (r\<lparr>br_scope_parameters := ps\<rparr>))"

text \<open>\<open>Rule::apply_parameters\<close> replaces a term of the head or body only when it is itself a parameter.\<close>

fun top_apply_parameters :: "params \<Rightarrow> bterm \<Rightarrow> bterm" where
  "top_apply_parameters ps (BParameter p) =
     (case map_of ps p of Some (Some t) \<Rightarrow> t | _ \<Rightarrow> BParameter p)"
| "top_apply_parameters ps t = t"

definition predicate_apply :: "params \<Rightarrow> bpredicate \<Rightarrow> bpredicate" where
  "predicate_apply ps p = p\<lparr>bp_terms := map (top_apply_parameters ps) (bp_terms p)\<rparr>"

fun scope_apply :: "scope_params \<Rightarrow> bscope \<Rightarrow> bscope" where
  "scope_apply ps (BScope_Parameter p) =
     (case map_of ps p of Some (Some k) \<Rightarrow> BScope_PublicKey k | _ \<Rightarrow> BScope_Parameter p)"
| "scope_apply ps s = s"

definition rule_apply_parameters :: "brule \<Rightarrow> brule" where
  "rule_apply_parameters r =
     (let r1 = (case br_parameters r of
            None \<Rightarrow> r
          | Some ps \<Rightarrow>
              r\<lparr>br_head := predicate_apply ps (br_head r),
                br_body := map (predicate_apply ps) (br_body r),
                br_expressions := map (\<lambda>e. e\<lparr>be_ops := map (op_apply_parameters ps) (be_ops e)\<rparr>)
                  (br_expressions r)\<rparr>)
      in case br_scope_parameters r of
           None \<Rightarrow> r1
         | Some ps \<Rightarrow> r1\<lparr>br_scopes := map (scope_apply ps) (br_scopes r1)\<rparr>)"

definition check_validate_parameters :: "bcheck \<Rightarrow> (token_error, unit) outcome" where
  "check_validate_parameters c =
     obind (traverse rule_validate_parameters (bc_queries c)) (\<lambda>_. Ok ())"

text \<open>
  \<open>Check::set\<close> and \<open>Policy::set\<close> try every query and succeed when one of them knows the parameter;
  the lenient versions stop at the first failing query, the earlier ones staying updated.
\<close>

definition set_queries ::
    "(brule \<Rightarrow> (token_error, brule) outcome) \<Rightarrow> string \<Rightarrow> brule list \<Rightarrow> (token_error, brule list) outcome" where
  "set_queries f name qs =
     (if \<exists>q \<in> set qs. is_ok (f q)
      then Ok (map (\<lambda>q. case f q of Ok q' \<Rightarrow> q' | _ \<Rightarrow> q) qs)
      else Err (unused_parameter name))"

fun set_queries_lenient ::
    "(brule \<Rightarrow> (token_error, brule) outcome) \<Rightarrow> brule list \<Rightarrow> brule list \<times> (token_error, unit) outcome" where
  "set_queries_lenient f [] = ([], Ok ())"
| "set_queries_lenient f (q # qs) =
     (case f q of
        Ok q' \<Rightarrow> (case set_queries_lenient f qs of (qs', res) \<Rightarrow> (q' # qs', res))
      | Err e \<Rightarrow> (q # qs, Err e)
      | Panic \<Rightarrow> (q # qs, Panic))"

definition check_set :: "string \<Rightarrow> bterm \<Rightarrow> bcheck \<Rightarrow> (token_error, bcheck) outcome" where
  "check_set name t c =
     obind (set_queries (rule_set name t) name (bc_queries c)) (\<lambda>qs. Ok (c\<lparr>bc_queries := qs\<rparr>))"

definition check_set_scope :: "string \<Rightarrow> public_key \<Rightarrow> bcheck \<Rightarrow> (token_error, bcheck) outcome" where
  "check_set_scope name k c =
     obind (set_queries (rule_set_scope name k) name (bc_queries c)) (\<lambda>qs. Ok (c\<lparr>bc_queries := qs\<rparr>))"

definition check_set_lenient :: "string \<Rightarrow> bterm \<Rightarrow> bcheck \<Rightarrow> bcheck \<times> (token_error, unit) outcome" where
  "check_set_lenient name t c =
     (case set_queries_lenient (rule_set_lenient name t) (bc_queries c) of
        (qs, res) \<Rightarrow> (c\<lparr>bc_queries := qs\<rparr>, res))"

definition check_set_scope_lenient ::
    "string \<Rightarrow> public_key \<Rightarrow> bcheck \<Rightarrow> bcheck \<times> (token_error, unit) outcome" where
  "check_set_scope_lenient name k c =
     (case set_queries_lenient (rule_set_scope_lenient name k) (bc_queries c) of
        (qs, res) \<Rightarrow> (c\<lparr>bc_queries := qs\<rparr>, res))"

definition check_apply_parameters :: "bcheck \<Rightarrow> bcheck" where
  "check_apply_parameters c = c\<lparr>bc_queries := map rule_apply_parameters (bc_queries c)\<rparr>"

definition policy_set :: "string \<Rightarrow> bterm \<Rightarrow> policy \<Rightarrow> (token_error, policy) outcome" where
  "policy_set name t c =
     obind (set_queries (rule_set name t) name (po_queries c)) (\<lambda>qs. Ok (c\<lparr>po_queries := qs\<rparr>))"

definition policy_set_scope :: "string \<Rightarrow> public_key \<Rightarrow> policy \<Rightarrow> (token_error, policy) outcome" where
  "policy_set_scope name k c =
     obind (set_queries (rule_set_scope name k) name (po_queries c)) (\<lambda>qs. Ok (c\<lparr>po_queries := qs\<rparr>))"

definition policy_set_lenient :: "string \<Rightarrow> bterm \<Rightarrow> policy \<Rightarrow> policy \<times> (token_error, unit) outcome" where
  "policy_set_lenient name t c =
     (case set_queries_lenient (rule_set_lenient name t) (po_queries c) of
        (qs, res) \<Rightarrow> (c\<lparr>po_queries := qs\<rparr>, res))"

definition policy_set_scope_lenient ::
    "string \<Rightarrow> public_key \<Rightarrow> policy \<Rightarrow> policy \<times> (token_error, unit) outcome" where
  "policy_set_scope_lenient name k c =
     (case set_queries_lenient (rule_set_scope_lenient name k) (po_queries c) of
        (qs, res) \<Rightarrow> (c\<lparr>po_queries := qs\<rparr>, res))"

definition policy_validate_parameters :: "policy \<Rightarrow> (token_error, unit) outcome" where
  "policy_validate_parameters c =
     obind (traverse rule_validate_parameters (po_queries c)) (\<lambda>_. Ok ())"

definition policy_apply_parameters :: "policy \<Rightarrow> policy" where
  "policy_apply_parameters c = c\<lparr>po_queries := map rule_apply_parameters (po_queries c)\<rparr>"

section \<open>Conversion to the engine\<close>

fun unary_convert :: "bunary \<Rightarrow> symbol_table \<Rightarrow> unary \<times> symbol_table" where
  "unary_convert BNegate s = (Negate, s)"
| "unary_convert BParens s = (Parens, s)"
| "unary_convert BLength s = (Length, s)"
| "unary_convert BTypeOf s = (TypeOf, s)"
| "unary_convert (BFfi_unary n) s = (case st_insert n s of (i, s') \<Rightarrow> (Ffi_unary i, s'))"

fun binary_convert :: "bbinary \<Rightarrow> symbol_table \<Rightarrow> binary \<times> symbol_table" where
  "binary_convert BLessThan s = (LessThan, s)"
| "binary_convert BGreaterThan s = (GreaterThan, s)"
| "binary_convert BLessOrEqual s = (LessOrEqual, s)"
| "binary_convert BGreaterOrEqual s = (GreaterOrEqual, s)"
| "binary_convert BEqual s = (Equal, s)"
| "binary_convert BContains s = (Contains, s)"
| "binary_convert BPrefix s = (Prefix, s)"
| "binary_convert BSuffix s = (Suffix, s)"
| "binary_convert BRegex s = (Regex, s)"
| "binary_convert BAdd s = (Add, s)"
| "binary_convert BSub s = (Sub, s)"
| "binary_convert BMul s = (Mul, s)"
| "binary_convert BDiv s = (Div, s)"
| "binary_convert BAnd_op s = (And_op, s)"
| "binary_convert BOr_op s = (Or_op, s)"
| "binary_convert BIntersection s = (Intersection, s)"
| "binary_convert BUnion_op s = (Union_op, s)"
| "binary_convert BBitwiseAnd s = (BitwiseAnd, s)"
| "binary_convert BBitwiseOr s = (BitwiseOr, s)"
| "binary_convert BBitwiseXor s = (BitwiseXor, s)"
| "binary_convert BNotEqual s = (NotEqual, s)"
| "binary_convert BHeterogeneousEqual s = (HeterogeneousEqual, s)"
| "binary_convert BHeterogeneousNotEqual s = (HeterogeneousNotEqual, s)"
| "binary_convert BLazyAnd s = (LazyAnd, s)"
| "binary_convert BLazyOr s = (LazyOr, s)"
| "binary_convert BAll_op s = (All_op, s)"
| "binary_convert BAny_op s = (Any_op, s)"
| "binary_convert BGet s = (Get, s)"
| "binary_convert (BFfi n) s = (case st_insert n s of (i, s') \<Rightarrow> (Ffi i, s'))"
| "binary_convert BTryOr s = (TryOr, s)"

definition insert_u32 :: "string \<Rightarrow> symbol_table \<Rightarrow> (nat \<times> symbol_table) option" where
  "insert_u32 p s = (case st_insert p s of (i, s') \<Rightarrow> Some (as_u32 i, s'))"

fun op_convert :: "bop \<Rightarrow> symbol_table \<Rightarrow> (op \<times> symbol_table) option" where
  "op_convert (BValue t) s = map_option (\<lambda>(d, s'). (Value d, s')) (term_convert t s)"
| "op_convert (BUnary u) s = (case unary_convert u s of (v, s') \<Rightarrow> Some (Unary v, s'))"
| "op_convert (BBinary b) s = (case binary_convert b s of (v, s') \<Rightarrow> Some (Binary v, s'))"
| "op_convert (BClosure ps os) s =
     (case smap insert_u32 ps s of
        None \<Rightarrow> None
      | Some (qs, s') \<Rightarrow> map_option (\<lambda>(ops, s''). (Closure qs ops, s'')) (smap op_convert os s'))"

definition expression_convert :: "bexpression \<Rightarrow> symbol_table \<Rightarrow> (expression \<times> symbol_table) option" where
  "expression_convert e s = map_option (\<lambda>(ops, s'). (\<lparr>e_ops = ops\<rparr>, s')) (smap op_convert (be_ops e) s)"

definition predicate_convert :: "bpredicate \<Rightarrow> symbol_table \<Rightarrow> (predicate \<times> symbol_table) option" where
  "predicate_convert p s =
     (case st_insert (bp_name p) s of
        (i, s') \<Rightarrow>
          map_option (\<lambda>(ts, s''). (\<lparr>p_name = i, p_terms = ts\<rparr>, s'')) (smap term_convert (bp_terms p) s'))"

fun scope_convert :: "bscope \<Rightarrow> symbol_table \<Rightarrow> (scope \<times> symbol_table) option" where
  "scope_convert BScope_Authority s = Some (Scope_Authority, s)"
| "scope_convert BScope_Previous s = Some (Scope_Previous, s)"
| "scope_convert (BScope_PublicKey k) s =
     (case pk_insert k (st_public_keys s) of
        (i, keys) \<Rightarrow> Some (Scope_PublicKey i, s\<lparr>st_public_keys := keys\<rparr>))"
| "scope_convert (BScope_Parameter p) s = None"

definition fact_convert :: "bfact \<Rightarrow> symbol_table \<Rightarrow> (fact \<times> symbol_table) option" where
  "fact_convert f s =
     map_option (\<lambda>(p, s'). (\<lparr>f_predicate = p\<rparr>, s'))
       (predicate_convert (bf_predicate (fact_apply_parameters f)) s)"

text \<open>The body of \<open>Rule::convert\<close> after the parameters were applied.\<close>

definition plain_rule_convert :: "brule \<Rightarrow> symbol_table \<Rightarrow> (rule \<times> symbol_table) option" where
  "plain_rule_convert r s =
     (case predicate_convert (br_head r) s of None \<Rightarrow> None
      | Some (head, s1) \<Rightarrow>
     (case smap predicate_convert (br_body r) s1 of None \<Rightarrow> None
      | Some (body, s2) \<Rightarrow>
     (case smap expression_convert (br_expressions r) s2 of None \<Rightarrow> None
      | Some (es, s3) \<Rightarrow>
     (case smap scope_convert (br_scopes r) s3 of None \<Rightarrow> None
      | Some (scopes, s4) \<Rightarrow>
          Some (\<lparr>r_head = head, r_body = body, r_expressions = es, r_scopes = scopes\<rparr>, s4)))))"

definition rule_convert :: "brule \<Rightarrow> symbol_table \<Rightarrow> (rule \<times> symbol_table) option" where
  "rule_convert r s = plain_rule_convert (rule_apply_parameters r) s"

definition check_convert :: "bcheck \<Rightarrow> symbol_table \<Rightarrow> (check \<times> symbol_table) option" where
  "check_convert c s =
     map_option (\<lambda>(qs, s'). (\<lparr>c_queries = qs, c_kind = bc_kind c\<rparr>, s'))
       (smap rule_convert (bc_queries c) s)"

section \<open>Conversion from the engine\<close>

fun unary_convert_from :: "unary \<Rightarrow> symbol_table \<Rightarrow> (format_error, bunary) outcome" where
  "unary_convert_from Negate s = Ok BNegate"
| "unary_convert_from Parens s = Ok BParens"
| "unary_convert_from Length s = Ok BLength"
| "unary_convert_from TypeOf s = Ok BTypeOf"
| "unary_convert_from (Ffi_unary i) s = obind (print_symbol s i) (\<lambda>n. Ok (BFfi_unary n))"

fun binary_convert_from :: "binary \<Rightarrow> symbol_table \<Rightarrow> (format_error, bbinary) outcome" where
  "binary_convert_from LessThan s = Ok BLessThan"
| "binary_convert_from GreaterThan s = Ok BGreaterThan"
| "binary_convert_from LessOrEqual s = Ok BLessOrEqual"
| "binary_convert_from GreaterOrEqual s = Ok BGreaterOrEqual"
| "binary_convert_from Equal s = Ok BEqual"
| "binary_convert_from Contains s = Ok BContains"
| "binary_convert_from Prefix s = Ok BPrefix"
| "binary_convert_from Suffix s = Ok BSuffix"
| "binary_convert_from Regex s = Ok BRegex"
| "binary_convert_from Add s = Ok BAdd"
| "binary_convert_from Sub s = Ok BSub"
| "binary_convert_from Mul s = Ok BMul"
| "binary_convert_from Div s = Ok BDiv"
| "binary_convert_from And_op s = Ok BAnd_op"
| "binary_convert_from Or_op s = Ok BOr_op"
| "binary_convert_from Intersection s = Ok BIntersection"
| "binary_convert_from Union_op s = Ok BUnion_op"
| "binary_convert_from BitwiseAnd s = Ok BBitwiseAnd"
| "binary_convert_from BitwiseOr s = Ok BBitwiseOr"
| "binary_convert_from BitwiseXor s = Ok BBitwiseXor"
| "binary_convert_from NotEqual s = Ok BNotEqual"
| "binary_convert_from HeterogeneousEqual s = Ok BHeterogeneousEqual"
| "binary_convert_from HeterogeneousNotEqual s = Ok BHeterogeneousNotEqual"
| "binary_convert_from LazyAnd s = Ok BLazyAnd"
| "binary_convert_from LazyOr s = Ok BLazyOr"
| "binary_convert_from All_op s = Ok BAll_op"
| "binary_convert_from Any_op s = Ok BAny_op"
| "binary_convert_from Get s = Ok BGet"
| "binary_convert_from (Ffi i) s = obind (print_symbol s i) (\<lambda>n. Ok (BFfi n))"
| "binary_convert_from TryOr s = Ok BTryOr"

fun op_convert_from :: "op \<Rightarrow> symbol_table \<Rightarrow> (format_error, bop) outcome" where
  "op_convert_from (Value t) s = obind (term_convert_from t s) (\<lambda>b. Ok (BValue b))"
| "op_convert_from (Unary u) s = obind (unary_convert_from u s) (\<lambda>b. Ok (BUnary b))"
| "op_convert_from (Binary b) s = obind (binary_convert_from b s) (\<lambda>b. Ok (BBinary b))"
| "op_convert_from (Closure ps os) s =
     obind (traverse (print_symbol s) ps) (\<lambda>qs.
       obind (traverse (\<lambda>p. op_convert_from p s) os) (\<lambda>ops. Ok (BClosure qs ops)))"

definition expression_convert_from :: "expression \<Rightarrow> symbol_table \<Rightarrow> (format_error, bexpression) outcome" where
  "expression_convert_from e s =
     obind (traverse (\<lambda>p. op_convert_from p s) (e_ops e)) (\<lambda>ops. Ok \<lparr>be_ops = ops\<rparr>)"

definition predicate_convert_from :: "predicate \<Rightarrow> symbol_table \<Rightarrow> (format_error, bpredicate) outcome" where
  "predicate_convert_from p s =
     obind (print_symbol s (p_name p)) (\<lambda>name.
       obind (traverse (\<lambda>t. term_convert_from t s) (p_terms p)) (\<lambda>ts.
         Ok \<lparr>bp_name = name, bp_terms = ts\<rparr>))"

fun scope_convert_from :: "scope \<Rightarrow> symbol_table \<Rightarrow> (format_error, bscope) outcome" where
  "scope_convert_from Scope_Authority s = Ok BScope_Authority"
| "scope_convert_from Scope_Previous s = Ok BScope_Previous"
| "scope_convert_from (Scope_PublicKey i) s =
     obind (ok_or UnknownExternalKey (pk_get_key (st_public_keys s) i)) (\<lambda>k. Ok (BScope_PublicKey k))"

definition fact_convert_from :: "fact \<Rightarrow> symbol_table \<Rightarrow> (format_error, bfact) outcome" where
  "fact_convert_from f s =
     obind (predicate_convert_from (f_predicate f) s) (\<lambda>p. Ok \<lparr>bf_predicate = p, bf_parameters = None\<rparr>)"

definition rule_convert_from :: "rule \<Rightarrow> symbol_table \<Rightarrow> (format_error, brule) outcome" where
  "rule_convert_from r s =
     obind (predicate_convert_from (r_head r) s) (\<lambda>head.
     obind (traverse (\<lambda>p. predicate_convert_from p s) (r_body r)) (\<lambda>body.
     obind (traverse (\<lambda>e. expression_convert_from e s) (r_expressions r)) (\<lambda>es.
     obind (traverse (\<lambda>c. scope_convert_from c s) (r_scopes r)) (\<lambda>scopes.
       Ok \<lparr>br_head = head, br_body = body, br_expressions = es, br_parameters = None,
           br_scopes = scopes, br_scope_parameters = None\<rparr>))))"

definition check_convert_from :: "check \<Rightarrow> symbol_table \<Rightarrow> (format_error, bcheck) outcome" where
  "check_convert_from c s =
     obind (traverse (\<lambda>q. rule_convert_from q s) (c_queries c)) (\<lambda>qs.
       Ok \<lparr>bc_queries = qs, bc_kind = c_kind c\<rparr>)"

section \<open>Translation between tables\<close>

text \<open>\<open>datalog::Rule::translate\<close>: each part is read from the source table and written at once.\<close>

definition predicate_translate ::
    "symbol_table \<Rightarrow> predicate \<Rightarrow> symbol_table \<Rightarrow> (format_error, predicate \<times> symbol_table) outcome" where
  "predicate_translate src p = read_then_write (predicate_convert_from p src) predicate_convert"

definition rule_translate ::
    "symbol_table \<Rightarrow> rule \<Rightarrow> symbol_table \<Rightarrow> (format_error, rule \<times> symbol_table) outcome" where
  "rule_translate src r dst =
     obind (predicate_translate src (r_head r) dst) (\<lambda>(head, s1).
     obind (otraverse (predicate_translate src) (r_body r) s1) (\<lambda>(body, s2).
     obind (otraverse (\<lambda>e. read_then_write (expression_convert_from e src) expression_convert)
              (r_expressions r) s2) (\<lambda>(es, s3).
     obind (otraverse (\<lambda>c. read_then_write (scope_convert_from c src) scope_convert)
              (r_scopes r) s3) (\<lambda>(scopes, s4).
       Ok (\<lparr>r_head = head, r_body = body, r_expressions = es, r_scopes = scopes\<rparr>, s4)))))"

definition fact_translate ::
    "symbol_table \<Rightarrow> fact \<Rightarrow> symbol_table \<Rightarrow> (format_error, fact \<times> symbol_table) outcome" where
  "fact_translate src f = read_then_write (fact_convert_from f src) fact_convert"

definition check_translate ::
    "symbol_table \<Rightarrow> check \<Rightarrow> symbol_table \<Rightarrow> (format_error, check \<times> symbol_table) outcome" where
  "check_translate src c = read_then_write (check_convert_from c src) check_convert"

end
