(* ===== verification/Convert.thy ===== *)
theory Convert
  imports Keys Versions Builder
begin

text \<open>
  Between the engine's data and the messages of the wire format (\<open>format/convert.rs\<close>), and the
  block of a token (\<open>token/block.rs\<close>).  Writing never fails; reading refuses empty messages,
  unknown enumeration numbers, sets that are not homogeneous or hold variables or sets, and the
  features a declared version does not have.
\<close>

section \<open>Blocks\<close>

record block =
  bl_symbols :: symbol_table
  bl_facts :: "fact list"
  bl_rules :: "rule list"
  bl_checks :: "check list"
  bl_context :: "string option"
  bl_version :: nat
  bl_external_key :: "public_key option"
  bl_public_keys :: public_keys
  bl_scopes :: "scope list"

section \<open>Terms\<close>

fun key_to_proto :: "map_key \<Rightarrow> pmap_key" where
  "key_to_proto (KInteger i) = Key_Integer i"
| "key_to_proto (KStr s) = Key_String s"

fun token_term_to_proto_id :: "dterm \<Rightarrow> pterm" where
  "token_term_to_proto_id (Variable v) = Term_Variable v"
| "token_term_to_proto_id (Integer i) = Term_Integer i"
| "token_term_to_proto_id (Str s) = Term_String s"
| "token_term_to_proto_id (Date d) = Term_Date d"
| "token_term_to_proto_id (Bytes s) = Term_Bytes s"
| "token_term_to_proto_id (Bool b) = Term_Bool b"
| "token_term_to_proto_id (Set s) = Term_Set (map token_term_to_proto_id s)"
| "token_term_to_proto_id Null = Term_Null"
| "token_term_to_proto_id (Array a) = Term_Array (map token_term_to_proto_id a)"
| "token_term_to_proto_id (Map m) =
     Term_Map (map (\<lambda>(k, t). (key_to_proto k, token_term_to_proto_id t)) m)"

definition deserialization_error :: "string \<Rightarrow> format_error" where
  "deserialization_error s = DeserializationError (''deserialization error: '' @ s)"

fun key_from_proto :: "pmap_key \<Rightarrow> (format_error, map_key) outcome" where
  "key_from_proto (Key_Integer i) = Ok (KInteger i)"
| "key_from_proto (Key_String s) = Ok (KStr s)"
| "key_from_proto Key_Empty = Err (deserialization_error ''ID content enum is empty'')"

text \<open>The type number of an element of a set.\<close>

fun set_index :: "pterm \<Rightarrow> (format_error, nat) outcome" where
  "set_index (Term_Variable _) = Err (deserialization_error ''sets cannot contain variables'')"
| "set_index (Term_Integer _) = Ok 2"
| "set_index (Term_String _) = Ok 3"
| "set_index (Term_Date _) = Ok 4"
| "set_index (Term_Bytes _) = Ok 5"
| "set_index (Term_Bool _) = Ok 6"
| "set_index (Term_Set _) = Err (deserialization_error ''sets cannot contain other sets'')"
| "set_index Term_Null = Ok 8"
| "set_index (Term_Array _) = Ok 9"
| "set_index (Term_Map _) = Ok 10"
| "set_index Term_Empty = Err (deserialization_error ''ID content enum is empty'')"

text \<open>The loop over the elements of a set, with the type seen so far and the set built so far.\<close>

fun set_loop :: "(pterm \<Rightarrow> (format_error, dterm) outcome) \<Rightarrow> nat option \<Rightarrow> dterm list \<Rightarrow> pterm list \<Rightarrow>
    (format_error, dterm list) outcome" where
  "set_loop f kind acc [] = Ok acc"
| "set_loop f kind acc (x # xs) =
     obind (set_index x) (\<lambda>index.
       if kind \<noteq> None \<and> kind \<noteq> Some index then
         Err (deserialization_error ''sets elements must have the same type'')
       else obind (f x) (\<lambda>t. set_loop f (Some index) (bt_insert t acc) xs))"

lemma set_loop_cong [fundef_cong]:
  "kind = kind' \<Longrightarrow> acc = acc' \<Longrightarrow> xs = ys \<Longrightarrow> (\<And>x. x \<in> set ys \<Longrightarrow> f x = g x) \<Longrightarrow>
     set_loop f kind acc xs = set_loop g kind' acc' ys"
proof (induction ys arbitrary: kind acc kind' acc' xs)
  case (Cons y ys)
  have "set_loop f k a ys = set_loop g k a ys" for k a
    by (rule Cons.IH) (simp_all add: Cons.prems(4))
  moreover have "f y = g y" by (simp add: Cons.prems(4))
  ultimately show ?case by (simp add: Cons.prems(1-3) cong: if_cong)
qed simp

fun proto_id_to_token_term :: "pterm \<Rightarrow> (format_error, dterm) outcome" where
  "proto_id_to_token_term Term_Empty = Err (deserialization_error ''ID content enum is empty'')"
| "proto_id_to_token_term (Term_Variable i) = Ok (Variable i)"
| "proto_id_to_token_term (Term_Integer i) = Ok (Integer i)"
| "proto_id_to_token_term (Term_String s) = Ok (Str s)"
| "proto_id_to_token_term (Term_Date i) = Ok (Date i)"
| "proto_id_to_token_term (Term_Bytes s) = Ok (Bytes s)"
| "proto_id_to_token_term (Term_Bool b) = Ok (Bool b)"
| "proto_id_to_token_term (Term_Set s) =
     obind (set_loop proto_id_to_token_term None [] s) (\<lambda>ts. Ok (Set ts))"
| "proto_id_to_token_term Term_Null = Ok Null"
| "proto_id_to_token_term (Term_Array a) =
     obind (traverse proto_id_to_token_term a) (\<lambda>ts. Ok (Array ts))"
| "proto_id_to_token_term (Term_Map m) =
     obind (traverse (\<lambda>(k, v). obind (key_from_proto k) (\<lambda>l.
         obind (proto_id_to_token_term v) (\<lambda>t. Ok (l, t)))) m)
       (\<lambda>es. Ok (Map (bm_of_list es)))"

section \<open>Predicates and facts\<close>

definition token_predicate_to_proto_predicate :: "predicate \<Rightarrow> ppredicate" where
  "token_predicate_to_proto_predicate p =
     \<lparr>pp_name = p_name p, pp_terms = map token_term_to_proto_id (p_terms p)\<rparr>"

definition proto_predicate_to_token_predicate :: "ppredicate \<Rightarrow> (format_error, predicate) outcome" where
  "proto_predicate_to_token_predicate p =
     obind (traverse proto_id_to_token_term (pp_terms p)) (\<lambda>ts. Ok \<lparr>p_name = pp_name p, p_terms = ts\<rparr>)"

definition token_fact_to_proto_fact :: "fact \<Rightarrow> pfact" where
  "token_fact_to_proto_fact f = \<lparr>pf_predicate = token_predicate_to_proto_predicate (f_predicate f)\<rparr>"

definition proto_fact_to_token_fact :: "pfact \<Rightarrow> (format_error, fact) outcome" where
  "proto_fact_to_token_fact f =
     obind (proto_predicate_to_token_predicate (pf_predicate f)) (\<lambda>p. Ok \<lparr>f_predicate = p\<rparr>)"

section \<open>Expressions\<close>

fun kind_of_unary :: "unary \<Rightarrow> unary_kind" where
  "kind_of_unary Negate = UK_Negate"
| "kind_of_unary Parens = UK_Parens"
| "kind_of_unary Length = UK_Length"
| "kind_of_unary TypeOf = UK_TypeOf"
| "kind_of_unary (Ffi_unary _) = UK_Ffi"

fun ffi_of_unary :: "unary \<Rightarrow> nat option" where
  "ffi_of_unary (Ffi_unary n) = Some n"
| "ffi_of_unary _ = None"

fun kind_of_binary :: "binary \<Rightarrow> binary_kind" where
  "kind_of_binary LessThan = BK_LessThan"
| "kind_of_binary GreaterThan = BK_GreaterThan"
| "kind_of_binary LessOrEqual = BK_LessOrEqual"
| "kind_of_binary GreaterOrEqual = BK_GreaterOrEqual"
| "kind_of_binary Equal = BK_Equal"
| "kind_of_binary Contains = BK_Contains"
| "kind_of_binary Prefix = BK_Prefix"
| "kind_of_binary Suffix = BK_Suffix"
| "kind_of_binary Regex = BK_Regex"
| "kind_of_binary Add = BK_Add"
| "kind_of_binary Sub = BK_Sub"
| "kind_of_binary Mul = BK_Mul"
| "kind_of_binary Div = BK_Div"
| "kind_of_binary And_op = BK_And"
| "kind_of_binary Or_op = BK_Or"
| "kind_of_binary Intersection = BK_Intersection"
| "kind_of_binary Union_op = BK_Union"
| "kind_of_binary BitwiseAnd = BK_BitwiseAnd"
| "kind_of_binary BitwiseOr = BK_BitwiseOr"
| "kind_of_binary BitwiseXor = BK_BitwiseXor"
| "kind_of_binary NotEqual = BK_NotEqual"
| "kind_of_binary HeterogeneousEqual = BK_HeterogeneousEqual"
| "kind_of_binary HeterogeneousNotEqual = BK_HeterogeneousNotEqual"
| "kind_of_binary LazyAnd = BK_LazyAnd"
| "kind_of_binary LazyOr = BK_LazyOr"
| "kind_of_binary All_op = BK_All"
| "kind_of_binary Any_op = BK_Any"
| "kind_of_binary Get = BK_Get"
| "kind_of_binary (Ffi _) = BK_Ffi"
| "kind_of_binary TryOr = BK_TryOr"

fun ffi_of_binary :: "binary \<Rightarrow> nat option" where
  "ffi_of_binary (Ffi n) = Some n"
| "ffi_of_binary _ = None"

fun token_op_to_proto_op :: "op \<Rightarrow> pop" where
  "token_op_to_proto_op (Value t) = Op_Value (token_term_to_proto_id t)"
| "token_op_to_proto_op (Unary u) =
     Op_Unary \<lparr>pu_kind = tag_in unary_kinds (kind_of_unary u), pu_ffi_name = ffi_of_unary u\<rparr>"
| "token_op_to_proto_op (Binary b) =
     Op_Binary \<lparr>pb_kind = tag_in binary_kinds (kind_of_binary b), pb_ffi_name = ffi_of_binary b\<rparr>"
| "token_op_to_proto_op (Closure ps ops) = Op_Closure ps (map token_op_to_proto_op ops)"

text \<open>The operation of a kind without a foreign name.\<close>

fun plain_unary :: "unary_kind \<Rightarrow> unary option" where
  "plain_unary UK_Negate = Some Negate"
| "plain_unary UK_Parens = Some Parens"
| "plain_unary UK_Length = Some Length"
| "plain_unary UK_TypeOf = Some TypeOf"
| "plain_unary UK_Ffi = None"

fun plain_binary :: "binary_kind \<Rightarrow> binary option" where
  "plain_binary BK_LessThan = Some LessThan"
| "plain_binary BK_GreaterThan = Some GreaterThan"
| "plain_binary BK_LessOrEqual = Some LessOrEqual"
| "plain_binary BK_GreaterOrEqual = Some GreaterOrEqual"
| "plain_binary BK_Equal = Some Equal"
| "plain_binary BK_Contains = Some Contains"
| "plain_binary BK_Prefix = Some Prefix"
| "plain_binary BK_Suffix = Some Suffix"
| "plain_binary BK_Regex = Some Regex"
| "plain_binary BK_Add = Some Add"
| "plain_binary BK_Sub = Some Sub"
| "plain_binary BK_Mul = Some Mul"
| "plain_binary BK_Div = Some Div"
| "plain_binary BK_And = Some And_op"
| "plain_binary BK_Or = Some Or_op"
| "plain_binary BK_Intersection = Some Intersection"
| "plain_binary BK_Union = Some Union_op"
| "plain_binary BK_BitwiseAnd = Some BitwiseAnd"
| "plain_binary BK_BitwiseOr = Some BitwiseOr"
| "plain_binary BK_BitwiseXor = Some BitwiseXor"
| "plain_binary BK_NotEqual = Some NotEqual"
| "plain_binary BK_HeterogeneousEqual = Some HeterogeneousEqual"
| "plain_binary BK_HeterogeneousNotEqual = Some HeterogeneousNotEqual"
| "plain_binary BK_LazyAnd = Some LazyAnd"
| "plain_binary BK_LazyOr = Some LazyOr"
| "plain_binary BK_All = Some All_op"
| "plain_binary BK_Any = Some Any_op"
| "plain_binary BK_Get = Some Get"
| "plain_binary BK_Ffi = None"
| "plain_binary BK_TryOr = Some TryOr"

definition unary_from_proto :: "pop_unary \<Rightarrow> (format_error, unary) outcome" where
  "unary_from_proto u =
     (case of_tag_in unary_kinds (pu_kind u) of
        None \<Rightarrow> Err (deserialization_error ''unary operation is empty'')
      | Some k \<Rightarrow>
          (case (plain_unary k, pu_ffi_name u) of
             (Some op, None) \<Rightarrow> Ok op
           | (None, Some n) \<Rightarrow> Ok (Ffi_unary n)
           | (None, None) \<Rightarrow> Err (deserialization_error ''missing ffi name'')
           | (Some _, Some _) \<Rightarrow>
               Err (deserialization_error ''ffi name set on a regular unary operation'')))"

definition binary_from_proto :: "pop_binary \<Rightarrow> (format_error, binary) outcome" where
  "binary_from_proto b =
     (case of_tag_in binary_kinds (pb_kind b) of
        None \<Rightarrow> Err (deserialization_error ''binary operation is empty'')
      | Some k \<Rightarrow>
          (case (plain_binary k, pb_ffi_name b) of
             (Some op, None) \<Rightarrow> Ok op
           | (None, Some n) \<Rightarrow> Ok (Ffi n)
           | (None, None) \<Rightarrow> Err (deserialization_error ''missing ffi name'')
           | (Some _, Some _) \<Rightarrow>
               Err (deserialization_error ''ffi name set on a regular binary operation'')))"

fun proto_op_to_token_op :: "pop \<Rightarrow> (format_error, op) outcome" where
  "proto_op_to_token_op (Op_Value t) = obind (proto_id_to_token_term t) (\<lambda>u. Ok (Value u))"
| "proto_op_to_token_op (Op_Unary u) = obind (unary_from_proto u) (\<lambda>v. Ok (Unary v))"
| "proto_op_to_token_op (Op_Binary b) = obind (binary_from_proto b) (\<lambda>v. Ok (Binary v))"
| "proto_op_to_token_op (Op_Closure ps ops) =
     obind (traverse proto_op_to_token_op ops) (\<lambda>os. Ok (Closure ps os))"
| "proto_op_to_token_op Op_Empty = Err (deserialization_error ''operation is empty'')"

definition token_expression_to_proto_expression :: "expression \<Rightarrow> pexpression" where
  "token_expression_to_proto_expression e = \<lparr>pe_ops = map token_op_to_proto_op (e_ops e)\<rparr>"

definition proto_expression_to_token_expression :: "pexpression \<Rightarrow> (format_error, expression) outcome" where
  "proto_expression_to_token_expression e =
     obind (traverse proto_op_to_token_op (pe_ops e)) (\<lambda>ops. Ok \<lparr>e_ops = ops\<rparr>)"

section \<open>Scopes, rules and checks\<close>

fun token_scope_to_proto_scope :: "scope \<Rightarrow> pscope" where
  "token_scope_to_proto_scope Scope_Authority = Scope_Type (scope_type_tag ST_Authority)"
| "token_scope_to_proto_scope Scope_Previous = Scope_Type (scope_type_tag ST_Previous)"
| "token_scope_to_proto_scope (Scope_PublicKey i) = Scope_Key (word_of_nat i)"

fun proto_scope_to_token_scope :: "pscope \<Rightarrow> (format_error, scope) outcome" where
  "proto_scope_to_token_scope (Scope_Type i) =
     (if i = scope_type_tag ST_Authority then Ok Scope_Authority
      else if i = scope_type_tag ST_Previous then Ok Scope_Previous
      else Err (deserialization_error
        (''unexpected value `'' @ string_of_int i @ ''` for scope type'')))"
| "proto_scope_to_token_scope (Scope_Key i) = Ok (Scope_PublicKey (unat i))"
| "proto_scope_to_token_scope Scope_Empty =
     Err (deserialization_error ''expected `content` field in Scope'')"

definition token_rule_to_proto_rule :: "rule \<Rightarrow> prule" where
  "token_rule_to_proto_rule r =
     \<lparr>pr_head = token_predicate_to_proto_predicate (r_head r),
      pr_body = map token_predicate_to_proto_predicate (r_body r),
      pr_expressions = map token_expression_to_proto_expression (r_expressions r),
      pr_scope = map token_scope_to_proto_scope (r_scopes r)\<rparr>"

definition proto_rule_to_token_rule ::
    "prule \<Rightarrow> nat \<Rightarrow> (format_error, rule \<times> scope list) outcome" where
  "proto_rule_to_token_rule r version =
     obind (traverse proto_predicate_to_token_predicate (pr_body r)) (\<lambda>body.
     obind (traverse proto_expression_to_token_expression (pr_expressions r)) (\<lambda>es.
     if version < DATALOG_3_1 \<and> pr_scope r \<noteq> [] then
       Err (deserialization_error ''scopes are only supported in datalog v3.1+'')
     else
       obind (traverse proto_scope_to_token_scope (pr_scope r)) (\<lambda>scopes.
       obind (proto_predicate_to_token_predicate (pr_head r)) (\<lambda>head.
         Ok (\<lparr>r_head = head, r_body = body, r_expressions = es, r_scopes = scopes\<rparr>, scopes)))))"

definition token_check_to_proto_check :: "check \<Rightarrow> pcheck" where
  "token_check_to_proto_check c =
     \<lparr>pc_queries = map token_rule_to_proto_rule (c_queries c),
      pc_kind = (case c_kind c of
          One_kind \<Rightarrow> None
        | All_kind \<Rightarrow> Some (check_kind_tag CK_All)
        | Reject_kind \<Rightarrow> Some (check_kind_tag CK_Reject))\<rparr>"

text \<open>The rule of a \<open>proto_rule_to_token_rule\<close>, without the scopes it repeats.\<close>

definition proto_rule_rule :: "prule \<Rightarrow> nat \<Rightarrow> (format_error, rule) outcome" where
  "proto_rule_rule r version = obind (proto_rule_to_token_rule r version) (\<lambda>(rule, _). Ok rule)"

definition proto_check_to_token_check :: "pcheck \<Rightarrow> nat \<Rightarrow> (format_error, check) outcome" where
  "proto_check_to_token_check c version =
     obind (traverse (\<lambda>q. proto_rule_rule q version) (pc_queries c)) (\<lambda>queries.
     obind (case pc_kind c of
         None \<Rightarrow> Ok One_kind
       | Some i \<Rightarrow>
           (if i = 0 then Ok One_kind
            else if i = 1 then Ok All_kind
            else if i = 2 then Ok Reject_kind
            else Err (deserialization_error ''invalid check kind''))) (\<lambda>kind.
       Ok \<lparr>c_queries = queries, c_kind = kind\<rparr>))"

section \<open>Blocks of a token\<close>

definition token_block_to_proto_block :: "block \<Rightarrow> pblock" where
  "token_block_to_proto_block b =
     \<lparr>pbl_symbols = st_symbols (bl_symbols b),
      pbl_context = bl_context b,
      pbl_version = Some (bl_version b),
      pbl_facts = map token_fact_to_proto_fact (bl_facts b),
      pbl_rules = map token_rule_to_proto_rule (bl_rules b),
      pbl_checks = map token_check_to_proto_check (bl_checks b),
      pbl_scope = map token_scope_to_proto_scope (bl_scopes b),
      pbl_public_keys = map public_to_proto (pk_keys (bl_public_keys b))\<rparr>"

definition version_or_zero :: "nat option \<Rightarrow> nat" where
  "version_or_zero v = (case v of None \<Rightarrow> 0 | Some n \<Rightarrow> n)"

definition version_error :: "nat \<Rightarrow> format_error" where
  "version_error actual = Version_error MAX_SCHEMA_VERSION MIN_SCHEMA_VERSION actual"

definition supported_version :: "nat \<Rightarrow> bool" where
  "supported_version v \<longleftrightarrow> MIN_SCHEMA_VERSION \<le> v \<and> v \<le> MAX_SCHEMA_VERSION"

text \<open>The kinds a block below the last version may use.\<close>

definition check_kind_supported :: "nat \<Rightarrow> pcheck \<Rightarrow> (format_error, unit) outcome" where
  "check_kind_supported version c =
     (if version < DATALOG_3_1 \<and> pc_kind c \<noteq> None then
        Err (deserialization_error ''check kinds are only supported on datalog v3.1+ blocks'')
      else if version < DATALOG_3_3 \<and> pc_kind c = Some (check_kind_tag CK_Reject) then
        Err (deserialization_error ''reject if is only supported in datalog v3.3+'')
      else Ok ())"

fun insert_keys :: "primitives \<Rightarrow> ppublic_key list \<Rightarrow> public_keys \<Rightarrow> (format_error, public_keys) outcome" where
  "insert_keys p [] keys = Ok keys"
| "insert_keys p (k # ks) keys =
     obind (public_from_proto p k) (\<lambda>key.
     obind (pk_insert_fallible key keys) (\<lambda>(_, keys'). insert_keys p ks keys'))"

definition proto_block_to_token_block ::
    "primitives \<Rightarrow> pblock \<Rightarrow> public_key option \<Rightarrow> (format_error, block) outcome" where
  "proto_block_to_token_block p input external_key =
     (let version = version_or_zero (pbl_version input) in
      if \<not> supported_version version then Err (version_error version)
      else
        obind (traverse proto_fact_to_token_fact (pbl_facts input)) (\<lambda>facts.
        obind (traverse (\<lambda>r. proto_rule_rule r version) (pbl_rules input)) (\<lambda>rules.
        obind (if version < MAX_SCHEMA_VERSION
               then traverse (check_kind_supported version) (pbl_checks input) else Ok []) (\<lambda>_.
        if version < DATALOG_3_2 \<and> external_key \<noteq> None then
          Err (deserialization_error ''third-party blocks are only supported in datalog v3.2+'')
        else
        obind (traverse (\<lambda>c. proto_check_to_token_check c version) (pbl_checks input)) (\<lambda>checks.
        obind (traverse proto_scope_to_token_scope (pbl_scope input)) (\<lambda>scopes.
        obind (insert_keys p (pbl_public_keys input) pk_new) (\<lambda>public_keys.
        obind (st_from_symbols_and_public_keys (pbl_symbols input) (pk_keys public_keys)) (\<lambda>symbols.
        obind (check_compatibility (get_schema_version facts rules checks scopes) version) (\<lambda>_.
          Ok \<lparr>bl_symbols = symbols, bl_facts = facts, bl_rules = rules, bl_checks = checks,
              bl_context = pbl_context input, bl_version = version, bl_external_key = external_key,
              bl_public_keys = public_keys, bl_scopes = scopes\<rparr>)))))))))"

section \<open>Blocks of a snapshot\<close>

definition token_block_to_proto_snapshot_block :: "block \<Rightarrow> psnapshot_block" where
  "token_block_to_proto_snapshot_block b =
     \<lparr>psn_context = bl_context b,
      psn_version = Some (bl_version b),
      psn_facts = map token_fact_to_proto_fact (bl_facts b),
      psn_rules = map token_rule_to_proto_rule (bl_rules b),
      psn_checks = map token_check_to_proto_check (bl_checks b),
      psn_scope = map token_scope_to_proto_scope (bl_scopes b),
      psn_external_key = map_option public_to_proto (bl_external_key b)\<rparr>"

definition proto_snapshot_block_to_token_block ::
    "primitives \<Rightarrow> psnapshot_block \<Rightarrow> (format_error, block) outcome" where
  "proto_snapshot_block_to_token_block p input =
     (let version = version_or_zero (psn_version input) in
      if \<not> supported_version version then Err (version_error version)
      else
        obind (traverse proto_fact_to_token_fact (psn_facts input)) (\<lambda>facts.
        obind (traverse (\<lambda>r. proto_rule_rule r version) (psn_rules input)) (\<lambda>rules.
        if version = MIN_SCHEMA_VERSION \<and> (\<exists>c \<in> set (psn_checks input). pc_kind c \<noteq> None) then
          Err (deserialization_error ''v3 blocks must not contain a check kind'')
        else
        obind (traverse (\<lambda>c. proto_check_to_token_check c version) (psn_checks input)) (\<lambda>checks.
        obind (traverse proto_scope_to_token_scope (psn_scope input)) (\<lambda>scopes.
        obind (check_compatibility (get_schema_version facts rules checks scopes) version) (\<lambda>_.
        obind (case psn_external_key input of
            None \<Rightarrow> Ok None
          | Some key \<Rightarrow> obind (public_from_proto p key) (\<lambda>k. Ok (Some k))) (\<lambda>external_key.
          Ok \<lparr>bl_symbols = st_new, bl_facts = facts, bl_rules = rules, bl_checks = checks,
              bl_context = psn_context input, bl_version = version, bl_external_key = external_key,
              bl_public_keys = pk_new, bl_scopes = scopes\<rparr>)))))))"

section \<open>Policies\<close>

fun policy_kind_of :: "policy_kind \<Rightarrow> ppolicy_kind" where
  "policy_kind_of Allow = PK_Allow"
| "policy_kind_of Deny = PK_Deny"

definition policy_to_proto_policy :: "policy \<Rightarrow> symbol_table \<Rightarrow> (ppolicy \<times> symbol_table) option" where
  "policy_to_proto_policy po s =
     map_option (\<lambda>(qs, s').
         (\<lparr>ppo_queries = map token_rule_to_proto_rule qs,
           ppo_kind = tag_in policy_kinds (policy_kind_of (po_kind po))\<rparr>, s'))
       (smap rule_convert (po_queries po) s)"

definition proto_policy_to_policy ::
    "ppolicy \<Rightarrow> symbol_table \<Rightarrow> nat \<Rightarrow> (format_error, policy) outcome" where
  "proto_policy_to_policy input symbols version =
     obind (traverse (\<lambda>q. obind (proto_rule_rule q version) (\<lambda>c. rule_convert_from c symbols))
         (ppo_queries input)) (\<lambda>queries.
     obind (case of_tag_in policy_kinds (ppo_kind input) of
         None \<Rightarrow> Err (deserialization_error ''invalid policy kind'')
       | Some PK_Allow \<Rightarrow> Ok Allow
       | Some PK_Deny \<Rightarrow> Ok Deny) (\<lambda>kind.
       Ok \<lparr>po_queries = queries, po_kind = kind\<rparr>))"

section \<open>Authorizer policies\<close>

record authorizer_policies =
  ap_version :: nat
  ap_facts :: "bfact list"
  ap_rules :: "brule list"
  ap_checks :: "bcheck list"
  ap_policies :: "policy list"

text \<open>
  The elements are converted one after the other into one fresh table; \<open>None\<close> is the panic of a
  conversion that meets a parameter.
\<close>

definition authorizer_to_proto_authorizer :: "authorizer_policies \<Rightarrow> pauthorizer_policies option" where
  "authorizer_to_proto_authorizer input =
     (case smap fact_convert (ap_facts input) st_new of None \<Rightarrow> None
      | Some (facts, s1) \<Rightarrow>
     (case smap rule_convert (ap_rules input) s1 of None \<Rightarrow> None
      | Some (rules, s2) \<Rightarrow>
     (case smap check_convert (ap_checks input) s2 of None \<Rightarrow> None
      | Some (checks, s3) \<Rightarrow>
     (case smap policy_to_proto_policy (ap_policies input) s3 of None \<Rightarrow> None
      | Some (policies, s4) \<Rightarrow>
          Some \<lparr>pap_symbols = st_symbols s4,
                pap_version = Some (ap_version input),
                pap_facts = map token_fact_to_proto_fact facts,
                pap_rules = map token_rule_to_proto_rule rules,
                pap_checks = map token_check_to_proto_check checks,
                pap_policies = policies\<rparr>))))"

definition proto_authorizer_to_authorizer ::
    "pauthorizer_policies \<Rightarrow> (format_error, authorizer_policies) outcome" where
  "proto_authorizer_to_authorizer input =
     (let version = version_or_zero (pap_version input) in
      if \<not> supported_version version then Err (version_error version)
      else
        obind (st_from (pap_symbols input)) (\<lambda>symbols.
        obind (traverse (\<lambda>f. obind (proto_fact_to_token_fact f) (\<lambda>g. fact_convert_from g symbols))
            (pap_facts input)) (\<lambda>facts.
        obind (traverse (\<lambda>r. obind (proto_rule_rule r version) (\<lambda>q. rule_convert_from q symbols))
            (pap_rules input)) (\<lambda>rules.
        obind (traverse (\<lambda>c. obind (proto_check_to_token_check c version) (\<lambda>d. check_convert_from d symbols))
            (pap_checks input)) (\<lambda>checks.
        obind (traverse (\<lambda>q. proto_policy_to_policy q symbols version) (pap_policies input)) (\<lambda>policies.
          Ok \<lparr>ap_version = version, ap_facts = facts, ap_rules = rules, ap_checks = checks,
              ap_policies = policies\<rparr>))))))"

end
