(* ===== verification/Builder_Roundtrip.thy ===== *)
theory Builder_Roundtrip
  imports Builder
begin

text \<open>
  Converting a builder object and reading it back, from the table it was converted into or from
  any later one, gives the same object.  The two tables a conversion writes (symbols and public
  keys) only grow (\<open>table_ext\<close>); \<open>rt\<close> states the round trip of one object and is closed under
  lists, so that the proofs follow the structure of the conversions.
\<close>

section \<open>Growing tables\<close>

definition table_wf :: "symbol_table \<Rightarrow> bool" where
  "table_wf t \<longleftrightarrow> st_wf t \<and> pk_wf (st_public_keys t)"

definition table_ext :: "symbol_table \<Rightarrow> symbol_table \<Rightarrow> bool" where
  "table_ext t u \<longleftrightarrow> st.extends t u \<and> pk.extends (st_public_keys t) (st_public_keys u)"

lemma table_ext_wf: "table_ext t u \<Longrightarrow> table_wf t \<and> table_wf u"
  by (simp add: table_ext_def table_wf_def st.extends_def pk.extends_def)

lemma table_ext_refl: "table_wf t \<Longrightarrow> table_ext t t"
  by (simp add: table_ext_def table_wf_def st.extends_refl pk.extends_refl)

lemma table_ext_trans: "table_ext t u \<Longrightarrow> table_ext u v \<Longrightarrow> table_ext t v"
  unfolding table_ext_def using st.extends_trans pk.extends_trans by blast

lemma st_insert_ext: "st_insert s t = (i, u) \<Longrightarrow> table_wf t \<Longrightarrow> table_ext t u"
  unfolding table_ext_def table_wf_def
  using st.extends_ins [of s t i u] st_insert_public_keys [of s t i u]
  by (auto simp: pk.extends_refl)

lemma print_symbol_ins:
  "st_insert s t = (i, u) \<Longrightarrow> table_wf t \<Longrightarrow> table_ext u v \<Longrightarrow> print_symbol v i = Ok s"
  using st.lookup_ins [of s t i u]
  by (auto simp: print_symbol_def table_ext_def table_wf_def st.extends_def)

lemma insert_small:
  "st_insert s t = (i, u) \<Longrightarrow> table_wf t \<Longrightarrow> table_ext u v \<Longrightarrow> st_terms.small v \<Longrightarrow> as_u32 i = i"
  using st_terms.small_ins [of s t i u v] by (auto simp: table_ext_def table_wf_def)

section \<open>Round trips\<close>

definition rt :: "('a \<Rightarrow> symbol_table \<Rightarrow> ('b \<times> symbol_table) option) \<Rightarrow>
    ('b \<Rightarrow> symbol_table \<Rightarrow> ('e, 'a) outcome) \<Rightarrow> 'a \<Rightarrow> bool" where
  "rt f g x \<longleftrightarrow>
     (\<forall>t y u. table_wf t \<longrightarrow> f x t = Some (y, u) \<longrightarrow>
        table_ext t u \<and> (\<forall>v. table_ext u v \<longrightarrow> st_terms.small v \<longrightarrow> g y v = Ok x))"

lemma rtI:
  "(\<And>t y u. table_wf t \<Longrightarrow> f x t = Some (y, u) \<Longrightarrow>
      table_ext t u \<and> (\<forall>v. table_ext u v \<longrightarrow> st_terms.small v \<longrightarrow> g y v = Ok x)) \<Longrightarrow> rt f g x"
  unfolding rt_def by blast

lemma rt_ext: "rt f g x \<Longrightarrow> table_wf t \<Longrightarrow> f x t = Some (y, u) \<Longrightarrow> table_ext t u"
  unfolding rt_def by blast

lemma rt_read:
  "rt f g x \<Longrightarrow> table_wf t \<Longrightarrow> f x t = Some (y, u) \<Longrightarrow> table_ext u v \<Longrightarrow> st_terms.small v \<Longrightarrow>
     g y v = Ok x"
  unfolding rt_def by blast

lemma rt_list:
  "(\<And>x. x \<in> set xs \<Longrightarrow> rt f g x) \<Longrightarrow> rt (smap f) (\<lambda>ys v. traverse (\<lambda>y. g y v) ys) xs"
proof (induction xs)
  case Nil
  show ?case by (rule rtI) (simp add: table_ext_refl)
next
  case (Cons x xs)
  show ?case
  proof (rule rtI)
    fix t zs u
    assume t: "table_wf t" and run: "smap f (x # xs) t = Some (zs, u)"
    from run obtain y t1 ys where x: "f x t = Some (y, t1)" and xs: "smap f xs t1 = Some (ys, u)"
      and zs: "zs = y # ys"
      unfolding smap_Some_Cons by blast
    have rx: "rt f g x" by (rule Cons.prems) simp
    have rxs: "rt (smap f) (\<lambda>ys v. traverse (\<lambda>y. g y v) ys) xs" by (rule Cons.IH) (simp add: Cons.prems)
    have e1: "table_ext t t1" using rt_ext [OF rx t x] .
    have t1: "table_wf t1" using table_ext_wf [OF e1] by blast
    have e2: "table_ext t1 u" using rt_ext [OF rxs t1 xs] .
    show "table_ext t u \<and> (\<forall>v. table_ext u v \<longrightarrow> st_terms.small v \<longrightarrow> traverse (\<lambda>y. g y v) zs = Ok (x # xs))"
    proof (intro conjI allI impI)
      show "table_ext t u" using table_ext_trans [OF e1 e2] .
      fix v
      assume v: "table_ext u v" "st_terms.small v"
      show "traverse (\<lambda>y. g y v) zs = Ok (x # xs)"
        using rt_read [OF rx t x table_ext_trans [OF e2 v(1)] v(2)] rt_read [OF rxs t1 xs v]
        by (simp add: zs)
    qed
  qed
qed

section \<open>Terms\<close>

lemma intern_term_public_keys:
  "intern_term st_insert b t = Some (d, u) \<Longrightarrow> st_public_keys u = st_public_keys t"
proof (induction b arbitrary: t d u)
  case (BSet ts)
  then obtain us where "smap (intern_term st_insert) ts t = Some (us, u)" by auto
  from smap_invariant [OF this, of "\<lambda>s. st_public_keys s = st_public_keys t"] BSet.IH
  show ?case by auto
next
  case (BArray ts)
  then obtain us where "smap (intern_term st_insert) ts t = Some (us, u)" by auto
  from smap_invariant [OF this, of "\<lambda>s. st_public_keys s = st_public_keys t"] BArray.IH
  show ?case by auto
next
  case (BMap m)
  let ?F = "\<lambda>(k, t) s. case intern_key st_insert k s of None \<Rightarrow> None
    | Some (l, s') \<Rightarrow> map_option (\<lambda>(u, s''). ((l, u), s'')) (intern_term st_insert t s')"
  from BMap.prems obtain us where run: "smap ?F m t = Some (us, u)" by auto
  have key: "intern_key st_insert k s = Some (l, s') \<Longrightarrow> st_public_keys s' = st_public_keys s" for k s l s'
    by (cases k) (auto dest: st_insert_public_keys split: prod.splits)
  show ?case
  proof (rule smap_invariant [OF run])
    fix x y s s'
    assume "x \<in> set m" "st_public_keys s = st_public_keys t" "?F x s = Some (y, s')"
    with BMap.IH [of x "snd x"] key show "st_public_keys s' = st_public_keys t"
      by (cases x) (fastforce split: option.splits)
  qed simp
qed (auto dest: st_insert_public_keys split: prod.splits)

lemma rt_term: "wf_bterm b \<Longrightarrow> rt term_convert term_convert_from b"
proof (rule rtI)
  fix t d u
  assume wf: "wf_bterm b" and t: "table_wf t" and run: "term_convert b t = Some (d, u)"
  have run': "intern_term st_insert b t = Some (d, u)" using run by (simp add: term_convert_def)
  have t': "st_wf t" "pk_wf (st_public_keys t)" using t by (simp_all add: table_wf_def)
  have "table_ext t u"
    using st_terms.intern_extends [OF run' t'(1)] intern_term_public_keys [OF run'] t'(2)
    by (simp add: table_ext_def pk.extends_refl)
  moreover have "term_convert_from d v = Ok b" if v: "table_ext u v" "st_terms.small v" for v
    unfolding term_convert_from_def
    by (rule st_terms.intern_extern [OF _ _ v(2) run' t'(1) _ wf])
      (use v(1) in \<open>simp_all add: table_ext_def st_terms.reads_def print_symbol_def\<close>)
  ultimately show "table_ext t u \<and>
      (\<forall>v. table_ext u v \<longrightarrow> st_terms.small v \<longrightarrow> term_convert_from d v = Ok b)" by blast
qed

section \<open>Expressions\<close>

lemma rt_unary: "rt (\<lambda>x t. Some (unary_convert x t)) unary_convert_from b"
  by (rule rtI, cases b)
    (auto simp: table_ext_refl print_symbol_ins st_insert_ext split: prod.splits)

lemma rt_binary: "rt (\<lambda>x t. Some (binary_convert x t)) binary_convert_from b"
  by (rule rtI, cases b)
    (auto simp: table_ext_refl print_symbol_ins st_insert_ext split: prod.splits)

lemma rt_insert_u32: "rt insert_u32 (\<lambda>i s. print_symbol s i) p"
  by (rule rtI) (auto simp: insert_u32_def st_insert_ext insert_small print_symbol_ins split: prod.splits)

fun wf_bop :: "bop \<Rightarrow> bool" where
  "wf_bop (BValue t) \<longleftrightarrow> wf_bterm t"
| "wf_bop (BClosure ps ops) \<longleftrightarrow> (\<forall>p \<in> set ops. wf_bop p)"
| "wf_bop _ \<longleftrightarrow> True"

lemma rt_op: "wf_bop p \<Longrightarrow> rt op_convert op_convert_from p"
proof (induction p)
  case (BValue b)
  then have r: "rt term_convert term_convert_from b" by (simp add: rt_term)
  show ?case
    by (rule rtI) (auto dest: rt_ext [OF r] rt_read [OF r])
next
  case (BUnary b)
  show ?case
    by (rule rtI) (auto dest: rt_ext [OF rt_unary] rt_read [OF rt_unary] split: prod.splits)
next
  case (BBinary b)
  show ?case
    by (rule rtI) (auto dest: rt_ext [OF rt_binary] rt_read [OF rt_binary] split: prod.splits)
next
  case (BClosure ps ops)
  have params: "rt (smap insert_u32) (\<lambda>is v. traverse (\<lambda>i. print_symbol v i) is) ps"
    by (rule rt_list) (rule rt_insert_u32)
  have body: "rt (smap op_convert) (\<lambda>ys v. traverse (\<lambda>y. op_convert_from y v) ys) ops"
    by (rule rt_list) (use BClosure in simp)
  show ?case
  proof (rule rtI)
    fix t y u
    assume t: "table_wf t" and run: "op_convert (BClosure ps ops) t = Some (y, u)"
    then obtain qs t1 os where a: "smap insert_u32 ps t = Some (qs, t1)"
      and b: "smap op_convert ops t1 = Some (os, u)" and y: "y = Closure qs os"
      by (auto split: option.splits)
    have e1: "table_ext t t1" using rt_ext [OF params t a] .
    then have t1: "table_wf t1" using table_ext_wf by blast
    have e2: "table_ext t1 u" using rt_ext [OF body t1 b] .
    show "table_ext t u \<and> (\<forall>v. table_ext u v \<longrightarrow> st_terms.small v \<longrightarrow> op_convert_from y v = Ok (BClosure ps ops))"
      using rt_read [OF params t a table_ext_trans [OF e2]] rt_read [OF body t1 b] table_ext_trans [OF e1 e2]
      by (simp add: y)
  qed
qed

definition wf_bexpression :: "bexpression \<Rightarrow> bool" where
  "wf_bexpression e \<longleftrightarrow> (\<forall>p \<in> set (be_ops e). wf_bop p)"

lemma rt_expression: "wf_bexpression e \<Longrightarrow> rt expression_convert expression_convert_from e"
proof -
  assume "wf_bexpression e"
  then have r: "rt (smap op_convert) (\<lambda>ys v. traverse (\<lambda>y. op_convert_from y v) ys) (be_ops e)"
    by (intro rt_list rt_op) (simp add: wf_bexpression_def)
  show ?thesis
    by (rule rtI)
      (auto simp: expression_convert_def expression_convert_from_def dest: rt_ext [OF r] rt_read [OF r])
qed

section \<open>Predicates, scopes, rules and checks\<close>

definition wf_bpredicate :: "bpredicate \<Rightarrow> bool" where
  "wf_bpredicate p \<longleftrightarrow> (\<forall>t \<in> set (bp_terms p). wf_bterm t)"

lemma rt_predicate:
  assumes "wf_bpredicate p"
  shows "rt predicate_convert predicate_convert_from p"
proof -
  from assms have r: "rt (smap term_convert) (\<lambda>ys v. traverse (\<lambda>y. term_convert_from y v) ys) (bp_terms p)"
    by (intro rt_list rt_term) (simp add: wf_bpredicate_def)
  show ?thesis
  proof (rule rtI)
    fix t y u
    assume t: "table_wf t" and run: "predicate_convert p t = Some (y, u)"
    then obtain i t1 ts where a: "st_insert (bp_name p) t = (i, t1)"
      and b: "smap term_convert (bp_terms p) t1 = Some (ts, u)" and y: "y = \<lparr>p_name = i, p_terms = ts\<rparr>"
      by (auto simp: predicate_convert_def split: prod.splits)
    have e1: "table_ext t t1" using st_insert_ext [OF a t] .
    then have t1: "table_wf t1" using table_ext_wf by blast
    have e2: "table_ext t1 u" using rt_ext [OF r t1 b] .
    show "table_ext t u \<and> (\<forall>v. table_ext u v \<longrightarrow> st_terms.small v \<longrightarrow> predicate_convert_from y v = Ok p)"
      using print_symbol_ins [OF a t table_ext_trans [OF e2]] rt_read [OF r t1 b] table_ext_trans [OF e1 e2]
      by (simp add: predicate_convert_from_def y)
  qed
qed

lemma rt_scope: "rt scope_convert scope_convert_from s"
proof (cases s)
  case (BScope_PublicKey k)
  show ?thesis
  proof (rule rtI)
    fix t y u
    assume t: "table_wf t" and run: "scope_convert s t = Some (y, u)"
    then obtain i keys where a: "pk_insert k (st_public_keys t) = (i, keys)"
      and y: "y = Scope_PublicKey i" and u: "u = t\<lparr>st_public_keys := keys\<rparr>"
      using BScope_PublicKey by (auto split: prod.splits)
    have wf: "pk_wf (st_public_keys t)" "st_wf t" using t by (simp_all add: table_wf_def)
    have "st.extends t u"
      unfolding st.extends_def u using wf(2) by (auto simp: st_wf_def get_symbol_def)
    then have "table_ext t u" using pk.extends_ins [OF a wf(1)] by (simp add: table_ext_def u)
    moreover have "pk_get_key (st_public_keys v) i = Some k" if "table_ext u v" for v
      using pk.lookup_ins [OF a wf(1)] that by (auto simp: table_ext_def pk.extends_def u)
    ultimately show "table_ext t u \<and> (\<forall>v. table_ext u v \<longrightarrow> st_terms.small v \<longrightarrow> scope_convert_from y v = Ok s)"
      by (simp add: y BScope_PublicKey)
  qed
qed (auto intro: rtI simp: table_ext_refl)

definition plain :: "brule \<Rightarrow> bool" where
  "plain r \<longleftrightarrow> br_parameters r = None \<and> br_scope_parameters r = None"

definition wf_brule :: "brule \<Rightarrow> bool" where
  "wf_brule r \<longleftrightarrow> wf_bpredicate (br_head r) \<and> (\<forall>p \<in> set (br_body r). wf_bpredicate p) \<and>
     (\<forall>e \<in> set (br_expressions r). wf_bexpression e)"

definition forget_parameters :: "brule \<Rightarrow> brule" where
  "forget_parameters r = r\<lparr>br_parameters := None, br_scope_parameters := None\<rparr>"

lemma plain_rule_roundtrip:
  assumes wf: "wf_brule r" and t: "table_wf t" and run: "plain_rule_convert r t = Some (y, u)"
  shows "table_ext t u \<and> (\<forall>v. table_ext u v \<longrightarrow> st_terms.small v \<longrightarrow> rule_convert_from y v = Ok (forget_parameters r))"
proof -
  have rh: "rt predicate_convert predicate_convert_from (br_head r)"
    using wf by (intro rt_predicate) (simp add: wf_brule_def)
  have rb: "rt (smap predicate_convert) (\<lambda>ys v. traverse (\<lambda>y. predicate_convert_from y v) ys) (br_body r)"
    using wf by (intro rt_list rt_predicate) (simp add: wf_brule_def)
  have re: "rt (smap expression_convert) (\<lambda>ys v. traverse (\<lambda>y. expression_convert_from y v) ys) (br_expressions r)"
    using wf by (intro rt_list rt_expression) (simp add: wf_brule_def)
  have rs: "rt (smap scope_convert) (\<lambda>ys v. traverse (\<lambda>y. scope_convert_from y v) ys) (br_scopes r)"
    by (intro rt_list rt_scope)
  from run obtain h t1 b t2 es t3 ss where h: "predicate_convert (br_head r) t = Some (h, t1)"
    and b: "smap predicate_convert (br_body r) t1 = Some (b, t2)"
    and es: "smap expression_convert (br_expressions r) t2 = Some (es, t3)"
    and ss: "smap scope_convert (br_scopes r) t3 = Some (ss, u)"
    and y: "y = \<lparr>r_head = h, r_body = b, r_expressions = es, r_scopes = ss\<rparr>"
    by (auto simp: plain_rule_convert_def split: option.splits)
  have e1: "table_ext t t1" using rt_ext [OF rh t h] .
  then have t1: "table_wf t1" using table_ext_wf by blast
  have e2: "table_ext t1 t2" using rt_ext [OF rb t1 b] .
  then have t2: "table_wf t2" using table_ext_wf by blast
  have e3: "table_ext t2 t3" using rt_ext [OF re t2 es] .
  then have t3: "table_wf t3" using table_ext_wf by blast
  have e4: "table_ext t3 u" using rt_ext [OF rs t3 ss] .
  have "rule_convert_from y v = Ok (forget_parameters r)" if v: "table_ext u v" "st_terms.small v" for v
  proof -
    have v3: "table_ext t3 v" using table_ext_trans [OF e4 v(1)] .
    have v2: "table_ext t2 v" using table_ext_trans [OF e3 v3] .
    have v1: "table_ext t1 v" using table_ext_trans [OF e2 v2] .
    show ?thesis
      using rt_read [OF rh t h v1 v(2)] rt_read [OF rb t1 b v2 v(2)] rt_read [OF re t2 es v3 v(2)]
        rt_read [OF rs t3 ss v]
      by (simp add: rule_convert_from_def y forget_parameters_def)
  qed
  moreover have "table_ext t u"
    using table_ext_trans [OF e1 table_ext_trans [OF e2 table_ext_trans [OF e3 e4]]] .
  ultimately show ?thesis by blast
qed

lemma plain_apply: "plain r \<Longrightarrow> rule_apply_parameters r = r \<and> forget_parameters r = r"
  by (cases r) (simp add: plain_def rule_apply_parameters_def forget_parameters_def)

lemma rt_rule: "plain r \<Longrightarrow> wf_brule r \<Longrightarrow> rt rule_convert rule_convert_from r"
  by (rule rtI) (use plain_rule_roundtrip in \<open>simp add: rule_convert_def plain_apply\<close>)

definition wf_bcheck :: "bcheck \<Rightarrow> bool" where
  "wf_bcheck c \<longleftrightarrow> (\<forall>r \<in> set (bc_queries c). plain r \<and> wf_brule r)"

lemma rt_check: "wf_bcheck c \<Longrightarrow> rt check_convert check_convert_from c"
proof -
  assume "wf_bcheck c"
  then have r: "rt (smap rule_convert) (\<lambda>ys v. traverse (\<lambda>y. rule_convert_from y v) ys) (bc_queries c)"
    by (intro rt_list rt_rule) (simp_all add: wf_bcheck_def)
  show ?thesis
    by (rule rtI) (auto simp: check_convert_def check_convert_from_def dest: rt_ext [OF r] rt_read [OF r])
qed

definition wf_bfact :: "bfact \<Rightarrow> bool" where
  "wf_bfact f \<longleftrightarrow> bf_parameters f = None \<and> wf_bpredicate (bf_predicate f)"

lemma rt_fact: "wf_bfact f \<Longrightarrow> rt fact_convert fact_convert_from f"
proof -
  assume wf: "wf_bfact f"
  then have r: "rt predicate_convert predicate_convert_from (bf_predicate f)"
    by (intro rt_predicate) (simp add: wf_bfact_def)
  have plain: "fact_apply_parameters f = f" using wf by (simp add: fact_apply_parameters_def wf_bfact_def)
  show ?thesis
    using wf by (intro rtI, cases f)
      (auto simp: fact_convert_def fact_convert_from_def plain fact_apply_parameters_def wf_bfact_def dest: rt_ext [OF r] rt_read [OF r])
qed

section \<open>Remaining parameters\<close>

fun op_parameters :: "bop \<Rightarrow> string list" where
  "op_parameters (BValue t) = term_parameters t"
| "op_parameters (BClosure ps ops) = concat (map op_parameters ops)"
| "op_parameters _ = []"

fun scope_parameters :: "bscope \<Rightarrow> string list" where
  "scope_parameters (BScope_Parameter p) = [p]"
| "scope_parameters _ = []"

definition predicate_parameters :: "bpredicate \<Rightarrow> string list" where
  "predicate_parameters p = concat (map term_parameters (bp_terms p))"

definition rule_parameters :: "brule \<Rightarrow> string list" where
  "rule_parameters r =
     predicate_parameters (br_head r) @ concat (map predicate_parameters (br_body r)) @
     concat (map (\<lambda>e. concat (map op_parameters (be_ops e))) (br_expressions r)) @
     concat (map scope_parameters (br_scopes r))"

lemma term_convert_None: "term_convert t s = None \<longleftrightarrow> term_parameters t \<noteq> []"
  by (simp add: term_convert_def intern_term_None)

lemma insert_u32_total: "smap insert_u32 ps s \<noteq> None"
  using smap_None_iff [of ps insert_u32 "\<lambda>_. False" s] by (auto simp: insert_u32_def split: prod.splits)

lemma op_convert_None: "op_convert p s = None \<longleftrightarrow> op_parameters p \<noteq> []"
proof (induction p arbitrary: s)
  case (BClosure ps ops)
  have "smap op_convert ops s' = None \<longleftrightarrow> (\<exists>p \<in> set ops. op_parameters p \<noteq> [])" for s'
    by (rule smap_None_iff) (use BClosure in simp)
  with insert_u32_total [of ps s] show ?case by (auto split: option.splits)
qed (auto simp: term_convert_None split: prod.splits)

lemma expression_convert_None:
  "expression_convert e s = None \<longleftrightarrow> (\<exists>p \<in> set (be_ops e). op_parameters p \<noteq> [])"
  using smap_None_iff [of "be_ops e" op_convert "\<lambda>p. op_parameters p \<noteq> []" s]
  by (simp add: expression_convert_def op_convert_None)

lemma predicate_convert_None: "predicate_convert p s = None \<longleftrightarrow> predicate_parameters p \<noteq> []"
proof -
  have "smap term_convert (bp_terms p) s' = None \<longleftrightarrow> (\<exists>t \<in> set (bp_terms p). term_parameters t \<noteq> [])" for s'
    by (rule smap_None_iff) (simp add: term_convert_None)
  then show ?thesis by (auto simp: predicate_convert_def predicate_parameters_def split: prod.splits)
qed

lemma scope_convert_None: "scope_convert c s = None \<longleftrightarrow> scope_parameters c \<noteq> []"
  by (cases c) (auto split: prod.splits)

lemma plain_rule_convert_None: "plain_rule_convert r s = None \<longleftrightarrow> rule_parameters r \<noteq> []"
proof -
  have body: "smap predicate_convert (br_body r) t = None \<longleftrightarrow>
      (\<exists>p \<in> set (br_body r). predicate_parameters p \<noteq> [])" for t
    by (rule smap_None_iff) (rule predicate_convert_None)
  have exprs: "smap expression_convert (br_expressions r) t = None \<longleftrightarrow>
      (\<exists>e \<in> set (br_expressions r). \<exists>p \<in> set (be_ops e). op_parameters p \<noteq> [])" for t
    by (rule smap_None_iff) (rule expression_convert_None)
  have scopes: "smap scope_convert (br_scopes r) t = None \<longleftrightarrow>
      (\<exists>c \<in> set (br_scopes r). scope_parameters c \<noteq> [])" for t
    by (rule smap_None_iff) (rule scope_convert_None)
  have params: "rule_parameters r \<noteq> [] \<longleftrightarrow> predicate_parameters (br_head r) \<noteq> [] \<or>
      (\<exists>p \<in> set (br_body r). predicate_parameters p \<noteq> []) \<or>
      (\<exists>e \<in> set (br_expressions r). \<exists>p \<in> set (be_ops e). op_parameters p \<noteq> []) \<or>
      (\<exists>c \<in> set (br_scopes r). scope_parameters c \<noteq> [])"
    by (auto simp: rule_parameters_def)
  show ?thesis
    unfolding params plain_rule_convert_def predicate_convert_None [of "br_head r" s, symmetric]
      body [of "snd (the (predicate_convert (br_head r) s))", symmetric]
      exprs [of "snd (the (smap predicate_convert (br_body r) (snd (the (predicate_convert (br_head r) s)))))", symmetric]
      scopes [of "snd (the (smap expression_convert (br_expressions r) (snd (the (smap predicate_convert (br_body r) (snd (the (predicate_convert (br_head r) s))))))))", symmetric]
    by (simp split: option.splits)
qed

section \<open>Reading back is total on known indices and yields plain objects\<close>

lemma traverse_all: "traverse f xs = Ok ys \<Longrightarrow> (\<And>x y. x \<in> set xs \<Longrightarrow> f x = Ok y \<Longrightarrow> P y) \<Longrightarrow> \<forall>y \<in> set ys. P y"
  unfolding traverse_Ok_list_all2 by (induction rule: list_all2_induct) auto

definition closed_wf :: "bterm \<Rightarrow> bool" where
  "closed_wf b \<longleftrightarrow> wf_bterm b \<and> term_parameters b = []"

lemma extern_key_closed: "extern_key rd k = Ok l \<Longrightarrow> key_parameters l = []"
  by (cases k) (auto simp: outcome_simps)

lemma extern_term_closed: "extern_term rdv rd d = Ok b \<Longrightarrow> closed_wf b"
proof (induction d arbitrary: b)
  case (Set ts)
  then obtain us where us: "traverse (extern_term rdv rd) ts = Ok us" and b: "b = BSet (bt_of_list us)"
    by (auto simp: outcome_simps)
  from traverse_all [OF us] Set.IH have "\<forall>u \<in> set us. closed_wf u" by blast
  with b show ?case by (auto simp: closed_wf_def)
next
  case (Array ts)
  then obtain us where us: "traverse (extern_term rdv rd) ts = Ok us" and b: "b = BArray us"
    by (auto simp: outcome_simps)
  from traverse_all [OF us] Array.IH have "\<forall>u \<in> set us. closed_wf u" by blast
  with b show ?case by (auto simp: closed_wf_def)
next
  case (Map m)
  let ?F = "\<lambda>(k, t). obind (extern_key rd k) (\<lambda>l. obind (extern_term rdv rd t) (\<lambda>u. Ok (l, u)))"
  from Map.prems obtain us where us: "traverse ?F m = Ok us" and b: "b = BMap (bm_of_list us)"
    by (auto simp: outcome_simps)
  have all: "\<forall>x \<in> set us. key_parameters (fst x) = [] \<and> closed_wf (snd x)"
  proof (rule traverse_all [OF us])
    fix x y
    assume "x \<in> set m" "?F x = Ok y"
    with Map.IH [of x "snd x"] extern_key_closed [of rd "fst x"]
    show "key_parameters (fst y) = [] \<and> closed_wf (snd y)" by (cases x) (auto simp: outcome_simps)
  qed
  have "\<forall>x \<in> set (bm_of_list us). key_parameters (fst x) = [] \<and> closed_wf (snd x)"
    using all set_bm_of_list_subset [of us] by blast
  with b show ?case by (force simp: closed_wf_def)
qed (auto simp: outcome_simps closed_wf_def)

lemma op_convert_from_closed: "op_convert_from p s = Ok q \<Longrightarrow> wf_bop q \<and> op_parameters q = []"
proof (induction p arbitrary: q)
  case (Value t)
  then obtain b where "extern_term (print_symbol s) (print_symbol s) t = Ok b" "q = BValue b"
    by (auto simp: outcome_simps term_convert_from_def)
  with extern_term_closed show ?case by (fastforce simp: closed_wf_def)
next
  case (Closure ps ops)
  obtain qs os where os: "traverse (\<lambda>p. op_convert_from p s) ops = Ok os" and q: "q = BClosure qs os"
    using Closure.prems by (auto simp: outcome_simps)
  have "\<forall>o' \<in> set os. wf_bop o' \<and> op_parameters o' = []"
    by (rule traverse_all [OF os]) (rule Closure.IH)
  with q show ?case by simp
qed (auto simp: outcome_simps)

lemma expression_convert_from_closed:
  assumes "expression_convert_from e s = Ok f"
  shows "wf_bexpression f \<and> (\<forall>p \<in> set (be_ops f). op_parameters p = [])"
proof -
  from assms obtain ops where ops: "traverse (\<lambda>p. op_convert_from p s) (e_ops e) = Ok ops"
    and f: "f = \<lparr>be_ops = ops\<rparr>"
    by (auto simp: expression_convert_from_def outcome_simps)
  have "\<forall>q \<in> set ops. wf_bop q \<and> op_parameters q = []"
    by (rule traverse_all [OF ops]) (rule op_convert_from_closed)
  then show ?thesis by (simp add: f wf_bexpression_def)
qed

lemma predicate_convert_from_closed:
  assumes "predicate_convert_from p s = Ok q"
  shows "wf_bpredicate q \<and> predicate_parameters q = []"
proof -
  from assms obtain name ts where ts: "traverse (\<lambda>t. term_convert_from t s) (p_terms p) = Ok ts"
    and q: "q = \<lparr>bp_name = name, bp_terms = ts\<rparr>"
    by (auto simp: predicate_convert_from_def outcome_simps)
  have "\<forall>b \<in> set ts. closed_wf b"
    by (rule traverse_all [OF ts]) (simp add: term_convert_from_def extern_term_closed)
  then show ?thesis by (auto simp: q wf_bpredicate_def predicate_parameters_def closed_wf_def)
qed

lemma scope_convert_from_closed: "scope_convert_from c s = Ok d \<Longrightarrow> scope_parameters d = []"
  by (cases c) (auto simp: outcome_simps)

lemma rule_convert_from_closed:
  assumes "rule_convert_from y s = Ok r"
  shows "plain r \<and> wf_brule r \<and> rule_parameters r = []"
proof -
  from assms obtain head body es scopes
    where h: "predicate_convert_from (r_head y) s = Ok head"
      and b: "traverse (\<lambda>p. predicate_convert_from p s) (r_body y) = Ok body"
      and e: "traverse (\<lambda>e. expression_convert_from e s) (r_expressions y) = Ok es"
      and c: "traverse (\<lambda>c. scope_convert_from c s) (r_scopes y) = Ok scopes"
      and r: "r = \<lparr>br_head = head, br_body = body, br_expressions = es, br_parameters = None,
           br_scopes = scopes, br_scope_parameters = None\<rparr>"
    by (auto simp: rule_convert_from_def outcome_simps)
  have "\<forall>p \<in> set body. wf_bpredicate p \<and> predicate_parameters p = []"
    by (rule traverse_all [OF b]) (rule predicate_convert_from_closed)
  moreover have "\<forall>f \<in> set es. wf_bexpression f \<and> (\<forall>p \<in> set (be_ops f). op_parameters p = [])"
    by (rule traverse_all [OF e]) (rule expression_convert_from_closed)
  moreover have "\<forall>d \<in> set scopes. scope_parameters d = []"
    by (rule traverse_all [OF c]) (rule scope_convert_from_closed)
  ultimately show ?thesis
    using predicate_convert_from_closed [OF h]
    by (simp add: r plain_def wf_brule_def rule_parameters_def)
qed

section \<open>Translation\<close>

definition tr :: "('a \<Rightarrow> symbol_table \<Rightarrow> ('e, 'a \<times> symbol_table) outcome) \<Rightarrow>
    ('a \<Rightarrow> symbol_table \<Rightarrow> ('e, 'b) outcome) \<Rightarrow> symbol_table \<Rightarrow> 'a \<Rightarrow> bool" where
  "tr h g src x \<longleftrightarrow>
     (\<forall>t y u. table_wf t \<longrightarrow> h x t = Ok (y, u) \<longrightarrow>
        table_ext t u \<and>
        (\<exists>b. g x src = Ok b \<and> (\<forall>v. table_ext u v \<longrightarrow> st_terms.small v \<longrightarrow> g y v = Ok b)))"

lemma trD:
  assumes "tr h g src x" "table_wf t" "h x t = Ok (y, u)"
  shows "table_ext t u" "table_wf u"
    "\<exists>b. g x src = Ok b \<and> (\<forall>v. table_ext u v \<longrightarrow> st_terms.small v \<longrightarrow> g y v = Ok b)"
  using assms table_ext_wf unfolding tr_def by blast+

lemma tr_read_then_write:
  assumes "\<And>b. g x src = Ok b \<Longrightarrow> rt f g b"
  shows "tr (\<lambda>x. read_then_write (g x src) f) g src x"
  unfolding tr_def
proof (intro allI impI)
  fix t y u
  assume t: "table_wf t" and run: "read_then_write (g x src) f t = Ok (y, u)"
  then obtain b where b: "g x src = Ok b" "f b t = Some (y, u)"
    by (auto simp: read_then_write_def outcome_simps)
  from rt_ext [OF assms [OF b(1)] t b(2)] rt_read [OF assms [OF b(1)] t b(2)] b(1)
  show "table_ext t u \<and>
      (\<exists>b. g x src = Ok b \<and> (\<forall>v. table_ext u v \<longrightarrow> st_terms.small v \<longrightarrow> g y v = Ok b))" by blast
qed

lemma tr_list:
  "(\<And>x. x \<in> set xs \<Longrightarrow> tr h g src x) \<Longrightarrow>
     tr (otraverse h) (\<lambda>xs s. traverse (\<lambda>x. g x s) xs) src xs"
proof (induction xs)
  case Nil
  show ?case by (simp add: tr_def table_ext_refl)
next
  case (Cons x xs)
  have hx: "tr h g src x" by (rule Cons.prems) simp
  have hxs: "tr (otraverse h) (\<lambda>xs s. traverse (\<lambda>x. g x s) xs) src xs"
    by (rule Cons.IH) (simp add: Cons.prems)
  show ?case
    unfolding tr_def
  proof (intro allI impI)
    fix t zs u
    assume t: "table_wf t" and run: "otraverse h (x # xs) t = Ok (zs, u)"
    from run obtain y t1 ys where x: "h x t = Ok (y, t1)" and xs: "otraverse h xs t1 = Ok (ys, u)"
      and zs: "zs = y # ys"
      unfolding otraverse_Ok_Cons by blast
    note a = trD [OF hx t x]
    note b = trD [OF hxs a(2) xs]
    from a(3) obtain c where c: "g x src = Ok c"
      "\<And>v. table_ext t1 v \<Longrightarrow> st_terms.small v \<Longrightarrow> g y v = Ok c" by blast
    from b(3) obtain cs where cs: "traverse (\<lambda>x. g x src) xs = Ok cs"
      "\<And>v. table_ext u v \<Longrightarrow> st_terms.small v \<Longrightarrow> traverse (\<lambda>x. g x v) ys = Ok cs" by blast
    have "table_ext t u" using table_ext_trans [OF a(1) b(1)] .
    moreover have "traverse (\<lambda>x. g x src) (x # xs) = Ok (c # cs)" using c(1) cs(1) by simp
    moreover have "traverse (\<lambda>x. g x v) zs = Ok (c # cs)" if v: "table_ext u v" "st_terms.small v" for v
      using c(2) [OF table_ext_trans [OF b(1) v(1)] v(2)] cs(2) [OF v] by (simp add: zs)
    ultimately show "table_ext t u \<and> (\<exists>b. traverse (\<lambda>x. g x src) (x # xs) = Ok b \<and>
        (\<forall>v. table_ext u v \<longrightarrow> st_terms.small v \<longrightarrow> traverse (\<lambda>x. g x v) zs = Ok b))" by blast
  qed
qed

lemma tr_predicate: "tr (predicate_translate src) predicate_convert_from src p"
  unfolding predicate_translate_def
  by (rule tr_read_then_write) (auto intro: rt_predicate dest: predicate_convert_from_closed)

lemma fact_convert_from_closed:
  assumes "fact_convert_from f s = Ok b"
  shows "wf_bfact b"
proof -
  from assms obtain p where p: "predicate_convert_from (f_predicate f) s = Ok p"
    and b: "b = \<lparr>bf_predicate = p, bf_parameters = None\<rparr>"
    by (auto simp: fact_convert_from_def outcome_simps)
  show ?thesis
    using predicate_convert_from_closed [OF p] by (simp add: b wf_bfact_def)
qed

lemma tr_fact: "tr (fact_translate src) fact_convert_from src f"
  unfolding fact_translate_def
  by (rule tr_read_then_write, rule rt_fact) (simp add: fact_convert_from_closed)

lemma check_convert_from_closed: "check_convert_from c s = Ok b \<Longrightarrow> wf_bcheck b"
proof -
  assume "check_convert_from c s = Ok b"
  then obtain qs where qs: "traverse (\<lambda>q. rule_convert_from q s) (c_queries c) = Ok qs"
    and b: "b = \<lparr>bc_queries = qs, bc_kind = c_kind c\<rparr>"
    by (auto simp: check_convert_from_def outcome_simps)
  have "\<forall>r \<in> set qs. plain r \<and> wf_brule r"
    by (rule traverse_all [OF qs]) (use rule_convert_from_closed in blast)
  then show "wf_bcheck b" by (simp add: b wf_bcheck_def)
qed

lemma tr_check: "tr (check_translate src) check_convert_from src c"
  unfolding check_translate_def
  by (rule tr_read_then_write) (rule rt_check, rule check_convert_from_closed)

lemma tr_rule: "tr (rule_translate src) rule_convert_from src r"
  unfolding tr_def
proof (intro allI impI)
  fix t y u
  assume t: "table_wf t" and run: "rule_translate src r t = Ok (y, u)"
  have hb: "tr (otraverse (predicate_translate src)) (\<lambda>xs s. traverse (\<lambda>x. predicate_convert_from x s) xs) src (r_body r)"
    by (rule tr_list) (rule tr_predicate)
  have he: "tr (otraverse (\<lambda>e. read_then_write (expression_convert_from e src) expression_convert))
      (\<lambda>xs s. traverse (\<lambda>x. expression_convert_from x s) xs) src (r_expressions r)"
    by (rule tr_list, rule tr_read_then_write) (auto intro: rt_expression dest: expression_convert_from_closed)
  have hs: "tr (otraverse (\<lambda>c. read_then_write (scope_convert_from c src) scope_convert))
      (\<lambda>xs s. traverse (\<lambda>x. scope_convert_from x s) xs) src (r_scopes r)"
    by (rule tr_list, rule tr_read_then_write) (rule rt_scope)
  from run obtain h t1 b t2 es t3 ss where h: "predicate_translate src (r_head r) t = Ok (h, t1)"
    and b: "otraverse (predicate_translate src) (r_body r) t1 = Ok (b, t2)"
    and es: "otraverse (\<lambda>e. read_then_write (expression_convert_from e src) expression_convert)
      (r_expressions r) t2 = Ok (es, t3)"
    and ss: "otraverse (\<lambda>c. read_then_write (scope_convert_from c src) scope_convert) (r_scopes r) t3 = Ok (ss, u)"
    and y: "y = \<lparr>r_head = h, r_body = b, r_expressions = es, r_scopes = ss\<rparr>"
    unfolding rule_translate_def by (fastforce simp: outcome_simps)
  note e1 = trD [OF tr_predicate t h]
  note e2 = trD [OF hb e1(2) b]
  note e3 = trD [OF he e2(2) es]
  note e4 = trD [OF hs e3(2) ss]
  from e1(3) obtain bh where bh: "predicate_convert_from (r_head r) src = Ok bh"
    "\<And>v. table_ext t1 v \<Longrightarrow> st_terms.small v \<Longrightarrow> predicate_convert_from h v = Ok bh" by blast
  from e2(3) obtain bb where bb: "traverse (\<lambda>x. predicate_convert_from x src) (r_body r) = Ok bb"
    "\<And>v. table_ext t2 v \<Longrightarrow> st_terms.small v \<Longrightarrow> traverse (\<lambda>x. predicate_convert_from x v) b = Ok bb" by blast
  from e3(3) obtain be where be: "traverse (\<lambda>x. expression_convert_from x src) (r_expressions r) = Ok be"
    "\<And>v. table_ext t3 v \<Longrightarrow> st_terms.small v \<Longrightarrow> traverse (\<lambda>x. expression_convert_from x v) es = Ok be" by blast
  from e4(3) obtain bs where bs: "traverse (\<lambda>x. scope_convert_from x src) (r_scopes r) = Ok bs"
    "\<And>v. table_ext u v \<Longrightarrow> st_terms.small v \<Longrightarrow> traverse (\<lambda>x. scope_convert_from x v) ss = Ok bs" by blast
  have "rule_convert_from y v = rule_convert_from r src" if v: "table_ext u v" "st_terms.small v" for v
  proof -
    have v3: "table_ext t3 v" using table_ext_trans [OF e4(1) v(1)] .
    have v2: "table_ext t2 v" using table_ext_trans [OF e3(1) v3] .
    have v1: "table_ext t1 v" using table_ext_trans [OF e2(1) v2] .
    show ?thesis
      using bh(1) bb(1) be(1) bs(1) bh(2) [OF v1 v(2)] bb(2) [OF v2 v(2)] be(2) [OF v3 v(2)] bs(2) [OF v]
      by (simp add: rule_convert_from_def y)
  qed
  moreover have "\<exists>c. rule_convert_from r src = Ok c"
    using bh(1) bb(1) be(1) bs(1) by (simp add: rule_convert_from_def)
  moreover have "table_ext t u"
    using table_ext_trans [OF e1(1) table_ext_trans [OF e2(1) table_ext_trans [OF e3(1) e4(1)]]] .
  ultimately show "table_ext t u \<and> (\<exists>b. rule_convert_from r src = Ok b \<and>
      (\<forall>v. table_ext u v \<longrightarrow> st_terms.small v \<longrightarrow> rule_convert_from y v = Ok b))" by auto
qed

section \<open>Translations do not panic\<close>

lemma otraverse_not_Panic:
  "(\<And>x s. x \<in> set xs \<Longrightarrow> h x s \<noteq> Panic) \<Longrightarrow> otraverse h xs s \<noteq> Panic"
  by (induction xs arbitrary: s) (auto simp: outcome_simps)

lemma print_symbol_not_Panic [simp]: "print_symbol s i \<noteq> Panic"
  by (simp add: print_symbol_def)

lemma term_convert_from_not_Panic [simp]: "term_convert_from t s \<noteq> Panic"
  unfolding term_convert_from_def by (rule extern_term_not_Panic) simp_all

lemma predicate_convert_from_not_Panic [simp]: "predicate_convert_from p s \<noteq> Panic"
  by (simp add: predicate_convert_from_def outcome_simps traverse_not_Panic)

lemma unary_convert_from_not_Panic [simp]: "unary_convert_from b s \<noteq> Panic"
  by (cases b) (simp_all add: outcome_simps)

lemma binary_convert_from_not_Panic [simp]: "binary_convert_from b s \<noteq> Panic"
  by (cases b) (simp_all add: outcome_simps)

lemma op_convert_from_not_Panic [simp]: "op_convert_from p s \<noteq> Panic"
  by (induction p) (auto simp: outcome_simps traverse_not_Panic)

lemma expression_convert_from_not_Panic [simp]: "expression_convert_from e s \<noteq> Panic"
  by (simp add: expression_convert_from_def outcome_simps traverse_not_Panic)

lemma scope_convert_from_not_Panic [simp]: "scope_convert_from c s \<noteq> Panic"
  by (cases c) (simp_all add: outcome_simps)

lemma rule_convert_from_not_Panic [simp]: "rule_convert_from r s \<noteq> Panic"
  by (simp add: rule_convert_from_def outcome_simps traverse_not_Panic)

lemma read_then_write_not_Panic:
  "m \<noteq> Panic \<Longrightarrow> (\<And>b. m = Ok b \<Longrightarrow> f b s \<noteq> None) \<Longrightarrow> read_then_write m f s \<noteq> Panic"
  by (cases m) (auto simp: read_then_write_def split: option.splits elim: or_panic.elims)

lemma rule_translate_not_Panic: "rule_translate src r s \<noteq> Panic"
proof -
  have p: "predicate_translate src p t \<noteq> Panic" for p t
    unfolding predicate_translate_def
    by (rule read_then_write_not_Panic)
      (auto simp: predicate_convert_None dest: predicate_convert_from_closed)
  have e: "read_then_write (expression_convert_from e src) expression_convert t \<noteq> Panic" for e t
    by (rule read_then_write_not_Panic)
      (auto simp: expression_convert_None dest: expression_convert_from_closed)
  have c: "read_then_write (scope_convert_from c src) scope_convert t \<noteq> Panic" for c t
    by (rule read_then_write_not_Panic) (auto simp: scope_convert_None dest: scope_convert_from_closed)
  show ?thesis
    by (auto simp: rule_translate_def outcome_simps p otraverse_not_Panic [OF p]
        otraverse_not_Panic [OF e] otraverse_not_Panic [OF c])
qed

lemma smap_not_None: "(\<And>x s. x \<in> set xs \<Longrightarrow> f x s \<noteq> None) \<Longrightarrow> smap f xs s \<noteq> None"
  using smap_None_iff [of xs f "\<lambda>_. False" s] by auto

lemma check_translate_not_Panic: "check_translate src c s \<noteq> Panic"
  unfolding check_translate_def
proof (rule read_then_write_not_Panic)
  show "check_convert_from c src \<noteq> Panic"
    by (simp add: check_convert_from_def outcome_simps traverse_not_Panic)
  fix b
  assume "check_convert_from c src = Ok b"
  then obtain qs where qs: "traverse (\<lambda>q. rule_convert_from q src) (c_queries c) = Ok qs"
    and b: "b = \<lparr>bc_queries = qs, bc_kind = c_kind c\<rparr>"
    by (auto simp: check_convert_from_def outcome_simps)
  have "\<forall>r \<in> set qs. plain r \<and> rule_parameters r = []"
    by (rule traverse_all [OF qs]) (use rule_convert_from_closed in blast)
  then have "smap rule_convert qs s \<noteq> None"
    by (intro smap_not_None) (simp add: rule_convert_def plain_apply plain_rule_convert_None)
  then show "check_convert b s \<noteq> None" by (simp add: check_convert_def b)
qed

section \<open>Properties\<close>

lemma small_symbols:
  assumes "length (st_symbols t) + symbol_offset \<le> 2 ^ 32"
  shows "st_terms.small t"
  unfolding st_terms.small_def
proof (intro allI impI)
  fix i s
  assume "get_symbol t i = Some s"
  then have "i < symbol_offset + length (st_symbols t)"
    by (auto simp: get_symbol_def nth_opt_def split: if_splits)
  with assms show "i < 2 ^ 32" by simp
qed

text \<open>
  C14: A rule converted to the engine and read back, from the table the conversion produced or any
  table that extends it, is the rule with its parameters substituted: nothing of it is lost, and
  the indices handed out stay valid while the table grows (below 2^32 entries).
\<close>
theorem rule_roundtrip:
  assumes "table_wf t" "wf_brule (rule_apply_parameters r)" "rule_convert r t = Some (y, u)"
    and "table_ext u v" "st_terms.small v"
  shows "rule_convert_from y v = Ok (forget_parameters (rule_apply_parameters r))"
  using plain_rule_roundtrip [OF assms(2,1)] assms(3-5) unfolding rule_convert_def by blast

lemma table_wf_new: "table_wf st_new"
  unfolding table_wf_def by (rule conjI, rule st_wf_new) (simp add: st_new_def pk_new_def pk_wf_def)

definition sample_rule :: brule where
  "sample_rule =
     rule_new \<lparr>bp_name = ''read'', bp_terms = [BVariable ''read'', BParameter ''p'']\<rparr>
       [\<lparr>bp_name = ''read'', bp_terms = [BVariable ''read'']\<rparr>] [] [BScope_Authority]"

definition sample_rule_set :: brule where
  "sample_rule_set = sample_rule\<lparr>br_parameters := Some [(''p'', Some (BStr ''read''))]\<rparr>"

lemma sample_rule_set_small:
  "case rule_convert sample_rule_set st_new of
     Some (y, u) \<Rightarrow> length (st_symbols u) + symbol_offset \<le> 2 ^ 32 | None \<Rightarrow> False"
  by (simp add: rule_convert_def plain_rule_convert_def sample_rule_set_def sample_rule_def
      rule_new_def rule_apply_parameters_def predicate_convert_def predicate_apply_def st_insert_def
      st_new_def default_symbols_def term_convert_def symbol_offset_def)

lemma rule_roundtrip_witness:
  "case rule_convert sample_rule_set st_new of
     Some (y, u) \<Rightarrow> rule_convert_from y u = Ok (forget_parameters (rule_apply_parameters sample_rule_set))
   | None \<Rightarrow> False"
proof -
  have w: "wf_brule (rule_apply_parameters sample_rule_set)" by code_simp
  from sample_rule_set_small obtain y u where run: "rule_convert sample_rule_set st_new = Some (y, u)"
    and s: "length (st_symbols u) + symbol_offset \<le> 2 ^ 32"
    by (auto split: option.splits)
  have u: "table_ext u u"
    using plain_rule_roundtrip [OF w table_wf_new run [unfolded rule_convert_def]] table_ext_wf
      table_ext_refl by blast
  show ?thesis
    using rule_roundtrip [OF table_wf_new w run u small_symbols [OF s]] by (simp add: run)
qed

text \<open>
  Converting a rule panics exactly when a parameter remains somewhere in it after the
  substitution of the values that were set.
\<close>
theorem rule_convert_panics:
  "rule_convert r s = None \<longleftrightarrow> rule_parameters (rule_apply_parameters r) \<noteq> []"
  by (simp add: rule_convert_def plain_rule_convert_None)

text \<open>
  A parameter inside a collection of a rule's head is reported by \<open>Rule::new\<close>, can be set and
  then passes \<open>validate_parameters\<close>, but is never substituted, so that converting the rule panics.
  The fact with the same terms is converted.
\<close>
theorem nested_parameter_not_substituted:
  "\<exists>r. rule_set ''p'' (BInteger 1) (rule_new \<lparr>bp_name = ''f'', bp_terms = [BArray [BParameter ''p'']]\<rparr> [] [] []) = Ok r \<and>
     rule_validate_parameters r = Ok () \<and> rule_convert r st_new = None \<and>
     (\<exists>f. fact_set ''p'' (BInteger 1) (fact_new ''f'' [BArray [BParameter ''p'']]) = Ok f \<and>
       fact_convert f st_new \<noteq> None)"
proof -
  let ?r = "case rule_set ''p'' (BInteger 1) (rule_new \<lparr>bp_name = ''f'', bp_terms = [BArray [BParameter ''p'']]\<rparr> [] [] []) of Ok r \<Rightarrow> r | _ \<Rightarrow> undefined"
  let ?f = "case fact_set ''p'' (BInteger 1) (fact_new ''f'' [BArray [BParameter ''p'']]) of Ok f \<Rightarrow> f | _ \<Rightarrow> undefined"
  show ?thesis
    by (rule exI [of _ ?r], intro conjI exI [of _ ?f]; code_simp)
qed

definition sample_table :: symbol_table where
  "sample_table = \<lparr>st_symbols = [''x''], st_public_keys = pk_new\<rparr>"

definition sample_query :: rule where
  "sample_query =
     \<lparr>r_head = \<lparr>p_name = 1024, p_terms = [Str 1024, Variable 1024]\<rparr>,
      r_body = [\<lparr>p_name = 0, p_terms = [Variable 1024]\<rparr>],
      r_expressions = [\<lparr>e_ops = [Value (Variable 1024), Unary Length]\<rparr>], r_scopes = [Scope_Previous]\<rparr>"

lemma sample_query_translated:
  "rule_translate sample_table sample_query st_new = Ok (sample_query, sample_table)"
  by (simp add: rule_translate_def sample_table_def sample_query_def predicate_translate_def
      read_then_write_def predicate_convert_from_def predicate_convert_def print_symbol_def get_symbol_def
      symbol_offset_def nth_opt_def default_symbols_def term_convert_from_def term_convert_def
      st_insert_def st_new_def expression_convert_from_def expression_convert_def as_u32_def)

lemma sample_check_translated:
  "check_translate sample_table \<lparr>c_queries = [sample_query], c_kind = All_kind\<rparr> st_new =
     Ok (\<lparr>c_queries = [sample_query], c_kind = All_kind\<rparr>, sample_table)"
  by (simp add: check_translate_def check_convert_def check_convert_from_def rule_convert_from_def
      rule_convert_def plain_rule_convert_def rule_apply_parameters_def sample_table_def sample_query_def
      read_then_write_def predicate_convert_from_def predicate_convert_def print_symbol_def get_symbol_def
      symbol_offset_def nth_opt_def default_symbols_def term_convert_from_def term_convert_def
      st_insert_def st_new_def expression_convert_from_def expression_convert_def as_u32_def)

lemma sample_table_facts: "table_ext sample_table sample_table" "st_terms.small sample_table"
  by (rule table_ext_refl, simp add: table_wf_def sample_table_def st_wf_def pk_wf_def pk_new_def
      default_symbols_def) (rule small_symbols, simp add: sample_table_def symbol_offset_def)

text \<open>
  Translating a check from one table to another never panics, only extends the target table,
  and keeps the meaning: read from the target (or any later table) it is the check that was read
  from the source.
\<close>
theorem check_translate_meaning:
  "check_translate src c t \<noteq> Panic \<and>
   (\<forall>y u v. table_wf t \<longrightarrow> check_translate src c t = Ok (y, u) \<longrightarrow> table_ext u v \<longrightarrow> st_terms.small v \<longrightarrow>
      table_ext t u \<and> is_ok (check_convert_from c src) \<and> check_convert_from y v = check_convert_from c src)"
  using tr_check [of src c] check_translate_not_Panic [of src c t]
  unfolding tr_def is_ok_iff by fastforce

lemma check_translate_meaning_witness:
  "is_ok (check_convert_from \<lparr>c_queries = [sample_query], c_kind = All_kind\<rparr> sample_table)"
  using check_translate_meaning [of sample_table "\<lparr>c_queries = [sample_query], c_kind = All_kind\<rparr>" st_new]
    sample_check_translated table_wf_new sample_table_facts by blast

text \<open>
  C35: Translating a rule, part by part, never panics, only extends the target table, and keeps
  the meaning of the rule.
\<close>
theorem rule_translate_meaning:
  "rule_translate src r t \<noteq> Panic \<and>
   (\<forall>y u v. table_wf t \<longrightarrow> rule_translate src r t = Ok (y, u) \<longrightarrow> table_ext u v \<longrightarrow> st_terms.small v \<longrightarrow>
      table_ext t u \<and> is_ok (rule_convert_from r src) \<and> rule_convert_from y v = rule_convert_from r src)"
  using tr_rule [of src r] rule_translate_not_Panic [of src r t]
  unfolding tr_def is_ok_iff by fastforce

lemma rule_translate_meaning_witness:
  "is_ok (rule_convert_from sample_query sample_table)"
  using rule_translate_meaning [of sample_table sample_query st_new]
    sample_query_translated table_wf_new sample_table_facts by blast

end
