(* ===== verification/Wire.thy ===== *)
theory Wire
  imports Convert Builder_Roundtrip
begin

text \<open>
  Round trips between the engine's data and the wire format, and the canonical form of what can
  be read.  A term survives the wire exactly when it is canonical (\<open>wire_term\<close>): its sets and
  maps are ordered and its sets hold terms of one type, none of them variables or sets.  A block
  survives it when its contents are canonical and it declares at least the version they need.
\<close>

section \<open>Canonical terms\<close>

fun term_kind :: "dterm \<Rightarrow> nat option" where
  "term_kind (Variable _) = None"
| "term_kind (Integer _) = Some 2"
| "term_kind (Str _) = Some 3"
| "term_kind (Date _) = Some 4"
| "term_kind (Bytes _) = Some 5"
| "term_kind (Bool _) = Some 6"
| "term_kind (Set _) = None"
| "term_kind Null = Some 8"
| "term_kind (Array _) = Some 9"
| "term_kind (Map _) = Some 10"

definition homogeneous :: "dterm list \<Rightarrow> bool" where
  "homogeneous ts \<longleftrightarrow> ts = [] \<or> (\<exists>k. \<forall>t \<in> set ts. term_kind t = Some k)"

fun wire_term :: "dterm \<Rightarrow> bool" where
  "wire_term (Set ts) \<longleftrightarrow> strict_sorted ts \<and> homogeneous ts \<and> (\<forall>t \<in> set ts. wire_term t)"
| "wire_term (Array ts) \<longleftrightarrow> (\<forall>t \<in> set ts. wire_term t)"
| "wire_term (Map m) \<longleftrightarrow> strict_sorted (map fst m) \<and> (\<forall>(k, t) \<in> set m. wire_term t)"
| "wire_term _ \<longleftrightarrow> True"

lemma key_roundtrip [simp]: "key_from_proto (key_to_proto k) = Ok k"
  by (cases k) simp_all

lemma set_index_write: "set_index (token_term_to_proto_id t) = Ok k \<longleftrightarrow> term_kind t = Some k"
  by (cases t) auto

lemma set_loop_write:
  assumes "\<forall>t \<in> set ts. term_kind t = Some k \<and> f (token_term_to_proto_id t) = Ok t"
    and "sorted_wrt (<) (acc @ ts)" "kind = None \<or> kind = Some k"
  shows "set_loop f kind acc (map token_term_to_proto_id ts) = Ok (acc @ ts)"
  using assms
proof (induction ts arbitrary: acc kind)
  case (Cons t ts)
  have "bt_insert t acc = acc @ [t]"
    by (rule bt_insert_snoc) (use Cons.prems(2) in \<open>auto simp: sorted_wrt_append\<close>)
  moreover have "set_loop f (Some k) (acc @ [t]) (map token_term_to_proto_id ts) = Ok ((acc @ [t]) @ ts)"
    by (rule Cons.IH) (use Cons.prems in auto)
  moreover have "set_index (token_term_to_proto_id t) = Ok k" "f (token_term_to_proto_id t) = Ok t"
    using Cons.prems(1) by (auto simp: set_index_write)
  ultimately show ?case using Cons.prems(3) by auto
qed simp

lemma term_write_read: "wire_term t \<Longrightarrow> proto_id_to_token_term (token_term_to_proto_id t) = Ok t"
proof (induction t)
  case (Set ts)
  show ?case
  proof (cases "ts = []")
    case False
    with Set.prems obtain k where "\<forall>t \<in> set ts. term_kind t = Some k"
      by (auto simp: homogeneous_def)
    then have "set_loop proto_id_to_token_term None [] (map token_term_to_proto_id ts) = Ok ([] @ ts)"
      using Set by (intro set_loop_write [of _ k]) (auto simp: strict_sorted_def)
    then show ?thesis by simp
  qed simp
next
  case (Array ts)
  then show ?case by (simp add: traverse_map_id)
next
  case (Map m)
  have "traverse (\<lambda>(k, v). obind (key_from_proto k) (\<lambda>l. obind (proto_id_to_token_term v) (\<lambda>t. Ok (l, t))))
      (map (\<lambda>(k, t). (key_to_proto k, token_term_to_proto_id t)) m) = Ok m"
    by (rule traverse_map_id) (use Map in fastforce)
  then show ?case using Map.prems by (simp add: bm_of_list_sorted)
qed simp_all

lemma read_kind: "proto_id_to_token_term x = Ok t \<Longrightarrow> set_index x = Ok k \<Longrightarrow> term_kind t = Some k"
  by (cases x) (auto simp: outcome_simps)

lemma set_loop_read:
  assumes "set_loop f kind acc xs = Ok ts" "\<And>x t. x \<in> set xs \<Longrightarrow> f x = Ok t \<Longrightarrow> P t"
    and "\<And>x t k. f x = Ok t \<Longrightarrow> set_index x = Ok k \<Longrightarrow> term_kind t = Some k"
    and "strict_sorted acc" "\<forall>t \<in> set acc. P t \<and> term_kind t = kind" "acc = [] \<or> kind \<noteq> None"
  shows "strict_sorted ts \<and> homogeneous ts \<and> (\<forall>t \<in> set ts. P t)"
  using assms(1,2,4,5,6)
proof (induction xs arbitrary: kind acc)
  case Nil
  then show ?case by (auto simp: homogeneous_def)
next
  case (Cons x xs)
  from Cons.prems(1) obtain k t where k: "set_index x = Ok k" "kind = None \<or> kind = Some k"
    and t: "f x = Ok t" and rest: "set_loop f (Some k) (bt_insert t acc) xs = Ok ts"
    by (auto simp: outcome_simps split: if_splits)
  have "P t" by (rule Cons.prems(2) [OF _ t]) simp
  moreover have "term_kind t = Some k" using assms(3) t k(1) .
  ultimately show ?case
    using Cons.prems k(2) by (intro Cons.IH [OF rest]) (auto simp: strict_sorted_bt_insert)
qed

lemma read_wire: "proto_id_to_token_term x = Ok t \<Longrightarrow> wire_term t"
proof (induction x arbitrary: t)
  case (Term_Set xs)
  then obtain ts where "set_loop proto_id_to_token_term None [] xs = Ok ts" and t: "t = Set ts"
    by (auto simp: outcome_simps)
  then have "strict_sorted ts \<and> homogeneous ts \<and> (\<forall>t \<in> set ts. wire_term t)"
    using Term_Set.IH read_kind by (elim set_loop_read) (auto simp: strict_sorted_def)
  then show ?case by (simp add: t)
next
  case (Term_Array xs)
  then obtain ts where ts: "traverse proto_id_to_token_term xs = Ok ts" and t: "t = Array ts"
    by (auto simp: outcome_simps)
  have "\<forall>t \<in> set ts. wire_term t" by (rule traverse_all [OF ts]) (rule Term_Array.IH)
  then show ?case by (simp add: t)
next
  case (Term_Map m)
  then obtain es where es: "traverse (\<lambda>(k, v). obind (key_from_proto k) (\<lambda>l.
      obind (proto_id_to_token_term v) (\<lambda>t. Ok (l, t)))) m = Ok es" and t: "t = Map (bm_of_list es)"
    by (auto simp: outcome_simps)
  have "\<forall>e \<in> set es. wire_term (snd e)"
    by (rule traverse_all [OF es]) (use Term_Map.IH in \<open>fastforce simp: outcome_simps\<close>)
  then show ?case using set_bm_of_list_subset [of es] by (fastforce simp: t)
qed auto

lemma wire_wf: "wire_term t \<Longrightarrow> wf_term t"
  by (induction t) auto

section \<open>Canonical rules and checks\<close>

definition wire_predicate :: "predicate \<Rightarrow> bool" where
  "wire_predicate p \<longleftrightarrow> (\<forall>t \<in> set (p_terms p). wire_term t)"

fun wire_op :: "op \<Rightarrow> bool" where
  "wire_op (Value t) \<longleftrightarrow> wire_term t"
| "wire_op (Closure _ ops) \<longleftrightarrow> (\<forall>p \<in> set ops. wire_op p)"
| "wire_op _ \<longleftrightarrow> True"

fun wire_scope :: "scope \<Rightarrow> bool" where
  "wire_scope (Scope_PublicKey i) \<longleftrightarrow> i < 2 ^ 64"
| "wire_scope _ \<longleftrightarrow> True"

definition wire_rule :: "rule \<Rightarrow> bool" where
  "wire_rule r \<longleftrightarrow>
     wire_predicate (r_head r) \<and> (\<forall>p \<in> set (r_body r). wire_predicate p) \<and>
     (\<forall>e \<in> set (r_expressions r). \<forall>p \<in> set (e_ops e). wire_op p) \<and>
     (\<forall>c \<in> set (r_scopes r). wire_scope c)"

lemma predicate_write_read:
  "wire_predicate p \<Longrightarrow> proto_predicate_to_token_predicate (token_predicate_to_proto_predicate p) = Ok p"
  by (simp add: proto_predicate_to_token_predicate_def token_predicate_to_proto_predicate_def
      wire_predicate_def traverse_map_id term_write_read)

lemma fact_write_read:
  "wire_predicate (f_predicate f) \<Longrightarrow> proto_fact_to_token_fact (token_fact_to_proto_fact f) = Ok f"
  by (simp add: proto_fact_to_token_fact_def token_fact_to_proto_fact_def predicate_write_read)

lemma unary_write_read:
  "unary_from_proto \<lparr>pu_kind = tag_in unary_kinds (kind_of_unary u), pu_ffi_name = ffi_of_unary u\<rparr> = Ok u"
  by (cases u) (simp_all add: unary_from_proto_def)

lemma binary_write_read:
  "binary_from_proto \<lparr>pb_kind = tag_in binary_kinds (kind_of_binary b), pb_ffi_name = ffi_of_binary b\<rparr> = Ok b"
  by (cases b) (simp_all add: binary_from_proto_def)

lemma op_write_read: "wire_op p \<Longrightarrow> proto_op_to_token_op (token_op_to_proto_op p) = Ok p"
  by (induction p) (simp_all add: term_write_read unary_write_read binary_write_read traverse_map_id)

lemma expression_write_read:
  "\<forall>p \<in> set (e_ops e). wire_op p \<Longrightarrow>
     proto_expression_to_token_expression (token_expression_to_proto_expression e) = Ok e"
  by (simp add: proto_expression_to_token_expression_def token_expression_to_proto_expression_def
      traverse_map_id op_write_read)

lemma scope_write_read: "wire_scope c \<Longrightarrow> proto_scope_to_token_scope (token_scope_to_proto_scope c) = Ok c"
  by (cases c) (simp_all add: unat_of_nat)

lemma rule_write_read:
  assumes "wire_rule r" "r_scopes r \<noteq> [] \<longrightarrow> DATALOG_3_1 \<le> v"
  shows "proto_rule_to_token_rule (token_rule_to_proto_rule r) v = Ok (r, r_scopes r)"
  using assms
  by (auto simp: proto_rule_to_token_rule_def token_rule_to_proto_rule_def wire_rule_def traverse_map_id
      predicate_write_read expression_write_read scope_write_read)

lemma proto_rule_write_read:
  "wire_rule r \<Longrightarrow> r_scopes r \<noteq> [] \<longrightarrow> DATALOG_3_1 \<le> v \<Longrightarrow>
     proto_rule_rule (token_rule_to_proto_rule r) v = Ok r"
  by (simp add: proto_rule_rule_def rule_write_read)

lemma check_write_read:
  assumes "\<forall>q \<in> set (c_queries c). wire_rule q \<and> (r_scopes q \<noteq> [] \<longrightarrow> DATALOG_3_1 \<le> v)"
  shows "proto_check_to_token_check (token_check_to_proto_check c) v = Ok c"
proof -
  have "traverse (\<lambda>q. proto_rule_rule q v) (map token_rule_to_proto_rule (c_queries c)) = Ok (c_queries c)"
    by (rule traverse_map_id) (use assms in \<open>simp add: proto_rule_write_read\<close>)
  then show ?thesis
    by (cases "c_kind c") (simp_all add: proto_check_to_token_check_def token_check_to_proto_check_def)
qed

section \<open>Blocks\<close>

definition block_version :: "block \<Rightarrow> nat" where
  "block_version b =
     schema_version_number (get_schema_version (bl_facts b) (bl_rules b) (bl_checks b) (bl_scopes b))"

definition wire_contents :: "block \<Rightarrow> bool" where
  "wire_contents b \<longleftrightarrow>
     (\<forall>f \<in> set (bl_facts b). wire_predicate (f_predicate f)) \<and> (\<forall>r \<in> set (bl_rules b). wire_rule r) \<and>
     (\<forall>c \<in> set (bl_checks b). \<forall>q \<in> set (c_queries c). wire_rule q) \<and>
     (\<forall>c \<in> set (bl_scopes b). wire_scope c)"

definition wire_tables :: "primitives \<Rightarrow> block \<Rightarrow> bool" where
  "wire_tables p b \<longleftrightarrow>
     set default_symbols \<inter> set (st_symbols (bl_symbols b)) = {} \<and>
     distinct (pk_keys (bl_public_keys b)) \<and> (\<forall>k \<in> set (pk_keys (bl_public_keys b)). valid_public p k)"

lemma schema_version_number_cases:
  "contains_v3_3 sv \<Longrightarrow> schema_version_number sv = DATALOG_3_3"
  "contains_scopes sv \<or> contains_check_all sv \<Longrightarrow> DATALOG_3_1 \<le> schema_version_number sv"
  "MIN_SCHEMA_VERSION \<le> schema_version_number sv" "schema_version_number sv \<le> MAX_SCHEMA_VERSION"
  by (auto simp: schema_version_number_def version_numbers)

lemma get_schema_version_scopes:
  "contains_scopes (get_schema_version fs rs cs ss) \<longleftrightarrow>
     ss \<noteq> [] \<or> (\<exists>r \<in> set rs. r_scopes r \<noteq> []) \<or> (\<exists>c \<in> set cs. \<exists>q \<in> set (c_queries c). r_scopes q \<noteq> [])"
  by (simp add: get_schema_version_def Let_def)

lemma get_schema_version_kinds:
  "contains_check_all (get_schema_version fs rs cs ss) \<longleftrightarrow> (\<exists>c \<in> set cs. c_kind c = All_kind)"
  "(\<exists>c \<in> set cs. c_kind c = Reject_kind) \<Longrightarrow> contains_v3_3 (get_schema_version fs rs cs ss)"
  by (auto simp: get_schema_version_def Let_def)

lemma check_compatibility_from_version:
  "schema_version_number sv \<le> v \<Longrightarrow> check_compatibility sv v = Ok ()"
  by (auto simp: check_compatibility_def schema_version_number_def version_numbers split: if_splits)

lemma insert_keys_write:
  assumes "distinct (acc @ ks)" "\<forall>k \<in> set ks. valid_public p k"
  shows "insert_keys p (map public_to_proto ks) \<lparr>pk_keys = acc\<rparr> = Ok \<lparr>pk_keys = acc @ ks\<rparr>"
  using assms
proof (induction ks arbitrary: acc)
  case (Cons k ks)
  have "pk_insert_fallible k \<lparr>pk_keys = acc\<rparr> = Ok (length acc, \<lparr>pk_keys = acc @ [k]\<rparr>)"
    using Cons.prems(1) by (auto simp: pk_insert_fallible_def position_None_iff split: option.splits
        dest: position_Some_nth)
  moreover have "insert_keys p (map public_to_proto ks) \<lparr>pk_keys = acc @ [k]\<rparr> = Ok \<lparr>pk_keys = (acc @ [k]) @ ks\<rparr>"
    by (rule Cons.IH) (use Cons.prems in auto)
  ultimately show ?case using Cons.prems(2) by (simp add: public_roundtrip)
qed simp

text \<open>The version bounds what the elements of the block use.\<close>

lemma block_version_scopes:
  assumes "block_version b \<le> v"
  shows "r \<in> set (bl_rules b) \<Longrightarrow> r_scopes r \<noteq> [] \<longrightarrow> DATALOG_3_1 \<le> v"
    and "c \<in> set (bl_checks b) \<Longrightarrow> q \<in> set (c_queries c) \<Longrightarrow> r_scopes q \<noteq> [] \<longrightarrow> DATALOG_3_1 \<le> v"
  using assms schema_version_number_cases(2) [of "get_schema_version (bl_facts b) (bl_rules b) (bl_checks b) (bl_scopes b)"]
  unfolding block_version_def get_schema_version_scopes by fastforce+

lemma block_version_kinds:
  assumes "block_version b \<le> v" "c \<in> set (bl_checks b)"
  shows "check_kind_supported v (token_check_to_proto_check c) = Ok ()"
proof -
  let ?sv = "get_schema_version (bl_facts b) (bl_rules b) (bl_checks b) (bl_scopes b)"
  have "c_kind c = All_kind \<Longrightarrow> DATALOG_3_1 \<le> v"
    using assms schema_version_number_cases(2) [of ?sv] get_schema_version_kinds(1)
    unfolding block_version_def by fastforce
  moreover have "c_kind c = Reject_kind \<Longrightarrow> DATALOG_3_3 \<le> v"
    using assms schema_version_number_cases(1) [of ?sv] get_schema_version_kinds(2)
    unfolding block_version_def by fastforce
  ultimately show ?thesis
    by (cases "c_kind c") (auto simp: check_kind_supported_def token_check_to_proto_check_def version_numbers)
qed

lemma traverse_unit: "(\<And>x. x \<in> set xs \<Longrightarrow> f (g x) = Ok ()) \<Longrightarrow> \<exists>us. traverse f (map g xs) = Ok us"
  by (induction xs) auto

lemma block_elements_write_read:
  assumes "wire_contents b" "block_version b \<le> v"
  shows "traverse proto_fact_to_token_fact (map token_fact_to_proto_fact (bl_facts b)) = Ok (bl_facts b)"
    "traverse (\<lambda>r. proto_rule_rule r v) (map token_rule_to_proto_rule (bl_rules b)) = Ok (bl_rules b)"
    "traverse (\<lambda>c. proto_check_to_token_check c v) (map token_check_to_proto_check (bl_checks b)) = Ok (bl_checks b)"
    "traverse proto_scope_to_token_scope (map token_scope_to_proto_scope (bl_scopes b)) = Ok (bl_scopes b)"
    "\<exists>us. traverse (check_kind_supported v) (map token_check_to_proto_check (bl_checks b)) = Ok us"
  using assms block_version_scopes [OF assms(2)] block_version_kinds [OF assms(2)]
  by (auto simp: wire_contents_def intro!: traverse_map_id fact_write_read proto_rule_write_read
      check_write_read scope_write_read traverse_unit)

lemma block_write_read:
  assumes "wire_contents b" "wire_tables p b"
    and "block_version b \<le> bl_version b" "bl_version b \<le> MAX_SCHEMA_VERSION"
    and "ek \<noteq> None \<longrightarrow> DATALOG_3_2 \<le> bl_version b"
  shows "proto_block_to_token_block p (token_block_to_proto_block b) ek =
    Ok (b\<lparr>bl_symbols := \<lparr>st_symbols = st_symbols (bl_symbols b), st_public_keys = bl_public_keys b\<rparr>,
         bl_external_key := ek\<rparr>)"
proof -
  note elements = block_elements_write_read [OF assms(1,3)]
  obtain us where kinds: "traverse (check_kind_supported (bl_version b))
      (map token_check_to_proto_check (bl_checks b)) = Ok us" using elements(5) by blast
  have keys: "insert_keys p (map public_to_proto (pk_keys (bl_public_keys b))) pk_new = Ok (bl_public_keys b)"
    using insert_keys_write [of "[]" "pk_keys (bl_public_keys b)" p] assms(2)
    by (simp add: pk_new_def wire_tables_def)
  have symbols: "st_from_symbols_and_public_keys (st_symbols (bl_symbols b)) (pk_keys (bl_public_keys b)) =
      Ok \<lparr>st_symbols = st_symbols (bl_symbols b), st_public_keys = bl_public_keys b\<rparr>"
    using assms(2) by (simp add: st_from_symbols_and_public_keys_def st_from_def pk_from_def wire_tables_def)
  have version: "supported_version (bl_version b)"
    using assms(3,4) schema_version_number_cases(3) unfolding supported_version_def block_version_def
    by (meson le_trans)
  have compatible: "check_compatibility (get_schema_version (bl_facts b) (bl_rules b) (bl_checks b)
      (bl_scopes b)) (bl_version b) = Ok ()"
    using assms(3) unfolding block_version_def by (rule check_compatibility_from_version)
  show ?thesis
    using assms(5) by (auto simp: proto_block_to_token_block_def token_block_to_proto_block_def
        version_or_zero_def Let_def version elements(1-4) kinds keys symbols compatible)
qed

section \<open>Properties\<close>

text \<open>
  A term survives the wire, written and read back, exactly when it is canonical, and every
  term read from the wire is canonical: its sets and maps are ordered and its sets are
  homogeneous, without variables or nested sets.
\<close>
theorem term_wire_roundtrip:
  "(proto_id_to_token_term (token_term_to_proto_id t) = Ok t \<longleftrightarrow> wire_term t) \<and>
   (\<forall>x. proto_id_to_token_term x = Ok t \<longrightarrow> wire_term t \<and> wf_term t)"
  using term_write_read read_wire wire_wf by blast

lemma term_wire_roundtrip_witness: "wf_term (Set [Integer 1, Integer 2])"
  using term_wire_roundtrip [of "Set [Integer 1, Integer 2]"]
    term_write_read [of "Set [Integer 1, Integer 2]"]
  by (auto simp: strict_sorted_def homogeneous_def)

text \<open>
  A block whose contents are canonical, which declares a supported version that is at least
  the one its contents need, is read back from the wire as it was written, with its own public
  keys as the keys of its symbol table and with the external key it is read under.
\<close>
theorem block_wire_roundtrip:
  assumes "wire_contents b" "wire_tables p b"
    and "block_version b \<le> bl_version b" "bl_version b \<le> MAX_SCHEMA_VERSION"
    and "ek \<noteq> None \<longrightarrow> DATALOG_3_2 \<le> bl_version b"
  shows "proto_block_to_token_block p (token_block_to_proto_block b) ek =
    Ok (b\<lparr>bl_symbols := \<lparr>st_symbols = st_symbols (bl_symbols b), st_public_keys = bl_public_keys b\<rparr>,
         bl_external_key := ek\<rparr>)"
  using assms by (rule block_write_read)

definition sample_block :: block where
  "sample_block =
     \<lparr>bl_symbols = \<lparr>st_symbols = [''a''], st_public_keys = pk_new\<rparr>,
      bl_facts = [\<lparr>f_predicate = \<lparr>p_name = 1024, p_terms = [Set [Integer 1, Integer 2], Null]\<rparr>\<rparr>],
      bl_rules = [], bl_checks = [\<lparr>c_queries = [], c_kind = Reject_kind\<rparr>], bl_context = None,
      bl_version = 6, bl_external_key = None, bl_public_keys = pk_new, bl_scopes = [Scope_PublicKey 3]\<rparr>"

lemma block_wire_roundtrip_witness:
  "proto_block_to_token_block demo (token_block_to_proto_block sample_block) (Some (Ed25519_key [])) =
     Ok (sample_block\<lparr>bl_external_key := Some (Ed25519_key [])\<rparr>)"
proof -
  have "wire_contents sample_block"
    by (simp add: wire_contents_def sample_block_def wire_predicate_def strict_sorted_def homogeneous_def)
  moreover have "wire_tables demo sample_block"
    by (simp add: wire_tables_def sample_block_def pk_new_def default_symbols_def)
  moreover have "block_version sample_block \<le> bl_version sample_block" "bl_version sample_block = 6"
    by (simp_all add: block_version_def sample_block_def schema_version_number_def version_numbers)
  ultimately show ?thesis
    using block_wire_roundtrip [of sample_block demo "Some (Ed25519_key [])"]
    by (simp add: version_numbers sample_block_def)
qed

end
