(* ===== verification/Blocks.thy ===== *)
theory Blocks
  imports Wire
begin

text \<open>
  Building blocks (\<open>token/builder/block.rs\<close>, the helper functions of \<open>token/builder.rs\<close>) and
  translating them between symbol tables (\<open>token/block.rs\<close>).  A builder collects validated
  elements; \<open>build\<close> interns their strings and keys on top of the tables of the token and keeps the
  new ones as the block's own.  The Datalog parser is a parameter of \<open>code_with_params\<close>.
\<close>

section \<open>Helper functions\<close>

definition make_pred :: "string \<Rightarrow> bterm list \<Rightarrow> bpredicate" where
  "make_pred name ts = \<lparr>bp_name = name, bp_terms = ts\<rparr>"

definition make_fact :: "string \<Rightarrow> bterm list \<Rightarrow> bfact" where
  "make_fact name ts = fact_new (bp_name (make_pred name ts)) (bp_terms (make_pred name ts))"

definition make_rule :: "string \<Rightarrow> bterm list \<Rightarrow> bpredicate list \<Rightarrow> brule" where
  "make_rule head_name head_terms predicates = rule_new (make_pred head_name head_terms) predicates [] []"

definition constrained_rule :: "string \<Rightarrow> bterm list \<Rightarrow> bpredicate list \<Rightarrow> bexpression list \<Rightarrow> brule" where
  "constrained_rule head_name head_terms predicates expressions =
     rule_new (make_pred head_name head_terms) predicates expressions []"

definition make_check :: "bpredicate list \<Rightarrow> check_kind \<Rightarrow> bcheck" where
  "make_check predicates kind =
     \<lparr>bc_queries = [rule_new (make_pred ''query'' []) predicates [] []], bc_kind = kind\<rparr>"

section \<open>The block builder\<close>

record block_builder =
  bb_facts :: "bfact list"
  bb_rules :: "brule list"
  bb_checks :: "bcheck list"
  bb_scopes :: "bscope list"
  bb_context :: "string option"

definition bb_new :: block_builder where
  "bb_new = \<lparr>bb_facts = [], bb_rules = [], bb_checks = [], bb_scopes = [], bb_context = None\<rparr>"

definition bb_merge :: "block_builder \<Rightarrow> block_builder \<Rightarrow> block_builder" where
  "bb_merge self other =
     (let self' = self\<lparr>bb_facts := bb_facts self @ bb_facts other,
                       bb_rules := bb_rules self @ bb_rules other,
                       bb_checks := bb_checks self @ bb_checks other\<rparr>
      in case bb_context other of Some c \<Rightarrow> self'\<lparr>bb_context := Some c\<rparr> | None \<Rightarrow> self')"

definition bb_fact :: "bfact \<Rightarrow> block_builder \<Rightarrow> (token_error, block_builder) outcome" where
  "bb_fact f bb = obind (fact_validate f) (\<lambda>_. Ok (bb\<lparr>bb_facts := bb_facts bb @ [f]\<rparr>))"

definition bb_rule :: "brule \<Rightarrow> block_builder \<Rightarrow> (token_error, block_builder) outcome" where
  "bb_rule r bb = obind (rule_validate_parameters r) (\<lambda>_. Ok (bb\<lparr>bb_rules := bb_rules bb @ [r]\<rparr>))"

definition bb_check :: "bcheck \<Rightarrow> block_builder \<Rightarrow> (token_error, block_builder) outcome" where
  "bb_check c bb = obind (check_validate_parameters c) (\<lambda>_. Ok (bb\<lparr>bb_checks := bb_checks bb @ [c]\<rparr>))"

definition bb_scope :: "bscope \<Rightarrow> block_builder \<Rightarrow> block_builder" where
  "bb_scope s bb = bb\<lparr>bb_scopes := bb_scopes bb @ [s]\<rparr>"

definition bb_set_context :: "string \<Rightarrow> block_builder \<Rightarrow> block_builder" where
  "bb_set_context c bb = bb\<lparr>bb_context := Some c\<rparr>"

section \<open>Datalog code\<close>

text \<open>What the parser answers for a block of code.\<close>

record source_result =
  so_facts :: "bfact list"
  so_rules :: "brule list"
  so_checks :: "bcheck list"

text \<open>An unknown parameter is ignored, any other error stops.\<close>

definition ignore_unused :: "(token_error, 'a) outcome \<Rightarrow> 'a \<Rightarrow> (token_error, 'a) outcome" where
  "ignore_unused res x =
     (case res of
        Err (Token_Language (Parameters missing _)) \<Rightarrow> (if missing = [] then Ok x else res)
      | _ \<Rightarrow> res)"

fun set_all ::
    "(string \<Rightarrow> 'v \<Rightarrow> 'a \<Rightarrow> (token_error, 'a) outcome) \<Rightarrow> (string \<times> 'v) list \<Rightarrow> 'a \<Rightarrow> (token_error, 'a) outcome" where
  "set_all f [] x = Ok x"
| "set_all f ((name, v) # ps) x = obind (ignore_unused (f name v x) x) (set_all f ps)"

fun bb_code_facts :: "(string \<times> bterm) list \<Rightarrow> bfact list \<Rightarrow> block_builder \<Rightarrow> (token_error, block_builder) outcome" where
  "bb_code_facts params [] bb = Ok bb"
| "bb_code_facts params (f # fs) bb =
     obind (set_all fact_set params f) (\<lambda>f'. obind (bb_fact f' bb) (bb_code_facts params fs))"

fun bb_code_rules ::
    "(string \<times> bterm) list \<Rightarrow> (string \<times> public_key) list \<Rightarrow> brule list \<Rightarrow> block_builder \<Rightarrow>
     (token_error, block_builder) outcome" where
  "bb_code_rules params scope_params [] bb = Ok bb"
| "bb_code_rules params scope_params (r # rs) bb =
     obind (set_all rule_set params r) (\<lambda>r1.
     obind (set_all rule_set_scope scope_params r1) (\<lambda>r2.
     obind (bb_rule r2 bb) (bb_code_rules params scope_params rs)))"

fun bb_code_checks ::
    "(string \<times> bterm) list \<Rightarrow> (string \<times> public_key) list \<Rightarrow> bcheck list \<Rightarrow> block_builder \<Rightarrow>
     (token_error, block_builder) outcome" where
  "bb_code_checks params scope_params [] bb = Ok bb"
| "bb_code_checks params scope_params (c # cs) bb =
     obind (set_all check_set params c) (\<lambda>c1.
     obind (set_all check_set_scope scope_params c1) (\<lambda>c2.
     obind (bb_check c2 bb) (bb_code_checks params scope_params cs)))"

definition bb_code_with_params ::
    "(string \<Rightarrow> (language_error, source_result) outcome) \<Rightarrow> string \<Rightarrow> (string \<times> bterm) list \<Rightarrow>
     (string \<times> public_key) list \<Rightarrow> block_builder \<Rightarrow> (token_error, block_builder) outcome" where
  "bb_code_with_params parse source params scope_params bb =
     obind (omap_err Token_Language (parse source)) (\<lambda>res.
     obind (bb_code_facts params (so_facts res) bb) (\<lambda>bb1.
     obind (bb_code_rules params scope_params (so_rules res) bb1) (\<lambda>bb2.
       bb_code_checks params scope_params (so_checks res) bb2)))"

section \<open>Ready-made elements\<close>

definition one_check :: "brule \<Rightarrow> block_builder \<Rightarrow> block_builder" where
  "one_check r bb = bb\<lparr>bb_checks := bb_checks bb @ [\<lparr>bc_queries = [r], bc_kind = One_kind\<rparr>]\<rparr>"

definition bb_resource :: "string \<Rightarrow> block_builder \<Rightarrow> block_builder" where
  "bb_resource name bb = bb\<lparr>bb_facts := bb_facts bb @ [make_fact ''resource'' [BStr name]]\<rparr>"

definition bb_operation :: "string \<Rightarrow> block_builder \<Rightarrow> block_builder" where
  "bb_operation name bb = bb\<lparr>bb_facts := bb_facts bb @ [make_fact ''operation'' [BStr name]]\<rparr>"

definition bb_check_resource :: "string \<Rightarrow> block_builder \<Rightarrow> block_builder" where
  "bb_check_resource name =
     one_check (make_rule ''resource_check'' [BStr ''resource_check''] [make_pred ''resource'' [BStr name]])"

definition bb_check_operation :: "string \<Rightarrow> block_builder \<Rightarrow> block_builder" where
  "bb_check_operation name =
     one_check (make_rule ''operation_check'' [BStr ''operation_check''] [make_pred ''operation'' [BStr name]])"

definition bb_check_resource_prefix :: "string \<Rightarrow> block_builder \<Rightarrow> block_builder" where
  "bb_check_resource_prefix pre =
     one_check (constrained_rule ''prefix'' [BVariable ''resource'']
       [make_pred ''resource'' [BVariable ''resource'']]
       [\<lparr>be_ops = [BValue (BVariable ''resource''), BValue (BStr pre), BBinary BPrefix]\<rparr>])"

definition bb_check_resource_suffix :: "string \<Rightarrow> block_builder \<Rightarrow> block_builder" where
  "bb_check_resource_suffix suf =
     one_check (constrained_rule ''suffix'' [BVariable ''resource'']
       [make_pred ''resource'' [BVariable ''resource'']]
       [\<lparr>be_ops = [BValue (BVariable ''resource''), BValue (BStr suf), BBinary BSuffix]\<rparr>])"

text \<open>The date is the number of seconds since the epoch.\<close>

definition bb_check_expiration_date :: "nat \<Rightarrow> block_builder \<Rightarrow> block_builder" where
  "bb_check_expiration_date seconds =
     one_check (constrained_rule ''query'' [] [make_pred ''time'' [BVariable ''time'']]
       [\<lparr>be_ops = [BValue (BVariable ''time''), BValue (BDate seconds), BBinary BLessOrEqual]\<rparr>])"

section \<open>Building\<close>

definition bb_elements ::
    "block_builder \<Rightarrow> symbol_table \<Rightarrow> ((fact list \<times> rule list \<times> check list \<times> scope list) \<times> symbol_table) option" where
  "bb_elements bb s =
     (case smap fact_convert (bb_facts bb) s of None \<Rightarrow> None
      | Some (facts, s1) \<Rightarrow>
     (case smap rule_convert (bb_rules bb) s1 of None \<Rightarrow> None
      | Some (rules, s2) \<Rightarrow>
     (case smap check_convert (bb_checks bb) s2 of None \<Rightarrow> None
      | Some (checks, s3) \<Rightarrow>
     (case smap scope_convert (bb_scopes bb) s3 of None \<Rightarrow> None
      | Some (scopes, s4) \<Rightarrow> Some ((facts, rules, checks, scopes), s4)))))"

definition bb_build :: "block_builder \<Rightarrow> symbol_table \<Rightarrow> block option" where
  "bb_build bb symbols =
     (case bb_elements bb symbols of
        None \<Rightarrow> None
      | Some ((facts, rules, checks, scopes), symbols') \<Rightarrow>
          (case st_split_at (st_current_offset symbols) symbols' of
             None \<Rightarrow> None
           | Some (new_syms, symbols'') \<Rightarrow>
               (case pk_split_at (pk_current_offset (st_public_keys symbols)) (st_public_keys symbols'') of
                  None \<Rightarrow> None
                | Some (keys, _) \<Rightarrow>
                    Some \<lparr>bl_symbols = new_syms, bl_facts = facts, bl_rules = rules, bl_checks = checks,
                          bl_context = bb_context bb,
                          bl_version = schema_version_number (get_schema_version facts rules checks scopes),
                          bl_external_key = None, bl_public_keys = keys, bl_scopes = scopes\<rparr>)))"

definition bb_convert_from :: "block \<Rightarrow> symbol_table \<Rightarrow> (format_error, block_builder) outcome" where
  "bb_convert_from b symbols =
     obind (traverse (\<lambda>f. fact_convert_from f symbols) (bl_facts b)) (\<lambda>facts.
     obind (traverse (\<lambda>r. rule_convert_from r symbols) (bl_rules b)) (\<lambda>rules.
     obind (traverse (\<lambda>c. check_convert_from c symbols) (bl_checks b)) (\<lambda>checks.
     obind (traverse (\<lambda>s. scope_convert_from s symbols) (bl_scopes b)) (\<lambda>scopes.
       Ok \<lparr>bb_facts = facts, bb_rules = rules, bb_checks = checks, bb_scopes = scopes,
           bb_context = bl_context b\<rparr>))))"

section \<open>Translation of a block\<close>

text \<open>Here rules are converted as wholes, unlike in \<open>Rule::translate\<close>.\<close>

definition block_translate ::
    "symbol_table \<Rightarrow> block \<Rightarrow> symbol_table \<Rightarrow> (format_error, block \<times> symbol_table) outcome" where
  "block_translate src b dst =
     obind (otraverse (fact_translate src) (bl_facts b) dst) (\<lambda>(facts, s1).
     obind (otraverse (\<lambda>r. read_then_write (rule_convert_from r src) rule_convert) (bl_rules b) s1) (\<lambda>(rules, s2).
     obind (otraverse (check_translate src) (bl_checks b) s2) (\<lambda>(checks, s3).
     obind (otraverse (\<lambda>c. read_then_write (scope_convert_from c src) scope_convert) (bl_scopes b) s3) (\<lambda>(scopes, s4).
       Ok (b\<lparr>bl_symbols := st_new, bl_facts := facts, bl_rules := rules, bl_checks := checks,
             bl_scopes := scopes\<rparr>, s4)))))"

end
