(* ===== verification/Operators.thy ===== *)
theory Operators
  imports Builder_Terms "HOL-Library.Signed_Division"
begin

unbundle bit_operations_syntax

text \<open>
  The operators of \<open>datalog/expression.rs\<close>: \<open>Unary::evaluate\<close>, \<open>Binary::evaluate\<close> and
  \<open>ExternFunc::call\<close>.  An operation may intern a string it computes, so it returns the
  temporary symbol table along with its outcome, also when it fails (\<open>try_or\<close> goes on with the
  table the failed body left).  The regular expression crate (\<open>rx\<close>: pattern to matcher, \<open>None\<close>
  for a pattern that does not compile) and the host functions are parameters.
\<close>

section \<open>Host functions\<close>

type_synonym extern_func = "bterm \<Rightarrow> bterm option \<Rightarrow> (string, bterm) outcome"
type_synonym extern_funcs = "string \<rightharpoonup> extern_func"
type_synonym regex = "string \<Rightarrow> (string \<Rightarrow> bool) option"
type_synonym eval_result = "(expr_error, dterm) outcome \<times> tmp_symbols"

definition pure_result :: "tmp_symbols \<Rightarrow> (expr_error, dterm) outcome \<Rightarrow> eval_result" where
  "pure_result symbols r = (r, symbols)"

definition extern_args ::
    "tmp_symbols \<Rightarrow> dterm \<Rightarrow> dterm option \<Rightarrow> (expr_error, bterm \<times> bterm option) outcome" where
  "extern_args symbols left right =
     obind (from_datalog left symbols) (\<lambda>l.
       (case right of
          None \<Rightarrow> Ok (l, None)
        | Some r \<Rightarrow> obind (from_datalog r symbols) (\<lambda>r'. Ok (l, Some r'))))"

definition extern_call ::
    "extern_func \<Rightarrow> string \<Rightarrow> tmp_symbols \<Rightarrow> dterm \<Rightarrow> dterm option \<Rightarrow> eval_result" where
  "extern_call f fname symbols left right =
     (case extern_args symbols left right of
        Err e \<Rightarrow> (Err e, symbols)
      | Panic \<Rightarrow> (Panic, symbols)
      | Ok (l, r) \<Rightarrow>
          (case f l r of
             Ok t \<Rightarrow> (case to_datalog t symbols of
                        Some (d, symbols') \<Rightarrow> (Ok d, symbols')
                      | None \<Rightarrow> (Panic, symbols))
           | Err e \<Rightarrow> (Err (ExternEvalError fname e), symbols)
           | Panic \<Rightarrow> (Panic, symbols)))"

definition extern_by_symbol ::
    "extern_funcs \<Rightarrow> nat \<Rightarrow> tmp_symbols \<Rightarrow> dterm \<Rightarrow> dterm option \<Rightarrow> eval_result" where
  "extern_by_symbol externs fsym symbols left right =
     (case tmp_get_symbol symbols fsym of
        None \<Rightarrow> (Err (UnknownSymbol fsym), symbols)
      | Some fname \<Rightarrow>
          (case externs fname of
             None \<Rightarrow> (Err (UndefinedExtern fname), symbols)
           | Some f \<Rightarrow> extern_call f fname symbols left right))"

section \<open>Unary operators\<close>

definition len_i64 :: "'a list \<Rightarrow> dterm" where
  "len_i64 xs = Integer (of_nat (length xs))"

fun unary_length :: "tmp_symbols \<Rightarrow> dterm \<Rightarrow> (expr_error, dterm) outcome" where
  "unary_length symbols (Str i) =
     (case tmp_get_symbol symbols i of Some s \<Rightarrow> Ok (len_i64 s) | None \<Rightarrow> Err (UnknownSymbol i))"
| "unary_length symbols (Bytes s) = Ok (len_i64 s)"
| "unary_length symbols (Set s) = Ok (len_i64 s)"
| "unary_length symbols (Array a) = Ok (len_i64 a)"
| "unary_length symbols (Map m) = Ok (len_i64 m)"
| "unary_length symbols _ = Err InvalidType"

fun type_name :: "dterm \<Rightarrow> string option" where
  "type_name (Variable _) = None"
| "type_name (Integer _) = Some ''integer''"
| "type_name (Str _) = Some ''string''"
| "type_name (Date _) = Some ''date''"
| "type_name (Bytes _) = Some ''bytes''"
| "type_name (Bool _) = Some ''bool''"
| "type_name (Set _) = Some ''set''"
| "type_name Null = Some ''null''"
| "type_name (Array _) = Some ''array''"
| "type_name (Map _) = Some ''map''"

definition intern_string :: "string \<Rightarrow> tmp_symbols \<Rightarrow> eval_result" where
  "intern_string s symbols = (case tmp_insert s symbols of (i, symbols') \<Rightarrow> (Ok (Str i), symbols'))"

fun unary_evaluate :: "extern_funcs \<Rightarrow> unary \<Rightarrow> dterm \<Rightarrow> tmp_symbols \<Rightarrow> eval_result" where
  "unary_evaluate externs Negate v symbols =
     pure_result symbols (case v of Bool b \<Rightarrow> Ok (Bool (\<not> b)) | _ \<Rightarrow> Err InvalidType)"
| "unary_evaluate externs Parens v symbols = pure_result symbols (Ok v)"
| "unary_evaluate externs Length v symbols = pure_result symbols (unary_length symbols v)"
| "unary_evaluate externs TypeOf v symbols =
     (case type_name v of
        None \<Rightarrow> (Err InvalidType, symbols)
      | Some s \<Rightarrow> intern_string s symbols)"
| "unary_evaluate externs (Ffi_unary f) v symbols = extern_by_symbol externs f symbols v None"

section \<open>Checked arithmetic\<close>

definition i64_checked :: "int \<Rightarrow> i64 option" where
  "i64_checked r = (if - (2 ^ 63) \<le> r \<and> r < 2 ^ 63 then Some (word_of_int r) else None)"

definition checked_add :: "i64 \<Rightarrow> i64 \<Rightarrow> i64 option" where
  "checked_add i j = i64_checked (sint i + sint j)"

definition checked_sub :: "i64 \<Rightarrow> i64 \<Rightarrow> i64 option" where
  "checked_sub i j = i64_checked (sint i - sint j)"

definition checked_mul :: "i64 \<Rightarrow> i64 \<Rightarrow> i64 option" where
  "checked_mul i j = i64_checked (sint i * sint j)"

definition checked_div :: "i64 \<Rightarrow> i64 \<Rightarrow> i64 option" where
  "checked_div i j = (if sint j = 0 then None else i64_checked (sint i sdiv sint j))"

definition checked_result :: "expr_error \<Rightarrow> i64 option \<Rightarrow> (expr_error, dterm) outcome" where
  "checked_result e r = ok_or e (map_option Integer r)"

section \<open>Binary operators\<close>

fun integer_op :: "(i64 \<Rightarrow> i64 \<Rightarrow> (expr_error, dterm) outcome) \<Rightarrow> dterm \<Rightarrow> dterm \<Rightarrow>
    (expr_error, dterm) outcome" where
  "integer_op f (Integer i) (Integer j) = f i j"
| "integer_op f _ _ = Err InvalidType"

fun compare_op :: "(int \<Rightarrow> int \<Rightarrow> bool) \<Rightarrow> dterm \<Rightarrow> dterm \<Rightarrow> (expr_error, dterm) outcome" where
  "compare_op f (Integer i) (Integer j) = Ok (Bool (f (sint i) (sint j)))"
| "compare_op f (Date i) (Date j) = Ok (Bool (f (int i) (int j)))"
| "compare_op f _ _ = Err InvalidType"

text \<open>Equality is defined between terms of one type; \<open>None\<close> is a mismatch.\<close>

fun same_type_eq :: "dterm \<Rightarrow> dterm \<Rightarrow> bool option" where
  "same_type_eq (Integer i) r = (case r of Integer j \<Rightarrow> Some (i = j) | _ \<Rightarrow> None)"
| "same_type_eq (Str i) r = (case r of Str j \<Rightarrow> Some (i = j) | _ \<Rightarrow> None)"
| "same_type_eq (Date i) r = (case r of Date j \<Rightarrow> Some (i = j) | _ \<Rightarrow> None)"
| "same_type_eq (Bytes i) r = (case r of Bytes j \<Rightarrow> Some (i = j) | _ \<Rightarrow> None)"
| "same_type_eq (Set i) r = (case r of Set j \<Rightarrow> Some (i = j) | _ \<Rightarrow> None)"
| "same_type_eq (Bool i) r = (case r of Bool j \<Rightarrow> Some (i = j) | _ \<Rightarrow> None)"
| "same_type_eq Null r = (case r of Null \<Rightarrow> Some True | _ \<Rightarrow> None)"
| "same_type_eq (Array i) r = (case r of Array j \<Rightarrow> Some (i = j) | _ \<Rightarrow> None)"
| "same_type_eq (Map i) r = (case r of Map j \<Rightarrow> Some (i = j) | _ \<Rightarrow> None)"
| "same_type_eq (Variable _) r = None"

definition strict_equality :: "(bool \<Rightarrow> bool) \<Rightarrow> dterm \<Rightarrow> dterm \<Rightarrow> (expr_error, dterm) outcome" where
  "strict_equality f l r =
     (case same_type_eq l r of Some b \<Rightarrow> Ok (Bool (f b)) | None \<Rightarrow> Err InvalidType)"

definition hetero_equality :: "(bool \<Rightarrow> bool) \<Rightarrow> dterm \<Rightarrow> dterm \<Rightarrow> (expr_error, dterm) outcome" where
  "hetero_equality f l r =
     (case same_type_eq l r of Some b \<Rightarrow> Ok (Bool (f b)) | None \<Rightarrow> Ok (Bool (f False)))"

text \<open>The two strings of a string operation, with the order of the two lookups' errors.\<close>

definition two_strings :: "tmp_symbols \<Rightarrow> nat \<Rightarrow> nat \<Rightarrow> (expr_error, string \<times> string) outcome" where
  "two_strings symbols s r =
     (case (tmp_get_symbol symbols s, tmp_get_symbol symbols r) of
        (Some x, Some y) \<Rightarrow> Ok (x, y)
      | (Some _, None) \<Rightarrow> Err (UnknownSymbol r)
      | _ \<Rightarrow> Err (UnknownSymbol s))"

definition string_test ::
    "tmp_symbols \<Rightarrow> (string \<Rightarrow> string \<Rightarrow> bool) \<Rightarrow> nat \<Rightarrow> nat \<Rightarrow> (expr_error, dterm) outcome" where
  "string_test symbols f s r = obind (two_strings symbols s r) (\<lambda>(x, y). Ok (Bool (f x y)))"

fun starts_with_op :: "tmp_symbols \<Rightarrow> dterm \<Rightarrow> dterm \<Rightarrow> (expr_error, dterm) outcome" where
  "starts_with_op symbols (Str s) (Str p) = string_test symbols (\<lambda>x y. prefix y x) s p"
| "starts_with_op symbols (Array i) (Array j) = Ok (Bool (prefix j i))"
| "starts_with_op symbols _ _ = Err InvalidType"

fun ends_with_op :: "tmp_symbols \<Rightarrow> dterm \<Rightarrow> dterm \<Rightarrow> (expr_error, dterm) outcome" where
  "ends_with_op symbols (Str s) (Str p) = string_test symbols (\<lambda>x y. suffix y x) s p"
| "ends_with_op symbols (Array i) (Array j) = Ok (Bool (suffix j i))"
| "ends_with_op symbols _ _ = Err InvalidType"

definition regex_is_match :: "regex \<Rightarrow> string \<Rightarrow> string \<Rightarrow> bool" where
  "regex_is_match rx s r = (case rx r of Some is_match \<Rightarrow> is_match s | None \<Rightarrow> False)"

fun matches_op :: "regex \<Rightarrow> tmp_symbols \<Rightarrow> dterm \<Rightarrow> dterm \<Rightarrow> (expr_error, dterm) outcome" where
  "matches_op rx symbols (Str s) (Str r) = string_test symbols (regex_is_match rx) s r"
| "matches_op rx symbols _ _ = Err InvalidType"

fun set_searchable :: "dterm \<Rightarrow> bool" where
  "set_searchable (Integer _) = True"
| "set_searchable (Date _) = True"
| "set_searchable (Bool _) = True"
| "set_searchable (Str _) = True"
| "set_searchable (Bytes _) = True"
| "set_searchable _ = False"

fun map_key_matches :: "map_key \<Rightarrow> dterm \<Rightarrow> bool" where
  "map_key_matches (KInteger k) (Integer l) = (k = l)"
| "map_key_matches (KStr k) (Str l) = (k = l)"
| "map_key_matches _ _ = False"

fun contains_op :: "tmp_symbols \<Rightarrow> dterm \<Rightarrow> dterm \<Rightarrow> (expr_error, dterm) outcome" where
  "contains_op symbols (Str s) r =
     (case r of Str p \<Rightarrow> string_test symbols (\<lambda>x y. sublist y x) s p | _ \<Rightarrow> Err InvalidType)"
| "contains_op symbols (Set l) r =
     (case r of
        Set s \<Rightarrow> Ok (Bool (\<forall>x \<in> set s. x \<in> set l))
      | _ \<Rightarrow> if set_searchable r then Ok (Bool (r \<in> set l)) else Err InvalidType)"
| "contains_op symbols (Array i) r = Ok (Bool (r \<in> set i))"
| "contains_op symbols (Map m) r = Ok (Bool (\<exists>k \<in> set m. map_key_matches (fst k) r))"
| "contains_op symbols _ _ = Err InvalidType"

fun add_op :: "dterm \<Rightarrow> dterm \<Rightarrow> tmp_symbols \<Rightarrow> eval_result" where
  "add_op (Integer i) (Integer j) symbols =
     pure_result symbols (checked_result Overflow (checked_add i j))"
| "add_op (Str s1) (Str s2) symbols =
     (case two_strings symbols s1 s2 of
        Ok (x, y) \<Rightarrow> intern_string (x @ y) symbols
      | Err e \<Rightarrow> (Err e, symbols)
      | Panic \<Rightarrow> (Panic, symbols))"
| "add_op _ _ symbols = (Err InvalidType, symbols)"

fun bool_op :: "(bool \<Rightarrow> bool \<Rightarrow> bool) \<Rightarrow> dterm \<Rightarrow> dterm \<Rightarrow> (expr_error, dterm) outcome" where
  "bool_op f (Bool i) (Bool j) = Ok (Bool (f i j))"
| "bool_op f _ _ = Err InvalidType"

fun set_op :: "(dterm list \<Rightarrow> dterm list \<Rightarrow> dterm list) \<Rightarrow> dterm \<Rightarrow> dterm \<Rightarrow>
    (expr_error, dterm) outcome" where
  "set_op f (Set s) (Set r) = Ok (Set (f s r))"
| "set_op f _ _ = Err InvalidType"

definition set_intersection :: "dterm list \<Rightarrow> dterm list \<Rightarrow> dterm list" where
  "set_intersection s r = filter (\<lambda>t. t \<in> set r) s"

definition set_union :: "dterm list \<Rightarrow> dterm list \<Rightarrow> dterm list" where
  "set_union s r = bt_of_list (s @ r)"

definition map_get :: "(map_key \<times> dterm) list \<Rightarrow> map_key \<Rightarrow> dterm" where
  "map_get m k = (case map_of m k of Some t \<Rightarrow> t | None \<Rightarrow> Null)"

definition array_get :: "dterm list \<Rightarrow> i64 \<Rightarrow> dterm" where
  "array_get a i =
     (if sint i < 0 then Null else case nth_opt a (nat (sint i)) of Some t \<Rightarrow> t | None \<Rightarrow> Null)"

fun get_op :: "dterm \<Rightarrow> dterm \<Rightarrow> (expr_error, dterm) outcome" where
  "get_op (Array a) (Integer i) = Ok (array_get a i)"
| "get_op (Map m) (Integer i) = Ok (map_get m (KInteger i))"
| "get_op (Map m) (Str i) = Ok (map_get m (KStr i))"
| "get_op _ _ = Err InvalidType"

text \<open>The operators that neither intern a string nor call the host.\<close>

fun pure_binary ::
    "regex \<Rightarrow> tmp_symbols \<Rightarrow> binary \<Rightarrow> dterm \<Rightarrow> dterm \<Rightarrow> (expr_error, dterm) outcome" where
  "pure_binary rx symbols LessThan l r = compare_op (<) l r"
| "pure_binary rx symbols GreaterThan l r = compare_op (>) l r"
| "pure_binary rx symbols LessOrEqual l r = compare_op (\<le>) l r"
| "pure_binary rx symbols GreaterOrEqual l r = compare_op (\<ge>) l r"
| "pure_binary rx symbols Equal l r = strict_equality (\<lambda>b. b) l r"
| "pure_binary rx symbols NotEqual l r = strict_equality Not l r"
| "pure_binary rx symbols HeterogeneousEqual l r = hetero_equality (\<lambda>b. b) l r"
| "pure_binary rx symbols HeterogeneousNotEqual l r = hetero_equality Not l r"
| "pure_binary rx symbols Contains l r = contains_op symbols l r"
| "pure_binary rx symbols Prefix l r = starts_with_op symbols l r"
| "pure_binary rx symbols Suffix l r = ends_with_op symbols l r"
| "pure_binary rx symbols Regex l r = matches_op rx symbols l r"
| "pure_binary rx symbols Sub l r =
     integer_op (\<lambda>i j. checked_result Overflow (checked_sub i j)) l r"
| "pure_binary rx symbols Mul l r =
     integer_op (\<lambda>i j. checked_result Overflow (checked_mul i j)) l r"
| "pure_binary rx symbols Div l r =
     integer_op (\<lambda>i j. checked_result DivideByZero (checked_div i j)) l r"
| "pure_binary rx symbols And_op l r = bool_op (\<and>) l r"
| "pure_binary rx symbols Or_op l r = bool_op (\<or>) l r"
| "pure_binary rx symbols Intersection l r = set_op set_intersection l r"
| "pure_binary rx symbols Union_op l r = set_op set_union l r"
| "pure_binary rx symbols BitwiseAnd l r = integer_op (\<lambda>i j. Ok (Integer (i AND j))) l r"
| "pure_binary rx symbols BitwiseOr l r = integer_op (\<lambda>i j. Ok (Integer (i OR j))) l r"
| "pure_binary rx symbols BitwiseXor l r = integer_op (\<lambda>i j. Ok (Integer (i XOR j))) l r"
| "pure_binary rx symbols Get l r = get_op l r"
| "pure_binary rx symbols _ l r = Err InvalidType"

fun binary_evaluate ::
    "regex \<Rightarrow> extern_funcs \<Rightarrow> binary \<Rightarrow> dterm \<Rightarrow> dterm \<Rightarrow> tmp_symbols \<Rightarrow> eval_result" where
  "binary_evaluate rx externs Add l r symbols = add_op l r symbols"
| "binary_evaluate rx externs (Ffi f) l r symbols = extern_by_symbol externs f symbols l (Some r)"
| "binary_evaluate rx externs b l r symbols = pure_result symbols (pure_binary rx symbols b l r)"

end
