(* ===== verification/Expressions.thy ===== *)
theory Expressions
  imports Operators
begin

text \<open>
  \<open>Expression::evaluate\<close> and \<open>Binary::evaluate_with_closure\<close> (\<open>datalog/expression.rs\<close>): a stack
  machine over terms and closures.  A closure is pushed unevaluated; a binary operator that finds
  one on the stack runs its body in a fresh machine, possibly once per element of a collection.
  The stack is a list whose head is the top.
\<close>

type_synonym bindings = "nat \<rightharpoonup> dterm"

datatype stack_elem = SClosure "nat list" "op list" | STerm dterm

section \<open>Closures over collections\<close>

text \<open>
  The bodies of the \<open>all\<close> and \<open>any\<close> loops: \<open>goal\<close> is the answer that lets the loop go on
  (\<open>true\<close> for \<open>all\<close>, \<open>false\<close> for \<open>any\<close>).
\<close>

fun closure_loop :: "(bindings \<Rightarrow> tmp_symbols \<Rightarrow> eval_result) \<Rightarrow> bool \<Rightarrow> nat \<Rightarrow> dterm list \<Rightarrow>
    bindings \<Rightarrow> tmp_symbols \<Rightarrow> eval_result" where
  "closure_loop ev goal param [] values symbols = (Ok (Bool goal), symbols)"
| "closure_loop ev goal param (v # vs) values symbols =
     (let values = values(param \<mapsto> v)
      in case ev values symbols of
           (result, symbols) \<Rightarrow>
             (let values = values(param := None)
              in case result of
                   Ok t \<Rightarrow>
                     (case t of
                        Bool b \<Rightarrow>
                          if b = goal then closure_loop ev goal param vs values symbols
                          else (Ok (Bool b), symbols)
                      | _ \<Rightarrow> (Err InvalidType, symbols))
                 | Err e \<Rightarrow> (Err e, symbols)
                 | Panic \<Rightarrow> (Panic, symbols)))"

fun key_term :: "map_key \<Rightarrow> dterm" where
  "key_term (KInteger i) = Integer i"
| "key_term (KStr s) = Str s"

text \<open>The elements a loop runs over: a map yields its entries as pairs.\<close>

fun collection_items :: "dterm \<Rightarrow> dterm list option" where
  "collection_items (Set ts) = Some ts"
| "collection_items (Array ts) = Some ts"
| "collection_items (Map m) = Some (map (\<lambda>(k, t). Array [key_term k, t]) m)"
| "collection_items _ = None"

definition collection_loop :: "(bindings \<Rightarrow> tmp_symbols \<Rightarrow> eval_result) \<Rightarrow> bool \<Rightarrow> dterm \<Rightarrow>
    nat list \<Rightarrow> bindings \<Rightarrow> tmp_symbols \<Rightarrow> eval_result" where
  "collection_loop ev goal left params values symbols =
     (case (collection_items left, params) of
        (Some items, [param]) \<Rightarrow> closure_loop ev goal param items values symbols
      | _ \<Rightarrow> (Err InvalidType, symbols))"

definition evaluate_with_closure :: "(bindings \<Rightarrow> tmp_symbols \<Rightarrow> eval_result) \<Rightarrow> binary \<Rightarrow> dterm \<Rightarrow>
    nat list \<Rightarrow> bindings \<Rightarrow> tmp_symbols \<Rightarrow> eval_result" where
  "evaluate_with_closure ev b left params values symbols =
     (case b of
        TryOr \<Rightarrow>
          if params = []
          then case ev values symbols of
                 (Err _, symbols) \<Rightarrow> (Ok left, symbols)
               | r \<Rightarrow> r
          else (Err InvalidType, symbols)
      | LazyOr \<Rightarrow>
          (case (left, params) of
             (Bool True, []) \<Rightarrow> (Ok (Bool True), symbols)
           | (Bool False, []) \<Rightarrow> ev values symbols
           | _ \<Rightarrow> (Err InvalidType, symbols))
      | LazyAnd \<Rightarrow>
          (case (left, params) of
             (Bool False, []) \<Rightarrow> (Ok (Bool False), symbols)
           | (Bool True, []) \<Rightarrow> ev values symbols
           | _ \<Rightarrow> (Err InvalidType, symbols))
      | All_op \<Rightarrow> collection_loop ev True left params values symbols
      | Any_op \<Rightarrow> collection_loop ev False left params values symbols
      | _ \<Rightarrow> (Err InvalidType, symbols))"

section \<open>The stack machine\<close>

definition shadows :: "bindings \<Rightarrow> nat list \<Rightarrow> bool" where
  "shadows values params \<longleftrightarrow> (\<exists>p \<in> set params. values p \<noteq> None)"

fun final_result :: "stack_elem list \<Rightarrow> (expr_error, dterm) outcome" where
  "final_result [STerm t] = Ok t"
| "final_result _ = Err InvalidStack"

fun value_result :: "bindings \<Rightarrow> dterm \<Rightarrow> (expr_error, dterm) outcome" where
  "value_result values (Variable i) =
     (case values i of Some t \<Rightarrow> Ok t | None \<Rightarrow> Err (UnknownVariable i))"
| "value_result values t = Ok t"

fun op_weight :: "op \<Rightarrow> nat" where
  "op_weight (Closure ps ops) = 2 + sum_list (map op_weight ops)"
| "op_weight _ = 2"

fun elem_weight :: "stack_elem \<Rightarrow> nat" where
  "elem_weight (SClosure ps ops) = 1 + sum_list (map op_weight ops)"
| "elem_weight (STerm t) = 1"

definition weight :: "op list \<Rightarrow> stack_elem list \<Rightarrow> nat" where
  "weight ops stack = sum_list (map op_weight ops) + sum_list (map elem_weight stack)"

text \<open>Pushing the result of an operator, or stopping at its error.\<close>

definition and_push :: "eval_result \<Rightarrow> (dterm \<Rightarrow> tmp_symbols \<Rightarrow> eval_result) \<Rightarrow> eval_result" where
  "and_push r k =
     (case r of
        (Ok t, symbols) \<Rightarrow> k t symbols
      | (Err e, symbols) \<Rightarrow> (Err e, symbols)
      | (Panic, symbols) \<Rightarrow> (Panic, symbols))"

lemma and_push_cong [fundef_cong]:
  "r = r' \<Longrightarrow> (\<And>t s. r' = (Ok t, s) \<Longrightarrow> k t s = k' t s) \<Longrightarrow> and_push r k = and_push r' k'"
  by (auto simp: and_push_def split: prod.splits outcome.splits)

function eval_ops :: "regex \<Rightarrow> extern_funcs \<Rightarrow> op list \<Rightarrow> stack_elem list \<Rightarrow> bindings \<Rightarrow>
    tmp_symbols \<Rightarrow> eval_result" where
  "eval_ops rx externs [] stack values symbols = (final_result stack, symbols)"
| "eval_ops rx externs (Value t # ops) stack values symbols =
     and_push (value_result values t, symbols)
       (\<lambda>t symbols. eval_ops rx externs ops (STerm t # stack) values symbols)"
| "eval_ops rx externs (Unary u # ops) stack values symbols =
     (case stack of
        STerm t # stack \<Rightarrow>
          and_push (unary_evaluate externs u t symbols)
            (\<lambda>t symbols. eval_ops rx externs ops (STerm t # stack) values symbols)
      | _ \<Rightarrow> (Err InvalidStack, symbols))"
| "eval_ops rx externs (Binary b # ops) stack values symbols =
     (case stack of
        STerm right # STerm left # stack \<Rightarrow>
          and_push (binary_evaluate rx externs b left right symbols)
            (\<lambda>t symbols. eval_ops rx externs ops (STerm t # stack) values symbols)
      | SClosure params body # STerm left # stack \<Rightarrow>
          if shadows values params then (Err ShadowedVariable, symbols)
          else and_push
                 (evaluate_with_closure (\<lambda>vs s. eval_ops rx externs body [] vs s)
                    b left params values symbols)
                 (\<lambda>t symbols. eval_ops rx externs ops (STerm t # stack) values symbols)
      | STerm right # SClosure params body # stack \<Rightarrow>
          if shadows values params then (Err ShadowedVariable, symbols)
          else and_push
                 (evaluate_with_closure (\<lambda>vs s. eval_ops rx externs body [] vs s)
                    b right params values symbols)
                 (\<lambda>t symbols. eval_ops rx externs ops (STerm t # stack) values symbols)
      | _ \<Rightarrow> (Err InvalidStack, symbols))"
| "eval_ops rx externs (Closure params body # ops) stack values symbols =
     eval_ops rx externs ops (SClosure params body # stack) values symbols"
  by pat_completeness auto
termination
  by (relation "measure (\<lambda>(rx, externs, ops, stack, values, symbols). weight ops stack)")
    (simp_all add: weight_def)

text \<open>\<open>Expression::evaluate\<close>.\<close>

definition expr_evaluate ::
    "regex \<Rightarrow> extern_funcs \<Rightarrow> expression \<Rightarrow> bindings \<Rightarrow> tmp_symbols \<Rightarrow> eval_result" where
  "expr_evaluate rx externs e values symbols = eval_ops rx externs (e_ops e) [] values symbols"

section \<open>Compiled expressions\<close>

text \<open>
  \<open>Expr\<close> of \<open>biscuit-parser/src/parser.rs\<close> and \<open>Expr::opcodes\<close>, with the names already
  interned.
\<close>

datatype expr_tree =
    EValue dterm
  | EUnary unary expr_tree
  | EBinary binary expr_tree expr_tree
  | EClosure "nat list" expr_tree

fun opcodes :: "expr_tree \<Rightarrow> op list" where
  "opcodes (EValue t) = [Value t]"
| "opcodes (EUnary u e) = opcodes e @ [Unary u]"
| "opcodes (EBinary b l r) = opcodes l @ opcodes r @ [Binary b]"
| "opcodes (EClosure ps e) = [Closure ps (opcodes e)]"

fun is_closure :: "expr_tree \<Rightarrow> bool" where
  "is_closure (EClosure _ _) = True"
| "is_closure _ = False"

fun closure_params :: "expr_tree \<Rightarrow> nat list" where
  "closure_params (EClosure ps _) = ps"
| "closure_params _ = []"

text \<open>
  The meaning of an expression tree, without a stack: the operands of an operator are evaluated
  from left to right, except that a closure operand is handed over unevaluated, with the bindings
  of the enclosing expression.
\<close>

fun closure_meaning :: "(expr_tree \<Rightarrow> bindings \<Rightarrow> tmp_symbols \<Rightarrow> eval_result) \<Rightarrow> expr_tree \<Rightarrow>
    bindings \<Rightarrow> tmp_symbols \<Rightarrow> eval_result" where
  "closure_meaning ev (EClosure _ e) = ev e"
| "closure_meaning ev _ = (\<lambda>vs s. (Err InvalidStack, s))"

lemma closure_meaning_cong [fundef_cong]:
  "e = e' \<Longrightarrow> (\<And>ps d. e' = EClosure ps d \<Longrightarrow> ev d = ev' d) \<Longrightarrow>
     closure_meaning ev e = closure_meaning ev' e'"
  by (cases e') auto

fun tree_eval :: "regex \<Rightarrow> extern_funcs \<Rightarrow> expr_tree \<Rightarrow> bindings \<Rightarrow> tmp_symbols \<Rightarrow> eval_result" where
  "tree_eval rx externs (EValue t) = (\<lambda>vs s. (value_result vs t, s))"
| "tree_eval rx externs (EClosure ps e) = (\<lambda>vs s. (Err InvalidStack, s))"
| "tree_eval rx externs (EUnary u e) =
     (\<lambda>vs s. and_push (tree_eval rx externs e vs s) (unary_evaluate externs u))"
| "tree_eval rx externs (EBinary b l r) =
     (\<lambda>vs s.
       if is_closure l \<and> is_closure r then (Err InvalidStack, s)
       else if is_closure r
       then and_push (tree_eval rx externs l vs s)
              (\<lambda>t s. if shadows vs (closure_params r) then (Err ShadowedVariable, s)
                     else evaluate_with_closure (closure_meaning (tree_eval rx externs) r)
                            b t (closure_params r) vs s)
       else if is_closure l
       then and_push (tree_eval rx externs r vs s)
              (\<lambda>t s. if shadows vs (closure_params l) then (Err ShadowedVariable, s)
                     else evaluate_with_closure (closure_meaning (tree_eval rx externs) l)
                            b t (closure_params l) vs s)
       else and_push (tree_eval rx externs l vs s)
              (\<lambda>x s. and_push (tree_eval rx externs r vs s)
                      (\<lambda>y s. binary_evaluate rx externs b x y s)))"

lemma and_push_assoc: "and_push (and_push r k) h = and_push r (\<lambda>t s. and_push (k t s) h)"
  by (auto simp: and_push_def split: prod.splits outcome.splits)

lemma and_push_Ok [simp]: "and_push (Ok t, s) k = k t s"
  by (simp add: and_push_def)

lemma and_push_Err [simp]: "and_push (Err e, s) k = (Err e, s)"
  by (simp add: and_push_def)

lemma and_push_if [simp]:
  "and_push (if c then q else r) k = (if c then and_push q k else and_push r k)"
  by simp

lemma and_push_id [simp]: "and_push r (\<lambda>t. Pair (Ok t)) = r"
  by (auto simp: and_push_def split: prod.splits outcome.splits)

text \<open>Running the code of a tree is evaluating the tree and pushing its value.\<close>

definition run_tree :: "regex \<Rightarrow> extern_funcs \<Rightarrow> expr_tree \<Rightarrow> op list \<Rightarrow> stack_elem list \<Rightarrow> bindings \<Rightarrow>
    tmp_symbols \<Rightarrow> eval_result" where
  "run_tree rx externs e ops stack vs s =
     (case e of
        EClosure ps body \<Rightarrow> eval_ops rx externs ops (SClosure ps (opcodes body) # stack) vs s
      | _ \<Rightarrow> and_push (tree_eval rx externs e vs s)
               (\<lambda>t s. eval_ops rx externs ops (STerm t # stack) vs s))"

lemma run_tree_closure [simp]:
  "run_tree rx externs (EClosure ps body) ops stack vs s =
     eval_ops rx externs ops (SClosure ps (opcodes body) # stack) vs s"
  by (simp add: run_tree_def)

lemma run_tree_value:
  "\<not> is_closure e \<Longrightarrow> run_tree rx externs e ops stack vs s =
     and_push (tree_eval rx externs e vs s) (\<lambda>t s. eval_ops rx externs ops (STerm t # stack) vs s)"
  by (cases e) (simp_all add: run_tree_def)

lemma and_push_finish [simp]: "and_push r (\<lambda>t. eval_ops rx externs [] [STerm t] vs) = r"
  by (auto simp: and_push_def split: prod.splits outcome.splits)

lemma run_tree_final: "run_tree rx externs e [] [] = tree_eval rx externs e"
proof (intro ext)
  fix vs s
  show "run_tree rx externs e [] [] vs s = tree_eval rx externs e vs s"
  proof (cases "is_closure e")
    case True
    then show ?thesis by (cases e) (simp_all add: run_tree_def)
  next
    case False
    then show ?thesis by (simp add: run_tree_value)
  qed
qed

text \<open>The second conjunct carries the induction through the bodies of closure operands.\<close>

lemma eval_opcodes:
  "(\<forall>ops stack vs s. eval_ops rx externs (opcodes e @ ops) stack vs s = run_tree rx externs e ops stack vs s) \<and>
   (\<forall>ps body. e = EClosure ps body \<longrightarrow> eval_ops rx externs (opcodes body) [] = tree_eval rx externs body)"
proof (induction e)
  case (EUnary u e)
  then show ?case
    by (cases "is_closure e")
      (auto simp: run_tree_value and_push_assoc elim!: is_closure.elims(2))
next
  case (EBinary b l r)
  have code: "\<And>ops stack vs s. eval_ops rx externs (opcodes l @ ops) stack vs s = run_tree rx externs l ops stack vs s"
    "\<And>ops stack vs s. eval_ops rx externs (opcodes r @ ops) stack vs s = run_tree rx externs r ops stack vs s"
    using EBinary.IH by blast+
  show ?case
  proof (cases "is_closure l"; cases "is_closure r")
    assume "is_closure l" "is_closure r"
    then show ?thesis
      by (auto simp: code run_tree_value elim!: is_closure.elims(2))
  next
    assume l: "is_closure l" and r: "\<not> is_closure r"
    then obtain ps body where l_eq: "l = EClosure ps body" by (cases l) auto
    then have "eval_ops rx externs (opcodes body) [] = tree_eval rx externs body"
      using EBinary.IH(1) by blast
    with l_eq r show ?thesis
      using code by (simp add: run_tree_value and_push_assoc cong: if_cong)
  next
    assume l: "\<not> is_closure l" and r: "is_closure r"
    then obtain ps body where r_eq: "r = EClosure ps body" by (cases r) auto
    then have "eval_ops rx externs (opcodes body) [] = tree_eval rx externs body"
      using EBinary.IH(2) by blast
    with r_eq l show ?thesis
      using code by (simp add: run_tree_value and_push_assoc cong: if_cong)
  next
    assume "\<not> is_closure l" "\<not> is_closure r"
    then show ?thesis by (simp add: code run_tree_value and_push_assoc)
  qed
next
  case (EClosure ps e)
  have "eval_ops rx externs (opcodes e) [] vs s = tree_eval rx externs e vs s" for vs s
    using EClosure.IH [THEN conjunct1, rule_format, of "[]" "[]"] by (simp add: run_tree_final)
  then show ?case by auto
qed (simp add: run_tree_def)

section \<open>What every evaluation preserves\<close>

text \<open>
  Each evaluation step extends the temporary table (no index changes meaning), yields a term
  whose sets and maps are ordered, and does not panic if the host functions are safe: they do
  not panic themselves and return no unbound parameter.
\<close>

definition externs_safe :: "extern_funcs \<Rightarrow> bool" where
  "externs_safe externs \<longleftrightarrow>
     (\<forall>n f l r. externs n = Some f \<longrightarrow> f l r \<noteq> Panic \<and> (\<forall>t. f l r = Ok t \<longrightarrow> term_parameters t = []))"

definition sound :: "bool \<Rightarrow> tmp_symbols \<Rightarrow> eval_result \<Rightarrow> bool" where
  "sound safe s r \<longleftrightarrow> tmp.extends s (snd r) \<and> (\<forall>t. fst r = Ok t \<longrightarrow> wf_term t) \<and> (safe \<longrightarrow> fst r \<noteq> Panic)"

definition wf_values :: "bindings \<Rightarrow> bool" where
  "wf_values vs \<longleftrightarrow> (\<forall>i t. vs i = Some t \<longrightarrow> wf_term t)"

fun wf_elem :: "stack_elem \<Rightarrow> bool" where
  "wf_elem (STerm t) \<longleftrightarrow> wf_term t"
| "wf_elem (SClosure ps ops) \<longleftrightarrow> (\<forall>p \<in> set ops. wf_op p)"

lemma sound_pure:
  "tmp_wf s \<Longrightarrow> (\<And>t. r = Ok t \<Longrightarrow> wf_term t) \<Longrightarrow> r \<noteq> Panic \<Longrightarrow> sound safe s (r, s)"
  by (simp add: sound_def tmp.extends_refl)

lemma sound_Err [simp]: "tmp_wf s \<Longrightarrow> sound safe s (Err e, s)"
  by (rule sound_pure) simp_all

lemma sound_Ok [simp]: "tmp_wf s \<Longrightarrow> sound safe s (Ok t, s) \<longleftrightarrow> wf_term t"
  by (simp add: sound_def tmp.extends_refl)

lemma sound_wf: "sound safe s (r, s') \<Longrightarrow> tmp_wf s'"
  by (simp add: sound_def tmp.extends_def)

lemma sound_trans: "sound safe s (r, s') \<Longrightarrow> sound safe s' q \<Longrightarrow> sound safe s q"
  unfolding sound_def using tmp.extends_trans by auto

lemma sound_and_push:
  assumes "sound safe s r" "\<And>t s'. r = (Ok t, s') \<Longrightarrow> wf_term t \<Longrightarrow> tmp_wf s' \<Longrightarrow> sound safe s' (k t s')"
  shows "sound safe s (and_push r k)"
proof -
  obtain x s' where r: "r = (x, s')" by force
  show ?thesis
  proof (cases x)
    case (Ok t)
    then have "sound safe s' (k t s')" using assms r by (auto simp: sound_def tmp.extends_def)
    with sound_trans assms(1) r Ok show ?thesis by (simp add: and_push_def)
  qed (use assms(1) r in \<open>simp_all add: and_push_def sound_def\<close>)
qed

lemma sound_intern_string: "tmp_wf s \<Longrightarrow> sound safe s (intern_string x s)"
  by (auto simp: intern_string_def sound_def tmp.extends_ins split: prod.splits)

lemma sound_extern_call:
  assumes "tmp_wf s" "safe \<Longrightarrow> externs_safe externs" "externs n = Some f"
  shows "sound safe s (extern_call f n s l r)"
proof (cases "extern_args s l r")
  case (Ok p)
  obtain x y where p: "p = (x, y)" by force
  show ?thesis
  proof (cases "f x y")
    case fxy: (Ok t)
    show ?thesis
    proof (cases "to_datalog t s")
      case None
      then have "\<not> safe" using fxy assms(2,3)
        by (auto simp: externs_safe_def to_datalog_def intern_term_None)
      then show ?thesis using None fxy Ok p assms(1) by (simp add: extern_call_def sound_def tmp.extends_refl)
    next
      case (Some q)
      obtain d s' where q: "q = (d, s')" by force
      with Some have run: "intern_term tmp_insert t s = Some (d, s')" by (simp add: to_datalog_def)
      from tmp_terms.intern_extends [OF run assms(1)] intern_term_wf [OF run]
      show ?thesis using Some q fxy Ok p by (simp add: extern_call_def sound_def)
    qed
  next
    case Panic
    then have "\<not> safe" using assms(2,3) by (auto simp: externs_safe_def)
    then show ?thesis using Panic Ok p assms(1) by (simp add: extern_call_def sound_def tmp.extends_refl)
  qed (use Ok p assms(1) in \<open>simp add: extern_call_def\<close>)
next
  case Panic
  then show ?thesis by (auto simp: extern_args_def outcome_simps split: option.splits)
qed (use assms(1) in \<open>simp add: extern_call_def\<close>)

lemma sound_extern:
  "tmp_wf s \<Longrightarrow> (safe \<Longrightarrow> externs_safe externs) \<Longrightarrow> sound safe s (extern_by_symbol externs f s l r)"
  unfolding extern_by_symbol_def by (auto intro: sound_extern_call split: option.splits)

lemma unary_length_shape: "unary_length s v = Ok t \<Longrightarrow> \<exists>i. t = Integer i"
  by (cases v) (auto simp: len_i64_def split: option.splits)

lemma unary_length_not_Panic: "unary_length s v \<noteq> Panic"
  by (cases v) (auto split: option.splits)

lemma sound_unary:
  "tmp_wf s \<Longrightarrow> (safe \<Longrightarrow> externs_safe externs) \<Longrightarrow> wf_term v \<Longrightarrow>
     sound safe s (unary_evaluate externs u v s)"
  by (cases u)
    (auto simp: pure_result_def sound_extern sound_intern_string unary_length_not_Panic
      intro!: sound_pure dest: unary_length_shape split: option.splits dterm.splits)

text \<open>Each pure operator yields a well-formed term and never panics.\<close>

definition harmless :: "(expr_error, dterm) outcome \<Rightarrow> bool" where
  "harmless r \<longleftrightarrow> r \<noteq> Panic \<and> (\<forall>t. r = Ok t \<longrightarrow> wf_term t)"

lemma harmless_simps [simp]: "harmless (Ok t) \<longleftrightarrow> wf_term t" "harmless (Err e)"
  by (simp_all add: harmless_def)

lemma harmless_if [simp]: "harmless (if c then x else y) \<longleftrightarrow> (if c then harmless x else harmless y)"
  by simp

lemma harmless_compare: "harmless (compare_op f l r)"
  by (cases l; cases r) simp_all

lemma harmless_strict: "harmless (strict_equality f l r)"
  by (simp add: strict_equality_def split: option.splits)

lemma harmless_hetero: "harmless (hetero_equality f l r)"
  by (simp add: hetero_equality_def split: option.splits)

lemma harmless_string_test: "harmless (string_test s f x y)"
  by (auto simp: string_test_def two_strings_def split: option.splits)

lemma harmless_contains: "harmless (contains_op s l r)"
  by (cases l) (auto simp: harmless_string_test split: dterm.splits)

lemma harmless_affix: "harmless (starts_with_op s l r)" "harmless (ends_with_op s l r)"
  by (cases l; cases r; simp add: harmless_string_test)+

lemma harmless_matches: "harmless (matches_op rx s l r)"
  by (cases l; cases r) (simp_all add: harmless_string_test)

lemma harmless_integer: "(\<And>i j. harmless (f i j)) \<Longrightarrow> harmless (integer_op f l r)"
  by (cases l; cases r) simp_all

lemma harmless_checked: "harmless (checked_result e r)"
  by (cases r) (simp_all add: checked_result_def)

lemma harmless_bool: "harmless (bool_op f l r)"
  by (cases l; cases r) simp_all

lemma harmless_set_op:
  "wf_term l \<Longrightarrow> wf_term r \<Longrightarrow> harmless (set_op set_intersection l r) \<and> harmless (set_op set_union l r)"
  by (cases l; cases r) (auto simp: set_intersection_def set_union_def strict_sorted_filter)

lemma wf_map_get: "wf_term (Map m) \<Longrightarrow> wf_term (map_get m k)"
  by (auto simp: map_get_def dest: map_of_SomeD split: option.splits)

lemma wf_array_get: "wf_term (Array a) \<Longrightarrow> wf_term (array_get a i)"
  by (auto simp: array_get_def nth_opt_def split: option.splits if_splits)

lemma harmless_get: "wf_term l \<Longrightarrow> harmless (get_op l r)"
  by (cases l; cases r) (simp_all add: wf_map_get wf_array_get)

lemma harmless_pure_binary: "wf_term l \<Longrightarrow> wf_term r \<Longrightarrow> harmless (pure_binary rx s b l r)"
  by (cases b)
    (simp_all add: harmless_compare harmless_strict harmless_hetero harmless_contains harmless_affix
      harmless_matches harmless_integer harmless_checked harmless_bool harmless_set_op harmless_get)

lemma sound_harmless: "tmp_wf s \<Longrightarrow> harmless r \<Longrightarrow> sound safe s (pure_result s r)"
  by (auto simp: pure_result_def harmless_def intro: sound_pure)

lemma sound_add: "tmp_wf s \<Longrightarrow> sound safe s (add_op l r s)"
  by (cases l; cases r)
    (auto simp: sound_harmless harmless_checked two_strings_def sound_intern_string split: option.splits)

lemma sound_binary:
  "tmp_wf s \<Longrightarrow> (safe \<Longrightarrow> externs_safe externs) \<Longrightarrow> wf_term l \<Longrightarrow> wf_term r \<Longrightarrow>
     sound safe s (binary_evaluate rx externs b l r s)"
  by (cases b) (simp_all add: sound_add sound_extern sound_harmless harmless_pure_binary del: pure_binary.simps)

lemma sound_closure_loop:
  assumes ev: "\<And>vs s. wf_values vs \<Longrightarrow> tmp_wf s \<Longrightarrow> sound safe s (ev vs s)"
  shows "wf_values vs \<Longrightarrow> tmp_wf s \<Longrightarrow> \<forall>t \<in> set items. wf_term t \<Longrightarrow>
     sound safe s (closure_loop ev goal param items vs s)"
proof (induction items arbitrary: vs s)
  case Nil
  then show ?case by simp
next
  case (Cons v items)
  obtain r s' where step: "ev (vs(param \<mapsto> v)) s = (r, s')" by force
  have vs: "wf_values (vs(param \<mapsto> v))" "wf_values ((vs(param \<mapsto> v))(param := None))"
    using Cons.prems(1,3) by (auto simp: wf_values_def)
  have first: "sound safe s (r, s')" using ev [OF vs(1) Cons.prems(2)] step by simp
  have wf: "tmp_wf s'" using sound_wf [OF first] .
  have "sound safe s' (closure_loop ev goal param items ((vs(param \<mapsto> v))(param := None)) s')"
    by (rule Cons.IH [OF vs(2) wf]) (use Cons.prems(3) in simp)
  from sound_trans [OF first this] first wf step show ?case
    by (auto simp: sound_def split: outcome.splits dterm.splits)
qed

lemma wf_collection_items: "wf_term t \<Longrightarrow> collection_items t = Some items \<Longrightarrow> \<forall>u \<in> set items. wf_term u"
proof (cases t)
  case (Map m)
  assume wf: "wf_term t" and items: "collection_items t = Some items"
  have "wf_term (key_term k)" for k by (cases k) simp_all
  with wf items Map show ?thesis by fastforce
qed auto

lemma sound_collection_loop:
  assumes "\<And>vs s. wf_values vs \<Longrightarrow> tmp_wf s \<Longrightarrow> sound safe s (ev vs s)"
    and "wf_values vs" "tmp_wf s" "wf_term l"
  shows "sound safe s (collection_loop ev goal l ps vs s)"
  using assms
  by (auto simp: collection_loop_def intro!: sound_closure_loop dest: wf_collection_items
      split: option.splits list.splits)

lemma sound_closure:
  assumes ev: "\<And>vs s. wf_values vs \<Longrightarrow> tmp_wf s \<Longrightarrow> sound safe s (ev vs s)"
    and wf: "wf_values vs" "tmp_wf s" "wf_term l"
  shows "sound safe s (evaluate_with_closure ev b l ps vs s)"
proof (cases b)
  case TryOr
  obtain r s' where "ev vs s = (r, s')" by force
  with ev [OF wf(1,2)] wf TryOr show ?thesis
    by (auto simp: evaluate_with_closure_def sound_def tmp.extends_refl split: outcome.splits)
qed (use assms sound_collection_loop [OF ev] in
    \<open>auto simp: evaluate_with_closure_def split: dterm.splits list.splits bool.splits\<close>)

lemma sound_eval_ops:
  assumes "safe \<Longrightarrow> externs_safe externs"
  shows "\<forall>p \<in> set ops. wf_op p \<Longrightarrow> \<forall>x \<in> set stack. wf_elem x \<Longrightarrow> wf_values vs \<Longrightarrow> tmp_wf s \<Longrightarrow>
     sound safe s (eval_ops rx externs ops stack vs s)"
  using assms
proof (induction rx externs ops stack vs s rule: eval_ops.induct)
  case (1 rx externs stack vs s)
  then show ?case by (cases stack rule: final_result.cases) simp_all
next
  case (2 rx externs t ops stack vs s)
  have "sound safe s (value_result vs t, s)"
    using 2(2,4,5) by (intro sound_pure) (cases t; auto simp: wf_values_def split: option.splits)+
  then show ?case using 2 unfolding eval_ops.simps by (intro sound_and_push) auto
next
  case (3 rx externs u ops stack vs s)
  show ?case
  proof (cases stack)
    case (Cons x rest)
    show ?thesis
    proof (cases x)
      case (STerm t)
      then show ?thesis using 3 Cons by (simp add: sound_and_push sound_unary)
    qed (use 3 Cons in simp)
  qed (use 3 in simp)
next
  case (4 rx externs b ops stack vs s)
  consider (empty) "stack = []" | (one) x where "stack = [x]"
    | (two) x y rest where "stack = x # y # rest"
    by (cases stack; cases "tl stack") auto
  then show ?case
  proof cases
    case two
    show ?thesis
    proof (cases x; cases y)
      fix r l
      assume xy: "x = STerm r" "y = STerm l"
      have "sound safe s (eval_ops rx externs (Binary b # ops) (STerm r # STerm l # rest) vs s)"
        using 4 two xy by (auto intro!: sound_and_push sound_binary)
      with two xy show ?thesis by simp
    next
      fix ps body l
      assume xy: "x = SClosure ps body" "y = STerm l"
      have "sound safe s (eval_ops rx externs (Binary b # ops) (SClosure ps body # STerm l # rest) vs s)"
        using 4 two xy by (auto intro!: sound_and_push sound_closure)
      with two xy show ?thesis by simp
    next
      fix r ps body
      assume xy: "x = STerm r" "y = SClosure ps body"
      have "sound safe s (eval_ops rx externs (Binary b # ops) (STerm r # SClosure ps body # rest) vs s)"
        using 4 two xy by (auto intro!: sound_and_push sound_closure)
      with two xy show ?thesis by simp
    qed (use 4 two in simp)
  next
    case one
    with 4 show ?thesis by (cases x) simp_all
  qed (use 4 in simp)
next
  case (5 rx externs ps body ops stack vs s)
  then show ?case by simp
qed

section \<open>Arithmetic\<close>

definition i64_range :: "int \<Rightarrow> bool" where
  "i64_range r \<longleftrightarrow> - (2 ^ 63) \<le> r \<and> r < 2 ^ 63"

lemma sint_range: "i64_range (sint (i :: i64))"
  using sint_greater_eq [of i] sint_less [of i] by (simp add: i64_range_def)

lemma i64_checked_Some: "i64_checked r = Some k \<longleftrightarrow> i64_range r \<and> sint k = r"
proof
  assume "i64_checked r = Some k"
  then show "i64_range r \<and> sint k = r"
    by (auto simp: i64_checked_def i64_range_def sint_sbintrunc' signed_take_bit_int_eq_self_iff
        split: if_splits)
next
  assume r: "i64_range r \<and> sint k = r"
  then have "sint (word_of_int r :: i64) = sint k"
    by (simp add: sint_sbintrunc' i64_range_def signed_take_bit_int_eq_self_iff)
  then have "word_of_int r = k" by (rule word_eq_iff_signed [THEN iffD2])
  with r show "i64_checked r = Some k" by (simp add: i64_checked_def i64_range_def)
qed

lemma i64_checked_None: "i64_checked r = None \<longleftrightarrow> \<not> i64_range r"
  by (auto simp: i64_checked_def i64_range_def)

lemma sdiv_range:
  assumes "i64_range a" "i64_range b" "b \<noteq> 0"
  shows "i64_range (a sdiv b) \<longleftrightarrow> \<not> (a = - (2 ^ 63) \<and> b = - 1)"
proof (cases "b = - 1")
  case True
  have "a sdiv (- 1) = - a" by (simp add: signed_divide_int_def abs_mult_sgn mult.commute)
  with True assms(1) show ?thesis by (auto simp: i64_range_def)
next
  case False
  then consider "b = 1" | "2 \<le> \<bar>b\<bar>" using assms(3) by linarith
  then show ?thesis
  proof cases
    case 1
    then have "a sdiv b = a" by (simp add: signed_divide_int_def abs_mult_sgn mult.commute)
    with 1 assms(1) show ?thesis by simp
  next
    case 2
    have "\<bar>a\<bar> div \<bar>b\<bar> \<le> \<bar>a\<bar> div 2" using 2 by (intro zdiv_mono2) auto
    moreover have "\<bar>a\<bar> \<le> 2 ^ 63" using assms(1) by (auto simp: i64_range_def)
    ultimately have q: "\<bar>a\<bar> div \<bar>b\<bar> \<le> 2 ^ 62" "0 \<le> \<bar>a\<bar> div \<bar>b\<bar>"
      by (auto simp: pos_imp_zdiv_nonneg_iff assms(3))
    have "\<bar>a sdiv b\<bar> \<le> \<bar>a\<bar> div \<bar>b\<bar>"
      using q(2) by (auto simp: signed_divide_int_def abs_mult sgn_if)
    with q(1) False show ?thesis by (auto simp: i64_range_def)
  qed
qed

section \<open>Properties\<close>

text \<open>
  C15: the stack machine, run on the code that the parser emits for an expression tree, computes
  the tree's meaning: operands from left to right, closures unevaluated with the enclosing
  bindings, the same error and the same symbol table on every path.
\<close>

theorem expr_evaluate_opcodes:
  "expr_evaluate rx externs \<lparr>e_ops = opcodes e\<rparr> vs s = tree_eval rx externs e vs s"
  using eval_opcodes [THEN conjunct1, rule_format, of rx externs e "[]" "[]"]
  by (simp add: expr_evaluate_def run_tree_final)

text \<open>
  C32: an evaluation never panics, unless a host function does or returns an unbound parameter.
\<close>

theorem expr_evaluate_no_panic:
  assumes "externs_safe externs" "tmp_wf s" "wf_values vs" "\<forall>p \<in> set (e_ops e). wf_op p"
  shows "fst (expr_evaluate rx externs e vs s) \<noteq> Panic"
  using sound_eval_ops [of True externs "e_ops e" "[]" vs s rx] assms
  by (simp add: expr_evaluate_def sound_def)

lemma expr_evaluate_no_panic_witness:
  "fst (expr_evaluate (\<lambda>_. None) (\<lambda>_. None)
     \<lparr>e_ops = [Value (Integer 6), Value (Integer 0), Binary Div]\<rparr> (\<lambda>_. None) (tmp_new st_new)) \<noteq> Panic"
  by (rule expr_evaluate_no_panic)
    (simp_all add: externs_safe_def tmp_wf_new wf_values_def)

text \<open>
  an evaluation only adds strings to the temporary table: every index known before it, in
  the base table or in the temporary one, still denotes the same string after it, also when the
  evaluation fails.
\<close>

theorem expr_evaluate_keeps_symbols:
  assumes "tmp_wf s" "wf_values vs" "\<forall>p \<in> set (e_ops e). wf_op p"
    and "expr_evaluate rx externs e vs s = (r, s')" "tmp_get_symbol s i = Some x"
  shows "tmp_get_symbol s' i = Some x"
  using sound_eval_ops [of False externs "e_ops e" "[]" vs s rx] assms
  by (auto simp: expr_evaluate_def sound_def tmp.extends_def)

lemma expr_evaluate_keeps_symbols_witness:
  "tmp_get_symbol (snd (expr_evaluate (\<lambda>_. None) (\<lambda>_. None)
     \<lparr>e_ops = [Value (Str 0), Value (Str 1), Binary Add]\<rparr> (\<lambda>_. None) (tmp_new st_new))) 0 = Some ''read''"
  by (rule expr_evaluate_keeps_symbols [of "tmp_new st_new" "\<lambda>_. None"
        "\<lparr>e_ops = [Value (Str 0), Value (Str 1), Binary Add]\<rparr>" "\<lambda>_. None" "\<lambda>_. None", OF _ _ _ prod.collapse [symmetric]])
    (simp_all add: tmp_wf_new wf_values_def tmp_new_lookup get_symbol_def symbol_offset_def
      default_symbols_def nth_opt_def)

text \<open>
  C34: integer arithmetic is exact or an error: addition, subtraction and multiplication yield
  the mathematical result when it is an \<open>i64\<close> and \<open>Overflow\<close> otherwise; division truncates
  towards zero and reports \<open>DivideByZero\<close> for a zero divisor and also for \<open>i64::MIN / -1\<close>.
\<close>

theorem integer_arithmetic_exact:
  "(binary_evaluate rx externs Add (Integer i) (Integer j) s = (Ok (Integer k), s) \<longleftrightarrow> sint k = sint i + sint j) \<and>
   (binary_evaluate rx externs Sub (Integer i) (Integer j) s = (Ok (Integer k), s) \<longleftrightarrow> sint k = sint i - sint j) \<and>
   (binary_evaluate rx externs Mul (Integer i) (Integer j) s = (Ok (Integer k), s) \<longleftrightarrow> sint k = sint i * sint j) \<and>
   (binary_evaluate rx externs Add (Integer i) (Integer j) s = (Err Overflow, s) \<longleftrightarrow> \<not> i64_range (sint i + sint j)) \<and>
   (binary_evaluate rx externs Sub (Integer i) (Integer j) s = (Err Overflow, s) \<longleftrightarrow> \<not> i64_range (sint i - sint j)) \<and>
   (binary_evaluate rx externs Mul (Integer i) (Integer j) s = (Err Overflow, s) \<longleftrightarrow> \<not> i64_range (sint i * sint j)) \<and>
   (binary_evaluate rx externs Div (Integer i) (Integer j) s = (Err DivideByZero, s) \<longleftrightarrow>
      sint j = 0 \<or> (sint i = - (2 ^ 63) \<and> sint j = - 1)) \<and>
   (binary_evaluate rx externs Div (Integer i) (Integer j) s = (Ok (Integer k), s) \<longleftrightarrow>
      sint j \<noteq> 0 \<and> sint k = sint i sdiv sint j)"
proof -
  have range: "sint x = 9223372036854775808 \<longleftrightarrow> False" for x :: i64
    using sint_range [of x] by (auto simp: i64_range_def)
  have sub: "i64_range r \<and> sint k = r \<longleftrightarrow> sint k = r" for r using sint_range by metis
  have ok: "checked_result e r = Ok (Integer k) \<longleftrightarrow> r = Some k" for e r
    by (cases r) (auto simp: checked_result_def)
  have err: "checked_result e r = Err e \<longleftrightarrow> r = None" for e r
    by (cases r) (auto simp: checked_result_def)
  show ?thesis
    using sdiv_range [OF sint_range sint_range, of j i]
    by (auto simp: pure_result_def ok err checked_add_def checked_sub_def checked_mul_def
        checked_div_def i64_checked_Some i64_checked_None sint_range sub range)
qed

text \<open>
  the lazy operators and \<open>try_or\<close>: a decided \<open>&&\<close> or \<open>||\<close> ignores its closure, however
  broken; an undecided one is its closure; and \<open>try_or\<close> turns every error of its body into the
  fallback, keeping the symbols the body interned.
\<close>

theorem lazy_operators:
  "(eval_ops rx externs [Value (Bool False), Closure [] body, Binary LazyAnd] [] vs s = (Ok (Bool False), s)) \<and>
   (eval_ops rx externs [Value (Bool True), Closure [] body, Binary LazyOr] [] vs s = (Ok (Bool True), s)) \<and>
   (eval_ops rx externs [Value (Bool True), Closure [] body, Binary LazyAnd] [] vs s = eval_ops rx externs body [] vs s) \<and>
   (eval_ops rx externs [Value (Bool False), Closure [] body, Binary LazyOr] [] vs s = eval_ops rx externs body [] vs s) \<and>
   (eval_ops rx externs [Value (Integer i), Closure [] body, Binary TryOr] [] vs s = (case eval_ops rx externs body [] vs s of (Err e, s') \<Rightarrow> (Ok (Integer i), s') | r \<Rightarrow> r))"
  by (auto simp: shadows_def evaluate_with_closure_def split: prod.splits outcome.splits)

text \<open>
  \<open>all\<close> and \<open>any\<close> over a set, an array or the entries of a map are the quantifiers, when the
  body decides each element without error.
\<close>

theorem collection_quantifiers:
  assumes "collection_items t = Some items" "vs param = None"
    and "\<And>v. v \<in> set items \<Longrightarrow> eval_ops rx externs body [] (vs(param \<mapsto> v)) s = (Ok (Bool (P v)), s)"
  shows "eval_ops rx externs [Value t, Closure [param] body, Binary All_op] [] vs s =
      (Ok (Bool (\<forall>v \<in> set items. P v)), s) \<and>
    eval_ops rx externs [Value t, Closure [param] body, Binary Any_op] [] vs s =
      (Ok (Bool (\<exists>v \<in> set items. P v)), s)"
proof -
  have restore: "(vs(param \<mapsto> v))(param := None) = vs" for v
    using assms(2) by (simp add: fun_eq_iff)
  have "closure_loop (eval_ops rx externs body []) goal param xs vs s =
      (Ok (Bool (if goal then \<forall>v \<in> set xs. P v else \<exists>v \<in> set xs. P v)), s)"
    if "set xs \<subseteq> set items" for goal xs
    using that
  proof (induction xs)
    case (Cons v xs)
    then show ?case using assms(3) [of v] restore [of v]
      by (cases "P v"; cases goal) (simp_all del: fun_upd_apply fun_upd_upd)
  qed simp
  moreover have "value_result vs t = Ok t" using assms(1) by (cases t) auto
  ultimately show ?thesis
    using assms(1,2)
    by (simp_all add: shadows_def evaluate_with_closure_def collection_loop_def)
qed

lemma collection_quantifiers_witness:
  "eval_ops (\<lambda>_. None) (\<lambda>_. None) [Value (Set [Integer 1, Integer 2]), Closure [5]
      [Value (Variable 5), Value (Integer 2), Binary LessThan], Binary Any_op] [] (\<lambda>_. None)
      (tmp_new st_new) =
    (Ok (Bool True), tmp_new st_new)"
proof -
  have "eval_ops (\<lambda>_. None) (\<lambda>_. None) [Value (Set [Integer 1, Integer 2]), Closure [5]
      [Value (Variable 5), Value (Integer 2), Binary LessThan], Binary Any_op] [] (\<lambda>_. None)
      (tmp_new st_new) =
    (Ok (Bool (\<exists>v \<in> set [Integer 1, Integer 2]. v = Integer 1)), tmp_new st_new)"
    by (rule conjunct2 [OF collection_quantifiers]) (auto simp: pure_result_def)
  then show ?thesis by simp
qed

end
