(* ===== verification/Origins.thy ===== *)
theory Origins
  imports Terms
begin

text \<open>
  \<open>datalog/origin.rs\<close>: the origin of a fact is the set of blocks that contributed to it, the
  authorizer counting as block \<open>usize::MAX\<close>; a rule or check trusts a set of blocks, computed
  from its scopes, and sees a fact when all of the fact's origin is trusted.
\<close>

type_synonym origin = "nat fset"

definition origin_insert :: "nat \<Rightarrow> origin \<Rightarrow> origin" where
  "origin_insert i o' = finsert i o'"

definition origin_union :: "origin \<Rightarrow> origin \<Rightarrow> origin" where
  "origin_union a b = a |\<union>| b"

definition origin_is_superset :: "origin \<Rightarrow> origin \<Rightarrow> bool" where
  "origin_is_superset a b \<longleftrightarrow> b |\<subseteq>| a"

definition origin_extend :: "origin \<Rightarrow> nat list \<Rightarrow> origin" where
  "origin_extend a is = a |\<union>| fset_of_list is"

record trusted_origins =
  to_inner :: origin

definition default_trusted :: trusted_origins where
  "default_trusted = \<lparr>to_inner = origin_insert 0 (origin_insert usize_max {||})\<rparr>"

type_synonym key_blocks = "nat \<rightharpoonup> nat list"

fun scope_origins :: "nat \<Rightarrow> key_blocks \<Rightarrow> scope \<Rightarrow> origin \<Rightarrow> origin" where
  "scope_origins current keys Scope_Authority os = origin_insert 0 os"
| "scope_origins current keys Scope_Previous os =
     (if current \<noteq> usize_max then origin_extend os [0..<current + 1] else os)"
| "scope_origins current keys (Scope_PublicKey key_id) os =
     (case keys key_id of Some block_ids \<Rightarrow> origin_extend os block_ids | None \<Rightarrow> os)"

definition from_scopes ::
    "scope list \<Rightarrow> trusted_origins \<Rightarrow> nat \<Rightarrow> key_blocks \<Rightarrow> trusted_origins" where
  "from_scopes rule_scopes default_origins current keys =
     (if rule_scopes = []
      then default_origins\<lparr>to_inner :=
             origin_insert usize_max (origin_insert current (to_inner default_origins))\<rparr>
      else \<lparr>to_inner =
             fold (scope_origins current keys) rule_scopes
               (origin_insert current (origin_insert usize_max {||}))\<rparr>)"

definition trusts :: "trusted_origins \<Rightarrow> origin \<Rightarrow> bool" where
  "trusts trusted fact_origin \<longleftrightarrow> origin_is_superset (to_inner trusted) fact_origin"

definition trusted_of_list :: "nat list \<Rightarrow> trusted_origins" where
  "trusted_of_list is = \<lparr>to_inner = fset_of_list is\<rparr>"

lemmas origin_defs = origin_insert_def origin_union_def origin_is_superset_def origin_extend_def

section \<open>What a list of scopes trusts\<close>

text \<open>The blocks that one scope annotation admits.\<close>

definition scope_admits :: "nat \<Rightarrow> key_blocks \<Rightarrow> scope \<Rightarrow> nat \<Rightarrow> bool" where
  "scope_admits current keys s b \<longleftrightarrow>
     (case s of
        Scope_Authority \<Rightarrow> b = 0
      | Scope_Previous \<Rightarrow> current \<noteq> usize_max \<and> b \<le> current
      | Scope_PublicKey k \<Rightarrow> (\<exists>bs. keys k = Some bs \<and> b \<in> set bs))"

lemma scope_origins_mem:
  "b |\<in>| scope_origins current keys s os \<longleftrightarrow> b |\<in>| os \<or> scope_admits current keys s b"
  by (cases s) (auto simp: origin_defs scope_admits_def fset_of_list_elem split: option.splits)

lemma fold_scope_origins_mem:
  "b |\<in>| fold (scope_origins current keys) ss os \<longleftrightarrow>
     b |\<in>| os \<or> (\<exists>s \<in> set ss. scope_admits current keys s b)"
  by (induction ss arbitrary: os) (auto simp: scope_origins_mem)

lemma from_scopes_mem:
  "b |\<in>| to_inner (from_scopes ss d current keys) \<longleftrightarrow>
     b = current \<or> b = usize_max \<or>
     (if ss = [] then b |\<in>| to_inner d else \<exists>s \<in> set ss. scope_admits current keys s b)"
  by (auto simp: from_scopes_def fold_scope_origins_mem origin_defs)

lemma trusts_iff: "trusts t a \<longleftrightarrow> (\<forall>b. b |\<in>| a \<longrightarrow> b |\<in>| to_inner t)"
  by (auto simp: trusts_def origin_defs)

lemma trusts_union [simp]: "trusts t (origin_union a b) \<longleftrightarrow> trusts t a \<and> trusts t b"
  by (auto simp: trusts_iff origin_defs)

lemma trusts_insert [simp]: "trusts t (origin_insert i a) \<longleftrightarrow> i |\<in>| to_inner t \<and> trusts t a"
  by (auto simp: trusts_iff origin_defs)

lemma default_trusted_mem: "b |\<in>| to_inner default_trusted \<longleftrightarrow> b = 0 \<or> b = usize_max"
  by (auto simp: default_trusted_def origin_defs)

end
