(* ===== verification/Matching.thy ===== *)
theory Matching
  imports Expressions Origins
begin

text \<open>
  Unification of rule bodies with facts (\<open>datalog/mod.rs\<close>): \<open>match_preds\<close>,
  \<open>MatchedVariables\<close> and the backtracking iterator \<open>CombineIt\<close>, modelled as the state machine
  its \<open>next\<close> method is, and shown to enumerate the list \<open>combine\<close>.
\<close>

section \<open>Matched variables\<close>

type_synonym matched = "(nat \<times> dterm option) list"

definition mv_new :: "nat list \<Rightarrow> matched" where
  "mv_new vars = map (\<lambda>v. (v, None)) vars"

definition mv_insert :: "nat \<Rightarrow> dterm \<Rightarrow> matched \<Rightarrow> bool \<times> matched" where
  "mv_insert k v mv =
     (case map_of mv k of
        Some None \<Rightarrow> (True, AList.update k (Some v) mv)
      | Some (Some w) \<Rightarrow> (v = w, mv)
      | None \<Rightarrow> (False, mv))"

definition mv_is_complete :: "matched \<Rightarrow> bool" where
  "mv_is_complete mv \<longleftrightarrow> (\<forall>(k, v) \<in> set mv. v \<noteq> None)"

definition mv_complete :: "matched \<Rightarrow> bindings option" where
  "mv_complete mv =
     (if mv_is_complete mv then Some (map_of (map (\<lambda>(k, v). (k, the v)) mv)) else None)"

section \<open>Matching a predicate\<close>

fun match_term :: "dterm \<Rightarrow> dterm \<Rightarrow> bool" where
  "match_term fid (Variable _) = False"
| "match_term fid pid =
     (case fid of Variable _ \<Rightarrow> True | _ \<Rightarrow> same_type_eq fid pid = Some True)"

definition match_preds :: "predicate \<Rightarrow> predicate \<Rightarrow> bool" where
  "match_preds rule_pred fact_pred \<longleftrightarrow>
     p_name rule_pred = p_name fact_pred \<and>
     length (p_terms rule_pred) = length (p_terms fact_pred) \<and>
     (\<forall>(fid, pid) \<in> set (zip (p_terms rule_pred) (p_terms fact_pred)). match_term fid pid)"

lemma match_term_iff:
  "match_term fid pid \<longleftrightarrow>
     (\<forall>v. pid \<noteq> Variable v) \<and> ((\<exists>v. fid = Variable v) \<or> fid = pid)"
  by (cases pid; cases fid) auto

text \<open>The loop over the zipped terms of a predicate and a fact.\<close>

fun as_variable :: "dterm \<Rightarrow> nat option" where
  "as_variable (Variable k) = Some k"
| "as_variable _ = None"

lemma as_variable_Some [simp]: "as_variable t = Some k \<longleftrightarrow> t = Variable k"
  by (cases t) auto

fun unify :: "(dterm \<times> dterm) list \<Rightarrow> matched \<Rightarrow> matched option" where
  "unify [] vars = Some vars"
| "unify ((key, v) # rest) vars =
     (case as_variable key of
        Some k \<Rightarrow>
          (case mv_insert k v vars of
             (True, vars') \<Rightarrow> unify rest vars'
           | (False, _) \<Rightarrow> None)
      | None \<Rightarrow> unify rest vars)"

definition unify_fact :: "predicate \<Rightarrow> fact \<Rightarrow> matched \<Rightarrow> matched option" where
  "unify_fact p f vars = unify (zip (p_terms p) (p_terms (f_predicate f))) vars"

section \<open>The iterator\<close>

type_synonym sourced = "origin \<times> fact"
type_synonym solution = "origin \<times> bindings"

text \<open>
  \<open>CombineIt\<close>: the variables fixed so far, the facts left to try for the first predicate and,
  while a fact is being explored, its origin with the iterator over the remaining predicates.
  The slice of predicates and the list of all facts do not change and are arguments.
\<close>

datatype combine_it = CombineIt matched "sourced list" "(origin \<times> combine_it) option"

definition current_facts :: "predicate list \<Rightarrow> sourced list \<Rightarrow> sourced list" where
  "current_facts preds facts =
     (case preds of
        [] \<Rightarrow> facts
      | p # _ \<Rightarrow> filter (\<lambda>fact. match_preds p (f_predicate (snd fact))) facts)"

definition combine_new :: "matched \<Rightarrow> predicate list \<Rightarrow> sourced list \<Rightarrow> combine_it" where
  "combine_new vars preds facts = CombineIt vars (current_facts preds facts) None"

function next_solution :: "sourced list \<Rightarrow> predicate list \<Rightarrow> combine_it \<Rightarrow>
    solution option \<times> combine_it" where
  "next_solution all [] (CombineIt vars cur it) =
     (case mv_complete vars of
        None \<Rightarrow> (None, CombineIt vars cur it)
      | Some b \<Rightarrow> (Some ({||}, b), CombineIt (mv_new [0]) cur it))"
| "next_solution all (p # ps) (CombineIt vars [] None) = (None, CombineIt vars [] None)"
| "next_solution all (p # ps) (CombineIt vars ((o', f) # cur) None) =
     (case unify_fact p f vars of
        None \<Rightarrow> next_solution all (p # ps) (CombineIt vars cur None)
      | Some vars' \<Rightarrow>
          if ps = [] then
            (case mv_complete vars' of
               None \<Rightarrow> next_solution all (p # ps) (CombineIt vars cur None)
             | Some b \<Rightarrow> (Some (o', b), CombineIt vars cur None))
          else next_solution all (p # ps) (CombineIt vars cur (Some (o', combine_new vars' ps all))))"
| "next_solution all (p # ps) (CombineIt vars cur (Some (o', it))) =
     (case next_solution all ps it of
        (Some (o'', b), it') \<Rightarrow> (Some (origin_union o'' o', b), CombineIt vars cur (Some (o', it')))
      | (None, it') \<Rightarrow> next_solution all (p # ps) (CombineIt vars cur None))"
  by pat_completeness auto
termination
  by (relation "measures [\<lambda>(all, ps, it). length ps,
        \<lambda>(all, ps, it). case it of CombineIt vars cur sub \<Rightarrow> length cur,
        \<lambda>(all, ps, it). case it of CombineIt vars cur sub \<Rightarrow> if sub = None then 0 else 1]") auto

section \<open>The solutions\<close>

text \<open>The list of solutions, in the order of the iterator.\<close>

definition explore :: "(matched \<Rightarrow> solution list) \<Rightarrow> predicate \<Rightarrow> matched \<Rightarrow> sourced \<Rightarrow> solution list" where
  "explore rest p vars x =
     (case unify_fact p (snd x) vars of
        None \<Rightarrow> []
      | Some vars' \<Rightarrow> map (\<lambda>(o'', b). (origin_union o'' (fst x), b)) (rest vars'))"

fun combine :: "sourced list \<Rightarrow> predicate list \<Rightarrow> matched \<Rightarrow> solution list" where
  "combine all [] vars = (case mv_complete vars of None \<Rightarrow> [] | Some b \<Rightarrow> [({||}, b)])"
| "combine all (p # ps) vars =
     concat (map (explore (\<lambda>vs. combine all ps vs) p vars) (current_facts (p # ps) all))"

text \<open>What an iterator in the middle of its work has left to yield.\<close>

fun remaining :: "sourced list \<Rightarrow> predicate list \<Rightarrow> combine_it \<Rightarrow> solution list" where
  "remaining all [] (CombineIt vars cur it) = combine all [] vars"
| "remaining all (p # ps) (CombineIt vars cur it) =
     (case it of
        None \<Rightarrow> []
      | Some (o', sub) \<Rightarrow> map (\<lambda>(o'', b). (origin_union o'' o', b)) (remaining all ps sub)) @
     concat (map (explore (combine all ps) p vars) cur)"

lemma remaining_new: "remaining all ps (combine_new vars ps all) = combine all ps vars"
  by (cases ps) (simp_all add: combine_new_def)

lemma mv_complete_exhausted [simp]: "mv_complete (mv_new [0]) = None"
  by (simp add: mv_complete_def mv_is_complete_def mv_new_def)

lemma origin_union_empty [simp]: "origin_union {||} a = a"
  by (simp add: origin_union_def)

lemma explore_None [simp]: "unify_fact p f vars = None \<Longrightarrow> explore rest p vars (o', f) = []"
  by (simp add: explore_def)

lemma explore_Some [simp]: "unify_fact p f vars = Some vars' \<Longrightarrow>
    explore rest p vars (o', f) = map (\<lambda>(o'', b). (origin_union o'' o', b)) (rest vars')"
  by (simp add: explore_def)

lemma next_solution_remaining:
  "(case next_solution all ps it of
      (None, it') \<Rightarrow> remaining all ps it = []
    | (Some x, it') \<Rightarrow> remaining all ps it = x # remaining all ps it')"
proof (induction all ps it rule: next_solution.induct)
  case (3 all p ps vars o' f cur)
  show ?case
  proof (cases "unify_fact p f vars")
    case None
    with 3(1) show ?thesis by (auto split: option.splits prod.splits)
  next
    case (Some vars')
    show ?thesis
    proof (cases "ps = []")
      case True
      show ?thesis
      proof (cases "mv_complete vars'")
        case None
        with 3(2) [OF Some True] Some True show ?thesis
          by (auto split: option.splits prod.splits)
      next
        case (Some b)
        with \<open>unify_fact p f vars = Some vars'\<close> True show ?thesis by simp
      qed
    next
      case False
      with 3(3) [OF Some False] Some show ?thesis
        by (auto simp: remaining_new split: option.splits prod.splits)
    qed
  qed
next
  case (4 all p ps vars cur o' it)
  then show ?case
    by (auto split: option.splits prod.splits)
qed (auto split: option.splits)

text \<open>Draining the iterator: \<open>for\<close> and \<open>map\<close> call \<open>next\<close> until it answers \<open>None\<close>.\<close>

inductive drains :: "sourced list \<Rightarrow> predicate list \<Rightarrow> combine_it \<Rightarrow> solution list \<Rightarrow> bool"
  for all ps where
  drains_end: "next_solution all ps it = (None, it') \<Longrightarrow> drains all ps it []"
| drains_step: "next_solution all ps it = (Some x, it') \<Longrightarrow> drains all ps it' xs \<Longrightarrow>
    drains all ps it (x # xs)"

inductive_cases drains_NilE: "drains all ps it []"
inductive_cases drains_ConsE: "drains all ps it (x # xs)"

lemma drains_remaining: "drains all ps it (remaining all ps it)"
proof (induction "remaining all ps it" arbitrary: it)
  case Nil
  obtain r it' where step: "next_solution all ps it = (r, it')" by force
  then have "r = None"
    using next_solution_remaining [of all ps it] Nil.hyps by (auto split: option.splits)
  with step show ?case unfolding Nil.hyps [symmetric] by (blast intro: drains_end)
next
  case (Cons x xs)
  obtain r it' where step: "next_solution all ps it = (r, it')" by force
  then have "r = Some x" "remaining all ps it' = xs"
    using next_solution_remaining [of all ps it] Cons.hyps(2) by (auto split: option.splits)
  with Cons.hyps step show ?case using drains_step by metis
qed

lemma drains_unique: "drains all ps it xs \<Longrightarrow> xs = remaining all ps it"
  by (induction rule: drains.induct) (use next_solution_remaining [of all ps] in \<open>force split: prod.splits\<close>)+

section \<open>Solutions as substitutions\<close>

text \<open>
  A solution, seen from outside: a substitution for the variables of the body under which every
  predicate of the body is one of the facts.  The origin is the union of the origins of the facts.
\<close>

fun instance_term :: "bindings \<Rightarrow> dterm \<Rightarrow> dterm \<Rightarrow> bool" where
  "instance_term b (Variable k) t \<longleftrightarrow> (\<forall>v. t \<noteq> Variable v) \<and> b k = Some t"
| "instance_term b p t \<longleftrightarrow> (\<forall>v. t \<noteq> Variable v) \<and> p = t"

definition instance_of :: "bindings \<Rightarrow> predicate \<Rightarrow> fact \<Rightarrow> bool" where
  "instance_of b p f \<longleftrightarrow>
     p_name p = p_name (f_predicate f) \<and>
     list_all2 (instance_term b) (p_terms p) (p_terms (f_predicate f))"

definition grounded :: "sourced set \<Rightarrow> bindings \<Rightarrow> predicate list \<Rightarrow> sourced list \<Rightarrow> bool" where
  "grounded F b ps fs \<longleftrightarrow> list_all2 (\<lambda>p x. x \<in> F \<and> instance_of b p (snd x)) ps fs"

fun origins_of :: "sourced list \<Rightarrow> origin" where
  "origins_of [] = {||}"
| "origins_of (x # xs) = origin_union (origins_of xs) (fst x)"

fun term_vars :: "dterm list \<Rightarrow> nat list" where
  "term_vars [] = []"
| "term_vars (Variable v # ts) = v # term_vars ts"
| "term_vars (_ # ts) = term_vars ts"

lemma term_vars_mem: "v \<in> set (term_vars ts) \<longleftrightarrow> Variable v \<in> set ts"
  by (induction ts rule: term_vars.induct) auto

definition body_vars :: "predicate list \<Rightarrow> nat list" where
  "body_vars ps = concat (map (\<lambda>p. term_vars (p_terms p)) ps)"

definition agrees :: "matched \<Rightarrow> bindings \<Rightarrow> bool" where
  "agrees mv b \<longleftrightarrow> (\<forall>k v. map_of mv k = Some (Some v) \<longrightarrow> b k = Some v)"

lemma mv_insert_agrees:
  assumes "mv_insert k v mv = (True, mv')"
  shows "dom (map_of mv') = dom (map_of mv)" "agrees mv' b \<longleftrightarrow> agrees mv b \<and> b k = Some v"
    "map_of mv' l = Some None \<longleftrightarrow> map_of mv l = Some None \<and> l \<noteq> k"
proof -
  consider (fresh) "map_of mv k = Some None" "map_of mv' = (map_of mv)(k \<mapsto> Some v)"
    | (known) "map_of mv k = Some (Some v)" "mv' = mv"
    using assms by (auto simp: mv_insert_def update_conv' split: option.splits)
  then show "dom (map_of mv') = dom (map_of mv)" "agrees mv' b \<longleftrightarrow> agrees mv b \<and> b k = Some v"
    "map_of mv' l = Some None \<longleftrightarrow> map_of mv l = Some None \<and> l \<noteq> k"
    by (cases; auto simp: agrees_def)+
qed

lemma mv_insert_fails:
  "mv_insert k v mv = (False, mv') \<Longrightarrow> dom b = dom (map_of mv) \<Longrightarrow> agrees mv b \<Longrightarrow> b k \<noteq> Some v"
  by (auto simp: mv_insert_def agrees_def split: option.splits)

lemma unify_agrees:
  "unify ts mv = Some mv' \<Longrightarrow>
     dom (map_of mv') = dom (map_of mv) \<and>
     (agrees mv' b \<longleftrightarrow> agrees mv b \<and> (\<forall>k v. (Variable k, v) \<in> set ts \<longrightarrow> b k = Some v)) \<and>
     (\<forall>l. map_of mv' l = Some None \<longleftrightarrow> map_of mv l = Some None \<and> (\<forall>v. (Variable l, v) \<notin> set ts))"
proof (induction ts arbitrary: mv)
  case (Cons t rest)
  obtain key v where t: "t = (key, v)" by force
  show ?case
  proof (cases "as_variable key")
    case None
    then have "unify rest mv = Some mv'" using Cons.prems t by simp
    from Cons.IH [OF this] None t show ?thesis by auto
  next
    case (Some k)
    with Cons.prems t obtain mv1 where ins: "mv_insert k v mv = (True, mv1)"
      and rest: "unify rest mv1 = Some mv'"
      by (auto split: prod.splits bool.splits)
    from Cons.IH [OF rest] mv_insert_agrees [OF ins] Some t show ?thesis by auto
  qed
qed simp

lemma unify_exists:
  "dom b = dom (map_of mv) \<Longrightarrow> agrees mv b \<Longrightarrow> (\<forall>k v. (Variable k, v) \<in> set ts \<longrightarrow> b k = Some v) \<Longrightarrow>
     \<exists>mv'. unify ts mv = Some mv'"
proof (induction ts arbitrary: mv)
  case (Cons t rest)
  obtain key v where t: "t = (key, v)" by force
  show ?case
  proof (cases "as_variable key")
    case None
    with Cons.IH [OF Cons.prems(1,2)] Cons.prems(3) t show ?thesis by auto
  next
    case (Some k)
    obtain ok mv1 where ins: "mv_insert k v mv = (ok, mv1)" by force
    have bk: "b k = Some v" using Cons.prems(3) Some t by auto
    then have "ok" using mv_insert_fails [of k v mv mv1 b] ins Cons.prems(1,2) by (cases ok) auto
    then have ins': "mv_insert k v mv = (True, mv1)" using ins by simp
    have "\<exists>mv'. unify rest mv1 = Some mv'"
      by (rule Cons.IH) (use mv_insert_agrees [OF ins'] Cons.prems bk t in auto)
    with Some t ins' show ?thesis by simp
  qed
qed simp

lemma mv_complete_iff:
  assumes "distinct (map fst mv)"
  shows "mv_complete mv = Some b \<longleftrightarrow>
    (\<forall>k. map_of mv k \<noteq> Some None) \<and> agrees mv b \<and> dom b = dom (map_of mv)"
proof -
  have complete: "mv_is_complete mv \<longleftrightarrow> (\<forall>k. map_of mv k \<noteq> Some None)"
    using assms by (simp add: mv_is_complete_def map_of_eq_Some_iff case_prod_unfold)
      (metis not_None_eq prod.collapse snd_conv)
  have val: "map_of (map (\<lambda>(k, v). (k, the v)) mv) k = map_option the (map_of mv k)" for k
    by (simp add: map_of_map)
  show ?thesis
  proof
    assume "mv_complete mv = Some b"
    then have "mv_is_complete mv" "b = map_of (map (\<lambda>(k, v). (k, the v)) mv)"
      by (auto simp: mv_complete_def split: if_splits)
    with complete show "(\<forall>k. map_of mv k \<noteq> Some None) \<and> agrees mv b \<and> dom b = dom (map_of mv)"
      by (auto simp: val agrees_def)
  next
    assume r: "(\<forall>k. map_of mv k \<noteq> Some None) \<and> agrees mv b \<and> dom b = dom (map_of mv)"
    have "map_of (map (\<lambda>(k, v). (k, the v)) mv) k = b k" for k
    proof (cases "map_of mv k")
      case None
      then have "b k = None" using r by (metis domIff)
      with None show ?thesis by (simp add: val)
    next
      case (Some o')
      with r obtain v where "o' = Some v" by (cases o') auto
      with Some r show ?thesis by (simp add: val agrees_def)
    qed
    with r complete show "mv_complete mv = Some b" by (auto simp: mv_complete_def)
  qed
qed

lemma mv_insert_distinct: "mv_insert k v mv = (ok, mv') \<Longrightarrow> distinct (map fst mv) \<Longrightarrow> distinct (map fst mv')"
  by (auto simp: mv_insert_def distinct_update split: option.splits)

lemma unify_distinct: "unify ts mv = Some mv' \<Longrightarrow> distinct (map fst mv) \<Longrightarrow> distinct (map fst mv')"
proof (induction ts arbitrary: mv)
  case (Cons t ts)
  then show ?case
    by (cases t) (auto split: option.splits prod.splits bool.splits dest: mv_insert_distinct)
qed simp

lemma instance_term_iff:
  "instance_term b p t \<longleftrightarrow> match_term p t \<and> (\<forall>k. p = Variable k \<longrightarrow> b k = Some t)"
  by (cases p) (auto simp: match_term_iff)

lemma instance_of_iff:
  "instance_of b p f \<longleftrightarrow> match_preds p (f_predicate f) \<and>
     (\<forall>k v. (Variable k, v) \<in> set (zip (p_terms p) (p_terms (f_predicate f))) \<longrightarrow> b k = Some v)"
  by (auto simp: instance_of_def match_preds_def list_all2_iff instance_term_iff)

lemma match_preds_vars:
  "match_preds p q \<Longrightarrow> v \<in> set (term_vars (p_terms p)) \<Longrightarrow>
     \<exists>t. (Variable v, t) \<in> set (zip (p_terms p) (p_terms q))"
  unfolding term_vars_mem match_preds_def by (metis in_set_impl_in_set_zip1)

lemma grounded_Cons:
  "grounded F b (p # ps) fs \<longleftrightarrow> (\<exists>x rest. fs = x # rest \<and> x \<in> F \<and> instance_of b p (snd x) \<and> grounded F b ps rest)"
  by (auto simp: grounded_def list_all2_Cons1)

lemma explore_mem:
  "(og, b) \<in> set (explore rest p vars x) \<longleftrightarrow>
     (\<exists>vars'. unify_fact p (snd x) vars = Some vars' \<and>
        (\<exists>og'. (og', b) \<in> set (rest vars') \<and> og = origin_union og' (fst x)))"
proof (cases "unify_fact p (snd x) vars")
  case (Some vars')
  have "(og, b) \<in> set (explore rest p vars x) \<longleftrightarrow>
      (\<exists>y \<in> set (rest vars'). (og, b) = (origin_union (fst y) (fst x), snd y))"
    by (auto simp: explore_def Some case_prod_unfold)
  also have "\<dots> \<longleftrightarrow> (\<exists>og'. (og', b) \<in> set (rest vars') \<and> og = origin_union og' (fst x))" by force
  finally show ?thesis using Some by simp
qed (simp add: explore_def)

lemma combine_iff:
  assumes "distinct (map fst mv)" "\<forall>k. map_of mv k = Some None \<longrightarrow> k \<in> set (body_vars ps)"
  shows "(og, b) \<in> set (combine all ps mv) \<longleftrightarrow>
    dom b = dom (map_of mv) \<and> agrees mv b \<and> (\<exists>fs. grounded (set all) b ps fs \<and> og = origins_of fs)"
  using assms
proof (induction ps arbitrary: mv og)
  case Nil
  have "(og, b) \<in> set (combine all [] mv) \<longleftrightarrow> og = {||} \<and> mv_complete mv = Some b"
    by (auto split: option.splits)
  with Nil show ?case by (auto simp: mv_complete_iff body_vars_def grounded_def)
next
  case (Cons p ps)
  have rest: "(og', b) \<in> set (combine all ps mv') \<longleftrightarrow>
      dom b = dom (map_of mv') \<and> agrees mv' b \<and> (\<exists>fs. grounded (set all) b ps fs \<and> og' = origins_of fs)"
    if f: "match_preds p (f_predicate f)" and u: "unify_fact p f mv = Some mv'" for f mv' og'
  proof (rule Cons.IH)
    show "distinct (map fst mv')" using u Cons.prems(1) by (auto simp: unify_fact_def dest: unify_distinct)
    show "\<forall>k. map_of mv' k = Some None \<longrightarrow> k \<in> set (body_vars ps)"
    proof (intro allI impI)
      fix k
      assume "map_of mv' k = Some None"
      then have k: "map_of mv k = Some None"
        "\<forall>v. (Variable k, v) \<notin> set (zip (p_terms p) (p_terms (f_predicate f)))"
        using unify_agrees [OF u [unfolded unify_fact_def]] by blast+
      have "k \<in> set (body_vars (p # ps))" using Cons.prems(2) k(1) by blast
      moreover have "k \<notin> set (term_vars (p_terms p))" using match_preds_vars [OF f, of k] k(2) by blast
      ultimately show "k \<in> set (body_vars ps)" by (auto simp: body_vars_def)
    qed
  qed
  have "(og, b) \<in> set (combine all (p # ps) mv) \<longleftrightarrow>
      (\<exists>x \<in> set all. match_preds p (f_predicate (snd x)) \<and>
        (\<exists>mv'. unify_fact p (snd x) mv = Some mv' \<and>
          (\<exists>og'. (og', b) \<in> set (combine all ps mv') \<and> og = origin_union og' (fst x))))"
    unfolding explore_mem [symmetric] by (auto simp: current_facts_def; force)
  also have "\<dots> \<longleftrightarrow> (\<exists>x \<in> set all. instance_of b p (snd x) \<and> dom b = dom (map_of mv) \<and> agrees mv b \<and>
      (\<exists>fs. grounded (set all) b ps fs \<and> og = origin_union (origins_of fs) (fst x)))"
  proof (intro bex_cong refl)
    fix x :: sourced
    let ?ts = "zip (p_terms p) (p_terms (f_predicate (snd x)))"
    have "(\<exists>mv'. unify_fact p (snd x) mv = Some mv' \<and>
          (\<exists>og'. (og', b) \<in> set (combine all ps mv') \<and> og = origin_union og' (fst x))) \<longleftrightarrow>
        (\<forall>k v. (Variable k, v) \<in> set ?ts \<longrightarrow> b k = Some v) \<and> dom b = dom (map_of mv) \<and> agrees mv b \<and>
        (\<exists>fs. grounded (set all) b ps fs \<and> og = origin_union (origins_of fs) (fst x))"
      (is "?L \<longleftrightarrow> ?R") if m: "match_preds p (f_predicate (snd x))"
    proof
      assume ?L
      then obtain mv' og' where u: "unify_fact p (snd x) mv = Some mv'"
        and c: "(og', b) \<in> set (combine all ps mv')" "og = origin_union og' (fst x)" by blast
      from c(1) [unfolded rest [OF m u]] unify_agrees [OF u [unfolded unify_fact_def], of b] c(2)
      show ?R by blast
    next
      assume r: ?R
      then obtain mv' where u: "unify_fact p (snd x) mv = Some mv'"
        using unify_exists [of b mv ?ts] unfolding unify_fact_def by blast
      obtain fs where fs: "grounded (set all) b ps fs" "og = origin_union (origins_of fs) (fst x)"
        using r by blast
      have "(origins_of fs, b) \<in> set (combine all ps mv')"
        unfolding rest [OF m u] using r unify_agrees [OF u [unfolded unify_fact_def], of b] fs(1) by blast
      with u fs(2) show ?L by blast
    qed
    then show "match_preds p (f_predicate (snd x)) \<and>
        (\<exists>mv'. unify_fact p (snd x) mv = Some mv' \<and>
          (\<exists>og'. (og', b) \<in> set (combine all ps mv') \<and> og = origin_union og' (fst x))) \<longleftrightarrow>
      instance_of b p (snd x) \<and> dom b = dom (map_of mv) \<and> agrees mv b \<and>
      (\<exists>fs. grounded (set all) b ps fs \<and> og = origin_union (origins_of fs) (fst x))"
      unfolding instance_of_iff by blast
  qed
  also have "\<dots> \<longleftrightarrow> dom b = dom (map_of mv) \<and> agrees mv b \<and>
      (\<exists>fs. grounded (set all) b (p # ps) fs \<and> og = origins_of fs)"
    (is "?L \<longleftrightarrow> ?R")
  proof
    assume ?L
    then obtain x fs where x: "x \<in> set all" "instance_of b p (snd x)" "dom b = dom (map_of mv)"
      "agrees mv b" "grounded (set all) b ps fs" "og = origin_union (origins_of fs) (fst x)" by blast
    then have "grounded (set all) b (p # ps) (x # fs)" "og = origins_of (x # fs)"
      unfolding grounded_Cons by simp_all
    with x show ?R by blast
  next
    assume ?R
    then obtain fs where fs: "grounded (set all) b (p # ps) fs" "og = origins_of fs"
      "dom b = dom (map_of mv)" "agrees mv b" by blast
    from fs(1) obtain x rest where x: "fs = x # rest" "x \<in> set all" "instance_of b p (snd x)"
      "grounded (set all) b ps rest" unfolding grounded_Cons by blast
    then have "og = origin_union (origins_of rest) (fst x)" using fs(2) by simp
    with x fs(3,4) show ?L by blast
  qed
  finally show ?case .
qed

text \<open>\<open>Rule::variables_set\<close>.\<close>

definition variables_set :: "rule \<Rightarrow> nat list" where
  "variables_set r = remdups (body_vars (r_body r))"

definition solutions :: "rule \<Rightarrow> sourced list \<Rightarrow> solution list" where
  "solutions r facts = combine facts (r_body r) (mv_new (variables_set r))"

lemma mv_new_facts: "map fst (mv_new vs) = vs" "map_of (mv_new vs) k = (if k \<in> set vs then Some None else None)"
  "agrees (mv_new vs) b"
proof -
  show "map fst (mv_new vs) = vs" by (simp add: mv_new_def comp_def)
  show *: "map_of (mv_new vs) k = (if k \<in> set vs then Some None else None)" for k
    by (induction vs) (auto simp: mv_new_def)
  then show "agrees (mv_new vs) b" by (auto simp: agrees_def)
qed

lemma solutions_iff:
  "(og, b) \<in> set (solutions r facts) \<longleftrightarrow>
     dom b = set (body_vars (r_body r)) \<and>
     (\<exists>fs. grounded (set facts) b (r_body r) fs \<and> og = origins_of fs)"
proof -
  have "dom (map_of (mv_new (variables_set r))) = set (body_vars (r_body r))"
    unfolding dom_def mv_new_facts(2) by (auto simp: variables_set_def)
  then show ?thesis unfolding solutions_def
    by (subst combine_iff) (auto simp: mv_new_facts variables_set_def)
qed

section \<open>Properties\<close>

text \<open>
  C21: draining the backtracking iterator of a rule, one \<open>next\<close> call at a time, ends after
  finitely many calls and yields exactly the list \<open>solutions\<close>, in that order.
\<close>

theorem combine_it_drains:
  "drains facts (r_body r) (combine_new (mv_new (variables_set r)) (r_body r) facts) xs \<longleftrightarrow>
     xs = solutions r facts"
  using drains_remaining drains_unique unfolding solutions_def remaining_new [symmetric] by blast

text \<open>
  the solutions of a rule body are the substitutions of its variables under which every
  predicate of the body is one of the facts, each with the union of the origins of those facts;
  in particular they do not depend on the order in which the fact set is iterated.
\<close>

theorem solutions_are_substitutions:
  "(og, b) \<in> set (solutions r facts) \<longleftrightarrow>
     dom b = set (body_vars (r_body r)) \<and>
     (\<exists>fs. grounded (set facts) b (r_body r) fs \<and> og = origins_of fs)"
  by (rule solutions_iff)

end
