(* ===== verification/Facts.thy ===== *)
theory Facts
  imports Matching
begin

text \<open>
  \<open>FactSet\<close> and \<open>RuleSet\<close> (\<open>datalog/mod.rs\<close>).  The two hash maps are association lists with
  distinct keys, in insertion order; \<open>fs_pairs\<close> is the set of sourced facts they hold, to which
  every operation refines.
\<close>

section \<open>Fact sets\<close>

type_synonym fact_set = "(origin \<times> fact list) list"

definition hash_insert :: "'a \<Rightarrow> 'a list \<Rightarrow> 'a list" where
  "hash_insert x xs = (if x \<in> set xs then xs else xs @ [x])"

fun fs_insert :: "origin \<Rightarrow> fact \<Rightarrow> fact_set \<Rightarrow> fact_set" where
  "fs_insert og f [] = [(og, [f])]"
| "fs_insert og f ((og', s) # fs) =
     (if og' = og then (og', hash_insert f s) # fs else (og', s) # fs_insert og f fs)"

text \<open>\<open>entry(origin).or_default().extend(facts)\<close>.\<close>

fun fs_extend_entry :: "origin \<Rightarrow> fact list \<Rightarrow> fact_set \<Rightarrow> fact_set" where
  "fs_extend_entry og facts [] = [(og, fold hash_insert facts [])]"
| "fs_extend_entry og facts ((og', s) # fs) =
     (if og' = og then (og', fold hash_insert facts s) # fs else (og', s) # fs_extend_entry og facts fs)"

definition fs_merge :: "fact_set \<Rightarrow> fact_set \<Rightarrow> fact_set" where
  "fs_merge fs other = fold (\<lambda>(og, facts) acc. fs_extend_entry og facts acc) other fs"

definition fs_len :: "fact_set \<Rightarrow> nat" where
  "fs_len fs = sum_list (map (\<lambda>(og, s). length s) fs)"

definition fs_iterator :: "trusted_origins \<Rightarrow> fact_set \<Rightarrow> sourced list" where
  "fs_iterator trusted fs =
     concat (map (\<lambda>(og, s). if trusts trusted og then map (Pair og) s else []) fs)"

definition fs_iter_all :: "fact_set \<Rightarrow> sourced list" where
  "fs_iter_all fs = concat (map (\<lambda>(og, s). map (Pair og) s) fs)"

text \<open>\<open>Extend<(Origin, Fact)>\<close>.\<close>

definition fs_extend :: "fact_set \<Rightarrow> sourced list \<Rightarrow> fact_set" where
  "fs_extend fs xs = fold (\<lambda>(og, f) acc. fs_extend_entry og [f] acc) xs fs"

section \<open>The abstraction\<close>

definition fs_pairs :: "fact_set \<Rightarrow> sourced set" where
  "fs_pairs fs = set (fs_iter_all fs)"

definition wf_facts :: "fact_set \<Rightarrow> bool" where
  "wf_facts fs \<longleftrightarrow> distinct (map fst fs) \<and> (\<forall>(og, s) \<in> set fs. distinct s)"

lemma fs_pairs_mem: "(og, f) \<in> fs_pairs fs \<longleftrightarrow> (\<exists>s. (og, s) \<in> set fs \<and> f \<in> set s)"
  by (auto simp: fs_pairs_def fs_iter_all_def)

lemma fs_pairs_Nil [simp]: "fs_pairs [] = {}"
  by (simp add: fs_pairs_def fs_iter_all_def)

lemma fs_pairs_Cons [simp]: "fs_pairs ((og, s) # fs) = Pair og ` set s \<union> fs_pairs fs"
  by (simp add: fs_pairs_def fs_iter_all_def)

lemma wf_facts_Nil [simp]: "wf_facts []"
  by (simp add: wf_facts_def)

lemma set_hash_insert [simp]: "set (hash_insert x xs) = insert x (set xs)"
  by (auto simp: hash_insert_def)

lemma distinct_hash_insert: "distinct xs \<Longrightarrow> distinct (hash_insert x xs)"
  by (simp add: hash_insert_def)

lemma set_fold_hash_insert: "set (fold hash_insert xs ys) = set xs \<union> set ys"
  by (induction xs arbitrary: ys) auto

lemma distinct_fold_hash_insert: "distinct ys \<Longrightarrow> distinct (fold hash_insert xs ys)"
  by (induction xs arbitrary: ys) (simp_all add: distinct_hash_insert)

lemma length_fold_hash_insert: "length ys \<le> length (fold hash_insert xs ys)"
proof (induction xs arbitrary: ys)
  case (Cons x xs)
  have "length ys \<le> length (hash_insert x ys)" by (simp add: hash_insert_def)
  with Cons [of "hash_insert x ys"] show ?case by simp
qed simp

lemma fs_insert_pairs: "fs_pairs (fs_insert og f fs) = insert (og, f) (fs_pairs fs)"
  by (induction og f fs rule: fs_insert.induct) auto

lemma fs_insert_keys: "fst ` set (fs_insert og f fs) = insert og (fst ` set fs)"
  by (induction og f fs rule: fs_insert.induct) auto

lemma fs_insert_wf: "wf_facts fs \<Longrightarrow> wf_facts (fs_insert og f fs)"
proof (induction og f fs rule: fs_insert.induct)
  case (2 og f og' s fs)
  then show ?case using fs_insert_keys [of og f fs]
    by (auto simp: wf_facts_def distinct_hash_insert)
qed (simp add: wf_facts_def)

lemma fs_extend_entry_pairs: "fs_pairs (fs_extend_entry og xs fs) = Pair og ` set xs \<union> fs_pairs fs"
  by (induction og xs fs rule: fs_extend_entry.induct) (auto simp: set_fold_hash_insert)

lemma fs_extend_entry_keys: "fst ` set (fs_extend_entry og xs fs) = insert og (fst ` set fs)"
  by (induction og xs fs rule: fs_extend_entry.induct) auto

lemma fs_extend_entry_wf: "wf_facts fs \<Longrightarrow> wf_facts (fs_extend_entry og xs fs)"
proof (induction og xs fs rule: fs_extend_entry.induct)
  case (2 og xs og' s fs)
  then show ?case using fs_extend_entry_keys [of og xs fs]
    by (auto simp: wf_facts_def distinct_fold_hash_insert)
qed (simp add: wf_facts_def distinct_fold_hash_insert)

lemma fs_extend_entry_len: "fs_len fs \<le> fs_len (fs_extend_entry og xs fs)"
  by (induction og xs fs rule: fs_extend_entry.induct)
    (auto simp: fs_len_def length_fold_hash_insert)

lemma fs_merge_pairs: "fs_pairs (fs_merge fs other) = fs_pairs fs \<union> fs_pairs other"
  unfolding fs_merge_def
  by (induction other arbitrary: fs) (auto simp: fs_extend_entry_pairs)

lemma fs_merge_wf: "wf_facts fs \<Longrightarrow> wf_facts (fs_merge fs other)"
  unfolding fs_merge_def
  by (induction other arbitrary: fs) (auto simp: fs_extend_entry_wf)

lemma fs_merge_len: "fs_len fs \<le> fs_len (fs_merge fs other)"
  unfolding fs_merge_def
proof (induction other arbitrary: fs)
  case (Cons x other)
  obtain og xs where x: "x = (og, xs)" by force
  show ?case using Cons [of "fs_extend_entry og xs fs"] fs_extend_entry_len [of fs og xs] x by simp
qed simp

lemma fs_extend_pairs: "fs_pairs (fs_extend fs xs) = fs_pairs fs \<union> set xs"
  unfolding fs_extend_def
  by (induction xs arbitrary: fs) (auto simp: fs_extend_entry_pairs)

lemma fs_iterator_set: "set (fs_iterator t fs) = {x \<in> fs_pairs fs. trusts t (fst x)}"
  by (induction fs) (auto simp: fs_iterator_def)

lemma finite_fs_pairs [simp]: "finite (fs_pairs fs)"
  by (simp add: fs_pairs_def)

lemma fs_len_card: "wf_facts fs \<Longrightarrow> fs_len fs = card (fs_pairs fs)"
proof (induction fs)
  case (Cons x fs)
  obtain og s where x: "x = (og, s)" by force
  have wf: "wf_facts fs" "distinct s" "og \<notin> fst ` set fs"
    using Cons.prems x by (auto simp: wf_facts_def)
  have "Pair og ` set s \<inter> fs_pairs fs = {}" using wf(3) by (force simp: fs_pairs_mem)
  then have "card (fs_pairs (x # fs)) = card (Pair og ` set s) + card (fs_pairs fs)"
    by (simp add: x card_Un_disjoint)
  also have "card (Pair og ` set s) = length s"
    using wf(2) by (simp add: card_image inj_on_def distinct_card)
  finally show ?case using Cons.IH [OF wf(1)] x by (simp add: fs_len_def)
qed (simp add: fs_len_def)

lemma fs_merge_same_len:
  assumes "wf_facts fs" "fs_len (fs_merge fs other) = fs_len fs"
  shows "fs_pairs other \<subseteq> fs_pairs fs"
proof -
  have "card (fs_pairs fs \<union> fs_pairs other) = card (fs_pairs fs)"
    using assms fs_merge_wf [OF assms(1), of other] by (simp add: fs_len_card fs_merge_pairs)
  then have "fs_pairs fs \<union> fs_pairs other = fs_pairs fs"
    by (metis card_subset_eq finite_Un finite_fs_pairs sup_ge1)
  then show ?thesis by blast
qed

section \<open>Rule sets\<close>

type_synonym rule_set = "(trusted_origins \<times> (nat \<times> rule) list) list"

fun rs_insert :: "nat \<Rightarrow> trusted_origins \<Rightarrow> rule \<Rightarrow> rule_set \<Rightarrow> rule_set" where
  "rs_insert og scope r [] = [(scope, [(og, r)])]"
| "rs_insert og scope r ((scope', rules) # rs) =
     (if scope' = scope then (scope', rules @ [(og, r)]) # rs
      else (scope', rules) # rs_insert og scope r rs)"

text \<open>The rules with their scope and origin, in iteration order.\<close>

definition rs_list :: "rule_set \<Rightarrow> (trusted_origins \<times> nat \<times> rule) list" where
  "rs_list rs = concat (map (\<lambda>(t, rules). map (Pair t) rules) rs)"

definition rs_triples :: "rule_set \<Rightarrow> (trusted_origins \<times> nat \<times> rule) set" where
  "rs_triples rs = set (rs_list rs)"

lemma rs_list_concat:
  "concat (map (\<lambda>(t, rules). concat (map (h t) rules)) rs) = concat (map (\<lambda>(t, x). h t x) (rs_list rs))"
  by (induction rs) (auto simp: rs_list_def comp_def)

definition rs_iter_all :: "rule_set \<Rightarrow> (trusted_origins \<times> rule) list" where
  "rs_iter_all rs = concat (map (\<lambda>(t, rules). map (\<lambda>(og, r). (t, r)) rules) rs)"

lemma rs_triples_simps [simp]:
  "rs_triples [] = {}" "rs_triples ((t, rules) # rs) = Pair t ` set rules \<union> rs_triples rs"
  by (simp_all add: rs_triples_def rs_list_def)

lemma rs_insert_triples: "rs_triples (rs_insert og t r rs) = insert (t, og, r) (rs_triples rs)"
  by (induction og t r rs rule: rs_insert.induct) auto

section \<open>Properties\<close>

text \<open>
  the fact set is a set of facts tagged with their origins: insertion, merging and the scoped
  iterator act on it as insertion, union and selection, and \<open>len\<close> counts it.
\<close>

theorem fact_set_refines_set:
  "fs_pairs (fs_insert og f fs) = insert (og, f) (fs_pairs fs) \<and>
   fs_pairs (fs_merge fs other) = fs_pairs fs \<union> fs_pairs other \<and>
   set (fs_iterator t fs) = {x \<in> fs_pairs fs. trusts t (fst x)} \<and>
   (wf_facts fs \<longrightarrow> fs_len fs = card (fs_pairs fs) \<and> wf_facts (fs_insert og f fs) \<and>
      wf_facts (fs_merge fs other))"
  by (simp add: fs_insert_pairs fs_merge_pairs fs_iterator_set fs_len_card fs_insert_wf fs_merge_wf)

lemma fact_set_refines_set_witness:
  "fs_len (fs_merge [({|0|}, [\<lparr>f_predicate = \<lparr>p_name = 1, p_terms = []\<rparr>\<rparr>])] []) =
     card (fs_pairs (fs_merge [({|0|}, [\<lparr>f_predicate = \<lparr>p_name = 1, p_terms = []\<rparr>\<rparr>])] []))"
proof -
  let ?fs = "[({|0|}, [\<lparr>f_predicate = \<lparr>p_name = 1, p_terms = []\<rparr>\<rparr>])] :: fact_set"
  have "wf_facts ?fs" by (simp add: wf_facts_def)
  then have "wf_facts (fs_merge ?fs [])"
    using fact_set_refines_set [of "{||}" "hd (snd (hd ?fs))" ?fs "[]" default_trusted] by blast
  then show ?thesis
    using fact_set_refines_set [of "{||}" "hd (snd (hd ?fs))" "fs_merge ?fs []" "[]" default_trusted]
    by blast
qed

end
