(* ===== verification/Rules.thy ===== *)
theory Rules
  imports Facts
begin

text \<open>
  Rule application and matching (\<open>Rule::apply\<close>, \<open>find_match\<close>, \<open>check_match_all\<close> of
  \<open>datalog/mod.rs\<close>).  \<open>apply\<close> is a lazy iterator of results; each result depends only on its own
  solution, so the model is the list of results, and a caller that stops early looks at a prefix.
\<close>

section \<open>Expressions of a rule\<close>

fun check_expressions :: "regex \<Rightarrow> extern_funcs \<Rightarrow> expression list \<Rightarrow> bindings \<Rightarrow> tmp_symbols \<Rightarrow>
    (expr_error, bool) outcome" where
  "check_expressions rx externs [] b tmp = Ok True"
| "check_expressions rx externs (e # es) b tmp =
     (case expr_evaluate rx externs e b tmp of
        (Ok t, tmp') \<Rightarrow>
          (case t of
             Bool True \<Rightarrow> check_expressions rx externs es b tmp'
           | Bool False \<Rightarrow> Ok False
           | _ \<Rightarrow> Err InvalidType)
      | (Err e, _) \<Rightarrow> Err e
      | (Panic, _) \<Rightarrow> Panic)"

section \<open>Applying a rule\<close>

fun head_terms :: "bindings \<Rightarrow> dterm list \<Rightarrow> dterm list option" where
  "head_terms b [] = Some []"
| "head_terms b (t # ts) =
     (case (case as_variable t of Some i \<Rightarrow> b i | None \<Rightarrow> Some t) of
        None \<Rightarrow> None
      | Some v \<Rightarrow> map_option ((#) v) (head_terms b ts))"

definition instantiate_head :: "predicate \<Rightarrow> bindings \<Rightarrow> predicate option" where
  "instantiate_head p b = map_option (\<lambda>ts. p\<lparr>p_terms := ts\<rparr>) (head_terms b (p_terms p))"

definition apply_solution :: "regex \<Rightarrow> extern_funcs \<Rightarrow> symbol_table \<Rightarrow> nat \<Rightarrow> rule \<Rightarrow> solution \<Rightarrow>
    (expr_error, sourced) outcome option" where
  "apply_solution rx externs symbols rule_origin r sol =
     (case sol of (og, b) \<Rightarrow>
        (case check_expressions rx externs (r_expressions r) b (tmp_new symbols) of
           Ok False \<Rightarrow> None
         | Ok True \<Rightarrow>
             (case instantiate_head (r_head r) b of
                None \<Rightarrow> None
              | Some p \<Rightarrow> Some (Ok (origin_insert rule_origin og, \<lparr>f_predicate = p\<rparr>)))
         | Err e \<Rightarrow> Some (Err e)
         | Panic \<Rightarrow> Some Panic))"

definition rule_apply :: "regex \<Rightarrow> extern_funcs \<Rightarrow> symbol_table \<Rightarrow> nat \<Rightarrow> rule \<Rightarrow> sourced list \<Rightarrow>
    (expr_error, sourced) outcome list" where
  "rule_apply rx externs symbols rule_origin r facts =
     List.map_filter (apply_solution rx externs symbols rule_origin r) (solutions r facts)"

definition find_match :: "regex \<Rightarrow> extern_funcs \<Rightarrow> symbol_table \<Rightarrow> rule \<Rightarrow> fact_set \<Rightarrow> nat \<Rightarrow>
    trusted_origins \<Rightarrow> (execution, bool) outcome" where
  "find_match rx externs symbols r facts rule_origin scope =
     (case rule_apply rx externs symbols rule_origin r (fs_iterator scope facts) of
        [] \<Rightarrow> Ok False
      | Ok _ # _ \<Rightarrow> Ok True
      | Err e # _ \<Rightarrow> Err (Execution_Expression e)
      | Panic # _ \<Rightarrow> Panic)"

fun match_all_loop :: "regex \<Rightarrow> extern_funcs \<Rightarrow> symbol_table \<Rightarrow> expression list \<Rightarrow> bool \<Rightarrow>
    solution list \<Rightarrow> (execution, bool) outcome" where
  "match_all_loop rx externs symbols es found [] = Ok found"
| "match_all_loop rx externs symbols es found ((og, b) # rest) =
     (case check_expressions rx externs es b (tmp_new symbols) of
        Ok True \<Rightarrow> match_all_loop rx externs symbols es True rest
      | Ok False \<Rightarrow> Ok False
      | Err e \<Rightarrow> Err (Execution_Expression e)
      | Panic \<Rightarrow> Panic)"

definition check_match_all :: "regex \<Rightarrow> extern_funcs \<Rightarrow> symbol_table \<Rightarrow> rule \<Rightarrow> fact_set \<Rightarrow>
    trusted_origins \<Rightarrow> (execution, bool) outcome" where
  "check_match_all rx externs symbols r facts scope =
     match_all_loop rx externs symbols (r_expressions r) False
       (solutions r (fs_iterator scope facts))"

section \<open>Variables of the head\<close>

text \<open>
  \<open>Rule::validate_variables\<close>: the loops remove the variables of the body from those of the head.
  The error message lists the head variables left over, which the model returns.
\<close>

definition unbound_head_vars :: "rule \<Rightarrow> nat list" where
  "unbound_head_vars r =
     filter (\<lambda>v. v \<notin> set (body_vars (r_body r))) (remdups (term_vars (p_terms (r_head r))))"

definition validate_variables :: "rule \<Rightarrow> (nat list, unit) outcome" where
  "validate_variables r = (if unbound_head_vars r = [] then Ok () else Err (unbound_head_vars r))"

section \<open>The consequences of a rule\<close>

definition passes :: "regex \<Rightarrow> extern_funcs \<Rightarrow> symbol_table \<Rightarrow> rule \<Rightarrow> bindings \<Rightarrow> bool" where
  "passes rx externs symbols r b \<longleftrightarrow>
     check_expressions rx externs (r_expressions r) b (tmp_new symbols) = Ok True"

text \<open>The substitutions under which all of the body is in \<open>F\<close>.\<close>

definition body_matches :: "rule \<Rightarrow> sourced set \<Rightarrow> bindings \<Rightarrow> sourced list \<Rightarrow> bool" where
  "body_matches r F b fs \<longleftrightarrow> dom b = set (body_vars (r_body r)) \<and> grounded F b (r_body r) fs"

definition rule_consequences ::
    "regex \<Rightarrow> extern_funcs \<Rightarrow> symbol_table \<Rightarrow> nat \<Rightarrow> rule \<Rightarrow> sourced set \<Rightarrow> sourced set" where
  "rule_consequences rx externs symbols rule_origin r F =
     {(origin_insert rule_origin (origins_of fs), \<lparr>f_predicate = p\<rparr>) | b fs p.
        body_matches r F b fs \<and> passes rx externs symbols r b \<and>
        instantiate_head (r_head r) b = Some p}"

lemma solutions_body_matches:
  "(og, b) \<in> set (solutions r facts) \<longleftrightarrow> (\<exists>fs. body_matches r (set facts) b fs \<and> og = origins_of fs)"
  by (auto simp: solutions_iff body_matches_def)

lemma set_map_filter: "set (List.map_filter f xs) = {y. \<exists>x \<in> set xs. f x = Some y}"
  by (force simp: List.map_filter_def)

lemma apply_solution_Ok:
  "apply_solution rx externs symbols ro r (og, b) = Some (Ok x) \<longleftrightarrow>
     passes rx externs symbols r b \<and>
     (\<exists>p. instantiate_head (r_head r) b = Some p \<and> x = (origin_insert ro og, \<lparr>f_predicate = p\<rparr>))"
  by (auto simp: apply_solution_def passes_def split: outcome.splits bool.splits option.splits)

lemma apply_solution_Err:
  "apply_solution rx externs symbols ro r (og, b) = Some (Err e) \<longleftrightarrow>
     check_expressions rx externs (r_expressions r) b (tmp_new symbols) = Err e"
  by (auto simp: apply_solution_def split: outcome.splits bool.splits option.splits)

lemma rule_apply_Ok:
  "Ok x \<in> set (rule_apply rx externs symbols ro r facts) \<longleftrightarrow>
     x \<in> rule_consequences rx externs symbols ro r (set facts)"
proof -
  have "Ok x \<in> set (rule_apply rx externs symbols ro r facts) \<longleftrightarrow>
      (\<exists>og b. (og, b) \<in> set (solutions r facts) \<and>
        apply_solution rx externs symbols ro r (og, b) = Some (Ok x))"
    by (auto simp: rule_apply_def set_map_filter)
  then show ?thesis
    unfolding solutions_body_matches apply_solution_Ok rule_consequences_def by blast
qed

lemma grounded_mono: "grounded F b ps fs \<Longrightarrow> F \<subseteq> G \<Longrightarrow> grounded G b ps fs"
  unfolding grounded_def by (erule list_all2_mono) auto

lemma grounded_subset: "grounded F b ps fs \<Longrightarrow> set fs \<subseteq> F"
  unfolding grounded_def by (induction ps fs rule: list_all2_induct) auto

lemma grounded_restrict: "grounded F b ps fs \<Longrightarrow> set fs \<subseteq> G \<Longrightarrow> grounded G b ps fs"
  unfolding grounded_def list_all2_conv_all_nth by auto

lemma rule_consequences_mono:
  "F \<subseteq> G \<Longrightarrow> rule_consequences rx externs symbols ro r F \<subseteq> rule_consequences rx externs symbols ro r G"
  unfolding rule_consequences_def body_matches_def using grounded_mono by blast

lemma origins_of_member: "x \<in> set fs \<Longrightarrow> fst x |\<subseteq>| origins_of fs"
  by (induction fs) (auto simp: origin_defs)

lemma trusts_origins_of: "trusts t (origins_of fs) \<longleftrightarrow> (\<forall>x \<in> set fs. trusts t (fst x))"
  by (induction fs) (auto simp: trusts_iff origin_defs)

text \<open>No substitution of the body makes an expression fail.\<close>

definition error_free :: "regex \<Rightarrow> extern_funcs \<Rightarrow> symbol_table \<Rightarrow> rule \<Rightarrow> sourced set \<Rightarrow> bool" where
  "error_free rx externs symbols r F \<longleftrightarrow>
     (\<forall>b fs. body_matches r F b fs \<longrightarrow>
        is_ok (check_expressions rx externs (r_expressions r) b (tmp_new symbols)))"

lemma rule_apply_error_free:
  assumes "error_free rx externs symbols r (set facts)" "y \<in> set (rule_apply rx externs symbols ro r facts)"
  shows "\<exists>x. y = Ok x"
proof -
  obtain og b where sol: "(og, b) \<in> set (solutions r facts)"
    and y: "apply_solution rx externs symbols ro r (og, b) = Some y"
    using assms(2) by (auto simp: rule_apply_def set_map_filter)
  have "is_ok (check_expressions rx externs (r_expressions r) b (tmp_new symbols))"
    using sol assms(1) by (auto simp: solutions_body_matches error_free_def)
  with y show ?thesis
    by (auto simp: apply_solution_def is_ok_iff split: outcome.splits bool.splits option.splits)
qed

lemma match_all_loop_ok:
  "(\<forall>(og, b) \<in> set sols. is_ok (check_expressions rx externs es b (tmp_new symbols))) \<Longrightarrow>
   match_all_loop rx externs symbols es found sols =
     Ok ((found \<or> sols \<noteq> []) \<and>
         (\<forall>(og, b) \<in> set sols. check_expressions rx externs es b (tmp_new symbols) = Ok True))"
proof (induction sols arbitrary: found)
  case (Cons x sols)
  obtain og b where x: "x = (og, b)" by force
  with Cons.prems obtain v where "check_expressions rx externs es b (tmp_new symbols) = Ok v"
    by (auto simp: is_ok_iff)
  with x Cons.IH [of True] Cons.prems show ?case by (cases v) auto
qed simp

section \<open>Properties\<close>

text \<open>
  C16: applying a rule yields exactly its consequences: for every substitution under which the body
  is among the facts and the expressions are true, the instance of the head, with an origin made
  of the rule's block and the origins of all the facts used.
\<close>

theorem rule_apply_consequences:
  "Ok (og, f) \<in> set (rule_apply rx externs symbols ro r facts) \<longleftrightarrow>
     (\<exists>b fs p. body_matches r (set facts) b fs \<and> passes rx externs symbols r b \<and>
        instantiate_head (r_head r) b = Some p \<and>
        f = \<lparr>f_predicate = p\<rparr> \<and> og = origin_insert ro (origins_of fs))"
  unfolding rule_apply_Ok rule_consequences_def by auto

text \<open>
  a query matches when some substitution satisfies it: if no substitution of its body makes
  an expression fail, \<open>find_match\<close> answers whether one passes, using only trusted facts.
\<close>

theorem find_match_correct:
  assumes "error_free rx externs symbols r {x \<in> fs_pairs facts. trusts scope (fst x)}"
    and "p_terms (r_head r) = []"
  shows "find_match rx externs symbols r facts ro scope =
    Ok (\<exists>b fs. body_matches r {x \<in> fs_pairs facts. trusts scope (fst x)} b fs \<and>
          passes rx externs symbols r b)"
proof -
  let ?it = "fs_iterator scope facts" and ?F = "{x \<in> fs_pairs facts. trusts scope (fst x)}"
  let ?res = "rule_apply rx externs symbols ro r ?it"
  have F: "set ?it = ?F" by (rule fs_iterator_set)
  have ok: "\<exists>x. y = Ok x" if "y \<in> set ?res" for y
    by (rule rule_apply_error_free [OF _ that]) (simp add: F assms(1))
  have inst: "instantiate_head (r_head r) b = Some (r_head r)" for b
    using assms(2) by (simp add: instantiate_head_def)
  have "?res \<noteq> [] \<longleftrightarrow> (\<exists>b fs. body_matches r ?F b fs \<and> passes rx externs symbols r b)"
  proof -
    have "?res \<noteq> [] \<longleftrightarrow> (\<exists>x. Ok x \<in> set ?res)"
    proof (cases ?res)
      case (Cons y ys)
      with ok [of y] show ?thesis by auto
    qed simp
    also have "\<dots> \<longleftrightarrow> (\<exists>x. x \<in> rule_consequences rx externs symbols ro r ?F)"
      unfolding rule_apply_Ok F ..
    also have "\<dots> \<longleftrightarrow> (\<exists>b fs. body_matches r ?F b fs \<and> passes rx externs symbols r b)"
      unfolding rule_consequences_def inst by blast
    finally show ?thesis .
  qed
  moreover have "find_match rx externs symbols r facts ro scope = Ok (?res \<noteq> [])"
  proof (cases ?res)
    case (Cons y ys)
    with ok [of y] show ?thesis by (auto simp: find_match_def)
  qed (simp add: find_match_def)
  ultimately show ?thesis by simp
qed

definition example_query :: rule where
  "example_query =
     \<lparr>r_head = \<lparr>p_name = 27, p_terms = []\<rparr>, r_body = [\<lparr>p_name = 1024, p_terms = [Variable 5]\<rparr>],
      r_expressions = [], r_scopes = []\<rparr>"

lemma example_query_no_match: "\<not> body_matches example_query {} b fs"
  by (simp add: body_matches_def grounded_def example_query_def list_all2_Cons1)

lemma find_match_correct_witness:
  "find_match (\<lambda>_. None) (\<lambda>_. None) st_new example_query [] 0 default_trusted = Ok False"
proof -
  have "find_match (\<lambda>_. None) (\<lambda>_. None) st_new example_query [] 0 default_trusted =
    Ok (\<exists>b fs. body_matches example_query {x \<in> fs_pairs []. trusts default_trusted (fst x)} b fs \<and>
          passes (\<lambda>_. None) (\<lambda>_. None) st_new example_query b)"
    by (rule find_match_correct) (simp_all add: error_free_def example_query_no_match, simp add: example_query_def)
  then show ?thesis
    by (simp add: example_query_no_match)
qed

text \<open>
  \<open>check all\<close> holds when the body matches at least once and every match passes the
  expressions, over the trusted facts, if no match makes an expression fail.
\<close>

theorem check_match_all_correct:
  assumes "error_free rx externs symbols r {x \<in> fs_pairs facts. trusts scope (fst x)}"
  shows "check_match_all rx externs symbols r facts scope =
    Ok ((\<exists>b fs. body_matches r {x \<in> fs_pairs facts. trusts scope (fst x)} b fs) \<and>
        (\<forall>b fs. body_matches r {x \<in> fs_pairs facts. trusts scope (fst x)} b fs \<longrightarrow>
           passes rx externs symbols r b))"
proof -
  let ?it = "fs_iterator scope facts"
  have F: "set ?it = {x \<in> fs_pairs facts. trusts scope (fst x)}" by (rule fs_iterator_set)
  have sols: "(og, b) \<in> set (solutions r ?it) \<longleftrightarrow>
      (\<exists>fs. body_matches r {x \<in> fs_pairs facts. trusts scope (fst x)} b fs \<and> og = origins_of fs)" for og b
    unfolding solutions_body_matches F ..
  have "\<forall>(og, b) \<in> set (solutions r ?it). is_ok (check_expressions rx externs (r_expressions r) b (tmp_new symbols))"
    using assms unfolding error_free_def by (clarsimp simp: sols) blast
  note run = match_all_loop_ok [OF this, of False]
  have "solutions r ?it \<noteq> [] \<longleftrightarrow> (\<exists>og b. (og, b) \<in> set (solutions r ?it))"
    by (cases "solutions r ?it") auto
  then have found: "solutions r ?it \<noteq> [] \<longleftrightarrow>
      (\<exists>b fs. body_matches r {x \<in> fs_pairs facts. trusts scope (fst x)} b fs)"
    unfolding sols by blast
  have all: "(\<forall>(og, b) \<in> set (solutions r ?it). check_expressions rx externs (r_expressions r) b (tmp_new symbols) = Ok True) \<longleftrightarrow>
      (\<forall>og b. (og, b) \<in> set (solutions r ?it) \<longrightarrow> passes rx externs symbols r b)"
    unfolding passes_def by blast
  show ?thesis
    unfolding check_match_all_def run found all unfolding sols by (simp, blast)
qed

lemma check_match_all_correct_witness:
  "check_match_all (\<lambda>_. None) (\<lambda>_. None) st_new example_query [] default_trusted = Ok False"
proof -
  have "check_match_all (\<lambda>_. None) (\<lambda>_. None) st_new example_query [] default_trusted =
    Ok ((\<exists>b fs. body_matches example_query {x \<in> fs_pairs []. trusts default_trusted (fst x)} b fs) \<and>
        (\<forall>b fs. body_matches example_query {x \<in> fs_pairs []. trusts default_trusted (fst x)} b fs \<longrightarrow>
           passes (\<lambda>_. None) (\<lambda>_. None) st_new example_query b))"
    by (rule check_match_all_correct) (simp add: error_free_def example_query_no_match)
  then show ?thesis
    by (simp add: example_query_no_match)
qed

end
