(* ===== verification/World.thy ===== *)
theory World
  imports Rules
begin

text \<open>
  \<open>World\<close> (\<open>datalog/mod.rs\<close>): the facts, the rules and the saturation loop
  \<open>run_with_limits\<close>.  The \<open>i\<close>-th reading of the clock is \<open>clock i\<close>, in any unit.  The loop is
  total: each turn that goes on has added a fact and left fewer than \<open>max_facts\<close>.
\<close>

section \<open>State\<close>

record world =
  w_facts :: fact_set
  w_rules :: rule_set
  w_iterations :: nat
  w_externs :: extern_funcs

definition world_new :: world where
  "world_new = \<lparr>w_facts = [], w_rules = [], w_iterations = 0, w_externs = (\<lambda>_. None)\<rparr>"

definition add_fact :: "origin \<Rightarrow> fact \<Rightarrow> world \<Rightarrow> world" where
  "add_fact og f w = w\<lparr>w_facts := fs_insert og f (w_facts w)\<rparr>"

definition add_rule :: "nat \<Rightarrow> trusted_origins \<Rightarrow> rule \<Rightarrow> world \<Rightarrow> world" where
  "add_rule og scope r w = w\<lparr>w_rules := rs_insert og scope r (w_rules w)\<rparr>"

record run_limits =
  max_facts :: nat
  max_iterations :: nat
  max_time :: nat

text \<open>\<open>RunLimits::default\<close>, time in nanoseconds.\<close>

definition default_limits :: run_limits where
  "default_limits = \<lparr>max_facts = 1000, max_iterations = 100, max_time = 1000000\<rparr>"

section \<open>The saturation loop\<close>

fun insert_results :: "fact_set \<Rightarrow> (expr_error, sourced) outcome list \<Rightarrow>
    (execution, fact_set) outcome" where
  "insert_results acc [] = Ok acc"
| "insert_results acc (res # rest) =
     (case res of
        Ok (og, f) \<Rightarrow> insert_results (fs_insert og f acc) rest
      | Err e \<Rightarrow> Err (Execution_Expression e)
      | Panic \<Rightarrow> Panic)"

definition apply_rules :: "regex \<Rightarrow> symbol_table \<Rightarrow> world \<Rightarrow> (expr_error, sourced) outcome list" where
  "apply_rules rx symbols w =
     concat (map (\<lambda>(scope, rules).
       concat (map (\<lambda>(og, r).
         rule_apply rx (w_externs w) symbols og r (fs_iterator scope (w_facts w))) rules)) (w_rules w))"

definition new_facts :: "regex \<Rightarrow> symbol_table \<Rightarrow> world \<Rightarrow> (execution, fact_set) outcome" where
  "new_facts rx symbols w = insert_results [] (apply_rules rx symbols w)"

function run_loop :: "regex \<Rightarrow> (nat \<Rightarrow> nat) \<Rightarrow> nat \<Rightarrow> run_limits \<Rightarrow> symbol_table \<Rightarrow> nat \<Rightarrow> world \<Rightarrow>
    (execution, unit) outcome \<times> world" where
  "run_loop rx clock time_limit limits symbols index w =
     (case new_facts rx symbols w of
        Err e \<Rightarrow> (Err e, w)
      | Panic \<Rightarrow> (Panic, w)
      | Ok new \<Rightarrow>
          (let len = fs_len (w_facts w);
               w' = w\<lparr>w_facts := fs_merge (w_facts w) new\<rparr>;
               finish = (\<lambda>index. w'\<lparr>w_iterations := w_iterations w' + index\<rparr>)
           in if fs_len (fs_merge (w_facts w) new) = len then (Ok (), finish index)
              else if index + 1 = max_iterations limits
              then (Err (Execution_RunLimit TooManyIterations), finish (index + 1))
              else if fs_len (fs_merge (w_facts w) new) \<ge> max_facts limits
              then (Err (Execution_RunLimit TooManyFacts), finish (index + 1))
              else if clock (index + 1) \<ge> time_limit
              then (Err (Execution_RunLimit Timeout), finish (index + 1))
              else run_loop rx clock time_limit limits symbols (index + 1) w'))"
  by pat_completeness auto
termination
proof (relation "measure (\<lambda>(rx, clock, time_limit, limits, symbols, index, w).
    max_facts limits - fs_len (w_facts w))", goal_cases)
  case (2 rx clock time_limit limits symbols index w new len w' finish)
  then show ?case using fs_merge_len [of "w_facts w" new] by auto
qed simp

declare run_loop.simps [simp del]

definition run_with_limits :: "regex \<Rightarrow> (nat \<Rightarrow> nat) \<Rightarrow> symbol_table \<Rightarrow> run_limits \<Rightarrow> world \<Rightarrow>
    (execution, unit) outcome \<times> world" where
  "run_with_limits rx clock symbols limits w =
     run_loop rx clock (clock 0 + max_time limits) limits symbols 0 w"

text \<open>\<open>World::query_rule\<close>, \<open>query_match\<close> and \<open>query_match_all\<close>.\<close>

definition query_rule :: "regex \<Rightarrow> symbol_table \<Rightarrow> rule \<Rightarrow> nat \<Rightarrow> trusted_origins \<Rightarrow> world \<Rightarrow>
    (execution, fact_set) outcome" where
  "query_rule rx symbols r og scope w =
     insert_results [] (rule_apply rx (w_externs w) symbols og r (fs_iterator scope (w_facts w)))"

definition query_match :: "regex \<Rightarrow> symbol_table \<Rightarrow> rule \<Rightarrow> nat \<Rightarrow> trusted_origins \<Rightarrow> world \<Rightarrow>
    (execution, bool) outcome" where
  "query_match rx symbols r og scope w =
     find_match rx (w_externs w) symbols r (w_facts w) og scope"

definition query_match_all :: "regex \<Rightarrow> symbol_table \<Rightarrow> rule \<Rightarrow> trusted_origins \<Rightarrow> world \<Rightarrow>
    (execution, bool) outcome" where
  "query_match_all rx symbols r scope w =
     check_match_all rx (w_externs w) symbols r (w_facts w) scope"

section \<open>The least model\<close>

type_synonym scoped_rule = "trusted_origins \<times> nat \<times> rule"

text \<open>
  The facts that follow from \<open>B\<close> by the rules \<open>R\<close>, where a rule uses only facts all of whose
  origin it trusts.
\<close>

inductive_set derived :: "regex \<Rightarrow> extern_funcs \<Rightarrow> symbol_table \<Rightarrow> scoped_rule set \<Rightarrow> sourced set \<Rightarrow>
    sourced set"
  for rx externs symbols R B where
  derived_base: "x \<in> B \<Longrightarrow> x \<in> derived rx externs symbols R B"
| derived_rule: "(t, ro, r) \<in> R \<Longrightarrow>
    (\<And>x. x \<in> set fs \<Longrightarrow> x \<in> derived rx externs symbols R B) \<Longrightarrow>
    (\<And>x. x \<in> set fs \<Longrightarrow> trusts t (fst x)) \<Longrightarrow>
    body_matches r (set fs) b fs \<Longrightarrow> passes rx externs symbols r b \<Longrightarrow>
    instantiate_head (r_head r) b = Some p \<Longrightarrow>
    (origin_insert ro (origins_of fs), \<lparr>f_predicate = p\<rparr>) \<in> derived rx externs symbols R B"

definition closed_under :: "regex \<Rightarrow> extern_funcs \<Rightarrow> symbol_table \<Rightarrow> scoped_rule set \<Rightarrow> sourced set \<Rightarrow> bool" where
  "closed_under rx externs symbols R F \<longleftrightarrow>
     (\<forall>(t, ro, r) \<in> R. rule_consequences rx externs symbols ro r {x \<in> F. trusts t (fst x)} \<subseteq> F)"

lemma body_matches_own:
  "body_matches r F b fs \<Longrightarrow> body_matches r (set fs) b fs \<and> set fs \<subseteq> F"
  unfolding body_matches_def using grounded_subset grounded_restrict by blast

lemma body_matches_mono: "body_matches r F b fs \<Longrightarrow> F \<subseteq> G \<Longrightarrow> body_matches r G b fs"
  unfolding body_matches_def using grounded_mono by blast

lemma derived_consequences:
  assumes "(t, ro, r) \<in> R" "F \<subseteq> derived rx externs symbols R B" "\<forall>x \<in> F. trusts t (fst x)"
  shows "rule_consequences rx externs symbols ro r F \<subseteq> derived rx externs symbols R B"
proof
  fix x
  assume "x \<in> rule_consequences rx externs symbols ro r F"
  then obtain b fs p where m: "body_matches r F b fs" "passes rx externs symbols r b"
    "instantiate_head (r_head r) b = Some p" and x: "x = (origin_insert ro (origins_of fs), \<lparr>f_predicate = p\<rparr>)"
    by (auto simp: rule_consequences_def)
  from body_matches_own [OF m(1)] have fs: "body_matches r (set fs) b fs" "set fs \<subseteq> F" by blast+
  show "x \<in> derived rx externs symbols R B"
    unfolding x by (rule derived_rule [OF assms(1) _ _ fs(1) m(2,3)]) (use fs(2) assms in blast)+
qed

lemma derived_least:
  assumes "B \<subseteq> F" "closed_under rx externs symbols R F"
  shows "derived rx externs symbols R B \<subseteq> F"
proof
  fix x
  assume "x \<in> derived rx externs symbols R B"
  then show "x \<in> F"
  proof (induction rule: derived.induct)
    case (derived_base x)
    with assms(1) show ?case by blast
  next
    case (derived_rule t ro r fs b p)
    have "body_matches r {x \<in> F. trusts t (fst x)} b fs"
      by (rule body_matches_mono [OF derived_rule.hyps(4)]) (use derived_rule in blast)
    then have "(origin_insert ro (origins_of fs), \<lparr>f_predicate = p\<rparr>)
        \<in> rule_consequences rx externs symbols ro r {x \<in> F. trusts t (fst x)}"
      unfolding rule_consequences_def using derived_rule.hyps(5,6) by blast
    with assms(2) derived_rule.hyps(1) show ?case unfolding closed_under_def by fast
  qed
qed

section \<open>The loop and the least model\<close>

lemma insert_results_Ok:
  "insert_results acc rs = Ok new \<Longrightarrow> fs_pairs new = fs_pairs acc \<union> {x. Ok x \<in> set rs}"
proof (induction rs arbitrary: acc)
  case (Cons res rs)
  then obtain og f where res: "res = Ok (og, f)" by (cases res) auto
  with Cons.IH [of "fs_insert og f acc"] Cons.prems show ?case by (auto simp: fs_insert_pairs)
qed simp

lemma apply_rules_Ok:
  "Ok x \<in> set (apply_rules rx symbols w) \<longleftrightarrow>
     (\<exists>t ro r. (t, ro, r) \<in> rs_triples (w_rules w) \<and>
        x \<in> rule_consequences rx (w_externs w) symbols ro r {y \<in> fs_pairs (w_facts w). trusts t (fst y)})"
proof -
  let ?h = "\<lambda>t (ro, r). rule_apply rx (w_externs w) symbols ro r (fs_iterator t (w_facts w))"
  have "apply_rules rx symbols w = concat (map (\<lambda>(t, y). ?h t y) (rs_list (w_rules w)))"
    unfolding apply_rules_def rs_list_concat [symmetric] ..
  then have "Ok x \<in> set (apply_rules rx symbols w) \<longleftrightarrow>
      (\<exists>z \<in> rs_triples (w_rules w). Ok x \<in> set (case z of (t, y) \<Rightarrow> ?h t y))"
    by (simp add: rs_triples_def)
  then have "Ok x \<in> set (apply_rules rx symbols w) \<longleftrightarrow>
      (\<exists>t ro r. (t, ro, r) \<in> rs_triples (w_rules w) \<and>
        Ok x \<in> set (rule_apply rx (w_externs w) symbols ro r (fs_iterator t (w_facts w))))"
    by (simp add: Bex_def)
  then show ?thesis unfolding rule_apply_Ok fs_iterator_set .
qed

lemma new_facts_pairs:
  assumes "new_facts rx symbols w = Ok new"
  shows "x \<in> fs_pairs new \<longleftrightarrow> (\<exists>t ro r. (t, ro, r) \<in> rs_triples (w_rules w) \<and>
    x \<in> rule_consequences rx (w_externs w) symbols ro r {y \<in> fs_pairs (w_facts w). trusts t (fst y)})"
proof -
  have "fs_pairs new = {x. Ok x \<in> set (apply_rules rx symbols w)}"
    using insert_results_Ok [OF assms [unfolded new_facts_def]] by simp
  then show ?thesis unfolding apply_rules_Ok [symmetric] by blast
qed

abbreviation world_derived :: "regex \<Rightarrow> symbol_table \<Rightarrow> world \<Rightarrow> sourced set" where
  "world_derived rx symbols w \<equiv>
     derived rx (w_externs w) symbols (rs_triples (w_rules w)) (fs_pairs (w_facts w))"

text \<open>What one turn of the loop does to the facts.\<close>

lemma turn_derived:
  assumes "new_facts rx symbols w = Ok new"
  shows "fs_pairs new \<subseteq> world_derived rx symbols w"
proof
  fix x
  assume "x \<in> fs_pairs new"
  then obtain t ro r where r: "(t, ro, r) \<in> rs_triples (w_rules w)"
    and x: "x \<in> rule_consequences rx (w_externs w) symbols ro r {y \<in> fs_pairs (w_facts w). trusts t (fst y)}"
    using new_facts_pairs [OF assms] by blast
  have "rule_consequences rx (w_externs w) symbols ro r {y \<in> fs_pairs (w_facts w). trusts t (fst y)}
      \<subseteq> world_derived rx symbols w"
    by (rule derived_consequences [OF r]) (auto intro: derived_base)
  with x show "x \<in> world_derived rx symbols w" by blast
qed

lemma turn_closed:
  assumes "new_facts rx symbols w = Ok new" "fs_pairs new \<subseteq> fs_pairs (w_facts w)"
  shows "closed_under rx (w_externs w) symbols (rs_triples (w_rules w)) (fs_pairs (w_facts w))"
  unfolding closed_under_def using new_facts_pairs [OF assms(1)] assms(2) by blast

lemma derived_grow:
  assumes "B \<subseteq> C" "C \<subseteq> derived rx externs symbols R B"
  shows "derived rx externs symbols R C = derived rx externs symbols R B"
proof
  have closed: "closed_under rx externs symbols R (derived rx externs symbols R D)" for D
    unfolding closed_under_def
  proof (clarify, goal_cases)
    case (1 t ro r og f)
    have "rule_consequences rx externs symbols ro r {x \<in> derived rx externs symbols R D. trusts t (fst x)}
        \<subseteq> derived rx externs symbols R D"
      by (rule derived_consequences [OF 1(1)]) auto
    with 1(2) show ?case by blast
  qed
  show "derived rx externs symbols R C \<subseteq> derived rx externs symbols R B"
    by (rule derived_least [OF assms(2) closed])
  show "derived rx externs symbols R B \<subseteq> derived rx externs symbols R C"
    by (rule derived_least [OF _ closed]) (use assms(1) in \<open>auto intro: derived_base\<close>)
qed

text \<open>One induction over the loop gives everything that is known at its exit.\<close>

definition exit_ok :: "regex \<Rightarrow> symbol_table \<Rightarrow> run_limits \<Rightarrow> nat \<Rightarrow> world \<Rightarrow>
    (execution, unit) outcome \<Rightarrow> world \<Rightarrow> bool" where
  "exit_ok rx symbols limits index w res w' \<longleftrightarrow>
     w_rules w' = w_rules w \<and> w_externs w' = w_externs w \<and> wf_facts (w_facts w') \<and>
     fs_pairs (w_facts w) \<subseteq> fs_pairs (w_facts w') \<and>
     fs_pairs (w_facts w') \<subseteq> world_derived rx symbols w \<and>
     (res = Ok () \<longrightarrow> fs_pairs (w_facts w') = world_derived rx symbols w) \<and>
     (res = Ok () \<or> (\<exists>l. res = Err (Execution_RunLimit l)) \<longrightarrow>
        w_iterations w' \<le> w_iterations w + index + (max_facts limits - fs_len (w_facts w)) + 1 \<and>
        (index < max_iterations limits \<longrightarrow> w_iterations w' \<le> w_iterations w + max_iterations limits))"

lemma insert_results_Err: "insert_results acc rs = Err e \<Longrightarrow> \<exists>x. e = Execution_Expression x"
proof (induction rs arbitrary: acc)
  case (Cons res rs)
  then show ?case by (cases res) auto
qed simp

lemma run_loop_exit:
  assumes "run_loop rx clock time_limit limits symbols index w = (res, w')" "wf_facts (w_facts w)"
  shows "exit_ok rx symbols limits index w res w'"
  using assms
proof (induction rx clock time_limit limits symbols index w rule: run_loop.induct)
  case (1 rx clock time_limit limits symbols index w)
  note unf = run_loop.simps [of rx clock time_limit limits symbols index w]
  have base: "fs_pairs (w_facts w) \<subseteq> world_derived rx symbols w" by (auto intro: derived_base)
  show ?case
  proof (cases "new_facts rx symbols w")
    case (Err e)
    have "\<not> (\<exists>l. e = Execution_RunLimit l)"
      using insert_results_Err [OF Err [unfolded new_facts_def]] by auto
    with Err 1(2,3) base unf show ?thesis by (auto simp: exit_ok_def)
  next
    case Panic
    with 1(2,3) base unf show ?thesis by (auto simp: exit_ok_def)
  next
    case (Ok new)
    let ?m = "fs_merge (w_facts w) new"
    let ?w = "w\<lparr>w_facts := ?m\<rparr>"
    have grown: "fs_pairs (w_facts w) \<subseteq> fs_pairs ?m" "fs_pairs ?m \<subseteq> world_derived rx symbols w"
      using turn_derived [OF Ok] base by (auto simp: fs_merge_pairs)
    have same: "world_derived rx symbols ?w = world_derived rx symbols w"
      using derived_grow [OF grown] by simp
    have wf: "wf_facts ?m" using 1(3) by (rule fs_merge_wf)
    have len: "fs_len (w_facts w) \<le> fs_len ?m" by (rule fs_merge_len)
    consider (fixed) "fs_len ?m = fs_len (w_facts w)"
      | (stopped) l where "fs_len ?m \<noteq> fs_len (w_facts w)" "res = Err (Execution_RunLimit l)"
          "w' = ?w\<lparr>w_iterations := w_iterations w + (index + 1)\<rparr>"
      | (again) "fs_len ?m \<noteq> fs_len (w_facts w)" "index + 1 \<noteq> max_iterations limits"
          "fs_len ?m < max_facts limits" "\<not> clock (index + 1) \<ge> time_limit"
      using 1(2) unf Ok by (auto simp: Let_def not_le split: if_splits)
    then show ?thesis
    proof cases
      case fixed
      then have "closed_under rx (w_externs w) symbols (rs_triples (w_rules w)) (fs_pairs (w_facts w))"
        using turn_closed [OF Ok] fs_merge_same_len [OF 1(3)] by simp
      then have "world_derived rx symbols w \<subseteq> fs_pairs (w_facts w)" by (rule derived_least [OF subset_refl])
      moreover have "res = Ok ()" "w' = ?w\<lparr>w_iterations := w_iterations w + index\<rparr>"
        using 1(2) unf Ok fixed by (auto simp: Let_def)
      ultimately show ?thesis using grown wf by (auto simp: exit_ok_def)
    next
      case stopped
      with grown wf show ?thesis by (simp add: exit_ok_def)
    next
      case again
      have step: "run_loop rx clock time_limit limits symbols (index + 1) ?w = (res, w')"
        using 1(2) unf Ok again by (simp add: Let_def)
      have "exit_ok rx symbols limits (index + 1) ?w res w'"
        by (rule 1(1) [OF Ok refl refl refl]) (use again step wf in simp_all)
      moreover have "max_facts limits - fs_len ?m + 1 \<le> max_facts limits - fs_len (w_facts w)"
        using again len by linarith
      ultimately show ?thesis
        using grown again unfolding exit_ok_def same by auto
    qed
  qed
qed

lemma run_with_limits_exit:
  "run_with_limits rx clock symbols limits w = (res, w') \<Longrightarrow> wf_facts (w_facts w) \<Longrightarrow>
     exit_ok rx symbols limits 0 w res w'"
  unfolding run_with_limits_def by (rule run_loop_exit)

lemma run_without_rules:
  "w_rules w = [] \<Longrightarrow> run_with_limits rx clock symbols limits w = (Ok (), w)"
  by (simp add: run_with_limits_def run_loop.simps new_facts_def apply_rules_def fs_merge_def)

section \<open>Origins confine influence\<close>

text \<open>Everything in the trusted part follows from the trusted part.\<close>

definition visible :: "trusted_origins \<Rightarrow> sourced set \<Rightarrow> sourced set" where
  "visible T F = {x \<in> F. trusts T (fst x)}"

definition rules_of :: "trusted_origins \<Rightarrow> scoped_rule set \<Rightarrow> scoped_rule set" where
  "rules_of T R = {(t, ro, r) \<in> R. ro |\<in>| to_inner T}"

lemma derived_mono:
  assumes "R \<subseteq> S" "B \<subseteq> C"
  shows "derived rx externs symbols R B \<subseteq> derived rx externs symbols S C"
proof
  fix x
  assume "x \<in> derived rx externs symbols R B"
  then show "x \<in> derived rx externs symbols S C"
  proof (induction rule: derived.induct)
    case (derived_base x)
    with assms show ?case by (auto intro: derived.derived_base)
  next
    case (derived_rule t ro r fs b p)
    show ?case
      by (rule derived.derived_rule [of t ro r]) (use derived_rule assms in auto)
  qed
qed

lemma derived_confined:
  assumes "x \<in> derived rx externs symbols R B" "trusts T (fst x)"
  shows "x \<in> derived rx externs symbols (rules_of T R) (visible T B)"
  using assms
proof (induction rule: derived.induct)
  case (derived_base x)
  then show ?case by (auto intro: derived.derived_base simp: visible_def)
next
  case (derived_rule t ro r fs b p)
  from derived_rule.prems have "ro |\<in>| to_inner T" "\<forall>x \<in> set fs. trusts T (fst x)"
    by (auto simp: trusts_origins_of)
  with derived_rule.hyps(1) derived_rule.IH show ?case
    by (intro derived.derived_rule [OF _ _ derived_rule.hyps(3-6)]) (auto simp: rules_of_def)
qed

lemma visible_derived:
  "visible T (derived rx externs symbols R B) =
     visible T (derived rx externs symbols (rules_of T R) (visible T B))"
proof
  show "visible T (derived rx externs symbols R B) \<subseteq>
      visible T (derived rx externs symbols (rules_of T R) (visible T B))"
    unfolding visible_def [of T "derived rx externs symbols R B"]
      visible_def [of T "derived rx externs symbols (rules_of T R) (visible T B)"]
    using derived_confined by blast
  have "derived rx externs symbols (rules_of T R) (visible T B) \<subseteq> derived rx externs symbols R B"
    by (rule derived_mono) (auto simp: rules_of_def visible_def)
  then show "visible T (derived rx externs symbols (rules_of T R) (visible T B)) \<subseteq>
      visible T (derived rx externs symbols R B)"
    unfolding visible_def by blast
qed

text \<open>What a trusted scope sees after a run is determined by what it trusts before.\<close>

lemma visible_after_run:
  assumes "wf_facts (w_facts w)" "run_with_limits rx clock symbols limits w = (Ok (), w')"
  shows "visible T (fs_pairs (w_facts w')) =
    visible T (derived rx (w_externs w) symbols (rules_of T (rs_triples (w_rules w)))
      (visible T (fs_pairs (w_facts w))))"
proof -
  have "fs_pairs (w_facts w') = world_derived rx symbols w"
    using run_with_limits_exit [OF assms(2,1)] by (simp add: exit_ok_def)
  then show ?thesis
    using visible_derived [of T rx "w_externs w" symbols "rs_triples (w_rules w)" "fs_pairs (w_facts w)"]
    by simp
qed

section \<open>An example\<close>

text \<open>One fact of the authority block, and its rule that copies it under another name.\<close>

definition example_copy :: world where
  "example_copy =
     \<lparr>w_facts = [({|0|}, [\<lparr>f_predicate = \<lparr>p_name = 4, p_terms = [Bool True]\<rparr>\<rparr>])],
      w_rules = [(default_trusted, [(0,
        \<lparr>r_head = \<lparr>p_name = 5, p_terms = [Variable 0]\<rparr>, r_body = [\<lparr>p_name = 4, p_terms = [Variable 0]\<rparr>],
         r_expressions = [], r_scopes = []\<rparr>)])],
      w_iterations = 0, w_externs = (\<lambda>_. None)\<rparr>"

definition example_copied :: world where
  "example_copied =
     example_copy\<lparr>w_facts := [({|0|}, [\<lparr>f_predicate = \<lparr>p_name = 4, p_terms = [Bool True]\<rparr>\<rparr>,
        \<lparr>f_predicate = \<lparr>p_name = 5, p_terms = [Bool True]\<rparr>\<rparr>])], w_iterations := 1\<rparr>"

lemmas solve_defs = rule_apply_def fs_iterator_def trusts_def origin_defs default_trusted_def solutions_def
  List.map_filter_def variables_set_def current_facts_def explore_def unify_fact_def match_preds_def
  mv_new_def mv_insert_def mv_complete_def mv_is_complete_def apply_solution_def instantiate_head_def body_vars_def

lemma example_copy_applied:
  "apply_rules (\<lambda>_. None) st_new example_copy = [Ok ({|0|}, \<lparr>f_predicate = \<lparr>p_name = 5, p_terms = [Bool True]\<rparr>\<rparr>)]"
  "apply_rules (\<lambda>_. None) st_new (example_copy\<lparr>w_facts := w_facts example_copied\<rparr>) =
     [Ok ({|0|}, \<lparr>f_predicate = \<lparr>p_name = 5, p_terms = [Bool True]\<rparr>\<rparr>)]"
  by (simp_all add: apply_rules_def example_copy_def example_copied_def solve_defs)

lemma example_copy_run:
  "run_with_limits (\<lambda>_. None) (\<lambda>_. 0) st_new default_limits example_copy = (Ok (), example_copied)"
proof -
  let ?new = "[({|0|}, [\<lparr>f_predicate = \<lparr>p_name = 5, p_terms = [Bool True]\<rparr>\<rparr>])]"
  let ?w = "example_copy\<lparr>w_facts := w_facts example_copied\<rparr>"
  have new: "new_facts (\<lambda>_. None) st_new example_copy = Ok ?new" "new_facts (\<lambda>_. None) st_new ?w = Ok ?new"
    by (simp_all add: new_facts_def example_copy_applied)
  have merge: "fs_merge (w_facts example_copy) ?new = w_facts example_copied"
    "fs_merge (w_facts example_copied) ?new = w_facts example_copied"
    "fs_len (w_facts example_copied) = 2" "fs_len (w_facts example_copy) = 1"
    by (simp_all add: example_copy_def example_copied_def fs_merge_def hash_insert_def fs_len_def)
  have it: "w_iterations example_copy = 0" and fin: "?w\<lparr>w_iterations := Suc 0\<rparr> = example_copied"
    by (simp_all add: example_copy_def example_copied_def)
  have "run_loop (\<lambda>_. None) (\<lambda>_. 0) 1000000 default_limits st_new 1 ?w = (Ok (), example_copied)"
    by (subst run_loop.simps) (simp add: new merge fin it Let_def)
  then show ?thesis
    unfolding run_with_limits_def
    by (subst run_loop.simps) (simp add: new merge Let_def default_limits_def)
qed

lemma example_copy_wf: "wf_facts (w_facts example_copy)"
  by (simp add: example_copy_def wf_facts_def)

lemma example_copy_derived: "world_derived (\<lambda>_. None) st_new example_copy = fs_pairs (w_facts example_copied)"
  using run_with_limits_exit [OF example_copy_run example_copy_wf] by (simp add: exit_ok_def)

section \<open>Properties\<close>

text \<open>
  C5: a run that ends without error has computed the least model: the facts, with their origins,
  are exactly those that follow from the initial facts by the rules, each rule using only facts
  whose whole origin it trusts.
\<close>

theorem run_computes_least_model:
  assumes "wf_facts (w_facts w)" "run_with_limits rx clock symbols limits w = (Ok (), w')"
  shows "fs_pairs (w_facts w') =
    derived rx (w_externs w) symbols (rs_triples (w_rules w)) (fs_pairs (w_facts w))"
  using run_with_limits_exit [OF assms(2,1)] by (simp add: exit_ok_def)

lemma run_computes_least_model_witness:
  "({|0|}, \<lparr>f_predicate = \<lparr>p_name = 5, p_terms = [Bool True]\<rparr>\<rparr>) \<in>
     derived (\<lambda>_. None) (w_externs example_copy) st_new (rs_triples (w_rules example_copy)) (fs_pairs (w_facts example_copy))"
  unfolding run_computes_least_model [OF example_copy_wf example_copy_run, symmetric]
  by (simp add: example_copied_def)

text \<open>
  C31: a run never forgets and never invents: however it ends, on success, on a limit or on an
  expression error, the facts it leaves contain the initial ones and all follow from them, and
  the rules are untouched.
\<close>

theorem run_sound:
  assumes "wf_facts (w_facts w)" "run_with_limits rx clock symbols limits w = (res, w')"
  shows "fs_pairs (w_facts w) \<subseteq> fs_pairs (w_facts w') \<and>
    fs_pairs (w_facts w') \<subseteq>
      derived rx (w_externs w) symbols (rs_triples (w_rules w)) (fs_pairs (w_facts w)) \<and>
    w_rules w' = w_rules w \<and> wf_facts (w_facts w')"
  using run_with_limits_exit [OF assms(2,1)] by (simp add: exit_ok_def)

lemma run_sound_witness:
  "fs_pairs (w_facts example_copy) \<subseteq> fs_pairs (w_facts example_copied) \<and> wf_facts (w_facts example_copied)"
  using run_sound [OF example_copy_wf example_copy_run] by blast

text \<open>
  the run is bounded by its limits alone, whatever the clock says: the number of turns it
  records is at most \<open>max_iterations\<close> when that limit is positive, and at most one more than the
  room left for facts even when it is zero.
\<close>

theorem run_bounded:
  assumes "wf_facts (w_facts w)" "run_with_limits rx clock symbols limits w = (res, w')"
    and "res = Ok () \<or> (\<exists>l. res = Err (Execution_RunLimit l))"
  shows "w_iterations w' \<le> w_iterations w + (max_facts limits - fs_len (w_facts w)) + 1 \<and>
    (0 < max_iterations limits \<longrightarrow> w_iterations w' \<le> w_iterations w + max_iterations limits)"
  using run_with_limits_exit [OF assms(2,1)] assms(3) by (simp add: exit_ok_def)

lemma run_bounded_witness:
  "w_iterations example_copied \<le> w_iterations example_copy + max_iterations default_limits"
  using run_bounded [OF example_copy_wf example_copy_run] by (simp add: default_limits_def)

text \<open>
  C2: origins confine influence.  Two runs that succeed and start with the same facts of trusted origin and the
  same rules of trusted blocks end with the same facts of trusted origin: facts and rules of other
  blocks, however many, cannot add or remove anything a check with this scope sees.
\<close>

theorem untrusted_blocks_have_no_influence:
  assumes "wf_facts (w_facts w1)" "run_with_limits rx clock1 symbols limits1 w1 = (Ok (), w1')"
    and "wf_facts (w_facts w2)" "run_with_limits rx clock2 symbols limits2 w2 = (Ok (), w2')"
    and "w_externs w1 = w_externs w2"
    and "visible T (fs_pairs (w_facts w1)) = visible T (fs_pairs (w_facts w2))"
    and "rules_of T (rs_triples (w_rules w1)) = rules_of T (rs_triples (w_rules w2))"
  shows "visible T (fs_pairs (w_facts w1')) = visible T (fs_pairs (w_facts w2'))"
  by (simp only: visible_after_run [OF assms(1,2)] visible_after_run [OF assms(3,4)] assms(5-7))

definition example_intruder :: world where
  "example_intruder =
     world_new\<lparr>w_facts := [({|1|}, [\<lparr>f_predicate = \<lparr>p_name = 4, p_terms = []\<rparr>\<rparr>])]\<rparr>"

lemma untrusted_blocks_have_no_influence_witness:
  "visible default_trusted (fs_pairs (w_facts world_new)) =
   visible default_trusted (fs_pairs (w_facts example_intruder))"
proof (rule untrusted_blocks_have_no_influence)
  show "run_with_limits (\<lambda>_. None) (\<lambda>n. n) st_new default_limits world_new = (Ok (), world_new)"
    "run_with_limits (\<lambda>_. None) (\<lambda>n. n) st_new default_limits example_intruder = (Ok (), example_intruder)"
    by (simp_all add: run_without_rules world_new_def example_intruder_def)
  show "visible default_trusted (fs_pairs (w_facts world_new)) =
      visible default_trusted (fs_pairs (w_facts example_intruder))"
    by (auto simp: visible_def world_new_def example_intruder_def trusts_iff default_trusted_mem)
qed (simp_all add: world_new_def example_intruder_def wf_facts_def)

end
