(* ===== verification/Saturation.thy ===== *)
theory Saturation
  imports World
begin

text \<open>
  Saturation ends.  Heads only reuse the terms of facts and of rules, so the least model is finite,
  and the loop reaches it when its limits leave room for it.
\<close>

section \<open>The least model is finite\<close>

definition fact_terms :: "sourced set \<Rightarrow> dterm set" where
  "fact_terms B = (\<Union>x \<in> B. set (p_terms (f_predicate (snd x))))"

definition head_constants :: "scoped_rule set \<Rightarrow> dterm set" where
  "head_constants R = (\<Union>(t, ro, r) \<in> R. set (p_terms (r_head r)))"

definition shapes :: "scoped_rule set \<Rightarrow> sourced set \<Rightarrow> (nat \<times> nat) set" where
  "shapes R B =
     (\<lambda>x. (p_name (f_predicate (snd x)), length (p_terms (f_predicate (snd x))))) ` B \<union>
     (\<lambda>(t, ro, r). (p_name (r_head r), length (p_terms (r_head r)))) ` R"

definition blocks_of :: "scoped_rule set \<Rightarrow> sourced set \<Rightarrow> nat set" where
  "blocks_of R B = (\<Union>x \<in> B. fset (fst x)) \<union> (\<lambda>(t, ro, r). ro) ` R"

text \<open>The facts that can be written with these blocks, these names and arities, and these terms.\<close>

definition universe :: "scoped_rule set \<Rightarrow> sourced set \<Rightarrow> sourced set" where
  "universe R B =
     {(og, f). fset og \<subseteq> blocks_of R B \<and>
        (p_name (f_predicate f), length (p_terms (f_predicate f))) \<in> shapes R B \<and>
        set (p_terms (f_predicate f)) \<subseteq> fact_terms B \<union> head_constants R}"

lemma finite_universe:
  assumes "finite R" "finite B"
  shows "finite (universe R B)"
proof -
  let ?T = "fact_terms B \<union> head_constants R"
  have T: "finite ?T" using assms by (auto simp: fact_terms_def head_constants_def)
  have S: "finite (shapes R B)" using assms by (simp add: shapes_def)
  have O: "finite (blocks_of R B)" using assms by (simp add: blocks_of_def)
  let ?F = "\<Union>(n, l) \<in> shapes R B. (\<lambda>ts. \<lparr>f_predicate = \<lparr>p_name = n, p_terms = ts\<rparr>\<rparr>) ` {ts. set ts \<subseteq> ?T \<and> length ts = l}"
  have "finite ?F" using S finite_lists_length_eq [OF T] by auto
  moreover have "finite {og. fset og \<subseteq> blocks_of R B}"
  proof (rule finite_imageD [of fset])
    show "finite (fset ` {og. fset og \<subseteq> blocks_of R B})"
      by (rule finite_subset [OF _ finite_Pow_iff [THEN iffD2, OF O]]) auto
  qed (auto simp: inj_on_def fset_inject)
  ultimately have fin: "finite ({og. fset og \<subseteq> blocks_of R B} \<times> ?F)" by (rule finite_cartesian_product [rotated])
  show ?thesis
  proof (rule finite_subset [OF _ fin], rule subsetI)
    fix x assume x: "x \<in> universe R B"
    obtain og n ts where e: "x = (og, \<lparr>f_predicate = \<lparr>p_name = n, p_terms = ts\<rparr>\<rparr>)"
      by (metis fact.cases predicate.cases prod.exhaust)
    with x have "fset og \<subseteq> blocks_of R B" "(n, length ts) \<in> shapes R B" "set ts \<subseteq> ?T"
      by (auto simp: universe_def)
    then show "x \<in> {og. fset og \<subseteq> blocks_of R B} \<times> ?F" unfolding e by auto
  qed
qed

lemma head_terms_values:
  "head_terms b ts = Some us \<Longrightarrow> length us = length ts \<and> set us \<subseteq> set ts \<union> ran b"
proof (induction ts arbitrary: us)
  case (Cons t ts)
  then show ?case by (cases "as_variable t") (auto simp: ran_def split: option.splits)
qed simp

lemma instance_term_value: "instance_term b p t \<Longrightarrow> p = Variable k \<Longrightarrow> b k = Some t"
  by simp

lemma list_all2_member: "list_all2 P xs ys \<Longrightarrow> x \<in> set xs \<Longrightarrow> \<exists>y \<in> set ys. P x y"
  by (induction rule: list_all2_induct) auto

lemma bound_in_facts:
  assumes "body_matches r F b fs"
  shows "ran b \<subseteq> fact_terms (set fs)"
proof
  fix v assume "v \<in> ran b"
  then obtain k where k: "b k = Some v" by (auto simp: ran_def)
  with assms obtain p where p: "p \<in> set (r_body r)" "Variable k \<in> set (p_terms p)"
    by (auto simp: body_matches_def body_vars_def term_vars_mem dom_def set_eq_iff)
  from assms p(1) obtain x where x: "x \<in> set fs" "instance_of b p (snd x)"
    unfolding body_matches_def grounded_def by (blast dest: list_all2_member)
  then have "list_all2 (instance_term b) (p_terms p) (p_terms (f_predicate (snd x)))" by (simp add: instance_of_def)
  with p(2) obtain t where "t \<in> set (p_terms (f_predicate (snd x)))" "instance_term b (Variable k) t"
    by (blast dest: list_all2_member)
  with k x(1) show "v \<in> fact_terms (set fs)" by (auto simp: fact_terms_def)
qed

lemma origins_of_bound: "\<forall>x \<in> set fs. fset (fst x) \<subseteq> M \<Longrightarrow> fset (origins_of fs) \<subseteq> M"
  by (induction fs) (auto simp: origin_defs)

lemma derived_universe: "derived rx externs symbols R B \<subseteq> universe R B"
proof
  fix x assume "x \<in> derived rx externs symbols R B"
  then show "x \<in> universe R B"
  proof (induction rule: derived.induct)
    case (derived_base x)
    then show ?case
      by (cases x) (force simp: universe_def blocks_of_def shapes_def fact_terms_def)
  next
    case (derived_rule t ro r fs b p)
    obtain ts where ts: "head_terms b (p_terms (r_head r)) = Some ts" "p = (r_head r)\<lparr>p_terms := ts\<rparr>"
      using derived_rule.hyps(6) by (auto simp: instantiate_head_def)
    have vals: "length ts = length (p_terms (r_head r))" "set ts \<subseteq> set (p_terms (r_head r)) \<union> ran b"
      using head_terms_values [OF ts(1)] by blast+
    have "ran b \<subseteq> fact_terms B \<union> head_constants R"
      using bound_in_facts [OF derived_rule.hyps(4)] derived_rule.IH
      by (fastforce simp: universe_def fact_terms_def [of "set fs"])
    moreover have "set (p_terms (r_head r)) \<subseteq> head_constants R"
      using derived_rule.hyps(1) by (force simp: head_constants_def)
    moreover have "fset (origins_of fs) \<subseteq> blocks_of R B"
      by (rule origins_of_bound) (use derived_rule.IH in \<open>force simp: universe_def\<close>)
    moreover have "ro \<in> blocks_of R B" using derived_rule.hyps(1) by (force simp: blocks_of_def)
    moreover have "(p_name p, length (p_terms p)) \<in> shapes R B"
      using derived_rule.hyps(1) vals(1) by (force simp: ts(2) shapes_def)
    ultimately show ?case using vals(2) by (auto simp: universe_def ts(2) origin_defs)
  qed
qed

lemma finite_derived: "finite R \<Longrightarrow> finite B \<Longrightarrow> finite (derived rx externs symbols R B)"
  by (rule finite_subset [OF derived_universe finite_universe])

lemma finite_world_derived [simp]: "finite (world_derived rx symbols w)"
  by (rule finite_derived) (simp_all add: rs_triples_def fs_pairs_def)

section \<open>The loop reaches it\<close>

definition errors_excluded :: "regex \<Rightarrow> symbol_table \<Rightarrow> world \<Rightarrow> bool" where
  "errors_excluded rx symbols w \<longleftrightarrow>
     (\<forall>(t, ro, r) \<in> rs_triples (w_rules w).
        error_free rx (w_externs w) symbols r {x \<in> world_derived rx symbols w. trusts t (fst x)})"

definition room :: "regex \<Rightarrow> symbol_table \<Rightarrow> run_limits \<Rightarrow> nat \<Rightarrow> world \<Rightarrow> bool" where
  "room rx symbols limits index w \<longleftrightarrow>
     card (world_derived rx symbols w) < max_facts limits \<and>
     (max_iterations limits = 0 \<or>
        index + (card (world_derived rx symbols w) - fs_len (w_facts w)) < max_iterations limits)"

lemma error_free_mono: "error_free rx externs symbols r G \<Longrightarrow> F \<subseteq> G \<Longrightarrow> error_free rx externs symbols r F"
  unfolding error_free_def using body_matches_mono by blast

lemma insert_results_ok: "(\<forall>y \<in> set rs. \<exists>x. y = Ok x) \<Longrightarrow> \<exists>new. insert_results acc rs = Ok new"
proof (induction rs arbitrary: acc)
  case (Cons y rs)
  then obtain og f where "y = Ok (og, f)" by force
  with Cons show ?case by simp
qed simp

lemma new_facts_ok:
  assumes "errors_excluded rx symbols w"
  shows "\<exists>new. new_facts rx symbols w = Ok new"
  unfolding new_facts_def
proof (rule insert_results_ok, rule ballI)
  fix y assume "y \<in> set (apply_rules rx symbols w)"
  then obtain t og r where r: "(t, og, r) \<in> rs_triples (w_rules w)"
    and y: "y \<in> set (rule_apply rx (w_externs w) symbols og r (fs_iterator t (w_facts w)))"
    by (fastforce simp: apply_rules_def rs_triples_def rs_list_def)
  from assms r have "error_free rx (w_externs w) symbols r {x \<in> world_derived rx symbols w. trusts t (fst x)}"
    by (auto simp: errors_excluded_def)
  then have "error_free rx (w_externs w) symbols r (set (fs_iterator t (w_facts w)))"
    by (rule error_free_mono) (auto simp: fs_iterator_set intro: derived_base)
  from rule_apply_error_free [OF this y] show "\<exists>x. y = Ok x" .
qed

lemma len_below: "wf_facts fs \<Longrightarrow> fs_pairs fs \<subseteq> D \<Longrightarrow> finite D \<Longrightarrow> fs_len fs \<le> card D"
  by (simp add: fs_len_card card_mono)

text \<open>One turn that adds a fact keeps the room, and what a turn may stop on is excluded by it.\<close>

lemma turn_room:
  assumes "new_facts rx symbols w = Ok new" "wf_facts (w_facts w)" "room rx symbols limits index w"
    and "fs_len (fs_merge (w_facts w) new) \<noteq> fs_len (w_facts w)"
  shows "room rx symbols limits (index + 1) (w\<lparr>w_facts := fs_merge (w_facts w) new\<rparr>)"
    "world_derived rx symbols (w\<lparr>w_facts := fs_merge (w_facts w) new\<rparr>) = world_derived rx symbols w"
    "fs_len (fs_merge (w_facts w) new) < max_facts limits" "index + 1 \<noteq> max_iterations limits"
proof -
  let ?m = "fs_merge (w_facts w) new"
  have grown: "fs_pairs (w_facts w) \<subseteq> fs_pairs ?m" "fs_pairs ?m \<subseteq> world_derived rx symbols w"
    using turn_derived [OF assms(1)] by (auto simp: fs_merge_pairs intro: derived_base)
  from derived_grow [OF grown]
  show same: "world_derived rx symbols (w\<lparr>w_facts := ?m\<rparr>) = world_derived rx symbols w" by simp
  have len: "fs_len ?m \<le> card (world_derived rx symbols w)"
    by (rule len_below [OF fs_merge_wf [OF assms(2)] grown(2)]) simp
  have more: "fs_len (w_facts w) < fs_len ?m" using assms(4) fs_merge_len [of "w_facts w" new] by simp
  with len assms(3) same show "room rx symbols limits (index + 1) (w\<lparr>w_facts := ?m\<rparr>)"
    "fs_len ?m < max_facts limits" "index + 1 \<noteq> max_iterations limits"
    by (auto simp: room_def)
qed

lemma run_loop_completes:
  assumes "wf_facts (w_facts w)" "room rx symbols limits index w" "\<forall>i. clock i < time_limit"
    and "run_loop rx clock time_limit limits symbols index w = (res, w')"
  shows "(\<forall>l. res \<noteq> Err (Execution_RunLimit l)) \<and> (errors_excluded rx symbols w \<longrightarrow> res = Ok ())"
  using assms
proof (induction rx clock time_limit limits symbols index w rule: run_loop.induct)
  case (1 rx clock time_limit limits symbols index w)
  note unf = run_loop.simps [of rx clock time_limit limits symbols index w]
  show ?case
  proof (cases "new_facts rx symbols w")
    case (Ok new)
    let ?w = "w\<lparr>w_facts := fs_merge (w_facts w) new\<rparr>"
    show ?thesis
    proof (cases "fs_len (fs_merge (w_facts w) new) = fs_len (w_facts w)")
      case True
      with 1(5) unf Ok show ?thesis by (auto simp: Let_def)
    next
      case False
      note turn = turn_room [OF Ok 1(2,3) False]
      have time: "\<not> time_limit \<le> clock (index + 1)" using 1(4) by (simp add: not_le)
      have step: "run_loop rx clock time_limit limits symbols (index + 1) ?w = (res, w')"
        using 1(5) unf Ok False turn(3,4) time by (simp add: Let_def)
      have "(\<forall>l. res \<noteq> Err (Execution_RunLimit l)) \<and> (errors_excluded rx symbols ?w \<longrightarrow> res = Ok ())"
        by (rule 1(1) [OF Ok refl refl refl False])
          (use turn time step 1(4) fs_merge_wf [OF 1(2)] in simp_all)
      moreover have "errors_excluded rx symbols ?w = errors_excluded rx symbols w"
        using turn(2) by (simp add: errors_excluded_def)
      ultimately show ?thesis by simp
    qed
  next
    case (Err e)
    then have "\<not> errors_excluded rx symbols w" using new_facts_ok by fastforce
    moreover have "\<not> (\<exists>l. e = Execution_RunLimit l)"
      using insert_results_Err [OF Err [unfolded new_facts_def]] by auto
    ultimately show ?thesis using 1(5) unf Err by auto
  next
    case Panic
    then have "\<not> errors_excluded rx symbols w" using new_facts_ok by fastforce
    with 1(5) unf Panic show ?thesis by auto
  qed
qed

section \<open>Properties\<close>

text \<open>
  C8: Saturation ends.  The facts that follow from a world are finitely many.  When the limits have
  room for them all and the clock does not run out, a run never stops on a limit, and it succeeds
  when no expression fails on the facts its rule trusts.
\<close>

theorem saturation_completes:
  assumes "wf_facts (w_facts w)" "run_with_limits rx clock symbols limits w = (res, w')"
    and "card (derived rx (w_externs w) symbols (rs_triples (w_rules w)) (fs_pairs (w_facts w))) < max_facts limits"
    and "max_iterations limits = 0 \<or>
      card (derived rx (w_externs w) symbols (rs_triples (w_rules w)) (fs_pairs (w_facts w)))
        < max_iterations limits + fs_len (w_facts w)"
    and "\<forall>i. clock i < clock 0 + max_time limits"
  shows "finite (derived rx (w_externs w) symbols (rs_triples (w_rules w)) (fs_pairs (w_facts w))) \<and>
    (\<forall>l. res \<noteq> Err (Execution_RunLimit l)) \<and> (errors_excluded rx symbols w \<longrightarrow> res = Ok ())"
proof -
  have "room rx symbols limits 0 w" using assms(3,4) by (auto simp: room_def)
  from run_loop_completes [OF assms(1) this assms(5) assms(2) [unfolded run_with_limits_def]] show ?thesis by simp
qed

lemma saturation_completes_witness:
  "fst (run_with_limits (\<lambda>_. None) (\<lambda>_. 0) st_new default_limits example_copy) = Ok ()"
proof -
  obtain res w' where run: "run_with_limits (\<lambda>_. None) (\<lambda>_. 0) st_new default_limits example_copy = (res, w')"
    by (rule prod.exhaust)
  have "card (world_derived (\<lambda>_. None) st_new example_copy) = 2"
    unfolding example_copy_derived by (simp add: example_copied_def)
  moreover have "errors_excluded (\<lambda>_. None) st_new example_copy"
    by (simp add: errors_excluded_def error_free_def example_copy_def)
  ultimately have "res = Ok ()"
    using saturation_completes [OF example_copy_wf run] by (simp add: default_limits_def)
  then show ?thesis by (simp add: run)
qed

end
