(* ===== verification/Crypto.thy ===== *)
theory Crypto
  imports Keys
begin

text \<open>
  The chain of signatures (\<open>biscuit-auth/src/crypto/mod.rs\<close>): the byte strings that are signed
  for each kind of block and each signature version, and the functions that sign and verify them.
\<close>

section \<open>Signed blocks\<close>

record external_signature =
  xs_public_key :: public_key
  xs_signature :: bytes

record signed_block =
  sb_data :: bytes
  sb_next_key :: public_key
  sb_signature :: bytes
  sb_external_signature :: "external_signature option"
  sb_version :: nat

datatype token_next = Secret private_key | Seal bytes

fun token_next_keypair :: "token_next \<Rightarrow> (token_error, keypair) outcome" where
  "token_next_keypair (Seal _) = Err AlreadySealed"
| "token_next_keypair (Secret k) = Ok (keypair_from k)"

fun is_sealed :: "token_next \<Rightarrow> bool" where
  "is_sealed (Seal _) = True"
| "is_sealed (Secret _) = False"

section \<open>Signature payloads\<close>

text \<open>\<open>to_le_bytes\<close> of a 32-bit integer.\<close>

definition le_bytes :: "int \<Rightarrow> bytes" where
  "le_bytes i = [word_of_int i, word_of_int (i div 256), word_of_int (i div 65536), word_of_int (i div 16777216)]"

definition ascii :: "string \<Rightarrow> bytes" where
  "ascii s = map (\<lambda>c. of_nat (of_char c)) s"

definition marker :: "string \<Rightarrow> bytes" where
  "marker s = 0 # ascii s @ [0]"

definition algorithm_bytes :: "public_key \<Rightarrow> bytes" where
  "algorithm_bytes k = le_bytes (algorithm_tag (public_algorithm k))"

definition authority_block_payload_v0 :: "bytes \<Rightarrow> public_key \<Rightarrow> bytes" where
  "authority_block_payload_v0 payload next_key =
     payload @ algorithm_bytes next_key @ public_to_bytes next_key"

definition block_payload_v0 :: "bytes \<Rightarrow> public_key \<Rightarrow> external_signature option \<Rightarrow> bytes" where
  "block_payload_v0 payload next_key ext =
     payload @ (case ext of Some x \<Rightarrow> xs_signature x | None \<Rightarrow> []) @
     algorithm_bytes next_key @ public_to_bytes next_key"

definition authority_block_payload_v1 :: "bytes \<Rightarrow> public_key \<Rightarrow> nat \<Rightarrow> bytes" where
  "authority_block_payload_v1 payload next_key version =
     marker ''BLOCK'' @ marker ''VERSION'' @ le_bytes (int version) @
     marker ''PAYLOAD'' @ payload @
     marker ''ALGORITHM'' @ algorithm_bytes next_key @
     marker ''NEXTKEY'' @ public_to_bytes next_key"

definition block_payload_v1 ::
    "bytes \<Rightarrow> public_key \<Rightarrow> external_signature option \<Rightarrow> bytes \<Rightarrow> nat \<Rightarrow> bytes" where
  "block_payload_v1 payload next_key ext previous_signature version =
     marker ''BLOCK'' @ marker ''VERSION'' @ le_bytes (int version) @
     marker ''PAYLOAD'' @ payload @
     marker ''ALGORITHM'' @ algorithm_bytes next_key @
     marker ''NEXTKEY'' @ public_to_bytes next_key @
     marker ''PREVSIG'' @ previous_signature @
     (case ext of Some x \<Rightarrow> marker ''EXTERNALSIG'' @ xs_signature x | None \<Rightarrow> [])"

definition external_payload_v0 :: "bytes \<Rightarrow> public_key \<Rightarrow> bytes" where
  "external_payload_v0 payload previous_key =
     payload @ algorithm_bytes previous_key @ public_to_bytes previous_key"

definition external_payload_v1 :: "bytes \<Rightarrow> bytes \<Rightarrow> nat \<Rightarrow> bytes" where
  "external_payload_v1 payload previous_signature version =
     marker ''EXTERNAL'' @ marker ''VERSION'' @ le_bytes (int version) @
     marker ''PAYLOAD'' @ payload @
     marker ''PREVSIG'' @ previous_signature"

definition seal_payload_v0 :: "signed_block \<Rightarrow> bytes" where
  "seal_payload_v0 b =
     sb_data b @ algorithm_bytes (sb_next_key b) @ public_to_bytes (sb_next_key b) @ sb_signature b"

section \<open>Signing\<close>

definition unsupported_version :: "nat \<Rightarrow> format_error" where
  "unsupported_version v = DeserializationError (''unsupported block version: '' @ string_of_nat v)"

definition sign_authority_block ::
    "primitives \<Rightarrow> keypair \<Rightarrow> keypair \<Rightarrow> bytes \<Rightarrow> nat \<Rightarrow> (token_error, bytes) outcome" where
  "sign_authority_block p kp next_kp message version =
     obind
       (if version = 0 then Ok (authority_block_payload_v0 message (keypair_public p next_kp))
        else if version = 1 then Ok (authority_block_payload_v1 message (keypair_public p next_kp) version)
        else Err (Token_Format (unsupported_version version)))
       (\<lambda>to_sign. omap_err Token_Format (keypair_sign p kp to_sign))"

definition sign_block ::
    "primitives \<Rightarrow> keypair \<Rightarrow> keypair \<Rightarrow> bytes \<Rightarrow> external_signature option \<Rightarrow> bytes \<Rightarrow> nat \<Rightarrow>
     (token_error, bytes) outcome" where
  "sign_block p kp next_kp message ext previous_signature version =
     obind
       (if version = 0 then Ok (block_payload_v0 message (keypair_public p next_kp) ext)
        else if version = 1 then
          Ok (block_payload_v1 message (keypair_public p next_kp) ext previous_signature version)
        else Err (Token_Format (unsupported_version version)))
       (\<lambda>to_sign. omap_err Token_Format (keypair_sign p kp to_sign))"

section \<open>Verifying\<close>

datatype verification_mode = UnsafeLegacy | PreviousSignatureHashing

definition verify_authority_block_signature ::
    "primitives \<Rightarrow> signed_block \<Rightarrow> public_key \<Rightarrow> (format_error, unit) outcome" where
  "verify_authority_block_signature p b k =
     obind
       (if sb_version b = 0 then
          Ok (block_payload_v0 (sb_data b) (sb_next_key b) (sb_external_signature b))
        else if sb_version b = 1 then
          Ok (authority_block_payload_v1 (sb_data b) (sb_next_key b) (sb_version b))
        else Err (unsupported_version (sb_version b)))
       (\<lambda>to_verify. verify_signature p k to_verify (sb_signature b))"

definition verify_external_signature ::
    "primitives \<Rightarrow> bytes \<Rightarrow> public_key \<Rightarrow> bytes \<Rightarrow> external_signature \<Rightarrow> nat \<Rightarrow> verification_mode \<Rightarrow>
     (format_error, unit) outcome" where
  "verify_external_signature p payload k previous_signature ext version mode =
     (let to_verify = (case mode of
          UnsafeLegacy \<Rightarrow> external_payload_v0 payload k
        | PreviousSignatureHashing \<Rightarrow> external_payload_v1 payload previous_signature version)
      in verify_signature p (xs_public_key ext) to_verify (xs_signature ext))"

definition verify_block_signature ::
    "primitives \<Rightarrow> signed_block \<Rightarrow> public_key \<Rightarrow> bytes \<Rightarrow> verification_mode \<Rightarrow> (format_error, unit) outcome" where
  "verify_block_signature p b k previous_signature mode =
     obind
       (if sb_version b = 0 then
          Ok (block_payload_v0 (sb_data b) (sb_next_key b) (sb_external_signature b))
        else if sb_version b = 1 then
          Ok (block_payload_v1 (sb_data b) (sb_next_key b) (sb_external_signature b) previous_signature
            (sb_version b))
        else Err (unsupported_version (sb_version b)))
       (\<lambda>to_verify. obind (verify_signature p k to_verify (sb_signature b)) (\<lambda>_.
          case sb_external_signature b of
            None \<Rightarrow> Ok ()
          | Some ext \<Rightarrow>
              verify_external_signature p (sb_data b) k previous_signature ext (sb_version b) mode))"

section \<open>Unambiguous payloads\<close>

lemma length_marker [simp]: "length (marker s) = length s + 2"
  by (simp add: marker_def ascii_def)

lemma length_le_bytes [simp]: "length (le_bytes i) = 4"
  by (simp add: le_bytes_def)

lemma length_algorithm_bytes [simp]: "length (algorithm_bytes k) = 4"
  by (simp add: algorithm_bytes_def)

lemma algorithm_bytes_inj: "algorithm_bytes k = algorithm_bytes l \<longleftrightarrow> public_algorithm k = public_algorithm l"
  by (cases "public_algorithm k"; cases "public_algorithm l") (simp_all add: algorithm_bytes_def le_bytes_def)

lemma public_key_eqI:
  "public_algorithm k = public_algorithm l \<Longrightarrow> public_to_bytes k = public_to_bytes l \<Longrightarrow> k = l"
  by (cases k; cases l) simp_all

lemma valid_public_length:
  "valid_public p k \<Longrightarrow> length (public_to_bytes k) = (case public_algorithm k of Ed25519 \<Rightarrow> 32 | Secp256r1 \<Rightarrow> 33)"
  by (cases k) auto

text \<open>A marker cannot be found one byte after itself.\<close>

lemma algorithm_marker_shift: "marker ''ALGORITHM'' @ t \<noteq> x # marker ''ALGORITHM'' @ u"
  by (simp add: marker_def ascii_def)

text \<open>
  What follows the data in a v1 payload: the algorithm, the next key, and bytes of a length that
  both sides know.
\<close>

definition key_part :: "public_key \<Rightarrow> bytes \<Rightarrow> bytes" where
  "key_part k rest =
     marker ''ALGORITHM'' @ algorithm_bytes k @ marker ''NEXTKEY'' @ public_to_bytes k @ rest"

lemma key_part_same_algorithm:
  assumes "d @ key_part k r = d' @ key_part k' r'" "length r = length r'"
    and "length (public_to_bytes k) = length (public_to_bytes k')"
  shows "d = d' \<and> k = k' \<and> r = r'"
proof -
  have "length (key_part k r) = length (key_part k' r')"
    using assms(2,3) by (simp add: key_part_def)
  with assms(1) have "d = d'" and eq: "key_part k r = key_part k' r'"
    by (auto simp: append_eq_append_conv)
  from eq have "algorithm_bytes k = algorithm_bytes k'" "public_to_bytes k = public_to_bytes k'" "r = r'"
    using assms(3) by (auto simp: key_part_def append_eq_append_conv)
  then show ?thesis using \<open>d = d'\<close> by (auto intro: public_key_eqI simp: algorithm_bytes_inj)
qed

lemma key_part_no_shift:
  assumes "d @ key_part k r = d' @ key_part k' r'" "length r = length r'"
  shows "length (public_to_bytes k') \<noteq> Suc (length (public_to_bytes k))"
proof
  assume len: "length (public_to_bytes k') = Suc (length (public_to_bytes k))"
  have "length d = Suc (length d')"
    using arg_cong [OF assms(1), of length] assms(2) len by (simp add: key_part_def)
  then obtain e x where d: "d = e @ [x]" "length e = length d'"
    by (cases d rule: rev_cases) auto
  then have "x # key_part k r = key_part k' r'"
    using assms(1) by (simp add: append_eq_append_conv)
  then show False by (metis key_part_def algorithm_marker_shift append_Cons)
qed

lemma key_part_inj:
  assumes "d @ key_part k r = d' @ key_part k' r'" "length r = length r'"
    and "valid_public p k" "valid_public p k'"
  shows "d = d' \<and> k = k' \<and> r = r'"
proof (cases "public_algorithm k = public_algorithm k'")
  case True
  with assms(3,4) have "length (public_to_bytes k) = length (public_to_bytes k')"
    by (simp add: valid_public_length)
  from key_part_same_algorithm [OF assms(1,2) this] show ?thesis .
next
  case False
  then show ?thesis
    using key_part_no_shift [OF assms(1,2)] key_part_no_shift [OF assms(1,2) [symmetric]] assms(3,4)
    by (cases k; cases k') auto
qed

lemma authority_block_payload_v1_parts:
  "authority_block_payload_v1 d k v =
     marker ''BLOCK'' @ marker ''VERSION'' @ le_bytes (int v) @ marker ''PAYLOAD'' @ d @ key_part k []"
  by (simp add: authority_block_payload_v1_def key_part_def)

lemma block_payload_v1_parts:
  "block_payload_v1 d k ext s v =
     marker ''BLOCK'' @ marker ''VERSION'' @ le_bytes (int v) @ marker ''PAYLOAD'' @ d @
     key_part k (marker ''PREVSIG'' @ s @
       (case ext of Some x \<Rightarrow> marker ''EXTERNALSIG'' @ xs_signature x | None \<Rightarrow> []))"
  by (simp add: block_payload_v1_def key_part_def)

lemma external_payload_v1_parts:
  "external_payload_v1 d s v =
     marker ''EXTERNAL'' @ marker ''VERSION'' @ le_bytes (int v) @ marker ''PAYLOAD'' @ d @ marker ''PREVSIG'' @ s"
  by (simp add: external_payload_v1_def)

text \<open>The signatures inside the payload of a block: that of the block before it, and the external one.\<close>

definition payload_signatures :: "external_signature option \<Rightarrow> bytes \<Rightarrow> bytes list" where
  "payload_signatures ext s = s # (case ext of Some x \<Rightarrow> [xs_signature x] | None \<Rightarrow> [])"

text \<open>The end of a payload says whether there is an external signature.\<close>

lemma signature_markers_differ:
  assumes "a @ marker ''PREVSIG'' @ g = b @ marker ''EXTERNALSIG'' @ h" "length g = length h"
  shows False
proof -
  have "(a @ marker ''PREVSIG'') @ g = (b @ marker ''EXTERNALSIG'') @ h" using assms(1) by simp
  with assms(2) append_eq_append_conv [of "a @ marker ''PREVSIG''" "b @ marker ''EXTERNALSIG''" g h]
  have "a @ marker ''PREVSIG'' = b @ marker ''EXTERNALSIG''" by blast
  from arg_cong [OF this, of rev] show False by (simp add: marker_def ascii_def)
qed

lemma block_payload_v1_presence:
  assumes "block_payload_v1 d k None s v = block_payload_v1 d' k' (Some x) s' v"
    and "length s = length (xs_signature x)"
  shows False
proof (rule signature_markers_differ)
  show "(d @ key_part k []) @ marker ''PREVSIG'' @ s =
      (d' @ key_part k' [] @ marker ''PREVSIG'' @ s') @ marker ''EXTERNALSIG'' @ xs_signature x"
    using assms(1) by (simp add: block_payload_v1_parts key_part_def)
qed (rule assms(2))

lemma block_payload_v1_inj:
  assumes "block_payload_v1 d k ext s v = block_payload_v1 d' k' ext' s' v"
    and "valid_public p k" "valid_public p k'"
    and len: "\<forall>g \<in> set (payload_signatures ext s) \<union> set (payload_signatures ext' s'). length g = n"
  shows "d = d' \<and> k = k' \<and> s = s' \<and> map_option xs_signature ext = map_option xs_signature ext'"
proof -
  let ?e = "\<lambda>ext. case ext of Some x \<Rightarrow> marker ''EXTERNALSIG'' @ xs_signature x | None \<Rightarrow> []"
  have presence: "ext = None \<longleftrightarrow> ext' = None"
  proof (cases ext; cases ext')
    fix x assume "ext = None" "ext' = Some x"
    with assms(1) len block_payload_v1_presence [of d k s v d' k' x s'] show ?thesis by (simp add: payload_signatures_def)
  next
    fix x assume "ext = Some x" "ext' = None"
    with assms(1) len block_payload_v1_presence [of d' k' s' v d k x s] show ?thesis by (simp add: payload_signatures_def)
  qed simp_all
  have "d @ key_part k (marker ''PREVSIG'' @ s @ ?e ext) = d' @ key_part k' (marker ''PREVSIG'' @ s' @ ?e ext')"
    using assms(1) by (simp add: block_payload_v1_parts)
  moreover have "length (marker ''PREVSIG'' @ s @ ?e ext) = length (marker ''PREVSIG'' @ s' @ ?e ext')"
    using len presence by (cases ext; cases ext') (auto simp: payload_signatures_def)
  ultimately have "d = d' \<and> k = k' \<and> marker ''PREVSIG'' @ s @ ?e ext = marker ''PREVSIG'' @ s' @ ?e ext'"
    using key_part_inj assms(2,3) by blast
  then show ?thesis
    using len presence by (cases ext; cases ext') (auto simp: payload_signatures_def)
qed

lemma authority_block_payload_v1_inj:
  assumes "authority_block_payload_v1 d k v = authority_block_payload_v1 d' k' v"
    and "valid_public p k" "valid_public p k'"
  shows "d = d' \<and> k = k'"
proof -
  from assms(1) have "d @ key_part k [] = d' @ key_part k' []" by (simp add: authority_block_payload_v1_parts)
  from key_part_inj [OF this _ assms(2,3)] show ?thesis by simp
qed

lemma external_payload_v1_inj:
  "external_payload_v1 d s v = external_payload_v1 d' s' v \<Longrightarrow> length s = length s' \<Longrightarrow> d = d' \<and> s = s'"
  by (auto simp: external_payload_v1_parts append_eq_append_conv)

lemma external_payload_v1_other:
  "external_payload_v1 d s v \<noteq> block_payload_v1 d' k ext s' v'"
  "external_payload_v1 d s v \<noteq> authority_block_payload_v1 d' k v'"
  by (simp_all add: external_payload_v1_parts block_payload_v1_parts authority_block_payload_v1_parts marker_def ascii_def)

section \<open>Properties\<close>

text \<open>
  C18: Version 1 payloads say what is signed when all signatures in them have one length, as those
  of Ed25519 keys have.  Two authority payloads are equal only for the same data and next key; two
  block payloads are equal only for the same data, next key, previous signature and external
  signature, or for none in both; two payloads of third parties are equal only for the same data and
  previous signature; and what a third party signs is never the payload of a block.  Without the
  condition on the lengths the payloads of blocks are ambiguous: an external signature and its marker
  can be read as the end of the previous signature.
\<close>
theorem payload_v1_unambiguous:
  assumes "valid_public p k" "valid_public p k'"
  shows "(authority_block_payload_v1 d k v = authority_block_payload_v1 d' k' v \<longrightarrow> d = d' \<and> k = k') \<and>
    (block_payload_v1 d k ext s v = block_payload_v1 d' k' ext' s' v \<longrightarrow>
       (\<forall>g \<in> set (payload_signatures ext s) \<union> set (payload_signatures ext' s'). length g = n) \<longrightarrow>
       d = d' \<and> k = k' \<and> s = s' \<and> map_option xs_signature ext = map_option xs_signature ext') \<and>
    (external_payload_v1 d s v = external_payload_v1 d' s' v \<longrightarrow> length s = length s' \<longrightarrow> d = d' \<and> s = s') \<and>
    external_payload_v1 d s v \<noteq> block_payload_v1 d' k' ext' s' v' \<and>
    external_payload_v1 d s v \<noteq> authority_block_payload_v1 d' k' v' \<and>
    block_payload_v1 d k (Some x) s v = block_payload_v1 d k None (s @ marker ''EXTERNALSIG'' @ xs_signature x) v"
proof -
  have "block_payload_v1 d k (Some x) s v = block_payload_v1 d k None (s @ marker ''EXTERNALSIG'' @ xs_signature x) v"
    by (simp add: block_payload_v1_def)
  then show ?thesis
    using authority_block_payload_v1_inj [OF _ assms, of d v d'] block_payload_v1_inj [OF _ assms, of d ext s v d' ext' s' n]
      external_payload_v1_inj [of d s v d' s'] external_payload_v1_other [of d s v d' k']
    by blast
qed

definition demo_pair :: "u8 \<Rightarrow> keypair" where
  "demo_pair b = Ed25519_pair (replicate 32 b)"

lemma demo_pair_valid: "valid_keypair demo (demo_pair b)" "valid_public demo (keypair_public demo (demo_pair b))"
  by (simp_all add: demo_pair_def demo_def)

lemma payload_v1_unambiguous_witness:
  "block_payload_v1 [1] (keypair_public demo (demo_pair 0)) None (replicate 64 7) 1 \<noteq>
   block_payload_v1 [1] (keypair_public demo (demo_pair 0))
     (Some \<lparr>xs_public_key = keypair_public demo (demo_pair 1), xs_signature = replicate 64 8\<rparr>) (replicate 64 7) 1"
proof
  let ?ext = "Some \<lparr>xs_public_key = keypair_public demo (demo_pair 1), xs_signature = replicate 64 8\<rparr>"
  assume eq: "block_payload_v1 [1] (keypair_public demo (demo_pair 0)) None (replicate 64 7) 1 =
      block_payload_v1 [1] (keypair_public demo (demo_pair 0)) ?ext (replicate 64 7) 1"
  have len: "\<forall>g \<in> set (payload_signatures None (replicate 64 7)) \<union> set (payload_signatures ?ext (replicate 64 7)).
      length g = 64"
    by (simp add: payload_signatures_def)
  from payload_v1_unambiguous [OF demo_pair_valid(2) [of 0] demo_pair_valid(2) [of 0],
      THEN conjunct2, THEN conjunct1, THEN mp, THEN mp, OF eq len]
  show False by simp
qed

text \<open>
  Version 0 payloads are ambiguous: the signature of a third-party block covers its external
  signature as if it were data, so it is also the signature of a first-party block with longer data.
\<close>
theorem payload_v0_ambiguous:
  "verify_signature p key (block_payload_v0 d k (Some x)) g = Ok () \<Longrightarrow>
   verify_block_signature p
     \<lparr>sb_data = d @ xs_signature x, sb_next_key = k, sb_signature = g, sb_external_signature = None, sb_version = 0\<rparr>
     key s mode = Ok ()"
  by (simp add: verify_block_signature_def block_payload_v0_def)

definition demo_signature :: "keypair \<Rightarrow> bytes \<Rightarrow> bytes" where
  "demo_signature kp m = (case keypair_sign demo kp m of Ok g \<Rightarrow> g | _ \<Rightarrow> [])"

lemma demo_signs: "keypair_sign demo kp m = Ok (demo_signature kp m)"
  by (cases kp) (simp_all add: demo_signature_def demo_def)

lemma demo_verifies: "verify_signature demo (keypair_public demo (demo_pair b)) m (demo_signature (demo_pair b) m) = Ok ()"
  by (rule sign_verify [OF demo_ok demo_pair_valid(1) demo_signs])

lemma payload_v0_ambiguous_witness:
  "verify_block_signature demo
     \<lparr>sb_data = [1, 2, 3], sb_next_key = keypair_public demo (demo_pair 1),
      sb_signature = demo_signature (demo_pair 0) (block_payload_v0 [1] (keypair_public demo (demo_pair 1))
        (Some \<lparr>xs_public_key = keypair_public demo (demo_pair 2), xs_signature = [2, 3]\<rparr>)),
      sb_external_signature = None, sb_version = 0\<rparr>
     (keypair_public demo (demo_pair 0)) [] PreviousSignatureHashing = Ok ()"
  using payload_v0_ambiguous [OF demo_verifies [of 0 "block_payload_v0 [1] (keypair_public demo (demo_pair 1))
        (Some \<lparr>xs_public_key = keypair_public demo (demo_pair 2), xs_signature = [2, 3]\<rparr>)"]] by simp

text \<open>
  A block signed with a key pair verifies under its public key, for both signature versions,
  as an authority block and as a block after a given previous signature; other versions are
  refused by both sides.
\<close>
theorem sign_then_verify:
  assumes "primitives_ok p" "valid_keypair p kp"
  shows "(sign_authority_block p kp next_kp d v = Ok g \<longrightarrow>
      verify_authority_block_signature p
        \<lparr>sb_data = d, sb_next_key = keypair_public p next_kp, sb_signature = g,
         sb_external_signature = None, sb_version = v\<rparr> (keypair_public p kp) = Ok ()) \<and>
    (sign_block p kp next_kp d ext prev v = Ok g \<longrightarrow>
      verify_block_signature p
        \<lparr>sb_data = d, sb_next_key = keypair_public p next_kp, sb_signature = g,
         sb_external_signature = ext, sb_version = v\<rparr> (keypair_public p kp) prev mode =
      (case ext of None \<Rightarrow> Ok ()
       | Some x \<Rightarrow> verify_external_signature p d (keypair_public p kp) prev x v mode)) \<and>
    (v > 1 \<longrightarrow> sign_authority_block p kp next_kp d v = Err (Token_Format (unsupported_version v)) \<and>
      sign_block p kp next_kp d ext prev v = Err (Token_Format (unsupported_version v)))"
  using sign_verify [OF assms]
  by (auto simp: sign_authority_block_def verify_authority_block_signature_def sign_block_def
      verify_block_signature_def block_payload_v0_def authority_block_payload_v0_def outcome_simps
      split: if_splits option.splits)

lemma sign_then_verify_witness:
  "verify_authority_block_signature demo
     \<lparr>sb_data = [7], sb_next_key = keypair_public demo (demo_pair 1),
      sb_signature = demo_signature (demo_pair 0)
        (authority_block_payload_v1 [7] (keypair_public demo (demo_pair 1)) 1),
      sb_external_signature = None, sb_version = 1\<rparr> (keypair_public demo (demo_pair 0)) = Ok ()"
  using sign_then_verify [OF demo_ok demo_pair_valid(1) [of 0], of "demo_pair 1" "[7]" 1]
  by (simp add: sign_authority_block_def demo_signs)

end
