(* ===== verification/Container.thy ===== *)
theory Container
  imports Crypto Convert
begin

text \<open>
  The serialized token (\<open>biscuit-auth/src/format/mod.rs\<close>): the chain of signed blocks and its
  proof, how it is created, attenuated, sealed, verified, written and read.  The protobuf bytes
  are produced and parsed by the crate \<open>prost\<close>: the record \<open>codec\<close>.
\<close>

section \<open>The protobuf crate\<close>

record codec =
  encode_block :: "pblock \<Rightarrow> (string, bytes) outcome"
  decode_block :: "bytes \<Rightarrow> (string, pblock) outcome"
  encode_biscuit :: "pbiscuit \<Rightarrow> (string, bytes) outcome"
  decode_biscuit :: "bytes \<Rightarrow> (string, pbiscuit) outcome"

text \<open>What was encoded decodes to the same message.\<close>

definition biscuit_decodes :: "codec \<Rightarrow> pbiscuit \<Rightarrow> bool" where
  "biscuit_decodes c m \<longleftrightarrow> (\<forall>bs. encode_biscuit c m = Ok bs \<longrightarrow> decode_biscuit c bs = Ok m)"

definition block_decodes :: "codec \<Rightarrow> pblock \<Rightarrow> bool" where
  "block_decodes c m \<longleftrightarrow> (\<forall>bs. encode_block c m = Ok bs \<longrightarrow> decode_block c bs = Ok m)"

section \<open>The container\<close>

record serialized_biscuit =
  se_root_key_id :: "nat option"
  se_authority :: signed_block
  se_blocks :: "signed_block list"
  se_proof :: token_next

definition THIRD_PARTY_SIGNATURE_VERSION :: nat where "THIRD_PARTY_SIGNATURE_VERSION = 1"
definition DATALOG_3_3_SIGNATURE_VERSION :: nat where "DATALOG_3_3_SIGNATURE_VERSION = 1"
definition NON_ED25519_SIGNATURE_VERSION :: nat where "NON_ED25519_SIGNATURE_VERSION = 1"

lemmas signature_versions =
  THIRD_PARTY_SIGNATURE_VERSION_def DATALOG_3_3_SIGNATURE_VERSION_def NON_ED25519_SIGNATURE_VERSION_def

definition last_block :: "serialized_biscuit \<Rightarrow> signed_block" where
  "last_block t = (if se_blocks t = [] then se_authority t else last (se_blocks t))"

section \<open>Reading\<close>

text \<open>One block after the authority block.\<close>

definition read_signed_block ::
    "primitives \<Rightarrow> verification_mode \<Rightarrow> psigned_block \<Rightarrow> (format_error, signed_block) outcome" where
  "read_signed_block p mode b =
     obind (public_from_proto p (psb_next_key b)) (\<lambda>next_key.
     obind (case psb_external_signature b of
         None \<Rightarrow> Ok None
       | Some ex \<Rightarrow>
           (if mode = PreviousSignatureHashing \<and> psb_version b \<noteq> Some THIRD_PARTY_SIGNATURE_VERSION then
              Err (DeserializationError ''Unsupported third party block version'')
            else obind (public_from_proto p (pes_public_key ex)) (\<lambda>k.
              Ok (Some \<lparr>xs_public_key = k, xs_signature = pes_signature ex\<rparr>)))) (\<lambda>ext.
       Ok \<lparr>sb_data = psb_block b, sb_next_key = next_key, sb_signature = psb_signature b,
           sb_external_signature = ext, sb_version = version_or_zero (psb_version b)\<rparr>))"

definition read_authority :: "primitives \<Rightarrow> psigned_block \<Rightarrow> (format_error, signed_block) outcome" where
  "read_authority p b =
     obind (public_from_proto p (psb_next_key b)) (\<lambda>next_key.
     if psb_external_signature b \<noteq> None then
       Err (DeserializationError ''the authority block must not contain an external signature'')
     else
       Ok \<lparr>sb_data = psb_block b, sb_next_key = next_key, sb_signature = psb_signature b,
           sb_external_signature = None, sb_version = version_or_zero (psb_version b)\<rparr>)"

text \<open>The secret of the proof is read with the algorithm of the last next key.\<close>

definition read_proof :: "primitives \<Rightarrow> algorithm \<Rightarrow> pproof \<Rightarrow> (format_error, token_next) outcome" where
  "read_proof p a proof =
     (case proof of
        Proof_Empty \<Rightarrow> Err (DeserializationError ''could not find proof'')
      | Next_Secret v \<Rightarrow> obind (private_from_bytes p v a) (\<lambda>k. Ok (Secret k))
      | Final_Signature v \<Rightarrow> Ok (Seal v))"

definition of_proto :: "primitives \<Rightarrow> pbiscuit \<Rightarrow> verification_mode \<Rightarrow> (format_error, serialized_biscuit) outcome" where
  "of_proto p data mode =
     obind (read_authority p (pbi_authority data)) (\<lambda>authority.
     obind (traverse (read_signed_block p mode) (pbi_blocks data)) (\<lambda>blocks.
     obind (read_proof p (public_algorithm (sb_next_key (last (authority # blocks)))) (pbi_proof data)) (\<lambda>proof.
       Ok \<lparr>se_root_key_id = pbi_root_key_id data, se_authority = authority, se_blocks = blocks,
           se_proof = proof\<rparr>)))"

definition deserialize ::
    "primitives \<Rightarrow> codec \<Rightarrow> bytes \<Rightarrow> verification_mode \<Rightarrow> (format_error, serialized_biscuit) outcome" where
  "deserialize p c input mode =
     obind (omap_err (\<lambda>e. DeserializationError (''deserialization error: '' @ e)) (decode_biscuit c input))
       (\<lambda>data. of_proto p data mode)"

section \<open>Verification\<close>

definition block_mode :: "signed_block \<Rightarrow> verification_mode \<Rightarrow> verification_mode" where
  "block_mode b mode =
     (if sb_version b = 0 \<and> mode = UnsafeLegacy then UnsafeLegacy else PreviousSignatureHashing)"

text \<open>The loop over the blocks, with the key and the signature of the previous one.\<close>

fun verify_blocks ::
    "primitives \<Rightarrow> verification_mode \<Rightarrow> signed_block \<Rightarrow> signed_block list \<Rightarrow> (format_error, unit) outcome" where
  "verify_blocks p mode prev [] = Ok ()"
| "verify_blocks p mode prev (b # bs) =
     obind (verify_block_signature p b (sb_next_key prev) (sb_signature prev) (block_mode b mode))
       (\<lambda>_. verify_blocks p mode b bs)"

definition key_mismatch :: format_error where
  "key_mismatch =
     Signature_error (InvalidSignature ''the last public key does not match the private key'')"

definition verify_proof :: "primitives \<Rightarrow> signed_block \<Rightarrow> token_next \<Rightarrow> (format_error, unit) outcome" where
  "verify_proof p b proof =
     (case proof of
        Secret private \<Rightarrow>
          (if sb_next_key b \<noteq> private_public p private then Err key_mismatch else Ok ())
      | Seal signature \<Rightarrow> verify_signature p (sb_next_key b) (seal_payload_v0 b) signature)"

definition verify_inner ::
    "primitives \<Rightarrow> serialized_biscuit \<Rightarrow> public_key \<Rightarrow> verification_mode \<Rightarrow> (format_error, unit) outcome" where
  "verify_inner p t root mode =
     obind (verify_authority_block_signature p (se_authority t) root) (\<lambda>_.
     obind (verify_blocks p mode (se_authority t) (se_blocks t)) (\<lambda>_.
       verify_proof p (last_block t) (se_proof t)))"

definition verify :: "primitives \<Rightarrow> serialized_biscuit \<Rightarrow> public_key \<Rightarrow> (format_error, unit) outcome" where
  "verify p t root = verify_inner p t root PreviousSignatureHashing"

text \<open>\<open>RootKeyProvider::choose\<close> is the application's choice of a root key.\<close>

type_synonym key_provider = "nat option \<Rightarrow> (format_error, public_key) outcome"

definition from_slice ::
    "primitives \<Rightarrow> codec \<Rightarrow> bytes \<Rightarrow> key_provider \<Rightarrow> (format_error, serialized_biscuit) outcome" where
  "from_slice p c input provider =
     obind (deserialize p c input PreviousSignatureHashing) (\<lambda>deser.
     obind (provider (se_root_key_id deser)) (\<lambda>root.
     obind (verify p deser root) (\<lambda>_. Ok deser)))"

definition unsafe_from_slice ::
    "primitives \<Rightarrow> codec \<Rightarrow> bytes \<Rightarrow> key_provider \<Rightarrow> (format_error, serialized_biscuit) outcome" where
  "unsafe_from_slice p c input provider =
     obind (deserialize p c input UnsafeLegacy) (\<lambda>deser.
     obind (provider (se_root_key_id deser)) (\<lambda>root.
     obind (verify_inner p deser root UnsafeLegacy) (\<lambda>_. Ok deser)))"

section \<open>Writing\<close>

definition version_field :: "nat \<Rightarrow> nat option" where
  "version_field v = (if v > 0 then Some v else None)"

definition write_authority :: "signed_block \<Rightarrow> psigned_block" where
  "write_authority b =
     \<lparr>psb_block = sb_data b, psb_next_key = public_to_proto (sb_next_key b),
      psb_signature = sb_signature b, psb_external_signature = None,
      psb_version = version_field (sb_version b)\<rparr>"

definition write_signed_block :: "signed_block \<Rightarrow> psigned_block" where
  "write_signed_block b =
     \<lparr>psb_block = sb_data b, psb_next_key = public_to_proto (sb_next_key b),
      psb_signature = sb_signature b,
      psb_external_signature = map_option (\<lambda>x.
        \<lparr>pes_signature = xs_signature x, pes_public_key = public_to_proto (xs_public_key x)\<rparr>)
        (sb_external_signature b),
      psb_version = version_field (sb_version b)\<rparr>"

definition write_proof :: "token_next \<Rightarrow> pproof" where
  "write_proof proof =
     (case proof of
        Seal signature \<Rightarrow> Final_Signature signature
      | Secret private \<Rightarrow> Next_Secret (private_to_bytes private))"

definition to_proto :: "serialized_biscuit \<Rightarrow> pbiscuit" where
  "to_proto t =
     \<lparr>pbi_root_key_id = se_root_key_id t,
      pbi_authority = write_authority (se_authority t),
      pbi_blocks = map write_signed_block (se_blocks t),
      pbi_proof = write_proof (se_proof t)\<rparr>"

definition serialization_error :: "string \<Rightarrow> format_error" where
  "serialization_error e = SerializationError (''serialization error: '' @ e)"

definition to_vec :: "codec \<Rightarrow> serialized_biscuit \<Rightarrow> (format_error, bytes) outcome" where
  "to_vec c t = omap_err serialization_error (encode_biscuit c (to_proto t))"

section \<open>Creating, attenuating and sealing\<close>

fun both_ed25519 :: "keypair \<Rightarrow> keypair \<Rightarrow> bool" where
  "both_ed25519 (Ed25519_pair _) (Ed25519_pair _) = True"
| "both_ed25519 _ _ = False"

definition block_signature_version ::
    "keypair \<Rightarrow> keypair \<Rightarrow> external_signature option \<Rightarrow> nat option \<Rightarrow> nat list \<Rightarrow> nat" where
  "block_signature_version block_kp next_kp ext block_version previous =
     (if ext \<noteq> None then THIRD_PARTY_SIGNATURE_VERSION
      else if (case block_version of Some v \<Rightarrow> v \<ge> DATALOG_3_3 | None \<Rightarrow> False) then
        DATALOG_3_3_SIGNATURE_VERSION
      else if \<not> both_ed25519 block_kp next_kp then NON_ED25519_SIGNATURE_VERSION
      else fold max previous 0)"

definition encode_token_block :: "codec \<Rightarrow> block \<Rightarrow> (token_error, bytes) outcome" where
  "encode_token_block c b =
     omap_err (\<lambda>e. Token_Format (serialization_error e)) (encode_block c (token_block_to_proto_block b))"

definition new_inner ::
    "primitives \<Rightarrow> codec \<Rightarrow> nat option \<Rightarrow> keypair \<Rightarrow> keypair \<Rightarrow> block \<Rightarrow> nat \<Rightarrow>
     (token_error, serialized_biscuit) outcome" where
  "new_inner p c root_key_id root_kp next_kp authority version =
     obind (encode_token_block c authority) (\<lambda>v.
     obind (sign_authority_block p root_kp next_kp v version) (\<lambda>signature.
       Ok \<lparr>se_root_key_id = root_key_id,
           se_authority = \<lparr>sb_data = v, sb_next_key = keypair_public p next_kp, sb_signature = signature,
             sb_external_signature = None, sb_version = version\<rparr>,
           se_blocks = [], se_proof = Secret (keypair_private next_kp)\<rparr>))"

definition container_new ::
    "primitives \<Rightarrow> codec \<Rightarrow> nat option \<Rightarrow> keypair \<Rightarrow> keypair \<Rightarrow> block \<Rightarrow>
     (token_error, serialized_biscuit) outcome" where
  "container_new p c root_key_id root_kp next_kp authority =
     new_inner p c root_key_id root_kp next_kp authority
       (block_signature_version root_kp next_kp None (Some (bl_version authority)) [])"

text \<open>Signing the bytes of a block and adding it; shared by \<open>append\<close> and \<open>append_serialized\<close>.\<close>

definition push_block ::
    "primitives \<Rightarrow> serialized_biscuit \<Rightarrow> keypair \<Rightarrow> keypair \<Rightarrow> bytes \<Rightarrow> external_signature option \<Rightarrow> nat \<Rightarrow>
     (token_error, serialized_biscuit) outcome" where
  "push_block p t kp next_kp v ext version =
     obind (sign_block p kp next_kp v ext (sb_signature (last_block t)) version) (\<lambda>signature.
       Ok (t\<lparr>se_blocks := se_blocks t @
               [\<lparr>sb_data = v, sb_next_key = keypair_public p next_kp, sb_signature = signature,
                 sb_external_signature = ext, sb_version = version\<rparr>],
             se_proof := Secret (keypair_private next_kp)\<rparr>))"

definition container_append ::
    "primitives \<Rightarrow> codec \<Rightarrow> serialized_biscuit \<Rightarrow> keypair \<Rightarrow> block \<Rightarrow> external_signature option \<Rightarrow>
     (token_error, serialized_biscuit) outcome" where
  "container_append p c t next_kp b ext =
     obind (token_next_keypair (se_proof t)) (\<lambda>kp.
     obind (encode_token_block c b) (\<lambda>v.
       push_block p t kp next_kp v ext
         (block_signature_version kp next_kp ext (Some (bl_version b))
           (map sb_version (se_blocks t) @ [sb_version (se_authority t)]))))"

definition container_append_serialized ::
    "primitives \<Rightarrow> serialized_biscuit \<Rightarrow> keypair \<Rightarrow> bytes \<Rightarrow> external_signature option \<Rightarrow>
     (token_error, serialized_biscuit) outcome" where
  "container_append_serialized p t next_kp v ext =
     obind (token_next_keypair (se_proof t)) (\<lambda>kp.
       push_block p t kp next_kp v ext
         (block_signature_version kp next_kp ext None
           (sb_version (se_authority t) # map sb_version (se_blocks t))))"

definition container_seal :: "primitives \<Rightarrow> serialized_biscuit \<Rightarrow> (token_error, serialized_biscuit) outcome" where
  "container_seal p t =
     obind (token_next_keypair (se_proof t)) (\<lambda>kp.
     obind (omap_err Token_Format (keypair_sign p kp (seal_payload_v0 (last_block t)))) (\<lambda>signature.
       Ok (t\<lparr>se_proof := Seal signature\<rparr>)))"

section \<open>Extracting the blocks\<close>

text \<open>The symbols and keys of a block join the token's tables, unless the block is a third party's.\<close>

definition extend_tables ::
    "primitives \<Rightarrow> pblock \<Rightarrow> symbol_table \<Rightarrow> (format_error, symbol_table) outcome" where
  "extend_tables p b symbols =
     obind (st_from (pbl_symbols b)) (\<lambda>table.
     obind (st_extend symbols table) (\<lambda>symbols'.
     obind (insert_keys p (pbl_public_keys b) (st_public_keys symbols')) (\<lambda>keys.
       Ok (symbols'\<lparr>st_public_keys := keys\<rparr>))))"

fun extract_loop ::
    "primitives \<Rightarrow> codec \<Rightarrow> signed_block list \<Rightarrow> symbol_table \<Rightarrow>
     (token_error, pblock list \<times> symbol_table) outcome" where
  "extract_loop p c [] symbols = Ok ([], symbols)"
| "extract_loop p c (b # bs) symbols =
     obind (omap_err (\<lambda>e. Token_Format (BlockDeserializationError (''error deserializing block: '' @ e)))
       (decode_block c (sb_data b))) (\<lambda>deser.
     obind (if sb_external_signature b \<noteq> None then Ok symbols
            else omap_err Token_Format (extend_tables p deser symbols)) (\<lambda>symbols'.
     obind (extract_loop p c bs symbols') (\<lambda>(blocks, symbols'').
       Ok (deser # blocks, symbols''))))"

definition extract_blocks ::
    "primitives \<Rightarrow> codec \<Rightarrow> serialized_biscuit \<Rightarrow> symbol_table \<Rightarrow>
     (token_error, (pblock \<times> pblock list) \<times> symbol_table) outcome" where
  "extract_blocks p c t symbols =
     obind (omap_err (\<lambda>e. Token_Format
         (BlockDeserializationError (''error deserializing authority block: '' @ e)))
       (decode_block c (sb_data (se_authority t)))) (\<lambda>authority.
     obind (omap_err Token_Format (extend_tables p authority symbols)) (\<lambda>symbols'.
     obind (extract_loop p c (se_blocks t) symbols') (\<lambda>(blocks, symbols'').
       Ok ((authority, blocks), symbols''))))"

end
