(* ===== verification/Tokens.thy ===== *)
theory Tokens
  imports Container Blocks
begin

text \<open>
  Tokens (\<open>token/mod.rs\<close>, \<open>token/unverified.rs\<close>), third-party blocks (\<open>token/third_party.rs\<close>) and
  the token builder (\<open>token/builder/biscuit.rs\<close>).  A token holds the messages of its blocks, the
  table that joins the symbols and keys of its first-party blocks, and the signed container.  The
  key pair of the next block, drawn at random by the code, is an argument.
\<close>

section \<open>The token\<close>

record biscuit =
  bi_root_key_id :: "nat option"
  bi_authority :: pblock
  bi_blocks :: "pblock list"
  bi_symbols :: symbol_table
  bi_container :: serialized_biscuit

definition default_symbol_table :: symbol_table where
  "default_symbol_table = st_new"

definition decode_signed :: "codec \<Rightarrow> signed_block \<Rightarrow> (token_error, pblock) outcome" where
  "decode_signed c b =
     omap_err (\<lambda>e. Token_Format (BlockDeserializationError (''error deserializing block: '' @ e)))
       (decode_block c (sb_data b))"

definition biscuit_new_with_key_pair ::
    "primitives \<Rightarrow> codec \<Rightarrow> nat option \<Rightarrow> keypair \<Rightarrow> keypair \<Rightarrow> symbol_table \<Rightarrow> block \<Rightarrow>
     (token_error, biscuit) outcome" where
  "biscuit_new_with_key_pair p c root_key_id root next_kp symbols authority =
     (if \<not> st_is_disjoint symbols (bl_symbols authority) then Err (Token_Format SymbolTableOverlap)
      else
        obind (omap_err Token_Format (st_extend symbols (bl_symbols authority))) (\<lambda>symbols1.
        obind (container_new p c root_key_id root next_kp authority) (\<lambda>container.
        obind (omap_err Token_Format (pk_extend (st_public_keys symbols1) (bl_public_keys authority))) (\<lambda>keys.
        obind (decode_signed c (se_authority container)) (\<lambda>message.
          Ok \<lparr>bi_root_key_id = root_key_id, bi_authority = message, bi_blocks = [],
              bi_symbols = symbols1\<lparr>st_public_keys := keys\<rparr>, bi_container = container\<rparr>)))))"

definition from_serialized_container ::
    "primitives \<Rightarrow> codec \<Rightarrow> serialized_biscuit \<Rightarrow> symbol_table \<Rightarrow> (token_error, biscuit) outcome" where
  "from_serialized_container p c container symbols =
     obind (extract_blocks p c container symbols) (\<lambda>((authority, blocks), symbols').
       Ok \<lparr>bi_root_key_id = se_root_key_id container, bi_authority = authority, bi_blocks = blocks,
           bi_symbols = symbols', bi_container = container\<rparr>)"

definition biscuit_from ::
    "primitives \<Rightarrow> codec \<Rightarrow> bytes \<Rightarrow> key_provider \<Rightarrow> (token_error, biscuit) outcome" where
  "biscuit_from p c input provider =
     obind (omap_err Token_Format (from_slice p c input provider))
       (\<lambda>container. from_serialized_container p c container default_symbol_table)"

definition biscuit_unsafe_from ::
    "primitives \<Rightarrow> codec \<Rightarrow> bytes \<Rightarrow> key_provider \<Rightarrow> (token_error, biscuit) outcome" where
  "biscuit_unsafe_from p c input provider =
     obind (omap_err Token_Format (unsafe_from_slice p c input provider))
       (\<lambda>container. from_serialized_container p c container default_symbol_table)"

definition biscuit_to_vec :: "codec \<Rightarrow> biscuit \<Rightarrow> (token_error, bytes) outcome" where
  "biscuit_to_vec c t = omap_err Token_Format (to_vec c (bi_container t))"

definition biscuit_seal :: "primitives \<Rightarrow> biscuit \<Rightarrow> (token_error, biscuit) outcome" where
  "biscuit_seal p t =
     obind (container_seal p (bi_container t)) (\<lambda>container. Ok (t\<lparr>bi_container := container\<rparr>))"

section \<open>Attenuation\<close>

text \<open>\<open>None\<close> from the builder is the panic of a conversion that meets a parameter.\<close>

definition append_with_keypair ::
    "primitives \<Rightarrow> codec \<Rightarrow> biscuit \<Rightarrow> keypair \<Rightarrow> block_builder \<Rightarrow> (token_error, biscuit) outcome" where
  "append_with_keypair p c t kp bb =
     obind (or_panic (bb_build bb (bi_symbols t))) (\<lambda>block.
     if \<not> st_is_disjoint (bi_symbols t) (bl_symbols block) then Err (Token_Format SymbolTableOverlap)
     else
       obind (container_append p c (bi_container t) kp block None) (\<lambda>container.
       obind (omap_err Token_Format (st_extend (bi_symbols t) (bl_symbols block))) (\<lambda>symbols.
       obind (omap_err Token_Format (pk_extend (st_public_keys symbols) (bl_public_keys block))) (\<lambda>keys.
       obind (decode_signed c (last_block container)) (\<lambda>deser.
         Ok \<lparr>bi_root_key_id = bi_root_key_id t, bi_authority = bi_authority t,
             bi_blocks = bi_blocks t @ [deser], bi_symbols = symbols\<lparr>st_public_keys := keys\<rparr>,
             bi_container = container\<rparr>)))))"

section \<open>Third-party blocks\<close>

record third_party_request =
  tr_previous_signature :: bytes

record third_party_codec =
  encode_request :: "pthird_party_request \<Rightarrow> (string, bytes) outcome"
  decode_request :: "bytes \<Rightarrow> (string, pthird_party_request) outcome"
  encode_contents :: "pthird_party_contents \<Rightarrow> (string, bytes) outcome"
  decode_contents :: "bytes \<Rightarrow> (string, pthird_party_contents) outcome"

definition request_from_container :: "serialized_biscuit \<Rightarrow> (token_error, third_party_request) outcome" where
  "request_from_container t =
     (if is_sealed (se_proof t) then Err AppendOnSealed
      else Ok \<lparr>tr_previous_signature = sb_signature (last_block t)\<rparr>)"

definition request_serialize :: "third_party_codec \<Rightarrow> third_party_request \<Rightarrow> (token_error, bytes) outcome" where
  "request_serialize tc r =
     omap_err (\<lambda>e. Token_Format (serialization_error e))
       (encode_request tc \<lparr>ptr_legacy_previous_key = None, ptr_legacy_public_keys = [],
          ptr_previous_signature = tr_previous_signature r\<rparr>)"

definition request_deserialize :: "third_party_codec \<Rightarrow> bytes \<Rightarrow> (token_error, third_party_request) outcome" where
  "request_deserialize tc input =
     obind (omap_err (\<lambda>e. Token_Format (deserialization_error e)) (decode_request tc input)) (\<lambda>data.
     if ptr_legacy_public_keys data \<noteq> [] then
       Err (Token_Format (DeserializationError ''public keys were provided in third-party block request''))
     else if ptr_legacy_previous_key data \<noteq> None then
       Err (Token_Format (DeserializationError ''previous public key was provided in third-party block request''))
     else Ok \<lparr>tr_previous_signature = ptr_previous_signature data\<rparr>)"

text \<open>The block is built on an empty table: it shares no symbol with the token.\<close>

definition create_block ::
    "primitives \<Rightarrow> codec \<Rightarrow> third_party_request \<Rightarrow> private_key \<Rightarrow> block_builder \<Rightarrow>
     (token_error, pthird_party_contents) outcome" where
  "create_block p c r private bb =
     obind (or_panic (bb_build bb st_new)) (\<lambda>built.
     obind (encode_token_block c (built\<lparr>bl_version := max DATALOG_3_2 (bl_version built)\<rparr>)) (\<lambda>payload.
     obind (omap_err Token_Format (keypair_sign p (keypair_from private)
         (external_payload_v1 payload (tr_previous_signature r) THIRD_PARTY_SIGNATURE_VERSION))) (\<lambda>signature.
       Ok \<lparr>ptc_payload = payload,
           ptc_external_signature =
             \<lparr>pes_signature = signature,
              pes_public_key = public_to_proto (keypair_public p (keypair_from private))\<rparr>\<rparr>)))"

definition contents_serialize :: "third_party_codec \<Rightarrow> pthird_party_contents \<Rightarrow> (token_error, bytes) outcome" where
  "contents_serialize tc b = omap_err (\<lambda>e. Token_Format (serialization_error e)) (encode_contents tc b)"

definition append_third_party_with_keypair ::
    "formats \<Rightarrow> primitives \<Rightarrow> codec \<Rightarrow> biscuit \<Rightarrow> public_key \<Rightarrow> pthird_party_contents \<Rightarrow> keypair \<Rightarrow>
     (token_error, biscuit) outcome" where
  "append_third_party_with_keypair fmt p c t external_key response next_kp =
     (let payload = ptc_payload response; ext = ptc_external_signature response in
      obind (omap_err Token_Format (public_from_proto p (pes_public_key ext))) (\<lambda>provided_key.
      if external_key \<noteq> provided_key then
        Err (Token_Format (DeserializationError
          (''deserialization error: unexpected key '' @ print_public_key fmt provided_key)))
      else
        let external_signature = \<lparr>xs_public_key = external_key, xs_signature = pes_signature ext\<rparr>;
            previous = last_block (bi_container t) in
        obind (omap_err Token_Format (verify_external_signature p payload (sb_next_key previous)
            (sb_signature previous) external_signature THIRD_PARTY_SIGNATURE_VERSION
            PreviousSignatureHashing)) (\<lambda>_.
        obind (omap_err (\<lambda>e. Token_Format (deserialization_error e)) (decode_block c payload)) (\<lambda>block.
        obind (container_append_serialized p (bi_container t) next_kp payload (Some external_signature))
          (\<lambda>container.
          Ok (t\<lparr>bi_blocks := bi_blocks t @ [block], bi_container := container\<rparr>))))))"

section \<open>Looking at a token\<close>

definition revocation_identifiers :: "serialized_biscuit \<Rightarrow> bytes list" where
  "revocation_identifiers t = sb_signature (se_authority t) # map sb_signature (se_blocks t)"

definition block_key :: "signed_block \<Rightarrow> public_key option" where
  "block_key b = map_option xs_public_key (sb_external_signature b)"

definition external_public_keys :: "serialized_biscuit \<Rightarrow> public_key option list" where
  "external_public_keys t = None # map block_key (se_blocks t)"

definition biscuit_context :: "biscuit \<Rightarrow> string option list" where
  "biscuit_context t = pbl_context (bi_authority t) # map pbl_context (bi_blocks t)"

definition block_count :: "biscuit \<Rightarrow> nat" where
  "block_count t = 1 + length (bi_blocks t)"

definition block_symbols :: "biscuit \<Rightarrow> nat \<Rightarrow> (token_error, string list) outcome" where
  "block_symbols t i =
     (if i = 0 then Ok (pbl_symbols (bi_authority t))
      else obind (ok_or (Token_Format (InvalidBlockId i)) (nth_opt (bi_blocks t) (i - 1)))
        (\<lambda>b. Ok (pbl_symbols b)))"

fun insert_proto_keys :: "primitives \<Rightarrow> ppublic_key list \<Rightarrow> public_keys \<Rightarrow> (format_error, public_keys) outcome" where
  "insert_proto_keys p [] keys = Ok keys"
| "insert_proto_keys p (k # ks) keys =
     obind (public_from_proto p k) (\<lambda>key. insert_proto_keys p ks (snd (pk_insert key keys)))"

definition block_public_keys :: "primitives \<Rightarrow> biscuit \<Rightarrow> nat \<Rightarrow> (token_error, public_keys) outcome" where
  "block_public_keys p t i =
     obind (if i = 0 then Ok (bi_authority t)
            else ok_or (Token_Format (InvalidBlockId i)) (nth_opt (bi_blocks t) (i - 1)))
       (\<lambda>b. omap_err Token_Format (insert_proto_keys p (pbl_public_keys b) pk_new))"

definition block_external_key :: "biscuit \<Rightarrow> nat \<Rightarrow> (token_error, public_key option) outcome" where
  "block_external_key t i =
     (if i = 0 then Ok (block_key (se_authority (bi_container t)))
      else obind (ok_or (Token_Format (InvalidBlockId i)) (nth_opt (se_blocks (bi_container t)) (i - 1)))
        (\<lambda>b. Ok (block_key b)))"

definition read_block ::
    "primitives \<Rightarrow> pblock \<Rightarrow> signed_block \<Rightarrow> (token_error, block) outcome" where
  "read_block p message b = omap_err Token_Format (proto_block_to_token_block p message (block_key b))"

text \<open>
  The bound of the code is one too large: an index just past the last block is not refused and
  the indexing that follows panics.
\<close>

definition biscuit_block :: "primitives \<Rightarrow> biscuit \<Rightarrow> nat \<Rightarrow> (token_error, block) outcome" where
  "biscuit_block p t i =
     (if i = 0 then read_block p (bi_authority t) (se_authority (bi_container t))
      else if i > length (bi_blocks t) + 1 then
        Err (Token_Format (BlockDeserializationError ''invalid block index''))
      else
        obind (or_panic (nth_opt (bi_blocks t) (i - 1))) (\<lambda>message.
        obind (or_panic (nth_opt (se_blocks (bi_container t)) (i - 1))) (\<lambda>b.
          read_block p message b)))"

text \<open>An iterator: each element is read when it is asked for.\<close>

definition biscuit_block_results :: "primitives \<Rightarrow> biscuit \<Rightarrow> (token_error, block) outcome list" where
  "biscuit_block_results p t =
     read_block p (bi_authority t) (se_authority (bi_container t)) #
     map (\<lambda>(message, b). read_block p message b) (zip (bi_blocks t) (se_blocks (bi_container t)))"

definition block_version_at :: "primitives \<Rightarrow> biscuit \<Rightarrow> nat \<Rightarrow> (token_error, nat) outcome" where
  "block_version_at p t i = obind (biscuit_block p t i) (\<lambda>b. Ok (bl_version b))"

definition newline :: string where
  "newline = [CHR 0x0A]"

definition lines_of :: "string list \<Rightarrow> string" where
  "lines_of xs = join ('';'' @ newline) xs @ (if xs = [] then [] else '';'' @ newline)"

definition block_print_source :: "formats \<Rightarrow> block \<Rightarrow> symbol_table \<Rightarrow> string" where
  "block_print_source fmt b symbols =
     lines_of (map (print_fact fmt symbols) (bl_facts b)) @
     lines_of (map (print_rule fmt symbols) (bl_rules b)) @
     lines_of (map (print_check fmt symbols) (bl_checks b))"

definition print_block_source :: "formats \<Rightarrow> primitives \<Rightarrow> biscuit \<Rightarrow> nat \<Rightarrow> (token_error, string) outcome" where
  "print_block_source fmt p t i =
     obind (biscuit_block p t i) (\<lambda>b.
       Ok (block_print_source fmt b
         (if bl_external_key b \<noteq> None then bl_symbols b else bi_symbols t)))"

section \<open>The token builder\<close>

record biscuit_builder =
  bu_inner :: block_builder
  bu_root_key_id :: "nat option"

definition bu_new :: biscuit_builder where
  "bu_new = \<lparr>bu_inner = bb_new, bu_root_key_id = None\<rparr>"

definition bu_merge :: "block_builder \<Rightarrow> biscuit_builder \<Rightarrow> biscuit_builder" where
  "bu_merge other b = b\<lparr>bu_inner := bb_merge (bu_inner b) other\<rparr>"

definition bu_set_root_key_id :: "nat \<Rightarrow> biscuit_builder \<Rightarrow> biscuit_builder" where
  "bu_set_root_key_id i b = b\<lparr>bu_root_key_id := Some i\<rparr>"

text \<open>\<open>fact\<close>, \<open>rule\<close>, \<open>check\<close> and \<open>code_with_params\<close> pass to the block builder.\<close>

definition bu_try ::
    "(block_builder \<Rightarrow> (token_error, block_builder) outcome) \<Rightarrow> biscuit_builder \<Rightarrow>
     (token_error, biscuit_builder) outcome" where
  "bu_try f b = obind (f (bu_inner b)) (\<lambda>inner. Ok (b\<lparr>bu_inner := inner\<rparr>))"

definition bu_map :: "(block_builder \<Rightarrow> block_builder) \<Rightarrow> biscuit_builder \<Rightarrow> biscuit_builder" where
  "bu_map f b = b\<lparr>bu_inner := f (bu_inner b)\<rparr>"

definition bu_fact :: "bfact \<Rightarrow> biscuit_builder \<Rightarrow> (token_error, biscuit_builder) outcome" where
  "bu_fact f = bu_try (bb_fact f)"

definition bu_rule :: "brule \<Rightarrow> biscuit_builder \<Rightarrow> (token_error, biscuit_builder) outcome" where
  "bu_rule r = bu_try (bb_rule r)"

definition bu_check :: "bcheck \<Rightarrow> biscuit_builder \<Rightarrow> (token_error, biscuit_builder) outcome" where
  "bu_check c = bu_try (bb_check c)"

definition bu_scope :: "bscope \<Rightarrow> biscuit_builder \<Rightarrow> biscuit_builder" where
  "bu_scope s = bu_map (bb_scope s)"

definition bu_set_context :: "string \<Rightarrow> biscuit_builder \<Rightarrow> biscuit_builder" where
  "bu_set_context s = bu_map (bb_set_context s)"

definition bu_code_with_params ::
    "(string \<Rightarrow> (language_error, source_result) outcome) \<Rightarrow> string \<Rightarrow> (string \<times> bterm) list \<Rightarrow>
     (string \<times> public_key) list \<Rightarrow> biscuit_builder \<Rightarrow> (token_error, biscuit_builder) outcome" where
  "bu_code_with_params parse source params scope_params =
     bu_try (bb_code_with_params parse source params scope_params)"

definition bu_dump :: "biscuit_builder \<Rightarrow> bfact list \<times> brule list \<times> bcheck list" where
  "bu_dump b = (bb_facts (bu_inner b), bb_rules (bu_inner b), bb_checks (bu_inner b))"

definition build_with_key_pair ::
    "primitives \<Rightarrow> codec \<Rightarrow> biscuit_builder \<Rightarrow> keypair \<Rightarrow> symbol_table \<Rightarrow> keypair \<Rightarrow>
     (token_error, biscuit) outcome" where
  "build_with_key_pair p c b root symbols next_kp =
     obind (or_panic (bb_build (bu_inner b) symbols))
       (biscuit_new_with_key_pair p c (bu_root_key_id b) root next_kp symbols)"

section \<open>Unverified tokens\<close>

text \<open>A token that was read without checking a signature; the root key id is the container's.\<close>

record unverified_biscuit =
  ub_authority :: pblock
  ub_blocks :: "pblock list"
  ub_symbols :: symbol_table
  ub_container :: serialized_biscuit

definition ub_from_with_symbols ::
    "primitives \<Rightarrow> codec \<Rightarrow> verification_mode \<Rightarrow> bytes \<Rightarrow> symbol_table \<Rightarrow>
     (token_error, unverified_biscuit) outcome" where
  "ub_from_with_symbols p c mode input symbols =
     obind (omap_err Token_Format (deserialize p c input mode)) (\<lambda>container.
     obind (extract_blocks p c container symbols) (\<lambda>((authority, blocks), symbols').
       Ok \<lparr>ub_authority = authority, ub_blocks = blocks, ub_symbols = symbols',
           ub_container = container\<rparr>))"

definition ub_from :: "primitives \<Rightarrow> codec \<Rightarrow> bytes \<Rightarrow> (token_error, unverified_biscuit) outcome" where
  "ub_from p c input = ub_from_with_symbols p c PreviousSignatureHashing input default_symbol_table"

definition ub_unsafe_from :: "primitives \<Rightarrow> codec \<Rightarrow> bytes \<Rightarrow> (token_error, unverified_biscuit) outcome" where
  "ub_unsafe_from p c input = ub_from_with_symbols p c UnsafeLegacy input default_symbol_table"

definition ub_verify ::
    "primitives \<Rightarrow> key_provider \<Rightarrow> unverified_biscuit \<Rightarrow> (format_error, biscuit) outcome" where
  "ub_verify p provider t =
     obind (provider (se_root_key_id (ub_container t))) (\<lambda>key.
     obind (verify p (ub_container t) key) (\<lambda>_.
       Ok \<lparr>bi_root_key_id = se_root_key_id (ub_container t), bi_authority = ub_authority t,
           bi_blocks = ub_blocks t, bi_symbols = ub_symbols t, bi_container = ub_container t\<rparr>))"

definition ub_append_with_keypair ::
    "primitives \<Rightarrow> codec \<Rightarrow> unverified_biscuit \<Rightarrow> keypair \<Rightarrow> block_builder \<Rightarrow>
     (token_error, unverified_biscuit) outcome" where
  "ub_append_with_keypair p c t kp bb =
     obind (or_panic (bb_build bb (ub_symbols t))) (\<lambda>block.
     if \<not> st_is_disjoint (ub_symbols t) (bl_symbols block) then Err (Token_Format SymbolTableOverlap)
     else
       obind (container_append p c (ub_container t) kp block None) (\<lambda>container.
       obind (omap_err Token_Format (st_extend (ub_symbols t) (bl_symbols block))) (\<lambda>symbols.
       obind (omap_err Token_Format (pk_extend (st_public_keys symbols) (bl_public_keys block))) (\<lambda>keys.
       obind (decode_signed c (last_block container)) (\<lambda>deser.
         Ok \<lparr>ub_authority = ub_authority t, ub_blocks = ub_blocks t @ [deser],
             ub_symbols = symbols\<lparr>st_public_keys := keys\<rparr>, ub_container = container\<rparr>)))))"

text \<open>Unlike in \<open>Biscuit\<close>, every block gets the keys of the whole token.\<close>

definition ub_block :: "primitives \<Rightarrow> unverified_biscuit \<Rightarrow> nat \<Rightarrow> (token_error, block) outcome" where
  "ub_block p t i =
     obind
       (if i = 0 then read_block p (ub_authority t) (se_authority (ub_container t))
        else if i > length (ub_blocks t) + 1 then
          Err (Token_Format (BlockDeserializationError ''invalid block index''))
        else
          obind (or_panic (nth_opt (ub_blocks t) (i - 1))) (\<lambda>message.
          obind (or_panic (nth_opt (se_blocks (ub_container t)) (i - 1))) (\<lambda>b.
            read_block p message b)))
       (\<lambda>b. Ok (b\<lparr>bl_symbols := (bl_symbols b)\<lparr>st_public_keys := st_public_keys (ub_symbols t)\<rparr>\<rparr>))"

definition ub_block_count :: "unverified_biscuit \<Rightarrow> nat" where
  "ub_block_count t = 1 + length (se_blocks (ub_container t))"

definition ub_seal :: "primitives \<Rightarrow> unverified_biscuit \<Rightarrow> (token_error, unverified_biscuit) outcome" where
  "ub_seal p t =
     obind (container_seal p (ub_container t)) (\<lambda>container. Ok (t\<lparr>ub_container := container\<rparr>))"

fun insert_all_keys :: "public_key list \<Rightarrow> public_keys \<Rightarrow> (format_error, public_keys) outcome" where
  "insert_all_keys [] keys = Ok keys"
| "insert_all_keys (k # ks) keys =
     obind (pk_insert_fallible k keys) (\<lambda>(_, keys'). insert_all_keys ks keys')"

text \<open>
  The algorithm number is looked up before the key is read.  The signature is not verified, the
  block is read with an \<open>unwrap\<close>, and its keys join those of the token.  The message of the key
  error, a \<open>Debug\<close> rendering, is the argument \<open>debug\<close>.
\<close>

definition ub_append_third_party_with_keypair ::
    "(format_error \<Rightarrow> string) \<Rightarrow> primitives \<Rightarrow> codec \<Rightarrow> third_party_codec \<Rightarrow> unverified_biscuit \<Rightarrow>
     bytes \<Rightarrow> keypair \<Rightarrow> (token_error, unverified_biscuit) outcome" where
  "ub_append_third_party_with_keypair debug p c tc t input next_kp =
     obind (omap_err (\<lambda>e. Token_Format (deserialization_error e)) (decode_contents tc input)) (\<lambda>contents.
     let payload = ptc_payload contents; ext = ptc_external_signature contents in
     obind (ok_or (Token_Format (deserialization_error ''invalid external key algorithm''))
         (of_tag_in [Ed25519, Secp256r1] (ppk_algorithm (pes_public_key ext)))) (\<lambda>algorithm.
     obind (omap_err (\<lambda>e. Token_Format (BlockSignatureDeserializationError
           (''block external public key deserialization error: '' @ debug e)))
         (public_from_bytes p (ppk_key (pes_public_key ext)) algorithm)) (\<lambda>external_key.
     obind (omap_err (\<lambda>e. Token_Format (deserialization_error e)) (decode_block c payload)) (\<lambda>block.
     obind (container_append_serialized p (ub_container t) next_kp payload
         (Some \<lparr>xs_public_key = external_key, xs_signature = pes_signature ext\<rparr>)) (\<lambda>container.
     obind (case proto_block_to_token_block p block (Some external_key) of
         Ok b \<Rightarrow> Ok b | _ \<Rightarrow> Panic) (\<lambda>token_block.
     obind (omap_err Token_Format (insert_all_keys (pk_keys (bl_public_keys token_block))
         (st_public_keys (ub_symbols t)))) (\<lambda>keys.
       Ok (t\<lparr>ub_blocks := ub_blocks t @ [block],
             ub_symbols := (ub_symbols t)\<lparr>st_public_keys := keys\<rparr>,
             ub_container := container\<rparr>))))))))"

end
