(* ===== verification/Authorizer_Builder.thy ===== *)
theory Authorizer_Builder
  imports Tokens World
begin

text \<open>
  The authorizer and its builder (\<open>token/authorizer.rs\<close>, \<open>token/builder/authorizer.rs\<close>): collecting
  the application's facts, rules, checks and policies, and loading a token beside them.  Every block
  is moved to the authorizer's own table; a fact of block \<open>i\<close> has the origin \<open>{i}\<close>, a fact of the
  authorizer the origin \<open>{usize::MAX}\<close>, and each rule is stored under the origins its scopes trust.
\<close>

section \<open>The builder\<close>

record authorizer_builder =
  ab_block :: block_builder
  ab_policies :: "policy list"
  ab_externs :: extern_funcs
  ab_limits :: run_limits

definition ab_new :: authorizer_builder where
  "ab_new = \<lparr>ab_block = bb_new, ab_policies = [], ab_externs = (\<lambda>_. None), ab_limits = default_limits\<rparr>"

definition ab_merge_block :: "block_builder \<Rightarrow> authorizer_builder \<Rightarrow> authorizer_builder" where
  "ab_merge_block other a = a\<lparr>ab_block := bb_merge (ab_block a) other\<rparr>"

definition ab_merge :: "authorizer_builder \<Rightarrow> authorizer_builder \<Rightarrow> authorizer_builder" where
  "ab_merge self other =
     self\<lparr>ab_policies := ab_policies self @ ab_policies other,
          ab_externs := ab_externs self ++ ab_externs other,
          ab_block := bb_merge (ab_block self) (ab_block other)\<rparr>"

definition ab_try ::
    "(block_builder \<Rightarrow> (token_error, block_builder) outcome) \<Rightarrow> authorizer_builder \<Rightarrow>
     (token_error, authorizer_builder) outcome" where
  "ab_try f a = obind (f (ab_block a)) (\<lambda>b. Ok (a\<lparr>ab_block := b\<rparr>))"

definition ab_fact :: "bfact \<Rightarrow> authorizer_builder \<Rightarrow> (token_error, authorizer_builder) outcome" where
  "ab_fact f = ab_try (bb_fact f)"

definition ab_rule :: "brule \<Rightarrow> authorizer_builder \<Rightarrow> (token_error, authorizer_builder) outcome" where
  "ab_rule r = ab_try (bb_rule r)"

definition ab_check :: "bcheck \<Rightarrow> authorizer_builder \<Rightarrow> (token_error, authorizer_builder) outcome" where
  "ab_check c = ab_try (bb_check c)"

definition ab_scope :: "bscope \<Rightarrow> authorizer_builder \<Rightarrow> authorizer_builder" where
  "ab_scope s a = a\<lparr>ab_block := bb_scope s (ab_block a)\<rparr>"

definition ab_policy :: "policy \<Rightarrow> authorizer_builder \<Rightarrow> (token_error, authorizer_builder) outcome" where
  "ab_policy po a =
     obind (policy_validate_parameters po) (\<lambda>_. Ok (a\<lparr>ab_policies := ab_policies a @ [po]\<rparr>))"

definition ab_set_limits :: "run_limits \<Rightarrow> authorizer_builder \<Rightarrow> authorizer_builder" where
  "ab_set_limits l a = a\<lparr>ab_limits := l\<rparr>"

definition ab_set_extern_funcs :: "extern_funcs \<Rightarrow> authorizer_builder \<Rightarrow> authorizer_builder" where
  "ab_set_extern_funcs fs a = a\<lparr>ab_externs := fs\<rparr>"

definition ab_register_extern_funcs :: "extern_funcs \<Rightarrow> authorizer_builder \<Rightarrow> authorizer_builder" where
  "ab_register_extern_funcs fs a = a\<lparr>ab_externs := ab_externs a ++ fs\<rparr>"

text \<open>What the parser answers for a source with policies.\<close>

record source_policies =
  sp_source :: source_result
  sp_policies :: "policy list"

fun ab_code_policies ::
    "(string \<times> bterm) list \<Rightarrow> (string \<times> public_key) list \<Rightarrow> policy list \<Rightarrow> authorizer_builder \<Rightarrow>
     (token_error, authorizer_builder) outcome" where
  "ab_code_policies params scope_params [] a = Ok a"
| "ab_code_policies params scope_params (po # ps) a =
     obind (set_all policy_set params po) (\<lambda>p1.
     obind (set_all policy_set_scope scope_params p1) (\<lambda>p2.
     obind (ab_policy p2 a) (ab_code_policies params scope_params ps)))"

definition ab_code_with_params ::
    "(string \<Rightarrow> (language_error, source_policies) outcome) \<Rightarrow> string \<Rightarrow> (string \<times> bterm) list \<Rightarrow>
     (string \<times> public_key) list \<Rightarrow> authorizer_builder \<Rightarrow> (token_error, authorizer_builder) outcome" where
  "ab_code_with_params parse source params scope_params a =
     obind (omap_err Token_Language (parse source)) (\<lambda>res.
     obind (bb_code_facts params (so_facts (sp_source res)) (ab_block a)) (\<lambda>b1.
     obind (bb_code_rules params scope_params (so_rules (sp_source res)) b1) (\<lambda>b2.
     obind (bb_code_checks params scope_params (so_checks (sp_source res)) b2) (\<lambda>b3.
       ab_code_policies params scope_params (sp_policies res) (a\<lparr>ab_block := b3\<rparr>)))))"

section \<open>The authorizer\<close>

text \<open>\<open>execution_time\<close> is in nanoseconds, like the limits.\<close>

record authorizer =
  au_block :: block_builder
  au_world :: world
  au_symbols :: symbol_table
  au_token_origins :: trusted_origins
  au_policies :: "policy list"
  au_blocks :: "block list option"
  au_key_blocks :: key_blocks
  au_limits :: run_limits
  au_execution_time :: "nat option"

definition authorizer_new :: authorizer where
  "authorizer_new =
     \<lparr>au_block = bb_new, au_world = world_new, au_symbols = default_symbol_table,
      au_token_origins = default_trusted, au_policies = [], au_blocks = None,
      au_key_blocks = (\<lambda>_. None), au_limits = default_limits, au_execution_time = None\<rparr>"

section \<open>Loading a block\<close>

definition block_origin :: "nat \<Rightarrow> origin" where
  "block_origin i = origin_insert i {||}"

definition block_table :: "block \<Rightarrow> nat \<Rightarrow> symbol_table \<Rightarrow> symbol_table" where
  "block_table b i token_symbols =
     (if i = 0 \<or> bl_external_key b = None then token_symbols else bl_symbols b)"

definition insert_rule :: "nat \<Rightarrow> trusted_origins \<Rightarrow> key_blocks \<Rightarrow> rule \<Rightarrow> world \<Rightarrow> world" where
  "insert_rule i trusted keys r w = add_rule i (from_scopes (r_scopes r) trusted i keys) r w"

definition load_rule ::
    "formats \<Rightarrow> symbol_table \<Rightarrow> rule \<Rightarrow> symbol_table \<Rightarrow> (token_error, rule \<times> symbol_table) outcome" where
  "load_rule fmt src r dst =
     (case validate_variables r of
        Ok () \<Rightarrow> omap_err Token_Format (rule_translate src r dst)
      | _ \<Rightarrow> Err (FailedLogic (InvalidBlockRule 0 (print_rule fmt src r))))"

text \<open>
  The elements are converted in the order of the code; inserting a fact or a rule never fails, so
  the insertions are done after the conversions they alternate with.
\<close>

definition load_and_translate_block ::
    "formats \<Rightarrow> block \<Rightarrow> nat \<Rightarrow> symbol_table \<Rightarrow> key_blocks \<Rightarrow> symbol_table \<Rightarrow> world \<Rightarrow>
     (token_error, block \<times> symbol_table \<times> world) outcome" where
  "load_and_translate_block fmt b i token_symbols keys symbols w =
     (let src = block_table b i token_symbols in
      obind (omap_err Token_Format
        (otraverse (\<lambda>c. read_then_write (scope_convert_from c src) scope_convert) (bl_scopes b) symbols))
        (\<lambda>(scopes, s1).
      let trusted = from_scopes scopes default_trusted i keys in
      obind (omap_err Token_Format (otraverse (fact_translate src) (bl_facts b) s1)) (\<lambda>(facts, s2).
      obind (otraverse (load_rule fmt src) (bl_rules b) s2) (\<lambda>(rules, s3).
      obind (omap_err Token_Format (otraverse (check_translate src) (bl_checks b) s3)) (\<lambda>(checks, s4).
        Ok (b\<lparr>bl_scopes := scopes, bl_facts := facts, bl_rules := rules, bl_checks := checks\<rparr>, s4,
            fold (insert_rule i trusted keys) rules (fold (add_fact (block_origin i)) facts w)))))))"

section \<open>Building an authorizer\<close>

text \<open>The blocks that each external key signed, by the index of the key in the new table.\<close>

definition push_entry :: "nat \<Rightarrow> nat \<Rightarrow> key_blocks \<Rightarrow> key_blocks" where
  "push_entry key i keys = keys(key \<mapsto> (case keys key of None \<Rightarrow> [] | Some is \<Rightarrow> is) @ [i])"

fun external_keys_loop :: "nat \<Rightarrow> signed_block list \<Rightarrow> symbol_table \<Rightarrow> key_blocks \<Rightarrow> symbol_table \<times> key_blocks" where
  "external_keys_loop i [] symbols keys = (symbols, keys)"
| "external_keys_loop i (b # bs) symbols keys =
     (case sb_external_signature b of
        None \<Rightarrow> external_keys_loop (i + 1) bs symbols keys
      | Some x \<Rightarrow>
          (case pk_insert (xs_public_key x) (st_public_keys symbols) of
             (new_key_id, pks) \<Rightarrow>
               external_keys_loop (i + 1) bs (symbols\<lparr>st_public_keys := pks\<rparr>)
                 (push_entry new_key_id (i + 1) keys)))"

fun load_blocks ::
    "formats \<Rightarrow> nat \<Rightarrow> (token_error, block) outcome list \<Rightarrow> symbol_table \<Rightarrow> key_blocks \<Rightarrow> symbol_table \<Rightarrow>
     world \<Rightarrow> (token_error, block list \<times> symbol_table \<times> world) outcome" where
  "load_blocks fmt i [] token_symbols keys symbols w = Ok ([], symbols, w)"
| "load_blocks fmt i (res # rest) token_symbols keys symbols w =
     obind res (\<lambda>b.
     obind (load_and_translate_block fmt b i token_symbols keys symbols w) (\<lambda>(b', symbols', w').
     obind (load_blocks fmt (i + 1) rest token_symbols keys symbols' w') (\<lambda>(bs, symbols'', w'').
       Ok (b' # bs, symbols'', w''))))"

text \<open>What the authorizer itself adds: its scopes, then its facts, then its rules.\<close>

definition load_authorizer ::
    "block_builder \<Rightarrow> key_blocks \<Rightarrow> symbol_table \<Rightarrow> world \<Rightarrow> (symbol_table \<times> world) option" where
  "load_authorizer bb keys symbols w =
     (case smap scope_convert (bb_scopes bb) symbols of None \<Rightarrow> None
      | Some (scopes, s1) \<Rightarrow>
     (case smap fact_convert (bb_facts bb) s1 of None \<Rightarrow> None
      | Some (facts, s2) \<Rightarrow>
     (case smap rule_convert (bb_rules bb) s2 of None \<Rightarrow> None
      | Some (rules, s3) \<Rightarrow>
          Some (s3, fold (insert_rule usize_max (from_scopes scopes default_trusted usize_max keys) keys) rules
                      (fold (add_fact (block_origin usize_max)) facts w)))))"

definition build_inner ::
    "formats \<Rightarrow> primitives \<Rightarrow> authorizer_builder \<Rightarrow> biscuit option \<Rightarrow> (token_error, authorizer) outcome" where
  "build_inner fmt p a token =
     (let w0 = world_new\<lparr>w_externs := ab_externs a\<rparr> in
      obind
        (case token of
           None \<Rightarrow> Ok (None, default_trusted, st_new, \<lambda>_. None, w0)
         | Some t \<Rightarrow>
             (case external_keys_loop 0 (se_blocks (bi_container t)) st_new (\<lambda>_. None) of
                (symbols, keys) \<Rightarrow>
                  obind (load_blocks fmt 0 (biscuit_block_results p t) (bi_symbols t) keys symbols w0)
                    (\<lambda>(blocks, symbols', w).
                      Ok (Some blocks, from_scopes [Scope_Previous] default_trusted (block_count t) keys,
                          symbols', keys, w))))
        (\<lambda>(blocks, token_origins, symbols, keys, w).
      obind (or_panic (load_authorizer (ab_block a) keys symbols w)) (\<lambda>(symbols', w').
        Ok \<lparr>au_block = ab_block a, au_world = w', au_symbols = symbols', au_token_origins = token_origins,
            au_policies = ab_policies a, au_blocks = blocks, au_key_blocks = keys, au_limits = ab_limits a,
            au_execution_time = None\<rparr>)))"

definition ab_build ::
    "formats \<Rightarrow> primitives \<Rightarrow> biscuit \<Rightarrow> authorizer_builder \<Rightarrow> (token_error, authorizer) outcome" where
  "ab_build fmt p t a = build_inner fmt p a (Some t)"

definition build_unauthenticated ::
    "formats \<Rightarrow> primitives \<Rightarrow> authorizer_builder \<Rightarrow> (token_error, authorizer) outcome" where
  "build_unauthenticated fmt p a = build_inner fmt p a None"

definition from_token :: "formats \<Rightarrow> primitives \<Rightarrow> biscuit \<Rightarrow> (token_error, authorizer) outcome" where
  "from_token fmt p t = ab_build fmt p t ab_new"

section \<open>Saving and restoring the policies\<close>

definition authorizer_save :: "authorizer \<Rightarrow> authorizer_policies" where
  "authorizer_save a =
     \<lparr>ap_version = MAX_SCHEMA_VERSION, ap_facts = bb_facts (au_block a), ap_rules = bb_rules (au_block a),
      ap_checks = bb_checks (au_block a), ap_policies = au_policies a\<rparr>"

fun bb_all :: "('x \<Rightarrow> block_builder \<Rightarrow> (token_error, block_builder) outcome) \<Rightarrow> 'x list \<Rightarrow> block_builder \<Rightarrow>
    (token_error, block_builder) outcome" where
  "bb_all f [] b = Ok b"
| "bb_all f (x # xs) b = obind (f x b) (bb_all f xs)"

definition authorizer_try_from :: "authorizer_policies \<Rightarrow> (token_error, authorizer) outcome" where
  "authorizer_try_from ap =
     obind (bb_all bb_fact (ap_facts ap) (au_block authorizer_new)) (\<lambda>b1.
     obind (bb_all bb_rule (ap_rules ap) b1) (\<lambda>b2.
     obind (bb_all bb_check (ap_checks ap) b2) (\<lambda>b3.
       Ok (authorizer_new\<lparr>au_block := b3, au_policies := ap_policies ap\<rparr>))))"

end
