(* ===== verification/Authorizer.thy ===== *)
theory Authorizer
  imports Authorizer_Builder
begin

text \<open>
  Running an authorizer (\<open>token/authorizer.rs\<close>): saturation, authorization, and queries.
  \<open>authorize_inner\<close> converts the authorizer's checks and policies into the symbol table as it goes
  and reads the clock after each query: the monad \<open>auth\<close> threads the table and the number of
  readings.  The \<open>i\<close>-th reading of the clock is the \<open>i\<close>-th value of a function of the timing
  argument, on which no theorem puts a condition unless it says so.
\<close>

section \<open>Saturation\<close>

record timing =
  ti_run :: "nat \<Rightarrow> nat"          \<comment> \<open>readings in \<open>run_with_limits\<close>\<close>
  ti_run_elapsed :: nat
  ti_inner :: "nat \<Rightarrow> nat"        \<comment> \<open>readings in \<open>authorize_inner\<close>\<close>
  ti_inner_elapsed :: nat

definition authorizer_run :: "regex \<Rightarrow> timing \<Rightarrow> authorizer \<Rightarrow> (token_error, nat) outcome \<times> authorizer" where
  "authorizer_run rx ti a =
     (case au_execution_time a of
        Some execution_time \<Rightarrow> (Ok execution_time, a)
      | None \<Rightarrow>
          (case run_with_limits rx (ti_run ti) (au_symbols a) (au_limits a) (au_world a) of
             (Ok (), w) \<Rightarrow>
               (Ok (ti_run_elapsed ti), a\<lparr>au_world := w, au_execution_time := Some (ti_run_elapsed ti)\<rparr>)
           | (Err e, w) \<Rightarrow> (Err (token_of_execution e), a\<lparr>au_world := w\<rparr>)
           | (Panic, w) \<Rightarrow> (Panic, a\<lparr>au_world := w\<rparr>)))"

section \<open>The monad of \<open>authorize_inner\<close>\<close>

type_synonym 'a auth = "symbol_table \<times> nat \<Rightarrow> (token_error, 'a) outcome \<times> symbol_table \<times> nat"

definition areturn :: "'a \<Rightarrow> 'a auth" where
  "areturn x st = (Ok x, st)"

definition abind :: "'a auth \<Rightarrow> ('a \<Rightarrow> 'b auth) \<Rightarrow> 'b auth" where
  "abind m f st =
     (case m st of
        (Ok x, st') \<Rightarrow> f x st'
      | (Err e, st') \<Rightarrow> (Err e, st')
      | (Panic, st') \<Rightarrow> (Panic, st'))"

text \<open>A conversion into the table, which panics on a parameter, and an outcome read off the table.\<close>

definition aconvert :: "('x \<Rightarrow> symbol_table \<Rightarrow> ('y \<times> symbol_table) option) \<Rightarrow> 'x \<Rightarrow> 'y auth" where
  "aconvert f x st =
     (case f x (fst st) of Some (y, symbols) \<Rightarrow> (Ok y, symbols, snd st) | None \<Rightarrow> (Panic, st))"

definition aread :: "(symbol_table \<Rightarrow> (token_error, 'a) outcome) \<Rightarrow> 'a auth" where
  "aread f st = (f (fst st), st)"

definition acheck_time :: "(nat \<Rightarrow> nat) \<Rightarrow> nat \<Rightarrow> unit auth" where
  "acheck_time clock time_limit st =
     (if clock (snd st) \<ge> time_limit then Err (Token_RunLimit Timeout) else Ok (), fst st, snd st + 1)"

section \<open>Checks and policies\<close>

text \<open>What the loops of \<open>authorize_inner\<close> share.\<close>

record auth_env =
  ev_regex :: regex
  ev_clock :: "nat \<Rightarrow> nat"
  ev_time_limit :: nat
  ev_world :: world
  ev_keys :: key_blocks

definition negate_result :: "('e, bool) outcome \<Rightarrow> ('e, bool) outcome" where
  "negate_result m = obind m (\<lambda>b. Ok (\<not> b))"

definition query_result ::
    "auth_env \<Rightarrow> check_kind \<Rightarrow> nat \<Rightarrow> trusted_origins \<Rightarrow> rule \<Rightarrow> symbol_table \<Rightarrow> (token_error, bool) outcome" where
  "query_result env kind og trusted q symbols =
     omap_err token_of_execution
       (case kind of
          One_kind \<Rightarrow> query_match (ev_regex env) symbols q og trusted (ev_world env)
        | All_kind \<Rightarrow> query_match_all (ev_regex env) symbols q trusted (ev_world env)
        | Reject_kind \<Rightarrow> negate_result (query_match (ev_regex env) symbols q og trusted (ev_world env)))"

text \<open>One query of block \<open>og\<close>, under the trust of that block.\<close>

definition run_query :: "auth_env \<Rightarrow> check_kind \<Rightarrow> nat \<Rightarrow> trusted_origins \<Rightarrow> rule \<Rightarrow> bool auth" where
  "run_query env kind og trusted q =
     abind (aread (query_result env kind og (from_scopes (r_scopes q) trusted og (ev_keys env)) q)) (\<lambda>res.
     abind (acheck_time (ev_clock env) (ev_time_limit env)) (\<lambda>_. areturn res))"

text \<open>The loop over the queries of a check or a policy, until one succeeds.\<close>

fun any_query :: "('q \<Rightarrow> bool auth) \<Rightarrow> 'q list \<Rightarrow> bool auth" where
  "any_query f [] = areturn False"
| "any_query f (q # qs) = abind (f q) (\<lambda>res. if res then areturn True else any_query f qs)"

definition convert_query :: "auth_env \<Rightarrow> check_kind \<Rightarrow> trusted_origins \<Rightarrow> brule \<Rightarrow> bool auth" where
  "convert_query env kind trusted q = abind (aconvert rule_convert q) (run_query env kind usize_max trusted)"

text \<open>The failure of a check, if it fails.\<close>

definition authorizer_check ::
    "formats \<Rightarrow> auth_env \<Rightarrow> trusted_origins \<Rightarrow> nat \<Rightarrow> bcheck \<Rightarrow> failed_check option auth" where
  "authorizer_check fmt env trusted i ch =
     abind (aconvert check_convert ch) (\<lambda>d.
     abind (any_query (convert_query env (bc_kind ch) trusted) (bc_queries ch)) (\<lambda>successful.
       aread (\<lambda>symbols. Ok
         (if successful then None
          else Some (FailedCheck_Authorizer \<lparr>fa_check_id = as_u32 i, fa_rule = print_check fmt symbols d\<rparr>)))))"

definition block_check ::
    "formats \<Rightarrow> auth_env \<Rightarrow> nat \<Rightarrow> trusted_origins \<Rightarrow> nat \<Rightarrow> check \<Rightarrow> failed_check option auth" where
  "block_check fmt env i trusted j ch =
     abind (any_query (run_query env (c_kind ch) i trusted) (c_queries ch)) (\<lambda>successful.
       aread (\<lambda>symbols. Ok
         (if successful then None
          else Some (FailedCheck_Block
            \<lparr>fb_block_id = as_u32 i, fb_check_id = as_u32 j, fb_rule = print_check fmt symbols ch\<rparr>))))"

text \<open>The failures of a list of checks, numbered from \<open>i\<close>.\<close>

fun failures :: "(nat \<Rightarrow> 'c \<Rightarrow> failed_check option auth) \<Rightarrow> nat \<Rightarrow> 'c list \<Rightarrow> failed_check list auth" where
  "failures f i [] = areturn []"
| "failures f i (c # cs) =
     abind (f i c) (\<lambda>res. abind (failures f (i + 1) cs) (\<lambda>rest.
       areturn (case res of None \<Rightarrow> rest | Some e \<Rightarrow> e # rest)))"

definition block_failures :: "formats \<Rightarrow> auth_env \<Rightarrow> nat \<Rightarrow> block \<Rightarrow> failed_check list auth" where
  "block_failures fmt env i b =
     failures (block_check fmt env i (from_scopes (bl_scopes b) default_trusted i (ev_keys env))) 0 (bl_checks b)"

fun blocks_failures :: "formats \<Rightarrow> auth_env \<Rightarrow> nat \<Rightarrow> block list \<Rightarrow> failed_check list auth" where
  "blocks_failures fmt env i [] = areturn []"
| "blocks_failures fmt env i (b # bs) =
     abind (block_failures fmt env i b) (\<lambda>xs. abind (blocks_failures fmt env (i + 1) bs) (\<lambda>ys. areturn (xs @ ys)))"

text \<open>The first policy with a matching query.\<close>

fun first_policy :: "auth_env \<Rightarrow> trusted_origins \<Rightarrow> nat \<Rightarrow> policy list \<Rightarrow> (nat \<times> policy_kind) option auth" where
  "first_policy env trusted i [] = areturn None"
| "first_policy env trusted i (po # ps) =
     abind (any_query (convert_query env One_kind trusted) (po_queries po)) (\<lambda>res.
       if res then areturn (Some (i, po_kind po)) else first_policy env trusted (i + 1) ps)"

definition decide :: "(nat \<times> policy_kind) option \<Rightarrow> failed_check list \<Rightarrow> (token_error, nat) outcome" where
  "decide policy_result errors =
     (case policy_result of
        None \<Rightarrow> Err (FailedLogic (NoMatchingPolicy errors))
      | Some (i, Allow) \<Rightarrow>
          (if errors = [] then Ok i else Err (FailedLogic (Unauthorized (MatchedAllow i) errors)))
      | Some (i, Deny) \<Rightarrow> Err (FailedLogic (Unauthorized (MatchedDeny i) errors)))"

section \<open>Authorization\<close>

text \<open>The authority block's checks; indexing an empty list of blocks panics.\<close>

definition authority_failures :: "formats \<Rightarrow> auth_env \<Rightarrow> block list option \<Rightarrow> failed_check list auth" where
  "authority_failures fmt env blocks =
     (case blocks of
        None \<Rightarrow> areturn []
      | Some [] \<Rightarrow> aread (\<lambda>_. Panic)
      | Some (b # bs) \<Rightarrow> block_failures fmt env 0 b)"

definition other_failures :: "formats \<Rightarrow> auth_env \<Rightarrow> block list option \<Rightarrow> failed_check list auth" where
  "other_failures fmt env blocks =
     (case blocks of None \<Rightarrow> areturn [] | Some bs \<Rightarrow> blocks_failures fmt env 1 (tl bs))"

definition judge ::
    "formats \<Rightarrow> auth_env \<Rightarrow> authorizer \<Rightarrow> ((nat \<times> policy_kind) option \<times> failed_check list) auth" where
  "judge fmt env a =
     abind (aconvert (smap scope_convert) (bb_scopes (au_block a))) (\<lambda>scopes.
     let trusted = from_scopes scopes default_trusted usize_max (ev_keys env) in
     abind (failures (authorizer_check fmt env trusted) 0 (bb_checks (au_block a))) (\<lambda>errors1.
     abind (authority_failures fmt env (au_blocks a)) (\<lambda>errors2.
     abind (first_policy env trusted 0 (au_policies a)) (\<lambda>policy_result.
     abind (other_failures fmt env (au_blocks a)) (\<lambda>errors3.
       areturn (policy_result, errors1 @ errors2 @ errors3))))))"

definition authorize_body :: "formats \<Rightarrow> auth_env \<Rightarrow> authorizer \<Rightarrow> nat auth" where
  "authorize_body fmt env a = abind (judge fmt env a) (\<lambda>(policy_result, errors). aread (\<lambda>_. decide policy_result errors))"

definition env_of :: "regex \<Rightarrow> timing \<Rightarrow> run_limits \<Rightarrow> authorizer \<Rightarrow> auth_env" where
  "env_of rx ti limits a =
     \<lparr>ev_regex = rx, ev_clock = ti_inner ti, ev_time_limit = ti_inner ti 0 + max_time limits,
      ev_world = au_world a, ev_keys = au_key_blocks a\<rparr>"

definition authorize_inner ::
    "formats \<Rightarrow> regex \<Rightarrow> timing \<Rightarrow> run_limits \<Rightarrow> authorizer \<Rightarrow> (token_error, nat) outcome \<times> authorizer" where
  "authorize_inner fmt rx ti limits a =
     (case authorize_body fmt (env_of rx ti limits a) a (au_symbols a, 1) of
        (res, symbols, _) \<Rightarrow> (res, a\<lparr>au_symbols := symbols\<rparr>))"

definition authorize_with_limits ::
    "formats \<Rightarrow> regex \<Rightarrow> timing \<Rightarrow> run_limits \<Rightarrow> authorizer \<Rightarrow> (token_error, nat) outcome \<times> authorizer" where
  "authorize_with_limits fmt rx ti limits a =
     (case authorizer_run rx ti a of
        (Ok execution_time, a1) \<Rightarrow>
          (case authorize_inner fmt rx ti limits a1 of
             (res, a2) \<Rightarrow> (res, a2\<lparr>au_execution_time := Some (execution_time + ti_inner_elapsed ti)\<rparr>))
      | (Err e, a1) \<Rightarrow> (Err e, a1)
      | (Panic, a1) \<Rightarrow> (Panic, a1))"

text \<open>
  The limits that are left after saturation.  The subtraction of the iterations panics on
  underflow when the build checks overflows, and wraps otherwise; its result is never read.
\<close>

definition remaining_limits :: "bool \<Rightarrow> nat \<Rightarrow> authorizer \<Rightarrow> (token_error, run_limits) outcome" where
  "remaining_limits overflow_checks execution_time a =
     (if max_iterations (au_limits a) < w_iterations (au_world a) \<and> overflow_checks then Panic
      else if execution_time \<ge> max_time (au_limits a) then Err (Token_RunLimit Timeout)
      else Ok ((au_limits a)\<lparr>
             max_iterations := (max_iterations (au_limits a) + 2 ^ 64 - w_iterations (au_world a)) mod 2 ^ 64,
             max_time := max_time (au_limits a) - execution_time\<rparr>))"

definition authorize ::
    "formats \<Rightarrow> regex \<Rightarrow> bool \<Rightarrow> timing \<Rightarrow> authorizer \<Rightarrow> (token_error, nat) outcome \<times> authorizer" where
  "authorize fmt rx overflow_checks ti a =
     (case authorizer_run rx ti a of
        (Ok execution_time, a1) \<Rightarrow>
          (case remaining_limits overflow_checks execution_time a1 of
             Ok limits \<Rightarrow> authorize_with_limits fmt rx ti limits a1
           | Err e \<Rightarrow> (Err e, a1)
           | Panic \<Rightarrow> (Panic, a1))
      | (Err e, a1) \<Rightarrow> (Err e, a1)
      | (Panic, a1) \<Rightarrow> (Panic, a1))"

section \<open>Queries\<close>

text \<open>
  \<open>conv\<close> is the conversion of a fact to the type the caller asked for.  A query sees the
  authority block and the authorizer unless it has scopes; \<open>query_all\<close> sees every block.
\<close>

definition query_inner ::
    "regex \<Rightarrow> (bfact \<Rightarrow> (token_error, 't) outcome) \<Rightarrow> rule \<Rightarrow> authorizer \<Rightarrow> (token_error, 't list) outcome" where
  "query_inner rx conv r a =
     obind (omap_err token_of_execution
       (query_rule rx (au_symbols a) r usize_max
         (from_scopes (r_scopes r) default_trusted usize_max (au_key_blocks a)) (au_world a))) (\<lambda>res.
     traverse (\<lambda>f. obind (omap_err Token_Format (fact_convert_from f (au_symbols a))) conv)
       (map snd (fs_iter_all res)))"

definition query_all_inner ::
    "regex \<Rightarrow> (bfact \<Rightarrow> (token_error, 't) outcome) \<Rightarrow> rule \<Rightarrow> authorizer \<Rightarrow> (token_error, 't list) outcome" where
  "query_all_inner rx conv r a =
     obind (omap_err token_of_execution
       (query_rule rx (au_symbols a) r 0
         (if r_scopes r = [] then au_token_origins a
          else from_scopes (r_scopes r) default_trusted usize_max (au_key_blocks a)) (au_world a))) (\<lambda>res.
     traverse (\<lambda>f. obind (omap_err Token_Format (fact_convert_from f (au_symbols a))) conv)
       (remdups (map snd (fs_iter_all res))))"

text \<open>\<open>query_with_limits\<close> and \<open>query_all_with_limits\<close>, which do not use their limits.\<close>

definition with_run ::
    "regex \<Rightarrow> timing \<Rightarrow> (rule \<Rightarrow> authorizer \<Rightarrow> (token_error, 't list) outcome) \<Rightarrow> brule \<Rightarrow> authorizer \<Rightarrow>
     (token_error, 't list) outcome \<times> authorizer" where
  "with_run rx ti inner q a =
     (case authorizer_run rx ti a of
        (Ok execution_time, a1) \<Rightarrow>
          (case rule_convert q (au_symbols a1) of
             None \<Rightarrow> (Panic, a1)
           | Some (r, symbols) \<Rightarrow>
               (let a2 = a1\<lparr>au_symbols := symbols\<rparr>
                in (inner r a2, a2\<lparr>au_execution_time := Some (ti_inner_elapsed ti + execution_time)\<rparr>)))
      | (Err e, a1) \<Rightarrow> (Err e, a1)
      | (Panic, a1) \<Rightarrow> (Panic, a1))"

definition query_with_limits ::
    "regex \<Rightarrow> timing \<Rightarrow> (bfact \<Rightarrow> (token_error, 't) outcome) \<Rightarrow> brule \<Rightarrow> run_limits \<Rightarrow> authorizer \<Rightarrow>
     (token_error, 't list) outcome \<times> authorizer" where
  "query_with_limits rx ti conv q limits a = with_run rx ti (query_inner rx conv) q a"

definition query_all_with_limits ::
    "regex \<Rightarrow> timing \<Rightarrow> (bfact \<Rightarrow> (token_error, 't) outcome) \<Rightarrow> brule \<Rightarrow> run_limits \<Rightarrow> authorizer \<Rightarrow>
     (token_error, 't list) outcome \<times> authorizer" where
  "query_all_with_limits rx ti conv q limits a = with_run rx ti (query_all_inner rx conv) q a"

text \<open>\<open>query\<close> and \<open>query_all\<close>: the time left is checked first.\<close>

definition within_limits ::
    "regex \<Rightarrow> bool \<Rightarrow> timing \<Rightarrow> (run_limits \<Rightarrow> authorizer \<Rightarrow> (token_error, 't list) outcome \<times> authorizer) \<Rightarrow>
     authorizer \<Rightarrow> (token_error, 't list) outcome \<times> authorizer" where
  "within_limits rx overflow_checks ti run a =
     (case authorizer_run rx ti a of
        (Ok execution_time, a1) \<Rightarrow>
          (case remaining_limits overflow_checks execution_time a1 of
             Ok limits \<Rightarrow> run limits a1
           | Err e \<Rightarrow> (Err e, a1)
           | Panic \<Rightarrow> (Panic, a1))
      | (Err e, a1) \<Rightarrow> (Err e, a1)
      | (Panic, a1) \<Rightarrow> (Panic, a1))"

definition authorizer_query ::
    "regex \<Rightarrow> bool \<Rightarrow> timing \<Rightarrow> (bfact \<Rightarrow> (token_error, 't) outcome) \<Rightarrow> brule \<Rightarrow> authorizer \<Rightarrow>
     (token_error, 't list) outcome \<times> authorizer" where
  "authorizer_query rx overflow_checks ti conv q = within_limits rx overflow_checks ti (query_with_limits rx ti conv q)"

definition authorizer_query_all ::
    "regex \<Rightarrow> bool \<Rightarrow> timing \<Rightarrow> (bfact \<Rightarrow> (token_error, 't) outcome) \<Rightarrow> brule \<Rightarrow> authorizer \<Rightarrow>
     (token_error, 't list) outcome \<times> authorizer" where
  "authorizer_query_all rx overflow_checks ti conv q =
     within_limits rx overflow_checks ti (query_all_with_limits rx ti conv q)"

definition query_exactly_one ::
    "regex \<Rightarrow> bool \<Rightarrow> timing \<Rightarrow> (bfact \<Rightarrow> (token_error, 't) outcome) \<Rightarrow> brule \<Rightarrow> authorizer \<Rightarrow>
     (token_error, 't) outcome \<times> authorizer" where
  "query_exactly_one rx overflow_checks ti conv q a =
     (case authorizer_query rx overflow_checks ti conv q a of
        (res, a') \<Rightarrow>
          (obind res (\<lambda>ts. case ts of
               [t] \<Rightarrow> Ok t
             | _ \<Rightarrow> Err (Token_RunLimit (UnexpectedQueryResult 1 (length ts)))), a'))"

section \<open>Dumping\<close>

text \<open>\<open>None\<close> is the panic of an \<open>unwrap\<close> on an unknown symbol.\<close>

fun unwrap_outcome :: "('e, 'a) outcome \<Rightarrow> 'a option" where
  "unwrap_outcome (Ok x) = Some x"
| "unwrap_outcome _ = None"

definition authorizer_dump ::
    "authorizer \<Rightarrow> (bfact list \<times> brule list \<times> bcheck list \<times> policy list) option" where
  "authorizer_dump a =
     unwrap_outcome
       (obind (traverse (\<lambda>c. check_convert_from c (au_symbols a))
           (case au_blocks a of None \<Rightarrow> [] | Some bs \<Rightarrow> concat (map bl_checks bs))) (\<lambda>checks.
        obind (traverse (\<lambda>(_, f). fact_convert_from f (au_symbols a)) (fs_iter_all (w_facts (au_world a)))) (\<lambda>facts.
        obind (traverse (\<lambda>(_, r). rule_convert_from r (au_symbols a)) (rs_iter_all (w_rules (au_world a)))) (\<lambda>rules.
          Ok (facts, rules, bb_checks (au_block a) @ checks, au_policies a)))))"

end
