(* ===== verification/Stability.thy ===== *)
theory Stability
  imports Builder_Roundtrip
begin

text \<open>
  Converting twice: once an element was converted into a table, converting it again into any
  extension of that table gives the same result and adds nothing.  The authorizer relies on it,
  converting its checks once for printing and once for evaluation.
\<close>

definition stable :: "('a \<Rightarrow> symbol_table \<Rightarrow> ('b \<times> symbol_table) option) \<Rightarrow> 'a \<Rightarrow> bool" where
  "stable f x \<longleftrightarrow>
     (\<forall>t y u. table_wf t \<longrightarrow> f x t = Some (y, u) \<longrightarrow>
        table_ext t u \<and> (\<forall>v. table_ext u v \<longrightarrow> f x v = Some (y, v)))"

lemma stableI:
  "(\<And>t y u. table_wf t \<Longrightarrow> f x t = Some (y, u) \<Longrightarrow>
      table_ext t u \<and> (\<forall>v. table_ext u v \<longrightarrow> f x v = Some (y, v))) \<Longrightarrow> stable f x"
  unfolding stable_def by blast

lemma stable_ext: "stable f x \<Longrightarrow> table_wf t \<Longrightarrow> f x t = Some (y, u) \<Longrightarrow> table_ext t u"
  unfolding stable_def by blast

lemma stable_again:
  "stable f x \<Longrightarrow> table_wf t \<Longrightarrow> f x t = Some (y, u) \<Longrightarrow> table_ext u v \<Longrightarrow> f x v = Some (y, v)"
  unfolding stable_def by blast

text \<open>Sequencing: the second conversion starts in the table of the first.\<close>

definition then_convert ::
    "('a \<Rightarrow> symbol_table \<Rightarrow> ('b \<times> symbol_table) option) \<Rightarrow>
     ('c \<Rightarrow> symbol_table \<Rightarrow> ('d \<times> symbol_table) option) \<Rightarrow> 'a \<times> 'c \<Rightarrow> symbol_table \<Rightarrow>
     (('b \<times> 'd) \<times> symbol_table) option" where
  "then_convert f g = (\<lambda>(x, z) s.
     case f x s of None \<Rightarrow> None
     | Some (y, s') \<Rightarrow> map_option (\<lambda>(w, s''). ((y, w), s'')) (g z s'))"

lemma stable_then:
  assumes "stable f x" "stable g z"
  shows "stable (then_convert f g) (x, z)"
proof (rule stableI)
  fix t y u
  assume t: "table_wf t" and run: "then_convert f g (x, z) t = Some (y, u)"
  then obtain a b s where a: "f x t = Some (a, s)" and b: "g z s = Some (b, u)" and y: "y = (a, b)"
    by (auto simp: then_convert_def split: option.splits)
  have ts: "table_ext t s" using stable_ext [OF assms(1) t a] .
  then have s: "table_wf s" using table_ext_wf by blast
  have su: "table_ext s u" using stable_ext [OF assms(2) s b] .
  show "table_ext t u \<and> (\<forall>v. table_ext u v \<longrightarrow> then_convert f g (x, z) v = Some (y, v))"
    using stable_again [OF assms(1) t a] stable_again [OF assms(2) s b] table_ext_trans su
      table_ext_trans [OF ts su]
    by (auto simp: then_convert_def y)
qed

lemma stable_map: "stable f x \<Longrightarrow> stable (\<lambda>x s. map_option (\<lambda>(y, s'). (h y, s')) (f x s)) x"
  unfolding stable_def by fastforce

lemma stable_cong: "(\<And>s. f x s = g z s) \<Longrightarrow> stable g z \<Longrightarrow> stable f x"
  by (simp add: stable_def)

lemma stable_list: "(\<And>x. x \<in> set xs \<Longrightarrow> stable f x) \<Longrightarrow> stable (smap f) xs"
proof (induction xs)
  case Nil
  show ?case by (rule stableI) (simp add: table_ext_refl)
next
  case (Cons x xs)
  have "stable (then_convert f (smap f)) (x, xs)"
    by (rule stable_then) (use Cons in simp_all)
  then have "stable (\<lambda>z s. map_option (\<lambda>(y, s'). (fst y # snd y, s')) (then_convert f (smap f) z s)) (x, xs)"
    by (rule stable_map)
  then show ?case
    by (rule stable_cong [rotated]) (auto simp: then_convert_def split: option.splits)
qed

lemma stable_insert: "stable (\<lambda>p s. Some (st_insert p s)) p"
proof (rule stableI)
  fix t i u
  assume t: "table_wf t" and "Some (st_insert p t) = Some (i, u)"
  then have run: "st_insert p t = (i, u)" by simp
  have "Some (st_insert p v) = Some (i, v)" if "table_ext u v" for v
  proof -
    have "get_symbol v i = Some p" "st_wf v"
      using st.lookup_ins [OF run] t that by (auto simp: table_wf_def table_ext_def st.extends_def)
    then show ?thesis using st.find_lookup st.ins_known by fastforce
  qed
  with st_insert_ext [OF run t] show "table_ext t u \<and> (\<forall>v. table_ext u v \<longrightarrow> Some (st_insert p v) = Some (i, v))"
    by blast
qed

lemma stable_const: "stable (\<lambda>_ s. Some (c, s)) x"
  by (rule stableI) (simp add: table_ext_refl)

lemma stable_insert_map: "stable (\<lambda>p s. Some (case st_insert p s of (i, s') \<Rightarrow> (h i, s'))) p"
  by (rule stable_cong [OF _ stable_map [OF stable_insert, of h]]) (simp split: prod.splits)

section \<open>Every conversion is stable\<close>

lemma stable_key: "stable (intern_key st_insert) k"
proof (cases k)
  case (BKStr n)
  have "stable (\<lambda>p s. Some (case st_insert p s of (i, s') \<Rightarrow> (KStr i, s'))) n" by (rule stable_insert_map)
  then show ?thesis by (rule stable_cong [rotated]) (simp add: BKStr split: prod.splits)
qed (rule stableI, simp add: table_ext_refl)+

lemma stable_term: "stable (intern_term st_insert) b"
proof (induction b)
  case (BVariable v)
  have "stable (\<lambda>p s. Some (case st_insert p s of (i, s') \<Rightarrow> (Variable (as_u32 i), s'))) v"
    by (rule stable_insert_map)
  then show ?case by (rule stable_cong [rotated]) (simp split: prod.splits)
next
  case (BStr v)
  have "stable (\<lambda>p s. Some (case st_insert p s of (i, s') \<Rightarrow> (Str i, s'))) v"
    by (rule stable_insert_map)
  then show ?case by (rule stable_cong [rotated]) (simp split: prod.splits)
next
  case (BSet ts)
  have "stable (smap (intern_term st_insert)) ts" by (rule stable_list) (rule BSet)
  from stable_map [OF this, of "\<lambda>us. Set (bt_of_list us)"] show ?case
    by (rule stable_cong [rotated]) (simp add: case_prod_beta)
next
  case (BArray ts)
  have "stable (smap (intern_term st_insert)) ts" by (rule stable_list) (rule BArray)
  from stable_map [OF this, of Array] show ?case
    by (rule stable_cong [rotated]) (simp add: case_prod_beta)
next
  case (BMap m)
  have "stable (smap (then_convert (intern_key st_insert) (intern_term st_insert))) m"
  proof (rule stable_list)
    fix x assume x: "x \<in> set m"
    have "stable (then_convert (intern_key st_insert) (intern_term st_insert)) (fst x, snd x)"
      by (rule stable_then [OF stable_key]) (rule BMap [OF x], simp add: prod_set_defs)
    then show "stable (then_convert (intern_key st_insert) (intern_term st_insert)) x" by simp
  qed
  from stable_map [OF this, of "\<lambda>us. Map (bm_of_list us)"] show ?case
    by (rule stable_cong [rotated]) (simp add: case_prod_beta then_convert_def)
qed (rule stableI, simp add: table_ext_refl)+

lemma stable_unary: "stable (\<lambda>x s. Some (unary_convert x s)) b"
proof (cases b)
  case (BFfi_unary n)
  have "stable (\<lambda>p s. Some (case st_insert p s of (i, s') \<Rightarrow> (Ffi_unary i, s'))) n" by (rule stable_insert_map)
  then show ?thesis by (rule stable_cong [rotated]) (simp add: BFfi_unary)
qed (rule stableI, simp add: table_ext_refl)+

lemma stable_binary: "stable (\<lambda>x s. Some (binary_convert x s)) b"
proof (cases b)
  case (BFfi n)
  have "stable (\<lambda>p s. Some (case st_insert p s of (i, s') \<Rightarrow> (Ffi i, s'))) n" by (rule stable_insert_map)
  then show ?thesis by (rule stable_cong [rotated]) (simp add: BFfi)
qed (rule stableI, simp add: table_ext_refl)+

lemma stable_op: "stable op_convert b"
proof (induction b)
  case (BValue t)
  from stable_map [OF stable_term, of Value t] show ?case
    by (rule stable_cong [rotated]) (simp add: term_convert_def)
next
  case (BUnary u)
  from stable_map [OF stable_unary, of Unary u] show ?case
    by (rule stable_cong [rotated]) (simp split: prod.splits)
next
  case (BBinary u)
  from stable_map [OF stable_binary, of Binary u] show ?case
    by (rule stable_cong [rotated]) (simp split: prod.splits)
next
  case (BClosure ps ops)
  have "stable insert_u32 p" for p
    by (rule stable_cong [where g = "\<lambda>p s. Some (case st_insert p s of (i, s') \<Rightarrow> (as_u32 i, s'))" and z = p])
      (simp add: insert_u32_def split: prod.splits, rule stable_insert_map)
  then have "stable (then_convert (smap insert_u32) (smap op_convert)) (ps, ops)"
    by (intro stable_then stable_list) (simp_all add: BClosure)
  from stable_map [OF this, of "\<lambda>(qs, os). Closure qs os"] show ?case
    by (rule stable_cong [rotated])
      (auto simp: then_convert_def option.map_comp o_def case_prod_beta' split: option.splits)
qed

lemma stable_expression: "stable expression_convert e"
proof -
  have "stable (smap op_convert) (be_ops e)" by (intro stable_list stable_op)
  from stable_map [OF this, of "\<lambda>ops. \<lparr>e_ops = ops\<rparr>"] show ?thesis
    by (rule stable_cong [rotated]) (simp add: expression_convert_def)
qed

lemma stable_predicate: "stable predicate_convert p"
proof -
  have "stable (then_convert (\<lambda>n s. Some (st_insert n s)) (smap term_convert)) (bp_name p, bp_terms p)"
    by (intro stable_then stable_list stable_insert) (simp add: term_convert_def stable_term)
  from stable_map [OF this, of "\<lambda>(i, ts). \<lparr>p_name = i, p_terms = ts\<rparr>"] show ?thesis
    by (rule stable_cong [rotated])
      (simp add: then_convert_def predicate_convert_def option.map_comp o_def case_prod_beta')
qed

lemma stable_scope: "stable scope_convert s"
proof (rule stableI)
  fix t y u
  assume t: "table_wf t" and run: "scope_convert s t = Some (y, u)"
  have ext: "table_ext t u" using rt_ext [OF rt_scope t run] .
  moreover have "scope_convert s v = Some (y, v)" if v: "table_ext u v" for v
  proof (cases s)
    case (BScope_PublicKey k)
    then obtain i keys where a: "pk_insert k (st_public_keys t) = (i, keys)"
      and y: "y = Scope_PublicKey i" "st_public_keys u = keys"
      using run by (auto split: prod.splits)
    have "pk_get_key (st_public_keys v) i = Some k" "pk_wf (st_public_keys v)"
      using pk.lookup_ins [OF a] t v y(2) by (auto simp: table_wf_def table_ext_def pk.extends_def)
    then have "pk_insert k (st_public_keys v) = (i, st_public_keys v)"
      using pk.find_lookup pk.ins_known by blast
    then show ?thesis by (simp add: BScope_PublicKey y)
  qed (use run in auto)
  ultimately show "table_ext t u \<and> (\<forall>v. table_ext u v \<longrightarrow> scope_convert s v = Some (y, v))" by blast
qed

lemma stable_plain_rule: "stable plain_rule_convert r"
proof -
  let ?f = "then_convert predicate_convert (then_convert (smap predicate_convert)
    (then_convert (smap expression_convert) (smap scope_convert)))"
  have "stable ?f (br_head r, br_body r, br_expressions r, br_scopes r)"
    by (intro stable_then stable_list stable_predicate stable_expression stable_scope)
  from stable_map [OF this, of "\<lambda>(h, b, e, s). \<lparr>r_head = h, r_body = b, r_expressions = e, r_scopes = s\<rparr>"]
  show ?thesis
    by (rule stable_cong [rotated])
      (auto simp: then_convert_def plain_rule_convert_def split: option.splits)
qed

lemma stable_rule: "stable rule_convert r"
  by (rule stable_cong [OF _ stable_plain_rule]) (simp add: rule_convert_def)

lemma stable_fact: "stable fact_convert f"
proof -
  from stable_map [OF stable_predicate, of "\<lambda>p. \<lparr>f_predicate = p\<rparr>"] show ?thesis
    by (rule stable_cong [rotated]) (simp add: fact_convert_def)
qed

lemma stable_check: "stable check_convert c"
proof -
  have "stable (smap rule_convert) (bc_queries c)" by (intro stable_list stable_rule)
  from stable_map [OF this, of "\<lambda>qs. \<lparr>c_queries = qs, c_kind = bc_kind c\<rparr>"] show ?thesis
    by (rule stable_cong [rotated]) (simp add: check_convert_def)
qed

end
