(* ===== verification/Authorization.thy ===== *)
theory Authorization
  imports Authorizer Stability
begin

text \<open>
  What an authorization means.  \<open>satisfied\<close> is the declarative reading of a query of a check or a
  policy over a set of facts; \<open>granted\<close> and \<open>refused\<close> read the two decisions of \<open>authorize_inner\<close>
  in these terms, through a small Hoare logic for its monad.
\<close>

section \<open>A Hoare logic for \<open>auth\<close>\<close>

text \<open>On success, the invariant of the table is kept and the result is as stated.\<close>

definition triple :: "(symbol_table \<Rightarrow> bool) \<Rightarrow> 'a auth \<Rightarrow> ('a \<Rightarrow> bool) \<Rightarrow> bool" where
  "triple I m Q \<longleftrightarrow> (\<forall>st x st'. I (fst st) \<longrightarrow> m st = (Ok x, st') \<longrightarrow> I (fst st') \<and> Q x)"

lemma tripleI:
  "(\<And>s n x st'. I s \<Longrightarrow> m (s, n) = (Ok x, st') \<Longrightarrow> I (fst st') \<and> Q x) \<Longrightarrow> triple I m Q"
  unfolding triple_def by auto

lemma tripleD: "triple I m Q \<Longrightarrow> I (fst st) \<Longrightarrow> m st = (Ok x, st') \<Longrightarrow> I (fst st') \<and> Q x"
  unfolding triple_def by blast

lemma triple_return: "Q x \<Longrightarrow> triple I (areturn x) Q"
  by (simp add: triple_def areturn_def)

lemma abind_Ok:
  "abind m f st = (Ok y, st'') \<longleftrightarrow> (\<exists>x st'. m st = (Ok x, st') \<and> f x st' = (Ok y, st''))"
  by (auto simp: abind_def split: prod.splits outcome.splits)

lemma triple_bind:
  assumes "triple I m P" "\<And>x. P x \<Longrightarrow> triple I (f x) Q"
  shows "triple I (abind m f) Q"
proof (rule tripleI)
  fix s n y st''
  assume I: "I s" and "abind m f (s, n) = (Ok y, st'')"
  then obtain x st' where m: "m (s, n) = (Ok x, st')" and f: "f x st' = (Ok y, st'')"
    unfolding abind_Ok by blast
  from tripleD [OF assms(1) _ m] I have "I (fst st')" "P x" by simp_all
  with tripleD [OF assms(2) _ f] show "I (fst st'') \<and> Q y" by blast
qed

lemma triple_conseq: "triple I m P \<Longrightarrow> (\<And>x. P x \<Longrightarrow> Q x) \<Longrightarrow> triple I m Q"
  unfolding triple_def by blast

lemma triple_read: "(\<And>s x. I s \<Longrightarrow> f s = Ok x \<Longrightarrow> Q x) \<Longrightarrow> triple I (aread f) Q"
  by (auto simp: triple_def aread_def)

lemma triple_convert:
  "(\<And>s y u. I s \<Longrightarrow> f x s = Some (y, u) \<Longrightarrow> I u \<and> Q y) \<Longrightarrow> triple I (aconvert f x) Q"
  unfolding triple_def aconvert_def by (auto split: option.splits prod.splits)

lemma triple_time: "triple I (acheck_time clock limit) (\<lambda>_. True)"
  by (auto simp: triple_def acheck_time_def split: if_splits)

lemma triple_any_query:
  assumes "\<And>q. q \<in> set qs \<Longrightarrow> triple I (f q) (P q)"
  shows "triple I (any_query f qs) (\<lambda>b. if b then \<exists>q \<in> set qs. P q True else \<forall>q \<in> set qs. P q False)"
  using assms
proof (induction qs)
  case Nil
  show ?case by (simp add: triple_return)
next
  case (Cons q qs)
  have IH: "triple I (any_query f qs) (\<lambda>b. if b then \<exists>q \<in> set qs. P q True else \<forall>q \<in> set qs. P q False)"
    by (rule Cons.IH) (simp add: Cons.prems)
  have step: "triple I (if res then areturn True else any_query f qs)
      (\<lambda>b. if b then \<exists>r \<in> set (q # qs). P r True else \<forall>r \<in> set (q # qs). P r False)" if "P q res" for res
    using that by (cases res) (auto intro: triple_return triple_conseq [OF IH] split: if_splits)
  show ?case
    unfolding any_query.simps by (rule triple_bind [OF Cons.prems step]) simp_all
qed

text \<open>A list of failures, and where each comes from.\<close>

lemma triple_failures:
  assumes "\<And>i c. c \<in> set cs \<Longrightarrow> triple I (f i c) (P i c)"
  shows "triple I (failures f i cs) (\<lambda>es.
    (es = [] \<longrightarrow> (\<forall>j < length cs. P (i + j) (cs ! j) None)) \<and>
    (\<forall>e \<in> set es. \<exists>j < length cs. P (i + j) (cs ! j) (Some e)))"
  using assms
proof (induction cs arbitrary: i)
  case Nil
  show ?case by (simp add: triple_return)
next
  case (Cons c cs)
  have IH: "triple I (failures f (i + 1) cs) (\<lambda>es.
      (es = [] \<longrightarrow> (\<forall>j < length cs. P (i + 1 + j) (cs ! j) None)) \<and>
      (\<forall>e \<in> set es. \<exists>j < length cs. P (i + 1 + j) (cs ! j) (Some e)))"
    by (rule Cons.IH) (simp add: Cons.prems)
  have shift: "\<exists>j < length (c # cs). P (i + j) ((c # cs) ! j) (Some e)"
    if "\<exists>j < length cs. P (i + 1 + j) (cs ! j) (Some e)" for e
    using that by (metis Suc_less_eq add.assoc length_Cons nth_Cons_Suc plus_1_eq_Suc)
  show ?case
    unfolding failures.simps
  proof (intro triple_bind [OF Cons.prems] triple_bind [OF IH] triple_return, simp)
    fix res rest
    assume P: "P i c res"
      and rest: "(rest = [] \<longrightarrow> (\<forall>j < length cs. P (i + 1 + j) (cs ! j) None)) \<and>
        (\<forall>e \<in> set rest. \<exists>j < length cs. P (i + 1 + j) (cs ! j) (Some e))"
    show "((case res of None \<Rightarrow> rest | Some e \<Rightarrow> e # rest) = [] \<longrightarrow>
          (\<forall>j < length (c # cs). P (i + j) ((c # cs) ! j) None)) \<and>
        (\<forall>e \<in> set (case res of None \<Rightarrow> rest | Some e \<Rightarrow> e # rest).
          \<exists>j < length (c # cs). P (i + j) ((c # cs) ! j) (Some e))"
    proof (cases res)
      case None
      then show ?thesis using P rest shift by (auto simp: nth_Cons split: nat.splits)
    next
      case (Some e)
      have "\<exists>j < length (c # cs). P (i + j) ((c # cs) ! j) (Some e)"
        using P Some by (intro exI [of _ 0]) simp
      then show ?thesis using Some rest shift by simp
    qed
  qed
qed

section \<open>Satisfied queries\<close>

definition satisfied ::
    "regex \<Rightarrow> extern_funcs \<Rightarrow> symbol_table \<Rightarrow> check_kind \<Rightarrow> rule \<Rightarrow> sourced set \<Rightarrow> bool" where
  "satisfied rx externs s kind q F \<longleftrightarrow>
     (let found = (\<exists>b fs. body_matches q F b fs \<and> passes rx externs s q b \<and>
                     instantiate_head (r_head q) b \<noteq> None)
      in case kind of
           One_kind \<Rightarrow> found
         | All_kind \<Rightarrow> (\<exists>b fs. body_matches q F b fs) \<and>
             (\<forall>b fs. body_matches q F b fs \<longrightarrow> passes rx externs s q b)
         | Reject_kind \<Rightarrow> \<not> found)"

lemma find_match_answer:
  assumes "find_match rx externs symbols r facts ro scope = Ok b"
  shows "b \<longleftrightarrow> (\<exists>c fs. body_matches r (visible scope (fs_pairs facts)) c fs \<and>
    passes rx externs symbols r c \<and> instantiate_head (r_head r) c \<noteq> None)"
proof -
  let ?res = "rule_apply rx externs symbols ro r (fs_iterator scope facts)"
  have ex: "(\<exists>x. Ok x \<in> set ?res) \<longleftrightarrow> (\<exists>c fs. body_matches r (visible scope (fs_pairs facts)) c fs \<and>
      passes rx externs symbols r c \<and> instantiate_head (r_head r) c \<noteq> None)"
    unfolding rule_apply_Ok fs_iterator_set visible_def rule_consequences_def by blast
  have "b \<longleftrightarrow> (\<exists>x. Ok x \<in> set ?res)"
    using assms by (auto simp: find_match_def split: list.splits outcome.splits)
  with ex show ?thesis by simp
qed

lemma match_all_answer:
  "match_all_loop rx externs symbols es found sols = Ok b \<Longrightarrow>
     b \<longleftrightarrow> (found \<or> sols \<noteq> []) \<and>
       (\<forall>(og, c) \<in> set sols. check_expressions rx externs es c (tmp_new symbols) = Ok True)"
proof (induction sols arbitrary: found)
  case (Cons x sols)
  then show ?case by (cases x) (auto split: outcome.splits bool.splits)
qed simp

lemma check_match_all_answer:
  assumes "check_match_all rx externs symbols r facts scope = Ok b"
  shows "b \<longleftrightarrow> (\<exists>c fs. body_matches r (visible scope (fs_pairs facts)) c fs) \<and>
    (\<forall>c fs. body_matches r (visible scope (fs_pairs facts)) c fs \<longrightarrow> passes rx externs symbols r c)"
proof -
  have sols: "(og, c) \<in> set (solutions r (fs_iterator scope facts)) \<longleftrightarrow>
      (\<exists>fs. body_matches r (visible scope (fs_pairs facts)) c fs \<and> og = origins_of fs)" for og c
    unfolding solutions_body_matches fs_iterator_set visible_def ..
  have "solutions r (fs_iterator scope facts) \<noteq> [] \<longleftrightarrow>
      (\<exists>c fs. body_matches r (visible scope (fs_pairs facts)) c fs)"
    using sols by (cases "solutions r (fs_iterator scope facts)") (force, fastforce)
  moreover have "(\<forall>(og, c) \<in> set (solutions r (fs_iterator scope facts)).
        check_expressions rx externs (r_expressions r) c (tmp_new symbols) = Ok True) \<longleftrightarrow>
      (\<forall>c fs. body_matches r (visible scope (fs_pairs facts)) c fs \<longrightarrow> passes rx externs symbols r c)"
    unfolding passes_def using sols by blast
  ultimately show ?thesis
    using match_all_answer [OF assms [unfolded check_match_all_def]] by simp
qed

lemma query_result_satisfied:
  assumes "query_result env kind og t q s = Ok b"
  shows "b \<longleftrightarrow> satisfied (ev_regex env) (w_externs (ev_world env)) s kind q
    (visible t (fs_pairs (w_facts (ev_world env))))"
  using assms
  by (cases kind)
    (auto simp: query_result_def query_match_def query_match_all_def satisfied_def negate_result_def
      outcome_simps dest!: find_match_answer check_match_all_answer)


section \<open>Verdicts\<close>

text \<open>
  The verdict on a query is reached in some extension of the authorizer's table, which grows as
  checks and policies are converted.
\<close>

definition query_holds ::
    "regex \<Rightarrow> authorizer \<Rightarrow> check_kind \<Rightarrow> nat \<Rightarrow> trusted_origins \<Rightarrow> symbol_table \<Rightarrow> rule \<Rightarrow> bool" where
  "query_holds rx a kind og trusted s q \<longleftrightarrow>
     satisfied rx (w_externs (au_world a)) s kind q
       (visible (from_scopes (r_scopes q) trusted og (au_key_blocks a)) (fs_pairs (w_facts (au_world a))))"

text \<open>A query of a block, and a query of the authorizer.\<close>

definition block_query_verdict ::
    "regex \<Rightarrow> authorizer \<Rightarrow> check_kind \<Rightarrow> nat \<Rightarrow> trusted_origins \<Rightarrow> rule \<Rightarrow> bool \<Rightarrow> bool" where
  "block_query_verdict rx a kind og trusted q v \<longleftrightarrow>
     (\<exists>s. table_ext (au_symbols a) s \<and> query_holds rx a kind og trusted s q = v)"

definition own_query_verdict ::
    "regex \<Rightarrow> authorizer \<Rightarrow> check_kind \<Rightarrow> trusted_origins \<Rightarrow> brule \<Rightarrow> bool \<Rightarrow> bool" where
  "own_query_verdict rx a kind trusted q v \<longleftrightarrow>
     (\<exists>s r. table_ext (au_symbols a) s \<and> rule_convert q s = Some (r, s) \<and>
        query_holds rx a kind usize_max trusted s r = v)"

text \<open>A check passes when one of its queries does, and a policy applies when one of its queries matches.\<close>

definition any_verdict :: "('q \<Rightarrow> bool \<Rightarrow> bool) \<Rightarrow> 'q list \<Rightarrow> bool \<Rightarrow> bool" where
  "any_verdict P qs v \<longleftrightarrow> (if v then \<exists>q \<in> set qs. P q True else \<forall>q \<in> set qs. P q False)"

definition block_check_verdict :: "regex \<Rightarrow> authorizer \<Rightarrow> nat \<Rightarrow> block \<Rightarrow> check \<Rightarrow> bool \<Rightarrow> bool" where
  "block_check_verdict rx a i b ch =
     any_verdict (block_query_verdict rx a (c_kind ch) i
       (from_scopes (bl_scopes b) default_trusted i (au_key_blocks a))) (c_queries ch)"

definition own_check_verdict :: "regex \<Rightarrow> authorizer \<Rightarrow> trusted_origins \<Rightarrow> bcheck \<Rightarrow> bool \<Rightarrow> bool" where
  "own_check_verdict rx a trusted ch = any_verdict (own_query_verdict rx a (bc_kind ch) trusted) (bc_queries ch)"

definition policy_verdict :: "regex \<Rightarrow> authorizer \<Rightarrow> trusted_origins \<Rightarrow> policy \<Rightarrow> bool \<Rightarrow> bool" where
  "policy_verdict rx a trusted po = any_verdict (own_query_verdict rx a One_kind trusted) (po_queries po)"

abbreviation trusts_of :: "authorizer \<Rightarrow> scope list \<Rightarrow> trusted_origins" where
  "trusts_of a scopes \<equiv> from_scopes scopes default_trusted usize_max (au_key_blocks a)"

abbreviation the_blocks :: "authorizer \<Rightarrow> block list" where
  "the_blocks a \<equiv> (case au_blocks a of None \<Rightarrow> [] | Some bs \<Rightarrow> bs)"

section \<open>The parts of \<open>authorize_inner\<close>\<close>

lemma run_query_Ok:
  "run_query env kind og trusted q st = (Ok b, st') \<Longrightarrow>
     fst st' = fst st \<and>
     query_result env kind og (from_scopes (r_scopes q) trusted og (ev_keys env)) q (fst st) = Ok b"
  by (auto simp: run_query_def abind_Ok aread_def acheck_time_def areturn_def split: if_splits)

lemma triple_block_query:
  "triple (table_ext (au_symbols a)) (run_query (env_of rx ti limits a) kind og trusted q)
     (block_query_verdict rx a kind og trusted q)"
proof (rule tripleI)
  fix s n b st'
  assume s: "table_ext (au_symbols a) s"
    and run: "run_query (env_of rx ti limits a) kind og trusted q (s, n) = (Ok b, st')"
  from run_query_Ok [OF run] query_result_satisfied s
  show "table_ext (au_symbols a) (fst st') \<and> block_query_verdict rx a kind og trusted q b"
    unfolding block_query_verdict_def query_holds_def by (fastforce simp: env_of_def)
qed

lemma triple_own_query:
  assumes "table_wf (au_symbols a)"
  shows "triple (table_ext (au_symbols a)) (convert_query (env_of rx ti limits a) kind trusted q)
    (own_query_verdict rx a kind trusted q)"
proof (rule tripleI)
  fix s n b st'
  assume s: "table_ext (au_symbols a) s"
    and run: "convert_query (env_of rx ti limits a) kind trusted q (s, n) = (Ok b, st')"
  from run obtain r u where r: "rule_convert q s = Some (r, u)"
    and q: "run_query (env_of rx ti limits a) kind usize_max trusted r (u, n) = (Ok b, st')"
    by (auto simp: convert_query_def abind_Ok aconvert_def split: option.splits)
  have wf: "table_wf s" using s table_ext_wf by blast
  have su: "table_ext s u" using stable_ext [OF stable_rule wf r] .
  have again: "rule_convert q u = Some (r, u)"
    using stable_again [OF stable_rule wf r] table_ext_refl table_ext_wf [OF su] by blast
  from run_query_Ok [OF q] query_result_satisfied [of "env_of rx ti limits a" kind usize_max]
  have "query_holds rx a kind usize_max trusted u r = b" "fst st' = u"
    unfolding query_holds_def by (auto simp: env_of_def)
  with table_ext_trans [OF s su] again
  show "table_ext (au_symbols a) (fst st') \<and> own_query_verdict rx a kind trusted q b"
    unfolding own_query_verdict_def by blast
qed

text \<open>The verdict that a failure reports, and its place.\<close>

definition block_failure :: "nat \<Rightarrow> nat \<Rightarrow> failed_check \<Rightarrow> bool" where
  "block_failure i j e \<longleftrightarrow>
     (\<exists>r. e = FailedCheck_Block \<lparr>fb_block_id = as_u32 i, fb_check_id = as_u32 j, fb_rule = r\<rparr>)"

definition own_failure :: "nat \<Rightarrow> failed_check \<Rightarrow> bool" where
  "own_failure i e \<longleftrightarrow> (\<exists>r. e = FailedCheck_Authorizer \<lparr>fa_check_id = as_u32 i, fa_rule = r\<rparr>)"

lemma triple_block_check:
  "triple (table_ext (au_symbols a))
     (block_check fmt (env_of rx ti limits a) i (from_scopes (bl_scopes b) default_trusted i (au_key_blocks a)) j ch)
     (\<lambda>res. block_check_verdict rx a i b ch (res = None) \<and> (\<forall>e. res = Some e \<longrightarrow> block_failure i j e))"
  unfolding block_check_def block_check_verdict_def
  by (intro triple_bind [OF triple_any_query [OF triple_block_query]] triple_read)
    (auto simp: any_verdict_def block_failure_def split: if_splits)

lemma triple_own_check:
  assumes "table_wf (au_symbols a)"
  shows "triple (table_ext (au_symbols a)) (authorizer_check fmt (env_of rx ti limits a) trusted j ch)
     (\<lambda>res. own_check_verdict rx a trusted ch (res = None) \<and> (\<forall>e. res = Some e \<longrightarrow> own_failure j e))"
  unfolding authorizer_check_def own_check_verdict_def
proof (rule triple_bind)
  show "triple (table_ext (au_symbols a)) (aconvert check_convert ch) (\<lambda>_. True)"
    using stable_ext [OF stable_check] table_ext_trans table_ext_wf by (intro triple_convert) blast
qed (intro triple_bind [OF triple_any_query [OF triple_own_query [OF assms]]] triple_read,
    auto simp: any_verdict_def own_failure_def split: if_splits)


text \<open>The failures of a block: none when its checks pass, and otherwise each from a check that does not.\<close>

definition block_report :: "regex \<Rightarrow> authorizer \<Rightarrow> nat \<Rightarrow> block \<Rightarrow> failed_check list \<Rightarrow> bool" where
  "block_report rx a i b es \<longleftrightarrow>
     (es = [] \<longrightarrow> (\<forall>ch \<in> set (bl_checks b). block_check_verdict rx a i b ch True)) \<and>
     (\<forall>e \<in> set es. \<exists>j < length (bl_checks b).
        block_check_verdict rx a i b (bl_checks b ! j) False \<and> block_failure i j e)"

lemma triple_block:
  "triple (table_ext (au_symbols a)) (block_failures fmt (env_of rx ti limits a) i b) (block_report rx a i b)"
proof -
  have keys: "ev_keys (env_of rx ti limits a) = au_key_blocks a" by (simp add: env_of_def)
  show ?thesis
    unfolding block_failures_def keys
    by (rule triple_conseq [OF triple_failures [OF triple_block_check]])
      (auto simp: block_report_def in_set_conv_nth)
qed

definition blocks_report :: "regex \<Rightarrow> authorizer \<Rightarrow> nat \<Rightarrow> block list \<Rightarrow> failed_check list \<Rightarrow> bool" where
  "blocks_report rx a i bs es \<longleftrightarrow>
     (es = [] \<longrightarrow> (\<forall>k < length bs. \<forall>ch \<in> set (bl_checks (bs ! k)). block_check_verdict rx a (i + k) (bs ! k) ch True)) \<and>
     (\<forall>e \<in> set es. \<exists>k < length bs. \<exists>j < length (bl_checks (bs ! k)).
        block_check_verdict rx a (i + k) (bs ! k) (bl_checks (bs ! k) ! j) False \<and> block_failure (i + k) j e)"

lemma blocks_report_Cons:
  assumes "block_report rx a i b xs" "blocks_report rx a (Suc i) bs ys"
  shows "blocks_report rx a i (b # bs) (xs @ ys)"
proof -
  have "\<exists>k < length (b # bs). \<exists>j < length (bl_checks ((b # bs) ! k)).
      block_check_verdict rx a (i + k) ((b # bs) ! k) (bl_checks ((b # bs) ! k) ! j) False \<and>
      block_failure (i + k) j e" if "e \<in> set xs" for e
    using assms(1) that by (intro exI [of _ 0]) (simp add: block_report_def)
  moreover have "\<exists>k < length (b # bs). \<exists>j < length (bl_checks ((b # bs) ! k)).
      block_check_verdict rx a (i + k) ((b # bs) ! k) (bl_checks ((b # bs) ! k) ! j) False \<and>
      block_failure (i + k) j e" if "e \<in> set ys" for e
  proof -
    from assms(2) that obtain k j where "k < length bs" "j < length (bl_checks (bs ! k))"
      "block_check_verdict rx a (Suc i + k) (bs ! k) (bl_checks (bs ! k) ! j) False" "block_failure (Suc i + k) j e"
      unfolding blocks_report_def by blast
    then show ?thesis by (intro exI [of _ "Suc k"]) auto
  qed
  moreover have "\<forall>k < length (b # bs). \<forall>ch \<in> set (bl_checks ((b # bs) ! k)).
      block_check_verdict rx a (i + k) ((b # bs) ! k) ch True" if "xs @ ys = []"
  proof (intro allI impI ballI)
    fix k ch
    assume "k < length (b # bs)" "ch \<in> set (bl_checks ((b # bs) ! k))"
    with assms that show "block_check_verdict rx a (i + k) ((b # bs) ! k) ch True"
      by (cases k) (auto simp: block_report_def blocks_report_def)
  qed
  ultimately show ?thesis unfolding blocks_report_def by (metis UnE set_append)
qed

lemma triple_blocks:
  "triple (table_ext (au_symbols a)) (blocks_failures fmt (env_of rx ti limits a) i bs) (blocks_report rx a i bs)"
proof (induction bs arbitrary: i)
  case Nil
  show ?case by (simp add: triple_return blocks_report_def)
next
  case (Cons b bs)
  show ?case
    unfolding blocks_failures.simps
    by (rule triple_bind [OF triple_block], rule triple_bind [OF Cons], rule triple_return)
      (simp add: blocks_report_Cons)
qed

definition policy_report ::
    "regex \<Rightarrow> authorizer \<Rightarrow> trusted_origins \<Rightarrow> nat \<Rightarrow> policy list \<Rightarrow> (nat \<times> policy_kind) option \<Rightarrow> bool" where
  "policy_report rx a trusted i ps res \<longleftrightarrow>
     (case res of
        None \<Rightarrow> \<forall>j < length ps. policy_verdict rx a trusted (ps ! j) False
      | Some (k, kind) \<Rightarrow> \<exists>j < length ps. k = i + j \<and> kind = po_kind (ps ! j) \<and>
          policy_verdict rx a trusted (ps ! j) True \<and> (\<forall>m < j. policy_verdict rx a trusted (ps ! m) False))"

lemma policy_report_Cons:
  assumes "policy_verdict rx a trusted po False" "policy_report rx a trusted (Suc i) ps res"
  shows "policy_report rx a trusted i (po # ps) res"
proof (cases res)
  case None
  then show ?thesis using assms by (auto simp: policy_report_def nth_Cons split: nat.splits)
next
  case (Some x)
  then obtain k kind where res: "res = Some (k, kind)" by (cases x) auto
  with assms(2) obtain j where j: "j < length ps" "k = Suc i + j" "kind = po_kind (ps ! j)"
    "policy_verdict rx a trusted (ps ! j) True" "\<forall>m < j. policy_verdict rx a trusted (ps ! m) False"
    by (auto simp: policy_report_def)
  have "policy_verdict rx a trusted ((po # ps) ! m) False" if "m < Suc j" for m
    using that assms(1) j(5) by (cases m) auto
  then show ?thesis
    using j(1-4) res unfolding policy_report_def by (auto intro!: exI [of _ "Suc j"])
qed

lemma triple_policies:
  assumes "table_wf (au_symbols a)"
  shows "triple (table_ext (au_symbols a)) (first_policy (env_of rx ti limits a) trusted i ps)
    (policy_report rx a trusted i ps)"
proof (induction ps arbitrary: i)
  case Nil
  show ?case by (simp add: triple_return policy_report_def)
next
  case (Cons po ps)
  let ?I = "table_ext (au_symbols a)"
  have "triple ?I (any_query (convert_query (env_of rx ti limits a) One_kind trusted) (po_queries po))
      (policy_verdict rx a trusted po)"
    by (rule triple_conseq [OF triple_any_query [OF triple_own_query [OF assms]]])
      (simp add: policy_verdict_def any_verdict_def split: if_splits)
  moreover have "triple ?I
      (if res then areturn (Some (i, po_kind po)) else first_policy (env_of rx ti limits a) trusted (i + 1) ps)
      (policy_report rx a trusted i (po # ps))" if "policy_verdict rx a trusted po res" for res
  proof (cases res)
    case True
    with that show ?thesis by (auto intro!: triple_return exI [of _ 0] simp: policy_report_def)
  next
    case False
    with that show ?thesis by (auto intro: triple_conseq [OF Cons] simp: policy_report_Cons)
  qed
  ultimately show ?case unfolding first_policy.simps by (rule triple_bind)
qed


definition own_report :: "regex \<Rightarrow> authorizer \<Rightarrow> trusted_origins \<Rightarrow> failed_check list \<Rightarrow> bool" where
  "own_report rx a trusted es \<longleftrightarrow>
     (es = [] \<longrightarrow> (\<forall>ch \<in> set (bb_checks (au_block a)). own_check_verdict rx a trusted ch True)) \<and>
     (\<forall>e \<in> set es. \<exists>j < length (bb_checks (au_block a)).
        own_check_verdict rx a trusted (bb_checks (au_block a) ! j) False \<and> own_failure j e)"

lemma triple_own_checks:
  assumes "table_wf (au_symbols a)"
  shows "triple (table_ext (au_symbols a))
    (failures (authorizer_check fmt (env_of rx ti limits a) trusted) 0 (bb_checks (au_block a)))
    (own_report rx a trusted)"
  by (rule triple_conseq [OF triple_failures [OF triple_own_check [OF assms]]])
    (auto simp: own_report_def in_set_conv_nth)

definition resolved_scopes :: "authorizer \<Rightarrow> scope list \<Rightarrow> bool" where
  "resolved_scopes a scopes \<longleftrightarrow>
     (\<exists>s. table_ext (au_symbols a) s \<and> smap scope_convert (bb_scopes (au_block a)) s = Some (scopes, s))"

lemma triple_scopes:
  "triple (table_ext (au_symbols a)) (aconvert (smap scope_convert) (bb_scopes (au_block a))) (resolved_scopes a)"
proof (rule triple_convert)
  fix s y u
  assume s: "table_ext (au_symbols a) s" and run: "smap scope_convert (bb_scopes (au_block a)) s = Some (y, u)"
  have st: "stable (smap scope_convert) (bb_scopes (au_block a))" by (intro stable_list stable_scope)
  have wf: "table_wf s" using table_ext_wf [OF s] by blast
  have su: "table_ext s u" using stable_ext [OF st wf run] .
  then have "smap scope_convert (bb_scopes (au_block a)) u = Some (y, u)"
    using stable_again [OF st wf run] table_ext_refl table_ext_wf by blast
  with table_ext_trans [OF s su] show "table_ext (au_symbols a) u \<and> resolved_scopes a y"
    unfolding resolved_scopes_def by blast
qed

text \<open>Both halves of the decision, in one statement: the policy that applied and the failures.\<close>

definition judged :: "regex \<Rightarrow> authorizer \<Rightarrow> (nat \<times> policy_kind) option \<Rightarrow> failed_check list \<Rightarrow> bool" where
  "judged rx a pr es \<longleftrightarrow>
     (\<exists>scopes own others. resolved_scopes a scopes \<and> policy_report rx a (trusts_of a scopes) 0 (au_policies a) pr \<and>
        own_report rx a (trusts_of a scopes) own \<and> blocks_report rx a 0 (the_blocks a) others \<and> es = own @ others)"

lemma judgedI:
  "resolved_scopes a scopes \<Longrightarrow> policy_report rx a (trusts_of a scopes) 0 (au_policies a) pr \<Longrightarrow>
   own_report rx a (trusts_of a scopes) own \<Longrightarrow> blocks_report rx a 0 (the_blocks a) others \<Longrightarrow>
   judged rx a pr (own @ others)"
  unfolding judged_def by blast

lemma triple_judge:
  assumes "table_wf (au_symbols a)"
  shows "triple (table_ext (au_symbols a)) (judge fmt (env_of rx ti limits a) a) (\<lambda>(pr, es). judged rx a pr es)"
proof -
  let ?I = "table_ext (au_symbols a)" and ?env = "env_of rx ti limits a"
  have keys: "ev_keys ?env = au_key_blocks a" by (simp add: env_of_def)
  define authority where
    "authority = (\<lambda>xs. case au_blocks a of Some (b # bs) \<Rightarrow> block_report rx a 0 b xs | _ \<Rightarrow> xs = [])"
  have authority: "triple ?I (authority_failures fmt ?env (au_blocks a)) authority"
    unfolding authority_failures_def authority_def
    by (auto split: option.split list.split intro: triple_return triple_block triple_read)
  have others: "triple ?I (other_failures fmt ?env (au_blocks a))
      (\<lambda>ys. case au_blocks a of None \<Rightarrow> ys = [] | Some bs \<Rightarrow> blocks_report rx a 1 (tl bs) ys)"
    unfolding other_failures_def by (auto split: option.split intro: triple_return triple_blocks)
  have join: "blocks_report rx a 0 (the_blocks a) (xs @ ys)"
    if "authority xs" "case au_blocks a of None \<Rightarrow> ys = [] | Some bs \<Rightarrow> blocks_report rx a 1 (tl bs) ys" for xs ys
    using that blocks_report_Cons [of rx a 0]
    by (auto simp: authority_def blocks_report_def [of _ _ _ "[]"] split: option.splits list.splits)
  show ?thesis
    unfolding judge_def Let_def keys
    by (rule triple_bind [OF triple_scopes], rule triple_bind [OF triple_own_checks [OF assms]],
        rule triple_bind [OF authority], rule triple_bind [OF triple_policies [OF assms]],
        rule triple_bind [OF others], rule triple_return)
      (unfold prod.case, rule judgedI, assumption, assumption, assumption, rule join)
qed

section \<open>Engine failures are not decisions\<close>

definition undecided :: "token_error \<Rightarrow> bool" where
  "undecided e \<longleftrightarrow> (\<forall>l. e \<noteq> FailedLogic l)"

definition fails_undecided :: "'a auth \<Rightarrow> bool" where
  "fails_undecided m \<longleftrightarrow> (\<forall>st e st'. m st = (Err e, st') \<longrightarrow> undecided e)"

lemma undecided_bind:
  assumes "fails_undecided m" "\<And>x. fails_undecided (f x)"
  shows "fails_undecided (abind m f)"
  using assms unfolding fails_undecided_def abind_def by (fastforce split: prod.splits outcome.splits)

lemma undecided_return: "fails_undecided (areturn x)"
  by (simp add: fails_undecided_def areturn_def)

lemma undecided_convert: "fails_undecided (aconvert f x)"
  by (auto simp: fails_undecided_def aconvert_def split: option.splits)

lemma undecided_read: "(\<And>s e. f s = Err e \<Longrightarrow> undecided e) \<Longrightarrow> fails_undecided (aread f)"
  by (auto simp: fails_undecided_def aread_def)

lemma undecided_time: "fails_undecided (acheck_time clock limit)"
  by (auto simp: fails_undecided_def acheck_time_def undecided_def split: if_splits)

lemma undecided_run_query: "fails_undecided (run_query env kind og trusted q)"
proof -
  have "undecided (token_of_execution e)" for e by (cases e) (simp_all add: undecided_def)
  then have "undecided e" if "query_result env kind og t q s = Err e" for t s e
    using that by (auto simp: query_result_def)
  then show ?thesis
    unfolding run_query_def by (intro undecided_bind undecided_read undecided_time undecided_return)
qed

lemma undecided_any_query: "(\<And>q. fails_undecided (f q)) \<Longrightarrow> fails_undecided (any_query f qs)"
  by (induction qs) (auto intro!: undecided_bind undecided_return)

lemma undecided_failures: "(\<And>i c. fails_undecided (f i c)) \<Longrightarrow> fails_undecided (failures f i cs)"
  by (induction cs arbitrary: i) (auto intro!: undecided_bind undecided_return)

lemma undecided_convert_query: "fails_undecided (convert_query env kind trusted q)"
  unfolding convert_query_def by (intro undecided_bind undecided_convert undecided_run_query)

lemma undecided_block: "fails_undecided (block_failures fmt env i b)"
  unfolding block_failures_def block_check_def
  by (intro undecided_failures undecided_bind undecided_any_query undecided_run_query undecided_read) simp

lemma undecided_blocks: "fails_undecided (blocks_failures fmt env i bs)"
  by (induction bs arbitrary: i) (auto intro!: undecided_bind undecided_return undecided_block)

lemma undecided_own: "fails_undecided (authorizer_check fmt env trusted i ch)"
  unfolding authorizer_check_def
  by (intro undecided_bind undecided_any_query undecided_convert undecided_convert_query undecided_read) simp

lemma undecided_policies: "fails_undecided (first_policy env trusted i ps)"
  by (induction ps arbitrary: i)
    (auto intro!: undecided_bind undecided_return undecided_any_query undecided_convert_query)

lemma undecided_judge: "fails_undecided (judge fmt env a)"
proof -
  have "fails_undecided (authority_failures fmt env bs)" "fails_undecided (other_failures fmt env bs)" for bs
    by (auto simp: authority_failures_def other_failures_def split: option.split list.split
        intro: undecided_return undecided_block undecided_blocks undecided_read)
  then show ?thesis
    unfolding judge_def Let_def
    by (intro undecided_bind undecided_convert undecided_failures undecided_own undecided_policies undecided_return)
qed


lemma authorize_judged:
  assumes "table_wf (au_symbols a)" "authorize_inner fmt rx ti limits a = (res, a')"
    and "(\<exists>i. res = Ok i) \<or> (\<exists>l. res = Err (FailedLogic l))"
  shows "\<exists>pr es. judged rx a pr es \<and> res = decide pr es"
proof -
  obtain symbols n where run: "authorize_body fmt (env_of rx ti limits a) a (au_symbols a, 1) = (res, symbols, n)"
    using assms(2) by (auto simp: authorize_inner_def split: prod.splits)
  obtain r st where j: "judge fmt (env_of rx ti limits a) a (au_symbols a, 1) = (r, st)" by (rule prod.exhaust)
  have "r \<noteq> Err (FailedLogic l)" for l
    using undecided_judge [of fmt "env_of rx ti limits a" a] j
    unfolding fails_undecided_def undecided_def by blast
  with run j assms(3) obtain pr es where r: "r = Ok (pr, es)" and res: "res = decide pr es"
    by (cases r) (auto simp: authorize_body_def abind_def aread_def)
  have "judged rx a pr es"
    using tripleD [OF triple_judge [OF assms(1)] _ j [unfolded r]] table_ext_refl [OF assms(1)] by simp
  with res show ?thesis by blast
qed

text \<open>What justifies a granted authorization, for the scopes of the authorizer.\<close>

definition grants :: "regex \<Rightarrow> authorizer \<Rightarrow> scope list \<Rightarrow> nat \<Rightarrow> bool" where
  "grants rx a scopes i \<longleftrightarrow> resolved_scopes a scopes \<and>
    i < length (au_policies a) \<and> po_kind (au_policies a ! i) = Allow \<and>
    policy_verdict rx a (trusts_of a scopes) (au_policies a ! i) True \<and>
    (\<forall>j < i. policy_verdict rx a (trusts_of a scopes) (au_policies a ! j) False) \<and>
    (\<forall>ch \<in> set (bb_checks (au_block a)). own_check_verdict rx a (trusts_of a scopes) ch True) \<and>
    (\<forall>k < length (the_blocks a). \<forall>ch \<in> set (bl_checks (the_blocks a ! k)).
       block_check_verdict rx a k (the_blocks a ! k) ch True)"

lemma granted_verdicts:
  assumes "table_wf (au_symbols a)" "authorize_inner fmt rx ti limits a = (Ok i, a')"
  shows "\<exists>scopes. grants rx a scopes i"
proof -
  from authorize_judged [OF assms] obtain pr es where j: "judged rx a pr es" and dec: "Ok i = decide pr es"
    by blast
  from dec have pr: "pr = Some (i, Allow)" and es: "es = []"
    by (auto simp: decide_def split: option.splits policy_kind.splits if_splits)
  from j es obtain scopes where scopes: "resolved_scopes a scopes"
    and policies: "policy_report rx a (trusts_of a scopes) 0 (au_policies a) pr"
    and own: "own_report rx a (trusts_of a scopes) []" and blocks: "blocks_report rx a 0 (the_blocks a) []"
    unfolding judged_def by auto
  from scopes policies own blocks pr show ?thesis
    by (intro exI [of _ scopes]) (auto simp: grants_def policy_report_def own_report_def blocks_report_def)
qed

section \<open>A small authorizer\<close>

text \<open>No facts, and the policy \<open>allow if true\<close>.\<close>

definition demo_allow :: policy where
  "demo_allow =
     \<lparr>po_queries = [rule_new (make_pred ''query'' []) [] [\<lparr>be_ops = [BValue (BBool True)]\<rparr>] []], po_kind = Allow\<rparr>"

definition demo_authorizer :: authorizer where
  "demo_authorizer = authorizer_new\<lparr>au_policies := [demo_allow]\<rparr>"

definition demo_formats :: formats where
  "demo_formats = \<lparr>fmt_date = (\<lambda>_. None), fmt_hex = (\<lambda>_. []), fmt_debug_ops = (\<lambda>_. [])\<rparr>"

definition demo_timing :: timing where
  "demo_timing = \<lparr>ti_run = (\<lambda>_. 0), ti_run_elapsed = 0, ti_inner = (\<lambda>_. 0), ti_inner_elapsed = 0\<rparr>"

definition demo_rule :: rule where
  "demo_rule =
     \<lparr>r_head = \<lparr>p_name = 27, p_terms = []\<rparr>, r_body = [], r_expressions = [\<lparr>e_ops = [Value (Bool True)]\<rparr>],
      r_scopes = []\<rparr>"

lemma demo_convert: "rule_convert (hd (po_queries demo_allow)) st_new = Some (demo_rule, st_new)"
  by (simp add: demo_allow_def demo_rule_def rule_convert_def rule_new_def make_pred_def plain_rule_convert_def
      rule_apply_parameters_def predicate_convert_def predicate_apply_def expression_convert_def term_convert_def
      st_insert_def default_symbols_def st_new_def)

lemma demo_match: "find_match rx externs symbols demo_rule [] og scope = Ok True"
  by (simp add: find_match_def rule_apply_def solutions_def demo_rule_def fs_iterator_def variables_set_def
      mv_new_def List.map_filter_def apply_solution_def expr_evaluate_def and_push_def mv_complete_def
      mv_is_complete_def instantiate_head_def body_vars_def)

lemma demo_authorizer_parts:
  "au_block demo_authorizer = bb_new" "au_blocks demo_authorizer = None"
  "au_policies demo_authorizer = [demo_allow]" "au_symbols demo_authorizer = st_new"
  "w_facts (au_world demo_authorizer) = []" "demo_authorizer\<lparr>au_symbols := st_new\<rparr> = demo_authorizer"
  by (simp_all add: demo_authorizer_def authorizer_new_def world_new_def default_symbol_table_def)

lemma demo_policy:
  "any_query (convert_query (env_of (\<lambda>_. None) demo_timing default_limits demo_authorizer) One_kind trusted)
     (po_queries demo_allow) (st_new, 1) = (Ok True, st_new, 2)"
  using demo_convert
  by (simp add: demo_allow_def convert_query_def abind_def aconvert_def run_query_def aread_def acheck_time_def
      areturn_def query_result_def query_match_def env_of_def demo_timing_def default_limits_def
      demo_authorizer_parts demo_match)

lemma demo_granted:
  "authorize_inner demo_formats (\<lambda>_. None) demo_timing default_limits demo_authorizer = (Ok 0, demo_authorizer)"
  by (simp add: Let_def authorize_inner_def authorize_body_def judge_def abind_def aconvert_def areturn_def aread_def
      authority_failures_def other_failures_def decide_def demo_authorizer_parts bb_new_def
      demo_policy [unfolded One_nat_def] demo_allow_def [THEN arg_cong, of po_kind])

lemma empty_refused:
  "authorize_inner demo_formats (\<lambda>_. None) demo_timing default_limits authorizer_new =
     (Err (FailedLogic (NoMatchingPolicy [])), authorizer_new)"
  by (simp add: Let_def authorize_inner_def authorize_body_def judge_def abind_def aconvert_def areturn_def aread_def
      authority_failures_def other_failures_def decide_def authorizer_new_def bb_new_def)

section \<open>Properties\<close>

text \<open>
  C10: A granted authorization is justified: the policy whose index is returned is an allow policy
  that applies, no policy before it applies, and every check of the authorizer and of every block
  passes, each verdict being the declarative one over the facts its scopes trust.
\<close>

theorem authorize_granted:
  assumes "table_wf (au_symbols a)" "authorize_inner fmt rx ti limits a = (Ok i, a')"
  shows "\<exists>scopes. resolved_scopes a scopes \<and>
    i < length (au_policies a) \<and> po_kind (au_policies a ! i) = Allow \<and>
    policy_verdict rx a (trusts_of a scopes) (au_policies a ! i) True \<and>
    (\<forall>j < i. policy_verdict rx a (trusts_of a scopes) (au_policies a ! j) False) \<and>
    (\<forall>ch \<in> set (bb_checks (au_block a)). own_check_verdict rx a (trusts_of a scopes) ch True) \<and>
    (\<forall>k < length (the_blocks a). \<forall>ch \<in> set (bl_checks (the_blocks a ! k)).
       block_check_verdict rx a k (the_blocks a ! k) ch True)"
  using granted_verdicts [OF assms] unfolding grants_def .

lemma authorize_granted_witness:
  "\<exists>scopes. resolved_scopes demo_authorizer scopes \<and>
     policy_verdict (\<lambda>_. None) demo_authorizer (trusts_of demo_authorizer scopes) demo_allow True"
  using authorize_granted [OF _ demo_granted] by (auto simp: demo_authorizer_parts table_wf_new)

text \<open>
  C11: A refusal is justified: either no policy applies, or the first policy that applies is a deny
  policy, or it is an allow policy and some check failed; and every failure that is reported is
  that of a check that does not pass, by its block and its index.
\<close>

theorem authorize_refused:
  assumes "table_wf (au_symbols a)" "authorize_inner fmt rx ti limits a = (Err (FailedLogic l), a')"
  shows "\<exists>scopes es. resolved_scopes a scopes \<and>
    (let applies = (\<lambda>j. policy_verdict rx a (trusts_of a scopes) (au_policies a ! j)) in
      (case l of
         NoMatchingPolicy fs \<Rightarrow> fs = es \<and> (\<forall>j < length (au_policies a). applies j False)
       | Unauthorized (MatchedDeny i) fs \<Rightarrow>
           fs = es \<and> i < length (au_policies a) \<and> po_kind (au_policies a ! i) = Deny \<and>
           applies i True \<and> (\<forall>j < i. applies j False)
       | Unauthorized (MatchedAllow i) fs \<Rightarrow>
           fs = es \<and> es \<noteq> [] \<and> i < length (au_policies a) \<and> po_kind (au_policies a ! i) = Allow \<and>
           applies i True \<and> (\<forall>j < i. applies j False)
       | _ \<Rightarrow> False)) \<and>
    (\<forall>e \<in> set es.
       (\<exists>j < length (bb_checks (au_block a)).
          own_check_verdict rx a (trusts_of a scopes) (bb_checks (au_block a) ! j) False \<and> own_failure j e) \<or>
       (\<exists>k < length (the_blocks a). \<exists>j < length (bl_checks (the_blocks a ! k)).
          block_check_verdict rx a k (the_blocks a ! k) (bl_checks (the_blocks a ! k) ! j) False \<and>
          block_failure k j e))"
proof -
  from authorize_judged [OF assms] obtain pr es where j: "judged rx a pr es"
    and dec: "Err (FailedLogic l) = decide pr es" by blast
  from j obtain scopes own others where scopes: "resolved_scopes a scopes"
    and policies: "policy_report rx a (trusts_of a scopes) 0 (au_policies a) pr"
    and own: "own_report rx a (trusts_of a scopes) own"
    and blocks: "blocks_report rx a 0 (the_blocks a) others" and es: "es = own @ others"
    unfolding judged_def by auto
  let ?applies = "\<lambda>j. policy_verdict rx a (trusts_of a scopes) (au_policies a ! j)"
  have "case l of
         NoMatchingPolicy fs \<Rightarrow> fs = es \<and> (\<forall>j < length (au_policies a). ?applies j False)
       | Unauthorized (MatchedDeny i) fs \<Rightarrow>
           fs = es \<and> i < length (au_policies a) \<and> po_kind (au_policies a ! i) = Deny \<and>
           ?applies i True \<and> (\<forall>j < i. ?applies j False)
       | Unauthorized (MatchedAllow i) fs \<Rightarrow>
           fs = es \<and> es \<noteq> [] \<and> i < length (au_policies a) \<and> po_kind (au_policies a ! i) = Allow \<and>
           ?applies i True \<and> (\<forall>j < i. ?applies j False)
       | _ \<Rightarrow> False"
    using dec policies
    by (auto simp: decide_def policy_report_def split: option.splits policy_kind.splits if_splits)
  moreover have "\<forall>e \<in> set es.
       (\<exists>j < length (bb_checks (au_block a)).
          own_check_verdict rx a (trusts_of a scopes) (bb_checks (au_block a) ! j) False \<and> own_failure j e) \<or>
       (\<exists>k < length (the_blocks a). \<exists>j < length (bl_checks (the_blocks a ! k)).
          block_check_verdict rx a k (the_blocks a ! k) (bl_checks (the_blocks a ! k) ! j) False \<and>
          block_failure k j e)"
    using own blocks unfolding es own_report_def blocks_report_def by fastforce
  ultimately show ?thesis using scopes unfolding Let_def by blast
qed



lemma authorize_refused_witness: "\<exists>scopes. resolved_scopes authorizer_new scopes"
  using authorize_refused [OF _ empty_refused]
  by (auto simp: authorizer_new_def default_symbol_table_def table_wf_new)

end
