(* ===== verification/Attenuation.thy ===== *)
theory Attenuation
  imports Authorization
begin

text \<open>
  Attenuation only restricts: the facts and rules of one more first-party block are invisible to
  the authorizer's checks and policies and to the checks of the blocks before it, and its own
  checks can only fail.  The proof compares two runs of \<open>authorize\<close>, step by step.
\<close>

section \<open>Runs that agree\<close>

definition agree :: "'a auth \<Rightarrow> 'a auth \<Rightarrow> bool" where
  "agree m m' \<longleftrightarrow> (\<forall>st x s1 y s2. m st = (Ok x, s1) \<longrightarrow> m' st = (Ok y, s2) \<longrightarrow> x = y \<and> s1 = s2)"

lemma agreeD: "agree m m' \<Longrightarrow> m st = (Ok x, s1) \<Longrightarrow> m' st = (Ok y, s2) \<Longrightarrow> x = y \<and> s1 = s2"
  unfolding agree_def by blast

lemma agree_refl: "agree m m"
  by (simp add: agree_def)

lemma agree_bind:
  assumes "agree m m'" "\<And>x. agree (f x) (f' x)"
  shows "agree (abind m f) (abind m' f')"
  unfolding agree_def abind_Ok using agreeD [OF assms(1)] agreeD [OF assms(2)] by blast

lemma agree_time: "agree (acheck_time c l) (acheck_time c' l')"
  by (auto simp: agree_def acheck_time_def split: if_splits)

lemma agree_any_query: "(\<And>q. q \<in> set qs \<Longrightarrow> agree (f q) (f' q)) \<Longrightarrow> agree (any_query f qs) (any_query f' qs)"
  by (induction qs) (auto intro!: agree_bind agree_refl)

lemma agree_failures:
  "(\<And>i c. c \<in> set cs \<Longrightarrow> agree (f i c) (f' i c)) \<Longrightarrow> agree (failures f i cs) (failures f' i cs)"
  by (induction cs arbitrary: i) (auto intro!: agree_bind agree_refl)

text \<open>Two environments that differ in facts a trust does not see, and in their clocks.\<close>

definition same_view :: "auth_env \<Rightarrow> auth_env \<Rightarrow> trusted_origins \<Rightarrow> bool" where
  "same_view env env' t \<longleftrightarrow>
     ev_regex env = ev_regex env' \<and> ev_keys env = ev_keys env' \<and>
     w_externs (ev_world env) = w_externs (ev_world env') \<and>
     visible t (fs_pairs (w_facts (ev_world env))) = visible t (fs_pairs (w_facts (ev_world env')))"

lemma agree_run_query:
  assumes "same_view env env' (from_scopes (r_scopes q) trusted og (ev_keys env))"
  shows "agree (run_query env kind og trusted q) (run_query env' kind og trusted q)"
proof -
  let ?t = "from_scopes (r_scopes q) trusted og (ev_keys env)"
  have keys: "ev_keys env' = ev_keys env" and rx: "ev_regex env = ev_regex env'"
    and externs: "w_externs (ev_world env) = w_externs (ev_world env')"
    using assms unfolding same_view_def by simp_all
  have facts: "visible ?t (fs_pairs (w_facts (ev_world env))) = visible ?t (fs_pairs (w_facts (ev_world env')))"
    using assms unfolding same_view_def by blast
  have "x = y" if "query_result env kind og ?t q s = Ok x" "query_result env' kind og ?t q s = Ok y" for s x y
    using query_result_satisfied [OF that(1)] query_result_satisfied [OF that(2)]
    unfolding rx externs facts by blast
  then have "agree (aread (query_result env kind og ?t q)) (aread (query_result env' kind og ?t q))"
    by (auto simp: agree_def aread_def)
  then show ?thesis
    unfolding run_query_def keys by (intro agree_bind agree_time agree_refl)
qed

section \<open>Trust that avoids a block\<close>

definition avoids :: "nat \<Rightarrow> trusted_origins \<Rightarrow> bool" where
  "avoids n t \<longleftrightarrow> n |\<notin>| to_inner t"

definition keys_avoid :: "nat \<Rightarrow> key_blocks \<Rightarrow> bool" where
  "keys_avoid n keys \<longleftrightarrow> (\<forall>k is. keys k = Some is \<longrightarrow> n \<notin> set is)"

lemma avoids_default: "0 < n \<Longrightarrow> n < usize_max \<Longrightarrow> avoids n default_trusted"
  by (simp add: avoids_def default_trusted_mem)

lemma avoids_from_scopes:
  assumes "0 < n" "n < usize_max" "og < n \<or> og = usize_max" "avoids n d" "keys_avoid n keys"
  shows "avoids n (from_scopes ss d og keys)"
proof -
  have "\<not> scope_admits og keys s n" for s
    using assms(1,3,5) by (cases s) (auto simp: scope_admits_def keys_avoid_def)
  then show ?thesis
    using assms(2-4) by (auto simp: avoids_def from_scopes_mem)
qed

definition same_outside :: "nat \<Rightarrow> auth_env \<Rightarrow> auth_env \<Rightarrow> bool" where
  "same_outside n env env' \<longleftrightarrow> (\<forall>t. avoids n t \<longrightarrow> same_view env env' t)"

lemma same_outsideD: "same_outside n env env' \<Longrightarrow> avoids n t \<Longrightarrow> same_view env env' t"
  unfolding same_outside_def by blast

lemma same_outside_keys: "same_outside n env env' \<Longrightarrow> ev_keys env' = ev_keys env"
proof -
  assume same: "same_outside n env env'"
  have "avoids n \<lparr>to_inner = {||}\<rparr>" by (simp add: avoids_def)
  from same_outsideD [OF same this] show ?thesis by (simp add: same_view_def)
qed

section \<open>Authorizations that agree up to the last block\<close>

lemma agree_block:
  assumes "same_outside n env env'" "keys_avoid n (ev_keys env)" "0 < n" "n < usize_max" "i < n"
  shows "agree (block_failures fmt env i b) (block_failures fmt env' i b)"
proof -
  have "avoids n (from_scopes (bl_scopes b) default_trusted i (ev_keys env))"
    using assms avoids_default [OF assms(3,4)] by (intro avoids_from_scopes) simp_all
  then have "same_view env env'
      (from_scopes (r_scopes q) (from_scopes (bl_scopes b) default_trusted i (ev_keys env)) i (ev_keys env))" for q
    using assms avoids_default [OF assms(3,4)] by (intro same_outsideD [OF assms(1)] avoids_from_scopes) simp_all
  then show ?thesis
    unfolding block_failures_def block_check_def same_outside_keys [OF assms(1)]
    by (intro agree_failures agree_bind agree_any_query agree_run_query agree_refl)
qed

lemma agree_convert_query:
  assumes "same_outside n env env'" "keys_avoid n (ev_keys env)" "0 < n" "n < usize_max" "avoids n trusted"
  shows "agree (convert_query env kind trusted q) (convert_query env' kind trusted q)"
  unfolding convert_query_def
  using assms by (intro agree_bind agree_refl agree_run_query same_outsideD [OF assms(1)] avoids_from_scopes) simp_all

lemma agree_policies:
  assumes "same_outside n env env'" "keys_avoid n (ev_keys env)" "0 < n" "n < usize_max" "avoids n trusted"
  shows "agree (first_policy env trusted i ps) (first_policy env' trusted i ps)"
proof (induction ps arbitrary: i)
  case (Cons po ps)
  then show ?case
    by (auto intro!: agree_bind agree_any_query agree_convert_query [OF assms] agree_refl)
qed (simp add: agree_refl)

text \<open>Results related, whatever the states.\<close>

definition related :: "('a \<Rightarrow> 'b \<Rightarrow> bool) \<Rightarrow> 'a auth \<Rightarrow> 'b auth \<Rightarrow> bool" where
  "related R m m' \<longleftrightarrow> (\<forall>st x s1 y s2. m st = (Ok x, s1) \<longrightarrow> m' st = (Ok y, s2) \<longrightarrow> R x y)"

lemma relatedD: "related R m m' \<Longrightarrow> m st = (Ok x, s1) \<Longrightarrow> m' st = (Ok y, s2) \<Longrightarrow> R x y"
  unfolding related_def by blast

lemma related_bind:
  assumes "agree m m'" "\<And>x. related R (f x) (f' x)"
  shows "related R (abind m f) (abind m' f')"
  unfolding related_def abind_Ok using agreeD [OF assms(1)] relatedD [OF assms(2)] by blast

lemma related_finish:
  assumes "related R m m'" "\<And>x y. R x y \<Longrightarrow> S (g x) (g' y)"
  shows "related S (abind m (\<lambda>x. areturn (g x))) (abind m' (\<lambda>y. areturn (g' y)))"
  unfolding related_def abind_Ok areturn_def using relatedD [OF assms(1)] assms(2) by auto

abbreviation extends :: "'a list \<Rightarrow> 'a list \<Rightarrow> bool" where
  "extends xs ys \<equiv> \<exists>zs. ys = xs @ zs"

lemma related_blocks:
  assumes "same_outside n env env'" "keys_avoid n (ev_keys env)" "0 < n" "n < usize_max" "i + length bs = n"
  shows "related extends (blocks_failures fmt env i bs) (blocks_failures fmt env' i (bs @ [c]))"
  using assms(5)
proof (induction bs arbitrary: i)
  case Nil
  show ?case by (simp add: related_def areturn_def)
next
  case (Cons b bs)
  have "agree (block_failures fmt env i b) (block_failures fmt env' i b)"
    using Cons.prems by (intro agree_block [OF assms(1-4)]) simp
  moreover have "related extends (blocks_failures fmt env (i + 1) bs) (blocks_failures fmt env' (i + 1) (bs @ [c]))"
    using Cons.prems by (intro Cons.IH) simp
  ultimately show ?case
    unfolding append_Cons blocks_failures.simps by (elim related_bind related_finish) auto
qed

section \<open>One more block\<close>

text \<open>What loading a block with the index \<open>n\<close> adds to a world.\<close>

definition block_added :: "nat \<Rightarrow> world \<Rightarrow> world \<Rightarrow> bool" where
  "block_added n w w' \<longleftrightarrow>
     w_externs w' = w_externs w \<and>
     (\<exists>F. fs_pairs (w_facts w') = fs_pairs (w_facts w) \<union> Pair (block_origin n) ` F) \<and>
     (\<exists>R. rs_triples (w_rules w') = rs_triples (w_rules w) \<union> R \<and> (\<forall>(t, ro, r) \<in> R. ro = n))"

lemma block_added_visible:
  assumes "block_added n w w'" "avoids n t"
  shows "visible t (fs_pairs (w_facts w')) = visible t (fs_pairs (w_facts w))"
    "rules_of t (rs_triples (w_rules w')) = rules_of t (rs_triples (w_rules w))"
  using assms
  by (auto simp: block_added_def visible_def rules_of_def avoids_def block_origin_def trusts_iff origin_defs)

lemma block_added_run:
  assumes "block_added n w w'" "wf_facts (w_facts w)" "wf_facts (w_facts w')"
    and "run_with_limits rx clock symbols limits w = (Ok (), v)"
    and "run_with_limits rx clock' symbols limits' w' = (Ok (), v')"
  shows "w_externs v = w_externs v'"
    "avoids n t \<Longrightarrow> visible t (fs_pairs (w_facts v)) = visible t (fs_pairs (w_facts v'))"
proof -
  show "w_externs v = w_externs v'"
    using run_with_limits_exit [OF assms(4,2)] run_with_limits_exit [OF assms(5,3)] assms(1)
    by (simp add: exit_ok_def block_added_def)
  assume "avoids n t"
  with assms(1) have "visible t (fs_pairs (w_facts w')) = visible t (fs_pairs (w_facts w))"
    "rules_of t (rs_triples (w_rules w')) = rules_of t (rs_triples (w_rules w))" "w_externs w' = w_externs w"
    by (simp_all add: block_added_visible) (simp add: block_added_def)
  then show "visible t (fs_pairs (w_facts v)) = visible t (fs_pairs (w_facts v'))"
    by (simp only: visible_after_run [OF assms(2,4)] visible_after_run [OF assms(3,5)])
qed

text \<open>The same authorizer after one more block, which no key of the authorizer's table names.\<close>

definition attenuated :: "nat \<Rightarrow> authorizer \<Rightarrow> authorizer \<Rightarrow> bool" where
  "attenuated n a b \<longleftrightarrow>
     (\<exists>bs c. au_blocks a = Some bs \<and> au_blocks b = Some (bs @ [c]) \<and> length bs = n) \<and>
     0 < n \<and> n < usize_max \<and> keys_avoid n (au_key_blocks a) \<and>
     au_block b = au_block a \<and> au_policies b = au_policies a \<and> au_symbols b = au_symbols a \<and>
     au_key_blocks b = au_key_blocks a"

text \<open>The decision over a longer list of failures.\<close>

definition at_least ::
    "(nat \<times> policy_kind) option \<times> failed_check list \<Rightarrow> (nat \<times> policy_kind) option \<times> failed_check list \<Rightarrow> bool" where
  "at_least x y \<longleftrightarrow> fst y = fst x \<and> extends (snd x) (snd y)"

lemma decide_at_least: "at_least x y \<Longrightarrow> decide (fst y) (snd y) = Ok i \<Longrightarrow> decide (fst x) (snd x) = Ok i"
  by (auto simp: at_least_def decide_def split: option.splits policy_kind.splits if_splits)

lemma related_judge:
  assumes "attenuated n a b" "ev_keys env = au_key_blocks a" "same_outside n env env'"
  shows "related at_least (judge fmt env a) (judge fmt env' b)"
proof -
  from assms(1) obtain bs c where blocks: "au_blocks a = Some bs" "au_blocks b = Some (bs @ [c])" "length bs = n"
    and n: "0 < n" "n < usize_max" and ka: "keys_avoid n (au_key_blocks a)"
    and same: "au_block b = au_block a" "au_policies b = au_policies a"
    unfolding attenuated_def by blast
  have keys: "keys_avoid n (ev_keys env)" using ka assms(2) by simp
  from blocks(3) n(1) obtain b0 rest where bs: "bs = b0 # rest" by (cases bs) auto
  have trusted: "avoids n (from_scopes scopes default_trusted usize_max (ev_keys env))" for scopes
    using n keys avoids_default [OF n] by (intro avoids_from_scopes) simp_all
  note steps = assms(3) keys n
  have own: "agree (failures (authorizer_check fmt env t) 0 (bb_checks (au_block a)))
      (failures (authorizer_check fmt env' t) 0 (bb_checks (au_block a)))" if "avoids n t" for t
    unfolding authorizer_check_def
    by (intro agree_failures agree_bind agree_any_query agree_convert_query [OF steps that] agree_refl)
  have authority: "agree (authority_failures fmt env (au_blocks a)) (authority_failures fmt env' (au_blocks b))"
    using n by (simp add: authority_failures_def blocks bs agree_block [OF steps])
  have others: "related extends (other_failures fmt env (au_blocks a)) (other_failures fmt env' (au_blocks b))"
    using related_blocks [OF steps, of 1 rest fmt c] blocks(3) by (simp add: other_failures_def blocks bs)
  show ?thesis
    unfolding judge_def Let_def same same_outside_keys [OF assms(3)]
    by (intro related_bind [OF agree_refl] related_bind [OF own [OF trusted]] related_bind [OF authority]
        related_bind [OF agree_policies [OF steps trusted]] related_finish [OF others])
      (auto simp: at_least_def)
qed

lemma authorize_inner_attenuated:
  assumes "attenuated n a b" "same_outside n (env_of rx ti limits a) (env_of rx ti' limits' b)"
    and "fst (authorize_inner fmt rx ti limits a) = Err (FailedLogic l)"
  shows "fst (authorize_inner fmt rx ti' limits' b) \<noteq> Ok i"
proof
  assume b: "fst (authorize_inner fmt rx ti' limits' b) = Ok i"
  let ?ja = "judge fmt (env_of rx ti limits a) a (au_symbols a, 1)"
    and ?jb = "judge fmt (env_of rx ti' limits' b) b (au_symbols b, 1)"
  obtain ra sa where ja: "?ja = (ra, sa)" by (rule prod.exhaust)
  obtain rb sb where jb: "?jb = (rb, sb)" by (rule prod.exhaust)
  have "ra \<noteq> Err (FailedLogic l)"
    using undecided_judge [of fmt "env_of rx ti limits a" a] ja unfolding fails_undecided_def undecided_def by blast
  with assms(3) ja obtain pr es where a: "ra = Ok (pr, es)" "decide pr es = Err (FailedLogic l)"
    by (cases ra) (auto simp: authorize_inner_def authorize_body_def abind_def aread_def split: prod.splits)
  from b jb obtain pr' es' where b': "rb = Ok (pr', es')" "decide pr' es' = Ok i"
    by (cases rb) (auto simp: authorize_inner_def authorize_body_def abind_def aread_def split: prod.splits)
  have "au_symbols b = au_symbols a" using assms(1) by (simp add: attenuated_def)
  with related_judge [OF assms(1) _ assms(2)] ja jb a b' have "at_least (pr, es) (pr', es')"
    by (auto simp: env_of_def intro: relatedD)
  from decide_at_least [OF this] b' a show False by simp
qed

section \<open>The decision\<close>

text \<open>A run of \<open>authorize\<close> that decides: its saturation, and its decision on the saturated world.\<close>

lemma authorize_decides:
  assumes "fst (authorize fmt rx oc ti a) = res" "\<And>e. res = Err e \<Longrightarrow> \<not> undecided e" "res \<noteq> Panic"
    and "au_execution_time a = None"
  shows "\<exists>w t limits. run_with_limits rx (ti_run ti) (au_symbols a) (au_limits a) (au_world a) = (Ok (), w) \<and>
    fst (authorize_inner fmt rx ti limits (a\<lparr>au_world := w, au_execution_time := Some t\<rparr>)) = res"
proof -
  have tok: "undecided (token_of_execution e)" "undecided (Token_RunLimit lim)" for e lim
    by (cases e) (simp_all add: undecided_def)
  obtain r w where run: "run_with_limits rx (ti_run ti) (au_symbols a) (au_limits a) (au_world a) = (r, w)"
    by (rule prod.exhaust)
  let ?a1 = "a\<lparr>au_world := w, au_execution_time := Some (ti_run_elapsed ti)\<rparr>"
  from assms run have r: "r = Ok ()"
    using tok(1) by (cases r) (auto simp: authorize_def authorizer_run_def)
  then have first: "authorizer_run rx ti a = (Ok (ti_run_elapsed ti), ?a1)"
    using assms(4) run by (simp add: authorizer_run_def split: unit.split)
  have again: "authorizer_run rx ti ?a1 = (Ok (ti_run_elapsed ti), ?a1)"
    by (simp add: authorizer_run_def)
  have "fst (case authorize_inner fmt rx ti limits ?a1 of
      (res, a2) \<Rightarrow> (res, a2\<lparr>au_execution_time := Some (ti_run_elapsed ti + ti_inner_elapsed ti)\<rparr>)) =
      fst (authorize_inner fmt rx ti limits ?a1)" for limits
    by (simp split: prod.splits)
  then have "\<exists>limits. fst (authorize_inner fmt rx ti limits ?a1) = res"
    using assms(1,2,3) tok(2) first again
    by (auto simp: authorize_def authorize_with_limits_def remaining_limits_def split: if_splits)
  with run r show ?thesis by blast
qed

text \<open>
  Take an authorizer and the same authorizer with one more
  first-party block: its facts and rules are in the world, with the origin of the block, and its
  checks are the last ones.  If the first is refused, by its checks or its policies, the second is
  not granted, whatever the block contains and whatever the limits and the clocks.
\<close>

lemma attenuated_not_granted:
  assumes "attenuated n a b" "block_added n (au_world a) (au_world b)"
    and "wf_facts (w_facts (au_world a))" "wf_facts (w_facts (au_world b))"
    and "au_execution_time a = None" "au_execution_time b = None"
    and "fst (authorize fmt rx oc ti a) = Err (FailedLogic l)"
  shows "fst (authorize fmt rx oc' ti' b) \<noteq> Ok i"
proof
  assume granted: "fst (authorize fmt rx oc' ti' b) = Ok i"
  from authorize_decides [OF assms(7) _ _ assms(5)] obtain v t limits where
    va: "run_with_limits rx (ti_run ti) (au_symbols a) (au_limits a) (au_world a) = (Ok (), v)"
    and ja: "fst (authorize_inner fmt rx ti limits (a\<lparr>au_world := v, au_execution_time := Some t\<rparr>)) =
      Err (FailedLogic l)"
    by (auto simp: undecided_def)
  from authorize_decides [OF granted _ _ assms(6)] obtain v' t' limits' where
    vb: "run_with_limits rx (ti_run ti') (au_symbols b) (au_limits b) (au_world b) = (Ok (), v')"
    and jb: "fst (authorize_inner fmt rx ti' limits' (b\<lparr>au_world := v', au_execution_time := Some t'\<rparr>)) = Ok i"
    by auto
  let ?a = "a\<lparr>au_world := v, au_execution_time := Some t\<rparr>" and ?b = "b\<lparr>au_world := v', au_execution_time := Some t'\<rparr>"
  have same: "au_symbols b = au_symbols a" "au_key_blocks b = au_key_blocks a"
    using assms(1) by (simp_all add: attenuated_def)
  note run = block_added_run [OF assms(2-4) va vb [unfolded same]]
  have "same_outside n (env_of rx ti limits ?a) (env_of rx ti' limits' ?b)"
    using run same by (simp add: same_outside_def same_view_def env_of_def)
  moreover have "attenuated n ?a ?b" using assms(1) by (simp add: attenuated_def)
  ultimately show False using authorize_inner_attenuated ja jb by blast
qed

end
