(* ===== verification/Loading.thy ===== *)
theory Loading
  imports Attenuation
begin

text \<open>
  What \<open>build_inner\<close> puts in an authorizer: the facts of block \<open>i\<close> with the origin \<open>{i}\<close>, its rules
  under the origins that its scopes trust, the authorizer's own elements as those of block
  \<open>usize::MAX\<close>, and, for every external key, the blocks that it signed.
\<close>

section \<open>Insertions\<close>

lemma add_facts:
  "w_rules (fold (add_fact og) fs w) = w_rules w \<and> w_externs (fold (add_fact og) fs w) = w_externs w \<and>
   w_iterations (fold (add_fact og) fs w) = w_iterations w \<and>
   fs_pairs (w_facts (fold (add_fact og) fs w)) = fs_pairs (w_facts w) \<union> Pair og ` set fs \<and>
   (wf_facts (w_facts w) \<longrightarrow> wf_facts (w_facts (fold (add_fact og) fs w)))"
  by (induction fs arbitrary: w) (auto simp: add_fact_def fs_insert_pairs fs_insert_wf)

definition scoped :: "nat \<Rightarrow> trusted_origins \<Rightarrow> key_blocks \<Rightarrow> rule \<Rightarrow> scoped_rule" where
  "scoped i trusted keys r = (from_scopes (r_scopes r) trusted i keys, i, r)"

lemma add_rules:
  "w_facts (fold (insert_rule i trusted keys) rs w) = w_facts w \<and>
   w_externs (fold (insert_rule i trusted keys) rs w) = w_externs w \<and>
   w_iterations (fold (insert_rule i trusted keys) rs w) = w_iterations w \<and>
   rs_triples (w_rules (fold (insert_rule i trusted keys) rs w)) =
     rs_triples (w_rules w) \<union> scoped i trusted keys ` set rs"
  by (induction rs arbitrary: w) (auto simp: insert_rule_def add_rule_def rs_insert_triples scoped_def)

text \<open>What a block contributes to a world.\<close>

definition contributes ::
    "nat \<Rightarrow> key_blocks \<Rightarrow> scope list \<Rightarrow> fact list \<Rightarrow> rule list \<Rightarrow> world \<Rightarrow> world \<Rightarrow> bool" where
  "contributes i keys scopes facts rules w w' \<longleftrightarrow>
     fs_pairs (w_facts w') = fs_pairs (w_facts w) \<union> Pair (block_origin i) ` set facts \<and>
     rs_triples (w_rules w') =
       rs_triples (w_rules w) \<union> scoped i (from_scopes scopes default_trusted i keys) keys ` set rules \<and>
     w_externs w' = w_externs w \<and> w_iterations w' = w_iterations w \<and>
     (wf_facts (w_facts w) \<longrightarrow> wf_facts (w_facts w'))"

lemma contributesI:
  "contributes i keys scopes facts rules w
     (fold (insert_rule i (from_scopes scopes default_trusted i keys) keys) rules
       (fold (add_fact (block_origin i)) facts w))"
  unfolding contributes_def
  using add_facts [of "block_origin i" facts w]
    add_rules [of i "from_scopes scopes default_trusted i keys" keys rules "fold (add_fact (block_origin i)) facts w"]
  by simp

text \<open>A contribution of block \<open>i\<close> is a block added, for an untrusting reader.\<close>

lemma contributes_added: "contributes i keys scopes facts rules w w' \<Longrightarrow> block_added i w w'"
proof -
  assume c: "contributes i keys scopes facts rules w w'"
  have "\<forall>(t, ro, r) \<in> scoped i (from_scopes scopes default_trusted i keys) keys ` set rules. ro = i"
    by (auto simp: scoped_def)
  with c show ?thesis unfolding contributes_def block_added_def by blast
qed

lemma contributes_both:
  assumes "block_added n w w'" "contributes i keys scopes facts rules w v" "contributes i keys scopes facts rules w' v'"
  shows "block_added n v v'"
proof -
  from assms(1) obtain F R where e: "w_externs w' = w_externs w"
    and F: "fs_pairs (w_facts w') = fs_pairs (w_facts w) \<union> Pair (block_origin n) ` F"
    and R: "rs_triples (w_rules w') = rs_triples (w_rules w) \<union> R" "\<forall>(t, ro, r) \<in> R. ro = n"
    unfolding block_added_def by blast
  have "fs_pairs (w_facts v') = fs_pairs (w_facts v) \<union> Pair (block_origin n) ` F"
    "rs_triples (w_rules v') = rs_triples (w_rules v) \<union> R" "w_externs v' = w_externs v"
    using assms(2,3) F R(1) e by (auto simp: contributes_def)
  with R(2) show ?thesis unfolding block_added_def by blast
qed

section \<open>One block\<close>

lemma load_contributes:
  assumes "load_and_translate_block fmt b i src keys symbols w = Ok (b', symbols', w')"
  shows "contributes i keys (bl_scopes b') (bl_facts b') (bl_rules b') w w'"
  using assms contributesI
  by (auto simp: load_and_translate_block_def Let_def outcome_simps)

lemma tr_ext: "tr h g src x \<Longrightarrow> table_wf t \<Longrightarrow> h x t = Ok (y, u) \<Longrightarrow> table_ext t u"
  by (rule trD)

lemma load_rules_translate:
  "otraverse (load_rule fmt src) xs s = Ok (ys, u) \<Longrightarrow> otraverse (rule_translate src) xs s = Ok (ys, u)"
  by (induction xs arbitrary: s ys) (auto simp: load_rule_def outcome_simps split: outcome.splits unit.splits)

lemma load_steps:
  assumes "load_and_translate_block fmt b i src keys symbols w = Ok (b', symbols', w')"
  shows "\<exists>s1 s2 s3.
    otraverse (\<lambda>c. read_then_write (scope_convert_from c (block_table b i src)) scope_convert) (bl_scopes b) symbols = Ok (bl_scopes b', s1) \<and>
    otraverse (fact_translate (block_table b i src)) (bl_facts b) s1 = Ok (bl_facts b', s2) \<and>
    otraverse (rule_translate (block_table b i src)) (bl_rules b) s2 = Ok (bl_rules b', s3) \<and>
    otraverse (check_translate (block_table b i src)) (bl_checks b) s3 = Ok (bl_checks b', symbols')"
  using assms load_rules_translate
  by (fastforce simp: load_and_translate_block_def Let_def outcome_simps)

text \<open>A block and its translation say the same, each in its table.\<close>

definition reads_same :: "symbol_table \<Rightarrow> block \<Rightarrow> symbol_table \<Rightarrow> block \<Rightarrow> bool" where
  "reads_same s b t b' \<longleftrightarrow>
     traverse (\<lambda>x. scope_convert_from x t) (bl_scopes b') = traverse (\<lambda>x. scope_convert_from x s) (bl_scopes b) \<and>
     traverse (\<lambda>x. fact_convert_from x t) (bl_facts b') = traverse (\<lambda>x. fact_convert_from x s) (bl_facts b) \<and>
     traverse (\<lambda>x. rule_convert_from x t) (bl_rules b') = traverse (\<lambda>x. rule_convert_from x s) (bl_rules b) \<and>
     traverse (\<lambda>x. check_convert_from x t) (bl_checks b') = traverse (\<lambda>x. check_convert_from x s) (bl_checks b)"

lemma trE:
  assumes "tr h g src x" "table_wf t" "h x t = Ok (y, u)"
  shows "table_ext t u" "table_wf u" "table_ext u v \<Longrightarrow> st_terms.small v \<Longrightarrow> g y v = g x src"
  using trD [OF assms] by auto

lemma tr_scope: "tr (\<lambda>c. read_then_write (scope_convert_from c src) scope_convert) scope_convert_from src c"
  by (rule tr_read_then_write) (rule rt_scope)

lemma load_translates:
  assumes "load_and_translate_block fmt b i src keys symbols w = Ok (b', symbols', w')" "table_wf symbols"
  shows "table_ext symbols symbols'"
    "table_ext symbols' v \<Longrightarrow> st_terms.small v \<Longrightarrow> reads_same (block_table b i src) b v b'"
proof -
  let ?src = "block_table b i src"
  from load_steps [OF assms(1)] obtain s1 s2 s3 where
    steps: "otraverse (\<lambda>c. read_then_write (scope_convert_from c ?src) scope_convert) (bl_scopes b) symbols = Ok (bl_scopes b', s1)"
      "otraverse (fact_translate ?src) (bl_facts b) s1 = Ok (bl_facts b', s2)"
      "otraverse (rule_translate ?src) (bl_rules b) s2 = Ok (bl_rules b', s3)"
      "otraverse (check_translate ?src) (bl_checks b) s3 = Ok (bl_checks b', symbols')" by blast
  note t1 = trE [OF tr_list [OF tr_scope] assms(2) steps(1)]
  note t2 = trE [OF tr_list [OF tr_fact] t1(2) steps(2)]
  note t3 = trE [OF tr_list [OF tr_rule] t2(2) steps(3)]
  note t4 = trE [OF tr_list [OF tr_check] t3(2) steps(4)]
  have e2: "table_ext s2 symbols'" using t3(1) t4(1) table_ext_trans by blast
  have e1: "table_ext s1 symbols'" using t2(1) e2 table_ext_trans by blast
  show "table_ext symbols symbols'" using t1(1) e1 table_ext_trans by blast
  show "reads_same ?src b v b'" if v: "table_ext symbols' v" "st_terms.small v"
    unfolding reads_same_def
    using t1(3) [OF table_ext_trans [OF e1 v(1)] v(2)] t2(3) [OF table_ext_trans [OF e2 v(1)] v(2)]
      t3(3) [OF table_ext_trans [OF t4(1) v(1)] v(2)] t4(3) [OF v] by blast
qed

section \<open>All blocks\<close>

text \<open>The contributions of the blocks from number \<open>i\<close> on.\<close>

fun contributions :: "nat \<Rightarrow> key_blocks \<Rightarrow> block list \<Rightarrow> world \<Rightarrow> world \<Rightarrow> bool" where
  "contributions i keys [] w w' \<longleftrightarrow> w' = w"
| "contributions i keys (b # bs) w w' \<longleftrightarrow>
     (\<exists>v. contributes i keys (bl_scopes b) (bl_facts b) (bl_rules b) w v \<and> contributions (i + 1) keys bs v w')"

definition loaded :: "nat \<Rightarrow> (token_error, block) outcome list \<Rightarrow> symbol_table \<Rightarrow> symbol_table \<Rightarrow> block list \<Rightarrow> bool" where
  "loaded i results src v bs \<longleftrightarrow>
     length bs = length results \<and>
     (\<forall>j < length bs. \<exists>b. results ! j = Ok b \<and> bl_external_key (bs ! j) = bl_external_key b \<and>
        (st_terms.small v \<longrightarrow> reads_same (block_table b (i + j) src) b v (bs ! j)))"

lemma loaded_Cons:
  assumes "bl_external_key b' = bl_external_key b" "st_terms.small v \<longrightarrow> reads_same (block_table b i src) b v b'"
    and "loaded (i + 1) results src v bs"
  shows "loaded i (Ok b # results) src v (b' # bs)"
  unfolding loaded_def
proof (intro conjI allI impI)
  show "length (b' # bs) = length (Ok b # results)" using assms(3) by (simp add: loaded_def)
  fix j assume "j < length (b' # bs)"
  then show "\<exists>c. (Ok b # results) ! j = Ok c \<and> bl_external_key ((b' # bs) ! j) = bl_external_key c \<and>
      (st_terms.small v \<longrightarrow> reads_same (block_table c (i + j) src) c v ((b' # bs) ! j))"
    using assms by (cases j) (auto simp: loaded_def)
qed

lemma load_blocks_contributions:
  assumes "load_blocks fmt i results src keys symbols w = Ok (bs, symbols', w')" "table_wf symbols"
  shows "contributions i keys bs w w' \<and> table_ext symbols symbols' \<and>
    (\<forall>v. table_ext symbols' v \<longrightarrow> loaded i results src v bs)"
  using assms
proof (induction results arbitrary: i symbols w bs)
  case Nil
  then show ?case by (simp add: table_ext_refl loaded_def)
next
  case (Cons res results)
  from Cons.prems(1) obtain b b' s1 w1 bs' where res: "res = Ok b"
    and load: "load_and_translate_block fmt b i src keys symbols w = Ok (b', s1, w1)"
    and rest: "load_blocks fmt (i + 1) results src keys s1 w1 = Ok (bs', symbols', w')" and bs: "bs = b' # bs'"
    by (auto simp: outcome_simps)
  have e: "table_ext symbols s1" by (rule load_translates [OF load Cons.prems(2)])
  with table_ext_wf have "table_wf s1" by blast
  note ih = Cons.IH [OF rest this]
  have "bl_external_key b' = bl_external_key b"
    using load by (auto simp: load_and_translate_block_def Let_def outcome_simps)
  then have "loaded i (res # results) src v bs" if "table_ext symbols' v" for v
    unfolding res bs using ih that load_translates(2) [OF load Cons.prems(2)] table_ext_trans
    by (intro loaded_Cons) blast+
  with ih load_contributes [OF load] table_ext_trans [OF e] show ?case
    unfolding bs by auto
qed

definition block_facts :: "nat \<Rightarrow> block \<Rightarrow> sourced set" where
  "block_facts i b = Pair (block_origin i) ` set (bl_facts b)"

definition block_rules :: "key_blocks \<Rightarrow> nat \<Rightarrow> block \<Rightarrow> scoped_rule set" where
  "block_rules keys i b = scoped i (from_scopes (bl_scopes b) default_trusted i keys) keys ` set (bl_rules b)"

lemma union_Cons: "(\<Union>j < length (b # bs). f (i + j) ((b # bs) ! j)) = f i b \<union> (\<Union>j < length bs. f (Suc i + j) (bs ! j))"
proof -
  have "(\<Union>j < length (b # bs). f (i + j) ((b # bs) ! j)) =
      f i b \<union> (\<Union>j \<in> Suc ` {..<length bs}. f (i + j) ((b # bs) ! j))"
    unfolding length_Cons lessThan_Suc_eq_insert_0 by simp
  then show ?thesis by simp
qed

lemma contributions_world:
  "contributions i keys bs w w' \<Longrightarrow>
     fs_pairs (w_facts w') = fs_pairs (w_facts w) \<union> (\<Union>j < length bs. block_facts (i + j) (bs ! j)) \<and>
     rs_triples (w_rules w') = rs_triples (w_rules w) \<union> (\<Union>j < length bs. block_rules keys (i + j) (bs ! j)) \<and>
     w_externs w' = w_externs w \<and> (wf_facts (w_facts w) \<longrightarrow> wf_facts (w_facts w'))"
proof (induction bs arbitrary: i w)
  case (Cons b bs)
  from Cons.prems obtain v where v: "contributes i keys (bl_scopes b) (bl_facts b) (bl_rules b) w v"
    and rest: "contributions (Suc i) keys bs v w'" by auto
  from Cons.IH [OF rest] v show ?case
    unfolding union_Cons contributes_def block_facts_def [of i] block_rules_def [of keys i] by auto
qed simp

section \<open>External keys\<close>

definition key_entry :: "key_blocks \<Rightarrow> nat \<Rightarrow> nat list" where
  "key_entry keys k = (case keys k of None \<Rightarrow> [] | Some is \<Rightarrow> is)"

lemma key_entry_push: "key_entry (push_entry k i keys) l = key_entry keys l @ (if l = k then [i] else [])"
  by (simp add: key_entry_def push_entry_def)

text \<open>The blocks that a key signed, the blocks after the authority block being numbered from \<open>i + 1\<close>.\<close>

fun signed_by :: "public_key \<Rightarrow> nat \<Rightarrow> signed_block list \<Rightarrow> nat list" where
  "signed_by k i [] = []"
| "signed_by k i (b # bs) = (if block_key b = Some k then [i + 1] else []) @ signed_by k (i + 1) bs"

lemma signed_by_iff: "n \<in> set (signed_by k i bs) \<longleftrightarrow> (\<exists>j < length bs. n = i + j + 1 \<and> block_key (bs ! j) = Some k)"
proof (induction bs arbitrary: i)
  case (Cons b bs)
  show ?case unfolding signed_by.simps set_append Un_iff Cons.IH
    by (auto simp: less_Suc_eq_0_disj split: if_splits)
qed simp

lemma pk_get_key_inj:
  "table_wf t \<Longrightarrow> pk_get_key (st_public_keys t) i = Some k \<Longrightarrow> pk_get_key (st_public_keys t) j = Some k \<Longrightarrow> i = j"
  by (auto simp: table_wf_def pk_wf_def pk_get_key_def nth_opt_def nth_eq_iff_index_eq split: if_splits)

lemma pk_insert_table:
  assumes "table_wf s" "pk_insert k (st_public_keys s) = (i, pks)"
  shows "table_ext s (s\<lparr>st_public_keys := pks\<rparr>)" "pk_get_key pks i = Some k"
proof -
  have "st_wf s" "pk_wf (st_public_keys s)" using assms(1) by (simp_all add: table_wf_def)
  then show "pk_get_key pks i = Some k" using pk.lookup_ins [OF assms(2)] by blast
  have "stable scope_convert (BScope_PublicKey k)" by (rule stable_scope)
  from stable_ext [OF this assms(1)] assms(2) show "table_ext s (s\<lparr>st_public_keys := pks\<rparr>)" by simp
qed

lemma external_keys_entries:
  assumes "external_keys_loop i bs s keys = (s', keys')" "table_wf s"
  shows "table_ext s s' \<and>
    (\<forall>id k. pk_get_key (st_public_keys s') id = Some k \<longrightarrow>
       key_entry keys' id = key_entry keys id @ signed_by k i bs) \<and>
    (\<forall>b \<in> set bs. \<forall>k. block_key b = Some k \<longrightarrow> (\<exists>id. pk_get_key (st_public_keys s') id = Some k)) \<and>
    (\<forall>id. keys' id \<noteq> None \<longrightarrow> keys id \<noteq> None \<or> pk_get_key (st_public_keys s') id \<noteq> None)"
  using assms
proof (induction bs arbitrary: i s keys)
  case Nil
  then show ?case by (simp add: table_ext_refl)
next
  case (Cons b bs)
  show ?case
  proof (cases "sb_external_signature b")
    case None
    with Cons show ?thesis by (auto simp: block_key_def)
  next
    case (Some x)
    let ?k = "xs_public_key x"
    obtain nid pks where ins: "pk_insert ?k (st_public_keys s) = (nid, pks)" by (rule prod.exhaust)
    let ?s = "s\<lparr>st_public_keys := pks\<rparr>"
    note new = pk_insert_table [OF Cons.prems(2) ins]
    have wf: "table_wf ?s" using table_ext_wf [OF new(1)] by blast
    have run: "external_keys_loop (i + 1) bs ?s (push_entry nid (i + 1) keys) = (s', keys')"
      using Cons.prems(1) Some ins by simp
    note ih = Cons.IH [OF run wf]
    have ext: "table_ext ?s s'" and wf': "table_wf s'" using ih table_ext_wf by blast+
    have key: "block_key b = Some ?k" by (simp add: block_key_def Some)
    have nid: "pk_get_key (st_public_keys s') nid = Some ?k"
      using ext new(2) by (simp add: table_ext_def pk.extends_def)
    have "key_entry keys' id = key_entry keys id @ signed_by k i (b # bs)"
      if "pk_get_key (st_public_keys s') id = Some k" for id k
    proof -
      have "id = nid \<longleftrightarrow> k = ?k" using that nid pk_get_key_inj [OF wf'] by auto
      with ih that show ?thesis by (auto simp: key_entry_push key)
    qed
    moreover have "\<exists>id. pk_get_key (st_public_keys s') id = Some k" if "c \<in> set (b # bs)" "block_key c = Some k" for c k
      using that ih nid key by auto
    moreover have "keys id \<noteq> None \<or> pk_get_key (st_public_keys s') id \<noteq> None" if "keys' id \<noteq> None" for id
    proof -
      from ih that have "push_entry nid (i + 1) keys id \<noteq> None \<or> pk_get_key (st_public_keys s') id \<noteq> None" by blast
      with nid show ?thesis by (auto simp: push_entry_def split: if_splits)
    qed
    ultimately show ?thesis using table_ext_trans [OF new(1) ext] by blast
  qed
qed

end
