(* ===== verification/Chain.thy ===== *)
theory Chain
  imports Container Wire
begin

text \<open>
  Properties of the chain of blocks: every token made by creating, attenuating and sealing
  verifies under its root key and is read back from its bytes; verification is exactly the
  verification of each link; a sealed token is final; a token cut short does not verify.
\<close>

section \<open>Links\<close>

text \<open>The block before block \<open>i\<close>, counting the authority block first.\<close>

definition previous_block :: "serialized_biscuit \<Rightarrow> nat \<Rightarrow> signed_block" where
  "previous_block t i = (if i = 0 then se_authority t else se_blocks t ! (i - 1))"

definition link_ok :: "primitives \<Rightarrow> verification_mode \<Rightarrow> signed_block \<Rightarrow> signed_block \<Rightarrow> bool" where
  "link_ok p mode prev b \<longleftrightarrow>
     verify_block_signature p b (sb_next_key prev) (sb_signature prev) (block_mode b mode) = Ok ()"

lemma verify_blocks_Cons:
  "verify_blocks p mode prev (b # bs) = Ok () \<longleftrightarrow>
     link_ok p mode prev b \<and> verify_blocks p mode b bs = Ok ()"
  by (auto simp: link_ok_def outcome_simps)

lemma verify_blocks_snoc:
  "verify_blocks p mode prev (bs @ [b]) = Ok () \<longleftrightarrow>
     verify_blocks p mode prev bs = Ok () \<and> link_ok p mode (if bs = [] then prev else last bs) b"
proof (induction bs arbitrary: prev)
  case Nil
  show ?case by (auto simp: link_ok_def outcome_simps)
next
  case (Cons a bs)
  then show ?case unfolding append_Cons verify_blocks_Cons by auto
qed

lemma verify_blocks_nth:
  "verify_blocks p mode prev bs = Ok () \<longleftrightarrow>
     (\<forall>i < length bs. link_ok p mode (if i = 0 then prev else bs ! (i - 1)) (bs ! i))"
proof (induction bs rule: rev_induct)
  case (snoc b bs)
  have "last bs = bs ! (length bs - 1)" if "bs \<noteq> []" using that by (rule last_conv_nth)
  moreover have "(\<forall>i < length (bs @ [b]). link_ok p mode (if i = 0 then prev else (bs @ [b]) ! (i - 1)) ((bs @ [b]) ! i)) \<longleftrightarrow>
      (\<forall>i < length bs. link_ok p mode (if i = 0 then prev else bs ! (i - 1)) (bs ! i)) \<and>
      link_ok p mode (if bs = [] then prev else bs ! (length bs - 1)) b"
    by (auto simp: less_Suc_eq nth_append)
  ultimately show ?case unfolding verify_blocks_snoc snoc.IH by auto
qed simp

lemma verify_inner_Ok:
  "verify_inner p t root mode = Ok () \<longleftrightarrow>
     verify_authority_block_signature p (se_authority t) root = Ok () \<and>
     verify_blocks p mode (se_authority t) (se_blocks t) = Ok () \<and>
     verify_proof p (last_block t) (se_proof t) = Ok ()"
  by (auto simp: verify_inner_def outcome_simps)

section \<open>Issued tokens\<close>

text \<open>A third party's signature, made for the block that is now last.\<close>

definition external_ok :: "primitives \<Rightarrow> serialized_biscuit \<Rightarrow> bytes \<Rightarrow> external_signature option \<Rightarrow> bool" where
  "external_ok p t v ext \<longleftrightarrow>
     (\<forall>x. ext = Some x \<longrightarrow> valid_public p (xs_public_key x) \<and>
        verify_external_signature p v (sb_next_key (last_block t)) (sb_signature (last_block t)) x
          THIRD_PARTY_SIGNATURE_VERSION PreviousSignatureHashing = Ok ())"

inductive issued :: "primitives \<Rightarrow> codec \<Rightarrow> public_key \<Rightarrow> serialized_biscuit \<Rightarrow> bool"
  for p c root where
  created: "valid_keypair p root_kp \<Longrightarrow> valid_keypair p next_kp \<Longrightarrow> keypair_public p root_kp = root \<Longrightarrow>
     container_new p c root_key_id root_kp next_kp b = Ok t \<Longrightarrow> issued p c root t"
| attenuated: "issued p c root t \<Longrightarrow> valid_keypair p next_kp \<Longrightarrow>
     container_append p c t next_kp b None = Ok u \<Longrightarrow> issued p c root u"
| extended: "issued p c root t \<Longrightarrow> valid_keypair p next_kp \<Longrightarrow> external_ok p t v ext \<Longrightarrow>
     container_append_serialized p t next_kp v ext = Ok u \<Longrightarrow> issued p c root u"
| sealed: "issued p c root t \<Longrightarrow> container_seal p t = Ok u \<Longrightarrow> issued p c root u"

definition block_ok :: "primitives \<Rightarrow> signed_block \<Rightarrow> bool" where
  "block_ok p b \<longleftrightarrow> valid_public p (sb_next_key b) \<and>
     (\<forall>x. sb_external_signature b = Some x \<longrightarrow>
        valid_public p (xs_public_key x) \<and> sb_version b = THIRD_PARTY_SIGNATURE_VERSION)"

definition token_ok :: "primitives \<Rightarrow> public_key \<Rightarrow> serialized_biscuit \<Rightarrow> bool" where
  "token_ok p root t \<longleftrightarrow>
     verify p t root = Ok () \<and> block_ok p (se_authority t) \<and> (\<forall>b \<in> set (se_blocks t). block_ok p b) \<and>
     sb_external_signature (se_authority t) = None \<and>
     (\<forall>k. se_proof t = Secret k \<longrightarrow> valid_private p k)"

lemma token_ok_keypair:
  assumes "token_ok p root t" "token_next_keypair (se_proof t) = Ok kp"
  shows "valid_keypair p kp" "keypair_public p kp = sb_next_key (last_block t)"
  using assms by (cases "se_proof t"; auto simp: token_ok_def verify_def verify_inner_Ok verify_proof_def
      split: if_splits)+

lemma token_ok_push:
  assumes ok: "primitives_ok p" "token_ok p root t" and kp: "token_next_keypair (se_proof t) = Ok kp"
    and next_kp: "valid_keypair p next_kp" and ext: "external_ok p t v ext"
    and version: "ext \<noteq> None \<Longrightarrow> version = THIRD_PARTY_SIGNATURE_VERSION"
    and push: "push_block p t kp next_kp v ext version = Ok u"
  shows "token_ok p root u"
proof -
  let ?prev = "last_block t"
  from push obtain g where g: "sign_block p kp next_kp v ext (sb_signature ?prev) version = Ok g"
    and u: "u = t\<lparr>se_blocks := se_blocks t @
        [\<lparr>sb_data = v, sb_next_key = keypair_public p next_kp, sb_signature = g,
          sb_external_signature = ext, sb_version = version\<rparr>],
      se_proof := Secret (keypair_private next_kp)\<rparr>"
    by (auto simp: push_block_def outcome_simps)
  let ?b = "\<lparr>sb_data = v, sb_next_key = keypair_public p next_kp, sb_signature = g,
          sb_external_signature = ext, sb_version = version\<rparr>"
  note keys = token_ok_keypair [OF ok(2) kp]
  have "verify_block_signature p ?b (sb_next_key ?prev) (sb_signature ?prev) PreviousSignatureHashing = Ok ()"
    using sign_verify [OF ok(1) keys(1)] g ext version keys(2)
    by (cases ext) (auto simp: sign_block_def verify_block_signature_def outcome_simps external_ok_def
        split: if_splits)
  then have "link_ok p PreviousSignatureHashing ?prev ?b"
    by (simp add: link_ok_def block_mode_def)
  moreover have "last_block u = ?b" by (simp add: u last_block_def)
  ultimately have "verify p u root = Ok ()"
    using ok(2) by (auto simp: token_ok_def verify_def verify_inner_Ok verify_blocks_snoc verify_proof_def
        u last_block_def split: if_splits)
  moreover have "block_ok p ?b"
    using ext version next_kp valid_keypair_public [OF ok(1)] by (auto simp: block_ok_def external_ok_def)
  ultimately show ?thesis
    using ok(2) next_kp by (auto simp: token_ok_def u)
qed

lemma block_signature_version_external: "ext \<noteq> None \<Longrightarrow>
    block_signature_version kp next_kp ext v vs = THIRD_PARTY_SIGNATURE_VERSION"
  by (simp add: block_signature_version_def)

lemma token_ok_seal:
  assumes ok: "primitives_ok p" "token_ok p root t" and seal: "container_seal p t = Ok u"
  shows "token_ok p root u"
proof -
  from seal obtain kp g where kp: "token_next_keypair (se_proof t) = Ok kp"
    and g: "keypair_sign p kp (seal_payload_v0 (last_block t)) = Ok g" and u: "u = t\<lparr>se_proof := Seal g\<rparr>"
    by (auto simp: container_seal_def outcome_simps)
  from sign_verify [OF ok(1) token_ok_keypair(1) [OF ok(2) kp] g] ok(2) token_ok_keypair(2) [OF ok(2) kp]
  show ?thesis
    by (auto simp: token_ok_def verify_def verify_inner_Ok verify_proof_def u last_block_def split: if_splits)
qed

lemma token_ok_new:
  assumes p: "primitives_ok p" and kps: "valid_keypair p root_kp" "valid_keypair p next_kp"
    and new: "container_new p c root_key_id root_kp next_kp b = Ok t"
  shows "token_ok p (keypair_public p root_kp) t"
proof -
  from new obtain v g version where g: "sign_authority_block p root_kp next_kp v version = Ok g"
    and t: "t = \<lparr>se_root_key_id = root_key_id,
        se_authority = \<lparr>sb_data = v, sb_next_key = keypair_public p next_kp, sb_signature = g,
          sb_external_signature = None, sb_version = version\<rparr>,
        se_blocks = [], se_proof = Secret (keypair_private next_kp)\<rparr>"
    by (auto simp: container_new_def new_inner_def outcome_simps)
  have "verify_authority_block_signature p (se_authority t) (keypair_public p root_kp) = Ok ()"
    using sign_verify [OF p kps(1)] g
    by (auto simp: t sign_authority_block_def verify_authority_block_signature_def block_payload_v0_def
        authority_block_payload_v0_def outcome_simps split: if_splits)
  then show ?thesis
    using kps(2) valid_keypair_public [OF p]
    by (simp add: token_ok_def verify_def verify_inner_Ok verify_proof_def t last_block_def block_ok_def)
qed

lemma issued_ok:
  assumes p: "primitives_ok p" and "issued p c root t"
  shows "token_ok p root t"
  using assms(2)
proof induction
  case (created root_kp next_kp root_key_id b t)
  then show ?case using token_ok_new [OF p] by blast
next
  case (attenuated t next_kp b u)
  then obtain kp v where kp: "token_next_keypair (se_proof t) = Ok kp"
    and push: "push_block p t kp next_kp v None (block_signature_version kp next_kp None (Some (bl_version b))
      (map sb_version (se_blocks t) @ [sb_version (se_authority t)])) = Ok u"
    by (auto simp: container_append_def outcome_simps)
  show ?case
    by (rule token_ok_push [OF p _ kp _ _ _ push]) (use attenuated in \<open>simp_all add: external_ok_def\<close>)
next
  case (extended t next_kp v ext u)
  then obtain kp where kp: "token_next_keypair (se_proof t) = Ok kp"
    and push: "push_block p t kp next_kp v ext (block_signature_version kp next_kp ext None
      (sb_version (se_authority t) # map sb_version (se_blocks t))) = Ok u"
    by (auto simp: container_append_serialized_def outcome_simps)
  show ?case
    by (rule token_ok_push [OF p _ kp _ _ _ push])
      (use extended in \<open>simp_all add: block_signature_version_external\<close>)
next
  case (sealed t u)
  then show ?case using token_ok_seal [OF p] by blast
qed

section \<open>Reading back\<close>

lemma version_field_roundtrip: "version_or_zero (version_field v) = v"
  by (simp add: version_field_def version_or_zero_def)

lemma block_read_back:
  "block_ok p b \<Longrightarrow> read_signed_block p mode (write_signed_block b) = Ok b"
  by (cases b; cases "sb_external_signature b")
    (auto simp: read_signed_block_def write_signed_block_def block_ok_def public_roundtrip
      version_or_zero_def version_field_def signature_versions)

lemma authority_read_back:
  "block_ok p b \<Longrightarrow> sb_external_signature b = None \<Longrightarrow> read_authority p (write_authority b) = Ok b"
  by (simp add: read_authority_def write_authority_def block_ok_def public_roundtrip version_field_roundtrip)

lemma proof_read_back:
  assumes "\<forall>k. pf = Secret k \<longrightarrow> valid_private p k" "verify_proof p b pf = Ok ()"
  shows "read_proof p (public_algorithm (sb_next_key b)) (write_proof pf) = Ok pf"
proof (cases pf)
  case (Secret k)
  have "public_algorithm (private_public p k) = private_algorithm k" by (cases k) simp_all
  then show ?thesis
    using assms private_roundtrip [of p k] Secret
    by (auto simp: read_proof_def write_proof_def verify_proof_def split: if_splits)
qed (simp add: read_proof_def write_proof_def)

lemma token_read_back:
  assumes "token_ok p root t"
  shows "of_proto p (to_proto t) mode = Ok t"
proof -
  have "last (se_authority t # se_blocks t) = last_block t" by (simp add: last_block_def)
  moreover have "traverse (read_signed_block p mode) (map write_signed_block (se_blocks t)) = Ok (se_blocks t)"
    by (rule traverse_map_id) (use assms in \<open>simp add: token_ok_def block_read_back\<close>)
  moreover have "read_authority p (write_authority (se_authority t)) = Ok (se_authority t)"
    using assms by (simp add: token_ok_def authority_read_back)
  moreover have "read_proof p (public_algorithm (sb_next_key (last_block t))) (write_proof (se_proof t)) = Ok (se_proof t)"
    using assms by (intro proof_read_back) (auto simp: token_ok_def verify_def verify_inner_Ok)
  ultimately show ?thesis
    unfolding of_proto_def to_proto_def by simp
qed

section \<open>A sample token\<close>

text \<open>An authority block and a third-party block, with the demonstration scheme.\<close>

definition demo_codec :: "pbiscuit \<Rightarrow> codec" where
  "demo_codec m =
     \<lparr>encode_block = (\<lambda>_. Ok [5]), decode_block = (\<lambda>_. Err []),
      encode_biscuit = (\<lambda>_. Ok [7]), decode_biscuit = (\<lambda>_. Ok m)\<rparr>"

definition demo_key :: "u8 \<Rightarrow> public_key" where
  "demo_key b = keypair_public demo (demo_pair b)"

definition demo_token :: serialized_biscuit where
  "demo_token =
     \<lparr>se_root_key_id = None,
      se_authority = \<lparr>sb_data = [5], sb_next_key = demo_key 1,
        sb_signature = demo_signature (demo_pair 0) (authority_block_payload_v1 [5] (demo_key 1) 1),
        sb_external_signature = None, sb_version = 1\<rparr>,
      se_blocks = [], se_proof = Secret (keypair_private (demo_pair 1))\<rparr>"

lemma demo_new:
  "container_new demo (demo_codec m) None (demo_pair 0) (demo_pair 1) sample_block = Ok demo_token"
  by (simp add: container_new_def new_inner_def encode_token_block_def demo_codec_def sign_authority_block_def
      demo_signs block_signature_version_def sample_block_def version_numbers signature_versions
      demo_token_def demo_key_def)

definition demo_external :: external_signature where
  "demo_external =
     \<lparr>xs_public_key = demo_key 2,
      xs_signature = demo_signature (demo_pair 2)
        (external_payload_v1 [9] (sb_signature (se_authority demo_token)) 1)\<rparr>"

definition demo_token2 :: serialized_biscuit where
  "demo_token2 =
     demo_token\<lparr>se_blocks :=
        [\<lparr>sb_data = [9], sb_next_key = demo_key 3,
          sb_signature = demo_signature (demo_pair 1)
            (block_payload_v1 [9] (demo_key 3) (Some demo_external) (sb_signature (se_authority demo_token)) 1),
          sb_external_signature = Some demo_external, sb_version = 1\<rparr>],
      se_proof := Secret (keypair_private (demo_pair 3))\<rparr>"

lemma demo_extended:
  "container_append_serialized demo demo_token (demo_pair 3) [9] (Some demo_external) = Ok demo_token2"
  by (simp add: container_append_serialized_def push_block_def sign_block_def demo_signs demo_token2_def
      block_signature_version_def signature_versions demo_key_def last_block_def)
    (simp add: demo_token_def)

lemma demo_issued: "issued demo (demo_codec m) (demo_key 0) demo_token2"
proof (rule issued.extended [OF issued.created])
  show "container_new demo (demo_codec m) None (demo_pair 0) (demo_pair 1) sample_block = Ok demo_token"
    by (rule demo_new)
  show "container_append_serialized demo demo_token (demo_pair 3) [9] (Some demo_external) = Ok demo_token2"
    by (rule demo_extended)
  show "external_ok demo demo_token [9] (Some demo_external)"
    using demo_verifies [of 2] demo_pair_valid(2) [of 2]
    by (simp add: external_ok_def demo_external_def demo_key_def verify_external_signature_def
        signature_versions last_block_def demo_token_def)
qed (simp_all add: demo_pair_valid demo_key_def)

lemma demo_token2_ok: "token_ok demo (demo_key 0) demo_token2"
  by (rule issued_ok [OF demo_ok demo_issued])

lemma demo_token2_verifies: "verify demo demo_token2 (demo_key 0) = Ok ()"
  using demo_token2_ok by (simp add: token_ok_def)

lemma demo_read: "from_slice demo (demo_codec (to_proto demo_token2)) [7] (\<lambda>_. Ok (demo_key 0)) = Ok demo_token2"
  using token_read_back [OF demo_token2_ok] demo_token2_verifies
  by (simp add: from_slice_def deserialize_def demo_codec_def)

section \<open>Properties\<close>

text \<open>
  C4: Every token made from a root key pair by creating, attenuating, adding third-party blocks
  and sealing verifies under the root's public key, and reading its bytes with a provider that
  answers this key gives the token back.
\<close>
theorem issued_tokens_verify:
  assumes "primitives_ok p" "issued p c root t"
    and "biscuit_decodes c (to_proto t)" "to_vec c t = Ok bs" "provider (se_root_key_id t) = Ok root"
  shows "verify p t root = Ok () \<and> from_slice p c bs provider = Ok t"
proof -
  note ok = issued_ok [OF assms(1,2)]
  then have "verify p t root = Ok ()" by (simp add: token_ok_def)
  moreover have "decode_biscuit c bs = Ok (to_proto t)"
    using assms(3,4) by (simp add: biscuit_decodes_def to_vec_def)
  ultimately show ?thesis
    using token_read_back [OF ok] assms(5) by (simp add: from_slice_def deserialize_def)
qed

lemma issued_tokens_verify_witness:
  "from_slice demo (demo_codec (to_proto demo_token2)) [7] (\<lambda>_. Ok (demo_key 0)) = Ok demo_token2"
proof -
  let ?c = "demo_codec (to_proto demo_token2)"
  have "biscuit_decodes ?c (to_proto demo_token2)" "to_vec ?c demo_token2 = Ok [7]"
    by (simp_all add: biscuit_decodes_def to_vec_def demo_codec_def)
  then show ?thesis
    using issued_tokens_verify [OF demo_ok demo_issued [of "to_proto demo_token2"],
        of "[7]" "\<lambda>_. Ok (demo_key 0)"] by simp
qed

lemma verify_links:
  "verify p t root = Ok () \<longleftrightarrow>
     verify_authority_block_signature p (se_authority t) root = Ok () \<and>
     (\<forall>i < length (se_blocks t).
        verify_block_signature p (se_blocks t ! i) (sb_next_key (previous_block t i))
          (sb_signature (previous_block t i)) PreviousSignatureHashing = Ok ()) \<and>
     (case se_proof t of
        Secret k \<Rightarrow> sb_next_key (last_block t) = private_public p k
      | Seal g \<Rightarrow> verify_signature p (sb_next_key (last_block t)) (seal_payload_v0 (last_block t)) g = Ok ())"
  by (auto simp: verify_def verify_inner_Ok verify_blocks_nth link_ok_def block_mode_def previous_block_def
      verify_proof_def split: token_next.splits if_splits)

text \<open>
  C3: Verification is the verification of every link: the authority block under the root key,
  each block under the next key of the block before it and together with its signature, and the
  proof under the last next key; it has no other way to succeed.
\<close>
theorem verify_every_link:
  "verify p t root = Ok () \<longleftrightarrow>
     verify_authority_block_signature p (se_authority t) root = Ok () \<and>
     (\<forall>i < length (se_blocks t).
        verify_block_signature p (se_blocks t ! i) (sb_next_key (previous_block t i))
          (sb_signature (previous_block t i)) PreviousSignatureHashing = Ok ()) \<and>
     (case se_proof t of
        Secret k \<Rightarrow> sb_next_key (last_block t) = private_public p k
      | Seal g \<Rightarrow> verify_signature p (sb_next_key (last_block t)) (seal_payload_v0 (last_block t)) g = Ok ())"
  by (rule verify_links)

lemma verify_every_link_witness:
  "verify_authority_block_signature demo (se_authority demo_token2) (demo_key 0) = Ok ()"
  using verify_every_link [of demo demo_token2 "demo_key 0"] demo_token2_verifies by blast

text \<open>
  C12: A third-party block is bound to its place: in a token read from bytes, the authority block
  has no external signature, and every external signature verifies over the block's data and the
  signature of the block before it, under signature version 1.
\<close>
theorem third_party_blocks_bound:
  assumes "from_slice p c bs provider = Ok t"
  shows "sb_external_signature (se_authority t) = None \<and>
    (\<forall>i < length (se_blocks t). \<forall>x. sb_external_signature (se_blocks t ! i) = Some x \<longrightarrow>
       sb_version (se_blocks t ! i) = 1 \<and>
       verify_signature p (xs_public_key x)
         (external_payload_v1 (sb_data (se_blocks t ! i)) (sb_signature (previous_block t i)) 1)
         (xs_signature x) = Ok ())"
proof -
  from assms obtain data root where data: "of_proto p data PreviousSignatureHashing = Ok t"
    and root: "verify p t root = Ok ()"
    by (auto simp: from_slice_def deserialize_def outcome_simps)
  from data have authority: "sb_external_signature (se_authority t) = None"
    and blocks: "traverse (read_signed_block p PreviousSignatureHashing) (pbi_blocks data) = Ok (se_blocks t)"
    by (auto simp: of_proto_def read_authority_def outcome_simps split: if_splits)
  have "\<forall>b \<in> set (se_blocks t). \<forall>x. sb_external_signature b = Some x \<longrightarrow> sb_version b = 1"
    by (rule traverse_all [OF blocks]) (auto simp: read_signed_block_def outcome_simps version_or_zero_def
        signature_versions split: option.splits if_splits)
  then have version: "sb_version b = 1"
    if "b \<in> set (se_blocks t)" "sb_external_signature b = Some x" for b x
    using that by blast
  have links: "verify_block_signature p (se_blocks t ! i) (sb_next_key (previous_block t i))
      (sb_signature (previous_block t i)) PreviousSignatureHashing = Ok ()" if "i < length (se_blocks t)" for i
    using root that by (auto simp: verify_links)
  have ext: "verify_external_signature p (sb_data (se_blocks t ! i)) (sb_next_key (previous_block t i))
      (sb_signature (previous_block t i)) x (sb_version (se_blocks t ! i)) PreviousSignatureHashing = Ok ()"
    if "i < length (se_blocks t)" "sb_external_signature (se_blocks t ! i) = Some x" for i x
    using links [OF that(1)] that(2) by (auto simp: verify_block_signature_def outcome_simps)
  have "verify_signature p (xs_public_key x)
      (external_payload_v1 (sb_data (se_blocks t ! i)) (sb_signature (previous_block t i)) 1)
      (xs_signature x) = Ok ()"
    if "i < length (se_blocks t)" "sb_external_signature (se_blocks t ! i) = Some x" for i x
    using ext [OF that] version [OF nth_mem [OF that(1)] that(2)] by (simp add: verify_external_signature_def)
  then show ?thesis using authority version nth_mem by blast
qed

lemma third_party_blocks_bound_witness:
  "verify_signature demo (demo_key 2)
     (external_payload_v1 [9] (sb_signature (se_authority demo_token)) 1) (xs_signature demo_external) = Ok ()"
proof -
  have "se_blocks demo_token2 ! 0 = \<lparr>sb_data = [9], sb_next_key = demo_key 3,
      sb_signature = sb_signature (se_blocks demo_token2 ! 0),
      sb_external_signature = Some demo_external, sb_version = 1\<rparr>" "length (se_blocks demo_token2) = 1"
    "previous_block demo_token2 0 = se_authority demo_token" "xs_public_key demo_external = demo_key 2"
    by (simp_all add: demo_token2_def previous_block_def demo_external_def)
  then show ?thesis
    using third_party_blocks_bound [OF demo_read]
    by (metis signed_block.select_convs(1,4) zero_less_one)
qed

text \<open>
  A sealed token is final: it cannot be attenuated, extended or sealed again, and sealing any
  other token gives a sealed one with the same blocks.
\<close>
theorem sealed_is_final:
  "(is_sealed (se_proof t) \<longrightarrow>
      container_append p c t next_kp b ext = Err AlreadySealed \<and>
      container_append_serialized p t next_kp v ext = Err AlreadySealed \<and>
      container_seal p t = Err AlreadySealed) \<and>
   (container_seal p t = Ok u \<longrightarrow>
      is_sealed (se_proof u) \<and> se_authority u = se_authority t \<and> se_blocks u = se_blocks t)"
  by (cases "se_proof t") (auto simp: container_append_def container_append_serialized_def
      container_seal_def outcome_simps)

lemma sealed_is_final_witness:
  "container_seal demo (demo_token\<lparr>se_proof := Seal [1]\<rparr>) = Err AlreadySealed"
  using sealed_is_final [where t = "demo_token\<lparr>se_proof := Seal [1]\<rparr>" and p = demo] by simp

text \<open>
  C17: Cutting a verified token needs another proof.  Of the token only its first blocks are kept, with
  any proof: it verifies exactly when the proof fits the last block kept, that is, when the secret is
  the one of that block's next key, or the seal is a signature of that block by its next key.  With
  its own proof, a token that carries a secret verifies after the cut only when the last block kept
  has the same next key as the last block, and a sealed token only when its seal is also a signature
  of the last block kept by the next key of that block.
\<close>
theorem truncation_detected:
  assumes "verify p t root = Ok ()" "n \<le> length (se_blocks t)"
  shows "(verify p (t\<lparr>se_blocks := take n (se_blocks t), se_proof := pr\<rparr>) root = Ok () \<longleftrightarrow>
      (case pr of
         Secret k \<Rightarrow> sb_next_key (previous_block t n) = private_public p k
       | Seal g \<Rightarrow> verify_signature p (sb_next_key (previous_block t n)) (seal_payload_v0 (previous_block t n)) g = Ok ())) \<and>
    (verify p (t\<lparr>se_blocks := take n (se_blocks t)\<rparr>) root = Ok () \<longleftrightarrow>
      (case se_proof t of
         Secret k \<Rightarrow> sb_next_key (previous_block t n) = sb_next_key (last_block t)
       | Seal g \<Rightarrow> verify_signature p (sb_next_key (previous_block t n)) (seal_payload_v0 (previous_block t n)) g = Ok ()))"
proof -
  have last: "last_block (t\<lparr>se_blocks := take n (se_blocks t), se_proof := q\<rparr>) = previous_block t n"
    "last_block (t\<lparr>se_blocks := take n (se_blocks t)\<rparr>) = previous_block t n" for q
    using assms(2) by (auto simp: last_block_def previous_block_def last_conv_nth)
  have prev: "previous_block (t\<lparr>se_blocks := take n (se_blocks t), se_proof := q\<rparr>) i = previous_block t i"
    "previous_block (t\<lparr>se_blocks := take n (se_blocks t)\<rparr>) i = previous_block t i"
    if "i < n" for i q using that assms(2) by (simp_all add: previous_block_def)
  show ?thesis
    using assms by (auto simp: verify_links last prev split: token_next.splits)
qed

text \<open>The sample token cut to its authority block.\<close>

lemma truncation_detected_witness:
  "verify demo (demo_token2\<lparr>se_blocks := []\<rparr>) (demo_key 0) \<noteq> Ok ()"
proof -
  have "se_proof demo_token2 = Secret (keypair_private (demo_pair 3))"
    "sb_next_key (previous_block demo_token2 0) = demo_key 1" "sb_next_key (last_block demo_token2) = demo_key 3"
    by (simp_all add: demo_token2_def previous_block_def last_block_def demo_token_def)
  moreover have "demo_key 1 \<noteq> demo_key 3"
    by (simp add: demo_key_def demo_pair_def demo_def numeral_eq_Suc)
  ultimately show ?thesis
    using truncation_detected [OF demo_token2_verifies, of 0] by simp
qed

text \<open>
  A block is signed with version 1 when it is a third party's, declares Datalog 3.3, involves
  a key that is not Ed25519, or follows a block signed with version 1, and with version 0
  otherwise, provided the versions before it are 0 or 1.
\<close>
theorem signature_version_choice:
  assumes "set previous \<subseteq> {0, 1}"
  shows "block_signature_version kp next_kp ext v previous =
    (if ext \<noteq> None \<or> (\<exists>n. v = Some n \<and> DATALOG_3_3 \<le> n) \<or>
        keypair_algorithm kp \<noteq> Ed25519 \<or> keypair_algorithm next_kp \<noteq> Ed25519 \<or> 1 \<in> set previous
     then 1 else 0)"
proof -
  have max: "fold max vs a = (if 1 \<in> set vs then 1 else a)" if "set vs \<subseteq> {0, 1}" "a \<le> 1" for vs and a :: nat
    using that by (induction vs arbitrary: a) (auto simp: max_def le_Suc_eq)
  have "both_ed25519 kp next_kp \<longleftrightarrow> keypair_algorithm kp = Ed25519 \<and> keypair_algorithm next_kp = Ed25519"
    by (cases kp; cases next_kp) simp_all
  then show ?thesis
    using max [OF assms, of 0] by (auto simp: block_signature_version_def signature_versions split: option.splits)
qed

lemma signature_version_choice_witness:
  "block_signature_version (demo_pair 0) (demo_pair 1) None (Some 5) [0, 1] = 1"
  using signature_version_choice [of "[0, 1]" "demo_pair 0" "demo_pair 1" None "Some 5"] by simp

end
