(* ===== verification/Token_Invariant.thy ===== *)
theory Token_Invariant
  imports Tokens Chain Stability
begin

text \<open>
  What a token keeps: its messages and its table are those that reading its container gives.
  The operations that build, attenuate and seal tokens preserve it, so that a token written to
  bytes and read back is the same token.
\<close>

section \<open>Building adds to the end of the tables\<close>

lemma nth_opt_prefix:
  assumes "\<And>i x. nth_opt xs i = Some x \<Longrightarrow> nth_opt ys i = Some x"
  shows "ys = xs @ drop (length xs) ys"
proof -
  have nth: "i < length ys \<and> ys ! i = xs ! i" if "i < length xs" for i
    using assms [of i "xs ! i"] that by (auto simp: nth_opt_def split: if_splits)
  have "take (length xs) ys = xs"
  proof (rule nth_equalityI)
    show "length (take (length xs) ys) = length xs"
    proof (cases xs)
      case (Cons x xs')
      then show ?thesis using nth [of "length xs'"] by simp
    qed simp
  qed (use nth in simp)
  then show ?thesis by (metis append_take_drop_id)
qed

lemma table_ext_append:
  assumes "table_ext t u"
  shows "st_symbols u = st_symbols t @ drop (length (st_symbols t)) (st_symbols u)"
    "pk_keys (st_public_keys u) =
       pk_keys (st_public_keys t) @ drop (length (pk_keys (st_public_keys t))) (pk_keys (st_public_keys u))"
proof -
  show "st_symbols u = st_symbols t @ drop (length (st_symbols t)) (st_symbols u)"
  proof (rule nth_opt_prefix)
    fix i x assume "nth_opt (st_symbols t) i = Some x"
    then have "get_symbol t (symbol_offset + i) = Some x" by simp
    with assms have "get_symbol u (symbol_offset + i) = Some x"
      unfolding table_ext_def st.extends_def by blast
    then show "nth_opt (st_symbols u) i = Some x" by simp
  qed
  show "pk_keys (st_public_keys u) =
      pk_keys (st_public_keys t) @ drop (length (pk_keys (st_public_keys t))) (pk_keys (st_public_keys u))"
    by (rule nth_opt_prefix) (use assms in \<open>simp add: table_ext_def pk.extends_def pk_get_key_def\<close>)
qed

lemma stable_elements: "table_wf s \<Longrightarrow> bb_elements bb s = Some (x, u) \<Longrightarrow> table_ext s u"
proof -
  assume s: "table_wf s" and "bb_elements bb s = Some (x, u)"
  then obtain fs s1 rs s2 cs s3 ss where steps: "smap fact_convert (bb_facts bb) s = Some (fs, s1)"
    "smap rule_convert (bb_rules bb) s1 = Some (rs, s2)" "smap check_convert (bb_checks bb) s2 = Some (cs, s3)"
    "smap scope_convert (bb_scopes bb) s3 = Some (ss, u)"
    by (auto simp: bb_elements_def split: option.splits)
  have e1: "table_ext s s1" by (rule stable_ext [OF stable_list [OF stable_fact] s steps(1)])
  with table_ext_wf have w1: "table_wf s1" by blast
  have e2: "table_ext s1 s2" by (rule stable_ext [OF stable_list [OF stable_rule] w1 steps(2)])
  with table_ext_wf have w2: "table_wf s2" by blast
  have e3: "table_ext s2 s3" by (rule stable_ext [OF stable_list [OF stable_check] w2 steps(3)])
  with table_ext_wf have w3: "table_wf s3" by blast
  have "table_ext s3 u" by (rule stable_ext [OF stable_list [OF stable_scope] w3 steps(4)])
  with e1 e2 e3 show "table_ext s u" using table_ext_trans by blast
qed

text \<open>The block's tables are what the conversions added, and joining them gives the final table.\<close>

lemma build_tables:
  assumes "table_wf s" "bb_build bb s = Some b"
  shows "\<exists>u. table_ext s u \<and> bb_elements bb s = Some ((bl_facts b, bl_rules b, bl_checks b, bl_scopes b), u) \<and>
    st_symbols u = st_symbols s @ st_symbols (bl_symbols b) \<and>
    pk_keys (st_public_keys u) = pk_keys (st_public_keys s) @ pk_keys (bl_public_keys b) \<and>
    st_public_keys (bl_symbols b) = pk_new"
proof -
  from assms(2) obtain fs rs cs ss u where el: "bb_elements bb s = Some ((fs, rs, cs, ss), u)"
    and b: "bl_facts b = fs" "bl_rules b = rs" "bl_checks b = cs" "bl_scopes b = ss"
    "bl_symbols b = st_new\<lparr>st_symbols := drop (length (st_symbols s)) (st_symbols u)\<rparr>"
    "pk_keys (bl_public_keys b) = drop (length (pk_keys (st_public_keys s))) (pk_keys (st_public_keys u))"
    by (auto simp: bb_build_def st_split_at_def pk_split_at_def st_current_offset_def pk_current_offset_def
        split: option.splits if_splits)
  have ext: "table_ext s u" by (rule stable_elements [OF assms(1) el])
  have "st_symbols u = st_symbols s @ st_symbols (bl_symbols b)"
    using table_ext_append(1) [OF ext] by (simp add: b)
  moreover have "pk_keys (st_public_keys u) = pk_keys (st_public_keys s) @ pk_keys (bl_public_keys b)"
    using table_ext_append(2) [OF ext] by (simp add: b)
  moreover have "st_public_keys (bl_symbols b) = pk_new" by (simp add: b st_new_def)
  ultimately show ?thesis using ext el b(1-4) by blast
qed

text \<open>Joining the tables of a block, as creation and attenuation do, and as reading does.\<close>

definition join_tables :: "symbol_table \<Rightarrow> block \<Rightarrow> (format_error, symbol_table) outcome" where
  "join_tables s b =
     obind (st_extend s (bl_symbols b)) (\<lambda>s'.
     obind (pk_extend (st_public_keys s') (bl_public_keys b)) (\<lambda>keys. Ok (s'\<lparr>st_public_keys := keys\<rparr>)))"

lemma join_built:
  assumes "table_wf s" "bb_build bb s = Some b"
  shows "\<exists>u. join_tables s b = Ok u \<and> table_ext s u \<and> st_is_disjoint s (bl_symbols b) \<and>
    bb_elements bb s = Some ((bl_facts b, bl_rules b, bl_checks b, bl_scopes b), u)"
proof -
  from build_tables [OF assms] obtain u where ext: "table_ext s u"
    and el: "bb_elements bb s = Some ((bl_facts b, bl_rules b, bl_checks b, bl_scopes b), u)"
    and sy: "st_symbols u = st_symbols s @ st_symbols (bl_symbols b)"
    and ks: "pk_keys (st_public_keys u) = pk_keys (st_public_keys s) @ pk_keys (bl_public_keys b)"
    and new: "st_public_keys (bl_symbols b) = pk_new" by blast
  have wf: "table_wf u" using table_ext_wf [OF ext] by blast
  have dis: "st_is_disjoint s (bl_symbols b)"
    using wf sy by (auto simp: st_is_disjoint_def table_wf_def st_wf_def)
  have dis': "pk_is_disjoint (st_public_keys s) (bl_public_keys b)"
    using wf ks by (auto simp: pk_is_disjoint_def table_wf_def pk_wf_def)
  have "join_tables s b = Ok u"
    using dis dis' new sy ks
    by (cases u; cases "st_public_keys u"; cases s)
      (auto simp: join_tables_def st_extend_def pk_extend_def pk_is_disjoint_def pk_new_def Let_def)
  with ext dis el show ?thesis by blast
qed

lemma wf_split: "table_wf u \<Longrightarrow> st_symbols u = st_symbols s @ xs \<Longrightarrow> set xs \<inter> set default_symbols = {} \<and> distinct xs"
  by (auto simp: table_wf_def st_wf_def)

text \<open>Reading the message of a built block has the same effect on the tables.\<close>

definition keys_valid :: "primitives \<Rightarrow> public_keys \<Rightarrow> bool" where
  "keys_valid p keys \<longleftrightarrow> (\<forall>k \<in> set (pk_keys keys). valid_public p k)"

lemma extend_tables_built:
  assumes "table_wf s" "bb_build bb s = Some b" "keys_valid p (bl_public_keys b)"
  shows "extend_tables p (token_block_to_proto_block b) s = join_tables s b"
proof -
  from build_tables [OF assms(1,2)] obtain u where ext: "table_ext s u"
    and sy: "st_symbols u = st_symbols s @ st_symbols (bl_symbols b)"
    and ks: "pk_keys (st_public_keys u) = pk_keys (st_public_keys s) @ pk_keys (bl_public_keys b)"
    and new: "st_public_keys (bl_symbols b) = pk_new" by blast
  have wf: "table_wf u" using table_ext_wf [OF ext] by blast
  have table: "st_from (st_symbols (bl_symbols b)) = Ok (bl_symbols b)"
    using wf_split [OF wf sy] new by (cases "bl_symbols b") (auto simp: st_from_def)
  have "distinct (pk_keys (st_public_keys s) @ pk_keys (bl_public_keys b))"
    using wf ks by (simp add: table_wf_def pk_wf_def)
  then have keys: "insert_keys p (map public_to_proto (pk_keys (bl_public_keys b))) (st_public_keys s) =
      Ok \<lparr>pk_keys = pk_keys (st_public_keys s) @ pk_keys (bl_public_keys b)\<rparr>"
    using insert_keys_write [of "pk_keys (st_public_keys s)" "pk_keys (bl_public_keys b)" p] assms(3)
    by (cases "st_public_keys s") (simp add: keys_valid_def)
  have dis': "pk_is_disjoint (st_public_keys s) (bl_public_keys b)"
    using wf ks by (auto simp: pk_is_disjoint_def table_wf_def pk_wf_def)
  have "st_public_keys s' = st_public_keys s" if "st_extend s (bl_symbols b) = Ok s'" for s'
    using that new by (cases s) (auto simp: st_extend_def pk_extend_def pk_new_def Let_def split: if_splits)
  then show ?thesis
    using table keys dis'
    by (cases "st_extend s (bl_symbols b)"; cases "st_public_keys s")
      (auto simp: extend_tables_def join_tables_def token_block_to_proto_block_def pk_extend_def)
qed

section \<open>The invariant\<close>

definition consistent :: "primitives \<Rightarrow> codec \<Rightarrow> biscuit \<Rightarrow> bool" where
  "consistent p c t \<longleftrightarrow>
     from_serialized_container p c (bi_container t) default_symbol_table = Ok t \<and> table_wf (bi_symbols t)"

lemma consistentD:
  assumes "consistent p c t"
  shows "extract_blocks p c (bi_container t) default_symbol_table = Ok ((bi_authority t, bi_blocks t), bi_symbols t)"
    "se_root_key_id (bi_container t) = bi_root_key_id t" "table_wf (bi_symbols t)"
  using assms by (cases t; auto simp: consistent_def from_serialized_container_def outcome_simps)+

lemma extract_loop_snoc:
  "extract_loop p c (bs @ [b]) symbols =
     obind (extract_loop p c bs symbols) (\<lambda>(blocks, s).
     obind (decode_signed c b) (\<lambda>deser.
     obind (if sb_external_signature b \<noteq> None then Ok s
            else omap_err Token_Format (extend_tables p deser s)) (\<lambda>s'.
       Ok (blocks @ [deser], s'))))"
proof (induction bs arbitrary: symbols)
  case Nil
  show ?case by (simp add: decode_signed_def)
next
  case (Cons a bs)
  show ?case
    by (cases "decode_block c (sb_data a)") (simp_all add: Cons obind_assoc case_prod_beta' cong: if_cong)
qed

text \<open>What a push changes.\<close>

definition pushed :: "serialized_biscuit \<Rightarrow> bytes \<Rightarrow> external_signature option \<Rightarrow> signed_block \<Rightarrow> serialized_biscuit \<Rightarrow> bool" where
  "pushed t v ext b u \<longleftrightarrow>
     sb_data b = v \<and> sb_external_signature b = ext \<and> se_blocks u = se_blocks t @ [b] \<and>
     se_authority u = se_authority t \<and> se_root_key_id u = se_root_key_id t"

lemma push_block_pushed: "push_block p t kp next_kp v ext version = Ok u \<Longrightarrow> \<exists>b. pushed t v ext b u"
  by (auto simp: push_block_def pushed_def outcome_simps)

lemma append_pushed:
  "container_append p c t next_kp b ext = Ok u \<Longrightarrow> \<exists>v x. encode_token_block c b = Ok v \<and> pushed t v ext x u"
  using push_block_pushed by (fastforce simp: container_append_def outcome_simps)

lemma append_serialized_pushed:
  "container_append_serialized p t next_kp v ext = Ok u \<Longrightarrow> \<exists>x. pushed t v ext x u"
  using push_block_pushed by (fastforce simp: container_append_serialized_def outcome_simps)

text \<open>One more block in the container, one more message in the token.\<close>

lemma consistent_snoc:
  assumes "consistent p c t" "decode_signed c b = Ok message"
    and "(if sb_external_signature b \<noteq> None then Ok (bi_symbols t) else omap_err Token_Format (extend_tables p message (bi_symbols t))) = Ok s"
    and "table_wf s" "se_root_key_id container = bi_root_key_id t" "se_authority container = se_authority (bi_container t)"
    and "se_blocks container = se_blocks (bi_container t) @ [b]"
  shows "consistent p c
    \<lparr>bi_root_key_id = bi_root_key_id t, bi_authority = bi_authority t, bi_blocks = bi_blocks t @ [message],
     bi_symbols = s, bi_container = container\<rparr>"
proof -
  note ex = consistentD(1) [OF assms(1)]
  have "extract_blocks p c container default_symbol_table = Ok ((bi_authority t, bi_blocks t @ [message]), s)"
    using ex assms(2,3)
    by (auto simp: extract_blocks_def assms(6,7) extract_loop_snoc outcome_simps split: if_splits)
  then show ?thesis
    using assms(4,5) by (simp add: consistent_def from_serialized_container_def)
qed

definition codec_ok :: "codec \<Rightarrow> bool" where
  "codec_ok c \<longleftrightarrow> (\<forall>m. block_decodes c m) \<and> (\<forall>m. biscuit_decodes c m)"

lemma encode_decode_signed:
  assumes "codec_ok c" "encode_token_block c b = Ok v" "sb_data x = v"
  shows "decode_signed c x = Ok (token_block_to_proto_block b)"
  using assms by (auto simp: codec_ok_def block_decodes_def encode_token_block_def decode_signed_def outcome_simps)

text \<open>The keys of a block are values of the program's key type.\<close>

definition builder_keys_valid :: "primitives \<Rightarrow> block_builder \<Rightarrow> bool" where
  "builder_keys_valid p bb \<longleftrightarrow> (\<forall>s b. bb_build bb s = Some b \<longrightarrow> keys_valid p (bl_public_keys b))"

lemma consistent_new:
  assumes "codec_ok c" "table_wf default_symbol_table" "builder_keys_valid p (bu_inner b)"
    and "build_with_key_pair p c b root default_symbol_table next_kp = Ok t"
  shows "consistent p c t"
proof -
  from assms(4) obtain block where block: "bb_build (bu_inner b) default_symbol_table = Some block"
    and new: "biscuit_new_with_key_pair p c (bu_root_key_id b) root next_kp default_symbol_table block = Ok t"
    by (auto simp: build_with_key_pair_def outcome_simps)
  from join_built [OF assms(2) block] obtain u where join: "join_tables default_symbol_table block = Ok u"
    and ext: "table_ext default_symbol_table u" by blast
  from new obtain container message where cont: "container_new p c (bu_root_key_id b) root next_kp block = Ok container"
    and message: "decode_signed c (se_authority container) = Ok message"
    and t: "t = \<lparr>bi_root_key_id = bu_root_key_id b, bi_authority = message, bi_blocks = [],
        bi_symbols = u, bi_container = container\<rparr>"
    using join by (auto simp: biscuit_new_with_key_pair_def join_tables_def outcome_simps split: if_splits)
  from cont obtain v where v: "encode_token_block c block = Ok v" "sb_data (se_authority container) = v"
    and parts: "se_root_key_id container = bu_root_key_id b" "se_blocks container = []"
    by (auto simp: container_new_def new_inner_def outcome_simps)
  have m: "message = token_block_to_proto_block block"
    using encode_decode_signed [OF assms(1) v] message by simp
  have "extend_tables p message default_symbol_table = Ok u"
    using extend_tables_built [OF assms(2) block] assms(3) block join by (simp add: m builder_keys_valid_def)
  then have "extract_blocks p c container default_symbol_table = Ok ((message, []), u)"
    using message parts by (simp add: extract_blocks_def decode_signed_def outcome_simps)
  then show ?thesis
    using table_ext_wf [OF ext] by (simp add: consistent_def from_serialized_container_def t parts)
qed

text \<open>What attenuation changes.\<close>

lemma append_shape:
  assumes "table_wf (bi_symbols t)" "append_with_keypair p c t kp bb = Ok u"
  shows "\<exists>block s container message v b.
    bb_build bb (bi_symbols t) = Some block \<and> join_tables (bi_symbols t) block = Ok s \<and>
    table_ext (bi_symbols t) s \<and>
    u = \<lparr>bi_root_key_id = bi_root_key_id t, bi_authority = bi_authority t,
        bi_blocks = bi_blocks t @ [message], bi_symbols = s, bi_container = container\<rparr> \<and>
    decode_signed c b = Ok message \<and> encode_token_block c block = Ok v \<and> sb_data b = v \<and>
    sb_external_signature b = None \<and> se_blocks container = se_blocks (bi_container t) @ [b] \<and>
    se_root_key_id container = se_root_key_id (bi_container t) \<and>
    se_authority container = se_authority (bi_container t)"
proof -
  from assms(2) obtain block where block: "bb_build bb (bi_symbols t) = Some block"
    by (auto simp: append_with_keypair_def outcome_simps)
  from join_built [OF assms(1) block] obtain s where join: "join_tables (bi_symbols t) block = Ok s"
    and ext: "table_ext (bi_symbols t) s" by blast
  from assms(2) block obtain container message where
    cont: "container_append p c (bi_container t) kp block None = Ok container"
    and message: "decode_signed c (last_block container) = Ok message"
    and u: "u = \<lparr>bi_root_key_id = bi_root_key_id t, bi_authority = bi_authority t,
        bi_blocks = bi_blocks t @ [message], bi_symbols = s, bi_container = container\<rparr>"
    using join by (auto simp: append_with_keypair_def join_tables_def outcome_simps split: if_splits)
  from append_pushed [OF cont] obtain v b where v: "encode_token_block c block = Ok v"
    and b: "pushed (bi_container t) v None b container" by blast
  then have "last_block container = b" by (simp add: pushed_def last_block_def)
  with message have "decode_signed c b = Ok message" by simp
  with block join ext u v b show ?thesis unfolding pushed_def by blast
qed

lemma consistent_append:
  assumes "codec_ok c" "consistent p c t" "builder_keys_valid p bb"
    and "append_with_keypair p c t kp bb = Ok u"
  shows "consistent p c u"
proof -
  have wf: "table_wf (bi_symbols t)" using assms(2) by (simp add: consistent_def)
  have root: "se_root_key_id (bi_container t) = bi_root_key_id t"
    by (rule consistentD [OF assms(2)])
  from append_shape [OF wf assms(4)] obtain block s container message v b where
    block: "bb_build bb (bi_symbols t) = Some block" and join: "join_tables (bi_symbols t) block = Ok s"
    and ext: "table_ext (bi_symbols t) s" and message: "decode_signed c b = Ok message"
    and v: "encode_token_block c block = Ok v" "sb_data b = v"
    and b: "sb_external_signature b = None" "se_blocks container = se_blocks (bi_container t) @ [b]"
    and parts: "se_root_key_id container = se_root_key_id (bi_container t)"
      "se_authority container = se_authority (bi_container t)"
    and u: "u = \<lparr>bi_root_key_id = bi_root_key_id t, bi_authority = bi_authority t,
        bi_blocks = bi_blocks t @ [message], bi_symbols = s, bi_container = container\<rparr>"
    by blast
  have m: "message = token_block_to_proto_block block"
    using encode_decode_signed [OF assms(1) v] message by simp
  have "extend_tables p message (bi_symbols t) = Ok s"
    using extend_tables_built [OF wf block] assms(3) block join by (simp add: m builder_keys_valid_def)
  then show ?thesis
    unfolding u using message b parts root table_ext_wf [OF ext]
    by (intro consistent_snoc [OF assms(2)]) auto
qed

lemma consistent_third_party:
  assumes "consistent p c t" "append_third_party_with_keypair fmt p c t key response next_kp = Ok u"
  shows "consistent p c u"
proof -
  have wf: "table_wf (bi_symbols t)" using assms(1) by (simp add: consistent_def)
  have root: "se_root_key_id (bi_container t) = bi_root_key_id t"
    by (rule consistentD [OF assms(1)])
  from assms(2) obtain container message x where
    cont: "container_append_serialized p (bi_container t) next_kp (ptc_payload response) (Some x) = Ok container"
    and message: "decode_block c (ptc_payload response) = Ok message"
    and u: "u = t\<lparr>bi_blocks := bi_blocks t @ [message], bi_container := container\<rparr>"
    by (auto simp: append_third_party_with_keypair_def Let_def outcome_simps split: if_splits)
  from cont obtain b where b: "sb_data b = ptc_payload response" "sb_external_signature b = Some x"
      "se_blocks container = se_blocks (bi_container t) @ [b]"
    and parts: "se_root_key_id container = se_root_key_id (bi_container t)"
      "se_authority container = se_authority (bi_container t)"
    using append_serialized_pushed [OF cont] by (auto simp: pushed_def)
  have "consistent p c
    \<lparr>bi_root_key_id = bi_root_key_id t, bi_authority = bi_authority t, bi_blocks = bi_blocks t @ [message],
     bi_symbols = bi_symbols t, bi_container = container\<rparr>"
    using message b parts root wf
    by (intro consistent_snoc [OF assms(1), of b]) (auto simp: decode_signed_def)
  then show ?thesis by (cases t) (simp add: u)
qed

lemma consistent_seal: "consistent p c t \<Longrightarrow> biscuit_seal p t = Ok u \<Longrightarrow> consistent p c u"
  by (cases t) (auto simp: biscuit_seal_def container_seal_def consistent_def from_serialized_container_def
      extract_blocks_def outcome_simps)

section \<open>Tokens a program can make\<close>

inductive made :: "formats \<Rightarrow> primitives \<Rightarrow> codec \<Rightarrow> public_key \<Rightarrow> biscuit \<Rightarrow> bool"
  for fmt p c root where
  built: "valid_keypair p root_kp \<Longrightarrow> valid_keypair p next_kp \<Longrightarrow> keypair_public p root_kp = root \<Longrightarrow>
     builder_keys_valid p (bu_inner b) \<Longrightarrow>
     build_with_key_pair p c b root_kp default_symbol_table next_kp = Ok t \<Longrightarrow> made fmt p c root t"
| appended: "made fmt p c root t \<Longrightarrow> valid_keypair p next_kp \<Longrightarrow> builder_keys_valid p bb \<Longrightarrow>
     append_with_keypair p c t next_kp bb = Ok u \<Longrightarrow> made fmt p c root u"
| third_party: "made fmt p c root t \<Longrightarrow> valid_keypair p next_kp \<Longrightarrow>
     append_third_party_with_keypair fmt p c t key response next_kp = Ok u \<Longrightarrow> made fmt p c root u"
| sealed_token: "made fmt p c root t \<Longrightarrow> biscuit_seal p t = Ok u \<Longrightarrow> made fmt p c root u"

lemma made_consistent:
  assumes "codec_ok c" "made fmt p c root t"
  shows "consistent p c t"
  using assms(2)
proof induction
  case (built root_kp next_kp b t)
  have "table_wf default_symbol_table" by (simp add: default_symbol_table_def table_wf_new)
  from consistent_new [OF assms(1) this built(4,5)] show ?case .
next
  case (appended t next_kp bb u)
  then show ?case using consistent_append [OF assms(1)] by blast
next
  case (third_party t next_kp key response u)
  then show ?case using consistent_third_party by blast
next
  case (sealed_token t u)
  then show ?case using consistent_seal by blast
qed

text \<open>The container of such a token is an issued one.\<close>

lemma made_issued:
  assumes "primitives_ok p" "made fmt p c root t"
  shows "issued p c root (bi_container t)"
  using assms(2)
proof induction
  case (built root_kp next_kp b t)
  then show ?case
    by (auto simp: build_with_key_pair_def biscuit_new_with_key_pair_def outcome_simps split: if_splits
        intro: issued.created)
next
  case (appended t next_kp bb u)
  then show ?case
    by (auto simp: append_with_keypair_def outcome_simps split: if_splits intro: issued.attenuated)
next
  case (third_party t next_kp key response u)
  let ?ext = "ptc_external_signature response"
  let ?x = "\<lparr>xs_public_key = key, xs_signature = pes_signature ?ext\<rparr>"
  from third_party(3) obtain container where
    key: "public_from_proto p (pes_public_key ?ext) = Ok key"
    and ver: "verify_external_signature p (ptc_payload response) (sb_next_key (last_block (bi_container t)))
      (sb_signature (last_block (bi_container t))) ?x THIRD_PARTY_SIGNATURE_VERSION PreviousSignatureHashing = Ok ()"
    and cont: "container_append_serialized p (bi_container t) next_kp (ptc_payload response) (Some ?x) = Ok container"
    and u: "bi_container u = container"
    by (auto simp: append_third_party_with_keypair_def Let_def outcome_simps split: if_splits)
  have "external_ok p (bi_container t) (ptc_payload response) (Some ?x)"
    using ver public_from_proto_valid [OF assms(1) key] by (simp add: external_ok_def)
  with third_party cont u show ?case by (auto intro: issued.extended)
next
  case (sealed_token t u)
  then show ?case by (auto simp: biscuit_seal_def outcome_simps intro: issued.sealed)
qed

section \<open>A sample token\<close>

definition empty_block :: block where
  "empty_block =
     \<lparr>bl_symbols = st_new, bl_facts = [], bl_rules = [], bl_checks = [], bl_context = None,
      bl_version = MIN_SCHEMA_VERSION, bl_external_key = None, bl_public_keys = pk_new, bl_scopes = []\<rparr>"

lemma build_empty: "bb_build bb_new st_new = Some empty_block"
  by (simp add: bb_build_def bb_elements_def bb_new_def st_split_at_def pk_split_at_def st_current_offset_def
      pk_current_offset_def st_new_def pk_new_def empty_block_def schema_version_number_def get_schema_version_def)

definition empty_message :: pblock where
  "empty_message = token_block_to_proto_block empty_block"

definition third_party_message :: pblock where
  "third_party_message = token_block_to_proto_block (empty_block\<lparr>bl_version := DATALOG_3_2\<rparr>)"

text \<open>A codec that knows two blocks and one token.\<close>

definition plain_codec :: "pbiscuit \<Rightarrow> codec" where
  "plain_codec n =
     \<lparr>encode_block = (\<lambda>x. if x = empty_message then Ok [5] else if x = third_party_message then Ok [6] else Err []),
      decode_block = (\<lambda>bs. Ok (if bs = [5] then empty_message else third_party_message)),
      encode_biscuit = (\<lambda>x. if x = n then Ok [7] else Err []), decode_biscuit = (\<lambda>_. Ok n)\<rparr>"

lemma plain_codec_ok: "codec_ok (plain_codec n)"
  by (simp add: codec_ok_def block_decodes_def biscuit_decodes_def plain_codec_def)

definition demo_container :: serialized_biscuit where
  "demo_container =
     \<lparr>se_root_key_id = None,
      se_authority = \<lparr>sb_data = [5], sb_next_key = demo_key 1,
        sb_signature = demo_signature (demo_pair 0) (authority_block_payload_v0 [5] (demo_key 1)),
        sb_external_signature = None, sb_version = 0\<rparr>,
      se_blocks = [], se_proof = Secret (keypair_private (demo_pair 1))\<rparr>"

definition demo_biscuit :: biscuit where
  "demo_biscuit =
     \<lparr>bi_root_key_id = None, bi_authority = empty_message, bi_blocks = [], bi_symbols = st_new,
      bi_container = demo_container\<rparr>"

lemma demo_both: "both_ed25519 (demo_pair a) (demo_pair b)"
  by (simp add: demo_pair_def)

lemma demo_build:
  "build_with_key_pair demo (plain_codec n) bu_new (demo_pair 0) default_symbol_table (demo_pair 1) =
     Ok demo_biscuit"
proof -
  have "join_tables st_new empty_block = Ok st_new" "st_is_disjoint st_new (bl_symbols empty_block)"
    by (simp_all add: join_tables_def st_extend_def pk_extend_def pk_is_disjoint_def st_is_disjoint_def
        empty_block_def st_new_def pk_new_def)
  moreover have "container_new demo (plain_codec n) None (demo_pair 0) (demo_pair 1) empty_block =
      Ok demo_container"
    by (simp add: container_new_def new_inner_def encode_token_block_def plain_codec_def empty_message_def
        sign_authority_block_def demo_signs block_signature_version_def empty_block_def version_numbers
        signature_versions demo_container_def demo_key_def demo_both)
  ultimately show ?thesis
    by (auto simp: build_with_key_pair_def bu_new_def default_symbol_table_def build_empty
        biscuit_new_with_key_pair_def join_tables_def demo_biscuit_def decode_signed_def plain_codec_def
        demo_container_def outcome_simps)
qed

text \<open>Building leaves the keys of a builder without scopes alone.\<close>

lemma no_keys_valid: "builder_keys_valid p bb_new"
  by (auto simp: builder_keys_valid_def bb_build_def bb_elements_def bb_new_def keys_valid_def st_split_at_def
      pk_split_at_def st_current_offset_def pk_current_offset_def split: option.splits if_splits)

lemma demo_made: "made fmt demo (plain_codec n) (demo_key 0) demo_biscuit"
  by (rule made.built [OF _ _ _ _ demo_build]) (simp_all add: demo_pair_valid demo_key_def no_keys_valid bu_new_def)

section \<open>Third-party blocks\<close>

lemma consistent_lengths:
  assumes "consistent p c t"
  shows "length (bi_blocks t) = length (se_blocks (bi_container t))"
proof -
  have "extract_loop p c bs s = Ok (ms, s') \<Longrightarrow> length ms = length bs" for bs s ms s'
    by (induction bs arbitrary: s ms) (auto simp: outcome_simps)
  then show ?thesis using consistentD(1) [OF assms] by (auto simp: extract_blocks_def outcome_simps)
qed

text \<open>A key pair whose signatures never fail.\<close>

definition always_signs :: "primitives \<Rightarrow> keypair \<Rightarrow> bool" where
  "always_signs p kp \<longleftrightarrow> (\<forall>m. \<exists>g. keypair_sign p kp m = Ok g)"

lemma push_block_total:
  "always_signs p kp \<Longrightarrow> version = 0 \<or> version = 1 \<Longrightarrow> \<exists>u. push_block p t kp next_kp v ext version = Ok u"
  unfolding always_signs_def push_block_def sign_block_def by (auto simp: outcome_simps)

lemma create_block_parts:
  assumes "create_block p c r private bb = Ok contents"
  shows "\<exists>b g. bb_build bb st_new = Some b \<and>
    encode_token_block c (b\<lparr>bl_version := max DATALOG_3_2 (bl_version b)\<rparr>) = Ok (ptc_payload contents) \<and>
    keypair_sign p (keypair_from private)
      (external_payload_v1 (ptc_payload contents) (tr_previous_signature r) THIRD_PARTY_SIGNATURE_VERSION) = Ok g \<and>
    ptc_external_signature contents =
      \<lparr>pes_signature = g, pes_public_key = public_to_proto (private_public p private)\<rparr>"
  using assms by (auto simp: create_block_def outcome_simps)

lemma created_block_verifies:
  assumes "primitives_ok p" "valid_private p private" "create_block p c r private bb = Ok contents"
    and "tr_previous_signature r = previous"
  shows "public_from_proto p (pes_public_key (ptc_external_signature contents)) = Ok (private_public p private)"
    "verify_external_signature p (ptc_payload contents) key previous
       \<lparr>xs_public_key = private_public p private, xs_signature = pes_signature (ptc_external_signature contents)\<rparr>
       THIRD_PARTY_SIGNATURE_VERSION PreviousSignatureHashing = Ok ()"
proof -
  have kp: "valid_keypair p (keypair_from private)" using assms(2) by simp
  from create_block_parts [OF assms(3)] obtain g where
    sign: "keypair_sign p (keypair_from private)
      (external_payload_v1 (ptc_payload contents) previous THIRD_PARTY_SIGNATURE_VERSION) = Ok g"
    and x: "ptc_external_signature contents =
      \<lparr>pes_signature = g, pes_public_key = public_to_proto (private_public p private)\<rparr>"
    using assms(4) by blast
  show "public_from_proto p (pes_public_key (ptc_external_signature contents)) = Ok (private_public p private)"
    using valid_keypair_public [OF assms(1) kp] by (simp add: x public_roundtrip)
  show "verify_external_signature p (ptc_payload contents) key previous
       \<lparr>xs_public_key = private_public p private, xs_signature = pes_signature (ptc_external_signature contents)\<rparr>
       THIRD_PARTY_SIGNATURE_VERSION PreviousSignatureHashing = Ok ()"
    using sign_verify [OF assms(1) kp sign] by (simp add: x verify_external_signature_def signature_versions)
qed

text \<open>A token a program made reads back from its bytes.\<close>

lemma made_read_back:
  assumes "primitives_ok p" "codec_ok c" "made fmt p c root t"
    and "biscuit_to_vec c t = Ok bs" "provider (bi_root_key_id t) = Ok root"
  shows "biscuit_from p c bs provider = Ok t"
proof -
  have cons: "consistent p c t" by (rule made_consistent [OF assms(2,3)])
  have "token_ok p root (bi_container t)"
    by (rule issued_ok [OF assms(1) made_issued [OF assms(1,3)]])
  then have "of_proto p (to_proto (bi_container t)) PreviousSignatureHashing = Ok (bi_container t)"
    "verify p (bi_container t) root = Ok ()"
    using token_read_back by (auto simp: token_ok_def)
  moreover have "decode_biscuit c bs = Ok (to_proto (bi_container t))"
    using assms(2,4) by (auto simp: codec_ok_def biscuit_decodes_def biscuit_to_vec_def to_vec_def outcome_simps)
  ultimately have "from_slice p c bs provider = Ok (bi_container t)"
    using assms(5) consistentD(2) [OF cons] by (simp add: from_slice_def deserialize_def)
  then show ?thesis using cons by (simp add: biscuit_from_def consistent_def)
qed

section \<open>Properties\<close>

text \<open>
  C9: A token is what its bytes say.  Every token made by building, attenuating, adding third-party
  blocks and sealing, when written and read back under its root key, is the same token: the same
  messages, the same symbols and public keys in the same order, the same container.
\<close>

theorem made_tokens_roundtrip:
  assumes "primitives_ok p" "codec_ok c" "made fmt p c root t"
    and "biscuit_to_vec c t = Ok bs" "provider (bi_root_key_id t) = Ok root"
  shows "biscuit_from p c bs provider = Ok t"
  using assms by (rule made_read_back)

lemma made_tokens_roundtrip_witness:
  "biscuit_from demo (plain_codec (to_proto demo_container)) [7] (\<lambda>_. Ok (demo_key 0)) =
     Ok demo_biscuit"
proof (rule made_tokens_roundtrip [OF demo_ok plain_codec_ok demo_made])
  show "biscuit_to_vec (plain_codec (to_proto demo_container)) demo_biscuit = Ok [7]"
    by (simp add: biscuit_to_vec_def to_vec_def plain_codec_def demo_biscuit_def)
qed simp

text \<open>
  C19: A third party's answer to a token's request is accepted by the token: the block it built
  becomes the last block, carried by its key, and the token's own symbols and keys are unchanged.
\<close>

theorem third_party_accepted:
  assumes "primitives_ok p" "codec_ok c" "made fmt p c root t"
    and "request_from_container (bi_container t) = Ok r" "create_block p c r private bb = Ok contents"
    and "valid_private p private"
    and "token_next_keypair (se_proof (bi_container t)) = Ok kp" "always_signs p kp"
  shows "\<exists>u b. append_third_party_with_keypair fmt p c t (private_public p private) contents next_kp = Ok u \<and>
    bb_build bb st_new = Some b \<and>
    bi_blocks u = bi_blocks t @ [token_block_to_proto_block (b\<lparr>bl_version := max DATALOG_3_2 (bl_version b)\<rparr>)] \<and>
    bi_symbols u = bi_symbols t \<and> block_external_key u (block_count t) = Ok (Some (private_public p private))"
proof -
  let ?prev = "last_block (bi_container t)" and ?key = "private_public p private"
  let ?x = "\<lparr>xs_public_key = ?key, xs_signature = pes_signature (ptc_external_signature contents)\<rparr>"
  from assms(4) have r: "tr_previous_signature r = sb_signature ?prev"
    by (auto simp: request_from_container_def split: if_splits)
  from create_block_parts [OF assms(5)] obtain b where b: "bb_build bb st_new = Some b"
    and enc: "encode_token_block c (b\<lparr>bl_version := max DATALOG_3_2 (bl_version b)\<rparr>) = Ok (ptc_payload contents)"
    by blast
  let ?m = "token_block_to_proto_block (b\<lparr>bl_version := max DATALOG_3_2 (bl_version b)\<rparr>)"
  have dec: "decode_block c (ptc_payload contents) = Ok ?m"
    using assms(2) enc by (auto simp: codec_ok_def block_decodes_def encode_token_block_def)
  from push_block_total [OF assms(8), of 1] obtain container where
    cont: "container_append_serialized p (bi_container t) next_kp (ptc_payload contents) (Some ?x) = Ok container"
    using assms(7) by (fastforce simp: container_append_serialized_def block_signature_version_external signature_versions)
  from append_serialized_pushed [OF cont] obtain last where
    last: "sb_external_signature last = Some ?x" "se_blocks container = se_blocks (bi_container t) @ [last]"
    by (auto simp: pushed_def)
  let ?u = "t\<lparr>bi_blocks := bi_blocks t @ [?m], bi_container := container\<rparr>"
  have "append_third_party_with_keypair fmt p c t ?key contents next_kp = Ok ?u"
    using created_block_verifies [OF assms(1,6,5) r] dec cont
    by (simp add: append_third_party_with_keypair_def Let_def)
  moreover have "block_external_key ?u (block_count t) = Ok (Some ?key)"
    using consistent_lengths [OF made_consistent [OF assms(2,3)]] last
    by (simp add: block_external_key_def block_count_def nth_opt_def block_key_def)
  ultimately show ?thesis using b by (intro exI [of _ ?u] exI [of _ b]) simp
qed

lemma demo_contents:
  "create_block demo (plain_codec n) \<lparr>tr_previous_signature = sb_signature (last_block demo_container)\<rparr>
     (keypair_private (demo_pair 2)) bb_new =
   Ok \<lparr>ptc_payload = [6],
       ptc_external_signature =
         \<lparr>pes_signature = demo_signature (demo_pair 2)
            (external_payload_v1 [6] (sb_signature (last_block demo_container)) THIRD_PARTY_SIGNATURE_VERSION),
          pes_public_key = public_to_proto (demo_key 2)\<rparr>\<rparr>"
proof -
  have "empty_message \<noteq> third_party_message"
    by (simp add: empty_message_def third_party_message_def token_block_to_proto_block_def empty_block_def
        version_numbers)
  moreover have "max DATALOG_3_2 (bl_version empty_block) = DATALOG_3_2"
    by (simp add: empty_block_def version_numbers)
  ultimately show ?thesis
    by (simp add: create_block_def build_empty encode_token_block_def plain_codec_def third_party_message_def
        demo_signs demo_key_def)
qed

lemma third_party_accepted_witness:
  "\<exists>u. append_third_party_with_keypair \<lparr>fmt_date = (\<lambda>_. None), fmt_hex = (\<lambda>_. []), fmt_debug_ops = (\<lambda>_. [])\<rparr>
     demo (plain_codec (to_proto demo_container)) demo_biscuit (demo_key 2)
     \<lparr>ptc_payload = [6],
      ptc_external_signature =
        \<lparr>pes_signature = demo_signature (demo_pair 2)
           (external_payload_v1 [6] (sb_signature (last_block demo_container)) THIRD_PARTY_SIGNATURE_VERSION),
         pes_public_key = public_to_proto (demo_key 2)\<rparr>\<rparr> (demo_pair 3) = Ok u"
proof -
  let ?c = "plain_codec (to_proto demo_container)"
  have request: "request_from_container (bi_container demo_biscuit) =
      Ok \<lparr>tr_previous_signature = sb_signature (last_block demo_container)\<rparr>"
    and kp: "token_next_keypair (se_proof (bi_container demo_biscuit)) = Ok (demo_pair 1)"
    by (simp_all add: request_from_container_def demo_biscuit_def demo_container_def last_block_def)
  have signs: "always_signs demo (demo_pair 1)"
    by (simp add: always_signs_def demo_signs)
  have key: "private_public demo (keypair_private (demo_pair 2)) = demo_key 2" by (simp add: demo_key_def)
  have valid: "valid_private demo (keypair_private (demo_pair 2))" by (simp add: demo_pair_valid)
  show ?thesis
    using third_party_accepted [OF demo_ok plain_codec_ok demo_made request demo_contents valid kp signs]
    unfolding key by blast
qed

text \<open>
  Reading block \<open>i\<close> of a token.  Up to the last block, it is the block the authorizer loads;
  past the end it is an error, except for the index just past the end, which panics.
\<close>

theorem block_index:
  assumes "consistent p c t"
  shows "(i < block_count t \<longrightarrow> biscuit_block p t i = biscuit_block_results p t ! i) \<and>
    (i = block_count t \<longrightarrow> biscuit_block p t i = Panic) \<and>
    (block_count t < i \<longrightarrow>
       biscuit_block p t i = Err (Token_Format (BlockDeserializationError ''invalid block index'')))"
  using consistent_lengths [OF assms]
  by (cases i) (auto simp: block_count_def biscuit_block_def biscuit_block_results_def nth_opt_def)

lemma block_index_witness: "biscuit_block demo demo_biscuit 1 = Panic"
proof -
  have "consistent demo (plain_codec undefined) demo_biscuit"
    by (rule made_consistent [OF plain_codec_ok demo_made])
  from block_index [OF this, of 1] show ?thesis by (simp add: block_count_def demo_biscuit_def)
qed

end
