(* ===== verification/Portable.thy ===== *)
theory Portable
  imports Token_Invariant
begin

text \<open>
  Which builders survive the wire: a block whose sets hold values of one type, scalars, arrays or
  maps, is read back from its message, and converting it from there gives the builder again.
\<close>

section \<open>Portable terms\<close>

definition yields :: "('a \<Rightarrow> 's \<Rightarrow> ('b \<times> 's) option) \<Rightarrow> ('b \<Rightarrow> bool) \<Rightarrow> 'a \<Rightarrow> bool" where
  "yields f P x \<longleftrightarrow> (\<forall>s y u. f x s = Some (y, u) \<longrightarrow> P y)"

lemma yieldsI: "(\<And>s y u. f x s = Some (y, u) \<Longrightarrow> P y) \<Longrightarrow> yields f P x"
  unfolding yields_def by blast

lemma yieldsD: "yields f P x \<Longrightarrow> f x s = Some (y, u) \<Longrightarrow> P y"
  unfolding yields_def by blast

lemma yields_list: "(\<And>x. x \<in> set xs \<Longrightarrow> yields f P x) \<Longrightarrow> yields (smap f) (\<lambda>ys. \<forall>y \<in> set ys. P y) xs"
proof (induction xs)
  case Nil
  show ?case by (rule yieldsI) simp
next
  case (Cons x xs)
  then have rest: "yields (smap f) (\<lambda>ys. \<forall>y \<in> set ys. P y) xs" and first: "yields f P x" by simp_all
  show ?case
    using yieldsD [OF rest] yieldsD [OF first]
    by (intro yieldsI) (fastforce simp: smap_Some_Cons simp del: smap.simps)
qed

text \<open>The type of a value, as the wire format sees it.\<close>

fun bterm_kind :: "bterm \<Rightarrow> nat option" where
  "bterm_kind (BInteger _) = Some 2"
| "bterm_kind (BStr _) = Some 3"
| "bterm_kind (BDate _) = Some 4"
| "bterm_kind (BBytes _) = Some 5"
| "bterm_kind (BBool _) = Some 6"
| "bterm_kind BNull = Some 8"
| "bterm_kind (BArray _) = Some 9"
| "bterm_kind (BMap _) = Some 10"
| "bterm_kind _ = None"

fun portable_term :: "bterm \<Rightarrow> bool" where
  "portable_term (BSet ts) \<longleftrightarrow>
     (ts = [] \<or> (\<exists>k. \<forall>t \<in> set ts. bterm_kind t = Some k)) \<and> (\<forall>t \<in> set ts. portable_term t)"
| "portable_term (BArray ts) \<longleftrightarrow> (\<forall>t \<in> set ts. portable_term t)"
| "portable_term (BMap m) \<longleftrightarrow> (\<forall>(k, t) \<in> set m. portable_term t)"
| "portable_term _ \<longleftrightarrow> True"

lemma intern_kind: "yields (intern_term ins) (\<lambda>d. term_kind d = bterm_kind b) b"
  by (rule yieldsI, cases b) (auto split: prod.splits)

lemma intern_wire: "portable_term b \<Longrightarrow> yields (intern_term ins) wire_term b"
proof (induction b)
  case (BSet ts)
  have kinds: "ts = [] \<or> (\<exists>k. \<forall>t \<in> set ts. bterm_kind t = Some k)" and ps: "\<forall>t \<in> set ts. portable_term t"
    using BSet.prems by simp_all
  have wire: "yields (smap (intern_term ins)) (\<lambda>us. \<forall>u \<in> set us. wire_term u) ts"
    using BSet.IH ps by (intro yields_list) blast
  have homog: "homogeneous (bt_of_list us)" if "smap (intern_term ins) ts s = Some (us, s')" for s us s'
  proof (cases "ts = []")
    case False
    with kinds obtain k where k: "\<forall>t \<in> set ts. bterm_kind t = Some k" by blast
    have "yields (smap (intern_term ins)) (\<lambda>us. \<forall>u \<in> set us. term_kind u = Some k) ts"
    proof (rule yields_list)
      fix t assume "t \<in> set ts"
      with k have "bterm_kind t = Some k" by blast
      with intern_kind [of ins t] show "yields (intern_term ins) (\<lambda>u. term_kind u = Some k) t" by simp
    qed
    from yieldsD [OF this that] show ?thesis by (auto simp: homogeneous_def)
  qed (use that in \<open>simp add: homogeneous_def bt_of_list_def\<close>)
  show ?case
    using yieldsD [OF wire] homog by (intro yieldsI) auto
next
  case (BArray ts)
  have "yields (smap (intern_term ins)) (\<lambda>us. \<forall>u \<in> set us. wire_term u) ts"
    using BArray by (intro yields_list) auto
  then show ?case by (intro yieldsI) (auto dest: yieldsD)
next
  case (BMap m)
  let ?f = "\<lambda>(k, t) s. case intern_key ins k s of None \<Rightarrow> None
      | Some (l, s') \<Rightarrow> map_option (\<lambda>(u, s''). ((l, u), s'')) (intern_term ins t s')"
  have "yields (smap ?f) (\<lambda>us. \<forall>u \<in> set us. wire_term (snd u)) m"
  proof (rule yields_list)
    fix x assume x: "x \<in> set m"
    obtain k t where kt: "x = (k, t)" by (rule prod.exhaust)
    have "yields (intern_term ins) wire_term t" using BMap x kt by auto
    then show "yields ?f (\<lambda>u. wire_term (snd u)) x"
      by (intro yieldsI) (auto simp: kt dest: yieldsD split: option.splits)
  qed
  then have "\<forall>u \<in> set us. wire_term (snd u)" if "smap ?f m s = Some (us, s')" for s us s'
    using that by (rule yieldsD)
  then show ?case
    using set_bm_of_list_subset by (intro yieldsI) fastforce
qed (rule yieldsI, auto split: prod.splits)+

section \<open>Portable elements\<close>

fun portable_op :: "bop \<Rightarrow> bool" where
  "portable_op (BValue t) \<longleftrightarrow> portable_term t"
| "portable_op (BClosure ps os) \<longleftrightarrow> (\<forall>p \<in> set os. portable_op p)"
| "portable_op _ \<longleftrightarrow> True"

definition portable_predicate :: "bpredicate \<Rightarrow> bool" where
  "portable_predicate p \<longleftrightarrow> (\<forall>t \<in> set (bp_terms p). wf_bterm t \<and> portable_term t)"

definition portable_rule :: "brule \<Rightarrow> bool" where
  "portable_rule r \<longleftrightarrow>
     plain r \<and> wf_brule r \<and> portable_predicate (br_head r) \<and> (\<forall>p \<in> set (br_body r). portable_predicate p) \<and>
     (\<forall>e \<in> set (br_expressions r). \<forall>p \<in> set (be_ops e). portable_op p)"

definition portable_builder :: "block_builder \<Rightarrow> bool" where
  "portable_builder bb \<longleftrightarrow>
     (\<forall>f \<in> set (bb_facts bb). wf_bfact f \<and> portable_predicate (bf_predicate f)) \<and>
     (\<forall>r \<in> set (bb_rules bb). portable_rule r) \<and>
     (\<forall>c \<in> set (bb_checks bb). \<forall>q \<in> set (bc_queries c). portable_rule q)"

lemma op_wire: "portable_op p \<Longrightarrow> yields op_convert wire_op p"
proof (induction p)
  case (BValue t)
  then have "yields term_convert wire_term t" unfolding term_convert_def by (simp add: intern_wire)
  then show ?case by (intro yieldsI) (auto dest: yieldsD)
next
  case (BClosure ps os)
  then have "yields (smap op_convert) (\<lambda>ys. \<forall>y \<in> set ys. wire_op y) os" by (intro yields_list) auto
  then show ?case by (intro yieldsI) (auto dest: yieldsD split: option.splits)
qed (rule yieldsI, auto split: prod.splits)+

lemma predicate_wire: "portable_predicate p \<Longrightarrow> yields predicate_convert wire_predicate p"
proof -
  assume "portable_predicate p"
  then have "yields (smap term_convert) (\<lambda>ys. \<forall>y \<in> set ys. wire_term y) (bp_terms p)"
    unfolding term_convert_def portable_predicate_def by (intro yields_list intern_wire) blast
  then show ?thesis
    by (intro yieldsI) (auto simp: predicate_convert_def wire_predicate_def dest: yieldsD split: prod.splits)
qed

text \<open>Scopes are bounded by the table they were read from.\<close>

definition few_keys :: "symbol_table \<Rightarrow> bool" where
  "few_keys t \<longleftrightarrow> length (pk_keys (st_public_keys t)) \<le> 2 ^ 64"

lemma scope_read_wire: "scope_convert_from c v = Ok b \<Longrightarrow> few_keys v \<Longrightarrow> wire_scope c"
  by (cases c) (auto simp: outcome_simps few_keys_def pk_get_key_def nth_opt_def split: if_splits)

lemma rule_wire:
  assumes "portable_rule r" "rule_convert r t = Some (y, u)" "rule_convert_from y v = Ok r'" "few_keys v"
  shows "wire_rule y"
proof -
  have r: "rule_apply_parameters r = r" "plain r" using assms(1) by (simp_all add: portable_rule_def plain_apply)
  have es: "yields (smap expression_convert) (\<lambda>es. \<forall>e \<in> set es. \<forall>p \<in> set (e_ops e). wire_op p) (br_expressions r)"
  proof (rule yields_list)
    fix e assume "e \<in> set (br_expressions r)"
    then have "yields (smap op_convert) (\<lambda>ys. \<forall>y \<in> set ys. wire_op y) (be_ops e)"
      using assms(1) by (intro yields_list op_wire) (simp add: portable_rule_def)
    then show "yields expression_convert (\<lambda>e. \<forall>p \<in> set (e_ops e). wire_op p) e"
      by (intro yieldsI) (auto simp: expression_convert_def dest: yieldsD)
  qed
  have head: "yields predicate_convert wire_predicate (br_head r)"
    and body: "yields (smap predicate_convert) (\<lambda>ys. \<forall>y \<in> set ys. wire_predicate y) (br_body r)"
    using assms(1) by (auto simp: portable_rule_def intro!: predicate_wire yields_list)
  from assms(3) obtain scopes where "traverse (\<lambda>c. scope_convert_from c v) (r_scopes y) = Ok scopes"
    by (auto simp: rule_convert_from_def outcome_simps)
  then have "\<forall>c \<in> set (r_scopes y). wire_scope c"
    using scope_read_wire [OF _ assms(4)]
    by (induction "r_scopes y" scopes arbitrary: rule: list_induct2') (auto simp: traverse_Ok_list_all2 list_all2_conv_all_nth in_set_conv_nth)
  moreover have "wire_predicate (r_head y) \<and> (\<forall>p \<in> set (r_body y). wire_predicate p) \<and>
      (\<forall>e \<in> set (r_expressions y). \<forall>p \<in> set (e_ops e). wire_op p)"
    using assms(2) yieldsD [OF head] yieldsD [OF body] yieldsD [OF es]
    by (auto simp: rule_convert_def r plain_rule_convert_def split: option.splits)
  ultimately show ?thesis by (simp add: wire_rule_def)
qed

section \<open>Portable builders\<close>

lemma elements_chain:
  assumes "table_wf s" "bb_elements bb s = Some ((fs, rs, cs, ss), u)"
  shows "\<exists>s1 s2 s3. smap fact_convert (bb_facts bb) s = Some (fs, s1) \<and>
    smap rule_convert (bb_rules bb) s1 = Some (rs, s2) \<and> smap check_convert (bb_checks bb) s2 = Some (cs, s3) \<and>
    smap scope_convert (bb_scopes bb) s3 = Some (ss, u) \<and>
    table_wf s1 \<and> table_wf s2 \<and> table_wf s3 \<and> table_ext s1 u \<and> table_ext s2 u \<and> table_ext s3 u \<and> table_wf u"
proof -
  from assms(2) obtain s1 s2 s3 where steps: "smap fact_convert (bb_facts bb) s = Some (fs, s1)"
    "smap rule_convert (bb_rules bb) s1 = Some (rs, s2)" "smap check_convert (bb_checks bb) s2 = Some (cs, s3)"
    "smap scope_convert (bb_scopes bb) s3 = Some (ss, u)"
    by (auto simp: bb_elements_def split: option.splits)
  have e1: "table_ext s s1" by (rule stable_ext [OF stable_list [OF stable_fact] assms(1) steps(1)])
  with table_ext_wf have w1: "table_wf s1" by blast
  have e2: "table_ext s1 s2" by (rule stable_ext [OF stable_list [OF stable_rule] w1 steps(2)])
  with table_ext_wf have w2: "table_wf s2" by blast
  have e3: "table_ext s2 s3" by (rule stable_ext [OF stable_list [OF stable_check] w2 steps(3)])
  with table_ext_wf have w3: "table_wf s3" by blast
  have e4: "table_ext s3 u" by (rule stable_ext [OF stable_list [OF stable_scope] w3 steps(4)])
  with table_ext_wf have w4: "table_wf u" by blast
  have "table_ext s2 u" using e3 e4 table_ext_trans by blast
  with e2 have "table_ext s1 u" using table_ext_trans by blast
  then show ?thesis using steps w1 w2 w3 e4 w4 \<open>table_ext s2 u\<close> by blast
qed

lemma portable_wf:
  assumes "portable_builder bb"
  shows "f \<in> set (bb_facts bb) \<Longrightarrow> wf_bfact f" "r \<in> set (bb_rules bb) \<Longrightarrow> plain r \<and> wf_brule r"
    "c \<in> set (bb_checks bb) \<Longrightarrow> wf_bcheck c"
  using assms by (auto simp: portable_builder_def portable_rule_def wf_bcheck_def)

text \<open>The elements of a built block, read in any later table, are those of the builder.\<close>

lemma elements_read:
  assumes "table_wf s" "portable_builder bb" "bb_elements bb s = Some ((fs, rs, cs, ss), u)"
    and "table_ext u v" "st_terms.small v"
  shows "traverse (\<lambda>f. fact_convert_from f v) fs = Ok (bb_facts bb)"
    "traverse (\<lambda>r. rule_convert_from r v) rs = Ok (bb_rules bb)"
    "traverse (\<lambda>c. check_convert_from c v) cs = Ok (bb_checks bb)"
    "traverse (\<lambda>c. scope_convert_from c v) ss = Ok (bb_scopes bb)"
proof -
  from elements_chain [OF assms(1,3)] obtain s1 s2 s3 where
    steps: "smap fact_convert (bb_facts bb) s = Some (fs, s1)" "smap rule_convert (bb_rules bb) s1 = Some (rs, s2)"
      "smap check_convert (bb_checks bb) s2 = Some (cs, s3)" "smap scope_convert (bb_scopes bb) s3 = Some (ss, u)"
    and wf: "table_wf s1" "table_wf s2" "table_wf s3" and ext: "table_ext s1 u" "table_ext s2 u" "table_ext s3 u"
    by blast
  note later = ext [THEN table_ext_trans, OF assms(4)]
  show "traverse (\<lambda>f. fact_convert_from f v) fs = Ok (bb_facts bb)"
    by (rule rt_read [OF rt_list assms(1) steps(1) later(1) assms(5)])
      (use portable_wf(1) [OF assms(2)] in \<open>simp add: rt_fact\<close>)
  show "traverse (\<lambda>r. rule_convert_from r v) rs = Ok (bb_rules bb)"
    by (rule rt_read [OF rt_list wf(1) steps(2) later(2) assms(5)])
      (use portable_wf(2) [OF assms(2)] in \<open>simp add: rt_rule\<close>)
  show "traverse (\<lambda>c. check_convert_from c v) cs = Ok (bb_checks bb)"
    by (rule rt_read [OF rt_list wf(2) steps(3) later(3) assms(5)])
      (use portable_wf(3) [OF assms(2)] in \<open>simp add: rt_check\<close>)
  show "traverse (\<lambda>c. scope_convert_from c v) ss = Ok (bb_scopes bb)"
    by (rule rt_read [OF rt_list wf(3) steps(4) assms(4,5)]) (rule rt_scope)
qed

text \<open>They are canonical on the wire.\<close>

lemma smap_source: "smap f xs s = Some (ys, u) \<Longrightarrow> y \<in> set ys \<Longrightarrow> \<exists>x \<in> set xs. \<exists>t v. f x t = Some (y, v)"
proof -
  assume run: "smap f xs s = Some (ys, u)" and y: "y \<in> set ys"
  have "yields (smap f) (\<lambda>ys. \<forall>y \<in> set ys. \<exists>x \<in> set xs. \<exists>t v. f x t = Some (y, v)) xs"
    by (rule yields_list) (auto simp: yields_def)
  from yieldsD [OF this run] y show ?thesis by blast
qed

lemma traverse_each: "traverse f xs = Ok ys \<Longrightarrow> x \<in> set xs \<Longrightarrow> \<exists>y. f x = Ok y"
  by (auto simp: traverse_Ok_list_all2 list_all2_conv_all_nth in_set_conv_nth)

lemma elements_wire:
  assumes "table_wf s" "portable_builder bb" "bb_elements bb s = Some ((fs, rs, cs, ss), u)"
    and "st_terms.small u" "few_keys u"
  shows "(\<forall>f \<in> set fs. wire_predicate (f_predicate f)) \<and> (\<forall>r \<in> set rs. wire_rule r) \<and>
    (\<forall>c \<in> set cs. \<forall>q \<in> set (c_queries c). wire_rule q) \<and> (\<forall>c \<in> set ss. wire_scope c)"
proof -
  from elements_chain [OF assms(1,3)] obtain s1 s2 s3 where
    steps: "smap fact_convert (bb_facts bb) s = Some (fs, s1)" "smap rule_convert (bb_rules bb) s1 = Some (rs, s2)"
      "smap check_convert (bb_checks bb) s2 = Some (cs, s3)" and wf: "table_wf u" by blast
  note read = elements_read [OF assms(1-3) table_ext_refl [OF wf] assms(4)]
  have "wire_predicate (f_predicate f)" if f: "f \<in> set fs" for f
  proof -
    from smap_source [OF steps(1) f] obtain x t v where x: "x \<in> set (bb_facts bb)" "fact_convert x t = Some (f, v)"
      by blast
    have "portable_predicate (bf_predicate x)" "bf_parameters x = None"
      using assms(2) x(1) by (auto simp: portable_builder_def wf_bfact_def)
    with x(2) yieldsD [OF predicate_wire] show ?thesis
      by (auto simp: fact_convert_def fact_apply_parameters_def)
  qed
  moreover have "wire_rule r" if r: "r \<in> set rs" for r
  proof -
    from smap_source [OF steps(2) r] obtain x t v where x: "x \<in> set (bb_rules bb)" "rule_convert x t = Some (r, v)"
      by blast
    moreover from traverse_each [OF read(2) r] obtain y where "rule_convert_from r u = Ok y" by blast
    ultimately show ?thesis using assms(2,5) by (auto simp: portable_builder_def intro: rule_wire)
  qed
  moreover have "wire_rule q" if c: "c \<in> set cs" and q: "q \<in> set (c_queries c)" for c q
  proof -
    from smap_source [OF steps(3) c] obtain x t v where x: "x \<in> set (bb_checks bb)" "check_convert x t = Some (c, v)"
      by blast
    from x(2) obtain w where "smap rule_convert (bc_queries x) t = Some (c_queries c, w)"
      by (auto simp: check_convert_def)
    from smap_source [OF this q] obtain z t' v' where z: "z \<in> set (bc_queries x)" "rule_convert z t' = Some (q, v')"
      by blast
    from traverse_each [OF read(3) c] obtain y where "check_convert_from c u = Ok y" by blast
    then obtain qs where "traverse (\<lambda>q. rule_convert_from q u) (c_queries c) = Ok qs"
      by (auto simp: check_convert_from_def outcome_simps)
    from traverse_each [OF this q] obtain y' where "rule_convert_from q u = Ok y'" by blast
    moreover have "portable_rule z" using z(1) x(1) assms(2) by (auto simp: portable_builder_def)
    ultimately show ?thesis using z(2) assms(5) by (auto intro: rule_wire)
  qed
  moreover have "wire_scope c" if c: "c \<in> set ss" for c
    using traverse_each [OF read(4) c] scope_read_wire [OF _ assms(5)] by blast
  ultimately show ?thesis by blast
qed

lemma built_block:
  assumes "table_wf s" "portable_builder bb" "bb_build bb s = Some b" "join_tables s b = Ok u"
    and "st_terms.small u" "few_keys u"
  shows "wire_contents b" "bl_version b = block_version b" "bl_version b \<le> MAX_SCHEMA_VERSION"
    "bl_context b = bb_context bb" "bl_external_key b = None"
    "set default_symbols \<inter> set (st_symbols (bl_symbols b)) = {}" "distinct (pk_keys (bl_public_keys b))"
    "bb_elements bb s = Some ((bl_facts b, bl_rules b, bl_checks b, bl_scopes b), u)"
proof -
  from build_tables [OF assms(1,3)] obtain w where w: "table_ext s w"
    "bb_elements bb s = Some ((bl_facts b, bl_rules b, bl_checks b, bl_scopes b), w)"
    "st_symbols w = st_symbols s @ st_symbols (bl_symbols b)"
    "pk_keys (st_public_keys w) = pk_keys (st_public_keys s) @ pk_keys (bl_public_keys b)" by blast
  from join_built [OF assms(1,3)] assms(4) w(2) have u: "w = u" by auto
  show el: "bb_elements bb s = Some ((bl_facts b, bl_rules b, bl_checks b, bl_scopes b), u)" using w(2) u by simp
  show "wire_contents b"
    using elements_wire [OF assms(1,2) el assms(5,6)] by (simp add: wire_contents_def)
  have wf: "table_wf w" using table_ext_wf [OF w(1)] by blast
  show "set default_symbols \<inter> set (st_symbols (bl_symbols b)) = {}" "distinct (pk_keys (bl_public_keys b))"
    using wf w(3,4) by (auto simp: table_wf_def st_wf_def pk_wf_def)
  show version: "bl_version b = block_version b" and "bl_context b = bb_context bb" "bl_external_key b = None"
    using assms(3) by (auto simp: bb_build_def block_version_def split: option.splits)
  show "bl_version b \<le> MAX_SCHEMA_VERSION"
    unfolding version block_version_def by (rule schema_version_number_cases)
qed

section \<open>Settled builders\<close>

text \<open>
  Parameters are applied when an element is converted, and the tables of parameters are not
  converted: a builder and its settled form build the same block.
\<close>

definition settle_fact :: "bfact \<Rightarrow> bfact" where
  "settle_fact f = (fact_apply_parameters f)\<lparr>bf_parameters := None\<rparr>"

definition settle_rule :: "brule \<Rightarrow> brule" where
  "settle_rule r = forget_parameters (rule_apply_parameters r)"

definition settle_check :: "bcheck \<Rightarrow> bcheck" where
  "settle_check c = c\<lparr>bc_queries := map settle_rule (bc_queries c)\<rparr>"

definition settle :: "block_builder \<Rightarrow> block_builder" where
  "settle bb =
     bb\<lparr>bb_facts := map settle_fact (bb_facts bb), bb_rules := map settle_rule (bb_rules bb),
        bb_checks := map settle_check (bb_checks bb)\<rparr>"

lemma convert_settle_fact: "fact_convert (settle_fact f) = fact_convert f"
  by (rule ext) (simp add: settle_fact_def fact_convert_def fact_apply_parameters_def split: option.split)

lemma convert_settle_rule: "rule_convert (settle_rule r) = rule_convert r"
proof -
  have "rule_apply_parameters (settle_rule r) = settle_rule r"
    by (simp add: settle_rule_def forget_parameters_def rule_apply_parameters_def)
  then show ?thesis
    by (intro ext) (simp add: rule_convert_def settle_rule_def forget_parameters_def plain_rule_convert_def
        cong: option.case_cong)
qed

lemma smap_map: "smap f (map g xs) s = smap (\<lambda>x. f (g x)) xs s"
  by (induction xs arbitrary: s) (auto split: option.split)

lemma convert_settle_check: "check_convert (settle_check c) = check_convert c"
  by (rule ext) (simp add: check_convert_def settle_check_def smap_map convert_settle_rule)

lemma build_settle: "bb_build (settle bb) s = bb_build bb s"
  by (simp add: bb_build_def bb_elements_def settle_def smap_map convert_settle_fact convert_settle_rule
      convert_settle_check cong: option.case_cong)

section \<open>Properties\<close>

text \<open>
  C13: A block says what its builder said.  A builder whose parameters are set and whose sets hold
  values of one type is built on a token's table, written to the wire and read back; converting what
  was read, with the table of the token, gives the builder with its parameters applied, scopes and
  context included.
\<close>

theorem built_block_says_what_was_built:
  assumes "table_wf s" "portable_builder (settle bb)" "builder_keys_valid p bb" "bb_build bb s = Some b"
    and "join_tables s b = Ok u" "st_terms.small u" "few_keys u"
  shows "\<exists>b'. proto_block_to_token_block p (token_block_to_proto_block b) None = Ok b' \<and>
    bb_convert_from b' u = Ok (settle bb)"
proof -
  have build: "bb_build (settle bb) s = Some b" using assms(4) by (simp add: build_settle)
  note b = built_block [OF assms(1,2) build assms(5-7)]
  have "wire_tables p b"
    using b(6,7) assms(3,4) by (auto simp: wire_tables_def builder_keys_valid_def keys_valid_def)
  from block_write_read [OF b(1) this, of None] b(2,3)
  have "proto_block_to_token_block p (token_block_to_proto_block b) None =
      Ok (b\<lparr>bl_symbols := \<lparr>st_symbols = st_symbols (bl_symbols b), st_public_keys = bl_public_keys b\<rparr>,
           bl_external_key := None\<rparr>)" by simp
  moreover have "table_wf u" using elements_chain [OF assms(1) b(8)] by blast
  ultimately show ?thesis
    using elements_read [OF assms(1,2) b(8) table_ext_refl assms(6)]
    by (simp add: bb_convert_from_def b(4))
qed

text \<open>The fact \<open>read({1, 2})\<close>, in a block with a context.\<close>

definition sample_builder :: block_builder where
  "sample_builder =
     bb_new\<lparr>bb_facts := [\<lparr>bf_predicate = \<lparr>bp_name = ''read'', bp_terms = [BSet [BInteger 1, BInteger 2]]\<rparr>,
                         bf_parameters = None\<rparr>],
            bb_context := Some ''c''\<rparr>"

definition sample_built :: block where
  "sample_built =
     empty_block\<lparr>bl_facts := [\<lparr>f_predicate = \<lparr>p_name = 0, p_terms = [Set [Integer 1, Integer 2]]\<rparr>\<rparr>],
                 bl_context := Some ''c''\<rparr>"

lemma sample_elements: "bb_elements sample_builder st_new = Some ((bl_facts sample_built, [], [], []), st_new)"
  by (simp add: bb_elements_def sample_builder_def bb_new_def sample_built_def fact_convert_def
      fact_apply_parameters_def predicate_convert_def term_convert_def st_insert_def default_symbols_def
      bt_of_list_def)

lemma sample_build: "bb_build sample_builder st_new = Some sample_built"
  using sample_elements
  by (simp add: bb_build_def st_split_at_def pk_split_at_def st_current_offset_def pk_current_offset_def
      st_new_def pk_new_def sample_built_def empty_block_def sample_builder_def bb_new_def
      get_schema_version_def schema_version_number_def contains_v3_3_predicate_def Let_def)

lemma st_new_small: "st_terms.small st_new" "few_keys st_new"
  by (rule small_symbols) (simp_all add: st_new_def pk_new_def symbol_offset_def few_keys_def)

lemma sample_settled: "settle sample_builder = sample_builder"
  by (simp add: settle_def sample_builder_def bb_new_def settle_fact_def fact_apply_parameters_def)

lemma sample_portable: "portable_builder sample_builder"
  by (simp add: portable_builder_def sample_builder_def bb_new_def wf_bfact_def wf_bpredicate_def
      portable_predicate_def strict_sorted_def less_bterm_def)

lemma built_block_says_what_was_built_witness:
  "\<exists>b'. proto_block_to_token_block demo (token_block_to_proto_block sample_built) None = Ok b' \<and>
     bb_convert_from b' st_new = Ok (settle sample_builder)"
proof (rule built_block_says_what_was_built [OF table_wf_new _ _ sample_build _ st_new_small])
  show "portable_builder (settle sample_builder)" by (simp add: sample_settled sample_portable)
  show "join_tables st_new sample_built = Ok st_new"
    by (simp add: join_tables_def st_extend_def pk_extend_def pk_is_disjoint_def st_is_disjoint_def
        sample_built_def empty_block_def st_new_def pk_new_def)
  show "builder_keys_valid demo sample_builder"
    by (auto simp: builder_keys_valid_def keys_valid_def bb_build_def bb_elements_def sample_builder_def bb_new_def
        fact_convert_def fact_apply_parameters_def predicate_convert_def term_convert_def st_insert_def
        default_symbols_def st_split_at_def pk_split_at_def st_current_offset_def pk_current_offset_def
        split: option.splits if_splits)
qed

end
