(* ===== verification/Samples.thy ===== *)
theory Samples
  imports Loading Portable
begin

text \<open>
  Small tokens and authorizers, run from end to end: the empty token, a token that states a fact,
  the empty token with one more block, and authorizers that have policies of one query.
\<close>

section \<open>Authorizing after a run that succeeds\<close>

lemma authorize_after_run:
  assumes "run_with_limits rx (ti_run ti) (au_symbols a) (au_limits a) (au_world a) = (Ok (), w)"
    and "au_execution_time a = None" "ti_run_elapsed ti < max_time (au_limits a)"
    and "w_iterations w \<le> max_iterations (au_limits a)"
  shows "\<exists>limits. max_time limits = max_time (au_limits a) - ti_run_elapsed ti \<and>
    fst (authorize fmt rx oc ti a) =
      fst (authorize_inner fmt rx ti limits (a\<lparr>au_world := w, au_execution_time := Some (ti_run_elapsed ti)\<rparr>))"
proof -
  let ?a = "a\<lparr>au_world := w, au_execution_time := Some (ti_run_elapsed ti)\<rparr>"
  have first: "authorizer_run rx ti a = (Ok (ti_run_elapsed ti), ?a)"
    using assms(1,2) by (simp add: authorizer_run_def split: unit.split)
  have again: "authorizer_run rx ti ?a = (Ok (ti_run_elapsed ti), ?a)"
    by (simp add: authorizer_run_def)
  from assms(3,4) obtain limits where "remaining_limits oc (ti_run_elapsed ti) ?a = Ok limits"
    "max_time limits = max_time (au_limits a) - ti_run_elapsed ti"
    by (simp add: remaining_limits_def)
  with first again show ?thesis
    by (intro exI [of _ limits]) (simp add: authorize_def authorize_with_limits_def split: prod.splits)
qed

section \<open>An authorizer that only has policies\<close>

definition plain_builder :: "policy list \<Rightarrow> authorizer_builder" where
  "plain_builder ps = ab_new\<lparr>ab_policies := ps\<rparr>"

definition plain_authorizer :: "policy list \<Rightarrow> block list \<Rightarrow> symbol_table \<Rightarrow> world \<Rightarrow> authorizer" where
  "plain_authorizer ps bs s w =
     authorizer_new\<lparr>au_world := w, au_symbols := s, au_blocks := Some bs, au_policies := ps,
       au_token_origins := from_scopes [Scope_Previous] default_trusted (length bs) (\<lambda>_. None)\<rparr>"

lemma plain_parts:
  "au_symbols (plain_authorizer ps bs s w) = s" "au_world (plain_authorizer ps bs s w) = w"
  "au_limits (plain_authorizer ps bs s w) = default_limits" "au_execution_time (plain_authorizer ps bs s w) = None"
  "au_block (plain_authorizer ps bs s w) = bb_new" "au_blocks (plain_authorizer ps bs s w) = Some bs"
  "au_policies (plain_authorizer ps bs s w) = ps" "au_key_blocks (plain_authorizer ps bs s w) = (\<lambda>_. None)"
  by (simp_all add: plain_authorizer_def authorizer_new_def)

lemma own_nothing: "load_authorizer bb_new keys s w = Some (s, w)"
  by (simp add: load_authorizer_def bb_new_def)

text \<open>What it is built to, for a token without third-party blocks.\<close>

lemma plain_built:
  assumes "load_blocks fmt 0 (biscuit_block_results p t) (bi_symbols t) (\<lambda>_. None) st_new world_new = Ok (bs, s, w)"
    and "\<forall>b \<in> set (se_blocks (bi_container t)). sb_external_signature b = None" "block_count t = length bs"
  shows "ab_build fmt p t (plain_builder ps) = Ok (plain_authorizer ps bs s w)"
proof -
  have keys: "external_keys_loop i cs s (\<lambda>_. None) = (s, \<lambda>_. None)"
    if "\<forall>b \<in> set cs. sb_external_signature b = None" for i cs s
    using that by (induction cs arbitrary: i) auto
  have world: "world_new\<lparr>w_externs := \<lambda>_. None\<rparr> = world_new" by (simp add: world_new_def)
  show ?thesis
    by (simp add: ab_build_def build_inner_def plain_builder_def ab_new_def keys [OF assms(2)] assms(1,3) own_nothing
        world Let_def)
      (simp add: plain_authorizer_def authorizer_new_def)
qed

text \<open>A policy of one query decides alone when no block has a check.\<close>

lemma plain_judged:
  assumes "w_rules w = []" "w_iterations w = 0" "\<forall>b \<in> set bs. bl_checks b = []" "bs \<noteq> []"
    and "po = \<lparr>po_queries = [q], po_kind = Allow\<rparr>" "rule_convert q s = Some (r, u)"
    and "find_match rx (w_externs w) u r (w_facts w) usize_max
      (from_scopes (r_scopes r) (from_scopes [] default_trusted usize_max (\<lambda>_. None)) usize_max (\<lambda>_. None)) = Ok v"
  shows "fst (authorize fmt rx oc demo_timing (plain_authorizer [po] bs s w)) =
    (if v then Ok 0 else Err (FailedLogic (NoMatchingPolicy [])))"
proof -
  let ?o = "plain_authorizer [po] bs s w"
  let ?a = "?o\<lparr>au_world := w, au_execution_time := Some 0\<rparr>"
  have run: "run_with_limits rx (\<lambda>_. 0) s default_limits w = (Ok (), w)"
    by (rule run_without_rules) (rule assms(1))
  from authorize_after_run [of rx demo_timing ?o w fmt oc] run
  obtain limits where limits: "max_time limits = 1000000"
    and inner: "fst (authorize fmt rx oc demo_timing ?o) = fst (authorize_inner fmt rx demo_timing limits ?a)"
    using assms(2) by (auto simp: plain_parts demo_timing_def default_limits_def)
  have keys: "ev_keys (env_of rx demo_timing limits ?a) = (\<lambda>_. None)" by (simp add: env_of_def plain_parts)
  have query: "any_query (convert_query (env_of rx demo_timing limits ?a) One_kind
      (from_scopes [] default_trusted usize_max (\<lambda>_. None))) (po_queries po) (s, 1) = (Ok v, u, 2)"
    using assms(5-7) limits
    by (simp add: convert_query_def abind_def aconvert_def run_query_def aread_def acheck_time_def
        areturn_def query_result_def query_match_def env_of_def demo_timing_def plain_parts)
  have none: "blocks_failures fmt env k cs = areturn []" if "\<forall>b \<in> set cs. bl_checks b = []" for env k cs
    using that by (induction cs arbitrary: k) (auto simp: block_failures_def abind_def areturn_def)
  obtain b rest where bs: "bs = b # rest" using assms(4) by (cases bs) auto
  have "bl_checks b = []" "\<forall>b \<in> set rest. bl_checks b = []" "po_kind po = Allow" using assms(3,5) bs by simp_all
  then show ?thesis
    unfolding inner unfolding bs
    by (cases v)
      (simp_all add: Let_def authorize_inner_def authorize_body_def judge_def abind_def aconvert_def areturn_def aread_def
        authority_failures_def other_failures_def block_failures_def none decide_def plain_parts bb_new_def
        keys [unfolded bs] query [unfolded bs One_nat_def])
qed

section \<open>The empty token\<close>

lemma empty_block_reads: "proto_block_to_token_block demo empty_message None = Ok empty_block"
proof -
  have "wire_contents empty_block" "wire_tables demo empty_block" "block_version empty_block \<le> bl_version empty_block"
    "bl_version empty_block \<le> MAX_SCHEMA_VERSION"
    by (simp_all add: wire_contents_def wire_tables_def empty_block_def pk_new_def st_new_def block_version_def
        schema_version_number_def get_schema_version_def version_numbers)
  from block_write_read [OF this, of None] show ?thesis
    by (simp add: empty_message_def empty_block_def st_new_def)
qed

lemma empty_block_loads:
  "load_and_translate_block fmt empty_block 0 src keys s w = Ok (empty_block, s, w)"
  by (simp add: load_and_translate_block_def Let_def empty_block_def)

lemma demo_blocks: "biscuit_block_results demo demo_biscuit = [Ok empty_block]"
  by (simp add: demo_biscuit_def demo_container_def biscuit_block_results_def read_block_def block_key_def
      empty_block_reads)

lemma demo_built:
  "ab_build fmt demo demo_biscuit (plain_builder ps) = Ok (plain_authorizer ps [empty_block] st_new world_new)"
  by (rule plain_built)
    (simp_all add: demo_blocks empty_block_loads block_count_def, simp_all add: demo_biscuit_def demo_container_def)

section \<open>A token that states a fact\<close>

text \<open>The fact \<open>read({1, 2})\<close>, and the policy \<open>allow if read($user)\<close>.\<close>

definition sample_token :: biscuit where
  "sample_token = demo_biscuit\<lparr>bi_authority := token_block_to_proto_block sample_built\<rparr>"

definition sample_allow :: policy where
  "sample_allow =
     \<lparr>po_queries = [rule_new (make_pred ''query'' []) [make_pred ''read'' [BVariable ''user'']] [] []],
      po_kind = Allow\<rparr>"

definition sample_loaded :: block where
  "sample_loaded = sample_built\<lparr>bl_symbols := st_new\<rparr>"

definition sample_world :: "nat \<Rightarrow> world" where
  "sample_world i = world_new\<lparr>w_facts := [({|i|}, bl_facts sample_built)]\<rparr>"

lemma sample_reads: "proto_block_to_token_block demo (token_block_to_proto_block sample_built) None = Ok sample_loaded"
proof -
  have "wire_contents sample_built" "wire_tables demo sample_built"
    by (simp_all add: wire_contents_def wire_tables_def sample_built_def empty_block_def wire_predicate_def
        strict_sorted_def homogeneous_def pk_new_def st_new_def)
  moreover have "block_version sample_built \<le> bl_version sample_built" "bl_version sample_built \<le> MAX_SCHEMA_VERSION"
    by (simp_all add: block_version_def sample_built_def empty_block_def schema_version_number_def get_schema_version_def
        contains_v3_3_predicate_def version_numbers)
  ultimately show ?thesis
    using block_write_read [of sample_built demo None]
    by (simp add: sample_loaded_def sample_built_def empty_block_def st_new_def)
qed

lemma sample_token_blocks: "biscuit_block_results demo sample_token = [Ok sample_loaded]"
  by (simp add: biscuit_block_results_def sample_token_def demo_biscuit_def read_block_def block_key_def
      demo_container_def sample_reads)

lemma sample_loads:
  "load_and_translate_block fmt sample_loaded i st_new keys st_new world_new = Ok (sample_loaded, st_new, sample_world i)"
proof -
  have "fact_convert_from (hd (bl_facts sample_built)) st_new = Ok (hd (bb_facts sample_builder))"
    by (simp add: sample_built_def sample_builder_def fact_convert_from_def predicate_convert_from_def
        term_convert_from_def print_symbol_def get_symbol_def default_symbols_def bt_of_list_def outcome_simps
        symbol_offset_def nth_opt_def less_bterm_def)
  moreover have "fact_convert (hd (bb_facts sample_builder)) st_new = Some (hd (bl_facts sample_built), st_new)"
    by (simp add: sample_builder_def bb_new_def sample_built_def fact_convert_def
      fact_apply_parameters_def predicate_convert_def term_convert_def st_insert_def default_symbols_def
      bt_of_list_def)
  ultimately have fact: "otraverse (fact_translate st_new) (bl_facts sample_built) st_new = Ok (bl_facts sample_built, st_new)"
    by (simp add: sample_built_def fact_translate_def read_then_write_def)
  have table: "block_table sample_loaded i st_new = st_new"
    by (simp add: block_table_def sample_loaded_def sample_built_def empty_block_def)
  have parts: "bl_facts sample_loaded = bl_facts sample_built" "bl_rules sample_loaded = []" "bl_checks sample_loaded = []"
    "bl_scopes sample_loaded = []"
    by (simp_all add: sample_loaded_def sample_built_def empty_block_def)
  have add: "fold (add_fact (block_origin i)) (bl_facts sample_built) world_new = sample_world i"
    by (simp add: sample_built_def add_fact_def sample_world_def world_new_def block_origin_def origin_insert_def)
  have upd: "sample_loaded\<lparr>bl_scopes := [], bl_facts := bl_facts sample_built, bl_rules := [], bl_checks := []\<rparr> = sample_loaded"
    by (simp add: sample_loaded_def sample_built_def empty_block_def)
  show ?thesis
    by (simp add: load_and_translate_block_def table Let_def parts fact add upd)
qed

lemma sample_token_built:
  "ab_build fmt demo sample_token (plain_builder ps) = Ok (plain_authorizer ps [sample_loaded] st_new (sample_world 0))"
  by (rule plain_built)
    (simp_all add: sample_token_blocks block_count_def, simp_all add: sample_token_def demo_biscuit_def
      demo_container_def sample_loads)

definition sample_query_rule :: rule where
  "sample_query_rule =
     \<lparr>r_head = \<lparr>p_name = 27, p_terms = []\<rparr>, r_body = [\<lparr>p_name = 0, p_terms = [Variable 10]\<rparr>], r_expressions = [],
      r_scopes = []\<rparr>"

lemma sample_query_convert: "rule_convert (hd (po_queries sample_allow)) st_new = Some (sample_query_rule, st_new)"
  by (simp add: sample_allow_def sample_query_rule_def rule_convert_def rule_new_def make_pred_def plain_rule_convert_def
      rule_apply_parameters_def predicate_convert_def predicate_apply_def term_convert_def as_u32_def
      st_insert_def default_symbols_def st_new_def)

lemma sample_query_matches:
  "find_match rx externs symbols sample_query_rule (w_facts (sample_world i)) usize_max
     (from_scopes (r_scopes sample_query_rule) (from_scopes [] default_trusted usize_max keys) usize_max keys) =
   Ok (i = 0 \<or> i = usize_max)"
  by (simp add: find_match_def sample_query_rule_def sample_world_def sample_built_def solve_defs from_scopes_def)

lemma sample_query_empty: "find_match rx externs symbols sample_query_rule [] og scope = Ok False"
  by (simp add: find_match_def sample_query_rule_def solve_defs)

lemma sample_parts: "w_rules (sample_world i) = []" "w_iterations (sample_world i) = 0" "bl_checks sample_loaded = []"
  by (simp_all add: sample_world_def world_new_def sample_loaded_def sample_built_def empty_block_def)

lemma sample_granted:
  "fst (authorize fmt rx oc demo_timing (plain_authorizer [sample_allow] [sample_loaded] st_new (sample_world 0))) = Ok 0"
proof -
  have po: "sample_allow = \<lparr>po_queries = [hd (po_queries sample_allow)], po_kind = Allow\<rparr>"
    by (simp add: sample_allow_def)
  show ?thesis
    by (subst plain_judged [OF sample_parts(1,2) _ _ po sample_query_convert sample_query_matches])
      (simp_all add: sample_parts)
qed

end
