(* ===== verification/Built.thy ===== *)
theory Built
  imports Samples
begin

text \<open>
  From a token to a decision: the world of a built authorizer holds exactly what the blocks of the
  token and the authorizer say, its key map names exactly the blocks that a key signed, and a
  granted authorization is justified in the least model of that world.
\<close>

section \<open>The authorizer's own elements\<close>

text \<open>They are written in the final table already: converting them again adds nothing.\<close>

definition own_elements :: "block_builder \<Rightarrow> symbol_table \<Rightarrow> scope list \<Rightarrow> fact list \<Rightarrow> rule list \<Rightarrow> bool" where
  "own_elements bb s scopes facts rules \<longleftrightarrow>
     smap scope_convert (bb_scopes bb) s = Some (scopes, s) \<and>
     smap fact_convert (bb_facts bb) s = Some (facts, s) \<and>
     smap rule_convert (bb_rules bb) s = Some (rules, s)"

lemma stable_step:
  assumes "stable f x" "table_wf t" "f x t = Some (y, u)"
  shows "table_ext t u" "table_wf u" "table_ext u v \<Longrightarrow> f x v = Some (y, v)"
  using stable_ext [OF assms] stable_again [OF assms] table_ext_wf by blast+

lemma load_authorizer_own:
  assumes "load_authorizer bb keys s w = Some (s', w')" "table_wf s"
  shows "\<exists>scopes facts rules. own_elements bb s' scopes facts rules \<and>
    contributes usize_max keys scopes facts rules w w' \<and> table_ext s s'"
proof -
  from assms(1) obtain scopes s1 facts s2 rules where
    scopes: "smap scope_convert (bb_scopes bb) s = Some (scopes, s1)"
    and facts: "smap fact_convert (bb_facts bb) s1 = Some (facts, s2)"
    and rules: "smap rule_convert (bb_rules bb) s2 = Some (rules, s')"
    and w': "w' = fold (insert_rule usize_max (from_scopes scopes default_trusted usize_max keys) keys) rules
      (fold (add_fact (block_origin usize_max)) facts w)"
    by (auto simp: load_authorizer_def split: option.splits prod.splits)
  note t1 = stable_step [OF stable_list [OF stable_scope] assms(2) scopes]
  note t2 = stable_step [OF stable_list [OF stable_fact] t1(2) facts]
  note t3 = stable_step [OF stable_list [OF stable_rule] t2(2) rules]
  have e1: "table_ext s1 s'" using table_ext_trans [OF t2(1) t3(1)] .
  have "own_elements bb s' scopes facts rules"
    unfolding own_elements_def using t1(3) [OF e1] t2(3) [OF t3(1)] t3(3) [OF table_ext_refl [OF t3(2)]] by blast
  with contributesI [of usize_max keys scopes facts rules w] table_ext_trans [OF t1(1) e1] show ?thesis
    unfolding w' by blast
qed

section \<open>The world of a built authorizer\<close>

definition token_facts :: "block list \<Rightarrow> sourced set" where
  "token_facts bs = (\<Union>j < length bs. block_facts j (bs ! j))"

definition token_rules :: "key_blocks \<Rightarrow> block list \<Rightarrow> scoped_rule set" where
  "token_rules keys bs = (\<Union>j < length bs. block_rules keys j (bs ! j))"

definition own_facts :: "fact list \<Rightarrow> sourced set" where
  "own_facts facts = Pair (block_origin usize_max) ` set facts"

definition own_rules :: "key_blocks \<Rightarrow> scope list \<Rightarrow> rule list \<Rightarrow> scoped_rule set" where
  "own_rules keys scopes rules =
     scoped usize_max (from_scopes scopes default_trusted usize_max keys) keys ` set rules"

definition holds_token ::
    "primitives \<Rightarrow> biscuit \<Rightarrow> authorizer_builder \<Rightarrow> authorizer \<Rightarrow> block list \<Rightarrow> scope list \<Rightarrow> fact list \<Rightarrow> rule list \<Rightarrow> bool"
  where
  "holds_token p t ab a bs scopes facts rules \<longleftrightarrow>
     au_blocks a = Some bs \<and> loaded 0 (biscuit_block_results p t) (bi_symbols t) (au_symbols a) bs \<and>
     au_block a = ab_block ab \<and> au_policies a = ab_policies ab \<and> au_limits a = ab_limits ab \<and>
     own_elements (ab_block ab) (au_symbols a) scopes facts rules \<and>
     fs_pairs (w_facts (au_world a)) = token_facts bs \<union> own_facts facts \<and>
     rs_triples (w_rules (au_world a)) = token_rules (au_key_blocks a) bs \<union> own_rules (au_key_blocks a) scopes rules \<and>
     w_externs (au_world a) = ab_externs ab \<and> w_iterations (au_world a) = 0 \<and>
     wf_facts (w_facts (au_world a)) \<and> table_wf (au_symbols a) \<and> au_execution_time a = None"

text \<open>The key map: for every key of the table, the blocks it signed, in order.\<close>

definition names_signers :: "serialized_biscuit \<Rightarrow> authorizer \<Rightarrow> bool" where
  "names_signers c a \<longleftrightarrow>
     (\<forall>kid k. pk_get_key (st_public_keys (au_symbols a)) kid = Some k \<longrightarrow>
        key_entry (au_key_blocks a) kid = signed_by k 0 (se_blocks c)) \<and>
     (\<forall>kid. au_key_blocks a kid \<noteq> None \<longrightarrow> pk_get_key (st_public_keys (au_symbols a)) kid \<noteq> None)"

lemma contributions_iterations: "contributions i keys bs w w' \<Longrightarrow> w_iterations w' = w_iterations w"
  by (induction bs arbitrary: i w) (auto simp: contributes_def)

lemma external_keys_later:
  assumes "external_keys_loop 0 bs st_new (\<lambda>_. None) = (s, keys)" "table_ext s v"
    and "pk_get_key (st_public_keys v) kid = Some k"
  shows "key_entry keys kid = signed_by k 0 bs"
proof (cases "pk_get_key (st_public_keys s) kid")
  case (Some l)
  with assms(2,3) have "l = k" by (simp add: table_ext_def pk.extends_def)
  with Some external_keys_entries [OF assms(1) table_wf_new] show ?thesis by (simp add: key_entry_def)
next
  case None
  note ks = external_keys_entries [OF assms(1) table_wf_new]
  from ks None have "keys kid = None" by blast
  moreover have "signed_by k 0 bs = []"
  proof (rule ccontr)
    assume "signed_by k 0 bs \<noteq> []"
    then obtain n where "n \<in> set (signed_by k 0 bs)" by (cases "signed_by k 0 bs") auto
    then obtain b where "b \<in> set bs" "block_key b = Some k" unfolding signed_by_iff by force
    with ks obtain j where j: "pk_get_key (st_public_keys s) j = Some k" by blast
    with assms(2) have "pk_get_key (st_public_keys v) j = Some k" by (simp add: table_ext_def pk.extends_def)
    with pk_get_key_inj assms(3) table_ext_wf [OF assms(2)] have "j = kid" by blast
    with j None show False by simp
  qed
  ultimately show ?thesis by (simp add: key_entry_def)
qed

text \<open>The stages of a build.\<close>

lemma build_parts:
  assumes "ab_build fmt p t ab = Ok a"
  shows "\<exists>s keys bs s1 w1 s2 w2.
    external_keys_loop 0 (se_blocks (bi_container t)) st_new (\<lambda>_. None) = (s, keys) \<and>
    load_blocks fmt 0 (biscuit_block_results p t) (bi_symbols t) keys s (world_new\<lparr>w_externs := ab_externs ab\<rparr>) =
      Ok (bs, s1, w1) \<and>
    load_authorizer (ab_block ab) keys s1 w1 = Some (s2, w2) \<and>
    a = \<lparr>au_block = ab_block ab, au_world = w2, au_symbols = s2,
      au_token_origins = from_scopes [Scope_Previous] default_trusted (block_count t) keys,
      au_policies = ab_policies ab, au_blocks = Some bs, au_key_blocks = keys, au_limits = ab_limits ab,
      au_execution_time = None\<rparr>"
proof -
  obtain s keys where ek: "external_keys_loop 0 (se_blocks (bi_container t)) st_new (\<lambda>_. None) = (s, keys)"
    by (rule prod.exhaust)
  with assms show ?thesis by (auto simp: ab_build_def build_inner_def Let_def outcome_simps)
qed

lemma build_holds:
  assumes "ab_build fmt p t ab = Ok a"
  shows "\<exists>bs scopes facts rules. holds_token p t ab a bs scopes facts rules \<and> names_signers (bi_container t) a"
proof -
  let ?w0 = "world_new\<lparr>w_externs := ab_externs ab\<rparr>"
  from build_parts [OF assms] obtain s keys bs s1 w1 s2 w2 where
    ek: "external_keys_loop 0 (se_blocks (bi_container t)) st_new (\<lambda>_. None) = (s, keys)"
    and blocks: "load_blocks fmt 0 (biscuit_block_results p t) (bi_symbols t) keys s ?w0 = Ok (bs, s1, w1)"
    and own: "load_authorizer (ab_block ab) keys s1 w1 = Some (s2, w2)"
    and a: "a = \<lparr>au_block = ab_block ab, au_world = w2, au_symbols = s2,
      au_token_origins = from_scopes [Scope_Previous] default_trusted (block_count t) keys,
      au_policies = ab_policies ab, au_blocks = Some bs, au_key_blocks = keys, au_limits = ab_limits ab,
      au_execution_time = None\<rparr>"
    by blast
  note ks = external_keys_entries [OF ek table_wf_new]
  have wf: "table_wf s" using ks table_ext_wf by blast
  note lb = load_blocks_contributions [OF blocks wf]
  have wf1: "table_wf s1" using lb table_ext_wf by blast
  from load_authorizer_own [OF own wf1] obtain scopes facts rules where
    el: "own_elements (ab_block ab) s2 scopes facts rules"
    and c: "contributes usize_max keys scopes facts rules w1 w2" and ext: "table_ext s1 s2" by blast
  have wf2: "table_wf s2" using ext table_ext_wf by blast
  have cw: "contributions 0 keys bs ?w0 w1" using lb by blast
  have "loaded 0 (biscuit_block_results p t) (bi_symbols t) s2 bs" using lb ext by blast
  then have "holds_token p t ab a bs scopes facts rules"
    unfolding holds_token_def a
    using el c wf2 contributions_world [OF cw] contributions_iterations [OF cw]
    by (simp add: contributes_def token_facts_def token_rules_def own_facts_def own_rules_def world_new_def)
  moreover have "names_signers (bi_container t) a"
    unfolding names_signers_def a
  proof (simp, intro conjI allI impI)
    have e: "table_ext s s2" using lb ext table_ext_trans by blast
    show "key_entry keys kid = signed_by k 0 (se_blocks (bi_container t))"
      if "pk_get_key (st_public_keys s2) kid = Some k" for kid k
      using external_keys_later [OF ek e that] .
    show "\<exists>k. pk_get_key (st_public_keys s2) kid = Some k" if kid: "\<exists>is. keys kid = Some is" for kid
    proof -
      from kid ks obtain k where "pk_get_key (st_public_keys s) kid = Some k" by blast
      with e have "pk_get_key (st_public_keys s2) kid = Some k" by (simp add: table_ext_def pk.extends_def)
      then show ?thesis by blast
    qed
  qed
  ultimately show ?thesis by blast
qed

lemma resolved_unique:
  assumes "own_elements bb (au_symbols a) scopes facts rules" "bb = au_block a" "table_wf (au_symbols a)"
    and "resolved_scopes a scopes'"
  shows "scopes' = scopes"
proof -
  from assms(4) obtain s where s: "table_ext (au_symbols a) s"
    "smap scope_convert (bb_scopes (au_block a)) s = Some (scopes', s)"
    unfolding resolved_scopes_def by blast
  have run: "smap scope_convert (bb_scopes (au_block a)) (au_symbols a) = Some (scopes, au_symbols a)"
    using assms(1,2) by (simp add: own_elements_def)
  from stable_step(3) [OF stable_list [OF stable_scope] assms(3) run s(1)] s(2) show ?thesis by simp
qed

section \<open>Properties\<close>

text \<open>
  C1: A granted token is justified.  When an authorizer built for a token grants it, the blocks
  loaded say what the blocks of the token say; the facts after the run are the least model of the
  facts and rules of the blocks, each tagged with its block and under the trust of its scopes, and
  of the authorizer; every key stands for the blocks it signed; and in that model the returned
  policy is the first that applies, it allows, and every check of the token and of the authorizer
  passes.
\<close>

theorem token_granted:
  assumes "ab_build fmt p t ab = Ok a" "fst (authorize fmt rx oc ti a) = Ok i"
  shows "\<exists>bs scopes facts rules w time.
    holds_token p t ab a bs scopes facts rules \<and> names_signers (bi_container t) a \<and>
    fs_pairs (w_facts w) =
      derived rx (ab_externs ab) (au_symbols a)
        (token_rules (au_key_blocks a) bs \<union> own_rules (au_key_blocks a) scopes rules)
        (token_facts bs \<union> own_facts facts) \<and>
    grants rx (a\<lparr>au_world := w, au_execution_time := Some time\<rparr>) scopes i"
proof -
  from build_holds [OF assms(1)] obtain bs scopes facts rules where
    h: "holds_token p t ab a bs scopes facts rules" and n: "names_signers (bi_container t) a" by blast
  have fresh: "au_execution_time a = None" using h by (simp add: holds_token_def)
  from authorize_decides [OF assms(2) _ _ fresh] obtain w time limits where
    run: "run_with_limits rx (ti_run ti) (au_symbols a) (au_limits a) (au_world a) = (Ok (), w)"
    and inner: "fst (authorize_inner fmt rx ti limits (a\<lparr>au_world := w, au_execution_time := Some time\<rparr>)) = Ok i"
    by auto
  let ?a = "a\<lparr>au_world := w, au_execution_time := Some time\<rparr>"
  have wf: "table_wf (au_symbols ?a)" "wf_facts (w_facts (au_world a))" using h by (simp_all add: holds_token_def)
  from inner obtain a' where "authorize_inner fmt rx ti limits ?a = (Ok i, a')" by (metis prod.collapse)
  from granted_verdicts [OF wf(1) this] obtain scopes' where g: "grants rx ?a scopes' i" by blast
  have "own_elements (ab_block ab) (au_symbols ?a) scopes facts rules" "ab_block ab = au_block ?a"
    using h by (simp_all add: holds_token_def)
  from resolved_unique [OF this wf(1)] g have g: "grants rx ?a scopes i" by (auto simp: grants_def)
  have "fs_pairs (w_facts w) = world_derived rx (au_symbols a) (au_world a)"
    using run_with_limits_exit [OF run wf(2)] by (simp add: exit_ok_def)
  then have "fs_pairs (w_facts w) =
      derived rx (ab_externs ab) (au_symbols a)
        (token_rules (au_key_blocks a) bs \<union> own_rules (au_key_blocks a) scopes rules)
        (token_facts bs \<union> own_facts facts)"
    using h by (simp add: holds_token_def)
  with h n g show ?thesis by blast
qed

lemma token_granted_witness:
  "\<exists>bs scopes facts rules. holds_token demo sample_token (plain_builder [sample_allow])
     (plain_authorizer [sample_allow] [sample_loaded] st_new (sample_world 0)) bs scopes facts rules"
  using token_granted [OF sample_token_built [of demo_formats] sample_granted] by blast

end
