(* ===== verification/Attenuated_Token.thy ===== *)
theory Attenuated_Token
  imports Built
begin

text \<open>
  Attenuation of tokens: the authorizers built for a token and for the token with one more
  first-party block.  The blocks of the token are loaded alike, although the attenuated token has a
  larger table, and the new block adds its own facts, rules and checks.
\<close>

section \<open>Reading in a larger table\<close>

definition persists :: "(symbol_table \<Rightarrow> ('e, 'a) outcome) \<Rightarrow> bool" where
  "persists g \<longleftrightarrow> (\<forall>s t x. table_ext s t \<longrightarrow> g s = Ok x \<longrightarrow> g t = Ok x)"

lemma persistsD: "persists g \<Longrightarrow> table_ext s t \<Longrightarrow> g s = Ok x \<Longrightarrow> g t = Ok x"
  unfolding persists_def by blast

lemma persists_const: "persists (\<lambda>_. m)"
  by (simp add: persists_def)

lemma persists_bind:
  assumes "persists g" "\<And>x. persists (h x)"
  shows "persists (\<lambda>s. obind (g s) (\<lambda>x. h x s))"
  unfolding persists_def using persistsD [OF assms(1)] persistsD [OF assms(2)]
  by (auto simp: outcome_simps)

lemma persists_traverse: "(\<And>x. x \<in> set xs \<Longrightarrow> persists (\<lambda>s. g x s)) \<Longrightarrow> persists (\<lambda>s. traverse (\<lambda>x. g x s) xs)"
  by (induction xs) (auto intro!: persists_bind persists_const)

lemma persists_symbol: "persists (\<lambda>s. print_symbol s i)"
  by (auto simp: persists_def print_symbol_def table_ext_def st.extends_def split: option.splits)

lemma persists_key: "persists (\<lambda>s. extern_key (print_symbol s) k)"
  by (cases k) (auto intro!: persists_bind persists_symbol persists_const)

lemma persists_term: "persists (term_convert_from t)"
proof -
  have "persists (\<lambda>s. extern_term (print_symbol s) (print_symbol s) t)"
  proof (induction t)
    case (Map m)
    have "persists (\<lambda>s. case x of (k, t) \<Rightarrow> obind (extern_key (print_symbol s) k) (\<lambda>l.
        obind (extern_term (print_symbol s) (print_symbol s) t) (\<lambda>u. Ok (l, u))))" if x: "x \<in> set m" for x
    proof -
      obtain k t where kt: "x = (k, t)" by (rule prod.exhaust)
      then have "persists (\<lambda>s. extern_term (print_symbol s) (print_symbol s) t)"
        using Map [OF x] by (simp add: prod_set_defs)
      then show ?thesis unfolding kt prod.case by (intro persists_bind persists_key persists_const)
    qed
    then show ?case unfolding extern_term.simps by (intro persists_bind persists_traverse persists_const)
  qed (auto intro!: persists_bind persists_symbol persists_traverse persists_const)
  then show ?thesis unfolding term_convert_from_def .
qed

lemma persists_op: "persists (op_convert_from p)"
proof (induction p)
  case (Unary u)
  have "persists (unary_convert_from u)"
    by (cases u) (auto simp: persists_def outcome_simps dest: persistsD [OF persists_symbol])
  then show ?case by (auto intro!: persists_bind persists_const)
next
  case (Binary b)
  have "persists (binary_convert_from b)"
    by (cases b) (auto simp: persists_def outcome_simps dest: persistsD [OF persists_symbol])
  then show ?case by (auto intro!: persists_bind persists_const)
qed (auto intro!: persists_bind persists_term persists_symbol persists_traverse persists_const)

lemma persists_scope: "persists (scope_convert_from c)"
  by (cases c) (auto simp: persists_def table_ext_def pk.extends_def outcome_simps)

lemma persists_predicate: "persists (predicate_convert_from p)"
  unfolding predicate_convert_from_def
  by (auto intro!: persists_bind persists_symbol persists_traverse persists_term persists_const)

lemma persists_expression: "persists (expression_convert_from e)"
  unfolding expression_convert_from_def by (auto intro!: persists_bind persists_traverse persists_op persists_const)

lemma persists_fact: "persists (fact_convert_from f)"
  unfolding fact_convert_from_def by (auto intro!: persists_bind persists_predicate persists_const)

lemma persists_rule: "persists (rule_convert_from r)"
  unfolding rule_convert_from_def
  by (auto intro!: persists_bind persists_predicate persists_traverse persists_expression persists_scope persists_const)

lemma persists_check: "persists (check_convert_from c)"
  unfolding check_convert_from_def by (auto intro!: persists_bind persists_traverse persists_rule persists_const)

section \<open>Translating from a larger table\<close>

lemma read_then_write_persists:
  "persists g \<Longrightarrow> table_ext s t \<Longrightarrow> read_then_write (g s) f d = Ok x \<Longrightarrow> read_then_write (g t) f d = Ok x"
  by (auto simp: read_then_write_def outcome_simps dest: persistsD)

lemma otraverse_mono:
  "(\<And>x d y. f x d = Ok y \<Longrightarrow> g x d = Ok y) \<Longrightarrow> otraverse f xs d = Ok y \<Longrightarrow> otraverse g xs d = Ok y"
  by (induction xs arbitrary: d y) (fastforce simp: outcome_simps)+

lemma translate_larger:
  assumes "table_ext s t"
  shows "fact_translate s f d = Ok x1 \<Longrightarrow> fact_translate t f d = Ok x1"
    "check_translate s c d = Ok x2 \<Longrightarrow> check_translate t c d = Ok x2"
    "predicate_translate s p d = Ok x3 \<Longrightarrow> predicate_translate t p d = Ok x3"
    "read_then_write (scope_convert_from sc s) scope_convert d = Ok x4 \<Longrightarrow>
       read_then_write (scope_convert_from sc t) scope_convert d = Ok x4"
    "read_then_write (expression_convert_from e s) expression_convert d = Ok x5 \<Longrightarrow>
       read_then_write (expression_convert_from e t) expression_convert d = Ok x5"
  unfolding fact_translate_def check_translate_def predicate_translate_def
  by (erule read_then_write_persists [OF persists_fact assms] read_then_write_persists [OF persists_check assms]
      read_then_write_persists [OF persists_predicate assms] read_then_write_persists [OF persists_scope assms]
      read_then_write_persists [OF persists_expression assms])+

lemma rule_translate_larger:
  assumes "table_ext s t" "rule_translate s r d = Ok x"
  shows "rule_translate t r d = Ok x"
proof -
  note larger = translate_larger [OF assms(1)]
  from assms(2) obtain h s1 b s2 e s3 sc s4 where
    steps: "predicate_translate s (r_head r) d = Ok (h, s1)" "otraverse (predicate_translate s) (r_body r) s1 = Ok (b, s2)"
    "otraverse (\<lambda>e. read_then_write (expression_convert_from e s) expression_convert) (r_expressions r) s2 = Ok (e, s3)"
    "otraverse (\<lambda>c. read_then_write (scope_convert_from c s) scope_convert) (r_scopes r) s3 = Ok (sc, s4)"
    and x: "x = (\<lparr>r_head = h, r_body = b, r_expressions = e, r_scopes = sc\<rparr>, s4)"
    by (auto simp: rule_translate_def outcome_simps)
  have "predicate_translate t (r_head r) d = Ok (h, s1)" "otraverse (predicate_translate t) (r_body r) s1 = Ok (b, s2)"
    "otraverse (\<lambda>e. read_then_write (expression_convert_from e t) expression_convert) (r_expressions r) s2 = Ok (e, s3)"
    "otraverse (\<lambda>c. read_then_write (scope_convert_from c t) scope_convert) (r_scopes r) s3 = Ok (sc, s4)"
    by (rule larger, rule steps) (rule otraverse_mono [rotated, OF steps(2)] otraverse_mono [rotated, OF steps(3)]
        otraverse_mono [rotated, OF steps(4)], erule larger)+
  then show ?thesis by (simp add: rule_translate_def x)
qed

lemma load_rule_larger:
  "table_ext s t \<Longrightarrow> load_rule fmt s r d = Ok x \<Longrightarrow> load_rule fmt t r d = Ok x"
  by (auto simp: load_rule_def outcome_simps dest: rule_translate_larger split: outcome.splits unit.splits)

lemma load_larger:
  assumes "table_ext s t" "load_and_translate_block fmt b i s keys d w = Ok x"
  shows "load_and_translate_block fmt b i t keys d w = Ok x"
proof -
  let ?s = "block_table b i s" and ?t = "block_table b i t"
  have st: "table_ext ?s ?t \<or> ?s = ?t" using assms(1) by (simp add: block_table_def)
  have larger:
    "read_then_write (scope_convert_from sc ?s) scope_convert d = Ok x1 \<Longrightarrow>
       read_then_write (scope_convert_from sc ?t) scope_convert d = Ok x1"
    "fact_translate ?s f d = Ok x2 \<Longrightarrow> fact_translate ?t f d = Ok x2"
    "load_rule fmt ?s r d = Ok x3 \<Longrightarrow> load_rule fmt ?t r d = Ok x3"
    "check_translate ?s c d = Ok x4 \<Longrightarrow> check_translate ?t c d = Ok x4" for sc f r c d x1 x2 x3 x4
    using st translate_larger load_rule_larger by metis+
  from assms(2) obtain scopes s1 facts s2 rules s3 checks s4 where
    steps: "otraverse (\<lambda>c. read_then_write (scope_convert_from c ?s) scope_convert) (bl_scopes b) d = Ok (scopes, s1)"
    "otraverse (fact_translate ?s) (bl_facts b) s1 = Ok (facts, s2)"
    "otraverse (load_rule fmt ?s) (bl_rules b) s2 = Ok (rules, s3)"
    "otraverse (check_translate ?s) (bl_checks b) s3 = Ok (checks, s4)"
    and x: "x = (b\<lparr>bl_scopes := scopes, bl_facts := facts, bl_rules := rules, bl_checks := checks\<rparr>, s4,
        fold (insert_rule i (from_scopes scopes default_trusted i keys) keys) rules
          (fold (add_fact (block_origin i)) facts w))"
    by (auto simp: load_and_translate_block_def Let_def outcome_simps)
  have
    "otraverse (\<lambda>c. read_then_write (scope_convert_from c ?t) scope_convert) (bl_scopes b) d = Ok (scopes, s1)"
    "otraverse (fact_translate ?t) (bl_facts b) s1 = Ok (facts, s2)"
    "otraverse (load_rule fmt ?t) (bl_rules b) s2 = Ok (rules, s3)"
    "otraverse (check_translate ?t) (bl_checks b) s3 = Ok (checks, s4)"
    by (rule otraverse_mono [rotated, OF steps(1)] otraverse_mono [rotated, OF steps(2)]
        otraverse_mono [rotated, OF steps(3)] otraverse_mono [rotated, OF steps(4)], erule larger)+
  then show ?thesis by (simp add: load_and_translate_block_def Let_def x)
qed

lemma load_blocks_larger:
  assumes "table_ext s t"
  shows "load_blocks fmt i rs s keys d w = Ok x \<Longrightarrow> load_blocks fmt i rs t keys d w = Ok x"
  by (induction rs arbitrary: i d w x) (fastforce simp: outcome_simps dest: load_larger [OF assms])+

lemma load_blocks_snoc:
  "load_blocks fmt i (rs @ [r]) src keys d w =
     obind (load_blocks fmt i rs src keys d w) (\<lambda>(bs, s', w').
     obind r (\<lambda>b.
     obind (load_and_translate_block fmt b (i + length rs) src keys s' w') (\<lambda>(b', s'', w'').
       Ok (bs @ [b'], s'', w''))))"
  by (induction rs arbitrary: i d w) (simp_all add: obind_assoc case_prod_beta')

section \<open>One more block\<close>

lemma external_keys_snoc:
  "sb_external_signature b = None \<Longrightarrow> external_keys_loop i (bs @ [b]) s keys = external_keys_loop i bs s keys"
  by (induction i bs s keys rule: external_keys_loop.induct) (auto split: option.splits prod.splits)

lemma own_elements_unique:
  "own_elements bb s scopes facts rules \<Longrightarrow> own_elements bb s scopes' facts' rules' \<Longrightarrow>
     scopes' = scopes \<and> facts' = facts \<and> rules' = rules"
  by (simp add: own_elements_def)

lemma external_keys_below:
  assumes "external_keys_loop 0 bs st_new (\<lambda>_. None) = (s, keys)"
  shows "keys_avoid (length bs + 1) keys"
  unfolding keys_avoid_def
proof (intro allI impI)
  fix k "is" assume k: "keys k = Some is"
  note ks = external_keys_entries [OF assms table_wf_new]
  from ks k obtain key where "pk_get_key (st_public_keys s) k = Some key" by auto
  with ks have "key_entry keys k = key_entry (\<lambda>_. None) k @ signed_by key 0 bs" by blast
  with k have "is = signed_by key 0 bs" by (simp add: key_entry_def)
  then show "length bs + 1 \<notin> set is" by (simp add: signed_by_iff)
qed

lemma attenuated_builds:
  assumes "consistent p c t" "append_with_keypair p c t kp bb = Ok u" "block_count t < usize_max"
    and "ab_build fmt p t ab = Ok a" "ab_build fmt p u ab = Ok b" "au_symbols b = au_symbols a"
  shows "attenuated (block_count t) a b \<and> block_added (block_count t) (au_world a) (au_world b)"
proof -
  let ?n = "block_count t" and ?w0 = "world_new\<lparr>w_externs := ab_externs ab\<rparr>"
  have wf: "table_wf (bi_symbols t)" and len: "length (bi_blocks t) = length (se_blocks (bi_container t))"
    using assms(1) consistent_lengths by (simp_all add: consistent_def)
  from append_shape [OF wf assms(2)] obtain s  container message final where
    ext: "table_ext (bi_symbols t) s" and final: "sb_external_signature final = None"
    and blocks: "se_blocks container = se_blocks (bi_container t) @ [final]"
      "se_authority container = se_authority (bi_container t)"
    and u: "u = \<lparr>bi_root_key_id = bi_root_key_id t, bi_authority = bi_authority t,
        bi_blocks = bi_blocks t @ [message], bi_symbols = s, bi_container = container\<rparr>"
    by blast
  have results: "biscuit_block_results p u = biscuit_block_results p t @ [read_block p message final]"
    and n: "length (biscuit_block_results p t) = ?n" "?n = length (se_blocks (bi_container t)) + 1"
    using len by (simp_all add: biscuit_block_results_def u blocks block_count_def)
  from build_parts [OF assms(4)] obtain d keys bs s1 w1 s2 w2 where
    ek: "external_keys_loop 0 (se_blocks (bi_container t)) st_new (\<lambda>_. None) = (d, keys)"
    and load: "load_blocks fmt 0 (biscuit_block_results p t) (bi_symbols t) keys d ?w0 = Ok (bs, s1, w1)"
    and own: "load_authorizer (ab_block ab) keys s1 w1 = Some (s2, w2)"
    and a: "au_block a = ab_block ab" "au_world a = w2" "au_symbols a = s2" "au_policies a = ab_policies ab"
      "au_blocks a = Some bs" "au_key_blocks a = keys"
    by auto
  from build_parts [OF assms(5)] obtain bs' s1' w1' s2' w2' where
    load': "load_blocks fmt 0 (biscuit_block_results p u) s keys d ?w0 = Ok (bs', s1', w1')"
    and own': "load_authorizer (ab_block ab) keys s1' w1' = Some (s2', w2')"
    and b: "au_block b = ab_block ab" "au_world b = w2'" "au_symbols b = s2'" "au_policies b = ab_policies ab"
      "au_blocks b = Some bs'" "au_key_blocks b = keys"
    using ek external_keys_snoc [OF final, of 0 "se_blocks (bi_container t)" st_new "\<lambda>_. None"]
    by (auto simp: u blocks)
  from load' load_blocks_larger [OF ext load] obtain x y where
    new: "load_and_translate_block fmt x ?n s keys s1 w1 = Ok (y, s1', w1')" and bs': "bs' = bs @ [y]"
    unfolding results load_blocks_snoc n(1) by (auto simp: outcome_simps n(1))
  have wfd: "table_wf d" using external_keys_entries [OF ek table_wf_new] table_ext_wf by blast
  note lb = load_blocks_contributions [OF load wfd]
  have wf1: "table_wf s1" using lb table_ext_wf by blast
  have wf1': "table_wf s1'" using load_translates(1) [OF new wf1] table_ext_wf by blast
  from load_authorizer_own [OF own wf1] obtain scopes facts rules where
    el: "own_elements (ab_block ab) s2 scopes facts rules" and c: "contributes usize_max keys scopes facts rules w1 w2"
    by blast
  from load_authorizer_own [OF own' wf1'] obtain scopes' facts' rules' where
    el': "own_elements (ab_block ab) s2' scopes' facts' rules'"
    and c': "contributes usize_max keys scopes' facts' rules' w1' w2'"
    by blast
  have "s2' = s2" using assms(6) a b by simp
  with own_elements_unique [OF el] el' c' have c': "contributes usize_max keys scopes facts rules w1' w2'" by blast
  have "block_added ?n w2 w2'"
    by (rule contributes_both [OF contributes_added [OF load_contributes [OF new]] c c'])
  moreover have "length bs = ?n" using lb n(1) table_ext_refl [OF wf1] unfolding loaded_def by simp
  moreover have "keys_avoid ?n keys" using external_keys_below [OF ek] n(2) by simp
  ultimately show ?thesis
    using a b \<open>s2' = s2\<close> assms(3) by (simp add: attenuated_def bs' block_count_def)
qed

section \<open>Properties\<close>

text \<open>
  C6: Attenuation cannot grant when it brings no symbol.  A token is attenuated with one more
  first-party block
  whose loading leaves the authorizer's table as it was.  If the authorizer built for the token
  refuses it, by its checks or its policies, the authorizer built for the attenuated token does
  not grant it, whatever the block says and whatever the limits and the clocks.
\<close>

theorem attenuation_cannot_grant:
  assumes "consistent p c t" "append_with_keypair p c t kp bb = Ok u" "block_count t < usize_max"
    and "ab_build fmt p t ab = Ok a" "ab_build fmt p u ab = Ok b" "au_symbols b = au_symbols a"
    and "fst (authorize fmt rx oc ti a) = Err (FailedLogic l)"
  shows "fst (authorize fmt rx oc' ti' b) \<noteq> Ok i"
proof (rule attenuated_not_granted)
  show "attenuated (block_count t) a b" "block_added (block_count t) (au_world a) (au_world b)"
    using attenuated_builds [OF assms(1-6)] by blast+
  show "wf_facts (w_facts (au_world a))" "au_execution_time a = None"
    using build_holds [OF assms(4)] by (auto simp: holds_token_def)
  show "wf_facts (w_facts (au_world b))" "au_execution_time b = None"
    using build_holds [OF assms(5)] by (auto simp: holds_token_def)
qed (rule assms(7))

text \<open>
  The empty token, attenuated with the fact \<open>read({1, 2})\<close>, before the policy \<open>allow if read($user)\<close>.
\<close>

definition sample_codec :: codec where
  "sample_codec =
     \<lparr>encode_block = (\<lambda>x. if x = token_block_to_proto_block sample_built then Ok [6] else Err []),
      decode_block = (\<lambda>bs. Ok (if bs = [5] then empty_message else token_block_to_proto_block sample_built)),
      encode_biscuit = (\<lambda>_. Err []), decode_biscuit = (\<lambda>_. Err [])\<rparr>"

lemma sample_consistent: "consistent demo sample_codec demo_biscuit"
proof -
  have "extend_tables demo empty_message st_new = Ok st_new"
    by (simp add: extend_tables_def empty_message_def token_block_to_proto_block_def empty_block_def st_new_def pk_new_def
        st_from_def st_extend_def st_is_disjoint_def pk_extend_def pk_is_disjoint_def)
  then show ?thesis
    by (simp add: consistent_def from_serialized_container_def extract_blocks_def demo_biscuit_def demo_container_def
        sample_codec_def default_symbol_table_def table_wf_new)
qed

lemma sample_attenuated:
  "\<exists>final container. append_with_keypair demo sample_codec demo_biscuit (demo_pair 2) sample_builder =
     Ok (demo_biscuit\<lparr>bi_blocks := [token_block_to_proto_block sample_built], bi_container := container\<rparr>) \<and>
   se_blocks container = [final] \<and> sb_external_signature final = None \<and>
   se_authority container = se_authority demo_container"
proof -
  have signs: "always_signs demo (demo_pair 1)" by (simp add: always_signs_def demo_signs)
  have kp: "token_next_keypair (se_proof demo_container) = Ok (demo_pair 1)" by (simp add: demo_container_def)
  have enc: "encode_token_block sample_codec sample_built = Ok [6]"
    by (simp add: encode_token_block_def sample_codec_def)
  have version: "block_signature_version (demo_pair 1) (demo_pair 2) None (Some (bl_version sample_built))
      (map sb_version (se_blocks demo_container) @ [sb_version (se_authority demo_container)]) = 0"
    by (simp add: block_signature_version_def sample_built_def empty_block_def demo_container_def demo_both version_numbers)
  from push_block_total [OF signs, of 0] obtain container where
    push: "push_block demo demo_container (demo_pair 1) (demo_pair 2) [6] None 0 = Ok container" by blast
  have app: "container_append demo sample_codec demo_container (demo_pair 2) sample_built None = Ok container"
    by (simp add: container_append_def kp enc version push)
  have "join_tables st_new sample_built = Ok st_new" "st_is_disjoint st_new (bl_symbols sample_built)"
    by (simp_all add: join_tables_def st_extend_def pk_extend_def pk_is_disjoint_def st_is_disjoint_def
        sample_built_def empty_block_def st_new_def pk_new_def)
  moreover from push_block_pushed [OF push] obtain final where final: "pushed demo_container [6] None final container"
    by blast
  then have blocks: "se_blocks container = [final]" "sb_external_signature final = None" "last_block container = final"
    "se_authority container = se_authority demo_container" "sb_data final = [6]"
    by (auto simp: pushed_def demo_container_def last_block_def)
  then have "decode_signed sample_codec (last_block container) = Ok (token_block_to_proto_block sample_built)"
    by (simp add: decode_signed_def sample_codec_def)
  ultimately have "append_with_keypair demo sample_codec demo_biscuit (demo_pair 2) sample_builder =
      Ok (demo_biscuit\<lparr>bi_blocks := [token_block_to_proto_block sample_built], bi_container := container\<rparr>)"
    by (auto simp: append_with_keypair_def demo_biscuit_def sample_build app join_tables_def outcome_simps)
  with blocks show ?thesis by blast
qed

lemma attenuation_cannot_grant_witness:
  "\<exists>u b. append_with_keypair demo sample_codec demo_biscuit (demo_pair 2) sample_builder = Ok u \<and>
     ab_build demo_formats demo u (plain_builder [sample_allow]) = Ok b \<and>
     fst (authorize demo_formats (\<lambda>_. None) True demo_timing b) \<noteq> Ok 0"
proof -
  from sample_attenuated obtain final container where
    u: "append_with_keypair demo sample_codec demo_biscuit (demo_pair 2) sample_builder =
      Ok (demo_biscuit\<lparr>bi_blocks := [token_block_to_proto_block sample_built], bi_container := container\<rparr>)"
    and c: "se_blocks container = [final]" "sb_external_signature final = None"
      "se_authority container = se_authority demo_container" by blast
  let ?u = "demo_biscuit\<lparr>bi_blocks := [token_block_to_proto_block sample_built], bi_container := container\<rparr>"
  have "biscuit_block_results demo ?u = [Ok empty_block, Ok sample_loaded]" "bi_symbols ?u = st_new"
    using c by (simp_all add: demo_biscuit_def demo_container_def biscuit_block_results_def read_block_def
        block_key_def empty_block_reads sample_reads)
  then have b: "ab_build demo_formats demo ?u (plain_builder [sample_allow]) =
      Ok (plain_authorizer [sample_allow] [empty_block, sample_loaded] st_new (sample_world 1))"
    using c sample_loads [of _ 1, unfolded One_nat_def]
    by (intro plain_built) (simp_all add: empty_block_loads block_count_def)
  have po: "sample_allow = \<lparr>po_queries = [hd (po_queries sample_allow)], po_kind = Allow\<rparr>"
    by (simp add: sample_allow_def)
  have refused: "fst (authorize demo_formats (\<lambda>_. None) True demo_timing
      (plain_authorizer [sample_allow] [empty_block] st_new world_new)) = Err (FailedLogic (NoMatchingPolicy []))"
    by (subst plain_judged [OF _ _ _ _ po sample_query_convert, where v = False])
      (simp_all add: world_new_def empty_block_def sample_query_empty)
  have "block_count demo_biscuit < usize_max" by (simp add: block_count_def demo_biscuit_def)
  from attenuation_cannot_grant [OF sample_consistent u this demo_built b _ refused] u b show ?thesis
    by (auto simp: plain_parts)
qed

end
