(* ===== verification/Symbol_Order.thy ===== *)
theory Symbol_Order
  imports Samples
begin

text \<open>
  The numbers of symbols show: a set of strings is ordered by their numbers, \<open>any\<close> stops at the
  first element that satisfies its closure, and \<open>try_or\<close> recovers from the error of an element.
  A block that states a string earlier than the authorizer does changes the order of a set of the
  authorizer, and so can turn a refusal into a grant.
\<close>

section \<open>A policy that depends on the order\<close>

definition order_policy :: policy where
  "order_policy =
     \<lparr>po_queries =
        [rule_new (make_pred ''query'' []) []
           [\<lparr>be_ops =
               [BClosure []
                  [BValue (BSet [BStr ''a'', BStr ''b'']),
                   BClosure [''user'']
                     [BValue (BVariable ''user''), BValue (BStr ''b''), BBinary BEqual,
                      BClosure [] [BValue (BInteger 1)], BBinary BLazyOr],
                   BBinary BAny_op],
                BValue (BBool False), BBinary BTryOr]\<rparr>] []],
      po_kind = Allow\<rparr>"

definition order_rule :: "nat \<Rightarrow> rule" where
  "order_rule i =
     \<lparr>r_head = \<lparr>p_name = 27, p_terms = []\<rparr>, r_body = [],
      r_expressions =
        [\<lparr>e_ops =
            [Closure []
               [Value (Set [Str 1024, Str 1025]),
                Closure [10]
                  [Value (Variable 10), Value (Str i), Binary Equal, Closure [] [Value (Integer 1)], Binary LazyOr],
                Binary Any_op],
             Value (Bool False), Binary TryOr]\<rparr>],
      r_scopes = []\<rparr>"

text \<open>The table of the authorizer after a block that states \<open>b(true)\<close>.\<close>

definition order_table :: symbol_table where
  "order_table = st_new\<lparr>st_symbols := [''b'']\<rparr>"

lemma insert_a_b:
  "st_insert ''a'' st_new = (1024, st_new\<lparr>st_symbols := [''a'']\<rparr>)"
  "st_insert ''b'' (st_new\<lparr>st_symbols := [''a'']\<rparr>) = (1025, st_new\<lparr>st_symbols := [''a'', ''b'']\<rparr>)"
  "st_insert ''b'' (st_new\<lparr>st_symbols := [''a'', ''b'']\<rparr>) = (1025, st_new\<lparr>st_symbols := [''a'', ''b'']\<rparr>)"
  "st_insert ''a'' order_table = (1025, st_new\<lparr>st_symbols := [''b'', ''a'']\<rparr>)"
  "st_insert ''b'' (st_new\<lparr>st_symbols := [''b'', ''a'']\<rparr>) = (1024, st_new\<lparr>st_symbols := [''b'', ''a'']\<rparr>)"
  "st_insert ''user'' s = (10, s)" "st_insert ''query'' s = (27, s)"
  by (simp_all add: st_insert_def default_symbols_def st_new_def order_table_def symbol_offset_def)

lemma order_policy_converts:
  "rule_convert (hd (po_queries order_policy)) st_new =
     Some (order_rule 1025, st_new\<lparr>st_symbols := [''a'', ''b'']\<rparr>)"
  "rule_convert (hd (po_queries order_policy)) order_table =
     Some (order_rule 1024, st_new\<lparr>st_symbols := [''b'', ''a'']\<rparr>)"
  by (simp_all add: order_policy_def order_rule_def rule_convert_def rule_new_def make_pred_def plain_rule_convert_def
      rule_apply_parameters_def predicate_convert_def predicate_apply_def expression_convert_def term_convert_def
      insert_a_b insert_u32_def as_u32_def bt_of_list_def)

text \<open>The closure of \<open>any\<close>: it is true on \<open>b\<close>, and its result is not a boolean on anything else.\<close>

definition order_body :: "nat \<Rightarrow> op list" where
  "order_body i = [Value (Variable 10), Value (Str i), Binary Equal, Closure [] [Value (Integer 1)], Binary LazyOr]"

lemma order_body_evaluates:
  "eval_ops rx externs (order_body i) [] (Map.empty(10 \<mapsto> Str k)) s =
     (if k = i then (Ok (Bool True), s) else (Ok (Integer 1), s))"
  by (simp add: order_body_def and_push_def shadows_def evaluate_with_closure_def strict_equality_def pure_result_def)

lemma order_any:
  "closure_loop (eval_ops rx externs (order_body i) []) False 10 [Str 1024, Str 1025] Map.empty s =
     (if i = 1024 then (Ok (Bool True), s) else (Err InvalidType, s))"
  by (simp add: order_body_evaluates)

lemma order_expression:
  "expr_evaluate rx externs (hd (r_expressions (order_rule i))) Map.empty s = (Ok (Bool (i = 1024)), s)"
proof -
  have "eval_ops rx externs [Value (Set [Str 1024, Str 1025]), Closure [10] (order_body i), Binary Any_op] [] Map.empty s =
      (if i = 1024 then (Ok (Bool True), s) else (Err InvalidType, s))"
    using order_any [of rx externs i s]
    by (simp add: and_push_def shadows_def evaluate_with_closure_def collection_loop_def)
  then show ?thesis
    by (simp add: expr_evaluate_def order_rule_def order_body_def [symmetric] and_push_def shadows_def
        evaluate_with_closure_def)
qed

lemma order_rule_evaluates:
  "find_match rx externs symbols (order_rule i) facts og scope = Ok (i = 1024)"
proof -
  obtain e where e: "r_expressions (order_rule i) = [e]" by (simp add: order_rule_def)
  have "check_expressions rx externs (r_expressions (order_rule i)) Map.empty (tmp_new symbols) = Ok (i = 1024)"
    using order_expression [of rx externs i "tmp_new symbols"] unfolding e by (auto split: bool.splits)
  moreover have "r_body (order_rule i) = []" "r_head (order_rule i) = \<lparr>p_name = 27, p_terms = []\<rparr>"
    by (simp_all add: order_rule_def)
  ultimately show ?thesis
    by (cases "i = 1024") (simp_all add: find_match_def solve_defs)
qed

section \<open>The token and its attenuation\<close>

text \<open>An empty token, and a block that states \<open>b(true)\<close>.\<close>

definition order_fact :: bfact where
  "order_fact = \<lparr>bf_predicate = make_pred ''b'' [BBool True], bf_parameters = None\<rparr>"

definition order_builder :: block_builder where
  "order_builder = bb_new\<lparr>bb_facts := [order_fact]\<rparr>"

definition order_block :: block where
  "order_block =
     empty_block\<lparr>bl_symbols := order_table, bl_facts := [\<lparr>f_predicate = \<lparr>p_name = 1024, p_terms = [Bool True]\<rparr>\<rparr>]\<rparr>"

definition order_message :: pblock where
  "order_message = token_block_to_proto_block order_block"

definition order_codec :: codec where
  "order_codec =
     \<lparr>encode_block = (\<lambda>x. if x = order_message then Ok [6] else Err []), decode_block = (\<lambda>_. Ok order_message),
      encode_biscuit = (\<lambda>_. Err []), decode_biscuit = (\<lambda>_. Err [])\<rparr>"

lemma order_fact_converts:
  "fact_convert order_fact st_new = Some (\<lparr>f_predicate = \<lparr>p_name = 1024, p_terms = [Bool True]\<rparr>\<rparr>, order_table)"
  by (simp add: order_fact_def make_pred_def fact_convert_def fact_apply_parameters_def
      predicate_convert_def term_convert_def st_insert_def default_symbols_def order_table_def st_new_def symbol_offset_def)

lemma order_built: "bb_build order_builder st_new = Some order_block"
proof -
  have "bb_elements order_builder st_new = Some ((bl_facts order_block, [], [], []), order_table)"
    by (simp add: bb_elements_def order_builder_def bb_new_def order_fact_converts order_block_def)
  then show ?thesis
    by (simp add: bb_build_def st_split_at_def pk_split_at_def st_current_offset_def pk_current_offset_def
        st_new_def pk_new_def order_block_def empty_block_def order_builder_def bb_new_def order_table_def
        get_schema_version_def schema_version_number_def contains_v3_3_predicate_def Let_def)
qed

lemma order_appended:
  "\<exists>final container. append_with_keypair demo order_codec demo_biscuit (demo_pair 2) order_builder =
     Ok (demo_biscuit\<lparr>bi_blocks := [order_message], bi_symbols := order_table, bi_container := container\<rparr>) \<and>
   se_blocks container = [final] \<and> sb_external_signature final = None \<and>
   se_authority container = se_authority demo_container"
proof -
  have signs: "always_signs demo (demo_pair 1)" by (simp add: always_signs_def demo_signs)
  have kp: "token_next_keypair (se_proof demo_container) = Ok (demo_pair 1)" by (simp add: demo_container_def)
  have enc: "encode_token_block order_codec order_block = Ok [6]"
    by (simp add: encode_token_block_def order_codec_def order_message_def)
  have version: "block_signature_version (demo_pair 1) (demo_pair 2) None (Some (bl_version order_block))
      (map sb_version (se_blocks demo_container) @ [sb_version (se_authority demo_container)]) = 0"
    by (simp add: block_signature_version_def order_block_def empty_block_def demo_container_def demo_both version_numbers)
  from push_block_total [OF signs, of 0] obtain container where
    push: "push_block demo demo_container (demo_pair 1) (demo_pair 2) [6] None 0 = Ok container" by blast
  from push_block_pushed [OF push] obtain final where final: "pushed demo_container [6] None final container" by blast
  then have blocks: "se_blocks container = [final]" "sb_external_signature final = None" "last_block container = final"
    "se_authority container = se_authority demo_container"
    by (auto simp: pushed_def demo_container_def last_block_def)
  have app: "container_append demo order_codec demo_container (demo_pair 2) order_block None = Ok container"
    by (simp add: container_append_def kp enc version push)
  have tables: "st_is_disjoint st_new (bl_symbols order_block)" "st_extend st_new (bl_symbols order_block) = Ok order_table"
    "pk_extend (st_public_keys order_table) (bl_public_keys order_block) = Ok pk_new"
    "order_table\<lparr>st_public_keys := pk_new\<rparr> = order_table"
    by (simp_all add: st_is_disjoint_def st_extend_def pk_extend_def pk_is_disjoint_def order_block_def empty_block_def
        order_table_def st_new_def pk_new_def)
  have dec: "decode_signed order_codec final = Ok order_message" by (simp add: decode_signed_def order_codec_def)
  have "append_with_keypair demo order_codec demo_biscuit (demo_pair 2) order_builder =
      Ok (demo_biscuit\<lparr>bi_blocks := [order_message], bi_symbols := order_table, bi_container := container\<rparr>)"
    by (simp add: append_with_keypair_def demo_biscuit_def order_built app tables dec blocks)
  with blocks show ?thesis by blast
qed

section \<open>The two authorizers\<close>

definition order_world :: world where
  "order_world = world_new\<lparr>w_facts := [({|1|}, bl_facts order_block)]\<rparr>"

lemma order_block_reads: "proto_block_to_token_block demo order_message None = Ok order_block"
proof -
  have "wire_contents order_block" "wire_tables demo order_block" "block_version order_block \<le> bl_version order_block"
    "bl_version order_block \<le> MAX_SCHEMA_VERSION"
    by (simp_all add: wire_contents_def wire_tables_def order_block_def empty_block_def pk_new_def st_new_def
        block_version_def schema_version_number_def get_schema_version_def version_numbers order_table_def
        default_symbols_def wire_predicate_def contains_v3_3_predicate_def)
  from block_write_read [OF this, of None] show ?thesis
    by (simp add: order_message_def order_block_def empty_block_def order_table_def st_new_def)
qed

lemma order_block_loads:
  "load_and_translate_block fmt order_block 1 order_table keys st_new world_new = Ok (order_block, order_table, order_world)"
proof -
  have parts: "bl_facts order_block = [\<lparr>f_predicate = \<lparr>p_name = 1024, p_terms = [Bool True]\<rparr>\<rparr>]"
    "bl_rules order_block = []" "bl_checks order_block = []" "bl_scopes order_block = []" "bl_external_key order_block = None"
    by (simp_all add: order_block_def empty_block_def)
  have "fact_convert_from \<lparr>f_predicate = \<lparr>p_name = 1024, p_terms = [Bool True]\<rparr>\<rparr> order_table = Ok order_fact"
    by (simp add: fact_convert_from_def predicate_convert_from_def term_convert_from_def print_symbol_def
        get_symbol_def order_table_def symbol_offset_def nth_opt_def outcome_simps order_fact_def make_pred_def)
  then have fact: "otraverse (fact_translate order_table) (bl_facts order_block) st_new = Ok (bl_facts order_block, order_table)"
    by (simp add: parts fact_translate_def read_then_write_def order_fact_converts)
  have add: "fold (add_fact (block_origin 1)) (bl_facts order_block) world_new = order_world"
    by (simp add: order_world_def parts add_fact_def world_new_def block_origin_def origin_insert_def)
  have same: "order_block\<lparr>bl_scopes := [], bl_facts := bl_facts order_block, bl_rules := [], bl_checks := []\<rparr> = order_block"
    by (simp add: order_block_def empty_block_def)
  show ?thesis
    using fact add same by (simp add: load_and_translate_block_def block_table_def parts(2-) Let_def)
qed

lemma order_second_built:
  assumes "se_blocks container = [final]" "sb_external_signature final = None"
    and "se_authority container = se_authority demo_container"
  shows "ab_build fmt demo
      (demo_biscuit\<lparr>bi_blocks := [order_message], bi_symbols := order_table, bi_container := container\<rparr>)
      (plain_builder ps) =
    Ok (plain_authorizer ps [empty_block, order_block] order_table order_world)"
proof -
  let ?t = "demo_biscuit\<lparr>bi_blocks := [order_message], bi_symbols := order_table, bi_container := container\<rparr>"
  have "biscuit_block_results demo ?t = [Ok empty_block, Ok order_block]"
    using assms by (simp add: demo_biscuit_def demo_container_def biscuit_block_results_def read_block_def
        block_key_def empty_block_reads order_block_reads)
  then show ?thesis
    using assms order_block_loads [unfolded One_nat_def]
    by (intro plain_built) (simp_all add: empty_block_loads block_count_def)
qed

lemma order_policy_shape: "order_policy = \<lparr>po_queries = [hd (po_queries order_policy)], po_kind = Allow\<rparr>"
  by (simp add: order_policy_def)

section \<open>Properties\<close>

text \<open>
  C7: Attenuation can grant.  There is a token, a block that a holder appends to it, and an
  authorizer such that the authorizer refuses the token and grants the attenuated one, although
  its policy trusts nothing of the block: the block changes the numbers of the symbols, so the
  order of a set in the policy, so the element on which \<open>any\<close> stops.
\<close>

theorem attenuation_can_grant:
  "\<exists>t' a b.
     append_with_keypair demo order_codec demo_biscuit (demo_pair 2) order_builder = Ok t' \<and>
     ab_build demo_formats demo demo_biscuit (plain_builder [order_policy]) = Ok a \<and>
     ab_build demo_formats demo t' (plain_builder [order_policy]) = Ok b \<and>
     fst (authorize demo_formats rx oc demo_timing a) = Err (FailedLogic (NoMatchingPolicy [])) \<and>
     fst (authorize demo_formats rx oc demo_timing b) = Ok 0"
proof -
  from order_appended obtain final container where
    t': "append_with_keypair demo order_codec demo_biscuit (demo_pair 2) order_builder =
      Ok (demo_biscuit\<lparr>bi_blocks := [order_message], bi_symbols := order_table, bi_container := container\<rparr>)"
    and c: "se_blocks container = [final]" "sb_external_signature final = None"
      "se_authority container = se_authority demo_container"
    by blast
  have "fst (authorize demo_formats rx oc demo_timing (plain_authorizer [order_policy] [empty_block] st_new world_new)) =
      Err (FailedLogic (NoMatchingPolicy []))"
    by (subst plain_judged [OF _ _ _ _ order_policy_shape order_policy_converts(1) order_rule_evaluates])
      (simp_all add: world_new_def empty_block_def)
  moreover have "fst (authorize demo_formats rx oc demo_timing
      (plain_authorizer [order_policy] [empty_block, order_block] order_table order_world)) = Ok 0"
    by (subst plain_judged [OF _ _ _ _ order_policy_shape order_policy_converts(2) order_rule_evaluates])
      (simp_all add: order_world_def world_new_def empty_block_def order_block_def)
  ultimately show ?thesis using t' demo_built order_second_built [OF c] by blast
qed

end
