(* ===== verification/Snapshot.thy ===== *)
theory Snapshot
  imports Authorizer
begin

text \<open>
  Saving an authorizer and restoring it: \<open>token/authorizer/snapshot.rs\<close>, the snapshots of
  \<open>token/builder/authorizer.rs\<close>, and the saved policies of \<open>token/authorizer.rs\<close>.  The protobuf
  encodings are the functions of \<open>authorizer_codec\<close>; the two base64 entry points are not modelled.
\<close>

section \<open>Origins\<close>

definition authorizer_origin_to_proto_origin :: "origin \<Rightarrow> porigin list" where
  "authorizer_origin_to_proto_origin og =
     map (\<lambda>o'. if o' = usize_max then Origin_Authorizer else Origin_Block (as_u32 o'))
       (sorted_list_of_fset og)"

fun proto_origin_loop :: "porigin list \<Rightarrow> origin \<Rightarrow> (format_error, origin) outcome" where
  "proto_origin_loop [] og = Ok og"
| "proto_origin_loop (Origin_Authorizer # os) og = proto_origin_loop os (origin_insert usize_max og)"
| "proto_origin_loop (Origin_Block i # os) og = proto_origin_loop os (origin_insert i og)"
| "proto_origin_loop (Origin_Empty # os) og = Err (deserialization_error ''invalid origin'')"

definition proto_origin_to_authorizer_origin :: "porigin list \<Rightarrow> (format_error, origin) outcome" where
  "proto_origin_to_authorizer_origin os = proto_origin_loop os {||}"

section \<open>Taking a snapshot\<close>

text \<open>What the snapshots of a builder and of an authorizer have in common: the policies, the block.\<close>

definition snapshot_own ::
    "policy list \<Rightarrow> block_builder \<Rightarrow>
     (format_error, ppolicy list \<times> psnapshot_block \<times> symbol_table) outcome" where
  "snapshot_own policies bb =
     obind (or_panic (smap policy_to_proto_policy policies default_symbol_table)) (\<lambda>(ps, symbols).
     obind (or_panic (bb_build bb symbols)) (\<lambda>b.
     obind (st_extend symbols (bl_symbols b)) (\<lambda>symbols1.
     obind (pk_extend (st_public_keys symbols1) (bl_public_keys b)) (\<lambda>keys.
       Ok (ps, token_block_to_proto_snapshot_block b, symbols1\<lparr>st_public_keys := keys\<rparr>)))))"

definition snapshot_limits :: "run_limits \<Rightarrow> prun_limits" where
  "snapshot_limits l =
     \<lparr>prl_max_facts = max_facts l, prl_max_iterations = max_iterations l,
      prl_max_time = max_time l mod 2 ^ 64\<rparr>"

definition snapshot_block ::
    "symbol_table \<Rightarrow> block \<Rightarrow> symbol_table \<Rightarrow> (format_error, psnapshot_block \<times> symbol_table) outcome" where
  "snapshot_block src b dst =
     obind (block_translate src b dst) (\<lambda>(b', dst'). Ok (token_block_to_proto_snapshot_block b', dst'))"

definition snapshot_generated ::
    "symbol_table \<Rightarrow> origin \<times> fact list \<Rightarrow> symbol_table \<Rightarrow>
     (format_error, pgenerated_facts \<times> symbol_table) outcome" where
  "snapshot_generated src x dst =
     obind (otraverse (fact_translate src) (snd x) dst) (\<lambda>(facts, dst').
       Ok (\<lparr>pgf_origins = authorizer_origin_to_proto_origin (fst x),
            pgf_facts = map token_fact_to_proto_fact facts\<rparr>, dst'))"

definition authorizer_snapshot :: "authorizer \<Rightarrow> (format_error, pauthorizer_snapshot) outcome" where
  "authorizer_snapshot a =
     obind (snapshot_own (au_policies a) (au_block a)) (\<lambda>(policies, own, s1).
     obind (otraverse (snapshot_block (au_symbols a))
         (case au_blocks a of None \<Rightarrow> [] | Some bs \<Rightarrow> bs) s1) (\<lambda>(blocks, s2).
     obind (otraverse (snapshot_generated (au_symbols a)) (w_facts (au_world a)) s2) (\<lambda>(generated, s3).
       Ok \<lparr>pas_limits = snapshot_limits (au_limits a),
           pas_execution_time = (case au_execution_time a of None \<Rightarrow> 0 | Some t \<Rightarrow> t mod 2 ^ 64),
           pas_world =
             \<lparr>paw_version = Some MAX_SCHEMA_VERSION,
              paw_symbols = st_symbols s3,
              paw_public_keys = map public_to_proto (pk_keys (st_public_keys s3)),
              paw_blocks = blocks,
              paw_authorizer_block = own,
              paw_authorizer_policies = policies,
              paw_generated_facts = generated,
              paw_iterations = w_iterations (au_world a)\<rparr>\<rparr>)))"

definition ab_snapshot :: "authorizer_builder \<Rightarrow> (format_error, pauthorizer_snapshot) outcome" where
  "ab_snapshot a =
     obind (snapshot_own (ab_policies a) (ab_block a)) (\<lambda>(policies, own, symbols).
       Ok \<lparr>pas_limits = snapshot_limits (ab_limits a),
           pas_execution_time = 0,
           pas_world =
             \<lparr>paw_version = Some MAX_SCHEMA_VERSION,
              paw_symbols = st_symbols symbols,
              paw_public_keys = map public_to_proto (pk_keys (st_public_keys symbols)),
              paw_blocks = [],
              paw_authorizer_block = own,
              paw_authorizer_policies = policies,
              paw_generated_facts = [],
              paw_iterations = 0\<rparr>\<rparr>)"

section \<open>Restoring a snapshot\<close>

definition restore_limits :: "prun_limits \<Rightarrow> run_limits" where
  "restore_limits l =
     \<lparr>max_facts = prl_max_facts l, max_iterations = prl_max_iterations l, max_time = prl_max_time l\<rparr>"

fun restore_symbols :: "string list \<Rightarrow> symbol_table \<Rightarrow> symbol_table" where
  "restore_symbols [] symbols = symbols"
| "restore_symbols (s # ss) symbols = restore_symbols ss (snd (st_insert s symbols))"

fun restore_keys :: "primitives \<Rightarrow> ppublic_key list \<Rightarrow> symbol_table \<Rightarrow> (format_error, symbol_table) outcome" where
  "restore_keys p [] symbols = Ok symbols"
| "restore_keys p (k # ks) symbols =
     obind (public_from_proto p k) (\<lambda>key.
       restore_keys p ks (symbols\<lparr>st_public_keys := snd (pk_insert key (st_public_keys symbols))\<rparr>))"

text \<open>The table, the authorizer's block and its policies.\<close>

definition restore_own ::
    "primitives \<Rightarrow> pauthorizer_world \<Rightarrow> nat \<Rightarrow>
     (token_error, symbol_table \<times> block_builder \<times> policy list) outcome" where
  "restore_own p world version =
     obind (omap_err Token_Format (restore_keys p (paw_public_keys world)
         (restore_symbols (paw_symbols world) default_symbol_table))) (\<lambda>symbols.
     obind (omap_err Token_Format (proto_snapshot_block_to_token_block p (paw_authorizer_block world))) (\<lambda>b.
     obind (omap_err Token_Format (bb_convert_from b symbols)) (\<lambda>bb.
     obind (omap_err Token_Format (traverse (\<lambda>po. proto_policy_to_policy po symbols version)
         (paw_authorizer_policies world))) (\<lambda>policies.
       Ok (symbols, bb, policies)))))"

text \<open>
  The blocks are loaded one after the other, so a block is loaded with the keys of the third-party
  blocks up to itself only; a third-party block is read with the table of the converted block.
\<close>

definition note_external_key :: "nat \<Rightarrow> block \<Rightarrow> symbol_table \<Rightarrow> key_blocks \<Rightarrow> symbol_table \<times> key_blocks" where
  "note_external_key i b symbols keys =
     (case bl_external_key b of
        None \<Rightarrow> (symbols, keys)
      | Some key \<Rightarrow>
          (case pk_insert key (st_public_keys symbols) of
             (new_key_id, pks) \<Rightarrow> (symbols\<lparr>st_public_keys := pks\<rparr>, push_entry new_key_id i keys)))"

fun restore_blocks ::
    "formats \<Rightarrow> primitives \<Rightarrow> nat \<Rightarrow> psnapshot_block list \<Rightarrow> symbol_table \<Rightarrow> key_blocks \<Rightarrow> world \<Rightarrow>
     (token_error, block list \<times> symbol_table \<times> key_blocks \<times> world) outcome" where
  "restore_blocks fmt p i [] symbols keys w = Ok ([], symbols, keys, w)"
| "restore_blocks fmt p i (pb # pbs) symbols keys w =
     obind (omap_err Token_Format (proto_snapshot_block_to_token_block p pb)) (\<lambda>b.
     case note_external_key i b symbols keys of (symbols1, keys1) \<Rightarrow>
     obind (load_and_translate_block fmt b i symbols keys1 symbols1 w) (\<lambda>(b', symbols2, w2).
     obind (restore_blocks fmt p (i + 1) pbs symbols2 keys1 w2) (\<lambda>(bs, symbols3, keys3, w3).
       Ok (b' # bs, symbols3, keys3, w3))))"

fun restore_generated :: "pgenerated_facts list \<Rightarrow> world \<Rightarrow> (format_error, world) outcome" where
  "restore_generated [] w = Ok w"
| "restore_generated (g # gs) w =
     obind (proto_origin_to_authorizer_origin (pgf_origins g)) (\<lambda>og.
     obind (traverse proto_fact_to_token_fact (pgf_facts g)) (\<lambda>facts.
       restore_generated gs (fold (add_fact og) facts w)))"

definition authorizer_from_snapshot ::
    "formats \<Rightarrow> primitives \<Rightarrow> pauthorizer_snapshot \<Rightarrow> (token_error, authorizer) outcome" where
  "authorizer_from_snapshot fmt p input =
     (let world = pas_world input; version = version_or_zero (paw_version world) in
      if \<not> supported_version version then Err (Token_Format (version_error version))
      else
        obind (restore_own p world version) (\<lambda>(symbols, bb, policies).
        obind (restore_blocks fmt p 0 (paw_blocks world) symbols (\<lambda>_. None) world_new)
          (\<lambda>(blocks, symbols1, keys, w1).
        obind (or_panic (load_authorizer bb keys symbols1 w1)) (\<lambda>(symbols2, w2).
        obind (omap_err Token_Format (restore_generated (paw_generated_facts world) w2)) (\<lambda>w3.
          Ok \<lparr>au_block = bb, au_world = w3\<lparr>w_iterations := paw_iterations world\<rparr>, au_symbols = symbols2,
              au_token_origins =
                (if blocks = [] then default_trusted
                 else from_scopes [Scope_Previous] default_trusted (length blocks) keys),
              au_policies = policies, au_blocks = (if blocks = [] then None else Some blocks),
              au_key_blocks = keys, au_limits = restore_limits (pas_limits input),
              au_execution_time =
                (if 0 < pas_execution_time input then Some (pas_execution_time input) else None)\<rparr>)))))"

definition ab_from_snapshot :: "primitives \<Rightarrow> pauthorizer_snapshot \<Rightarrow> (token_error, authorizer_builder) outcome" where
  "ab_from_snapshot p input =
     (let world = pas_world input; version = version_or_zero (paw_version world);
          refuse = (\<lambda>what. Err (Token_Format (DeserializationError what))) in
      if \<not> supported_version version then Err (Token_Format (version_error version))
      else if paw_blocks world \<noteq> [] then
        refuse ''cannot deserialize an AuthorizerBuilder fro a snapshot with blocks''
      else if paw_generated_facts world \<noteq> [] then
        refuse ''cannot deserialize an AuthorizerBuilder from a snapshot with generated facts''
      else if paw_iterations world \<noteq> 0 then
        refuse ''cannot deserialize an AuthorizerBuilder from a snapshot with non-zero iterations''
      else if pas_execution_time input \<noteq> 0 then
        refuse ''cannot deserialize an AuthorizerBuilder from a snapshot with non-zero execution time''
      else
        obind (restore_own p world version) (\<lambda>(symbols, bb, policies).
          Ok \<lparr>ab_block = bb, ab_policies = policies, ab_externs = (\<lambda>_. None),
              ab_limits = restore_limits (pas_limits input)\<rparr>))"

section \<open>Bytes\<close>

record authorizer_codec =
  encode_policies :: "pauthorizer_policies \<Rightarrow> (string, bytes) outcome"
  decode_policies :: "bytes \<Rightarrow> (string, pauthorizer_policies) outcome"
  encode_snapshot :: "pauthorizer_snapshot \<Rightarrow> (string, bytes) outcome"
  decode_snapshot :: "bytes \<Rightarrow> (string, pauthorizer_snapshot) outcome"

definition to_raw_snapshot ::
    "authorizer_codec \<Rightarrow> ('a \<Rightarrow> (format_error, pauthorizer_snapshot) outcome) \<Rightarrow> 'a \<Rightarrow>
     (format_error, bytes) outcome" where
  "to_raw_snapshot c snapshot a =
     obind (snapshot a) (\<lambda>s. omap_err serialization_error (encode_snapshot c s))"

definition from_raw_snapshot ::
    "authorizer_codec \<Rightarrow> (pauthorizer_snapshot \<Rightarrow> (token_error, 'a) outcome) \<Rightarrow> bytes \<Rightarrow>
     (token_error, 'a) outcome" where
  "from_raw_snapshot c restore input =
     obind (omap_err (\<lambda>e. Token_Format (deserialization_error e)) (decode_snapshot c input)) restore"

definition policies_serialize :: "authorizer_codec \<Rightarrow> authorizer_policies \<Rightarrow> (token_error, bytes) outcome" where
  "policies_serialize c ap =
     obind (or_panic (authorizer_to_proto_authorizer ap)) (\<lambda>m.
       omap_err (\<lambda>e. Token_Format (serialization_error e)) (encode_policies c m))"

definition policies_deserialize :: "authorizer_codec \<Rightarrow> bytes \<Rightarrow> (token_error, authorizer_policies) outcome" where
  "policies_deserialize c input =
     obind (omap_err (\<lambda>e. Token_Format (deserialization_error e)) (decode_policies c input)) (\<lambda>m.
       omap_err Token_Format (proto_authorizer_to_authorizer m))"

definition authorizer_from :: "authorizer_codec \<Rightarrow> bytes \<Rightarrow> (token_error, authorizer) outcome" where
  "authorizer_from c input = obind (policies_deserialize c input) authorizer_try_from"

end
