(* ===== verification/Snapshot_Properties.thy ===== *)
theory Snapshot_Properties
  imports Snapshot Portable Authorization
begin

text \<open>
  Properties of saving and restoring: origins and builders survive a snapshot, a token with a
  third-party block does not, and saved policies are restored without their facts and rules.
\<close>

section \<open>Origins\<close>

lemma proto_origin_loop_write:
  "\<forall>i \<in> set is. i < 2 ^ 32 \<or> i = usize_max \<Longrightarrow>
     proto_origin_loop (map (\<lambda>i. if i = usize_max then Origin_Authorizer else Origin_Block (as_u32 i)) is) og =
       Ok (og |\<union>| fset_of_list is)"
  by (induction "is" arbitrary: og) (auto simp: origin_insert_def as_u32_def)

section \<open>Restoring the table\<close>

lemma restore_symbols_write:
  assumes "distinct (acc @ ss)" "set ss \<inter> set default_symbols = {}"
  shows "restore_symbols ss \<lparr>st_symbols = acc, st_public_keys = k\<rparr> = \<lparr>st_symbols = acc @ ss, st_public_keys = k\<rparr>"
  using assms
proof (induction ss arbitrary: acc)
  case (Cons s ss)
  have "position s default_symbols = None" "position s acc = None"
    using Cons.prems by (auto simp: position_None_iff)
  then show ?case using Cons.IH [of "acc @ [s]"] Cons.prems by (simp add: st_insert_def)
qed simp

lemma restore_keys_write:
  assumes "distinct (acc @ ks)" "\<forall>k \<in> set ks. valid_public p k"
  shows "restore_keys p (map public_to_proto ks) \<lparr>st_symbols = ss, st_public_keys = \<lparr>pk_keys = acc\<rparr>\<rparr> =
    Ok \<lparr>st_symbols = ss, st_public_keys = \<lparr>pk_keys = acc @ ks\<rparr>\<rparr>"
  using assms
proof (induction ks arbitrary: acc)
  case (Cons k ks)
  have "position k acc = None" using Cons.prems(1) by (auto simp: position_None_iff)
  then show ?case using Cons.IH [of "acc @ [k]"] Cons.prems by (simp add: pk_insert_def public_roundtrip)
qed simp

lemma restore_table:
  assumes "table_wf u" "\<forall>k \<in> set (pk_keys (st_public_keys u)). valid_public p k"
  shows "restore_keys p (map public_to_proto (pk_keys (st_public_keys u)))
    (restore_symbols (st_symbols u) default_symbol_table) = Ok u"
proof -
  have "restore_symbols (st_symbols u) default_symbol_table = \<lparr>st_symbols = st_symbols u, st_public_keys = pk_new\<rparr>"
    using restore_symbols_write [of "[]" "st_symbols u" pk_new] assms(1)
    by (simp add: default_symbol_table_def st_new_def table_wf_def st_wf_def)
  then show ?thesis
    using restore_keys_write [of "[]" "pk_keys (st_public_keys u)" p "st_symbols u"] assms
    by (cases u; cases "st_public_keys u") (simp add: pk_new_def table_wf_def pk_wf_def)
qed

section \<open>Restoring a block\<close>

lemma traverse_map: "traverse f (map g xs) = traverse (\<lambda>x. f (g x)) xs"
  by (induction xs) simp_all

lemma snapshot_block_read:
  assumes "wire_contents b" "bl_version b = block_version b" "bl_external_key b = None"
  shows "proto_snapshot_block_to_token_block p (token_block_to_proto_snapshot_block b) =
    Ok (b\<lparr>bl_symbols := st_new, bl_public_keys := pk_new\<rparr>)"
proof -
  let ?sv = "get_schema_version (bl_facts b) (bl_rules b) (bl_checks b) (bl_scopes b)"
  have v: "block_version b = schema_version_number ?sv" by (simp add: block_version_def)
  note read = block_elements_write_read [OF assms(1), of "bl_version b"]
  have kinds: "\<forall>c \<in> set (bl_checks b). c_kind c = One_kind" if "bl_version b = MIN_SCHEMA_VERSION"
  proof
    fix c assume c: "c \<in> set (bl_checks b)"
    have "\<not> contains_v3_3 ?sv" "\<not> contains_check_all ?sv"
      using that v assms(2) schema_version_number_cases(1,2) [of ?sv] by (auto simp: version_numbers)
    with get_schema_version_kinds c show "c_kind c = One_kind" by (cases "c_kind c") blast+
  qed
  have "supported_version (bl_version b)"
    unfolding assms(2) v supported_version_def using schema_version_number_cases(3,4) by blast
  moreover have "check_compatibility ?sv (bl_version b) = Ok ()"
    by (rule check_compatibility_from_version) (simp add: assms(2) v)
  ultimately show ?thesis
    using kinds read(1-4) assms(2,3)
    by (auto simp: proto_snapshot_block_to_token_block_def token_block_to_proto_snapshot_block_def Let_def
        version_or_zero_def token_check_to_proto_check_def)
qed

section \<open>Policies\<close>

definition portable_policy :: "policy \<Rightarrow> bool" where
  "portable_policy po \<longleftrightarrow> (\<forall>q \<in> set (po_queries po). portable_rule q)"

definition policy_convert :: "policy \<Rightarrow> symbol_table \<Rightarrow> (rule list \<times> symbol_table) option" where
  "policy_convert po s = smap rule_convert (po_queries po) s"

lemma stable_policy: "stable policy_to_proto_policy po"
proof -
  have "stable (smap rule_convert) (po_queries po)" by (intro stable_list stable_rule)
  then show ?thesis
    unfolding stable_def policy_to_proto_policy_def by (fastforce simp: case_prod_beta')
qed

lemma policy_kind_read: "of_tag_in policy_kinds (tag_in policy_kinds (policy_kind_of k)) = Some (policy_kind_of k)"
  by (cases k) (auto intro: of_tag_tag simp: policy_kinds_def)

lemma policy_read:
  assumes "portable_policy po" "table_wf s" "policy_to_proto_policy po s = Some (pp, t)" "table_ext t v"
    and "st_terms.small v" "few_keys v"
  shows "proto_policy_to_policy pp v MAX_SCHEMA_VERSION = Ok po"
proof -
  from assms(3) obtain qs where run: "smap rule_convert (po_queries po) s = Some (qs, t)"
    and msg: "pp = \<lparr>ppo_queries = map token_rule_to_proto_rule qs,
        ppo_kind = tag_in policy_kinds (policy_kind_of (po_kind po))\<rparr>"
    by (auto simp: policy_to_proto_policy_def)
  have again: "traverse (\<lambda>r. rule_convert_from r v) qs = Ok (po_queries po)"
    by (rule rt_read [OF rt_list assms(2) run assms(4,5)])
      (use assms(1) in \<open>simp add: rt_rule portable_policy_def portable_rule_def\<close>)
  have wire: "wire_rule q" if q: "q \<in> set qs" for q
  proof -
    from smap_source [OF run q] obtain r t' v' where "r \<in> set (po_queries po)" "rule_convert r t' = Some (q, v')"
      by blast
    moreover from traverse_each [OF again q] obtain y where "rule_convert_from q v = Ok y" by blast
    ultimately show ?thesis using assms(1,6) by (auto simp: portable_policy_def intro: rule_wire)
  qed
  have "obind (proto_rule_rule (token_rule_to_proto_rule q) MAX_SCHEMA_VERSION) (\<lambda>c. rule_convert_from c v) =
      rule_convert_from q v" if "q \<in> set qs" for q
    using proto_rule_write_read [OF wire [OF that]] by (simp add: version_numbers)
  then have "traverse (\<lambda>q. obind (proto_rule_rule q MAX_SCHEMA_VERSION) (\<lambda>c. rule_convert_from c v))
      (map token_rule_to_proto_rule qs) = traverse (\<lambda>q. rule_convert_from q v) qs"
    unfolding traverse_map by (intro traverse_cong) simp_all
  then show ?thesis
    using again by (cases "po_kind po"; cases po)
      (simp_all add: proto_policy_to_policy_def msg policy_kind_read [of Allow, simplified]
        policy_kind_read [of Deny, simplified])
qed

section \<open>Restoring a builder\<close>

lemma snapshot_own_parts:
  assumes "snapshot_own policies bb = Ok (ps, own, u)"
  shows "\<exists>s b. smap policy_to_proto_policy policies st_new = Some (ps, s) \<and> table_wf s \<and>
    bb_build bb s = Some b \<and> join_tables s b = Ok u \<and> table_ext s u \<and>
    own = token_block_to_proto_snapshot_block b"
proof -
  from assms obtain s b where ps: "smap policy_to_proto_policy policies st_new = Some (ps, s)"
    and b: "bb_build bb s = Some b" "own = token_block_to_proto_snapshot_block b"
    and join: "join_tables s b = Ok u"
    by (auto simp: snapshot_own_def join_tables_def default_symbol_table_def outcome_simps)
  have "table_ext st_new s" by (rule stable_ext [OF stable_list [OF stable_policy] table_wf_new ps])
  with table_ext_wf have wf: "table_wf s" by blast
  from join_built [OF wf b(1)] join have "table_ext s u" by auto
  with ps wf b join show ?thesis by blast
qed

lemma policies_read:
  "smap policy_to_proto_policy policies t = Some (ps, s) \<Longrightarrow> \<forall>po \<in> set policies. portable_policy po \<Longrightarrow>
   table_wf t \<Longrightarrow> table_ext s u \<Longrightarrow> st_terms.small u \<Longrightarrow> few_keys u \<Longrightarrow>
   traverse (\<lambda>po. proto_policy_to_policy po u MAX_SCHEMA_VERSION) ps = Ok policies"
proof (induction policies arbitrary: ps t)
  case (Cons po policies)
  from Cons.prems(1) obtain pp v rest where first: "policy_to_proto_policy po t = Some (pp, v)"
    and more: "smap policy_to_proto_policy policies v = Some (rest, s)" and split: "ps = pp # rest"
    unfolding smap_Some_Cons by blast
  have wf: "table_wf v" using stable_ext [OF stable_policy Cons.prems(3) first] table_ext_wf by blast
  then have "table_ext v s" by (rule stable_ext [OF stable_list [OF stable_policy] _ more])
  with Cons.prems(4) have "table_ext v u" using table_ext_trans by blast
  then have "proto_policy_to_policy pp u MAX_SCHEMA_VERSION = Ok po"
    using Cons.prems(2,5,6) by (intro policy_read [OF _ Cons.prems(3) first]) simp_all
  with Cons.IH [OF more _ wf Cons.prems(4-6)] Cons.prems(2) split show ?case by simp
qed simp

text \<open>Policies settle as rules do.\<close>

definition settle_policy :: "policy \<Rightarrow> policy" where
  "settle_policy po = po\<lparr>po_queries := map settle_rule (po_queries po)\<rparr>"

lemma snapshot_settle: "snapshot_own (map settle_policy policies) (settle bb) = snapshot_own policies bb"
proof -
  have "policy_to_proto_policy (settle_policy po) = policy_to_proto_policy po" for po
    by (rule ext) (simp add: policy_to_proto_policy_def settle_policy_def smap_map convert_settle_rule)
  then show ?thesis by (simp add: snapshot_own_def build_settle smap_map)
qed

lemma own_restored:
  assumes "snapshot_own policies bb = Ok (ps, own, u)" "portable_builder bb" "\<forall>po \<in> set policies. portable_policy po"
    and "\<forall>k \<in> set (pk_keys (st_public_keys u)). valid_public p k" "st_terms.small u" "few_keys u"
    and "paw_symbols world = st_symbols u" "paw_public_keys world = map public_to_proto (pk_keys (st_public_keys u))"
    and "paw_authorizer_block world = own" "paw_authorizer_policies world = ps"
  shows "restore_own p world MAX_SCHEMA_VERSION = Ok (u, bb, policies)"
proof -
  from snapshot_own_parts [OF assms(1)] obtain s b where ps: "smap policy_to_proto_policy policies st_new = Some (ps, s)"
    and wf: "table_wf s" and b: "bb_build bb s = Some b" and join: "join_tables s b = Ok u"
    and ext: "table_ext s u" and own: "own = token_block_to_proto_snapshot_block b" by blast
  note built = built_block [OF wf assms(2) b join assms(5,6)]
  have wfu: "table_wf u" using table_ext_wf [OF ext] by blast
  show ?thesis
    using policies_read [OF ps assms(3) table_wf_new ext assms(5,6)] restore_table [OF wfu assms(4)] snapshot_block_read [OF built(1,2,5)]
      elements_read [OF wf assms(2) built(8) table_ext_refl [OF wfu] assms(5)]
    by (simp add: restore_own_def assms(7-10) own bb_convert_from_def built(4))
qed

section \<open>Third-party blocks\<close>

lemma fact_translate_name:
  assumes "fact_translate src f dst = Ok (g, dst')"
  shows "\<exists>n. get_symbol src (p_name (f_predicate f)) = Some n \<and> p_name (f_predicate g) = fst (st_insert n dst)"
  using assms
  by (auto simp: fact_translate_def read_then_write_def fact_convert_from_def fact_convert_def
      predicate_convert_from_def predicate_convert_def fact_apply_parameters_def print_symbol_def outcome_simps
      split: option.splits prod.splits)

lemma insert_not_default: "n \<notin> set default_symbols \<Longrightarrow> symbol_offset \<le> fst (st_insert n s)"
  by (auto simp: st_insert_def position_None_iff [symmetric] split: option.splits)

lemma otraverse_each:
  "otraverse f xs s = Ok (ys, u) \<Longrightarrow> length ys = length xs \<and>
     (\<forall>i < length xs. \<exists>t t'. f (xs ! i) t = Ok (ys ! i, t'))"
proof (induction xs arbitrary: s ys)
  case (Cons x xs)
  from Cons.prems obtain y t zs where x: "f x s = Ok (y, t)" and rest: "otraverse f xs t = Ok (zs, u)"
    and ys: "ys = y # zs"
    unfolding otraverse_Ok_Cons by blast
  from Cons.IH [OF rest] x ys show ?case by (auto simp: nth_Cons split: nat.splits)
qed simp

text \<open>Loading a third-party block reads its facts in the table it carries.\<close>

lemma load_reads_facts:
  assumes "load_and_translate_block fmt b i token_symbols keys symbols w = Ok x" "f \<in> set (bl_facts b)"
  shows "\<exists>n. get_symbol (block_table b i token_symbols) (p_name (f_predicate f)) = Some n"
proof -
  from assms(1) obtain s1 fs s2 where
    "otraverse (fact_translate (block_table b i token_symbols)) (bl_facts b) s1 = Ok (fs, s2)"
    by (auto simp: load_and_translate_block_def Let_def outcome_simps)
  from otraverse_each [OF this] assms(2) obtain t t' g where
    "fact_translate (block_table b i token_symbols) f t = Ok (g, t')"
    by (auto simp: in_set_conv_nth)
  from fact_translate_name [OF this] show ?thesis by blast
qed

lemma restore_blocks_each:
  assumes "restore_blocks fmt p i pbs symbols keys w = Ok out" "j < length pbs"
  shows "\<exists>b s k s' w' x. proto_snapshot_block_to_token_block p (pbs ! j) = Ok b \<and>
    load_and_translate_block fmt b (i + j) s k s' w' = Ok x"
  using assms
proof (induction pbs arbitrary: i symbols keys w out j)
  case (Cons pb pbs)
  from Cons.prems(1) obtain b where b1: "proto_snapshot_block_to_token_block p pb = Ok b"
    by (auto simp: outcome_simps)
  obtain symbols1 keys1 where nk: "note_external_key i b symbols keys = (symbols1, keys1)" by (rule prod.exhaust)
  from Cons.prems(1) obtain b' symbols2 w2 rest where
    b: "load_and_translate_block fmt b i symbols keys1 symbols1 w = Ok (b', symbols2, w2)"
    and rest: "restore_blocks fmt p (i + 1) pbs symbols2 keys1 w2 = Ok rest"
    by (auto simp: outcome_simps b1 nk)
  show ?case
  proof (cases j)
    case 0
    then have "(pb # pbs) ! j = pb" "i + j = i" by simp_all
    with b1 b show ?thesis by metis
  next
    case (Suc m)
    with Cons.prems(2) Cons.IH [OF rest, of m] show ?thesis by auto
  qed
qed simp

lemma predicate_read_name:
  "proto_predicate_to_token_predicate m = Ok q \<Longrightarrow> p_name q = pp_name m"
  by (auto simp: proto_predicate_to_token_predicate_def outcome_simps)

lemma snapshot_blocks_each:
  assumes "authorizer_snapshot a = Ok s" "au_blocks a = Some bs" "j < length bs"
  shows "\<exists>b t t'. block_translate (au_symbols a) (bs ! j) t = Ok (b, t') \<and>
    paw_blocks (pas_world s) ! j = token_block_to_proto_snapshot_block b \<and> j < length (paw_blocks (pas_world s))"
proof -
  from assms(1,2) obtain s1 blocks s2 where
    run: "otraverse (snapshot_block (au_symbols a)) bs s1 = Ok (blocks, s2)" and blocks: "paw_blocks (pas_world s) = blocks"
    by (auto simp: authorizer_snapshot_def outcome_simps)
  from otraverse_each [OF run] assms(3) obtain t t' where
    "snapshot_block (au_symbols a) (bs ! j) t = Ok (blocks ! j, t')" "length blocks = length bs" by blast
  moreover from this(1) obtain b where "block_translate (au_symbols a) (bs ! j) t = Ok (b, t')"
    "token_block_to_proto_snapshot_block b = blocks ! j" by (auto simp: snapshot_block_def outcome_simps)
  ultimately show ?thesis using assms(3) blocks by metis
qed

lemma block_translate_parts:
  assumes "block_translate src b t = Ok (b', t')"
  shows "bl_external_key b' = bl_external_key b"
    "\<exists>t1. otraverse (fact_translate src) (bl_facts b) t = Ok (bl_facts b', t1)"
  using assms by (auto simp: block_translate_def outcome_simps)

lemma snapshot_block_read_parts:
  assumes "proto_snapshot_block_to_token_block p (token_block_to_proto_snapshot_block b) = Ok b'"
  shows "bl_symbols b' = st_new" "bl_external_key b' = None \<longleftrightarrow> bl_external_key b = None"
    "traverse proto_fact_to_token_fact (map token_fact_to_proto_fact (bl_facts b)) = Ok (bl_facts b')"
  using assms
  by (auto simp: proto_snapshot_block_to_token_block_def token_block_to_proto_snapshot_block_def Let_def
      outcome_simps split: if_splits option.splits)

lemma fact_wire_name:
  "proto_fact_to_token_fact (token_fact_to_proto_fact f) = Ok g \<Longrightarrow> p_name (f_predicate g) = p_name (f_predicate f)"
  by (auto simp: proto_fact_to_token_fact_def token_fact_to_proto_fact_def token_predicate_to_proto_predicate_def
      outcome_simps dest: predicate_read_name)

lemma bb_all_fact: "bb_all bb_fact fs x = Ok y \<Longrightarrow> y = x\<lparr>bb_facts := bb_facts x @ fs\<rparr>"
  by (induction fs arbitrary: x) (fastforce simp: bb_fact_def outcome_simps)+

lemma bb_all_rule: "bb_all bb_rule rs x = Ok y \<Longrightarrow> y = x\<lparr>bb_rules := bb_rules x @ rs\<rparr>"
  by (induction rs arbitrary: x) (fastforce simp: bb_rule_def outcome_simps)+

lemma bb_all_check: "bb_all bb_check cs x = Ok y \<Longrightarrow> y = x\<lparr>bb_checks := bb_checks x @ cs\<rparr>"
  by (induction cs arbitrary: x) (fastforce simp: bb_check_def outcome_simps)+

section \<open>Samples\<close>

definition sample_authorizer_builder :: authorizer_builder where
  "sample_authorizer_builder = ab_new\<lparr>ab_block := sample_builder, ab_policies := [demo_allow]\<rparr>"

lemma sample_join: "join_tables st_new sample_built = Ok st_new"
  by (simp add: join_tables_def st_extend_def pk_extend_def pk_is_disjoint_def st_is_disjoint_def
      sample_built_def empty_block_def st_new_def pk_new_def)

lemma demo_policy_message: "\<exists>ps. smap policy_to_proto_policy [demo_allow] st_new = Some (ps, st_new)"
  using demo_convert by (simp add: policy_to_proto_policy_def demo_allow_def)

lemma snapshot_ownI:
  "smap policy_to_proto_policy policies st_new = Some (ps, s) \<Longrightarrow> bb_build bb s = Some b \<Longrightarrow>
   join_tables s b = Ok u \<Longrightarrow> snapshot_own policies bb = Ok (ps, token_block_to_proto_snapshot_block b, u)"
  by (auto simp: snapshot_own_def default_symbol_table_def join_tables_def outcome_simps)

lemma sample_own:
  "\<exists>ps. snapshot_own [demo_allow] sample_builder =
     Ok (ps, token_block_to_proto_snapshot_block sample_built, st_new)"
  using demo_policy_message snapshot_ownI [OF _ sample_build sample_join] by blast

lemma demo_portable: "portable_policy (settle_policy demo_allow)"
  by (simp add: portable_policy_def settle_policy_def demo_allow_def portable_rule_def settle_rule_def
      forget_parameters_def rule_apply_parameters_def portable_predicate_def predicate_apply_def Let_def
      plain_def wf_brule_def wf_bpredicate_def rule_new_def make_pred_def wf_bexpression_def)

text \<open>An authorizer with a third-party block that states \<open>x()\<close>.\<close>

definition third_party_block :: block where
  "third_party_block =
     empty_block\<lparr>bl_facts := [\<lparr>f_predicate = \<lparr>p_name = symbol_offset, p_terms = []\<rparr>\<rparr>],
                 bl_external_key := Some (Ed25519_key [])\<rparr>"

definition third_party_authorizer :: authorizer where
  "third_party_authorizer =
     authorizer_new\<lparr>au_symbols := \<lparr>st_symbols = [''x''], st_public_keys = pk_new\<rparr>,
                    au_blocks := Some [empty_block, third_party_block]\<rparr>"

lemma third_party_saved: "\<exists>s. authorizer_snapshot third_party_authorizer = Ok s"
proof -
  have "join_tables st_new empty_block = Ok st_new"
    by (simp add: join_tables_def st_extend_def pk_extend_def pk_is_disjoint_def st_is_disjoint_def
        empty_block_def st_new_def pk_new_def)
  from snapshot_ownI [OF _ build_empty this, of "[]"]
  have own: "snapshot_own [] bb_new = Ok ([], token_block_to_proto_snapshot_block empty_block, st_new)" by simp
  have "snapshot_block src empty_block t = Ok (token_block_to_proto_snapshot_block empty_block, t)" for src t
    by (simp add: snapshot_block_def block_translate_def empty_block_def)
  then show ?thesis
    by (simp add: authorizer_snapshot_def third_party_authorizer_def authorizer_new_def own snapshot_block_def
        block_translate_def third_party_block_def empty_block_def fact_translate_def read_then_write_def
        fact_convert_from_def predicate_convert_from_def print_symbol_def get_symbol_def nth_opt_def fact_convert_def
        fact_apply_parameters_def predicate_convert_def world_new_def split: prod.split)
qed

section \<open>Properties\<close>

text \<open>
  An origin survives a snapshot when its blocks are numbered below \<open>2\<^sup>3\<^sup>2\<close>, the authorizer's
  own number being kept apart.
\<close>

theorem origin_snapshot_roundtrip:
  assumes "\<forall>i. i |\<in>| og \<longrightarrow> i < 2 ^ 32 \<or> i = usize_max"
  shows "proto_origin_to_authorizer_origin (authorizer_origin_to_proto_origin og) = Ok og"
proof -
  have "\<forall>i \<in> set (sorted_list_of_fset og). i < 2 ^ 32 \<or> i = usize_max" using assms by simp
  moreover have "fset_of_list (sorted_list_of_fset og) = og" by (simp add: fset_eq_iff fset_of_list_elem)
  ultimately show ?thesis
    unfolding proto_origin_to_authorizer_origin_def authorizer_origin_to_proto_origin_def
    using proto_origin_loop_write [of "sorted_list_of_fset og" "{||}"] by simp
qed

lemma origin_snapshot_roundtrip_witness:
  "proto_origin_to_authorizer_origin (authorizer_origin_to_proto_origin {|0, usize_max|}) = Ok {|0, usize_max|}"
  by (rule origin_snapshot_roundtrip) simp

definition settle_authorizer_builder :: "authorizer_builder \<Rightarrow> authorizer_builder" where
  "settle_authorizer_builder a =
     a\<lparr>ab_block := settle (ab_block a), ab_policies := map settle_policy (ab_policies a), ab_externs := \<lambda>_. None\<rparr>"

text \<open>
  C20: A builder survives a snapshot: taking one of an authorizer builder whose parameters are set and
  whose sets hold values of one type, and restoring it, gives the same facts, rules, checks and
  policies with their parameters applied, the same scopes, context and limits; only the foreign
  functions are not saved.
\<close>

theorem builder_snapshot_roundtrip:
  assumes "ab_snapshot a = Ok s" "portable_builder (settle (ab_block a))"
    and "\<forall>po \<in> set (ab_policies a). portable_policy (settle_policy po)"
    and "snapshot_own (ab_policies a) (ab_block a) = Ok (ps, own, u)"
    and "\<forall>k \<in> set (pk_keys (st_public_keys u)). valid_public p k" "st_terms.small u" "few_keys u"
    and "max_time (ab_limits a) < 2 ^ 64"
  shows "ab_from_snapshot p s = Ok (settle_authorizer_builder a)"
proof -
  from assms(1,4) have s: "s = \<lparr>pas_limits = snapshot_limits (ab_limits a), pas_execution_time = 0,
      pas_world = \<lparr>paw_version = Some MAX_SCHEMA_VERSION, paw_symbols = st_symbols u,
        paw_public_keys = map public_to_proto (pk_keys (st_public_keys u)), paw_blocks = [],
        paw_authorizer_block = own, paw_authorizer_policies = ps, paw_generated_facts = [],
        paw_iterations = 0\<rparr>\<rparr>"
    by (simp add: ab_snapshot_def)
  have own: "snapshot_own (map settle_policy (ab_policies a)) (settle (ab_block a)) = Ok (ps, own, u)"
    using assms(4) by (simp only: snapshot_settle)
  have "restore_own p (pas_world s) MAX_SCHEMA_VERSION =
      Ok (u, settle (ab_block a), map settle_policy (ab_policies a))"
    by (rule own_restored [OF own assms(2) _ assms(5-7)])
      (simp_all add: s assms(3))
  moreover have "restore_limits (snapshot_limits (ab_limits a)) = ab_limits a"
    using assms(8) by (cases "ab_limits a") (simp add: restore_limits_def snapshot_limits_def)
  moreover have "supported_version MAX_SCHEMA_VERSION" by (simp add: supported_version_def version_numbers)
  ultimately show ?thesis
    by (cases a) (simp add: ab_from_snapshot_def s version_or_zero_def Let_def settle_authorizer_builder_def)
qed

lemma builder_snapshot_roundtrip_witness:
  "\<exists>s. ab_snapshot sample_authorizer_builder = Ok s \<and>
     ab_from_snapshot demo s = Ok (settle_authorizer_builder sample_authorizer_builder)"
proof -
  let ?a = sample_authorizer_builder
  have parts: "ab_policies ?a = [demo_allow]" "ab_block ?a = sample_builder" "ab_limits ?a = default_limits"
    by (simp_all add: sample_authorizer_builder_def ab_new_def)
  from sample_own obtain ps where
    own: "snapshot_own (ab_policies ?a) (ab_block ?a) = Ok (ps, token_block_to_proto_snapshot_block sample_built, st_new)"
    unfolding parts by blast
  then obtain s where s: "ab_snapshot ?a = Ok s" by (simp add: ab_snapshot_def)
  have "ab_from_snapshot demo s = Ok (settle_authorizer_builder ?a)"
    by (rule builder_snapshot_roundtrip [OF s _ _ own _ st_new_small])
      (simp_all add: parts sample_settled sample_portable demo_portable st_new_def pk_new_def default_limits_def)
  with s show ?thesis by blast
qed

text \<open>
  An authorizer with a third-party block cannot be restored from its snapshot, as soon as a fact
  of that block uses a symbol that is not a default one: the block is read back with an empty table.
\<close>

theorem third_party_snapshot_not_restored:
  assumes "authorizer_snapshot a = Ok s" "au_blocks a = Some bs" "0 < j" "j < length bs"
    and "bl_external_key (bs ! j) \<noteq> None" "f \<in> set (bl_facts (bs ! j))"
    and "get_symbol (au_symbols a) (p_name (f_predicate f)) = Some n" "n \<notin> set default_symbols"
  shows "authorizer_from_snapshot fmt p s \<noteq> Ok a'"
proof
  assume "authorizer_from_snapshot fmt p s = Ok a'"
  then obtain symbols out where run: "restore_blocks fmt p 0 (paw_blocks (pas_world s)) symbols (\<lambda>_. None) world_new = Ok out"
    by (auto simp: authorizer_from_snapshot_def Let_def outcome_simps split: if_splits)
  from snapshot_blocks_each [OF assms(1,2,4)] obtain b t t' where
    b: "block_translate (au_symbols a) (bs ! j) t = Ok (b, t')"
    and saved: "paw_blocks (pas_world s) ! j = token_block_to_proto_snapshot_block b"
    and j: "j < length (paw_blocks (pas_world s))" by blast
  from restore_blocks_each [OF run j] saved obtain b' k s1 s2 w x where
    b': "proto_snapshot_block_to_token_block p (token_block_to_proto_snapshot_block b) = Ok b'"
    and load: "load_and_translate_block fmt b' j s1 k s2 w = Ok x" by auto
  note read = snapshot_block_read_parts [OF b']
  from block_translate_parts [OF b] obtain t1 where ext: "bl_external_key b = bl_external_key (bs ! j)"
    and facts: "otraverse (fact_translate (au_symbols a)) (bl_facts (bs ! j)) t = Ok (bl_facts b, t1)" by blast
  from assms(6) obtain i where i: "i < length (bl_facts (bs ! j))" "bl_facts (bs ! j) ! i = f"
    by (auto simp: in_set_conv_nth)
  from otraverse_each [OF facts] i obtain t2 t3 where
    g: "fact_translate (au_symbols a) f t2 = Ok (bl_facts b ! i, t3)" and len: "i < length (bl_facts b)" by auto
  from fact_translate_name [OF g] assms(7,8) have big: "symbol_offset \<le> p_name (f_predicate (bl_facts b ! i))"
    using insert_not_default [of n t2] by auto
  from read(3) len have "proto_fact_to_token_fact (token_fact_to_proto_fact (bl_facts b ! i)) = Ok (bl_facts b' ! i)"
    and i': "i < length (bl_facts b')"
    by (auto simp: traverse_Ok_list_all2 list_all2_conv_all_nth)
  from fact_wire_name [OF this(1)] big have "symbol_offset \<le> p_name (f_predicate (bl_facts b' ! i))" by simp
  then have "get_symbol st_new (p_name (f_predicate (bl_facts b' ! i))) = None"
    by (simp add: get_symbol_def st_new_def nth_opt_def)
  moreover have "block_table b' j s1 = st_new"
    using read(1,2) ext assms(3,5) by (auto simp: block_table_def)
  ultimately show False
    using load_reads_facts [OF load nth_mem [OF i']] by simp
qed

lemma third_party_snapshot_not_restored_witness:
  "\<exists>s. authorizer_snapshot third_party_authorizer = Ok s \<and>
     authorizer_from_snapshot demo_formats demo s \<noteq> Ok third_party_authorizer"
proof -
  from third_party_saved obtain s where s: "authorizer_snapshot third_party_authorizer = Ok s" by blast
  have blocks: "au_blocks third_party_authorizer = Some [empty_block, third_party_block]"
    by (simp add: third_party_authorizer_def)
  have "authorizer_from_snapshot demo_formats demo s \<noteq> Ok third_party_authorizer"
  proof (rule third_party_snapshot_not_restored [OF s blocks, of 1 "hd (bl_facts third_party_block)" "''x''"])
    show "get_symbol (au_symbols third_party_authorizer)
        (p_name (f_predicate (hd (bl_facts third_party_block)))) = Some ''x''"
      by (simp add: third_party_block_def third_party_authorizer_def get_symbol_def nth_opt_def)
  qed (simp_all add: third_party_block_def default_symbols_def)
  with s show ?thesis by blast
qed

text \<open>
  Saving an authorizer's policies and loading them keeps its facts, rules, checks and policies
  in the block builder, but never loads the facts and rules: the world of the restored authorizer
  is empty, so that they have no effect.
\<close>

theorem saved_facts_not_loaded:
  assumes "authorizer_try_from (authorizer_save a) = Ok b"
  shows "bb_facts (au_block b) = bb_facts (au_block a) \<and> bb_rules (au_block b) = bb_rules (au_block a) \<and>
    bb_checks (au_block b) = bb_checks (au_block a) \<and> au_policies b = au_policies a \<and>
    au_world b = world_new"
proof -
  from assms obtain b1 b2 b3 where steps: "bb_all bb_fact (bb_facts (au_block a)) bb_new = Ok b1"
    "bb_all bb_rule (bb_rules (au_block a)) b1 = Ok b2" "bb_all bb_check (bb_checks (au_block a)) b2 = Ok b3"
    and b: "b = authorizer_new\<lparr>au_block := b3, au_policies := au_policies a\<rparr>"
    by (auto simp: authorizer_try_from_def authorizer_save_def authorizer_new_def outcome_simps)
  from bb_all_fact [OF steps(1)] bb_all_rule [OF steps(2)] bb_all_check [OF steps(3)]
  have "b3 = bb_new\<lparr>bb_facts := bb_facts (au_block a), bb_rules := bb_rules (au_block a),
      bb_checks := bb_checks (au_block a)\<rparr>"
    by (simp add: bb_new_def)
  then show ?thesis by (simp add: b authorizer_new_def)
qed

lemma saved_facts_not_loaded_witness:
  "\<exists>b. authorizer_try_from (authorizer_save (authorizer_new\<lparr>au_block := sample_builder\<rparr>)) = Ok b \<and>
     bb_facts (au_block b) \<noteq> [] \<and> au_world b = world_new"
proof -
  have "fact_validate (hd (bb_facts sample_builder)) = Ok ()"
    by (simp add: fact_validate_def sample_builder_def)
  then have "\<exists>b. authorizer_try_from (authorizer_save (authorizer_new\<lparr>au_block := sample_builder\<rparr>)) = Ok b"
    by (simp add: authorizer_try_from_def authorizer_save_def sample_builder_def bb_new_def bb_fact_def)
  then obtain b where b: "authorizer_try_from (authorizer_save (authorizer_new\<lparr>au_block := sample_builder\<rparr>)) = Ok b"
    by blast
  with saved_facts_not_loaded [OF b] show ?thesis by (auto simp: sample_builder_def)
qed

end
