(* ===== verification/Key_Text.thy ===== *)
theory Key_Text
  imports Keys
begin

text \<open>
  The textual forms of keys (\<open>crypto/mod.rs\<close>, \<open>crypto/{ed25519,p256}.rs\<close>,
  \<open>token/builder/algorithm.rs\<close>, \<open>bwk.rs\<close>): hexadecimal with the algorithm in front, trying every
  algorithm, and the fields of a web key; and the conversions to the protobuf message that the
  modules of the two algorithms have of their own.  The crates \<open>hex\<close>, \<open>pkcs8\<close> (DER and PEM) and
  \<open>chrono\<close> are parameters: of \<open>hex\<close> the round trip is used.
\<close>

section \<open>Algorithms\<close>

definition algorithm_values :: "algorithm list" where
  "algorithm_values = [Ed25519, Secp256r1]"

definition algorithm_default :: algorithm where
  "algorithm_default = Ed25519"

fun algorithm_display :: "algorithm \<Rightarrow> string" where
  "algorithm_display Ed25519 = ''ed25519''"
| "algorithm_display Secp256r1 = ''secp256r1''"

definition algorithm_from_str :: "string \<Rightarrow> (format_error, algorithm) outcome" where
  "algorithm_from_str s =
     (if s = ''ed25519'' then Ok Ed25519
      else if s = ''secp256r1'' then Ok Secp256r1
      else Err (DeserializationError (''deserialization error: unexpected key algorithm '' @ s)))"

fun algorithm_string :: "public_key \<Rightarrow> string" where
  "algorithm_string (Ed25519_key _) = ''ed25519''"
| "algorithm_string (P256_key _) = ''secp256r1''"

lemma algorithm_roundtrip: "algorithm_from_str (algorithm_display a) = Ok a"
  by (cases a) (simp_all add: algorithm_from_str_def)

lemma algorithm_string_display: "algorithm_string k = algorithm_display (public_algorithm k)"
  by (cases k) simp_all

section \<open>Hexadecimal\<close>

record hex_codec =
  hex_encode :: "bytes \<Rightarrow> string"
  hex_decode :: "string \<Rightarrow> (string, bytes) outcome"

definition hex_ok :: "hex_codec \<Rightarrow> bool" where
  "hex_ok h \<longleftrightarrow> (\<forall>bs. hex_decode h (hex_encode h bs) = Ok bs)"

definition public_to_bytes_hex :: "hex_codec \<Rightarrow> public_key \<Rightarrow> string" where
  "public_to_bytes_hex h k = hex_encode h (public_to_bytes k)"

definition public_from_bytes_hex ::
    "primitives \<Rightarrow> hex_codec \<Rightarrow> string \<Rightarrow> algorithm \<Rightarrow> (format_error, public_key) outcome" where
  "public_from_bytes_hex p h s a =
     obind (omap_err InvalidKey (hex_decode h s)) (\<lambda>bs. public_from_bytes p bs a)"

definition private_to_bytes_hex :: "hex_codec \<Rightarrow> private_key \<Rightarrow> string" where
  "private_to_bytes_hex h k = hex_encode h (private_to_bytes k)"

definition private_from_bytes_hex ::
    "primitives \<Rightarrow> hex_codec \<Rightarrow> string \<Rightarrow> algorithm \<Rightarrow> (format_error, private_key) outcome" where
  "private_from_bytes_hex p h s a =
     obind (omap_err InvalidKey (hex_decode h s)) (\<lambda>bs. private_from_bytes p bs a)"

definition private_to_prefixed_string :: "hex_codec \<Rightarrow> private_key \<Rightarrow> string" where
  "private_to_prefixed_string h k =
     (case private_algorithm k of Ed25519 \<Rightarrow> ''ed25519-private'' | Secp256r1 \<Rightarrow> ''secp256r1-private'') @
     ''/'' @ private_to_bytes_hex h k"

text \<open>\<open>str::split_once\<close>: before and after the first occurrence of a character.\<close>

fun split_once :: "char \<Rightarrow> string \<Rightarrow> (string \<times> string) option" where
  "split_once c [] = None"
| "split_once c (x # xs) =
     (if x = c then Some ([], xs) else map_option (\<lambda>(l, r). (x # l, r)) (split_once c xs))"

definition private_from_str :: "primitives \<Rightarrow> hex_codec \<Rightarrow> string \<Rightarrow> (format_error, private_key) outcome" where
  "private_from_str p h s =
     (case split_once (CHR ''/'') s of
        Some (alg, bs) \<Rightarrow>
          (if alg = ''ed25519-private'' then private_from_bytes_hex p h bs Ed25519
           else if alg = ''secp256r1-private'' then private_from_bytes_hex p h bs Secp256r1
           else Err (InvalidKey (''Unsupported key algorithm '' @ alg)))
      | None \<Rightarrow> Err (InvalidKey ''Missing key algorithm''))"

lemma split_once_append: "c \<notin> set l \<Longrightarrow> split_once c (l @ c # r) = Some (l, r)"
  by (induction l) auto

lemma public_hex_roundtrip:
  assumes "hex_ok h" "valid_public p k"
  shows "public_from_bytes_hex p h (public_to_bytes_hex h k) (public_algorithm k) = Ok k"
  using assms by (cases k) (auto simp: public_from_bytes_hex_def public_to_bytes_hex_def hex_ok_def
      ed_public_from_bytes_def p256_public_from_bytes_def)

lemma private_hex_roundtrip:
  assumes "hex_ok h" "valid_private p k"
  shows "private_from_bytes_hex p h (private_to_bytes_hex h k) (private_algorithm k) = Ok k"
  using assms by (auto simp: private_from_bytes_hex_def private_to_bytes_hex_def hex_ok_def
      private_roundtrip)

section \<open>Trying every algorithm\<close>

text \<open>\<open>parse_any_algorithm\<close>, used by \<open>from_der\<close> and \<open>from_pem\<close> of keys and key pairs.\<close>

fun try_algorithms :: "(algorithm \<Rightarrow> (format_error, 'a) outcome) \<Rightarrow> algorithm list \<Rightarrow> (format_error, 'a) outcome" where
  "try_algorithms parse [] = Err (InvalidKey ''The key could not be parsed with any algorithm'')"
| "try_algorithms parse (a # as) =
     (case parse a of Ok x \<Rightarrow> Ok x | Err _ \<Rightarrow> try_algorithms parse as | Panic \<Rightarrow> Panic)"

definition parse_any_algorithm ::
    "('i \<Rightarrow> algorithm \<Rightarrow> (format_error, 'a) outcome) \<Rightarrow> 'i \<Rightarrow> (format_error, 'a) outcome" where
  "parse_any_algorithm parse i = try_algorithms (parse i) algorithm_values"

text \<open>The DER and PEM decoders of the two crates, answering the bytes of the key.\<close>

record 'i key_decoder =
  decode_ed_private :: "'i \<Rightarrow> (string, bytes) outcome"
  decode_p256_private :: "'i \<Rightarrow> (string, bytes) outcome"
  decode_ed_public :: "'i \<Rightarrow> (string, bytes) outcome"
  decode_p256_public :: "'i \<Rightarrow> (string, bytes) outcome"

fun private_decode_with :: "'i key_decoder \<Rightarrow> 'i \<Rightarrow> algorithm \<Rightarrow> (format_error, private_key) outcome" where
  "private_decode_with d i Ed25519 =
     obind (omap_err InvalidKey (decode_ed_private d i)) (\<lambda>s. Ok (Ed25519_private s))"
| "private_decode_with d i Secp256r1 =
     obind (omap_err InvalidKey (decode_p256_private d i)) (\<lambda>s. Ok (P256_private s))"

fun public_decode_with :: "'i key_decoder \<Rightarrow> 'i \<Rightarrow> algorithm \<Rightarrow> (format_error, public_key) outcome" where
  "public_decode_with d i Ed25519 =
     obind (omap_err InvalidKey (decode_ed_public d i)) (\<lambda>s. Ok (Ed25519_key s))"
| "public_decode_with d i Secp256r1 =
     obind (omap_err InvalidKey (decode_p256_public d i)) (\<lambda>s. Ok (P256_key s))"

fun keypair_decode_with :: "'i key_decoder \<Rightarrow> 'i \<Rightarrow> algorithm \<Rightarrow> (format_error, keypair) outcome" where
  "keypair_decode_with d i Ed25519 =
     obind (omap_err InvalidKey (decode_ed_private d i)) (\<lambda>s. Ok (Ed25519_pair s))"
| "keypair_decode_with d i Secp256r1 =
     obind (omap_err InvalidKey (decode_p256_private d i)) (\<lambda>s. Ok (P256_pair s))"

definition private_decode :: "'i key_decoder \<Rightarrow> 'i \<Rightarrow> (format_error, private_key) outcome" where
  "private_decode d = parse_any_algorithm (private_decode_with d)"

definition public_decode :: "'i key_decoder \<Rightarrow> 'i \<Rightarrow> (format_error, public_key) outcome" where
  "public_decode d = parse_any_algorithm (public_decode_with d)"

definition keypair_decode :: "'i key_decoder \<Rightarrow> 'i \<Rightarrow> (format_error, keypair) outcome" where
  "keypair_decode d = parse_any_algorithm (keypair_decode_with d)"

lemma keypair_decode_private:
  "keypair_decode d i = obind (private_decode d i) (\<lambda>k. Ok (keypair_from k))"
  by (auto simp: keypair_decode_def private_decode_def parse_any_algorithm_def algorithm_values_def
      split: outcome.splits)
     (cases "decode_ed_private d i"; cases "decode_p256_private d i"; auto)+

section \<open>Web keys\<close>

text \<open>\<open>'t\<close> is the date type of the crate \<open>chrono\<close>.\<close>

record 't web_key =
  wk_public_key :: public_key
  wk_key_id :: nat
  wk_issuer :: "string option"
  wk_expires_at :: "'t option"

record 't web_key_repr =
  wr_algorithm :: string
  wr_key_bytes :: string
  wr_key_id :: nat
  wr_issuer :: "string option"
  wr_expires_at :: "'t option"

definition web_key_to_repr :: "hex_codec \<Rightarrow> 't web_key \<Rightarrow> 't web_key_repr" where
  "web_key_to_repr h k =
     \<lparr>wr_algorithm = algorithm_string (wk_public_key k),
      wr_key_bytes = public_to_bytes_hex h (wk_public_key k),
      wr_key_id = wk_key_id k, wr_issuer = wk_issuer k, wr_expires_at = wk_expires_at k\<rparr>"

definition web_key_of_repr :: "primitives \<Rightarrow> hex_codec \<Rightarrow> 't web_key_repr \<Rightarrow> (format_error, 't web_key) outcome" where
  "web_key_of_repr p h r =
     obind (algorithm_from_str (wr_algorithm r)) (\<lambda>a.
     obind (public_from_bytes_hex p h (wr_key_bytes r) a) (\<lambda>k.
       Ok \<lparr>wk_public_key = k, wk_key_id = wr_key_id r, wk_issuer = wr_issuer r,
           wk_expires_at = wr_expires_at r\<rparr>))"

section \<open>The message of a key, in the modules of the algorithms\<close>

definition unexpected_algorithm :: "ppublic_key \<Rightarrow> format_error" where
  "unexpected_algorithm key =
     DeserializationError
       (''deserialization error: unexpected key algorithm '' @ string_of_int (ppk_algorithm key))"

definition ed_from_proto :: "primitives \<Rightarrow> ppublic_key \<Rightarrow> (format_error, bytes) outcome" where
  "ed_from_proto p key =
     (if ppk_algorithm key \<noteq> algorithm_tag Ed25519 then Err (unexpected_algorithm key)
      else ed_public_from_bytes p (ppk_key key))"

definition ed_to_proto :: "bytes \<Rightarrow> ppublic_key" where
  "ed_to_proto k = \<lparr>ppk_algorithm = algorithm_tag Ed25519, ppk_key = k\<rparr>"

text \<open>The module \<open>p256\<close> names the other algorithm in these three functions.\<close>

definition p256_from_proto :: "primitives \<Rightarrow> ppublic_key \<Rightarrow> (format_error, bytes) outcome" where
  "p256_from_proto p key =
     (if ppk_algorithm key \<noteq> algorithm_tag Ed25519 then Err (unexpected_algorithm key)
      else p256_public_from_bytes p (ppk_key key))"

definition p256_to_proto :: "bytes \<Rightarrow> ppublic_key" where
  "p256_to_proto k = \<lparr>ppk_algorithm = algorithm_tag Ed25519, ppk_key = k\<rparr>"

definition p256_key_algorithm :: "bytes \<Rightarrow> algorithm" where
  "p256_key_algorithm k = Ed25519"

lemma ed_proto_is_proto:
  "ed_to_proto k = public_to_proto (Ed25519_key k)"
  "ed_from_proto p (ed_to_proto k) = Ok k' \<longleftrightarrow> public_from_proto p (ed_to_proto k) = Ok (Ed25519_key k')"
  by (auto simp: ed_to_proto_def public_to_proto_def ed_from_proto_def public_from_proto_def
      outcome_simps)

section \<open>Properties\<close>

definition sample_hex :: hex_codec where
  "sample_hex = \<lparr>hex_encode = map (\<lambda>b. char_of (unat b)), hex_decode = (\<lambda>s. Ok (map (\<lambda>c. of_nat (of_char c)) s))\<rparr>"

definition sample_web_key :: "nat web_key" where
  "sample_web_key =
     \<lparr>wk_public_key = P256_key (replicate 33 2), wk_key_id = 12, wk_issuer = Some ''test'',
      wk_expires_at = None\<rparr>"

lemma sample_hex_ok: "hex_ok sample_hex"
proof -
  have "of_nat (of_char (char_of (unat b) :: char)) = b" for b :: u8
    using unsigned_less [where 'a = nat, of b]
    by simp
  then show ?thesis by (simp add: hex_ok_def sample_hex_def comp_def)
qed

text \<open>
  A key written as text is read back: a private key through its prefixed form, and a web key
  through its fields, whatever the other fields are.
\<close>

theorem key_text_roundtrip:
  assumes "hex_ok h" "valid_private p k" "valid_public p (wk_public_key w)"
  shows "private_from_str p h (private_to_prefixed_string h k) = Ok k \<and>
    web_key_of_repr p h (web_key_to_repr h w) = Ok w"
proof
  from private_hex_roundtrip [OF assms(1,2)] show
    "private_from_str p h (private_to_prefixed_string h k) = Ok k"
    using split_once_append [of "CHR ''/''" "''ed25519-private''" "private_to_bytes_hex h k"]
      split_once_append [of "CHR ''/''" "''secp256r1-private''" "private_to_bytes_hex h k"]
    by (cases k) (simp_all add: private_from_str_def private_to_prefixed_string_def)
  from public_hex_roundtrip [OF assms(1,3)] show "web_key_of_repr p h (web_key_to_repr h w) = Ok w"
    by (simp add: web_key_of_repr_def web_key_to_repr_def algorithm_string_display algorithm_roundtrip)
qed

theorem key_text_roundtrip_witness:
  "private_from_str demo sample_hex
     (private_to_prefixed_string sample_hex (P256_private (replicate 32 7))) =
     Ok (P256_private (replicate 32 7)) \<and>
   web_key_of_repr demo sample_hex (web_key_to_repr sample_hex sample_web_key) = Ok sample_web_key"
proof -
  have valid: "valid_private demo (P256_private (replicate 32 7))"
    "valid_public demo (wk_public_key sample_web_key)"
    by (simp_all add: demo_def sample_web_key_def)
  from key_text_roundtrip [OF sample_hex_ok valid] show ?thesis by blast
qed

text \<open>
  The message that the module \<open>p256\<close> makes of its keys names the algorithm Ed25519: the
  decoder of public keys refuses it, for the size of the key.
\<close>

theorem p256_proto_not_read:
  assumes "valid_public p (P256_key k)"
  shows "public_from_proto p (p256_to_proto k) = Err (InvalidKeySize 33)"
  using assms by (simp add: public_from_proto_def p256_to_proto_def ed_public_from_bytes_def)

theorem p256_proto_not_read_witness:
  "public_from_proto demo (p256_to_proto (replicate 33 1)) = Err (InvalidKeySize 33)"
  by (rule p256_proto_not_read) (simp add: demo_def)

end
