(* ===== verification/Parsed.thy ===== *)
theory Parsed
  imports Blocks
begin

text \<open>
  What the parser produces (\<open>biscuit-parser/src/builder.rs\<close>), its conversion to the objects of the
  builder (\<open>From\<close> in \<open>token/builder/*.rs\<close>), and the parts of \<open>biscuit-parser/src/parser.rs\<close> that are
  not grammar: assembling operators into expressions, the elements of a set, and the loops that
  read a source statement by statement and recover from an error at the next semicolon.  The
  grammar itself is written with the combinators of the crate \<open>nom\<close>; the parser of one statement
  is a parameter of the loops.

  Lemmas: when the parser of a statement consumes input, the loops return, and succeed exactly on
  a sequence of statements; adding code to a builder leaves its scopes as they were.
\<close>

section \<open>Terms\<close>

datatype ast_key = AKParameter string | AKInteger i64 | AKStr string

datatype ast_term =
    AVariable string
  | AInteger i64
  | AStr string
  | ADate nat
  | ABytes bytes
  | ABool bool
  | ASet "ast_term list"
  | AParameter string
  | ANull
  | AArray "ast_term list"
  | AMap "(ast_key \<times> ast_term) list"

type_synonym ast_params = "(string \<times> ast_term option) list"

fun ast_key_parameters :: "ast_key \<Rightarrow> string list" where
  "ast_key_parameters (AKParameter p) = [p]"
| "ast_key_parameters _ = []"

fun ast_term_parameters :: "ast_term \<Rightarrow> string list" where
  "ast_term_parameters (AParameter p) = [p]"
| "ast_term_parameters (ASet ts) = concat (map ast_term_parameters ts)"
| "ast_term_parameters (AArray ts) = concat (map ast_term_parameters ts)"
| "ast_term_parameters (AMap m) =
     concat (map (\<lambda>(k, t). ast_key_parameters k @ ast_term_parameters t) m)"
| "ast_term_parameters _ = []"

definition ast_extract_parameters :: "ast_term \<Rightarrow> ast_params \<Rightarrow> ast_params" where
  "ast_extract_parameters t ps = fold (\<lambda>p m. AList.update p None m) (ast_term_parameters t) ps"

fun key_from_ast :: "ast_key \<Rightarrow> bkey" where
  "key_from_ast (AKParameter s) = BKParameter s"
| "key_from_ast (AKInteger i) = BKInteger i"
| "key_from_ast (AKStr s) = BKStr s"

text \<open>Sets and maps are collected anew: the order of map keys differs between the two crates.\<close>

fun term_from_ast :: "ast_term \<Rightarrow> bterm" where
  "term_from_ast (AVariable v) = BVariable v"
| "term_from_ast (AInteger i) = BInteger i"
| "term_from_ast (AStr s) = BStr s"
| "term_from_ast (ADate d) = BDate d"
| "term_from_ast (ABytes b) = BBytes b"
| "term_from_ast (ABool b) = BBool b"
| "term_from_ast (ASet ts) = BSet (bt_of_list (map term_from_ast ts))"
| "term_from_ast ANull = BNull"
| "term_from_ast (AParameter p) = BParameter p"
| "term_from_ast (AArray ts) = BArray (map term_from_ast ts)"
| "term_from_ast (AMap m) = BMap (bm_of_list (map (\<lambda>(k, t). (key_from_ast k, term_from_ast t)) m))"

section \<open>Predicates, facts and expressions\<close>

record ast_predicate =
  as_name :: string
  as_terms :: "ast_term list"

record ast_fact =
  af_predicate :: ast_predicate
  af_parameters :: "ast_params option"

definition ast_fact_new :: "string \<Rightarrow> ast_term list \<Rightarrow> ast_fact" where
  "ast_fact_new name ts =
     \<lparr>af_predicate = \<lparr>as_name = name, as_terms = ts\<rparr>,
      af_parameters = Some (fold ast_extract_parameters ts [])\<rparr>"

definition predicate_from_ast :: "ast_predicate \<Rightarrow> bpredicate" where
  "predicate_from_ast p = \<lparr>bp_name = as_name p, bp_terms = map term_from_ast (as_terms p)\<rparr>"

definition params_from_ast :: "ast_params option \<Rightarrow> params option" where
  "params_from_ast = map_option (map (\<lambda>(k, v). (k, map_option term_from_ast v)))"

definition fact_from_ast :: "ast_fact \<Rightarrow> bfact" where
  "fact_from_ast f =
     \<lparr>bf_predicate = predicate_from_ast (af_predicate f), bf_parameters = params_from_ast (af_parameters f)\<rparr>"

datatype ast_unary = ANegate | AParens | ALength | ATypeOf | AFfi_unary string

datatype ast_binary =
    ALessThan | AGreaterThan | ALessOrEqual | AGreaterOrEqual | AEqual | AContains
  | APrefix | ASuffix | ARegex | AAdd | ASub | AMul
  | ADiv | AAnd_op | AOr_op | AIntersection | AUnion_op | ABitwiseAnd
  | ABitwiseOr | ABitwiseXor | ANotEqual | AHeterogeneousEqual | AHeterogeneousNotEqual | ALazyAnd
  | ALazyOr | AAll_op | AAny_op | AGet | AFfi string | ATryOr

datatype ast_op = AValue ast_term | AUnary ast_unary | ABinary ast_binary | AClosure "string list" "ast_op list"

record ast_expression =
  ae_ops :: "ast_op list"

text \<open>Unlike in the builder, the parameters inside a collection count.\<close>

fun ast_op_collect :: "ast_op \<Rightarrow> ast_params \<Rightarrow> ast_params" where
  "ast_op_collect (AValue t) ps = ast_extract_parameters t ps"
| "ast_op_collect (AClosure _ ops) ps = fold ast_op_collect ops ps"
| "ast_op_collect _ ps = ps"

fun unary_from_ast :: "ast_unary \<Rightarrow> bunary" where
  "unary_from_ast ANegate = BNegate"
| "unary_from_ast AParens = BParens"
| "unary_from_ast ALength = BLength"
| "unary_from_ast ATypeOf = BTypeOf"
| "unary_from_ast (AFfi_unary name) = BFfi_unary name"

fun binary_from_ast :: "ast_binary \<Rightarrow> bbinary" where
  "binary_from_ast ALessThan = BLessThan"
| "binary_from_ast AGreaterThan = BGreaterThan"
| "binary_from_ast ALessOrEqual = BLessOrEqual"
| "binary_from_ast AGreaterOrEqual = BGreaterOrEqual"
| "binary_from_ast AEqual = BEqual"
| "binary_from_ast AContains = BContains"
| "binary_from_ast APrefix = BPrefix"
| "binary_from_ast ASuffix = BSuffix"
| "binary_from_ast ARegex = BRegex"
| "binary_from_ast AAdd = BAdd"
| "binary_from_ast ASub = BSub"
| "binary_from_ast AMul = BMul"
| "binary_from_ast ADiv = BDiv"
| "binary_from_ast AAnd_op = BAnd_op"
| "binary_from_ast AOr_op = BOr_op"
| "binary_from_ast AIntersection = BIntersection"
| "binary_from_ast AUnion_op = BUnion_op"
| "binary_from_ast ABitwiseAnd = BBitwiseAnd"
| "binary_from_ast ABitwiseOr = BBitwiseOr"
| "binary_from_ast ABitwiseXor = BBitwiseXor"
| "binary_from_ast ANotEqual = BNotEqual"
| "binary_from_ast AHeterogeneousEqual = BHeterogeneousEqual"
| "binary_from_ast AHeterogeneousNotEqual = BHeterogeneousNotEqual"
| "binary_from_ast ALazyAnd = BLazyAnd"
| "binary_from_ast ALazyOr = BLazyOr"
| "binary_from_ast AAll_op = BAll_op"
| "binary_from_ast AAny_op = BAny_op"
| "binary_from_ast AGet = BGet"
| "binary_from_ast (AFfi name) = BFfi name"
| "binary_from_ast ATryOr = BTryOr"

fun op_from_ast :: "ast_op \<Rightarrow> bop" where
  "op_from_ast (AValue t) = BValue (term_from_ast t)"
| "op_from_ast (AUnary u) = BUnary (unary_from_ast u)"
| "op_from_ast (ABinary b) = BBinary (binary_from_ast b)"
| "op_from_ast (AClosure ps ops) = BClosure ps (map op_from_ast ops)"

definition expression_from_ast :: "ast_expression \<Rightarrow> bexpression" where
  "expression_from_ast e = \<lparr>be_ops = map op_from_ast (ae_ops e)\<rparr>"

section \<open>Rules, checks and policies\<close>

record ast_public_key =
  ak_key :: bytes
  ak_algorithm :: algorithm

datatype ast_scope = AScope_Authority | AScope_Previous | AScope_PublicKey ast_public_key | AScope_Parameter string

type_synonym ast_scope_params = "(string \<times> ast_public_key option) list"

record ast_rule =
  ar_head :: ast_predicate
  ar_body :: "ast_predicate list"
  ar_expressions :: "ast_expression list"
  ar_parameters :: "ast_params option"
  ar_scopes :: "ast_scope list"
  ar_scope_parameters :: "ast_scope_params option"

fun ast_scope_collect :: "ast_scope \<Rightarrow> ast_scope_params \<Rightarrow> ast_scope_params" where
  "ast_scope_collect (AScope_Parameter p) ps = AList.update p None ps"
| "ast_scope_collect _ ps = ps"

definition ast_rule_new ::
    "ast_predicate \<Rightarrow> ast_predicate list \<Rightarrow> ast_expression list \<Rightarrow> ast_scope list \<Rightarrow> ast_rule" where
  "ast_rule_new head body es scopes =
     (let ps = fold ast_extract_parameters (as_terms head) [];
          ps = fold (\<lambda>p. fold ast_extract_parameters (as_terms p)) body ps;
          ps = fold (\<lambda>e. fold ast_op_collect (ae_ops e)) es ps
      in \<lparr>ar_head = head, ar_body = body, ar_expressions = es, ar_parameters = Some ps,
          ar_scopes = scopes, ar_scope_parameters = Some (fold ast_scope_collect scopes [])\<rparr>)"

fun ast_variables :: "ast_term list \<Rightarrow> string list" where
  "ast_variables [] = []"
| "ast_variables (AVariable v # ts) = v # ast_variables ts"
| "ast_variables (_ # ts) = ast_variables ts"

fun ast_op_variables :: "ast_op list \<Rightarrow> string list" where
  "ast_op_variables [] = []"
| "ast_op_variables (AValue (AVariable v) # ops) = v # ast_op_variables ops"
| "ast_op_variables (_ # ops) = ast_op_variables ops"

text \<open>
  The loops of \<open>validate_variables\<close> collect the variables of the head and of the expressions, and
  remove those of the body; the ones left over are the ones the error message lists.
\<close>

definition ast_free_variables :: "ast_rule \<Rightarrow> string list" where
  "ast_free_variables r =
     filter (\<lambda>v. v \<notin> set (concat (map (\<lambda>p. ast_variables (as_terms p)) (ar_body r))))
       (remdups (ast_variables (as_terms (ar_head r)) @
          concat (map (\<lambda>e. ast_op_variables (ae_ops e)) (ar_expressions r))))"

definition unbound_message :: "string \<Rightarrow> string list \<Rightarrow> string" where
  "unbound_message what vs = what @ join '', '' (map (\<lambda>v. ''$'' @ v) vs)"

definition ast_validate_variables :: "ast_rule \<Rightarrow> (string, unit) outcome" where
  "ast_validate_variables r =
     (if ast_free_variables r = [] then Ok ()
      else Err (unbound_message
        (''the rule contains variables that are not bound by predicates in the rule'' @ [CHR 0x27] @ ''s body: '')
        (ast_free_variables r)))"

record ast_check =
  ac_queries :: "ast_rule list"
  ac_kind :: check_kind

record ast_policy =
  ay_queries :: "ast_rule list"
  ay_kind :: policy_kind

text \<open>\<open>PublicKey::from_bytes(..).expect("invalid public key")\<close>: \<open>None\<close> is the panic.\<close>

definition key_from_ast_key :: "primitives \<Rightarrow> ast_public_key \<Rightarrow> public_key option" where
  "key_from_ast_key p k =
     (case public_from_bytes p (ak_key k) (ak_algorithm k) of Ok key \<Rightarrow> Some key | _ \<Rightarrow> None)"

fun scope_from_ast :: "primitives \<Rightarrow> ast_scope \<Rightarrow> bscope option" where
  "scope_from_ast p AScope_Authority = Some BScope_Authority"
| "scope_from_ast p AScope_Previous = Some BScope_Previous"
| "scope_from_ast p (AScope_PublicKey k) = map_option BScope_PublicKey (key_from_ast_key p k)"
| "scope_from_ast p (AScope_Parameter s) = Some (BScope_Parameter s)"

fun scope_param_from_ast ::
    "primitives \<Rightarrow> string \<times> ast_public_key option \<Rightarrow> (string \<times> public_key option) option" where
  "scope_param_from_ast p (name, None) = Some (name, None)"
| "scope_param_from_ast p (name, Some k) = map_option (\<lambda>key. (name, Some key)) (key_from_ast_key p k)"

definition scope_params_from_ast ::
    "primitives \<Rightarrow> ast_scope_params option \<Rightarrow> (string \<times> public_key option) list option option" where
  "scope_params_from_ast p ps =
     (case ps of None \<Rightarrow> Some None | Some xs \<Rightarrow> map_option Some (those (map (scope_param_from_ast p) xs)))"

definition rule_from_ast :: "primitives \<Rightarrow> ast_rule \<Rightarrow> brule option" where
  "rule_from_ast p r =
     (case those (map (scope_from_ast p) (ar_scopes r)) of None \<Rightarrow> None
      | Some scopes \<Rightarrow>
          map_option
            (\<lambda>scope_params.
              \<lparr>br_head = predicate_from_ast (ar_head r), br_body = map predicate_from_ast (ar_body r),
               br_expressions = map expression_from_ast (ar_expressions r),
               br_parameters = params_from_ast (ar_parameters r), br_scopes = scopes,
               br_scope_parameters = scope_params\<rparr>)
            (scope_params_from_ast p (ar_scope_parameters r)))"

definition check_from_ast :: "primitives \<Rightarrow> ast_check \<Rightarrow> bcheck option" where
  "check_from_ast p c =
     map_option (\<lambda>qs. \<lparr>bc_queries = qs, bc_kind = ac_kind c\<rparr>) (those (map (rule_from_ast p) (ac_queries c)))"

definition policy_from_ast :: "primitives \<Rightarrow> ast_policy \<Rightarrow> policy option" where
  "policy_from_ast p c =
     map_option (\<lambda>qs. \<lparr>po_queries = qs, po_kind = ay_kind c\<rparr>) (those (map (rule_from_ast p) (ay_queries c)))"

section \<open>Expressions, assembled\<close>

text \<open>\<open>Expr\<close>: the tree that the levels of the expression grammar build.\<close>

datatype ast_expr =
    XValue ast_term
  | XUnary ast_op ast_expr
  | XBinary ast_op ast_expr ast_expr
  | XClosure "string list" ast_expr

fun ast_opcodes :: "ast_expr \<Rightarrow> ast_op list" where
  "ast_opcodes (XValue t) = [AValue t]"
| "ast_opcodes (XUnary u e) = ast_opcodes e @ [u]"
| "ast_opcodes (XBinary b l r) = ast_opcodes l @ ast_opcodes r @ [b]"
| "ast_opcodes (XClosure ps e) = [AClosure ps (ast_opcodes e)]"

text \<open>\<open>fold_exprs\<close>: a chain of operators of one level, to the left; \<open>&&\<close> and \<open>||\<close> are lazy.\<close>

definition chain_step :: "ast_expr \<Rightarrow> ast_binary \<times> ast_expr \<Rightarrow> ast_expr" where
  "chain_step acc pr =
     (case pr of (b, e) \<Rightarrow>
        if b = ALazyAnd \<or> b = ALazyOr then XBinary (ABinary b) acc (XClosure [] e)
        else XBinary (ABinary b) acc e)"

definition fold_exprs :: "ast_expr \<Rightarrow> (ast_binary \<times> ast_expr) list \<Rightarrow> ast_expr" where
  "fold_exprs initial remainder = foldl chain_step initial remainder"

text \<open>The calls after an expression (\<open>expr9\<close>): \<open>all\<close> and \<open>any\<close> come with a parameter.\<close>

datatype ast_method =
    Method_binary ast_binary "string list option" ast_expr
  | Method_unary ast_unary

fun apply_method :: "ast_expr \<Rightarrow> ast_method \<Rightarrow> ast_expr" where
  "apply_method initial (Method_binary b params arg) =
     (if b = ATryOr then XBinary (ABinary b) (XClosure [] initial) arg
      else case params of
        Some ps \<Rightarrow> XBinary (ABinary b) initial (XClosure ps arg)
      | None \<Rightarrow> XBinary (ABinary b) initial arg)"
| "apply_method initial (Method_unary u) = XUnary (AUnary u) initial"

section \<open>The elements of a set\<close>

definition set_kind :: "ast_term \<Rightarrow> (string, nat) outcome" where
  "set_kind t =
     (case t of
        AVariable _ \<Rightarrow> Err ''variables are not permitted in sets''
      | AInteger _ \<Rightarrow> Ok 2
      | AStr _ \<Rightarrow> Ok 3
      | ADate _ \<Rightarrow> Ok 4
      | ABytes _ \<Rightarrow> Ok 5
      | ABool _ \<Rightarrow> Ok 6
      | ASet _ \<Rightarrow> Err ''sets cannot contain other sets''
      | AParameter _ \<Rightarrow> Ok 7
      | ANull \<Rightarrow> Ok 8
      | AArray _ \<Rightarrow> Ok 9
      | AMap _ \<Rightarrow> Ok 10)"

text \<open>The set is listed in the order of insertion; its conversion sorts it.\<close>

fun set_elements :: "nat option \<Rightarrow> ast_term list \<Rightarrow> ast_term list \<Rightarrow> (string, ast_term list) outcome" where
  "set_elements kind acc [] = Ok acc"
| "set_elements kind acc (t # ts) =
     obind (set_kind t) (\<lambda>index.
       if kind \<noteq> None \<and> kind \<noteq> Some index then Err ''set elements must have the same type''
       else set_elements (Some index) (List.insert t acc) ts)"

section \<open>Reading a source\<close>

text \<open>
  What a parser of the crate \<open>nom\<close> answers: the rest of the input and a value, a request for more
  input, or an error.  An error points into the input: at its offset, with the text from there on.
\<close>

record parse_failure =
  pf_offset :: nat
  pf_input :: string
  pf_message :: "string option"

datatype 'a parsed = PDone string 'a | PIncomplete | PError parse_failure | PFailure parse_failure

record ast_source =
  sr_scopes :: "ast_scope list"
  sr_facts :: "(string \<times> ast_fact) list"
  sr_rules :: "(string \<times> ast_rule) list"
  sr_checks :: "(string \<times> ast_check) list"
  sr_policies :: "(string \<times> ast_policy) list"

definition source_empty :: ast_source where
  "source_empty = \<lparr>sr_scopes = [], sr_facts = [], sr_rules = [], sr_checks = [], sr_policies = []\<rparr>"

datatype source_element =
    El_Fact string ast_fact
  | El_Rule string ast_rule
  | El_Check string ast_check
  | El_Policy string ast_policy
  | El_Comment

fun push_element :: "source_element \<Rightarrow> ast_source \<Rightarrow> ast_source" where
  "push_element (El_Fact i f) r = r\<lparr>sr_facts := sr_facts r @ [(i, f)]\<rparr>"
| "push_element (El_Rule i f) r = r\<lparr>sr_rules := sr_rules r @ [(i, f)]\<rparr>"
| "push_element (El_Check i c) r = r\<lparr>sr_checks := sr_checks r @ [(i, c)]\<rparr>"
| "push_element (El_Policy i p) r = r\<lparr>sr_policies := sr_policies r @ [(i, p)]\<rparr>"
| "push_element El_Comment r = r"

text \<open>The source of a block has no policies.\<close>

fun push_block_element :: "source_element \<Rightarrow> ast_source \<Rightarrow> ast_source" where
  "push_block_element (El_Policy i p) r = r"
| "push_block_element e r = push_element e r"

text \<open>An error is cut at the first semicolon, and reading resumes after it.\<close>

definition cut_failure :: "parse_failure \<Rightarrow> parse_failure" where
  "cut_failure e =
     (case position (CHR '';'') (pf_input e) of
        Some index \<Rightarrow> e\<lparr>pf_input := take index (pf_input e)\<rparr>
      | None \<Rightarrow> e)"

definition resume :: "string \<Rightarrow> parse_failure \<Rightarrow> string" where
  "resume i e =
     (case position (CHR '';'') (drop (pf_offset e) i) of
        Some index \<Rightarrow> drop (pf_offset e + index + 1) i
      | None \<Rightarrow> [])"

partial_function (option) source_loop ::
    "(string \<Rightarrow> source_element parsed) \<Rightarrow> (source_element \<Rightarrow> ast_source \<Rightarrow> ast_source) \<Rightarrow> string \<Rightarrow> ast_source \<Rightarrow>
     parse_failure list \<Rightarrow> (parse_failure list, ast_source) outcome option" where
  "source_loop element push i result errors =
     (if i = [] then Some (if errors = [] then Ok result else Err errors)
      else case element i of
        PDone i2 x \<Rightarrow> source_loop element push i2 (push x result) errors
      | PIncomplete \<Rightarrow> Some Panic
      | PError e \<Rightarrow> source_loop element push (resume i (cut_failure e)) result (errors @ [cut_failure e])
      | PFailure e \<Rightarrow> source_loop element push (resume i (cut_failure e)) result (errors @ [cut_failure e]))"

definition parse_source ::
    "(string \<Rightarrow> source_element parsed) \<Rightarrow> string \<Rightarrow> (parse_failure list, ast_source) outcome option" where
  "parse_source element i = source_loop element push_element i source_empty []"

definition parse_block_source ::
    "(string \<Rightarrow> ast_scope list option parsed) \<Rightarrow> (string \<Rightarrow> source_element parsed) \<Rightarrow> string \<Rightarrow>
     (parse_failure list, ast_source) outcome option" where
  "parse_block_source scopes element i =
     (case scopes i of
        PDone i2 None \<Rightarrow> source_loop element push_block_element i source_empty []
      | PDone i2 (Some xs) \<Rightarrow> source_loop element push_block_element i2 (source_empty\<lparr>sr_scopes := xs\<rparr>) []
      | PIncomplete \<Rightarrow> Some Panic
      | PError e \<Rightarrow> source_loop element push_block_element (resume i (cut_failure e)) source_empty [cut_failure e]
      | PFailure e \<Rightarrow> source_loop element push_block_element (resume i (cut_failure e)) source_empty [cut_failure e])"

section \<open>Code given as text\<close>

definition parse_error_of :: "parse_failure \<Rightarrow> parse_error" where
  "parse_error_of e = \<lparr>pe_input = pf_input e, pe_message = pf_message e\<rparr>"

definition language_error_of :: "parse_failure list \<Rightarrow> language_error" where
  "language_error_of es = ParseError (map parse_error_of es)"

fun code_rules ::
    "primitives \<Rightarrow> (string \<times> bterm) list \<Rightarrow> (string \<times> public_key) list \<Rightarrow> ast_rule list \<Rightarrow> block_builder \<Rightarrow>
     (token_error, block_builder) outcome" where
  "code_rules p params scope_params [] bb = Ok bb"
| "code_rules p params scope_params (r # rs) bb =
     obind (or_panic (rule_from_ast p r)) (\<lambda>r'.
     obind (bb_code_rules params scope_params [r'] bb) (code_rules p params scope_params rs))"

fun code_checks ::
    "primitives \<Rightarrow> (string \<times> bterm) list \<Rightarrow> (string \<times> public_key) list \<Rightarrow> ast_check list \<Rightarrow> block_builder \<Rightarrow>
     (token_error, block_builder) outcome" where
  "code_checks p params scope_params [] bb = Ok bb"
| "code_checks p params scope_params (c # cs) bb =
     obind (or_panic (check_from_ast p c)) (\<lambda>c'.
     obind (bb_code_checks params scope_params [c'] bb) (code_checks p params scope_params cs))"

definition code_source ::
    "primitives \<Rightarrow> (string \<times> bterm) list \<Rightarrow> (string \<times> public_key) list \<Rightarrow> ast_source \<Rightarrow> block_builder \<Rightarrow>
     (token_error, block_builder) outcome" where
  "code_source p params scope_params src bb =
     obind (bb_code_facts params (map (\<lambda>(_, f). fact_from_ast f) (sr_facts src)) bb) (\<lambda>bb1.
     obind (code_rules p params scope_params (map snd (sr_rules src)) bb1) (\<lambda>bb2.
       code_checks p params scope_params (map snd (sr_checks src)) bb2))"

text \<open>\<open>BlockBuilder::code_with_params\<close> and \<open>BlockBuilder::code\<close>; \<open>None\<close> when the parser does not return.\<close>

definition bb_code_text_with_params ::
    "primitives \<Rightarrow> (string \<Rightarrow> ast_scope list option parsed) \<Rightarrow> (string \<Rightarrow> source_element parsed) \<Rightarrow> string \<Rightarrow>
     (string \<times> bterm) list \<Rightarrow> (string \<times> public_key) list \<Rightarrow> block_builder \<Rightarrow>
     (token_error, block_builder) outcome option" where
  "bb_code_text_with_params p scopes element source params scope_params bb =
     map_option
       (\<lambda>res. obind (omap_err (\<lambda>es. Token_Language (language_error_of es)) res)
          (\<lambda>src. code_source p params scope_params src bb))
       (parse_block_source scopes element source)"

definition bb_code_text ::
    "primitives \<Rightarrow> (string \<Rightarrow> ast_scope list option parsed) \<Rightarrow> (string \<Rightarrow> source_element parsed) \<Rightarrow> string \<Rightarrow>
     block_builder \<Rightarrow> (token_error, block_builder) outcome option" where
  "bb_code_text p scopes element source bb = bb_code_text_with_params p scopes element source [] [] bb"

section \<open>The loops return\<close>

text \<open>A parser of one statement that, when it succeeds, has consumed some of the input.\<close>

definition consuming :: "(string \<Rightarrow> 'a parsed) \<Rightarrow> bool" where
  "consuming element \<longleftrightarrow> (\<forall>i i2 x. element i = PDone i2 x \<longrightarrow> length i2 < length i)"

lemma consumingD: "consuming element \<Longrightarrow> element i = PDone i2 x \<Longrightarrow> length i2 < length i"
  by (auto simp: consuming_def)

lemma position_less: "position x xs = Some k \<Longrightarrow> k < length xs"
  by (induction xs arbitrary: k) (auto split: if_splits)

lemma position_take: "position x xs = Some k \<Longrightarrow> x \<notin> set (take k xs)"
  by (induction xs arbitrary: k) (auto split: if_splits)

lemma position_None: "position x xs = None \<Longrightarrow> x \<notin> set xs"
  by (induction xs) (auto split: if_splits)

lemma resume_shorter: "i \<noteq> [] \<Longrightarrow> length (resume i e) < length i"
  by (auto simp: resume_def dest: position_less split: option.splits)

lemma cut_failure_no_semicolon: "CHR '';'' \<notin> set (pf_input (cut_failure e))"
  by (auto simp: cut_failure_def dest: position_take position_None split: option.splits)

text \<open>The source is a sequence of statements, read one after the other.\<close>

inductive reads :: "(string \<Rightarrow> 'a parsed) \<Rightarrow> string \<Rightarrow> 'a list \<Rightarrow> bool" for element where
  reads_end: "reads element [] []"
| reads_step: "i \<noteq> [] \<Longrightarrow> element i = PDone i2 x \<Longrightarrow> reads element i2 xs \<Longrightarrow> reads element i (x # xs)"

inductive_simps reads_Nil [simp]: "reads element [] xs"

inductive_cases reads_nonempty: "reads element i xs"

text \<open>What the loop answers, from any state.\<close>

definition loop_answers ::
    "(string \<Rightarrow> source_element parsed) \<Rightarrow> (source_element \<Rightarrow> ast_source \<Rightarrow> ast_source) \<Rightarrow> string \<Rightarrow> ast_source \<Rightarrow>
     parse_failure list \<Rightarrow> (parse_failure list, ast_source) outcome option \<Rightarrow> bool" where
  "loop_answers element push i result errors ans \<longleftrightarrow>
     (case ans of
        None \<Rightarrow> False
      | Some (Ok r) \<Rightarrow> errors = [] \<and> (\<exists>xs. reads element i xs \<and> r = fold push xs result)
      | Some (Err es) \<Rightarrow>
          (\<exists>fs. es = errors @ fs \<and> (\<forall>e \<in> set fs. CHR '';'' \<notin> set (pf_input e))) \<and>
          es \<noteq> [] \<and> (errors = [] \<longrightarrow> (\<forall>xs. \<not> reads element i xs))
      | Some Panic \<Rightarrow> \<forall>xs. \<not> reads element i xs)"

lemma source_loop_answers:
  assumes "consuming element"
  shows "loop_answers element push i result errors (source_loop element push i result errors)"
proof (induction i arbitrary: result errors rule: measure_induct_rule [of length])
  case (less i)
  show ?case
  proof (cases "i = []")
    case True
    then show ?thesis by (auto simp: loop_answers_def source_loop.simps)
  next
    case False
    show ?thesis
    proof (cases "element i")
      case (PDone i2 x)
      have step: "source_loop element push i result errors = source_loop element push i2 (push x result) errors"
        using False PDone by (subst source_loop.simps) simp
      have reads: "reads element i xs \<longleftrightarrow> (\<exists>ys. xs = x # ys \<and> reads element i2 ys)" for xs
        using False PDone by (auto intro: reads_step elim: reads_nonempty)
      have "loop_answers element push i2 (push x result) errors
          (source_loop element push i2 (push x result) errors)"
        by (rule less.IH) (rule consumingD [OF assms PDone])
      then show ?thesis unfolding step loop_answers_def
        by (auto simp: reads split: option.splits outcome.splits)
    next
      case PIncomplete
      then have "\<not> reads element i xs" for xs using False by (auto elim: reads_nonempty)
      then show ?thesis using False PIncomplete by (simp add: loop_answers_def source_loop.simps)
    next
      case (PError e)
      have step: "source_loop element push i result errors =
          source_loop element push (resume i (cut_failure e)) result (errors @ [cut_failure e])"
        using False PError by (subst source_loop.simps) simp
      have none: "\<not> reads element i xs" for xs using PError False by (auto elim: reads_nonempty)
      have "loop_answers element push (resume i (cut_failure e)) result (errors @ [cut_failure e])
          (source_loop element push (resume i (cut_failure e)) result (errors @ [cut_failure e]))"
        by (rule less.IH) (rule resume_shorter [OF False])
      then show ?thesis unfolding step loop_answers_def
        using cut_failure_no_semicolon [of e] by (auto simp: none split: option.splits outcome.splits)
    next
      case (PFailure e)
      have step: "source_loop element push i result errors =
          source_loop element push (resume i (cut_failure e)) result (errors @ [cut_failure e])"
        using False PFailure by (subst source_loop.simps) simp
      have none: "\<not> reads element i xs" for xs using PFailure False by (auto elim: reads_nonempty)
      have "loop_answers element push (resume i (cut_failure e)) result (errors @ [cut_failure e])
          (source_loop element push (resume i (cut_failure e)) result (errors @ [cut_failure e]))"
        by (rule less.IH) (rule resume_shorter [OF False])
      then show ?thesis unfolding step loop_answers_def
        using cut_failure_no_semicolon [of e] by (auto simp: none split: option.splits outcome.splits)
    qed
  qed
qed

lemma reads_unique: "reads element i xs \<Longrightarrow> reads element i ys \<Longrightarrow> xs = ys"
proof (induction arbitrary: ys rule: reads.induct)
  case reads_end
  then show ?case by simp
next
  case (reads_step i i2 x xs)
  from reads_step.prems reads_step.hyps(1) obtain j y zs
    where "ys = y # zs" "element i = PDone j y" "reads element j zs" by (blast elim: reads_nonempty)
  with reads_step.hyps(2) reads_step.IH [of zs] show ?case by simp
qed

text \<open>
  C23: reading a source returns, whatever the text, when the parser of a statement consumes what it
  accepts; it succeeds exactly when the text is a sequence of statements, with these statements in
  order, and otherwise reports at least one error, none of which goes past a semicolon.
\<close>

theorem parse_source_reads:
  assumes "consuming element"
  shows "parse_source element i \<noteq> None \<and>
    (parse_source element i = Some (Ok r) \<longleftrightarrow> (\<exists>xs. reads element i xs \<and> r = fold push_element xs source_empty)) \<and>
    (parse_source element i = Some (Err es) \<longrightarrow> es \<noteq> [] \<and> (\<forall>e \<in> set es. CHR '';'' \<notin> set (pf_input e)))"
proof -
  let ?m = "source_loop element push_element i source_empty []"
  have ans: "loop_answers element push_element i source_empty [] ?m"
    by (rule source_loop_answers [OF assms])
  show ?thesis
  proof (cases ?m)
    case None
    with ans show ?thesis by (simp add: loop_answers_def)
  next
    case (Some res)
    show ?thesis
    proof (cases res)
      case (Ok r')
      with ans Some obtain xs where xs: "reads element i xs" "r' = fold push_element xs source_empty"
        by (auto simp: loop_answers_def)
      have "r' = r \<longleftrightarrow> (\<exists>ys. reads element i ys \<and> r = fold push_element ys source_empty)"
        using xs reads_unique [OF _ xs(1)] by blast
      with Some Ok show ?thesis by (simp add: parse_source_def)
    next
      case (Err es')
      with ans Some show ?thesis by (auto simp: loop_answers_def parse_source_def)
    next
      case Panic
      with ans Some show ?thesis by (auto simp: loop_answers_def parse_source_def)
    qed
  qed
qed

text \<open>A statement that is a bare name up to a semicolon.\<close>

definition sample_element :: "string \<Rightarrow> source_element parsed" where
  "sample_element i =
     (case position (CHR '';'') i of
        Some k \<Rightarrow> PDone (drop (k + 1) i) (El_Fact (take k i) (ast_fact_new (take k i) []))
      | None \<Rightarrow> PError \<lparr>pf_offset = 0, pf_input = i, pf_message = None\<rparr>)"

lemma sample_element_consuming: "consuming sample_element"
  by (auto simp: consuming_def sample_element_def dest!: position_less split: option.splits)

theorem parse_source_reads_witness:
  "parse_source sample_element ''a;b;'' =
     Some (Ok (source_empty\<lparr>sr_facts := [(''a'', ast_fact_new ''a'' []), (''b'', ast_fact_new ''b'' [])]\<rparr>))"
proof -
  have "reads sample_element ''a;b;'' [El_Fact ''a'' (ast_fact_new ''a'' []), El_Fact ''b'' (ast_fact_new ''b'' [])]"
    by (rule reads_step [where ?i2.0 = "''b;''"], simp, simp add: sample_element_def,
        rule reads_step [where ?i2.0 = "[]"]) (simp_all add: sample_element_def)
  then show ?thesis
    using parse_source_reads [OF sample_element_consuming, of "''a;b;''"
        "source_empty\<lparr>sr_facts := [(''a'', ast_fact_new ''a'' []), (''b'', ast_fact_new ''b'' [])]\<rparr>" "[]"]
    by (force simp: source_empty_def)
qed

section \<open>Code does not set scopes\<close>

lemma bb_code_facts_scopes: "bb_code_facts params fs bb = Ok bb' \<Longrightarrow> bb_scopes bb' = bb_scopes bb \<and> bb_context bb' = bb_context bb"
  by (induction params fs bb rule: bb_code_facts.induct) (auto simp: outcome_simps bb_fact_def)

lemma bb_code_rules_scopes: "bb_code_rules params sps rs bb = Ok bb' \<Longrightarrow> bb_scopes bb' = bb_scopes bb \<and> bb_context bb' = bb_context bb"
  by (induction params sps rs bb rule: bb_code_rules.induct) (auto simp: outcome_simps bb_rule_def)

lemma bb_code_checks_scopes: "bb_code_checks params sps cs bb = Ok bb' \<Longrightarrow> bb_scopes bb' = bb_scopes bb \<and> bb_context bb' = bb_context bb"
  by (induction params sps cs bb rule: bb_code_checks.induct) (auto simp: outcome_simps bb_check_def)

lemma code_rules_scopes: "code_rules p params sps rs bb = Ok bb' \<Longrightarrow> bb_scopes bb' = bb_scopes bb \<and> bb_context bb' = bb_context bb"
  by (induction p params sps rs bb rule: code_rules.induct)
    (fastforce simp: outcome_simps simp del: bb_code_rules.simps dest: bb_code_rules_scopes)+

lemma code_checks_scopes: "code_checks p params sps cs bb = Ok bb' \<Longrightarrow> bb_scopes bb' = bb_scopes bb \<and> bb_context bb' = bb_context bb"
  by (induction p params sps cs bb rule: code_checks.induct)
    (fastforce simp: outcome_simps simp del: bb_code_checks.simps dest: bb_code_checks_scopes)+

lemma code_source_scopes: "code_source p params sps src bb = Ok bb' \<Longrightarrow> bb_scopes bb' = bb_scopes bb \<and> bb_context bb' = bb_context bb"
  by (auto simp: code_source_def outcome_simps dest!: bb_code_facts_scopes code_rules_scopes code_checks_scopes)

text \<open>
  the scopes at the head of a block's source are parsed and dropped: code never changes the
  scopes of the builder it is added to.
\<close>

theorem code_drops_scopes:
  assumes "bb_code_text_with_params p scopes element source params scope_params bb = Some (Ok bb')"
  shows "bb_scopes bb' = bb_scopes bb"
  using assms code_source_scopes by (fastforce simp: bb_code_text_with_params_def outcome_simps)

text \<open>The text of a block that trusts all previous blocks and has one fact.\<close>

definition sample_scopes :: "string \<Rightarrow> ast_scope list option parsed" where
  "sample_scopes i = PDone (drop 1 i) (Some [AScope_Previous])"

lemma sample_scopes_source:
  "parse_block_source sample_scopes sample_element ''!a;'' =
     Some (Ok (source_empty\<lparr>sr_scopes := [AScope_Previous], sr_facts := [(''a'', ast_fact_new ''a'' [])]\<rparr>))"
  by (simp add: parse_block_source_def sample_scopes_def source_loop.simps sample_element_def source_empty_def)

theorem code_drops_scopes_witness:
  "\<exists>src bb'. parse_block_source sample_scopes sample_element ''!a;'' = Some (Ok src) \<and> sr_scopes src = [AScope_Previous] \<and>
     bb_code_text_with_params demo sample_scopes sample_element ''!a;'' [] [] bb_new = Some (Ok bb') \<and>
     length (bb_facts bb') = 1 \<and> bb_scopes bb' = []"
proof -
  have fine: "fact_validate (fact_from_ast (ast_fact_new ''a'' [])) = Ok ()"
    by (simp add: fact_validate_def fact_from_ast_def ast_fact_new_def params_from_ast_def unset_parameters_def)
  obtain bb' where c: "bb_code_text_with_params demo sample_scopes sample_element ''!a;'' [] [] bb_new = Some (Ok bb')"
    and f: "length (bb_facts bb') = 1"
    by (simp add: bb_code_text_with_params_def sample_scopes_source code_source_def source_empty_def fine bb_fact_def bb_new_def)
  show ?thesis
    using sample_scopes_source c f code_drops_scopes [OF c] by (simp add: bb_new_def source_empty_def)
qed

end
