(* ===== verification/Display.thy ===== *)
theory Display
  imports Authorizer
begin

text \<open>
  The \<open>Display\<close> instances: of the builder's objects (\<open>token/builder/*.rs\<close>), of builders, tokens and
  authorizers, and \<open>dump_code\<close>.  An expression is displayed by converting it into a fresh symbol
  table and printing it from there; \<open>None\<close> is the panic when it holds a parameter or is not
  balanced.  The derived \<open>Debug\<close> of lists of strings and of scopes are parameters.
\<close>

section \<open>Terms, predicates and facts\<close>

fun display_key :: "bkey \<Rightarrow> string" where
  "display_key (BKInteger i) = string_of_int (sint i)"
| "display_key (BKStr s) = quoted s"
| "display_key (BKParameter s) = ''{'' @ s @ ''}''"

fun display_term :: "formats \<Rightarrow> bterm \<Rightarrow> string" where
  "display_term fmt (BVariable v) = ''$'' @ v"
| "display_term fmt (BInteger i) = string_of_int (sint i)"
| "display_term fmt (BStr s) = quoted s"
| "display_term fmt (BDate d) =
     (case fmt_date fmt d of Some s \<Rightarrow> s | None \<Rightarrow> ''<invalid date>'')"
| "display_term fmt (BBytes b) = ''hex:'' @ fmt_hex fmt b"
| "display_term fmt (BBool b) = (if b then ''true'' else ''false'')"
| "display_term fmt (BSet s) =
     (if s = [] then ''{,}'' else ''{'' @ join '', '' (map (display_term fmt) s) @ ''}'')"
| "display_term fmt (BParameter s) = ''{'' @ s @ ''}''"
| "display_term fmt BNull = ''null''"
| "display_term fmt (BArray a) = ''['' @ join '', '' (map (display_term fmt) a) @ '']''"
| "display_term fmt (BMap m) =
     ''{'' @ join '', '' (map (\<lambda>(k, t). display_key k @ '': '' @ display_term fmt t) m) @ ''}''"

definition display_predicate :: "formats \<Rightarrow> bpredicate \<Rightarrow> string" where
  "display_predicate fmt p =
     bp_name p @ ''('' @ join '', '' (map (display_term fmt) (bp_terms p)) @ '')''"

definition display_fact :: "formats \<Rightarrow> bfact \<Rightarrow> string" where
  "display_fact fmt f = display_predicate fmt (bf_predicate (fact_apply_parameters f))"

section \<open>Expressions, rules, checks and policies\<close>

definition display_expression :: "formats \<Rightarrow> bexpression \<Rightarrow> string option" where
  "display_expression fmt e =
     (case expression_convert e default_symbol_table of
        None \<Rightarrow> None
      | Some (d, syms) \<Rightarrow> print_ops fmt syms (e_ops d) [])"

fun display_scope :: "formats \<Rightarrow> bscope \<Rightarrow> string" where
  "display_scope fmt BScope_Authority = ''authority''"
| "display_scope fmt BScope_Previous = ''previous''"
| "display_scope fmt (BScope_PublicKey k) = print_public_key fmt k"
| "display_scope fmt (BScope_Parameter s) = ''{'' @ s @ ''}''"

definition display_rule_body :: "formats \<Rightarrow> brule \<Rightarrow> string option" where
  "display_rule_body fmt r =
     (let rule = rule_apply_parameters r in
      map_option
        (\<lambda>exprs.
           join '', '' (map (display_predicate fmt) (br_body rule)) @
           (if br_expressions rule = [] then ''''
            else (if br_body rule = [] then '''' else '', '') @ join '', '' exprs) @
           (if br_scopes rule = [] then ''''
            else '' trusting '' @ join '', '' (map (display_scope fmt) (br_scopes rule))))
        (those (map (display_expression fmt) (br_expressions rule))))"

definition display_rule :: "formats \<Rightarrow> brule \<Rightarrow> string option" where
  "display_rule fmt r =
     (let r = rule_apply_parameters r in
      map_option (\<lambda>body. display_predicate fmt (br_head r) @ '' <- '' @ body) (display_rule_body fmt r))"

definition display_check :: "formats \<Rightarrow> bcheck \<Rightarrow> string option" where
  "display_check fmt c =
     map_option
       (\<lambda>qs. (case bc_kind c of
            One_kind \<Rightarrow> ''check if ''
          | All_kind \<Rightarrow> ''check all ''
          | Reject_kind \<Rightarrow> ''reject if '') @ join '' or '' qs)
       (those (map (\<lambda>q. display_rule_body fmt (rule_apply_parameters q)) (bc_queries c)))"

definition display_policy :: "formats \<Rightarrow> policy \<Rightarrow> string option" where
  "display_policy fmt po =
     (if po_queries po = [] then Some (case po_kind po of Allow \<Rightarrow> ''allow'' | Deny \<Rightarrow> ''deny'')
      else map_option
        (\<lambda>qs. (case po_kind po of Allow \<Rightarrow> ''allow if '' | Deny \<Rightarrow> ''deny if '') @ join '' or '' qs)
        (those (map (display_rule_body fmt) (po_queries po))))"

section \<open>Builders\<close>

definition statement :: "string \<Rightarrow> string" where
  "statement s = s @ '';'' @ newline"

definition statements :: "('a \<Rightarrow> string option) \<Rightarrow> 'a list \<Rightarrow> string option" where
  "statements f xs = map_option (\<lambda>ss. concat (map statement ss)) (those (map f xs))"

definition append_text :: "string option \<Rightarrow> string option \<Rightarrow> string option" where
  "append_text a b = (case a of None \<Rightarrow> None | Some s \<Rightarrow> map_option (\<lambda>t. s @ t) b)"

definition display_block_builder :: "formats \<Rightarrow> block_builder \<Rightarrow> string option" where
  "display_block_builder fmt bb =
     append_text (statements (\<lambda>f. Some (display_fact fmt (fact_apply_parameters f))) (bb_facts bb))
       (append_text (statements (\<lambda>r. display_rule fmt (rule_apply_parameters r)) (bb_rules bb))
         (statements (\<lambda>c. display_check fmt (check_apply_parameters c)) (bb_checks bb)))"

definition display_biscuit_builder :: "formats \<Rightarrow> biscuit_builder \<Rightarrow> string option" where
  "display_biscuit_builder fmt b =
     append_text
       (Some ((case bu_root_key_id b of
            None \<Rightarrow> ''// no root key id set''
          | Some i \<Rightarrow> ''// root key id: '' @ string_of_nat i) @ newline))
       (display_block_builder fmt (bu_inner b))"

definition bu_dump_code :: "formats \<Rightarrow> biscuit_builder \<Rightarrow> string option" where
  "bu_dump_code fmt b =
     (case bu_dump b of
        (facts, rules, checks) \<Rightarrow>
          append_text (statements (\<lambda>f. Some (display_fact fmt f)) facts)
            (append_text (statements (display_rule fmt) rules) (statements (display_check fmt) checks)))"

definition display_authorizer_builder :: "formats \<Rightarrow> authorizer_builder \<Rightarrow> string option" where
  "display_authorizer_builder fmt a =
     append_text (display_block_builder fmt (ab_block a))
       (statements (\<lambda>p. display_policy fmt (policy_apply_parameters p)) (ab_policies a))"

text \<open>The statements of one kind, with an empty line after them when there are any.\<close>

definition paragraph_of :: "('a \<Rightarrow> string option) \<Rightarrow> 'a list \<Rightarrow> string option" where
  "paragraph_of f xs = append_text (statements f xs) (Some (if xs = [] then [] else newline))"

definition ab_dump_code :: "formats \<Rightarrow> authorizer_builder \<Rightarrow> string option" where
  "ab_dump_code fmt a =
     append_text (paragraph_of (\<lambda>f. Some (display_fact fmt f)) (bb_facts (ab_block a)))
       (append_text (paragraph_of (display_rule fmt) (bb_rules (ab_block a)))
         (append_text (paragraph_of (display_check fmt) (bb_checks (ab_block a)))
           (statements (display_policy fmt) (ab_policies a))))"

definition authorizer_dump_code :: "formats \<Rightarrow> authorizer \<Rightarrow> string option" where
  "authorizer_dump_code fmt a =
     (case authorizer_dump a of
        None \<Rightarrow> None
      | Some (facts, rules, checks, policies) \<Rightarrow>
          append_text (paragraph_of Some (sort (map (display_fact fmt) facts)))
            (append_text (paragraph_of (display_rule fmt) rules)
              (append_text (paragraph_of (display_check fmt) checks)
                (statements (display_policy fmt) policies))))"

section \<open>Tokens\<close>

definition st_strings :: "symbol_table \<Rightarrow> string list" where
  "st_strings = st_symbols"

record debug_formats =
  dbg_strings :: "string list \<Rightarrow> string"
  dbg_scopes :: "scope list \<Rightarrow> string"

definition indented :: "string \<Rightarrow> string" where
  "indented s = newline @ replicate 16 (CHR '' '') @ s @ newline @ replicate 12 (CHR '' '')"

definition print_elements :: "string list \<Rightarrow> string" where
  "print_elements xs =
     (if xs = [] then []
      else indented (join ('','' @ newline @ replicate 16 (CHR '' '')) xs))"

definition field_line :: "string \<Rightarrow> string \<Rightarrow> string" where
  "field_line name s = newline @ replicate 12 (CHR '' '') @ name @ '': '' @ s"

definition print_block :: "formats \<Rightarrow> debug_formats \<Rightarrow> symbol_table \<Rightarrow> block \<Rightarrow> string" where
  "print_block fmt dbg symbols b =
     ''Block {'' @
     field_line ''symbols'' (dbg_strings dbg (st_strings (bl_symbols b))) @
     field_line ''version'' (string_of_nat (bl_version b)) @
     field_line ''context'' (quoted (case bl_context b of None \<Rightarrow> [] | Some c \<Rightarrow> c)) @
     field_line ''external key''
       (case bl_external_key b of None \<Rightarrow> [] | Some k \<Rightarrow> fmt_hex fmt (public_to_bytes k)) @
     field_line ''public keys''
       (dbg_strings dbg (map (\<lambda>k. fmt_hex fmt (public_to_bytes k)) (pk_keys (bl_public_keys b)))) @
     field_line ''scopes'' (dbg_scopes dbg (bl_scopes b)) @
     field_line ''facts'' (''['' @ print_elements (map (print_fact fmt symbols) (bl_facts b)) @ '']'') @
     field_line ''rules'' (''['' @ print_elements (map (print_rule fmt symbols) (bl_rules b)) @ '']'') @
     field_line ''checks'' (''['' @ print_elements (map (print_check fmt symbols) (bl_checks b)) @ '']'') @
     newline @ replicate 8 (CHR '' '') @ ''}''"

text \<open>A block that cannot be read is displayed as nothing.\<close>

fun text_or_empty :: "(block \<Rightarrow> string) \<Rightarrow> (token_error, block) outcome \<Rightarrow> string option" where
  "text_or_empty f (Ok b) = Some (f b)"
| "text_or_empty f (Err _) = Some []"
| "text_or_empty f Panic = None"

definition display_biscuit ::
    "formats \<Rightarrow> debug_formats \<Rightarrow> primitives \<Rightarrow> biscuit \<Rightarrow> string option" where
  "display_biscuit fmt dbg p t =
     (let text = (\<lambda>i. text_or_empty (print_block fmt dbg (bi_symbols t)) (biscuit_block p t i)) in
      case text 0 of
        None \<Rightarrow> None
      | Some authority \<Rightarrow>
          map_option
            (\<lambda>blocks.
               ''Biscuit {'' @ newline @
               ''    symbols: '' @ dbg_strings dbg (st_strings (bi_symbols t)) @ newline @
               ''    public keys: '' @
                 dbg_strings dbg (map (\<lambda>k. fmt_hex fmt (public_to_bytes k))
                   (pk_keys (st_public_keys (bi_symbols t)))) @ newline @
               ''    authority: '' @ authority @ newline @
               ''    blocks: ['' @ newline @
               ''        '' @ join ('','' @ newline @ [CHR 0x09]) blocks @ newline @
               ''    ]'' @ newline @ ''}'')
            (those (map text [1..<block_count t])))"

section \<open>Authorizers\<close>

definition display_block_id :: "nat \<Rightarrow> string" where
  "display_block_id i = (if i = usize_max then ''authorizer'' else string_of_nat i)"

definition display_ids :: "nat list \<Rightarrow> string" where
  "display_ids is = join '', '' (map display_block_id is)"

definition display_origin :: "origin \<Rightarrow> string" where
  "display_origin og = display_ids (sorted_list_of_fset og)"

text \<open>
  One section of the text: its title, the statements of each origin in the order of the map, and
  an empty line, when there is any statement at all.
\<close>

definition origin_group :: "string \<Rightarrow> string list \<Rightarrow> string" where
  "origin_group og xs =
     (if xs = [] then [] else ''// origin: '' @ og @ newline @ concat (map statement xs))"

definition display_section :: "string \<Rightarrow> (string \<times> string list) list \<Rightarrow> string" where
  "display_section title groups =
     (if \<forall>(og, xs) \<in> set groups. xs = [] then []
      else ''// '' @ title @ '':'' @ newline @ concat (map (\<lambda>(og, xs). origin_group og xs) groups) @ newline)"

text \<open>\<open>BTreeMap<&Origin, HashSet<String>>\<close>, every set sorted before it is written.\<close>

definition fact_groups :: "formats \<Rightarrow> symbol_table \<Rightarrow> fact_set \<Rightarrow> (string \<times> string list) list" where
  "fact_groups fmt symbols fs =
     map (\<lambda>(og, xs). (display_ids og, xs))
       (bm_of_list (map (\<lambda>(og, s). (sorted_list_of_fset og, bt_of_list (map (print_fact fmt symbols) s))) fs))"

text \<open>\<open>BTreeMap<usize, HashSet<String>>\<close>.\<close>

definition rule_groups :: "formats \<Rightarrow> symbol_table \<Rightarrow> rule_set \<Rightarrow> (string \<times> string list) list" where
  "rule_groups fmt symbols rs =
     (let rules = map snd (rs_list rs) in
      map (\<lambda>i. (display_block_id i,
          bt_of_list (map (\<lambda>(j, r). print_rule fmt symbols r) (filter (\<lambda>(j, r). j = i) rules))))
        (bt_of_list (map fst rules)))"

text \<open>The checks of the blocks, then those of the authorizer, whose key is the largest.\<close>

definition check_groups :: "formats \<Rightarrow> authorizer \<Rightarrow> (string \<times> string list) list option" where
  "check_groups fmt a =
     (let blocks = (case au_blocks a of None \<Rightarrow> [] | Some bs \<Rightarrow> bs) in
      map_option
        (\<lambda>own.
           map (\<lambda>(i, b). (display_block_id i, map (print_check fmt (au_symbols a)) (bl_checks b)))
             (enumerate 0 blocks) @
           [(display_block_id usize_max, own)])
        (those (map (display_check fmt) (bb_checks (au_block a)))))"

definition display_authorizer :: "formats \<Rightarrow> authorizer \<Rightarrow> string option" where
  "display_authorizer fmt a =
     append_text (Some
         (display_section ''Facts'' (fact_groups fmt (au_symbols a) (w_facts (au_world a))) @
          display_section ''Rules'' (rule_groups fmt (au_symbols a) (w_rules (au_world a)))))
       (append_text (map_option (display_section ''Checks'') (check_groups fmt a))
         (append_text (Some (if au_policies a = [] then [] else ''// Policies:'' @ newline))
           (statements (display_policy fmt) (au_policies a))))"

definition symbols_print_world ::
    "formats \<Rightarrow> (string list \<Rightarrow> string) \<Rightarrow> symbol_table \<Rightarrow> world \<Rightarrow> string" where
  "symbols_print_world fmt dbg_pretty symbols w =
     ''World {'' @ newline @
     ''  facts: '' @ dbg_pretty (map (\<lambda>(og, f). print_fact fmt symbols f) (fs_iter_all (w_facts w))) @ newline @
     ''  rules: '' @ dbg_pretty (map (\<lambda>(og, r). print_rule fmt symbols r) (rs_iter_all (w_rules w))) @ newline @
     ''}''"

end
