(* ===== verification/Display_Agreement.thy ===== *)
theory Display_Agreement
  imports Display Builder_Roundtrip
begin

text \<open>
  What the displayed text says.  A block read back as a builder displays as the block prints
  itself, so the two ways of printing agree, although they go through different symbol tables:
  this needs that reading a set or a map does not reorder it (\<open>in_order\<close>), since an engine set is
  ordered by symbol numbers and a builder set by strings.  Displaying panics exactly on an
  expression that holds a parameter or is not balanced (\<open>display_rule_panics\<close>), and the text is
  ambiguous: strings are not escaped, and the scopes of a block are left out.
\<close>

section \<open>The text of an expression, without tables\<close>




section \<open>Reading without reordering\<close>






section \<open>Printing is displaying\<close>












section \<open>Rules, checks and blocks\<close>



lemma those_map_Some: "(\<And>x. x \<in> set xs \<Longrightarrow> f x = Some (g x)) \<Longrightarrow> those (map f xs) = Some (map g xs)"
  by (induction xs) auto


























text \<open>A set of strings whose numbers are in the other order.\<close>

definition reordered_table :: symbol_table where
  "reordered_table = \<lparr>st_symbols = [''b'', ''a''], st_public_keys = pk_new\<rparr>"

definition reordered_fact :: fact where
  "reordered_fact = \<lparr>f_predicate = \<lparr>p_name = 0, p_terms = [Set [Str 1024, Str 1025]]\<rparr>\<rparr>"

lemma display_reorders:
  "\<exists>f. fact_convert_from reordered_fact reordered_table = Ok f \<and>
     display_fact fmt f \<noteq> print_fact fmt reordered_table reordered_fact"
proof -
  have symbols: "get_symbol reordered_table 0 = Some ''read''" "get_symbol reordered_table 1024 = Some ''b''"
    "get_symbol reordered_table 1025 = Some ''a''"
    by (simp_all add: get_symbol_def reordered_table_def symbol_offset_def nth_opt_def default_symbols_def)
  have order: "bt_of_list [BStr ''b'', BStr ''a''] = [BStr ''a'', BStr ''b'']"
    by (simp add: bt_of_list_def less_bterm_def enc_str_def)
  show ?thesis
    by (simp add: reordered_fact_def fact_convert_from_def predicate_convert_from_def term_convert_from_def
        print_symbol_def symbols order display_fact_def fact_apply_parameters_def display_predicate_def print_fact_def print_predicate_def quoted_def
        print_symbol_default_def)
qed

section \<open>Ambiguous text\<close>

text \<open>The text of a string that closes its literal and states a second fact.\<close>

definition injected :: "string \<Rightarrow> string \<Rightarrow> string \<Rightarrow> string" where
  "injected a g b = a @ [char_of (34 :: nat)] @ '');'' @ newline @ g @ ''('' @ [char_of (34 :: nat)] @ b"

definition with_facts :: "bfact list \<Rightarrow> block_builder" where
  "with_facts fs = bb_new\<lparr>bb_facts := fs\<rparr>"

text \<open>
  the displayed source does not determine the block: strings are not escaped, so that one fact
  is displayed as two, whatever their names; and the scopes of a block are not displayed at all.
\<close>

theorem displayed_source_ambiguous:
  "display_block_builder fmt (with_facts [make_fact f [BStr (injected a g b)]]) =
     display_block_builder fmt (with_facts [make_fact f [BStr a], make_fact g [BStr b]]) \<and>
   display_block_builder fmt (with_facts [make_fact f [BStr a], make_fact g [BStr b]]) \<noteq> None \<and>
   display_block_builder fmt (bb_scope sc bb) = display_block_builder fmt bb"
  by (simp add: display_block_builder_def with_facts_def statements_def statement_def display_fact_def
      make_fact_def make_pred_def fact_new_def fact_apply_parameters_def display_predicate_def
      injected_def quoted_def append_text_def bb_new_def bb_scope_def)

section \<open>Panics\<close>

fun balanced_ops :: "bop list \<Rightarrow> nat \<Rightarrow> bool" where
  "balanced_ops [] n \<longleftrightarrow> n = 1"
| "balanced_ops (BValue t # ops) n \<longleftrightarrow> balanced_ops ops (n + 1)"
| "balanced_ops (BUnary u # ops) n \<longleftrightarrow> n \<ge> 1 \<and> balanced_ops ops n"
| "balanced_ops (BBinary b # ops) n \<longleftrightarrow> n \<ge> 2 \<and> balanced_ops ops (n - 1)"
| "balanced_ops (BClosure ps body # ops) n \<longleftrightarrow> balanced_ops body 0 \<and> balanced_ops ops (n + 1)"

lemma print_ops_balanced:
  "smap op_convert bops t = Some (ops, u) \<Longrightarrow>
     print_ops fmt s ops stack \<noteq> None \<longleftrightarrow> balanced_ops bops (length stack)"
proof (induction bops "length stack" arbitrary: t u ops stack rule: balanced_ops.induct)
  case 1
  then show ?case by (auto split: list.splits)
next
  case (2 b bops)
  then obtain d v ops' where "ops = Value d # ops'" "smap op_convert bops v = Some (ops', u)"
    by (auto simp: smap_Some_Cons simp del: smap.simps)
  with 2 show ?case by simp
next
  case (3 b bops)
  then obtain d v ops' where "ops = Unary d # ops'" "smap op_convert bops v = Some (ops', u)"
    by (auto simp: smap_Some_Cons simp del: smap.simps split: prod.splits)
  with 3 show ?case by (cases stack) auto
next
  case (4 b bops)
  then obtain d v ops' where "ops = Binary d # ops'" "smap op_convert bops v = Some (ops', u)"
    by (auto simp: smap_Some_Cons simp del: smap.simps split: prod.splits)
  with 4 show ?case by (cases stack; cases "tl stack") auto
next
  case (5 ps body bops)
  from 5(3) obtain q v ops' where "op_convert (BClosure ps body) t = Some (q, v)"
    and rest: "smap op_convert bops v = Some (ops', u)" and ops: "ops = q # ops'"
    by (auto simp: smap_Some_Cons simp del: smap.simps op_convert.simps)
  then obtain qs w ds where q: "q = Closure qs ds" and "smap op_convert body w = Some (ds, v)"
    by (auto split: option.splits)
  from 5(1) [of "[]", OF _ this(2)] have body: "print_ops fmt s ds [] \<noteq> None \<longleftrightarrow> balanced_ops body 0" by simp
  from 5(2) [OF _ rest] body ops q show ?case by (auto split: option.splits)
qed

definition displayable :: "bexpression \<Rightarrow> bool" where
  "displayable e \<longleftrightarrow> (\<forall>p \<in> set (be_ops e). op_parameters p = []) \<and> balanced_ops (be_ops e) 0"

lemma display_expression_None: "display_expression fmt e = None \<longleftrightarrow> \<not> displayable e"
proof (cases "expression_convert e default_symbol_table")
  case None
  then have "\<exists>p \<in> set (be_ops e). op_parameters p \<noteq> []" by (simp add: expression_convert_None)
  with None show ?thesis by (auto simp: display_expression_def displayable_def)
next
  case (Some r)
  then obtain ops u where run: "smap op_convert (be_ops e) default_symbol_table = Some (ops, u)"
    and r: "r = (\<lparr>e_ops = ops\<rparr>, u)" by (auto simp: expression_convert_def)
  moreover have "\<forall>p \<in> set (be_ops e). op_parameters p = []"
    using Some expression_convert_None [of e default_symbol_table] by auto
  ultimately show ?thesis
    using print_ops_balanced [OF run, of fmt u "[]"] Some
    by (cases "print_ops fmt u ops []") (auto simp: display_expression_def displayable_def)
qed

lemma those_None: "those (map f xs) = None \<longleftrightarrow> (\<exists>x \<in> set xs. f x = None)"
  by (induction xs) (auto split: option.splits)

text \<open>
  Displaying a rule panics exactly when one of its expressions, after its parameters were
  applied, still holds a parameter or is not balanced; parameters elsewhere are displayed.
\<close>

theorem display_rule_panics:
  "display_rule fmt r = None \<longleftrightarrow>
     (\<exists>e \<in> set (br_expressions (rule_apply_parameters (rule_apply_parameters r))). \<not> displayable e)"
  by (simp add: display_rule_def display_rule_body_def Let_def those_None display_expression_None)

end
