(* ===== verification/Parsed_Rules.thy ===== *)
theory Parsed_Rules
  imports Parsed Display_Agreement
begin

text \<open>
  What becomes of parsed rules: the expressions that the parser assembles are balanced and hold
  their closures where the evaluation expects them, so that they can be displayed; the elements of
  a parsed set have one kind; the variables of an accepted rule are bound in the rule it converts
  to; but a parameter inside a collection of an expression is never replaced, and the conversion
  of its rule panics although every parameter was given a value.
\<close>

section \<open>Assembled expressions\<close>

fun is_xclosure :: "ast_expr \<Rightarrow> bool" where
  "is_xclosure (XClosure _ _) = True"
| "is_xclosure _ = False"

definition chained :: "ast_binary \<Rightarrow> bool" where
  "chained b \<longleftrightarrow> b \<noteq> AAll_op \<and> b \<noteq> AAny_op \<and> b \<noteq> ATryOr"

text \<open>The calls that \<open>binary_method\<close> accepts: a parameter for \<open>all\<close> and \<open>any\<close>, none for the others.\<close>

fun call_ok :: "ast_method \<Rightarrow> bool" where
  "call_ok (Method_binary b params arg) \<longleftrightarrow>
     (if b = AAll_op \<or> b = AAny_op then \<exists>v. params = Some [v] else params = None) \<and>
     b \<noteq> ALazyAnd \<and> b \<noteq> ALazyOr"
| "call_ok (Method_unary u) \<longleftrightarrow> True"

fun call_argument :: "ast_method \<Rightarrow> ast_expr list" where
  "call_argument (Method_binary b params arg) = [arg]"
| "call_argument (Method_unary u) = []"

text \<open>The trees that the levels of the grammar build.\<close>

inductive assembled :: "ast_expr \<Rightarrow> bool" where
  assembled_value: "assembled (XValue t)"
| assembled_prefix: "assembled e \<Longrightarrow> assembled (XUnary (AUnary u) e)"
| assembled_chain: "assembled e \<Longrightarrow> \<forall>(b, x) \<in> set xs. chained b \<and> assembled x \<Longrightarrow> assembled (fold_exprs e xs)"
| assembled_call: "assembled e \<Longrightarrow> call_ok m \<Longrightarrow> \<forall>x \<in> set (call_argument m). assembled x \<Longrightarrow>
    assembled (apply_method e m)"

text \<open>Where an operator expects closures, and their parameters.\<close>

fun kinded :: "ast_expr \<Rightarrow> bool" where
  "kinded (XValue t) \<longleftrightarrow> True"
| "kinded (XUnary u e) \<longleftrightarrow> (\<exists>v. u = AUnary v) \<and> kinded e \<and> \<not> is_xclosure e"
| "kinded (XBinary b l r) \<longleftrightarrow> kinded l \<and> kinded r \<and>
     (\<exists>c. b = ABinary c \<and>
        (is_xclosure l \<longleftrightarrow> c = ATryOr) \<and>
        (is_xclosure r \<longleftrightarrow> c \<in> {ALazyAnd, ALazyOr, AAll_op, AAny_op}))"
| "kinded (XClosure ps e) \<longleftrightarrow> kinded e \<and> \<not> is_xclosure e"

lemma chain_step_kinded:
  "kinded acc \<and> \<not> is_xclosure acc \<Longrightarrow> chained b \<Longrightarrow> kinded x \<and> \<not> is_xclosure x \<Longrightarrow>
     kinded (chain_step acc (b, x)) \<and> \<not> is_xclosure (chain_step acc (b, x))"
  by (auto simp: chain_step_def chained_def)

lemma fold_exprs_kinded:
  "kinded e \<and> \<not> is_xclosure e \<Longrightarrow>
   \<forall>(b, x) \<in> set xs. chained b \<and> kinded x \<and> \<not> is_xclosure x \<Longrightarrow>
     kinded (fold_exprs e xs) \<and> \<not> is_xclosure (fold_exprs e xs)"
proof (induction xs arbitrary: e)
  case (Cons y ys)
  obtain b x where y: "y = (b, x)" by (rule prod.exhaust)
  with Cons.prems have "kinded (chain_step e y) \<and> \<not> is_xclosure (chain_step e y)"
    using chain_step_kinded [of e b x] by auto
  from Cons.IH [OF this] Cons.prems(2) show ?case by (simp add: fold_exprs_def)
qed (simp add: fold_exprs_def)

lemma apply_method_kinded:
  "kinded e \<and> \<not> is_xclosure e \<Longrightarrow> call_ok m \<Longrightarrow>
   \<forall>x \<in> set (call_argument m). kinded x \<and> \<not> is_xclosure x \<Longrightarrow>
     kinded (apply_method e m) \<and> \<not> is_xclosure (apply_method e m)"
  by (cases m) (auto split: if_splits)

lemma assembled_kinded: "assembled e \<Longrightarrow> kinded e \<and> \<not> is_xclosure e"
proof (induction rule: assembled.induct)
  case (assembled_chain e xs)
  then show ?case by (intro fold_exprs_kinded) auto
next
  case (assembled_call e m)
  then show ?case by (intro apply_method_kinded) auto
qed auto

text \<open>The code of a tree pushes one operand.\<close>

lemma opcodes_balanced:
  "kinded e \<Longrightarrow> balanced_ops (map op_from_ast (ast_opcodes e) @ ops) n = balanced_ops ops (n + 1)"
proof (induction e arbitrary: n ops)
  case (XClosure ps e)
  from XClosure.IH [of "[]" 0] XClosure.prems show ?case by simp
next
  case (XUnary u e)
  then show ?case by (auto simp: numeral_2_eq_2)
next
  case (XBinary b l r)
  then show ?case by auto
qed simp

text \<open>
  an expression assembled by the parser, with its parameters replaced, can be displayed: its
  code is balanced, whatever operators and calls it was assembled from.
\<close>

theorem parsed_expression_displays:
  assumes "assembled e" "e' = expression_from_ast \<lparr>ae_ops = ast_opcodes e\<rparr>"
  shows "balanced_ops (be_ops e') 0 \<and>
    (display_expression fmt e' = None \<longleftrightarrow> (\<exists>o' \<in> set (be_ops e'). op_parameters o' \<noteq> []))"
  using opcodes_balanced [of e "[]" 0] assembled_kinded [OF assms(1)]
  by (auto simp: assms(2) expression_from_ast_def display_expression_None displayable_def)

text \<open>\<open>$x.all($y -> $y > 1) && !true\<close>.\<close>

definition sample_expr :: ast_expr where
  "sample_expr =
     fold_exprs (apply_method (XValue (AVariable ''x''))
         (Method_binary AAll_op (Some [''y''])
           (fold_exprs (XValue (AVariable ''y'')) [(AGreaterThan, XValue (AInteger 1))])))
       [(ALazyAnd, XUnary (AUnary ANegate) (XValue (ABool True)))]"

lemma sample_expr_assembled: "assembled sample_expr"
  unfolding sample_expr_def
  by (intro assembled.intros ballI) (auto simp: chained_def intro!: assembled.intros)

theorem parsed_expression_displays_witness:
  "display_expression sample_display_formats (expression_from_ast \<lparr>ae_ops = ast_opcodes sample_expr\<rparr>) \<noteq> None"
  using parsed_expression_displays [OF sample_expr_assembled refl, of sample_display_formats]
  by (simp add: sample_expr_def fold_exprs_def chain_step_def expression_from_ast_def)

section \<open>Sets\<close>

lemma set_elements_homogeneous:
  "set_elements kind acc ts = Ok us \<Longrightarrow>
     set us = set acc \<union> set ts \<and> (\<exists>k. \<forall>t \<in> set ts. set_kind t = Ok k \<and> (kind = None \<or> kind = Some k))"
proof (induction kind acc ts rule: set_elements.induct)
  case (2 kind acc t ts)
  then obtain k where k: "set_kind t = Ok k" "kind = None \<or> kind = Some k"
    and rest: "set_elements (Some k) (List.insert t acc) ts = Ok us"
    by (auto simp: outcome_simps split: if_splits)
  with 2 have "set us = set (List.insert t acc) \<union> set ts \<and>
      (\<exists>j. \<forall>t \<in> set ts. set_kind t = Ok j \<and> (Some k = None \<or> Some k = Some j))" by auto
  with k show ?case by (auto simp: insert_absorb)
qed simp

section \<open>Variables\<close>

fun builder_variables :: "bterm list \<Rightarrow> string list" where
  "builder_variables [] = []"
| "builder_variables (BVariable v # ts) = v # builder_variables ts"
| "builder_variables (_ # ts) = builder_variables ts"

text \<open>\<open>Rule::validate_variables\<close> of the builder only looks at the head.\<close>

definition rule_free_variables :: "brule \<Rightarrow> string list" where
  "rule_free_variables r =
     filter (\<lambda>v. v \<notin> set (concat (map (\<lambda>p. builder_variables (bp_terms p)) (br_body r))))
       (remdups (builder_variables (bp_terms (br_head r))))"

definition rule_validate_variables :: "brule \<Rightarrow> (string, unit) outcome" where
  "rule_validate_variables r =
     (if rule_free_variables r = [] then Ok ()
      else Err (unbound_message
        (''rule head contains variables that are not used in predicates of the rule'' @ [CHR 0x27] @ ''s body: '')
        (rule_free_variables r)))"

lemma variables_from_ast: "builder_variables (map term_from_ast ts) = ast_variables ts"
  by (induction ts rule: ast_variables.induct) simp_all

lemma rule_from_ast_parts:
  assumes "rule_from_ast p r = Some b"
  shows "br_head b = predicate_from_ast (ar_head r)"
    and "br_body b = map predicate_from_ast (ar_body r)"
    and "br_expressions b = map expression_from_ast (ar_expressions r)"
    and "br_parameters b = params_from_ast (ar_parameters r)"
  using assms by (auto simp: rule_from_ast_def split: option.splits)

lemma parsed_rule_bound:
  assumes "ast_validate_variables r = Ok ()" "rule_from_ast p r = Some b"
  shows "rule_validate_variables b = Ok ()"
  using assms(1) rule_from_ast_parts [OF assms(2)]
  by (auto simp: ast_validate_variables_def rule_validate_variables_def ast_free_variables_def
      rule_free_variables_def predicate_from_ast_def variables_from_ast filter_empty_conv comp_def
      split: if_splits)

section \<open>Parameters inside collections\<close>

fun is_collection :: "ast_term \<Rightarrow> bool" where
  "is_collection (ASet _) = True"
| "is_collection (AArray _) = True"
| "is_collection (AMap _) = True"
| "is_collection _ = False"

lemma collection_kept:
  "is_collection t \<Longrightarrow> op_apply_parameters ps (BValue (term_from_ast t)) = BValue (term_from_ast t)"
  by (cases t) simp_all

lemma collection_survives:
  assumes "o' \<in> set (be_ops e)" "e \<in> set (br_expressions b)" "\<And>q. op_apply_parameters q o' = o'"
  shows "\<exists>e' \<in> set (br_expressions (rule_apply_parameters (b\<lparr>br_parameters := ps\<rparr>))). o' \<in> set (be_ops e')"
proof (cases ps)
  case None
  with assms(1,2) show ?thesis by (auto simp: rule_apply_parameters_def Let_def split: option.splits)
next
  case (Some q)
  have "o' \<in> set (map (op_apply_parameters q) (be_ops e))" 
    using imageI [OF assms(1), of "op_apply_parameters q"] by (simp add: assms(3))
  with Some assms(2) show ?thesis by (auto simp: rule_apply_parameters_def Let_def split: option.splits)
qed

text \<open>
  when an expression of a parsed rule has a collection with a parameter in it, the rule cannot
  be converted, whatever values its parameters are given: the conversion panics.
\<close>

theorem parsed_collection_parameter_panics:
  assumes "rule_from_ast p r = Some b" "e \<in> set (ar_expressions r)" "AValue t \<in> set (ae_ops e)"
    and "is_collection t" "term_parameters (term_from_ast t) \<noteq> []"
  shows "rule_convert (b\<lparr>br_parameters := ps\<rparr>) s = None"
proof -
  let ?b = "b\<lparr>br_parameters := ps\<rparr>"
  let ?o = "BValue (term_from_ast t)"
  have "?o \<in> set (be_ops (expression_from_ast e))"
    using assms(3) by (force simp: expression_from_ast_def)
  moreover have "expression_from_ast e \<in> set (br_expressions b)"
    using assms(2) rule_from_ast_parts(3) [OF assms(1)] by simp
  ultimately have "\<exists>e' \<in> set (br_expressions (rule_apply_parameters ?b)). ?o \<in> set (be_ops e')"
    using collection_kept [OF assms(4)] by (rule collection_survives)
  then have "rule_parameters (rule_apply_parameters ?b) \<noteq> []"
    using assms(5) by (fastforce simp: rule_parameters_def)
  then show ?thesis by (simp add: rule_convert_def plain_rule_convert_None)
qed

text \<open>\<open>q(1) <- b(1), [{p}].contains(1)\<close>, where \<open>p\<close> is set to 1.\<close>

definition sample_parsed :: ast_rule where
  "sample_parsed =
     ast_rule_new \<lparr>as_name = ''q'', as_terms = [AInteger 1]\<rparr> [\<lparr>as_name = ''b'', as_terms = [AInteger 1]\<rparr>]
       [\<lparr>ae_ops = [AValue (AArray [AParameter ''p'']), AValue (AInteger 1), ABinary AContains]\<rparr>] []"

theorem parsed_collection_parameter_panics_witness:
  "\<exists>b b'. rule_from_ast demo sample_parsed = Some b \<and> rule_set ''p'' (BInteger 1) b = Ok b' \<and>
     rule_validate_parameters b' = Ok () \<and> rule_convert b' st_new = None"
proof -
  obtain b where b: "rule_from_ast demo sample_parsed = Some b"
    and ps: "br_parameters b = Some [(''p'', None)]" "br_scope_parameters b = Some []"
    by (simp add: rule_from_ast_def sample_parsed_def ast_rule_new_def scope_params_from_ast_def
        params_from_ast_def ast_extract_parameters_def)
  let ?b = "b\<lparr>br_parameters := Some [(''p'', Some (BInteger 1))]\<rparr>"
  have "rule_set ''p'' (BInteger 1) b = Ok ?b" "rule_validate_parameters ?b = Ok ()"
    using ps by (simp_all add: rule_set_def set_parameter_def rule_validate_parameters_def unset_parameters_def)
  moreover have "rule_convert ?b st_new = None"
    by (rule parsed_collection_parameter_panics [OF b, where t = "AArray [AParameter ''p'']"
        and e = "\<lparr>ae_ops = [AValue (AArray [AParameter ''p'']), AValue (AInteger 1), ABinary AContains]\<rparr>"])
      (simp_all add: sample_parsed_def ast_rule_new_def)
  ultimately show ?thesis using b by blast
qed

end
