(* ===== verification/Conversions.thy ===== *)
theory Conversions
  imports Parsed_Rules
begin

text \<open>
  Rust values as terms and back (\<open>token/builder/term.rs\<close>), the helper functions of
  \<open>token/builder.rs\<close>, facts as tuples, JSON values, and the parameters of the macros.  A type that
  converts both ways is the locale \<open>rust_type\<close>; that a fact of converted values reads back as the
  tuple is proved once for all of them.  The derived \<open>Debug\<close> of terms in the error messages is a
  parameter, and a point in time is a number of seconds around the epoch.
\<close>

section \<open>Helper functions\<close>

definition int_term :: "i64 \<Rightarrow> bterm" where
  "int_term i = BInteger i"

definition string_term :: "string \<Rightarrow> bterm" where
  "string_term s = BStr s"

text \<open>\<open>duration_since(UNIX_EPOCH).unwrap()\<close> panics before the epoch.\<close>

definition date_term :: "int \<Rightarrow> bterm option" where
  "date_term t = (if t < 0 then None else Some (BDate (nat t)))"

definition var_term :: "string \<Rightarrow> bterm" where
  "var_term s = BVariable s"

definition variable_term :: "string \<Rightarrow> bterm" where
  "variable_term s = BVariable s"

definition bytes_term :: "bytes \<Rightarrow> bterm" where
  "bytes_term b = BBytes b"

definition boolean_term :: "bool \<Rightarrow> bterm" where
  "boolean_term b = BBool b"

definition set_term :: "bterm list \<Rightarrow> bterm" where
  "set_term s = BSet s"

definition parameter_term :: "string \<Rightarrow> bterm" where
  "parameter_term p = BParameter p"

section \<open>From terms\<close>

definition expected :: "(bterm \<Rightarrow> string) \<Rightarrow> string \<Rightarrow> bterm \<Rightarrow> token_error" where
  "expected dbg what t = ConversionError (''expected '' @ what @ '', got '' @ dbg t)"

definition i64_of_term :: "(bterm \<Rightarrow> string) \<Rightarrow> bterm \<Rightarrow> (token_error, i64) outcome" where
  "i64_of_term dbg t = (case t of BInteger i \<Rightarrow> Ok i | _ \<Rightarrow> Err (expected dbg ''integer'' t))"

definition bool_of_term :: "(bterm \<Rightarrow> string) \<Rightarrow> bterm \<Rightarrow> (token_error, bool) outcome" where
  "bool_of_term dbg t = (case t of BBool b \<Rightarrow> Ok b | _ \<Rightarrow> Err (expected dbg ''boolean'' t))"

definition string_of_term :: "(bterm \<Rightarrow> string) \<Rightarrow> bterm \<Rightarrow> (token_error, string) outcome" where
  "string_of_term dbg t = (case t of BStr s \<Rightarrow> Ok s | _ \<Rightarrow> Err (expected dbg ''string or symbol'' t))"

definition bytes_of_term :: "(bterm \<Rightarrow> string) \<Rightarrow> bterm \<Rightarrow> (token_error, bytes) outcome" where
  "bytes_of_term dbg t = (case t of BBytes b \<Rightarrow> Ok b | _ \<Rightarrow> Err (expected dbg ''byte array'' t))"

definition time_of_term :: "(bterm \<Rightarrow> string) \<Rightarrow> bterm \<Rightarrow> (token_error, int) outcome" where
  "time_of_term dbg t = (case t of BDate d \<Rightarrow> Ok (int d) | _ \<Rightarrow> Err (expected dbg ''date'' t))"

definition set_of_term ::
    "(bterm \<Rightarrow> string) \<Rightarrow> (bterm \<Rightarrow> (token_error, 'a::linorder) outcome) \<Rightarrow> bterm \<Rightarrow> (token_error, 'a list) outcome" where
  "set_of_term dbg conv t =
     (case t of
        BSet ts \<Rightarrow> obind (traverse conv ts) (\<lambda>xs. Ok (bt_of_list xs))
      | _ \<Rightarrow> Err (expected dbg ''set'' t))"

text \<open>A fact as a tuple: the terms are taken one by one, and those that are left are dropped.\<close>

definition next_term :: "(bterm \<Rightarrow> (token_error, 'a) outcome) \<Rightarrow> bterm list \<Rightarrow> (token_error, 'a \<times> bterm list) outcome" where
  "next_term conv ts =
     (case ts of
        [] \<Rightarrow> Err (ConversionError ''not enough terms in fact'')
      | t # us \<Rightarrow> obind (conv t) (\<lambda>x. Ok (x, us)))"

definition tuple1_of_fact :: "(bterm \<Rightarrow> (token_error, 'a) outcome) \<Rightarrow> bfact \<Rightarrow> (token_error, 'a) outcome" where
  "tuple1_of_fact ca f = obind (next_term ca (bp_terms (bf_predicate f))) (\<lambda>(x, _). Ok x)"

definition tuple2_of_fact ::
    "(bterm \<Rightarrow> (token_error, 'a) outcome) \<Rightarrow> (bterm \<Rightarrow> (token_error, 'b) outcome) \<Rightarrow> bfact \<Rightarrow>
     (token_error, 'a \<times> 'b) outcome" where
  "tuple2_of_fact ca cb f =
     obind (next_term ca (bp_terms (bf_predicate f))) (\<lambda>(x, us).
     obind (next_term cb us) (\<lambda>(y, _). Ok (x, y)))"

section \<open>Values that convert both ways\<close>

locale rust_type =
  fixes to_term :: "'a \<Rightarrow> bterm" and of_term :: "bterm \<Rightarrow> (token_error, 'a) outcome"
  assumes of_to: "of_term (to_term x) = Ok x"
begin

lemma next_to: "next_term of_term (to_term x # ts) = Ok (x, ts)"
  by (simp add: next_term_def of_to)

lemma tuple1_to: "tuple1_of_fact of_term (make_fact name (to_term x # ts)) = Ok x"
  by (simp add: tuple1_of_fact_def make_fact_def make_pred_def fact_new_def next_to)

lemma traverse_to: "traverse of_term (map to_term xs) = Ok xs"
  by (rule traverse_map_id) (rule of_to)

lemma to_inject: "to_term x = to_term y \<Longrightarrow> x = y"
  by (metis of_to outcome.inject(1))

end

interpretation i64_type: rust_type int_term "i64_of_term dbg" for dbg
  by unfold_locales (simp add: int_term_def i64_of_term_def)

interpretation bool_type: rust_type boolean_term "bool_of_term dbg" for dbg
  by unfold_locales (simp add: boolean_term_def bool_of_term_def)

interpretation string_type: rust_type string_term "string_of_term dbg" for dbg
  by unfold_locales (simp add: string_term_def string_of_term_def)

interpretation bytes_type: rust_type bytes_term "bytes_of_term dbg" for dbg
  by unfold_locales (simp add: bytes_term_def bytes_of_term_def)

interpretation date_type: rust_type BDate "\<lambda>t. obind (time_of_term dbg t) (\<lambda>s. Ok (nat s))" for dbg
  by unfold_locales (simp add: time_of_term_def)

lemma time_roundtrip: "date_term t = Some d \<Longrightarrow> time_of_term dbg d = Ok t"
  by (auto simp: date_term_def time_of_term_def split: if_splits)

lemma tuple2_to:
  "tuple2_of_fact (string_of_term dbg) (i64_of_term dbg) (make_fact name [string_term s, int_term i]) = Ok (s, i)"
  by (simp add: tuple2_of_fact_def make_fact_def make_pred_def fact_new_def string_type.next_to i64_type.next_to)

text \<open>A set of values is the set of their terms.\<close>

lemma set_of_strings:
  "set_of_term dbg (string_of_term dbg) (set_term (bt_of_list (map string_term xs))) = Ok (bt_of_list xs)"
proof -
  let ?ys = "bt_of_list (map string_term xs)"
  have str: "\<forall>t \<in> set ?ys. \<exists>s. t = string_term s" by auto
  have read: "traverse (string_of_term dbg) ts = Ok (map (\<lambda>t. case t of BStr s \<Rightarrow> s | _ \<Rightarrow> []) ts)"
    if "\<forall>t \<in> set ts. \<exists>s. t = string_term s" for ts
    using that by (induction ts) (auto simp: string_term_def string_of_term_def)
  have "set (map (\<lambda>t. case t of BStr s \<Rightarrow> s | _ \<Rightarrow> []) ?ys) = set xs"
    by (force simp: string_term_def)
  then have "bt_of_list (map (\<lambda>t. case t of BStr s \<Rightarrow> s | _ \<Rightarrow> []) ?ys) = bt_of_list xs"
    by (intro strict_sorted_unique) simp_all
  with read [OF str] show ?thesis by (simp add: set_of_term_def set_term_def)
qed

section \<open>JSON\<close>

text \<open>\<open>serde_json::Value\<close>; its numbers are read by \<open>as_i64\<close>.\<close>

datatype 'n json =
    JNull
  | JBool bool
  | JNumber 'n
  | JString string
  | JArray "'n json list"
  | JObject "(string \<times> 'n json) list"

fun term_of_json :: "('n \<Rightarrow> i64 option) \<Rightarrow> 'n json \<Rightarrow> (string, bterm) outcome" where
  "term_of_json as_i64 JNull = Ok BNull"
| "term_of_json as_i64 (JBool b) = Ok (BBool b)"
| "term_of_json as_i64 (JNumber n) =
     (case as_i64 n of
        Some i \<Rightarrow> Ok (BInteger i)
      | None \<Rightarrow> Err ''Biscuit values do not support floating point numbers'')"
| "term_of_json as_i64 (JString s) = Ok (BStr s)"
| "term_of_json as_i64 (JArray vs) =
     obind (traverse (term_of_json as_i64) vs) (\<lambda>ts. Ok (BArray ts))"
| "term_of_json as_i64 (JObject m) =
     obind (traverse (\<lambda>(k, v). obind (term_of_json as_i64 v) (\<lambda>t. Ok (BKStr k, t))) m)
       (\<lambda>ts. Ok (BMap (bm_of_list ts)))"

text \<open>A JSON value has no parameter and no variable: it converts to the engine without panic.\<close>

lemma term_of_json_closed: "term_of_json as_i64 v = Ok t \<Longrightarrow> closed_wf t"
proof (induction v arbitrary: t)
  case (JArray vs)
  then obtain ts where ts: "traverse (term_of_json as_i64) vs = Ok ts" and t: "t = BArray ts"
    by (auto simp: outcome_simps)
  from traverse_all [OF ts] JArray.IH have "\<forall>u \<in> set ts. closed_wf u" by blast
  with t show ?case by (auto simp: closed_wf_def)
next
  case (JObject m)
  then obtain ts where ts: "traverse (\<lambda>(k, v). obind (term_of_json as_i64 v) (\<lambda>t. Ok (BKStr k, t))) m = Ok ts"
    and t: "t = BMap (bm_of_list ts)" by (auto simp: outcome_simps)
  have "\<forall>u \<in> set ts. (\<exists>k. fst u = BKStr k) \<and> closed_wf (snd u)"
  proof (rule traverse_all [OF ts])
    fix x y
    assume x: "x \<in> set m" and y: "(case x of (k, v) \<Rightarrow> obind (term_of_json as_i64 v) (\<lambda>t. Ok (BKStr k, t))) = Ok y"
    obtain k v where kv: "x = (k, v)" by (rule prod.exhaust)
    with y obtain u where u: "term_of_json as_i64 v = Ok u" "y = (BKStr k, u)" by (auto simp: outcome_simps)
    from JObject.IH [OF x, of v u] kv u show "(\<exists>k. fst y = BKStr k) \<and> closed_wf (snd y)" by simp
  qed
  then have "\<forall>u \<in> set (bm_of_list ts). (\<exists>k. fst u = BKStr k) \<and> closed_wf (snd u)"
    using set_bm_of_list_subset [of ts] by blast
  with t show ?case by (fastforce simp: closed_wf_def)
qed (auto simp: closed_wf_def split: option.splits)

lemma json_converts: "term_of_json as_i64 v = Ok t \<Longrightarrow> term_convert t s \<noteq> None"
  using term_of_json_closed [of as_i64 v t] by (simp add: term_convert_None closed_wf_def)

section \<open>Parameters of the macros\<close>

datatype any_param = AnyTerm bterm | AnyKey public_key

text \<open>Setting a public key in a fact is accepted and does nothing.\<close>

definition fact_set_macro_param :: "string \<Rightarrow> any_param \<Rightarrow> bfact \<Rightarrow> (token_error, bfact) outcome" where
  "fact_set_macro_param name param f =
     (case param of AnyTerm t \<Rightarrow> fact_set_lenient name t f | AnyKey k \<Rightarrow> Ok f)"

definition rule_set_macro_param :: "string \<Rightarrow> any_param \<Rightarrow> brule \<Rightarrow> (token_error, brule) outcome" where
  "rule_set_macro_param name param r =
     (case param of AnyTerm t \<Rightarrow> rule_set_lenient name t r | AnyKey k \<Rightarrow> rule_set_scope_lenient name k r)"

definition check_set_macro_param ::
    "string \<Rightarrow> any_param \<Rightarrow> bcheck \<Rightarrow> bcheck \<times> (token_error, unit) outcome" where
  "check_set_macro_param name param c =
     (case param of AnyTerm t \<Rightarrow> check_set_lenient name t c | AnyKey k \<Rightarrow> check_set_scope_lenient name k c)"

definition policy_set_macro_param ::
    "string \<Rightarrow> any_param \<Rightarrow> policy \<Rightarrow> policy \<times> (token_error, unit) outcome" where
  "policy_set_macro_param name param c =
     (case param of AnyTerm t \<Rightarrow> policy_set_lenient name t c | AnyKey k \<Rightarrow> policy_set_scope_lenient name k c)"

text \<open>The checks that a rule, or a list of rules, stands for.\<close>

definition check_of_rule :: "brule \<Rightarrow> (token_error, bcheck) outcome" where
  "check_of_rule r = Ok \<lparr>bc_queries = [r], bc_kind = One_kind\<rparr>"

definition check_of_rules :: "brule list \<Rightarrow> (token_error, bcheck) outcome" where
  "check_of_rules rs = Ok \<lparr>bc_queries = rs, bc_kind = One_kind\<rparr>"

section \<open>Text of the errors\<close>

text \<open>The sign \<open>n\<degree>\<close> in UTF-8.\<close>

definition numero :: string where
  "numero = [CHR ''n'', CHR 0xC2, CHR 0xB0]"

definition display_block_failure :: "failed_block_check \<Rightarrow> string" where
  "display_block_failure f =
     ''Check '' @ numero @ string_of_nat (fb_check_id f) @ '' in block '' @ numero @
     string_of_nat (fb_block_id f) @ '': '' @ fb_rule f"

definition display_authorizer_failure :: "failed_authorizer_check \<Rightarrow> string" where
  "display_authorizer_failure f =
     ''Check '' @ numero @ string_of_nat (fa_check_id f) @ '' in authorizer: '' @ fa_rule f"

fun display_failed_check :: "failed_check \<Rightarrow> string" where
  "display_failed_check (FailedCheck_Block f) = display_block_failure f"
| "display_failed_check (FailedCheck_Authorizer f) = display_authorizer_failure f"

definition display_failed_checks :: "failed_check list \<Rightarrow> string" where
  "display_failed_checks cs = join '', '' (map display_failed_check cs)"

fun display_base64_error :: "base64_error \<Rightarrow> string" where
  "display_base64_error (InvalidByte i b) =
     ''Invalid byte '' @ string_of_nat (unat b) @ '', offset '' @ string_of_nat i @ ''.''"
| "display_base64_error InvalidLength = ''Encoded text cannot have a 6-bit remainder.''"
| "display_base64_error (InvalidLastSymbol i b) =
     ''Invalid last symbol '' @ string_of_nat (unat b) @ '', offset '' @ string_of_nat i @ ''.''"

end
