(* ===== verification/Expiration.thy ===== *)
theory Expiration
  imports World Blocks
begin

text \<open>
  The meaning of the check that \<open>BlockBuilder::check_expiration_date\<close> (\<open>token/builder/block.rs\<close>)
  adds to a block, from the builder to the answer of the engine: converting it interns nothing, and
  its query matches when a visible \<open>time\<close> fact is not after the date.
\<close>

section \<open>The query\<close>

text \<open>The symbols of the query are default symbols: \<open>query\<close> is 27 and \<open>time\<close> is 5.\<close>

definition expiration_query :: "nat \<Rightarrow> rule" where
  "expiration_query d =
     \<lparr>r_head = \<lparr>p_name = 27, p_terms = []\<rparr>,
      r_body = [\<lparr>p_name = 5, p_terms = [Variable 5]\<rparr>],
      r_expressions = [\<lparr>e_ops = [Value (Variable 5), Value (Date d), Binary LessOrEqual]\<rparr>],
      r_scopes = []\<rparr>"

lemma insert_time: "st_insert ''time'' s = (5, s)"
  by (simp add: st_insert_def default_symbols_def)

lemma insert_query: "st_insert ''query'' s = (27, s)"
  by (simp add: st_insert_def default_symbols_def)

lemma expiration_rule_converts:
  "rule_convert (constrained_rule ''query'' [] [make_pred ''time'' [BVariable ''time'']]
       [\<lparr>be_ops = [BValue (BVariable ''time''), BValue (BDate d), BBinary BLessOrEqual]\<rparr>]) s =
     Some (expiration_query d, s)"
  by (simp add: rule_convert_def plain_rule_convert_def rule_apply_parameters_def constrained_rule_def make_pred_def
      rule_new_def predicate_apply_def predicate_convert_def expression_convert_def term_convert_def insert_time
      insert_query expiration_query_def as_u32_def)

section \<open>The answer\<close>

text \<open>The terms of the visible one-argument \<open>time\<close> facts.\<close>

definition visible_times :: "trusted_origins \<Rightarrow> world \<Rightarrow> dterm set" where
  "visible_times scope w =
     {t. \<exists>og. (og, \<lparr>f_predicate = \<lparr>p_name = 5, p_terms = [t]\<rparr>\<rparr>) \<in> fs_pairs (w_facts w) \<and> trusts scope og}"

lemma expiration_matches:
  "body_matches (expiration_query d) {x \<in> fs_pairs (w_facts w). trusts scope (fst x)} b fs \<longleftrightarrow>
     (\<exists>og t. fs = [(og, \<lparr>f_predicate = \<lparr>p_name = 5, p_terms = [t]\<rparr>\<rparr>)] \<and> b = [5 \<mapsto> t] \<and>
        (og, \<lparr>f_predicate = \<lparr>p_name = 5, p_terms = [t]\<rparr>\<rparr>) \<in> fs_pairs (w_facts w) \<and> trusts scope og \<and>
        (\<forall>v. t \<noteq> Variable v))"
  (is "?l \<longleftrightarrow> ?r")
proof
  assume ?l
  then obtain og f t where fs: "fs = [(og, f)]" and f: "(og, f) \<in> fs_pairs (w_facts w)" "trusts scope og"
    and n: "p_name (f_predicate f) = 5" "p_terms (f_predicate f) = [t]" and t: "\<forall>v. t \<noteq> Variable v" "b 5 = Some t"
    and dom: "dom b = {5}"
    by (auto simp: body_matches_def grounded_def instance_of_def expiration_query_def list_all2_Cons1 body_vars_def)
  have b: "b = [5 \<mapsto> t]" using dom t(2) by (auto simp: fun_eq_iff dom_def split: if_splits)
  have "f = \<lparr>f_predicate = \<lparr>p_name = 5, p_terms = [t]\<rparr>\<rparr>" using n by simp
  then show ?r using fs f b t by simp
next
  assume ?r
  then obtain og t where fs: "fs = [(og, \<lparr>f_predicate = \<lparr>p_name = 5, p_terms = [t]\<rparr>\<rparr>)]" and b: "b = [5 \<mapsto> t]"
    and f: "(og, \<lparr>f_predicate = \<lparr>p_name = 5, p_terms = [t]\<rparr>\<rparr>) \<in> fs_pairs (w_facts w)" "trusts scope og"
    and t: "\<forall>v. t \<noteq> Variable v"
    by blast
  have "dom b = {5}" by (simp add: b)
  with fs f t show ?l
    by (simp add: body_matches_def grounded_def instance_of_def expiration_query_def body_vars_def b)
qed

lemma expiration_expression:
  "check_expressions rx externs (r_expressions (expiration_query d)) [5 \<mapsto> Date t] tmp = Ok (t \<le> d)"
  by (simp add: expiration_query_def expr_evaluate_def and_push_def pure_result_def split: bool.splits)

text \<open>
  C22: the check that a block expires at a date is converted without a new symbol, and, when the
  visible time facts hold dates, it passes exactly when one of them is not after the date: with no
  time fact it fails, and with several one is enough.
\<close>

theorem expiration_check_meaning:
  assumes "visible_times scope w \<subseteq> range Date"
  shows "\<exists>q. check_convert (last (bb_checks (bb_check_expiration_date d bb))) s =
        Some (\<lparr>c_queries = [q], c_kind = One_kind\<rparr>, s) \<and> r_scopes q = [] \<and>
      query_match rx symbols q og scope w = Ok (\<exists>t. Date t \<in> visible_times scope w \<and> t \<le> d)"
proof (intro exI conjI)
  show "check_convert (last (bb_checks (bb_check_expiration_date d bb))) s =
      Some (\<lparr>c_queries = [expiration_query d], c_kind = One_kind\<rparr>, s)"
    by (simp add: bb_check_expiration_date_def one_check_def check_convert_def expiration_rule_converts)
  show "r_scopes (expiration_query d) = []"
    by (simp add: expiration_query_def)
  have dates: "\<exists>u. t = Date u \<and> Date u \<in> visible_times scope w"
    if "body_matches (expiration_query d) {x \<in> fs_pairs (w_facts w). trusts scope (fst x)} b fs" "b = [5 \<mapsto> t]" for b fs t
  proof -
    have "b 5 = Some t" using that(2) by simp
    with that(1) have "t \<in> visible_times scope w"
      unfolding expiration_matches visible_times_def by auto
    with assms show ?thesis by auto
  qed
  have "error_free rx (w_externs w) symbols (expiration_query d) {x \<in> fs_pairs (w_facts w). trusts scope (fst x)}"
    unfolding error_free_def
  proof (intro allI impI)
    fix b fs
    assume m: "body_matches (expiration_query d) {x \<in> fs_pairs (w_facts w). trusts scope (fst x)} b fs"
    then obtain t where b: "b = [5 \<mapsto> t]" unfolding expiration_matches by blast
    from dates [OF m b] obtain u where "t = Date u" by blast
    then show "is_ok (check_expressions rx (w_externs w) (r_expressions (expiration_query d)) b (tmp_new symbols))"
      by (simp add: b expiration_expression)
  qed
  then have "query_match rx symbols (expiration_query d) og scope w =
      Ok (\<exists>b fs. body_matches (expiration_query d) {x \<in> fs_pairs (w_facts w). trusts scope (fst x)} b fs \<and>
          passes rx (w_externs w) symbols (expiration_query d) b)"
    unfolding query_match_def by (rule find_match_correct) (simp add: expiration_query_def)
  also have "(\<exists>b fs. body_matches (expiration_query d) {x \<in> fs_pairs (w_facts w). trusts scope (fst x)} b fs \<and>
          passes rx (w_externs w) symbols (expiration_query d) b) \<longleftrightarrow>
      (\<exists>t. Date t \<in> visible_times scope w \<and> t \<le> d)" (is "?l \<longleftrightarrow> ?r")
  proof
    assume ?l
    then obtain b fs where m: "body_matches (expiration_query d) {x \<in> fs_pairs (w_facts w). trusts scope (fst x)} b fs"
      and p: "passes rx (w_externs w) symbols (expiration_query d) b" by blast
    then obtain t where "b = [5 \<mapsto> t]" unfolding expiration_matches by blast
    with dates [OF m] p show ?r by (force simp: passes_def expiration_expression)
  next
    assume ?r
    then obtain t og' where "t \<le> d" "trusts scope og'"
      "(og', \<lparr>f_predicate = \<lparr>p_name = 5, p_terms = [Date t]\<rparr>\<rparr>) \<in> fs_pairs (w_facts w)"
      by (auto simp: visible_times_def)
    then show ?l unfolding expiration_matches
      by (intro exI [of _ "[5 \<mapsto> Date t]"]) (auto simp: passes_def expiration_expression)
  qed
  finally show "query_match rx symbols (expiration_query d) og scope w =
      Ok (\<exists>t. Date t \<in> visible_times scope w \<and> t \<le> d)" .
qed

text \<open>The authorizer's time facts 10 and 40, and one of block 7, which is not trusted.\<close>

definition timed_world :: world where
  "timed_world =
     \<lparr>w_facts = [({|usize_max|}, [\<lparr>f_predicate = \<lparr>p_name = 5, p_terms = [Date 10]\<rparr>\<rparr>, \<lparr>f_predicate = \<lparr>p_name = 5, p_terms = [Date 40]\<rparr>\<rparr>]),
                 ({|7|}, [\<lparr>f_predicate = \<lparr>p_name = 5, p_terms = [Date 1]\<rparr>\<rparr>])],
      w_rules = [], w_iterations = 0, w_externs = (\<lambda>_. None)\<rparr>"

lemma timed_world_times: "visible_times default_trusted timed_world = {Date 10, Date 40}"
  by (auto simp: visible_times_def timed_world_def fs_pairs_def fs_iter_all_def trusts_iff default_trusted_mem)

theorem expiration_check_meaning_witness:
  "(\<exists>q. check_convert (last (bb_checks (bb_check_expiration_date 20 bb_new))) st_new =
        Some (\<lparr>c_queries = [q], c_kind = One_kind\<rparr>, st_new) \<and>
      query_match (\<lambda>_. None) st_new q usize_max default_trusted timed_world = Ok True) \<and>
   (\<exists>q. check_convert (last (bb_checks (bb_check_expiration_date 5 bb_new))) st_new =
        Some (\<lparr>c_queries = [q], c_kind = One_kind\<rparr>, st_new) \<and>
      query_match (\<lambda>_. None) st_new q usize_max default_trusted timed_world = Ok False)"
proof -
  have times: "visible_times default_trusted timed_world \<subseteq> range Date"
    by (auto simp: timed_world_times)
  have "(\<exists>t. Date t \<in> {Date 10, Date 40} \<and> t \<le> 20) = True" "(\<exists>t. Date t \<in> {Date 10, Date 40} \<and> t \<le> 5) = False"
    by auto
  then show ?thesis
    using expiration_check_meaning [OF times, where d = 20 and bb = bb_new and s = st_new and rx = "\<lambda>_. None"
        and symbols = st_new and og = usize_max]
      expiration_check_meaning [OF times, where d = 5 and bb = bb_new and s = st_new and rx = "\<lambda>_. None"
        and symbols = st_new and og = usize_max]
    unfolding timed_world_times by auto
qed

end
