(* ===== verification/Statement_Text.thy ===== *)
theory Statement_Text
  imports Conversions Expiration
begin

text \<open>
  Statements given as text (\<open>FromStr\<close> and \<open>TryFrom<&str>\<close> of facts, rules, checks, policies and
  public keys), the ready-made statements of \<open>BuilderExt\<close> and \<open>AuthorizerExt\<close> on the builders, and
  the text of the errors.  The parser of one statement is a parameter, as are the derived \<open>Debug\<close>
  of lists of strings and of parse errors.
\<close>

section \<open>One statement\<close>

record grammar =
  g_fact :: "string \<Rightarrow> ast_fact parsed"
  g_rule :: "string \<Rightarrow> ast_rule parsed"
  g_check :: "string \<Rightarrow> ast_check parsed"
  g_policy :: "string \<Rightarrow> ast_policy parsed"
  g_public_key :: "string \<Rightarrow> ast_public_key parsed"

text \<open>\<open>finish\<close> panics when the parser asks for more input; what follows the statement is dropped.\<close>

definition from_text :: "(string \<Rightarrow> 'a parsed) \<Rightarrow> ('a \<Rightarrow> 'b option) \<Rightarrow> string \<Rightarrow> (token_error, 'b) outcome" where
  "from_text parser conv s =
     (case parser s of
        PDone rest x \<Rightarrow> or_panic (conv x)
      | PIncomplete \<Rightarrow> Panic
      | PError e \<Rightarrow> Err (Token_Language (language_error_of [e]))
      | PFailure e \<Rightarrow> Err (Token_Language (language_error_of [e])))"

definition fact_from_str :: "grammar \<Rightarrow> string \<Rightarrow> (token_error, bfact) outcome" where
  "fact_from_str g = from_text (g_fact g) (\<lambda>f. Some (fact_from_ast f))"

definition rule_from_str :: "primitives \<Rightarrow> grammar \<Rightarrow> string \<Rightarrow> (token_error, brule) outcome" where
  "rule_from_str p g = from_text (g_rule g) (rule_from_ast p)"

definition check_from_str :: "primitives \<Rightarrow> grammar \<Rightarrow> string \<Rightarrow> (token_error, bcheck) outcome" where
  "check_from_str p g = from_text (g_check g) (check_from_ast p)"

definition policy_from_str :: "primitives \<Rightarrow> grammar \<Rightarrow> string \<Rightarrow> (token_error, policy) outcome" where
  "policy_from_str p g = from_text (g_policy g) (policy_from_ast p)"

definition parse_failure_text :: "(string option \<Rightarrow> string) \<Rightarrow> parse_failure \<Rightarrow> string" where
  "parse_failure_text debug e =
     ''Parse error on input: '' @ pf_input e @ ''. Message: '' @ debug (pf_message e)"

definition public_key_from_str ::
    "(string option \<Rightarrow> string) \<Rightarrow> primitives \<Rightarrow> grammar \<Rightarrow> string \<Rightarrow> (format_error, public_key) outcome" where
  "public_key_from_str debug p g s =
     (case g_public_key g s of
        PDone rest k \<Rightarrow> public_from_bytes p (ak_key k) (ak_algorithm k)
      | PIncomplete \<Rightarrow> Panic
      | PError e \<Rightarrow> Err (InvalidKey (parse_failure_text debug e))
      | PFailure e \<Rightarrow> Err (InvalidKey (parse_failure_text debug e)))"

text \<open>The builders take anything that converts to a statement; here, its text.\<close>

definition with_text :: "(token_error, 'x) outcome \<Rightarrow> ('x \<Rightarrow> 'b \<Rightarrow> (token_error, 'b) outcome) \<Rightarrow> 'b \<Rightarrow>
    (token_error, 'b) outcome" where
  "with_text m add b = obind m (\<lambda>x. add x b)"

section \<open>Ready-made statements\<close>

definition bu_resource :: "string \<Rightarrow> biscuit_builder \<Rightarrow> biscuit_builder" where
  "bu_resource name = bu_map (bb_resource name)"

definition bu_check_resource :: "string \<Rightarrow> biscuit_builder \<Rightarrow> biscuit_builder" where
  "bu_check_resource name = bu_map (bb_check_resource name)"

definition bu_check_resource_prefix :: "string \<Rightarrow> biscuit_builder \<Rightarrow> biscuit_builder" where
  "bu_check_resource_prefix pre = bu_map (bb_check_resource_prefix pre)"

definition bu_check_resource_suffix :: "string \<Rightarrow> biscuit_builder \<Rightarrow> biscuit_builder" where
  "bu_check_resource_suffix suf = bu_map (bb_check_resource_suffix suf)"

definition bu_operation :: "string \<Rightarrow> biscuit_builder \<Rightarrow> biscuit_builder" where
  "bu_operation name = bu_map (bb_operation name)"

definition bu_check_operation :: "string \<Rightarrow> biscuit_builder \<Rightarrow> biscuit_builder" where
  "bu_check_operation name = bu_map (bb_check_operation name)"

definition bu_check_expiration_date :: "nat \<Rightarrow> biscuit_builder \<Rightarrow> biscuit_builder" where
  "bu_check_expiration_date d = bu_map (bb_check_expiration_date d)"

definition ab_map :: "(block_builder \<Rightarrow> block_builder) \<Rightarrow> authorizer_builder \<Rightarrow> authorizer_builder" where
  "ab_map f a = a\<lparr>ab_block := f (ab_block a)\<rparr>"

definition ab_resource :: "string \<Rightarrow> authorizer_builder \<Rightarrow> authorizer_builder" where
  "ab_resource name = ab_map (bb_resource name)"

definition ab_check_resource :: "string \<Rightarrow> authorizer_builder \<Rightarrow> authorizer_builder" where
  "ab_check_resource name = ab_map (bb_check_resource name)"

definition ab_operation :: "string \<Rightarrow> authorizer_builder \<Rightarrow> authorizer_builder" where
  "ab_operation name = ab_map (bb_operation name)"

definition ab_check_operation :: "string \<Rightarrow> authorizer_builder \<Rightarrow> authorizer_builder" where
  "ab_check_operation name = ab_map (bb_check_operation name)"

definition ab_check_resource_prefix :: "string \<Rightarrow> authorizer_builder \<Rightarrow> authorizer_builder" where
  "ab_check_resource_prefix pre = ab_map (bb_check_resource_prefix pre)"

definition ab_check_resource_suffix :: "string \<Rightarrow> authorizer_builder \<Rightarrow> authorizer_builder" where
  "ab_check_resource_suffix suf = ab_map (bb_check_resource_suffix suf)"

definition ab_check_expiration_date :: "nat \<Rightarrow> authorizer_builder \<Rightarrow> authorizer_builder" where
  "ab_check_expiration_date d = ab_map (bb_check_expiration_date d)"

definition ab_allow_all :: "primitives \<Rightarrow> grammar \<Rightarrow> authorizer_builder \<Rightarrow> authorizer_builder option" where
  "ab_allow_all p g a = unwrap_outcome (with_text (policy_from_str p g ''allow if true'') ab_policy a)"

definition ab_deny_all :: "primitives \<Rightarrow> grammar \<Rightarrow> authorizer_builder \<Rightarrow> authorizer_builder option" where
  "ab_deny_all p g a = unwrap_outcome (with_text (policy_from_str p g ''deny if true'') ab_policy a)"

text \<open>The clock reads \<open>now\<close>, in seconds around the epoch.\<close>

definition ab_time :: "int \<Rightarrow> authorizer_builder \<Rightarrow> authorizer_builder option" where
  "ab_time now a =
     (case date_term now of
        None \<Rightarrow> None
      | Some d \<Rightarrow> unwrap_outcome (ab_fact (make_fact ''time'' [d]) a))"

definition ab_register_extern_func ::
    "string \<Rightarrow> extern_func \<Rightarrow> authorizer_builder \<Rightarrow> authorizer_builder" where
  "ab_register_extern_func name f a = a\<lparr>ab_externs := (ab_externs a)(name \<mapsto> f)\<rparr>"

section \<open>Text of the errors\<close>

record error_debug =
  ed_errors :: "parse_error list \<Rightarrow> string"  \<comment> \<open>\<open>ParseErrors\<close>\<close>
  ed_strings :: "string list \<Rightarrow> string"

fun display_language_error :: "error_debug \<Rightarrow> language_error \<Rightarrow> string" where
  "display_language_error d (ParseError es) = ''datalog parsing error: '' @ ed_errors d es"
| "display_language_error d (Parameters missing unused) =
     ''datalog parameters must all be bound, provided values must all be used.'' @ newline @
     ''Missing parameters: '' @ ed_strings d missing @ newline @
     ''Unused parameters: '' @ ed_strings d unused"

fun display_expr_error :: "expr_error \<Rightarrow> string" where
  "display_expr_error (UnknownSymbol _) = ''Unknown symbol''"
| "display_expr_error (UnknownVariable _) = ''Unknown variable''"
| "display_expr_error InvalidType = ''Invalid type''"
| "display_expr_error Overflow = ''Overflow''"
| "display_expr_error DivideByZero = ''Division by zero''"
| "display_expr_error InvalidStack = ''Wrong number of elements on stack''"
| "display_expr_error ShadowedVariable = ''Shadowed variable''"
| "display_expr_error (UndefinedExtern f) = ''Undefined extern func: '' @ f"
| "display_expr_error (ExternEvalError f e) = ''Error while evaluating extern func '' @ f @ '': '' @ e"

fun display_matched_policy :: "matched_policy \<Rightarrow> string" where
  "display_matched_policy (MatchedAllow i) = ''an allow policy matched (policy index: '' @ string_of_nat i @ '')''"
| "display_matched_policy (MatchedDeny i) = ''a deny policy matched (policy index: '' @ string_of_nat i @ '')''"

fun display_logic_error :: "logic_error \<Rightarrow> string" where
  "display_logic_error (InvalidBlockRule _ _) =
     ''a rule provided by a block is producing a fact with unbound variables''"
| "display_logic_error (Unauthorized po cs) =
     display_matched_policy po @ '', and the following checks failed: '' @ display_failed_checks cs"
| "display_logic_error AuthorizerNotEmpty = ''the authorizer already contains a token''"
| "display_logic_error (NoMatchingPolicy cs) =
     ''no matching policy was found, and the following checks failed: '' @ display_failed_checks cs"

fun display_token_error :: "error_debug \<Rightarrow> token_error \<Rightarrow> string" where
  "display_token_error d InternalError = ''internal error''"
| "display_token_error d (Token_Format _) = ''error deserializing or verifying the token''"
| "display_token_error d AppendOnSealed = ''tried to append a block to a sealed token''"
| "display_token_error d AlreadySealed = ''tried to seal an already sealed token''"
| "display_token_error d (FailedLogic e) = ''authorization failed: '' @ display_logic_error e"
| "display_token_error d (Token_Language e) = ''error generating Datalog: '' @ display_language_error d e"
| "display_token_error d (Token_RunLimit _) = ''Reached Datalog execution limits''"
| "display_token_error d (ConversionError s) = ''Cannot convert from Term: '' @ s"
| "display_token_error d (Token_Base64 e) = ''Cannot decode base64 token: '' @ display_base64_error e"
| "display_token_error d (Token_Execution e) = ''Datalog  execution failure: '' @ display_expr_error e"

end
