(* ===== verification/Entry_Points.thy ===== *)
theory Entry_Points
  imports Conversions Snapshot Token_Invariant
begin

text \<open>
  The entry points that wrap the operations of the other theories: base64 forms, the fresh key pair
  that \<open>append\<close> draws, the ready-made statements of \<open>BuilderExt\<close> and \<open>AuthorizerExt\<close>, and the texts
  that \<open>FromStr\<close> and \<open>code\<close> read.  Base64 and the random generator are parameters.

  Lemmas: what is written in base64 is read back; a token that is read without its signatures being
  checked behaves as the checked one (\<open>checked\<close>), operation by operation.
\<close>

section \<open>Base64\<close>

text \<open>\<open>base64::DecodeError\<close>.\<close>

datatype decode_error = DecodeInvalidByte nat u8 | DecodeInvalidLength | DecodeInvalidLastSymbol nat u8

record base64_codec =
  b64_encode :: "bytes \<Rightarrow> string"
  b64_decode :: "string \<Rightarrow> (decode_error, bytes) outcome"

definition base64_ok :: "base64_codec \<Rightarrow> bool" where
  "base64_ok b \<longleftrightarrow> (\<forall>bs. b64_decode b (b64_encode b bs) = Ok bs)"

fun token_of_decode_error :: "decode_error \<Rightarrow> token_error" where
  "token_of_decode_error (DecodeInvalidByte i x) = Token_Base64 (InvalidByte i x)"
| "token_of_decode_error DecodeInvalidLength = Token_Base64 InvalidLength"
| "token_of_decode_error (DecodeInvalidLastSymbol i x) = Token_Base64 (InvalidLastSymbol i x)"

text \<open>Every \<open>from_base64\<close>, \<open>deserialize_base64\<close> and \<open>from_base64_snapshot\<close> decodes and passes on.\<close>

definition from_base64_with ::
    "base64_codec \<Rightarrow> (bytes \<Rightarrow> (token_error, 'a) outcome) \<Rightarrow> string \<Rightarrow> (token_error, 'a) outcome" where
  "from_base64_with b read_bytes s = obind (omap_err token_of_decode_error (b64_decode b s)) read_bytes"

definition to_base64_with :: "base64_codec \<Rightarrow> ('e, bytes) outcome \<Rightarrow> ('e, string) outcome" where
  "to_base64_with b bytes = obind bytes (\<lambda>bs. Ok (b64_encode b bs))"

lemma base64_roundtrip:
  "base64_ok b \<Longrightarrow> to_base64_with b m = Ok s \<Longrightarrow> \<exists>bs. m = Ok bs \<and> from_base64_with b f s = f bs"
  by (auto simp: to_base64_with_def from_base64_with_def base64_ok_def outcome_simps)

definition biscuit_from_base64 ::
    "base64_codec \<Rightarrow> primitives \<Rightarrow> codec \<Rightarrow> string \<Rightarrow> key_provider \<Rightarrow> (token_error, biscuit) outcome" where
  "biscuit_from_base64 b p c s provider = from_base64_with b (\<lambda>bs. biscuit_from p c bs provider) s"

definition biscuit_to_base64 :: "base64_codec \<Rightarrow> codec \<Rightarrow> biscuit \<Rightarrow> (token_error, string) outcome" where
  "biscuit_to_base64 b c t = to_base64_with b (biscuit_to_vec c t)"

definition ub_to_vec :: "codec \<Rightarrow> unverified_biscuit \<Rightarrow> (token_error, bytes) outcome" where
  "ub_to_vec c t = omap_err Token_Format (to_vec c (ub_container t))"

definition ub_from_base64 ::
    "base64_codec \<Rightarrow> primitives \<Rightarrow> codec \<Rightarrow> string \<Rightarrow> (token_error, unverified_biscuit) outcome" where
  "ub_from_base64 b p c s = from_base64_with b (ub_from p c) s"

definition ub_to_base64 :: "base64_codec \<Rightarrow> codec \<Rightarrow> unverified_biscuit \<Rightarrow> (token_error, string) outcome" where
  "ub_to_base64 b c t = to_base64_with b (ub_to_vec c t)"

definition request_serialize_base64 ::
    "base64_codec \<Rightarrow> third_party_codec \<Rightarrow> third_party_request \<Rightarrow> (token_error, string) outcome" where
  "request_serialize_base64 b tc r = to_base64_with b (request_serialize tc r)"

definition request_deserialize_base64 ::
    "base64_codec \<Rightarrow> third_party_codec \<Rightarrow> string \<Rightarrow> (token_error, third_party_request) outcome" where
  "request_deserialize_base64 b tc s = from_base64_with b (request_deserialize tc) s"

definition contents_serialize_base64 ::
    "base64_codec \<Rightarrow> third_party_codec \<Rightarrow> pthird_party_contents \<Rightarrow> (token_error, string) outcome" where
  "contents_serialize_base64 b tc r = to_base64_with b (contents_serialize tc r)"

definition authorizer_to_base64_snapshot ::
    "base64_codec \<Rightarrow> authorizer_codec \<Rightarrow> authorizer \<Rightarrow> (format_error, string) outcome" where
  "authorizer_to_base64_snapshot b c a = to_base64_with b (to_raw_snapshot c authorizer_snapshot a)"

definition ab_to_base64_snapshot ::
    "base64_codec \<Rightarrow> authorizer_codec \<Rightarrow> authorizer_builder \<Rightarrow> (format_error, string) outcome" where
  "ab_to_base64_snapshot b c a = to_base64_with b (to_raw_snapshot c ab_snapshot a)"

definition ab_from_base64_snapshot ::
    "base64_codec \<Rightarrow> authorizer_codec \<Rightarrow> primitives \<Rightarrow> string \<Rightarrow> (token_error, authorizer_builder) outcome" where
  "ab_from_base64_snapshot b c p s = from_base64_with b (from_raw_snapshot c (ab_from_snapshot p)) s"

definition authorizer_from_base64_snapshot ::
    "formats \<Rightarrow> base64_codec \<Rightarrow> authorizer_codec \<Rightarrow> primitives \<Rightarrow> string \<Rightarrow> (token_error, authorizer) outcome" where
  "authorizer_from_base64_snapshot fmt b c p s =
     from_base64_with b (from_raw_snapshot c (authorizer_from_snapshot fmt p)) s"

section \<open>Fresh keys\<close>

text \<open>The bytes of the secret that the random generator gives are the argument \<open>draw\<close>.\<close>

fun keypair_new_with_rng :: "bytes \<Rightarrow> algorithm \<Rightarrow> keypair" where
  "keypair_new_with_rng draw Ed25519 = Ed25519_pair draw"
| "keypair_new_with_rng draw Secp256r1 = P256_pair draw"

definition keypair_new :: "bytes \<Rightarrow> keypair" where
  "keypair_new draw = keypair_new_with_rng draw Ed25519"

definition biscuit_append ::
    "primitives \<Rightarrow> codec \<Rightarrow> bytes \<Rightarrow> biscuit \<Rightarrow> block_builder \<Rightarrow> (token_error, biscuit) outcome" where
  "biscuit_append p c draw t bb = append_with_keypair p c t (keypair_new_with_rng draw Ed25519) bb"

definition biscuit_append_third_party ::
    "formats \<Rightarrow> primitives \<Rightarrow> codec \<Rightarrow> bytes \<Rightarrow> biscuit \<Rightarrow> public_key \<Rightarrow> pthird_party_contents \<Rightarrow>
     (token_error, biscuit) outcome" where
  "biscuit_append_third_party fmt p c draw t external_key response =
     append_third_party_with_keypair fmt p c t external_key response (keypair_new_with_rng draw Ed25519)"

definition biscuit_third_party_request :: "biscuit \<Rightarrow> (token_error, third_party_request) outcome" where
  "biscuit_third_party_request t = request_from_container (bi_container t)"

definition biscuit_new_with_rng ::
    "primitives \<Rightarrow> codec \<Rightarrow> bytes \<Rightarrow> nat option \<Rightarrow> keypair \<Rightarrow> symbol_table \<Rightarrow> block \<Rightarrow> (token_error, biscuit) outcome" where
  "biscuit_new_with_rng p c draw root_key_id root symbols authority =
     biscuit_new_with_key_pair p c root_key_id root (keypair_new_with_rng draw Ed25519) symbols authority"

definition build_with_rng ::
    "primitives \<Rightarrow> codec \<Rightarrow> bytes \<Rightarrow> biscuit_builder \<Rightarrow> keypair \<Rightarrow> symbol_table \<Rightarrow> (token_error, biscuit) outcome" where
  "build_with_rng p c draw b root symbols =
     obind (or_panic (bb_build (bu_inner b) symbols))
       (\<lambda>authority. biscuit_new_with_rng p c draw (bu_root_key_id b) root symbols authority)"

definition bu_build ::
    "primitives \<Rightarrow> codec \<Rightarrow> bytes \<Rightarrow> biscuit_builder \<Rightarrow> keypair \<Rightarrow> (token_error, biscuit) outcome" where
  "bu_build p c draw b root = build_with_rng p c draw b root default_symbol_table"

lemma bu_build_is_build:
  "bu_build p c draw b root = build_with_key_pair p c b root default_symbol_table (keypair_new draw)"
  by (simp add: bu_build_def build_with_rng_def biscuit_new_with_rng_def build_with_key_pair_def keypair_new_def)

section \<open>Tokens whose signatures are not checked\<close>

definition ub_append ::
    "primitives \<Rightarrow> codec \<Rightarrow> bytes \<Rightarrow> unverified_biscuit \<Rightarrow> block_builder \<Rightarrow> (token_error, unverified_biscuit) outcome" where
  "ub_append p c draw t bb = ub_append_with_keypair p c t (keypair_new_with_rng draw Ed25519) bb"

definition ub_append_third_party ::
    "(format_error \<Rightarrow> string) \<Rightarrow> primitives \<Rightarrow> codec \<Rightarrow> third_party_codec \<Rightarrow> bytes \<Rightarrow> unverified_biscuit \<Rightarrow> bytes \<Rightarrow>
     (token_error, unverified_biscuit) outcome" where
  "ub_append_third_party debug p c tc draw t input =
     ub_append_third_party_with_keypair debug p c tc t input (keypair_new_with_rng draw Ed25519)"

definition ub_append_third_party_base64 ::
    "(format_error \<Rightarrow> string) \<Rightarrow> base64_codec \<Rightarrow> primitives \<Rightarrow> codec \<Rightarrow> third_party_codec \<Rightarrow> bytes \<Rightarrow>
     unverified_biscuit \<Rightarrow> string \<Rightarrow> (token_error, unverified_biscuit) outcome" where
  "ub_append_third_party_base64 debug b p c tc draw t s =
     from_base64_with b (ub_append_third_party debug p c tc draw t) s"

definition ub_third_party_request :: "unverified_biscuit \<Rightarrow> (token_error, third_party_request) outcome" where
  "ub_third_party_request t = request_from_container (ub_container t)"

definition ub_root_key_id :: "unverified_biscuit \<Rightarrow> nat option" where
  "ub_root_key_id t = se_root_key_id (ub_container t)"

definition ub_block_version :: "primitives \<Rightarrow> unverified_biscuit \<Rightarrow> nat \<Rightarrow> (token_error, nat) outcome" where
  "ub_block_version p t i = obind (ub_block p t i) (\<lambda>b. Ok (bl_version b))"

definition ub_print_block_source ::
    "formats \<Rightarrow> primitives \<Rightarrow> unverified_biscuit \<Rightarrow> nat \<Rightarrow> (token_error, string) outcome" where
  "ub_print_block_source fmt p t i =
     obind (ub_block p t i) (\<lambda>b.
       Ok (block_print_source fmt b
         (case bl_external_key b of Some _ \<Rightarrow> bl_symbols b | None \<Rightarrow> ub_symbols t)))"

text \<open>\<open>RootKeyProvider\<close> for a public key, and the deprecated \<open>check_signature\<close>.\<close>

definition provider_of_key :: "public_key \<Rightarrow> key_provider" where
  "provider_of_key k = (\<lambda>_. Ok k)"

definition ub_check_signature ::
    "primitives \<Rightarrow> (nat option \<Rightarrow> public_key) \<Rightarrow> unverified_biscuit \<Rightarrow> (format_error, biscuit) outcome" where
  "ub_check_signature p f t = ub_verify p (\<lambda>kid. Ok (f kid)) t"

section \<open>Unverified tokens agree with tokens\<close>

text \<open>The token that an unverified token becomes when its signatures are checked.\<close>

definition checked :: "unverified_biscuit \<Rightarrow> biscuit" where
  "checked u =
     \<lparr>bi_root_key_id = se_root_key_id (ub_container u), bi_authority = ub_authority u,
      bi_blocks = ub_blocks u, bi_symbols = ub_symbols u, bi_container = ub_container u\<rparr>"

lemma checked_fields [simp]:
  "bi_root_key_id (checked u) = se_root_key_id (ub_container u)" "bi_authority (checked u) = ub_authority u"
  "bi_blocks (checked u) = ub_blocks u" "bi_symbols (checked u) = ub_symbols u"
  "bi_container (checked u) = ub_container u"
  by (simp_all add: checked_def)

lemma ub_verify_checked:
  "ub_verify p provider u =
     obind (provider (ub_root_key_id u)) (\<lambda>key. obind (verify p (ub_container u) key) (\<lambda>_. Ok (checked u)))"
  by (simp add: ub_verify_def ub_root_key_id_def checked_def)

lemma biscuit_from_unverified:
  "biscuit_from p c input provider = Ok t \<longleftrightarrow>
     (\<exists>u. ub_from p c input = Ok u \<and> ub_verify p provider u = Ok t)"
  unfolding biscuit_from_def from_slice_def from_serialized_container_def ub_from_def ub_from_with_symbols_def
    ub_verify_def
  by (auto simp: outcome_simps split: prod.splits)

lemma container_append_root_key:
  "container_append p c t kp block ext = Ok u \<Longrightarrow> se_root_key_id u = se_root_key_id t"
  using append_pushed [of p c t kp block ext u] by (auto simp: pushed_def)

lemma append_checked:
  "append_with_keypair p c (checked u) kp bb =
     obind (ub_append_with_keypair p c u kp bb) (\<lambda>u'. Ok (checked u'))"
proof (cases "bb_build bb (ub_symbols u)")
  case None
  then show ?thesis by (simp add: append_with_keypair_def ub_append_with_keypair_def)
next
  case (Some block)
  show ?thesis
  proof (cases "container_append p c (ub_container u) kp block None")
    case (Ok container)
    with Some container_append_root_key [OF Ok] show ?thesis
      by (simp add: append_with_keypair_def ub_append_with_keypair_def obind_assoc checked_def)
  qed (use Some in \<open>simp_all add: append_with_keypair_def ub_append_with_keypair_def\<close>)
qed

lemma seal_root_key: "container_seal p t = Ok u \<Longrightarrow> se_root_key_id u = se_root_key_id t"
  by (auto simp: container_seal_def outcome_simps split: token_next.splits if_splits)

lemma seal_checked: "biscuit_seal p (checked u) = obind (ub_seal p u) (\<lambda>u'. Ok (checked u'))"
proof (cases "container_seal p (ub_container u)")
  case (Ok container)
  with seal_root_key [OF Ok] show ?thesis by (simp add: biscuit_seal_def ub_seal_def checked_def)
qed (simp_all add: biscuit_seal_def ub_seal_def)

text \<open>
  C26: working on a token before checking its signatures is the same as after: a token is read from
  bytes exactly when its unverified reading passes verification, with the same result, and
  attenuating and sealing the unverified token gives what attenuating and sealing the token gives,
  errors and panics included.
\<close>

theorem unverified_agrees:
  "(biscuit_from p c input provider = Ok t \<longleftrightarrow>
      (\<exists>u. ub_from p c input = Ok u \<and> ub_verify p provider u = Ok t)) \<and>
   ub_verify p provider u =
     obind (provider (ub_root_key_id u)) (\<lambda>key. obind (verify p (ub_container u) key) (\<lambda>_. Ok (checked u))) \<and>
   append_with_keypair p c (checked u) kp bb = obind (ub_append_with_keypair p c u kp bb) (\<lambda>u'. Ok (checked u')) \<and>
   biscuit_seal p (checked u) = obind (ub_seal p u) (\<lambda>u'. Ok (checked u')) \<and>
   biscuit_third_party_request (checked u) = ub_third_party_request u"
  by (simp add: biscuit_from_unverified ub_verify_checked append_checked seal_checked
      biscuit_third_party_request_def ub_third_party_request_def)

section \<open>Third-party blocks of unverified tokens\<close>

lemma insert_fallible_appends:
  "pk_insert_fallible k keys = Ok (i, keys') \<Longrightarrow> pk_keys keys' = pk_keys keys @ [k]"
  by (auto simp: pk_insert_fallible_def split: option.splits)

lemma insert_all_keys_appends:
  "insert_all_keys ks keys = Ok keys' \<Longrightarrow> pk_keys keys' = pk_keys keys @ ks"
proof (induction ks arbitrary: keys)
  case (Cons k ks)
  from Cons.prems obtain i keys1 where "pk_insert_fallible k keys = Ok (i, keys1)" "insert_all_keys ks keys1 = Ok keys'"
    by (cases "pk_insert_fallible k keys") auto
  with Cons.IH [of keys1] insert_fallible_appends [of k keys i keys1] show ?case by simp
qed simp

lemma insert_keys_length:
  "insert_keys p ks keys = Ok keys' \<Longrightarrow> length (pk_keys keys') = length (pk_keys keys) + length ks"
proof (induction ks arbitrary: keys)
  case (Cons k ks)
  from Cons.prems obtain key i keys1 where "pk_insert_fallible key keys = Ok (i, keys1)" "insert_keys p ks keys1 = Ok keys'"
    by (cases "public_from_proto p k") (auto simp: outcome_simps)
  with Cons.IH [of keys1] insert_fallible_appends [of key keys i keys1] show ?case by simp
qed simp

lemma ok_or_else_panic: "(case m of Ok b \<Rightarrow> Ok b | Err _ \<Rightarrow> Panic | Panic \<Rightarrow> Panic) = Ok x \<longleftrightarrow> m = Ok x"
  by (cases m) auto

lemma block_keys_length:
  assumes "proto_block_to_token_block p m key = Ok b"
  shows "length (pk_keys (bl_public_keys b)) = length (pbl_public_keys m)"
  using assms insert_keys_length [of p "pbl_public_keys m" pk_new]
  by (auto simp: proto_block_to_token_block_def Let_def outcome_simps pk_new_def split: if_splits)

lemma ub_third_party_shape:
  assumes "ub_append_third_party_with_keypair debug p c tc u input kp = Ok u'"
  shows "\<exists>payload x container block keys token_block.
    container_append_serialized p (ub_container u) kp payload (Some x) = Ok container \<and>
    decode_block c payload = Ok block \<and>
    proto_block_to_token_block p block (Some (xs_public_key x)) = Ok token_block \<and>
    pk_keys keys = pk_keys (st_public_keys (ub_symbols u)) @ pk_keys (bl_public_keys token_block) \<and>
    u' = u\<lparr>ub_blocks := ub_blocks u @ [block], ub_symbols := (ub_symbols u)\<lparr>st_public_keys := keys\<rparr>,
           ub_container := container\<rparr>"
proof -
  obtain contents where cs: "decode_contents tc input = Ok contents"
    using assms by (auto simp: ub_append_third_party_with_keypair_def outcome_simps)
  define ext where "ext = ptc_external_signature contents"
  from assms cs obtain key block container token_block keys where
    "container_append_serialized p (ub_container u) kp (ptc_payload contents)
       (Some \<lparr>xs_public_key = key, xs_signature = pes_signature ext\<rparr>) = Ok container"
    "decode_block c (ptc_payload contents) = Ok block"
    "proto_block_to_token_block p block (Some key) = Ok token_block"
    "insert_all_keys (pk_keys (bl_public_keys token_block)) (st_public_keys (ub_symbols u)) = Ok keys"
    "u' = u\<lparr>ub_blocks := ub_blocks u @ [block], ub_symbols := (ub_symbols u)\<lparr>st_public_keys := keys\<rparr>,
           ub_container := container\<rparr>"
    by (auto simp: ub_append_third_party_with_keypair_def Let_def outcome_simps ext_def ok_or_else_panic)
  with insert_all_keys_appends show ?thesis
    by (intro exI conjI) (assumption | simp)+
qed

text \<open>The token as its bytes are read has the tables it had before the third-party block.\<close>

lemma ub_third_party_read_back:
  assumes "consistent p c (checked u)"
    and "ub_append_third_party_with_keypair debug p c tc u input kp = Ok u'"
  shows "consistent p c ((checked u')\<lparr>bi_symbols := ub_symbols u\<rparr>)"
proof -
  from ub_third_party_shape [OF assms(2)] obtain payload x container block keys where
    cont: "container_append_serialized p (ub_container u) kp payload (Some x) = Ok container"
    and block: "decode_block c payload = Ok block"
    and u': "u' = u\<lparr>ub_blocks := ub_blocks u @ [block], ub_symbols := (ub_symbols u)\<lparr>st_public_keys := keys\<rparr>,
           ub_container := container\<rparr>" by blast
  from append_serialized_pushed [OF cont] obtain b where b: "pushed (ub_container u) payload (Some x) b container"
    by blast
  have "consistent p c
    \<lparr>bi_root_key_id = bi_root_key_id (checked u), bi_authority = bi_authority (checked u),
     bi_blocks = bi_blocks (checked u) @ [block], bi_symbols = ub_symbols u, bi_container = container\<rparr>"
    using b block consistentD(3) [OF assms(1)]
    by (intro consistent_snoc [OF assms(1), of b]) (auto simp: decode_signed_def pushed_def)
  then show ?thesis
    using b by (simp add: u' checked_def pushed_def)
qed

text \<open>
  C37: a third-party block appended to an unverified token is read back without its keys, which the
  append put in the token's table: the token agrees with its bytes only if the block has no keys,
  and otherwise every key added later is numbered too high by the number of the block's keys.
\<close>

theorem unverified_third_party_keys:
  assumes "consistent p c (checked u)"
    and "ub_append_third_party_with_keypair debug p c tc u input kp = Ok u'"
  shows "\<exists>read. from_serialized_container p c (ub_container u') default_symbol_table = Ok read \<and>
     (checked u' = read \<longleftrightarrow> pbl_public_keys (last (ub_blocks u')) = []) \<and>
     (k \<in> set (pk_keys (st_public_keys (ub_symbols u'))) \<or>
      fst (pk_insert k (st_public_keys (ub_symbols u'))) =
        fst (pk_insert k (st_public_keys (bi_symbols read))) + length (pbl_public_keys (last (ub_blocks u'))))"
proof (intro exI conjI)
  let ?read = "(checked u')\<lparr>bi_symbols := ub_symbols u\<rparr>"
  from ub_third_party_read_back [OF assms]
  show "from_serialized_container p c (ub_container u') default_symbol_table = Ok ?read"
    by (simp add: consistent_def)
  from ub_third_party_shape [OF assms(2)] obtain payload x container block keys token_block where
    "container_append_serialized p (ub_container u) kp payload (Some x) = Ok container"
    and "decode_block c payload = Ok block"
    and tb: "proto_block_to_token_block p block (Some (xs_public_key x)) = Ok token_block"
    and keys: "pk_keys keys = pk_keys (st_public_keys (ub_symbols u)) @ pk_keys (bl_public_keys token_block)"
    and u': "u' = u\<lparr>ub_blocks := ub_blocks u @ [block], ub_symbols := (ub_symbols u)\<lparr>st_public_keys := keys\<rparr>,
           ub_container := container\<rparr>"
    by blast
  from u' have parts: "last (ub_blocks u') = block" "ub_symbols u' = (ub_symbols u)\<lparr>st_public_keys := keys\<rparr>"
    by auto
  note len = block_keys_length [OF tb]
  have "keys = st_public_keys (ub_symbols u) \<longleftrightarrow> pk_keys (bl_public_keys token_block) = []"
    using keys by (cases keys; cases "st_public_keys (ub_symbols u)") auto
  then have "ub_symbols u' = ub_symbols u \<longleftrightarrow> pbl_public_keys block = []"
    using len by (cases "ub_symbols u") (auto simp: parts(2))
  then show "checked u' = ?read \<longleftrightarrow> pbl_public_keys (last (ub_blocks u')) = []"
    by (simp add: checked_def parts(1))
  show "k \<in> set (pk_keys (st_public_keys (ub_symbols u'))) \<or>
      fst (pk_insert k (st_public_keys (ub_symbols u'))) =
        fst (pk_insert k (st_public_keys (bi_symbols ?read))) + length (pbl_public_keys (last (ub_blocks u')))"
    using keys len by (auto simp: parts pk_insert_def position_append position_None_iff split: option.splits dest: position_Some_nth)
qed

text \<open>The empty token, read without checking it, and a third-party block that names one key.\<close>

definition keyed_block :: block where
  "keyed_block = empty_block\<lparr>bl_version := DATALOG_3_2, bl_public_keys := \<lparr>pk_keys = [demo_key 3]\<rparr>\<rparr>"

definition keyed_codec :: codec where
  "keyed_codec =
     \<lparr>encode_block = (\<lambda>_. Err []),
      decode_block = (\<lambda>bs. Ok (if bs = [5] then empty_message else token_block_to_proto_block keyed_block)),
      encode_biscuit = (\<lambda>_. Err []), decode_biscuit = (\<lambda>_. Err [])\<rparr>"

definition keyed_contents :: pthird_party_contents where
  "keyed_contents =
     \<lparr>ptc_payload = [6],
      ptc_external_signature = \<lparr>pes_signature = [], pes_public_key = public_to_proto (demo_key 2)\<rparr>\<rparr>"

definition keyed_requests :: third_party_codec where
  "keyed_requests =
     \<lparr>encode_request = (\<lambda>_. Err []), decode_request = (\<lambda>_. Err []), encode_contents = (\<lambda>_. Err []),
      decode_contents = (\<lambda>_. Ok keyed_contents)\<rparr>"

definition raw_demo :: unverified_biscuit where
  "raw_demo =
     \<lparr>ub_authority = empty_message, ub_blocks = [], ub_symbols = st_new, ub_container = demo_container\<rparr>"

lemma raw_demo_consistent: "consistent demo keyed_codec (checked raw_demo)"
proof -
  have "extend_tables demo empty_message st_new = Ok st_new"
    by (simp add: extend_tables_def empty_message_def token_block_to_proto_block_def empty_block_def st_new_def pk_new_def
        st_from_def st_extend_def st_is_disjoint_def pk_extend_def pk_is_disjoint_def)
  then show ?thesis
    by (simp add: consistent_def from_serialized_container_def extract_blocks_def checked_def raw_demo_def
        demo_container_def keyed_codec_def default_symbol_table_def table_wf_new)
qed

lemma keyed_block_reads:
  "proto_block_to_token_block demo (token_block_to_proto_block keyed_block) (Some k) =
     Ok (keyed_block\<lparr>bl_symbols := \<lparr>st_symbols = [], st_public_keys = \<lparr>pk_keys = [demo_key 3]\<rparr>\<rparr>, bl_external_key := Some k\<rparr>)"
proof -
  have "valid_public demo (demo_key 3)" by (simp add: demo_key_def demo_pair_valid)
  then have "wire_contents keyed_block" "wire_tables demo keyed_block" "block_version keyed_block \<le> bl_version keyed_block"
    "bl_version keyed_block \<le> MAX_SCHEMA_VERSION" "DATALOG_3_2 \<le> bl_version keyed_block"
    by (simp_all add: wire_contents_def wire_tables_def block_version_def keyed_block_def empty_block_def st_new_def
        schema_version_number_def get_schema_version_def version_numbers)
  then show ?thesis
    using block_write_read [of keyed_block demo "Some k"] by (simp add: keyed_block_def empty_block_def st_new_def)
qed

lemma raw_demo_third_party:
  "\<exists>u'. ub_append_third_party_with_keypair (\<lambda>_. []) demo keyed_codec keyed_requests raw_demo [] (demo_pair 4) = Ok u' \<and>
     pbl_public_keys (last (ub_blocks u')) = [public_to_proto (demo_key 3)] \<and>
     pk_keys (st_public_keys (ub_symbols u')) = [demo_key 3]"
proof -
  have key: "demo_key 2 = Ed25519_key (replicate 32 2)"
    by (simp add: demo_key_def demo_pair_def demo_def)
  have read_key: "ed_public_from_bytes demo (replicate 32 2) = Ok (replicate 32 2)"
    by (simp add: ed_public_from_bytes_def demo_def)
  obtain container where "container_append_serialized demo demo_container (demo_pair 4) [6]
      (Some \<lparr>xs_public_key = Ed25519_key (replicate 32 2), xs_signature = []\<rparr>) = Ok container"
    by (simp add: container_append_serialized_def push_block_def sign_block_def demo_signs
        block_signature_version_def signature_versions demo_container_def last_block_def)
  then show ?thesis
    by (simp add: ub_append_third_party_with_keypair_def keyed_requests_def keyed_contents_def keyed_codec_def
        keyed_block_reads raw_demo_def public_to_proto_def key read_key of_tag_in_def nth_opt_def)
       (simp add: keyed_block_def pk_insert_fallible_def st_new_def pk_new_def token_block_to_proto_block_def
        public_to_proto_def)
qed

theorem unverified_third_party_keys_witness:
  "\<exists>u' read. ub_append_third_party_with_keypair (\<lambda>_. []) demo keyed_codec keyed_requests raw_demo [] (demo_pair 4) = Ok u' \<and>
     from_serialized_container demo keyed_codec (ub_container u') default_symbol_table = Ok read \<and>
     checked u' \<noteq> read \<and>
     fst (pk_insert (demo_key 5) (st_public_keys (ub_symbols u'))) =
       fst (pk_insert (demo_key 5) (st_public_keys (bi_symbols read))) + 1"
proof -
  obtain u' where u': "ub_append_third_party_with_keypair (\<lambda>_. []) demo keyed_codec keyed_requests raw_demo [] (demo_pair 4) = Ok u'"
    and keys: "pbl_public_keys (last (ub_blocks u')) = [public_to_proto (demo_key 3)]"
      "pk_keys (st_public_keys (ub_symbols u')) = [demo_key 3]"
    using raw_demo_third_party by blast
  have "demo_key 5 \<noteq> demo_key 3" by (simp add: demo_key_def demo_pair_def demo_def)
  with u' keys show ?thesis
    using unverified_third_party_keys [OF raw_demo_consistent u', of "demo_key 5"] by auto
qed

end
