(* ===== verification/C_Api.thy ===== *)
theory C_Api
  imports Statement_Text Entry_Points Key_Text
begin

text \<open>
  The C interface (\<open>biscuit-capi/src/lib.rs\<close>), function by function.  A call threads the state of
  the thread (the last error and the two buffers whose pointers are handed out) and answers \<open>None\<close>
  when it aborts: a panic does not cross \<open>extern "C"\<close>.  A handle is an option, \<open>None\<close> for a null
  pointer; a builder handle holds an option, which \<open>take\<close> empties.  A buffer that a function fills is
  part of its answer, and a string that comes from C is the memory from its pointer on.  The
  functions that free a handle drop their argument and have no definition.  The seeded generator,
  PEM, the regular expressions, the clock and the size that prost computes are parameters.
\<close>

section \<open>State and errors\<close>

type_synonym u64 = "64 word"

datatype capi_error = Error_Biscuit token_error | Error_InvalidArgument

record c_state =
  cs_last_error :: "capi_error option"
  cs_message :: "string option"
  cs_check_rule :: "string option"

type_synonym 'a c_call = "c_state \<Rightarrow> ('a \<times> c_state) option"

definition c_start :: c_state where
  "c_start = \<lparr>cs_last_error = None, cs_message = None, cs_check_rule = None\<rparr>"

definition update_last_error :: "capi_error \<Rightarrow> c_state \<Rightarrow> c_state" where
  "update_last_error e st = st\<lparr>cs_last_error := Some e\<rparr>"

definition answer :: "'a \<Rightarrow> 'a c_call" where
  "answer x st = Some (x, st)"

definition failing :: "capi_error \<Rightarrow> 'a \<Rightarrow> 'a c_call" where
  "failing e x st = Some (x, update_last_error e st)"

definition aborting :: "'a c_call" where
  "aborting st = None"

abbreviation invalid :: "'a \<Rightarrow> 'a c_call" where
  "invalid \<equiv> failing Error_InvalidArgument"

text \<open>\<open>if x.is_none() { update_last_error(InvalidArgument); return ... }\<close>\<close>

definition non_null :: "'h option \<Rightarrow> 'a \<Rightarrow> ('h \<Rightarrow> 'a c_call) \<Rightarrow> 'a c_call" where
  "non_null h x f = (case h of None \<Rightarrow> invalid x | Some v \<Rightarrow> f v)"

text \<open>A result whose error is recorded, and one whose error \<open>ok\<close> drops.\<close>

definition recorded :: "(token_error, 'r) outcome \<Rightarrow> 'a \<Rightarrow> ('r \<Rightarrow> 'a c_call) \<Rightarrow> 'a c_call" where
  "recorded m x f = (case m of Ok r \<Rightarrow> f r | Err e \<Rightarrow> failing (Error_Biscuit e) x | Panic \<Rightarrow> aborting)"

definition dropped :: "('e, 'r) outcome \<Rightarrow> 'r option c_call" where
  "dropped m = (case m of Ok r \<Rightarrow> answer (Some r) | Err e \<Rightarrow> answer None | Panic \<Rightarrow> aborting)"

definition or_invalid :: "('e, 'r) outcome \<Rightarrow> ('r \<Rightarrow> 'a option c_call) \<Rightarrow> 'a option c_call" where
  "or_invalid m f = (case m of Ok r \<Rightarrow> f r | Err e \<Rightarrow> invalid None | Panic \<Rightarrow> aborting)"

fun display_capi_error :: "error_debug \<Rightarrow> capi_error \<Rightarrow> string" where
  "display_capi_error d Error_InvalidArgument = ''invalid argument''"
| "display_capi_error d (Error_Biscuit e) = display_token_error d e"

section \<open>Strings\<close>

text \<open>\<open>CString::new\<close> refuses a text with a zero byte.\<close>

definition c_string :: "string \<Rightarrow> string option" where
  "c_string s = (if CHR 0x00 \<in> set s then None else Some s)"

text \<open>
  \<open>CStr::from_ptr\<close> reads up to the first zero byte, and \<open>to_str\<close> accepts well-formed UTF-8: after the
  first byte of a scalar value, the number of bytes that follow and the range of the next one.
\<close>

definition continuation :: "nat \<Rightarrow> bool" where
  "continuation b \<longleftrightarrow> 0x80 \<le> b \<and> b \<le> 0xBF"

definition scalar_tail :: "nat \<Rightarrow> (nat \<times> nat \<times> nat) option" where
  "scalar_tail a =
     (if a < 0x80 then Some (0, 0x80, 0xBF)
      else if 0xC2 \<le> a \<and> a \<le> 0xDF then Some (1, 0x80, 0xBF)
      else if a = 0xE0 then Some (2, 0xA0, 0xBF)
      else if a = 0xED then Some (2, 0x80, 0x9F)
      else if 0xE1 \<le> a \<and> a \<le> 0xEF then Some (2, 0x80, 0xBF)
      else if a = 0xF0 then Some (3, 0x90, 0xBF)
      else if 0xF1 \<le> a \<and> a \<le> 0xF3 then Some (3, 0x80, 0xBF)
      else if a = 0xF4 then Some (3, 0x80, 0x8F)
      else None)"

definition well_formed_tail :: "nat \<Rightarrow> nat \<Rightarrow> nat \<Rightarrow> nat list \<Rightarrow> bool" where
  "well_formed_tail k lo hi bs \<longleftrightarrow>
     k \<le> length bs \<and> (\<forall>b \<in> set (take k bs). continuation b) \<and>
     (k = 0 \<or> lo \<le> hd bs \<and> hd bs \<le> hi)"

fun utf8_valid :: "nat list \<Rightarrow> bool" where
  "utf8_valid [] = True"
| "utf8_valid (a # bs) =
     (case scalar_tail a of
        None \<Rightarrow> False
      | Some (k, lo, hi) \<Rightarrow> well_formed_tail k lo hi bs \<and> utf8_valid (drop k bs))"

definition c_str_to_str :: "string \<Rightarrow> string option" where
  "c_str_to_str memory =
     (let s = takeWhile (\<lambda>c. c \<noteq> CHR 0x00) memory in
      if utf8_valid (map of_char s) then Some s else None)"

lemma ascii_valid: "\<forall>b \<in> set bs. b < 0x80 \<Longrightarrow> utf8_valid bs"
  by (induction bs) (auto simp: scalar_tail_def well_formed_tail_def)

text \<open>A text for C, in a string that C frees.\<close>

definition text_answer :: "string \<Rightarrow> string option c_call" where
  "text_answer s = (case c_string s of Some t \<Rightarrow> answer (Some t) | None \<Rightarrow> invalid None)"

section \<open>The last error\<close>

definition error_message :: "error_debug \<Rightarrow> string option c_call" where
  "error_message d st =
     (case cs_last_error st of
        None \<Rightarrow> Some (None, st)
      | Some e \<Rightarrow> (let s = c_string (display_capi_error d e) in Some (s, st\<lparr>cs_message := s\<rparr>)))"

datatype c_error_kind =
    Kind_None | Kind_InvalidArgument | Kind_InternalError
  | Kind_FormatSignatureInvalidFormat | Kind_FormatSignatureInvalidSignature | Kind_FormatSealedSignature
  | Kind_FormatEmptyKeys | Kind_FormatUnknownPublicKey | Kind_FormatDeserializationError
  | Kind_FormatSerializationError | Kind_FormatBlockDeserializationError | Kind_FormatBlockSerializationError
  | Kind_FormatVersion | Kind_FormatInvalidBlockId | Kind_FormatExistingPublicKey
  | Kind_FormatSymbolTableOverlap | Kind_FormatPublicKeyTableOverlap | Kind_FormatUnknownExternalKey
  | Kind_FormatUnknownSymbol | Kind_AppendOnSealed | Kind_LogicInvalidBlockRule | Kind_LogicUnauthorized
  | Kind_LogicAuthorizerNotEmpty | Kind_LogicNoMatchingPolicy | Kind_LanguageError | Kind_TooManyFacts
  | Kind_TooManyIterations | Kind_Timeout | Kind_ConversionError | Kind_FormatInvalidKeySize
  | Kind_FormatInvalidSignatureSize | Kind_FormatInvalidKey | Kind_FormatSignatureDeserializationError
  | Kind_FormatBlockSignatureDeserializationError | Kind_FormatSignatureInvalidSignatureGeneration
  | Kind_AlreadySealed | Kind_Execution | Kind_UnexpectedQueryResult | Kind_FormatPKCS8

fun kind_of :: "token_error \<Rightarrow> c_error_kind" where
  "kind_of InternalError = Kind_InternalError"
| "kind_of (Token_Format (Signature_error InvalidFormat)) = Kind_FormatSignatureInvalidFormat"
| "kind_of (Token_Format (Signature_error (InvalidSignature _))) = Kind_FormatSignatureInvalidSignature"
| "kind_of (Token_Format (Signature_error (InvalidSignatureGeneration _))) =
     Kind_FormatSignatureInvalidSignatureGeneration"
| "kind_of (Token_Format SealedSignature) = Kind_FormatSealedSignature"
| "kind_of (Token_Format EmptyKeys) = Kind_FormatEmptyKeys"
| "kind_of (Token_Format UnknownPublicKey) = Kind_FormatUnknownPublicKey"
| "kind_of (Token_Format (DeserializationError _)) = Kind_FormatDeserializationError"
| "kind_of (Token_Format (SerializationError _)) = Kind_FormatSerializationError"
| "kind_of (Token_Format (BlockDeserializationError _)) = Kind_FormatBlockDeserializationError"
| "kind_of (Token_Format (BlockSerializationError _)) = Kind_FormatBlockSerializationError"
| "kind_of (Token_Format (Version_error _ _ _)) = Kind_FormatVersion"
| "kind_of (Token_Format (InvalidKeySize _)) = Kind_FormatInvalidKeySize"
| "kind_of (Token_Format (InvalidSignatureSize _)) = Kind_FormatInvalidSignatureSize"
| "kind_of (Token_Format (InvalidKey _)) = Kind_FormatInvalidKey"
| "kind_of (Token_Format (SignatureDeserializationError _)) = Kind_FormatSignatureDeserializationError"
| "kind_of (Token_Format (BlockSignatureDeserializationError _)) = Kind_FormatBlockSignatureDeserializationError"
| "kind_of (Token_Format (InvalidBlockId _)) = Kind_FormatInvalidBlockId"
| "kind_of (Token_Format (ExistingPublicKey _)) = Kind_FormatExistingPublicKey"
| "kind_of (Token_Format SymbolTableOverlap) = Kind_FormatSymbolTableOverlap"
| "kind_of (Token_Format PublicKeyTableOverlap) = Kind_FormatPublicKeyTableOverlap"
| "kind_of (Token_Format UnknownExternalKey) = Kind_FormatUnknownExternalKey"
| "kind_of (Token_Format (Format_UnknownSymbol _)) = Kind_FormatUnknownSymbol"
| "kind_of (Token_Format (PKCS8 _)) = Kind_FormatPKCS8"
| "kind_of AppendOnSealed = Kind_AppendOnSealed"
| "kind_of AlreadySealed = Kind_AlreadySealed"
| "kind_of (Token_Language _) = Kind_LanguageError"
| "kind_of (FailedLogic (InvalidBlockRule _ _)) = Kind_LogicInvalidBlockRule"
| "kind_of (FailedLogic (Unauthorized _ _)) = Kind_LogicUnauthorized"
| "kind_of (FailedLogic AuthorizerNotEmpty) = Kind_LogicAuthorizerNotEmpty"
| "kind_of (FailedLogic (NoMatchingPolicy _)) = Kind_LogicNoMatchingPolicy"
| "kind_of (Token_RunLimit TooManyFacts) = Kind_TooManyFacts"
| "kind_of (Token_RunLimit TooManyIterations) = Kind_TooManyIterations"
| "kind_of (Token_RunLimit Timeout) = Kind_Timeout"
| "kind_of (Token_RunLimit (UnexpectedQueryResult _ _)) = Kind_UnexpectedQueryResult"
| "kind_of (ConversionError _) = Kind_ConversionError"
| "kind_of (Token_Base64 _) = Kind_FormatDeserializationError"
| "kind_of (Token_Execution _) = Kind_Execution"

definition error_kind :: "c_error_kind c_call" where
  "error_kind st =
     answer (case cs_last_error st of
        None \<Rightarrow> Kind_None
      | Some Error_InvalidArgument \<Rightarrow> Kind_InvalidArgument
      | Some (Error_Biscuit e) \<Rightarrow> kind_of e) st"

text \<open>The checks of the last error, when it is a refusal.\<close>

fun failed_checks_of :: "capi_error option \<Rightarrow> failed_check list option" where
  "failed_checks_of (Some (Error_Biscuit (FailedLogic (Unauthorized _ cs)))) = Some cs"
| "failed_checks_of (Some (Error_Biscuit (FailedLogic (NoMatchingPolicy cs)))) = Some cs"
| "failed_checks_of _ = None"

definition failed_check_at :: "c_state \<Rightarrow> u64 \<Rightarrow> failed_check option" where
  "failed_check_at st i =
     (case failed_checks_of (cs_last_error st) of
        None \<Rightarrow> None
      | Some cs \<Rightarrow> if of_nat (length cs) \<le> i then None else Some (cs ! unat i))"

definition u64_max :: u64 where
  "u64_max = - 1"

definition error_check_count :: "u64 c_call" where
  "error_check_count st =
     answer (case failed_checks_of (cs_last_error st) of None \<Rightarrow> 0 | Some cs \<Rightarrow> of_nat (length cs)) st"

definition error_check_id :: "u64 \<Rightarrow> u64 c_call" where
  "error_check_id i st =
     answer (case failed_check_at st i of
        None \<Rightarrow> u64_max
      | Some (FailedCheck_Block f) \<Rightarrow> of_nat (fb_check_id f)
      | Some (FailedCheck_Authorizer f) \<Rightarrow> of_nat (fa_check_id f)) st"

definition error_check_block_id :: "u64 \<Rightarrow> u64 c_call" where
  "error_check_block_id i st =
     answer (case failed_check_at st i of
        Some (FailedCheck_Block f) \<Rightarrow> of_nat (fb_block_id f)
      | _ \<Rightarrow> u64_max) st"

fun failed_rule :: "failed_check \<Rightarrow> string" where
  "failed_rule (FailedCheck_Block f) = fb_rule f"
| "failed_rule (FailedCheck_Authorizer f) = fa_rule f"

definition error_check_rule :: "u64 \<Rightarrow> string option c_call" where
  "error_check_rule i st =
     (case failed_check_at st i of
        None \<Rightarrow> Some (None, st)
      | Some f \<Rightarrow> (let s = c_string (failed_rule f) in Some (s, st\<lparr>cs_check_rule := s\<rparr>)))"

definition error_check_is_authorizer :: "u64 \<Rightarrow> bool c_call" where
  "error_check_is_authorizer i st =
     answer (case failed_check_at st i of Some (FailedCheck_Authorizer f) \<Rightarrow> True | _ \<Rightarrow> False) st"

end
