(* ===== verification/C_Handles.thy ===== *)
theory C_Handles
  imports C_Api Display
begin

text \<open>
  The functions of the C interface on keys, builders, tokens and authorizers.  A function that
  changes the object behind a handle answers the handle as it is afterwards.
\<close>

section \<open>Keys\<close>

datatype signature_algorithm = Algorithm_Ed25519 | Algorithm_Secp256r1

fun algorithm_of_c :: "signature_algorithm \<Rightarrow> algorithm" where
  "algorithm_of_c Algorithm_Ed25519 = Ed25519"
| "algorithm_of_c Algorithm_Secp256r1 = Secp256r1"

text \<open>The secret that a key pair draws from \<open>StdRng::from_seed\<close>, for a seed of 32 bytes.\<close>

type_synonym seeded = "bytes \<Rightarrow> algorithm \<Rightarrow> bytes"

text \<open>\<open>copy_from_slice\<close> into a slice of another length panics.\<close>

definition copy_from_slice :: "nat \<Rightarrow> bytes \<Rightarrow> bytes option" where
  "copy_from_slice n bs = (if length bs = n then Some bs else None)"

definition filling :: "nat \<Rightarrow> bytes \<Rightarrow> nat \<Rightarrow> (nat \<times> bytes) c_call" where
  "filling n bs r = (case copy_from_slice n bs of Some out \<Rightarrow> answer (r, out) | None \<Rightarrow> aborting)"

definition key_pair_new :: "seeded \<Rightarrow> bytes \<Rightarrow> signature_algorithm \<Rightarrow> keypair option c_call" where
  "key_pair_new rng seed a =
     (if length seed \<noteq> 32 then invalid None
      else let alg = algorithm_of_c a in answer (Some (keypair_new_with_rng (rng seed alg) alg)))"

definition key_pair_public :: "primitives \<Rightarrow> keypair option \<Rightarrow> public_key option c_call" where
  "key_pair_public p kp = non_null kp None (\<lambda>k. answer (Some (keypair_public p k)))"

definition key_pair_serialize :: "keypair option \<Rightarrow> (nat \<times> bytes) c_call" where
  "key_pair_serialize kp = non_null kp (0, []) (\<lambda>k. filling 32 (private_to_bytes (keypair_private k)) 32)"

definition key_pair_deserialize :: "primitives \<Rightarrow> bytes \<Rightarrow> signature_algorithm \<Rightarrow> keypair option c_call" where
  "key_pair_deserialize p buffer a =
     or_invalid (private_from_bytes p (take 32 buffer) (algorithm_of_c a)) (\<lambda>k. answer (Some (keypair_from k)))"

record pem_codec =
  pem_private :: "keypair \<Rightarrow> (string, string) outcome"
  pem_public :: "public_key \<Rightarrow> (string, string) outcome"
  pem_decoder :: "string key_decoder"

definition key_pair_to_pem :: "pem_codec \<Rightarrow> keypair option \<Rightarrow> string option c_call" where
  "key_pair_to_pem pem kp = non_null kp None (\<lambda>k. or_invalid (pem_private pem k) text_answer)"

definition key_pair_from_pem :: "pem_codec \<Rightarrow> string \<Rightarrow> keypair option c_call" where
  "key_pair_from_pem pem memory =
     (case c_str_to_str memory of
        None \<Rightarrow> invalid None
      | Some s \<Rightarrow> or_invalid (keypair_decode (pem_decoder pem) s) (\<lambda>k. answer (Some k)))"

definition public_key_serialize :: "public_key option \<Rightarrow> (nat \<times> bytes) c_call" where
  "public_key_serialize key = non_null key (0, []) (\<lambda>k. filling 32 (public_to_bytes k) 32)"

definition public_key_deserialize :: "primitives \<Rightarrow> bytes \<Rightarrow> signature_algorithm \<Rightarrow> public_key option c_call" where
  "public_key_deserialize p buffer a =
     or_invalid (public_from_bytes p (take 32 buffer) (algorithm_of_c a)) (\<lambda>k. answer (Some k))"

definition public_key_to_pem :: "pem_codec \<Rightarrow> public_key option \<Rightarrow> string option c_call" where
  "public_key_to_pem pem key = non_null key None (\<lambda>k. or_invalid (pem_public pem k) text_answer)"

definition public_key_from_pem :: "pem_codec \<Rightarrow> string \<Rightarrow> public_key option c_call" where
  "public_key_from_pem pem memory =
     (case c_str_to_str memory of
        None \<Rightarrow> invalid None
      | Some s \<Rightarrow> or_invalid (public_decode (pem_decoder pem) s) (\<lambda>k. answer (Some k)))"

definition public_key_equals :: "public_key option \<Rightarrow> public_key option \<Rightarrow> bool c_call" where
  "public_key_equals a b =
     answer (case (a, b) of (Some k, Some l) \<Rightarrow> k = l | _ \<Rightarrow> False)"

section \<open>Builders behind handles\<close>

text \<open>
  \<open>let mut inner = self.0.take().unwrap(); inner = op(inner)?; self.0 = Some(inner)\<close>: the new
  contents of the handle and the result.
\<close>

definition take_and :: "('b \<Rightarrow> (token_error, 'b) outcome) \<Rightarrow> 'b option \<Rightarrow> 'b option \<times> (token_error, unit) outcome" where
  "take_and f slot =
     (case slot of
        None \<Rightarrow> (None, Panic)
      | Some b \<Rightarrow>
          (case f b of
             Ok b' \<Rightarrow> (Some b', Ok ())
           | Err e \<Rightarrow> (None, Err e)
           | Panic \<Rightarrow> (None, Panic)))"

definition on_builder ::
    "('b option \<Rightarrow> 'b option \<times> (token_error, unit) outcome) \<Rightarrow> 'b option option \<Rightarrow> (bool \<times> 'b option option) c_call" where
  "on_builder op h =
     non_null h (False, None)
       (\<lambda>slot. let (slot', res) = op slot in
          recorded res (False, Some slot') (\<lambda>_. answer (True, Some slot')))"

text \<open>With an argument that is a C string.\<close>

definition on_builder_text ::
    "(string \<Rightarrow> 'b option \<Rightarrow> 'b option \<times> (token_error, unit) outcome) \<Rightarrow> 'b option option \<Rightarrow> string \<Rightarrow>
     (bool \<times> 'b option option) c_call" where
  "on_builder_text op h memory =
     non_null h (False, None)
       (\<lambda>slot. case c_str_to_str memory of
          None \<Rightarrow> invalid (False, h)
        | Some s \<Rightarrow> on_builder (op s) h)"

section \<open>Token builders\<close>

definition cbu_set_context ::
    "string \<Rightarrow> biscuit_builder option \<Rightarrow> biscuit_builder option \<times> (token_error, unit) outcome" where
  "cbu_set_context s = take_and (\<lambda>b. Ok (bu_set_context s b))"

definition cbu_set_root_key_id ::
    "nat \<Rightarrow> biscuit_builder option \<Rightarrow> biscuit_builder option \<times> (token_error, unit) outcome" where
  "cbu_set_root_key_id i = take_and (\<lambda>b. Ok (bu_set_root_key_id i b))"

definition cbu_add_fact ::
    "grammar \<Rightarrow> string \<Rightarrow> biscuit_builder option \<Rightarrow> biscuit_builder option \<times> (token_error, unit) outcome" where
  "cbu_add_fact g s = take_and (with_text (fact_from_str g s) bu_fact)"

definition cbu_add_rule ::
    "primitives \<Rightarrow> grammar \<Rightarrow> string \<Rightarrow> biscuit_builder option \<Rightarrow>
     biscuit_builder option \<times> (token_error, unit) outcome" where
  "cbu_add_rule p g s = take_and (with_text (rule_from_str p g s) bu_rule)"

definition cbu_add_check ::
    "primitives \<Rightarrow> grammar \<Rightarrow> string \<Rightarrow> biscuit_builder option \<Rightarrow>
     biscuit_builder option \<times> (token_error, unit) outcome" where
  "cbu_add_check p g s = take_and (with_text (check_from_str p g s) bu_check)"

definition c_biscuit_builder :: "biscuit_builder option option c_call" where
  "c_biscuit_builder = answer (Some (Some bu_new))"

definition biscuit_builder_set_context ::
    "biscuit_builder option option \<Rightarrow> string \<Rightarrow> (bool \<times> biscuit_builder option option) c_call" where
  "biscuit_builder_set_context = on_builder_text cbu_set_context"

definition biscuit_builder_set_root_key_id ::
    "biscuit_builder option option \<Rightarrow> nat \<Rightarrow> (bool \<times> biscuit_builder option option) c_call" where
  "biscuit_builder_set_root_key_id h i = on_builder (cbu_set_root_key_id i) h"

definition biscuit_builder_add_fact ::
    "grammar \<Rightarrow> biscuit_builder option option \<Rightarrow> string \<Rightarrow> (bool \<times> biscuit_builder option option) c_call" where
  "biscuit_builder_add_fact g = on_builder_text (cbu_add_fact g)"

definition biscuit_builder_add_rule ::
    "primitives \<Rightarrow> grammar \<Rightarrow> biscuit_builder option option \<Rightarrow> string \<Rightarrow>
     (bool \<times> biscuit_builder option option) c_call" where
  "biscuit_builder_add_rule p g = on_builder_text (cbu_add_rule p g)"

definition biscuit_builder_add_check ::
    "primitives \<Rightarrow> grammar \<Rightarrow> biscuit_builder option option \<Rightarrow> string \<Rightarrow>
     (bool \<times> biscuit_builder option option) c_call" where
  "biscuit_builder_add_check p g = on_builder_text (cbu_add_check p g)"

text \<open>A builder that was taken makes \<open>expect\<close> panic; the error of the construction is dropped.\<close>

definition biscuit_builder_build ::
    "primitives \<Rightarrow> codec \<Rightarrow> seeded \<Rightarrow> biscuit_builder option option \<Rightarrow> keypair option \<Rightarrow> bytes \<Rightarrow>
     biscuit option c_call" where
  "biscuit_builder_build p c rng h kp seed =
     non_null h None (\<lambda>slot. non_null kp None (\<lambda>root.
       if length seed \<noteq> 32 then answer None
       else case slot of
         None \<Rightarrow> aborting
       | Some b \<Rightarrow> dropped (build_with_rng p c (rng seed Ed25519) b root default_symbol_table)))"

section \<open>Tokens\<close>

definition c_biscuit_from :: "primitives \<Rightarrow> codec \<Rightarrow> bytes \<Rightarrow> public_key option \<Rightarrow> biscuit option c_call" where
  "c_biscuit_from p c input root =
     non_null root None (\<lambda>k. dropped (biscuit_from p c input (provider_of_key k)))"

text \<open>\<open>encoded_len\<close> of prost is the argument \<open>encoded_len\<close>.\<close>

definition serialized_size :: "(pbiscuit \<Rightarrow> nat) \<Rightarrow> serialized_biscuit \<Rightarrow> nat" where
  "serialized_size encoded_len t = encoded_len (to_proto t)"

definition token_serialized_size :: "(pbiscuit \<Rightarrow> nat) \<Rightarrow> biscuit \<Rightarrow> (token_error, nat) outcome" where
  "token_serialized_size encoded_len t = Ok (serialized_size encoded_len (bi_container t))"

definition biscuit_serialized_size :: "(pbiscuit \<Rightarrow> nat) \<Rightarrow> biscuit option \<Rightarrow> nat c_call" where
  "biscuit_serialized_size encoded_len h = non_null h 0 (\<lambda>t. recorded (token_serialized_size encoded_len t) 0 answer)"

definition biscuit_sealed_size :: "(pbiscuit \<Rightarrow> nat) \<Rightarrow> biscuit option \<Rightarrow> nat c_call" where
  "biscuit_sealed_size encoded_len h = non_null h 0 (\<lambda>t. recorded (token_serialized_size encoded_len t) 0 answer)"

definition biscuit_serialize ::
    "codec \<Rightarrow> (pbiscuit \<Rightarrow> nat) \<Rightarrow> biscuit option \<Rightarrow> (nat \<times> bytes) c_call" where
  "biscuit_serialize c encoded_len h =
     non_null h (0, []) (\<lambda>t.
       recorded (biscuit_to_vec c t) (0, []) (\<lambda>v.
       recorded (token_serialized_size encoded_len t) (0, []) (\<lambda>n. filling n v (length v))))"

definition biscuit_serialize_sealed ::
    "primitives \<Rightarrow> codec \<Rightarrow> (pbiscuit \<Rightarrow> nat) \<Rightarrow> biscuit option \<Rightarrow> (nat \<times> bytes) c_call" where
  "biscuit_serialize_sealed p c encoded_len h =
     non_null h (0, []) (\<lambda>t.
       recorded (biscuit_seal p t) (0, []) (\<lambda>b.
       recorded (biscuit_to_vec c b) (0, []) (\<lambda>v.
       recorded (token_serialized_size encoded_len t) (0, []) (\<lambda>n. filling n v (length v)))))"

definition biscuit_block_count :: "biscuit option \<Rightarrow> nat c_call" where
  "biscuit_block_count h = non_null h 0 (\<lambda>t. answer (block_count t))"

definition biscuit_block_context :: "biscuit option \<Rightarrow> nat \<Rightarrow> string option c_call" where
  "biscuit_block_context h i =
     non_null h None (\<lambda>t.
       case nth_opt (biscuit_context t) i of
         None \<Rightarrow> failing (Error_Biscuit (Token_Format (InvalidBlockId i))) None
       | Some None \<Rightarrow> answer None
       | Some (Some s) \<Rightarrow> answer (c_string s))"

section \<open>Block builders\<close>

definition cbb_set_context ::
    "string \<Rightarrow> block_builder option \<Rightarrow> block_builder option \<times> (token_error, unit) outcome" where
  "cbb_set_context s = take_and (\<lambda>b. Ok (bb_set_context s b))"

definition cbb_add_fact ::
    "grammar \<Rightarrow> string \<Rightarrow> block_builder option \<Rightarrow> block_builder option \<times> (token_error, unit) outcome" where
  "cbb_add_fact g s = take_and (with_text (fact_from_str g s) bb_fact)"

definition cbb_add_rule ::
    "primitives \<Rightarrow> grammar \<Rightarrow> string \<Rightarrow> block_builder option \<Rightarrow>
     block_builder option \<times> (token_error, unit) outcome" where
  "cbb_add_rule p g s = take_and (with_text (rule_from_str p g s) bb_rule)"

definition cbb_add_check ::
    "primitives \<Rightarrow> grammar \<Rightarrow> string \<Rightarrow> block_builder option \<Rightarrow>
     block_builder option \<times> (token_error, unit) outcome" where
  "cbb_add_check p g s = take_and (with_text (check_from_str p g s) bb_check)"

definition c_create_block :: "block_builder option c_call" where
  "c_create_block = answer (Some bb_new)"

definition biscuit_append_block ::
    "primitives \<Rightarrow> codec \<Rightarrow> biscuit option \<Rightarrow> block_builder option option \<Rightarrow> keypair option \<Rightarrow> biscuit option c_call" where
  "biscuit_append_block p c h builder kp =
     non_null h None (\<lambda>t. non_null builder None (\<lambda>slot. non_null kp None (\<lambda>key.
       case slot of
         None \<Rightarrow> aborting
       | Some bb \<Rightarrow> recorded (append_with_keypair p c t key bb) None (\<lambda>u. answer (Some u)))))"

definition block_builder_set_context ::
    "block_builder option option \<Rightarrow> string \<Rightarrow> (bool \<times> block_builder option option) c_call" where
  "block_builder_set_context = on_builder_text cbb_set_context"

definition block_builder_add_fact ::
    "grammar \<Rightarrow> block_builder option option \<Rightarrow> string \<Rightarrow> (bool \<times> block_builder option option) c_call" where
  "block_builder_add_fact g = on_builder_text (cbb_add_fact g)"

definition block_builder_add_rule ::
    "primitives \<Rightarrow> grammar \<Rightarrow> block_builder option option \<Rightarrow> string \<Rightarrow>
     (bool \<times> block_builder option option) c_call" where
  "block_builder_add_rule p g = on_builder_text (cbb_add_rule p g)"

definition block_builder_add_check ::
    "primitives \<Rightarrow> grammar \<Rightarrow> block_builder option option \<Rightarrow> string \<Rightarrow>
     (bool \<times> block_builder option option) c_call" where
  "block_builder_add_check p g = on_builder_text (cbb_add_check p g)"

section \<open>Authorizers\<close>

definition cab_add_fact ::
    "grammar \<Rightarrow> string \<Rightarrow> authorizer_builder option \<Rightarrow> authorizer_builder option \<times> (token_error, unit) outcome" where
  "cab_add_fact g s = take_and (with_text (fact_from_str g s) ab_fact)"

definition cab_add_rule ::
    "primitives \<Rightarrow> grammar \<Rightarrow> string \<Rightarrow> authorizer_builder option \<Rightarrow>
     authorizer_builder option \<times> (token_error, unit) outcome" where
  "cab_add_rule p g s = take_and (with_text (rule_from_str p g s) ab_rule)"

definition cab_add_check ::
    "primitives \<Rightarrow> grammar \<Rightarrow> string \<Rightarrow> authorizer_builder option \<Rightarrow>
     authorizer_builder option \<times> (token_error, unit) outcome" where
  "cab_add_check p g s = take_and (with_text (check_from_str p g s) ab_check)"

definition cab_add_policy ::
    "primitives \<Rightarrow> grammar \<Rightarrow> string \<Rightarrow> authorizer_builder option \<Rightarrow>
     authorizer_builder option \<times> (token_error, unit) outcome" where
  "cab_add_policy p g s = take_and (with_text (policy_from_str p g s) ab_policy)"

definition c_authorizer_builder :: "authorizer_builder option option c_call" where
  "c_authorizer_builder = answer (Some (Some ab_new))"

definition authorizer_builder_add_fact ::
    "grammar \<Rightarrow> authorizer_builder option option \<Rightarrow> string \<Rightarrow> (bool \<times> authorizer_builder option option) c_call" where
  "authorizer_builder_add_fact g = on_builder_text (cab_add_fact g)"

definition authorizer_builder_add_rule ::
    "primitives \<Rightarrow> grammar \<Rightarrow> authorizer_builder option option \<Rightarrow> string \<Rightarrow>
     (bool \<times> authorizer_builder option option) c_call" where
  "authorizer_builder_add_rule p g = on_builder_text (cab_add_rule p g)"

definition authorizer_builder_add_check ::
    "primitives \<Rightarrow> grammar \<Rightarrow> authorizer_builder option option \<Rightarrow> string \<Rightarrow>
     (bool \<times> authorizer_builder option option) c_call" where
  "authorizer_builder_add_check p g = on_builder_text (cab_add_check p g)"

definition authorizer_builder_add_policy ::
    "primitives \<Rightarrow> grammar \<Rightarrow> authorizer_builder option option \<Rightarrow> string \<Rightarrow>
     (bool \<times> authorizer_builder option option) c_call" where
  "authorizer_builder_add_policy p g = on_builder_text (cab_add_policy p g)"

text \<open>A null builder is recorded and then unwrapped; so is a builder that was taken.\<close>

definition authorizer_builder_build ::
    "formats \<Rightarrow> primitives \<Rightarrow> authorizer_builder option option \<Rightarrow> biscuit \<Rightarrow> authorizer option c_call" where
  "authorizer_builder_build fmt p h t =
     (case h of Some (Some b) \<Rightarrow> dropped (ab_build fmt p t b) | _ \<Rightarrow> aborting)"

definition authorizer_builder_build_unauthenticated ::
    "formats \<Rightarrow> primitives \<Rightarrow> authorizer_builder option option \<Rightarrow> authorizer option c_call" where
  "authorizer_builder_build_unauthenticated fmt p h =
     (case h of Some (Some b) \<Rightarrow> dropped (build_unauthenticated fmt p b) | _ \<Rightarrow> aborting)"

definition biscuit_authorizer :: "formats \<Rightarrow> primitives \<Rightarrow> biscuit option \<Rightarrow> authorizer option c_call" where
  "biscuit_authorizer fmt p h = non_null h None (\<lambda>t. dropped (from_token fmt p t))"

definition authorizer_authorize ::
    "formats \<Rightarrow> regex \<Rightarrow> bool \<Rightarrow> timing \<Rightarrow> authorizer option \<Rightarrow> (bool \<times> authorizer option) c_call" where
  "authorizer_authorize fmt rx overflow_checks ti h =
     non_null h (False, None) (\<lambda>a.
       let (res, a') = authorize fmt rx overflow_checks ti a in
       recorded res (False, Some a') (\<lambda>_. answer (True, Some a')))"

section \<open>Text\<close>

definition panicking_text :: "string option \<Rightarrow> string option c_call" where
  "panicking_text s = (case s of None \<Rightarrow> aborting | Some t \<Rightarrow> text_answer t)"

definition authorizer_print :: "formats \<Rightarrow> authorizer option \<Rightarrow> string option c_call" where
  "authorizer_print fmt h = non_null h None (\<lambda>a. panicking_text (display_authorizer fmt a))"

definition biscuit_print :: "formats \<Rightarrow> debug_formats \<Rightarrow> primitives \<Rightarrow> biscuit option \<Rightarrow> string option c_call" where
  "biscuit_print fmt dbg p h = non_null h None (\<lambda>t. panicking_text (display_biscuit fmt dbg p t))"

definition biscuit_print_block_source ::
    "formats \<Rightarrow> primitives \<Rightarrow> biscuit option \<Rightarrow> nat \<Rightarrow> string option c_call" where
  "biscuit_print_block_source fmt p h i =
     non_null h None (\<lambda>t. recorded (print_block_source fmt p t i) None text_answer)"

end
