(* ===== verification/C_Sessions.thy ===== *)
theory C_Sessions
  imports C_Handles Samples
begin

text \<open>
  Properties of sequences of calls of the C interface: a session on a builder handle and what a
  refused statement does to it (the locale \<open>builder_call\<close>, interpreted on every function that takes
  the text of a statement), the last error over every execution, the failed checks that the error
  functions report, and the bytes of keys and tokens.
\<close>

named_theorems c_calls

lemmas [c_calls] = answer_def failing_def aborting_def non_null_def recorded_def dropped_def or_invalid_def

section \<open>Builder calls\<close>

locale builder_call =
  fixes call :: "'b option option \<Rightarrow> string \<Rightarrow> (bool \<times> 'b option option) c_call"
    and add :: "string \<Rightarrow> 'b \<Rightarrow> (token_error, 'b) outcome"
  assumes call_def: "call = on_builder_text (\<lambda>s. take_and (add s))"
begin

lemma accepted:
  "c_str_to_str memory = Some s \<Longrightarrow> add s b = Ok b' \<Longrightarrow>
     call (Some (Some b)) memory st = Some ((True, Some (Some b')), st)"
  by (simp add: call_def on_builder_text_def on_builder_def take_and_def c_calls)

lemma refused:
  "c_str_to_str memory = Some s \<Longrightarrow> add s b = Err e \<Longrightarrow>
     call (Some (Some b)) memory st = Some ((False, Some None), update_last_error (Error_Biscuit e) st)"
  by (simp add: call_def on_builder_text_def on_builder_def take_and_def c_calls)

lemma panics:
  "c_str_to_str memory = Some s \<Longrightarrow> add s b = Panic \<Longrightarrow> call (Some (Some b)) memory st = None"
  by (simp add: call_def on_builder_text_def on_builder_def take_and_def c_calls)

lemma taken: "c_str_to_str memory = Some s \<Longrightarrow> call (Some None) memory st = None"
  by (simp add: call_def on_builder_text_def on_builder_def take_and_def c_calls)

lemma not_text:
  "c_str_to_str memory = None \<Longrightarrow>
     call (Some slot) memory st = Some ((False, Some slot), update_last_error Error_InvalidArgument st)"
  by (simp add: call_def on_builder_text_def c_calls)

end

interpretation bu_context_call: builder_call biscuit_builder_set_context "\<lambda>s b. Ok (bu_set_context s b)"
  by unfold_locales (simp add: biscuit_builder_set_context_def cbu_set_context_def [abs_def])

interpretation bu_fact_call: builder_call "biscuit_builder_add_fact g" "\<lambda>s. with_text (fact_from_str g s) bu_fact" for g
  by unfold_locales (simp add: biscuit_builder_add_fact_def cbu_add_fact_def [abs_def])

interpretation bu_rule_call: builder_call "biscuit_builder_add_rule p g" "\<lambda>s. with_text (rule_from_str p g s) bu_rule" for p g
  by unfold_locales (simp add: biscuit_builder_add_rule_def cbu_add_rule_def [abs_def])

interpretation bu_check_call: builder_call "biscuit_builder_add_check p g" "\<lambda>s. with_text (check_from_str p g s) bu_check" for p g
  by unfold_locales (simp add: biscuit_builder_add_check_def cbu_add_check_def [abs_def])

interpretation bb_context_call: builder_call block_builder_set_context "\<lambda>s b. Ok (bb_set_context s b)"
  by unfold_locales (simp add: block_builder_set_context_def cbb_set_context_def [abs_def])

interpretation bb_fact_call: builder_call "block_builder_add_fact g" "\<lambda>s. with_text (fact_from_str g s) bb_fact" for g
  by unfold_locales (simp add: block_builder_add_fact_def cbb_add_fact_def [abs_def])

interpretation bb_rule_call: builder_call "block_builder_add_rule p g" "\<lambda>s. with_text (rule_from_str p g s) bb_rule" for p g
  by unfold_locales (simp add: block_builder_add_rule_def cbb_add_rule_def [abs_def])

interpretation bb_check_call: builder_call "block_builder_add_check p g" "\<lambda>s. with_text (check_from_str p g s) bb_check" for p g
  by unfold_locales (simp add: block_builder_add_check_def cbb_add_check_def [abs_def])

interpretation ab_fact_call: builder_call "authorizer_builder_add_fact g" "\<lambda>s. with_text (fact_from_str g s) ab_fact" for g
  by unfold_locales (simp add: authorizer_builder_add_fact_def cab_add_fact_def [abs_def])

interpretation ab_rule_call: builder_call "authorizer_builder_add_rule p g" "\<lambda>s. with_text (rule_from_str p g s) ab_rule" for p g
  by unfold_locales (simp add: authorizer_builder_add_rule_def cab_add_rule_def [abs_def])

interpretation ab_check_call: builder_call "authorizer_builder_add_check p g" "\<lambda>s. with_text (check_from_str p g s) ab_check" for p g
  by unfold_locales (simp add: authorizer_builder_add_check_def cab_add_check_def [abs_def])

interpretation ab_policy_call: builder_call "authorizer_builder_add_policy p g" "\<lambda>s. with_text (policy_from_str p g s) ab_policy" for p g
  by unfold_locales (simp add: authorizer_builder_add_policy_def cab_add_policy_def [abs_def])

section \<open>Sessions on a token builder\<close>

datatype bu_call =
    Call_context string | Call_root_key_id nat | Call_fact string | Call_rule string | Call_check string

fun run_call ::
    "primitives \<Rightarrow> grammar \<Rightarrow> bu_call \<Rightarrow> biscuit_builder option option \<Rightarrow> (bool \<times> biscuit_builder option option) c_call" where
  "run_call p g (Call_context m) h = biscuit_builder_set_context h m"
| "run_call p g (Call_root_key_id i) h = biscuit_builder_set_root_key_id h i"
| "run_call p g (Call_fact m) h = biscuit_builder_add_fact g h m"
| "run_call p g (Call_rule m) h = biscuit_builder_add_rule p g h m"
| "run_call p g (Call_check m) h = biscuit_builder_add_check p g h m"

fun run_calls ::
    "primitives \<Rightarrow> grammar \<Rightarrow> bu_call list \<Rightarrow> biscuit_builder option option \<Rightarrow>
     (bool list \<times> biscuit_builder option option) c_call" where
  "run_calls p g [] h st = Some (([], h), st)"
| "run_calls p g (x # xs) h st =
     (case run_call p g x h st of
        None \<Rightarrow> None
      | Some ((r, h'), st') \<Rightarrow>
          map_option (\<lambda>((rs, h''), st''). ((r # rs, h''), st'')) (run_calls p g xs h' st'))"

text \<open>What the calls mean to the builder itself: the operations of the Rust builder, stopping at an error.\<close>

definition meaning_of_text :: "(string \<Rightarrow> 'b \<Rightarrow> (token_error, 'b) outcome) \<Rightarrow> string \<Rightarrow> 'b \<Rightarrow> (token_error, 'b) outcome" where
  "meaning_of_text add memory b = (case c_str_to_str memory of None \<Rightarrow> Ok b | Some s \<Rightarrow> add s b)"

fun meaning :: "primitives \<Rightarrow> grammar \<Rightarrow> bu_call \<Rightarrow> biscuit_builder \<Rightarrow> (token_error, biscuit_builder) outcome" where
  "meaning p g (Call_context m) = meaning_of_text (\<lambda>s b. Ok (bu_set_context s b)) m"
| "meaning p g (Call_root_key_id i) = (\<lambda>b. Ok (bu_set_root_key_id i b))"
| "meaning p g (Call_fact m) = meaning_of_text (\<lambda>s. with_text (fact_from_str g s) bu_fact) m"
| "meaning p g (Call_rule m) = meaning_of_text (\<lambda>s. with_text (rule_from_str p g s) bu_rule) m"
| "meaning p g (Call_check m) = meaning_of_text (\<lambda>s. with_text (check_from_str p g s) bu_check) m"

fun meanings :: "primitives \<Rightarrow> grammar \<Rightarrow> bu_call list \<Rightarrow> biscuit_builder \<Rightarrow> (token_error, biscuit_builder) outcome" where
  "meanings p g [] b = Ok b"
| "meanings p g (x # xs) b = obind (meaning p g x b) (meanings p g xs)"

fun is_text_call :: "bu_call \<Rightarrow> bool" where
  "is_text_call (Call_context m) = (c_str_to_str m \<noteq> None)"
| "is_text_call (Call_root_key_id i) = True"
| "is_text_call (Call_fact m) = (c_str_to_str m \<noteq> None)"
| "is_text_call (Call_rule m) = (c_str_to_str m \<noteq> None)"
| "is_text_call (Call_check m) = (c_str_to_str m \<noteq> None)"

lemma root_key_id_call:
  "biscuit_builder_set_root_key_id (Some slot) i st =
     (case slot of None \<Rightarrow> None | Some b \<Rightarrow> Some ((True, Some (Some (bu_set_root_key_id i b))), st))"
  by (simp add: biscuit_builder_set_root_key_id_def on_builder_def cbu_set_root_key_id_def take_and_def c_calls
      split: option.splits)

lemma run_call_live:
  "is_text_call x \<Longrightarrow>
   run_call p g x (Some (Some b)) st =
     (case meaning p g x b of
        Ok b' \<Rightarrow> Some ((True, Some (Some b')), st)
      | Err e \<Rightarrow> Some ((False, Some None), update_last_error (Error_Biscuit e) st)
      | Panic \<Rightarrow> None)"
  by (cases x; cases "meaning p g x b")
    (auto simp: meaning_of_text_def root_key_id_call
      intro: bu_context_call.accepted bu_fact_call.accepted bu_rule_call.accepted bu_check_call.accepted
        bu_fact_call.refused bu_rule_call.refused bu_check_call.refused
        bu_fact_call.panics bu_rule_call.panics bu_check_call.panics)

lemma run_call_taken: "is_text_call x \<Longrightarrow> run_call p g x (Some None) st = None"
  by (cases x) (auto simp: root_key_id_call bu_context_call.taken bu_fact_call.taken bu_rule_call.taken bu_check_call.taken)

lemma run_calls_ok:
  "\<forall>x \<in> set xs. is_text_call x \<Longrightarrow> meanings p g xs b = Ok b' \<Longrightarrow>
   run_calls p g xs (Some (Some b)) st = Some ((replicate (length xs) True, Some (Some b')), st)"
proof (induction xs arbitrary: b)
  case (Cons x xs)
  then show ?case by (cases "meaning p g x b") (simp_all add: run_call_live)
qed simp

lemma run_calls_append:
  "run_calls p g (xs @ ys) h st =
     (case run_calls p g xs h st of
        None \<Rightarrow> None
      | Some ((rs, h'), st') \<Rightarrow>
          map_option (\<lambda>((ss, h''), st''). ((rs @ ss, h''), st'')) (run_calls p g ys h' st'))"
proof (induction xs arbitrary: h st)
  case Nil
  then show ?case by (cases "run_calls p g ys h st") auto
next
  case (Cons x xs)
  then show ?case
    by (auto split: option.splits simp: option.map_comp comp_def case_prod_beta')
qed

lemma run_calls_refused:
  assumes "\<forall>x \<in> set (xs @ [x]). is_text_call x" "meanings p g xs b = Ok b'" "meaning p g x b' = Err e"
  shows "run_calls p g (xs @ [x]) (Some (Some b)) st =
    Some ((replicate (length xs) True @ [False], Some None), update_last_error (Error_Biscuit e) st)"
  using assms run_calls_ok [of xs p g b b' st] by (simp add: run_calls_append run_call_live)

lemma meanings_err:
  "meanings p g xs b = Err e \<Longrightarrow>
   \<exists>ys x zs b'. xs = ys @ x # zs \<and> meanings p g ys b = Ok b' \<and> meaning p g x b' = Err e"
proof (induction xs arbitrary: b)
  case (Cons x xs)
  show ?case
  proof (cases "meaning p g x b")
    case (Ok b1)
    with Cons obtain ys y zs b' where "xs = ys @ y # zs" "meanings p g ys b1 = Ok b'" "meaning p g y b' = Err e"
      by fastforce
    with Ok have "x # xs = (x # ys) @ y # zs" "meanings p g (x # ys) b = Ok b'" by simp_all
    then show ?thesis using \<open>meaning p g y b' = Err e\<close> by blast
  next
    case (Err d)
    with Cons.prems have "x # xs = [] @ x # xs" "meanings p g [] b = Ok b" "meaning p g x b = Err e" by simp_all
    then show ?thesis by blast
  qed (use Cons.prems in simp)
qed simp

lemma run_calls_panic:
  "\<forall>x \<in> set xs. is_text_call x \<Longrightarrow> meanings p g xs b = Panic \<Longrightarrow> run_calls p g xs (Some (Some b)) st = None"
proof (induction xs arbitrary: b)
  case (Cons x xs)
  then show ?case by (cases "meaning p g x b") (simp_all add: run_call_live)
qed simp

lemma build_call:
  "length seed = 32 \<Longrightarrow>
   biscuit_builder_build p c rng (Some slot) (Some root) seed st =
     (case slot of
        None \<Rightarrow> None
      | Some b \<Rightarrow> dropped (build_with_key_pair p c b root default_symbol_table (keypair_new (rng seed Ed25519))) st)"
  using bu_build_is_build [of p c "rng seed Ed25519" _ root]
  by (simp add: biscuit_builder_build_def c_calls bu_build_def split: option.splits)

text \<open>
  C27: a session on a token builder through the C interface.  As long as every statement is accepted,
  each call answers true and the handle holds what the operations of the Rust builder give, from
  which \<open>biscuit_builder_build\<close> makes the token.  The first statement that is refused answers false
  and records its error, but it takes the builder away: every later call on the handle aborts the
  process, the construction of the token included.
\<close>

theorem c_builder_session:
  assumes "\<forall>x \<in> set xs. is_text_call x" "length seed = 32"
  shows "case meanings p g xs b of
      Ok b' \<Rightarrow>
        run_calls p g xs (Some (Some b)) st = Some ((replicate (length xs) True, Some (Some b')), st) \<and>
        biscuit_builder_build p c rng (Some (Some b')) (Some root) seed st =
          dropped (build_with_key_pair p c b' root default_symbol_table (keypair_new (rng seed Ed25519))) st
    | Err e \<Rightarrow>
        \<exists>ys x zs st'. xs = ys @ x # zs \<and> st' = update_last_error (Error_Biscuit e) st \<and>
          run_calls p g (ys @ [x]) (Some (Some b)) st =
            Some ((replicate (length ys) True @ [False], Some None), st') \<and>
          (zs \<noteq> [] \<longrightarrow> run_calls p g xs (Some (Some b)) st = None) \<and>
          biscuit_builder_build p c rng (Some None) (Some root) seed st' = None
    | Panic \<Rightarrow> run_calls p g xs (Some (Some b)) st = None"
proof (cases "meanings p g xs b")
  case (Ok b')
  with assms show ?thesis by (simp add: run_calls_ok build_call)
next
  case (Err e)
  from meanings_err [OF this] obtain ys x zs b' where xs: "xs = ys @ x # zs"
    and ok: "meanings p g ys b = Ok b'" "meaning p g x b' = Err e" by blast
  let ?st = "update_last_error (Error_Biscuit e) st"
  have "\<forall>y \<in> set (ys @ [x]). is_text_call y" using assms(1) xs by auto
  from run_calls_refused [OF this ok]
  have refused: "run_calls p g (ys @ [x]) (Some (Some b)) st =
      Some ((replicate (length ys) True @ [False], Some None), ?st)" .
  have "run_calls p g xs (Some (Some b)) st = None" if "zs \<noteq> []"
  proof -
    from that obtain z ws where zs: "zs = z # ws" by (cases zs) auto
    with assms(1) xs have "is_text_call z" by auto
    with refused run_calls_append [of p g "ys @ [x]" zs "Some (Some b)" st]
    show ?thesis by (simp add: xs zs run_call_taken)
  qed
  with xs refused have "\<exists>ys x zs st'. xs = ys @ x # zs \<and> st' = ?st \<and>
      run_calls p g (ys @ [x]) (Some (Some b)) st =
        Some ((replicate (length ys) True @ [False], Some None), st') \<and>
      (zs \<noteq> [] \<longrightarrow> run_calls p g xs (Some (Some b)) st = None) \<and>
      biscuit_builder_build p c rng (Some None) (Some root) seed st' = None"
    using build_call [OF assms(2), of p c rng None root ?st] by (intro exI [of _ ys] exI [of _ x] exI [of _ zs]) simp
  with Err show ?thesis by simp
next
  case Panic
  with assms show ?thesis by (simp add: run_calls_panic)
qed

text \<open>A grammar that refuses every fact.\<close>

definition refusing_grammar :: grammar where
  "refusing_grammar =
     \<lparr>g_fact = (\<lambda>s. PError \<lparr>pf_offset = 0, pf_input = s, pf_message = None\<rparr>),
      g_rule = (\<lambda>_. PIncomplete), g_check = (\<lambda>_. PIncomplete), g_policy = (\<lambda>_. PIncomplete),
      g_public_key = (\<lambda>_. PIncomplete)\<rparr>"

lemma fact_text: "c_str_to_str ''f('' = Some ''f(''"
  by (simp add: c_str_to_str_def scalar_tail_def well_formed_tail_def)

theorem c_builder_session_witness:
  "run_calls demo refusing_grammar [Call_fact ''f(''] (Some (Some bu_new)) c_start =
     Some (([False], Some None),
       update_last_error (Error_Biscuit (Token_Language (ParseError [\<lparr>pe_input = ''f('', pe_message = None\<rparr>]))) c_start) \<and>
   run_calls demo refusing_grammar [Call_fact ''f('', Call_root_key_id 7] (Some (Some bu_new)) c_start = None"
proof -
  let ?xs = "[Call_fact ''f('', Call_root_key_id 7]"
  let ?e = "Token_Language (ParseError [\<lparr>pe_input = ''f('', pe_message = None\<rparr>])"
  have err: "meaning demo refusing_grammar (Call_fact ''f('') bu_new = Err ?e"
    by (simp add: meaning_of_text_def fact_text with_text_def fact_from_str_def from_text_def refusing_grammar_def
        language_error_of_def parse_error_of_def)
  have texts: "\<forall>x \<in> set ?xs. is_text_call x" by (simp add: fact_text)
  have none: "run_calls demo refusing_grammar ?xs (Some (Some bu_new)) c_start = None"
    using run_call_live [of "Call_fact ''f(''" demo refusing_grammar bu_new c_start] err
    by (simp add: fact_text root_key_id_call)
  have "meanings demo refusing_grammar ?xs bu_new = Err ?e" by (simp only: meanings.simps err obind.simps)
  with c_builder_session [OF texts length_replicate [of 32 0], of demo refusing_grammar bu_new c_start
      "plain_codec undefined" "\<lambda>s _. s" "demo_pair 0"]
  obtain ys x zs where split: "?xs = ys @ x # zs"
    and run: "run_calls demo refusing_grammar (ys @ [x]) (Some (Some bu_new)) c_start =
      Some ((replicate (length ys) True @ [False], Some None), update_last_error (Error_Biscuit ?e) c_start)"
    by (simp only: outcome.case) blast
  have "ys = []"
  proof (rule ccontr)
    assume "ys \<noteq> []"
    with split have "ys @ [x] = ?xs" by (auto simp: Cons_eq_append_conv)
    with run none show False by simp
  qed
  with split run none show ?thesis by simp
qed

end
