(* ===== verification/C_Properties.thy ===== *)
theory C_Properties
  imports C_Sessions
begin

text \<open>
  Properties of the C interface: the keys and tokens that pass through a buffer, the errors that
  calls leave behind, and the failed checks of a refused authorization.
\<close>

section \<open>Keys in buffers\<close>

lemma keypair_bytes: "private_from_bytes p (private_to_bytes k) (private_algorithm k) = Ok k \<Longrightarrow>
    keypair_private kp = k \<Longrightarrow> keypair_from k = kp"
  using keypair_from_private [of kp] by simp

lemma valid_private_bytes:
  assumes "primitives_ok p" "valid_keypair p kp"
  shows "length (private_to_bytes (keypair_private kp)) = 32"
  using assms by (cases kp) (auto simp: primitives_ok_def p256_keys_law_def)

text \<open>
  C40: the bytes of a key pair, written to a buffer, are read back as the key pair, for both
  algorithms.  A public key comes back if it is an Ed25519 key; writing a P-256 public key aborts
  the process, its 33 bytes not fitting the 32 of the slice.
\<close>

theorem c_keys_roundtrip:
  assumes "primitives_ok p" "valid_keypair p kp" "algorithm_of_c a = keypair_algorithm kp"
  shows "\<exists>bs. key_pair_serialize (Some kp) st = Some ((32, bs), st) \<and>
    key_pair_deserialize p bs a st = Some (Some kp, st) \<and>
    (case keypair_algorithm kp of
       Ed25519 \<Rightarrow> \<exists>ks. public_key_serialize (Some (keypair_public p kp)) st = Some ((32, ks), st) \<and>
         public_key_deserialize p ks a st = Some (Some (keypair_public p kp), st)
     | Secp256r1 \<Rightarrow> public_key_serialize (Some (keypair_public p kp)) st = None)"
proof -
  let ?bs = "private_to_bytes (keypair_private kp)"
  have len: "length ?bs = 32" by (rule valid_private_bytes [OF assms(1,2)])
  have read: "private_from_bytes p ?bs (algorithm_of_c a) = Ok (keypair_private kp)"
    using assms private_roundtrip [of p "keypair_private kp"] by simp
  have pub: "valid_public p (keypair_public p kp)" by (rule valid_keypair_public [OF assms(1,2)])
  have public: "case keypair_algorithm kp of
       Ed25519 \<Rightarrow> \<exists>ks. public_key_serialize (Some (keypair_public p kp)) st = Some ((32, ks), st) \<and>
         public_key_deserialize p ks a st = Some (Some (keypair_public p kp), st)
     | Secp256r1 \<Rightarrow> public_key_serialize (Some (keypair_public p kp)) st = None"
  proof (cases kp)
    case (Ed25519_pair s)
    with pub assms(3) show ?thesis
      by (simp add: public_key_serialize_def public_key_deserialize_def filling_def copy_from_slice_def c_calls
          ed_public_from_bytes_def)
  next
    case (P256_pair s)
    with pub assms(1) have "length (p256_public p s) = 33"
      by (auto simp: primitives_ok_def p256_keys_law_def)
    with P256_pair show ?thesis
      by (simp add: public_key_serialize_def filling_def copy_from_slice_def c_calls)
  qed
  show ?thesis
    using len read public
    by (intro exI [of _ ?bs] conjI)
      (simp_all add: key_pair_serialize_def key_pair_deserialize_def filling_def copy_from_slice_def c_calls)
qed

theorem c_keys_roundtrip_witness:
  "\<exists>bs. key_pair_serialize (Some (demo_pair 3)) c_start = Some ((32, bs), c_start) \<and>
     key_pair_deserialize demo bs Algorithm_Ed25519 c_start = Some (Some (demo_pair 3), c_start)"
proof -
  have "algorithm_of_c Algorithm_Ed25519 = keypair_algorithm (demo_pair 3)" by (simp add: demo_pair_def)
  from c_keys_roundtrip [OF demo_ok demo_pair_valid(1) this, of c_start] show ?thesis by blast
qed

section \<open>Tokens in buffers\<close>

text \<open>The tokens that a program makes through the C interface, with valid keys and draws.\<close>

inductive c_made :: "primitives \<Rightarrow> codec \<Rightarrow> seeded \<Rightarrow> public_key \<Rightarrow> biscuit \<Rightarrow> bool"
  for p c rng root where
  c_built: "valid_keypair p root_kp \<Longrightarrow> valid_keypair p (keypair_new (rng seed Ed25519)) \<Longrightarrow>
     keypair_public p root_kp = root \<Longrightarrow> builder_keys_valid p (bu_inner b) \<Longrightarrow>
     biscuit_builder_build p c rng (Some (Some b)) (Some root_kp) seed st = Some (Some t, st') \<Longrightarrow>
     c_made p c rng root t"
| c_appended: "c_made p c rng root t \<Longrightarrow> valid_keypair p kp \<Longrightarrow> builder_keys_valid p bb \<Longrightarrow>
     biscuit_append_block p c (Some t) (Some (Some bb)) (Some kp) st = Some (Some u, st') \<Longrightarrow>
     c_made p c rng root u"

lemma build_answers:
  assumes "biscuit_builder_build p c rng (Some (Some b)) (Some root) seed st = Some (Some t, st')"
  shows "build_with_key_pair p c b root default_symbol_table (keypair_new (rng seed Ed25519)) = Ok t"
proof -
  have "length seed = 32"
    using assms by (auto simp: biscuit_builder_build_def c_calls split: if_splits)
  with assms build_call [OF this, of p c rng "Some b" root st] show ?thesis
    by (auto simp: c_calls split: outcome.splits)
qed

lemma append_answers:
  "biscuit_append_block p c (Some t) (Some (Some bb)) (Some kp) st = Some (Some u, st') \<Longrightarrow>
   append_with_keypair p c t kp bb = Ok u"
  by (auto simp: biscuit_append_block_def c_calls split: outcome.splits)

lemma c_made_made: "c_made p c rng root t \<Longrightarrow> made fmt p c root t"
  by (induction rule: c_made.induct) (auto intro: made.intros dest: build_answers append_answers)

text \<open>The number that prost computes is the length of what it writes.\<close>

definition wire_size :: "codec \<Rightarrow> (pbiscuit \<Rightarrow> nat) \<Rightarrow> bool" where
  "wire_size c encoded_len \<longleftrightarrow> (\<forall>m bs. encode_biscuit c m = Ok bs \<longrightarrow> length bs = encoded_len m)"

lemma written_size:
  "wire_size c encoded_len \<Longrightarrow> biscuit_to_vec c t = Ok v \<Longrightarrow> length v = serialized_size encoded_len (bi_container t)"
  by (auto simp: wire_size_def biscuit_to_vec_def to_vec_def serialized_size_def outcome_simps)

text \<open>
  C25: a token that a program makes through the C interface and writes to a buffer is the token that
  \<open>biscuit_from\<close> reads from the buffer under the root's public key.  The write succeeds whenever the
  token encodes, and fills exactly the bytes that \<open>biscuit_serialized_size\<close> announces.
\<close>

theorem c_token_roundtrip:
  assumes "primitives_ok p" "codec_ok c" "wire_size c encoded_len" "c_made p c rng root t"
    and "biscuit_to_vec c t = Ok v"
  shows "biscuit_serialize c encoded_len (Some t) st = Some ((length v, v), st) \<and>
    biscuit_serialized_size encoded_len (Some t) st = Some (length v, st) \<and>
    c_biscuit_from p c v (Some root) st = Some (Some t, st)"
proof -
  have "biscuit_from p c v (provider_of_key root) = Ok t"
    by (rule made_read_back [OF assms(1,2) c_made_made [OF assms(4)] assms(5)]) (simp add: provider_of_key_def)
  with assms(5) written_size [OF assms(3,5)] show ?thesis
    by (simp add: biscuit_serialize_def biscuit_serialized_size_def c_biscuit_from_def token_serialized_size_def
        filling_def copy_from_slice_def c_calls)
qed

text \<open>The draws of the sample: the secret of the key pair 1.\<close>

definition demo_rng :: seeded where
  "demo_rng seed a = (case demo_pair 1 of Ed25519_pair s \<Rightarrow> s | P256_pair s \<Rightarrow> s)"

lemma demo_rng_pair: "keypair_new (demo_rng seed Ed25519) = demo_pair 1"
  by (simp add: keypair_new_def demo_rng_def demo_pair_def)

lemma demo_c_made: "c_made demo (plain_codec n) demo_rng (demo_key 0) demo_biscuit"
proof (rule c_made.c_built)
  show "biscuit_builder_build demo (plain_codec n) demo_rng (Some (Some bu_new)) (Some (demo_pair 0)) (replicate 32 0) c_start =
      Some (Some demo_biscuit, c_start)"
    using build_call [OF length_replicate, of demo "plain_codec n" demo_rng "Some bu_new" "demo_pair 0" 0 c_start]
    by (simp add: demo_rng_pair demo_build c_calls)
qed (simp_all add: demo_rng_pair demo_pair_valid demo_key_def no_keys_valid bu_new_def)

theorem c_token_roundtrip_witness:
  "c_biscuit_from demo (plain_codec (to_proto demo_container)) [7] (Some (demo_key 0)) c_start =
     Some (Some demo_biscuit, c_start)"
proof -
  let ?c = "plain_codec (to_proto demo_container)"
  have size: "wire_size ?c (\<lambda>_. 1)" by (simp add: wire_size_def plain_codec_def)
  have "biscuit_to_vec ?c demo_biscuit = Ok [7]"
    by (simp add: biscuit_to_vec_def to_vec_def plain_codec_def demo_biscuit_def)
  from c_token_roundtrip [OF demo_ok plain_codec_ok size demo_c_made this, of c_start] show ?thesis by blast
qed

section \<open>Sealed tokens in buffers\<close>

text \<open>
  The proof is a message of one field of bytes: below 126 of them, each counts one in the size of
  the token.
\<close>

definition proof_size :: "(pbiscuit \<Rightarrow> nat) \<Rightarrow> bool" where
  "proof_size encoded_len \<longleftrightarrow>
     (\<forall>m s g. length s < 126 \<longrightarrow> length g < 126 \<longrightarrow>
        encoded_len (m\<lparr>pbi_proof := Next_Secret s\<rparr>) + length g =
        encoded_len (m\<lparr>pbi_proof := Final_Signature g\<rparr>) + length s)"

lemma sealed_size:
  assumes "primitives_ok p" "proof_size encoded_len" "se_proof t = Secret (Ed25519_private s)" "length s = 32"
    and "container_seal p t = Ok u"
  shows "serialized_size encoded_len u = serialized_size encoded_len t + 32"
proof -
  from assms(3,5) obtain g where g: "ed_sign p s (seal_payload_v0 (last_block t)) = Ok g" and u: "u = t\<lparr>se_proof := Seal g\<rparr>"
    by (auto simp: container_seal_def outcome_simps)
  have "length g = 64" using assms(1,4) g by (auto simp: primitives_ok_def ed_sign_law_def)
  moreover have "to_proto t = (to_proto t)\<lparr>pbi_proof := Next_Secret s\<rparr>"
    using assms(3) by (simp add: to_proto_def write_proof_def)
  moreover have "to_proto u = (to_proto t)\<lparr>pbi_proof := Final_Signature g\<rparr>"
    by (simp add: u to_proto_def write_proof_def)
  moreover have "encoded_len ((to_proto t)\<lparr>pbi_proof := Next_Secret s\<rparr>) + length g =
      encoded_len ((to_proto t)\<lparr>pbi_proof := Final_Signature g\<rparr>) + length s"
    using assms(2) [unfolded proof_size_def, rule_format, of s g "to_proto t"] assms(4) \<open>length g = 64\<close> by simp
  ultimately show ?thesis using assms(4) by (simp add: serialized_size_def)
qed

text \<open>
  C38: a token whose last key is an Ed25519 key, as the key that building draws is, cannot be sealed
  into a buffer: \<open>biscuit_sealed_size\<close> announces the size of the token before it is sealed, 32
  bytes too few, and \<open>biscuit_serialize_sealed\<close>, which takes a slice of that size, aborts the
  process whenever sealing the token and encoding the result succeed.
\<close>

theorem c_sealed_token_aborts:
  assumes "primitives_ok p" "wire_size c encoded_len" "proof_size encoded_len"
    and "se_proof (bi_container t) = Secret (Ed25519_private s)" "length s = 32"
    and "biscuit_seal p t = Ok b" "biscuit_to_vec c b = Ok v"
  shows "biscuit_sealed_size encoded_len (Some t) st = Some (length v - 32, st) \<and>
    biscuit_serialize_sealed p c encoded_len (Some t) st = None"
proof -
  from assms(6) obtain u where seal: "container_seal p (bi_container t) = Ok u" and b: "b = t\<lparr>bi_container := u\<rparr>"
    by (auto simp: biscuit_seal_def outcome_simps)
  have "length v = serialized_size encoded_len (bi_container t) + 32"
    using written_size [OF assms(2,7)] sealed_size [OF assms(1,3,4,5) seal] by (simp add: b)
  with assms(6,7) show ?thesis
    by (simp add: biscuit_sealed_size_def biscuit_serialize_sealed_def token_serialized_size_def filling_def
        copy_from_slice_def c_calls)
qed

text \<open>A codec that writes as many bytes as the proof has.\<close>

definition proof_len :: "pbiscuit \<Rightarrow> nat" where
  "proof_len m = (case pbi_proof m of Proof_Empty \<Rightarrow> 0 | Next_Secret s \<Rightarrow> length s | Final_Signature g \<Rightarrow> length g)"

definition proof_codec :: codec where
  "proof_codec =
     \<lparr>encode_block = (\<lambda>_. Err []), decode_block = (\<lambda>_. Err []),
      encode_biscuit = (\<lambda>m. Ok (replicate (proof_len m) 0)), decode_biscuit = (\<lambda>_. Err [])\<rparr>"

theorem c_sealed_token_aborts_witness:
  "biscuit_sealed_size proof_len (Some demo_biscuit) c_start = Some (32, c_start) \<and>
   biscuit_serialize_sealed demo proof_codec proof_len (Some demo_biscuit) c_start = None"
proof -
  have size: "wire_size proof_codec proof_len" by (simp add: wire_size_def proof_codec_def)
  have proof_law: "proof_size proof_len" by (simp add: proof_size_def proof_len_def)
  obtain s where s: "demo_pair 1 = Ed25519_pair s" "length s = 32" by (simp add: demo_pair_def)
  have secret: "se_proof (bi_container demo_biscuit) = Secret (Ed25519_private s)"
    using s by (simp add: demo_biscuit_def demo_container_def)
  obtain g where g: "ed_sign demo s (seal_payload_v0 (last_block demo_container)) = Ok g"
    using demo_signs [of "demo_pair 1" "seal_payload_v0 (last_block demo_container)"] s(1)
    by (cases "ed_sign demo s (seal_payload_v0 (last_block demo_container))") auto
  then have "length g = 64" using demo_ok s(2) by (auto simp: primitives_ok_def ed_sign_law_def)
  let ?b = "demo_biscuit\<lparr>bi_container := demo_container\<lparr>se_proof := Seal g\<rparr>\<rparr>"
  have sealed: "biscuit_seal demo demo_biscuit = Ok ?b"
    using secret g by (simp add: biscuit_seal_def container_seal_def demo_biscuit_def)
  have "biscuit_to_vec proof_codec ?b = Ok (replicate 64 0)"
    using \<open>length g = 64\<close>
    by (simp add: biscuit_to_vec_def to_vec_def proof_codec_def proof_len_def to_proto_def write_proof_def)
  from c_sealed_token_aborts [OF demo_ok size proof_law secret s(2) sealed this, of c_start] show ?thesis by simp
qed

section \<open>The failed checks of a refusal\<close>

text \<open>What a program reads from the functions on the last error, for the check at an index, and for all.\<close>

definition read_failed_check :: "c_state \<Rightarrow> u64 \<Rightarrow> failed_check option" where
  "read_failed_check st i =
     (case (error_check_is_authorizer i st, error_check_id i st, error_check_block_id i st, error_check_rule i st) of
        (Some (own, _), Some (check, _), Some (block, _), Some (Some rule, _)) \<Rightarrow>
          Some (if own then FailedCheck_Authorizer \<lparr>fa_check_id = unat check, fa_rule = rule\<rparr>
                else FailedCheck_Block \<lparr>fb_block_id = unat block, fb_check_id = unat check, fb_rule = rule\<rparr>)
      | _ \<Rightarrow> None)"

definition read_failed_checks :: "c_state \<Rightarrow> failed_check option list" where
  "read_failed_checks st =
     (case error_check_count st of
        Some (n, _) \<Rightarrow> map (\<lambda>i. read_failed_check st (of_nat i)) [0..<unat n]
      | None \<Rightarrow> [])"

text \<open>A failure whose numbers are those of \<open>u32\<close> and whose text fits a C string.\<close>

fun readable :: "failed_check \<Rightarrow> bool" where
  "readable (FailedCheck_Block f) \<longleftrightarrow>
     fb_block_id f < 2 ^ 32 \<and> fb_check_id f < 2 ^ 32 \<and> CHR 0x00 \<notin> set (fb_rule f)"
| "readable (FailedCheck_Authorizer f) \<longleftrightarrow> fa_check_id f < 2 ^ 32 \<and> CHR 0x00 \<notin> set (fa_rule f)"

lemma u64_small: "n < 2 ^ 64 \<Longrightarrow> unat (of_nat n :: u64) = n"
  by (simp add: unat_of_nat take_bit_nat_eq_self)

lemma u32_u64: "n < 4294967296 \<Longrightarrow> unat (of_nat n :: u64) = n"
  by (rule u64_small) simp

lemma failed_check_at_index:
  assumes "failed_checks_of (cs_last_error st) = Some cs" "length cs < 2 ^ 64" "i < length cs"
  shows "failed_check_at st (of_nat i) = Some (cs ! i)"
proof -
  have "unat (of_nat i :: u64) = i" "unat (of_nat (length cs) :: u64) = length cs"
    using assms by (auto intro: u64_small)
  with assms(1,3) show ?thesis by (simp add: failed_check_at_def word_le_nat_alt)
qed

lemma read_failed_check_index:
  assumes "failed_checks_of (cs_last_error st) = Some cs" "length cs < 2 ^ 64" "i < length cs" "readable (cs ! i)"
  shows "read_failed_check st (of_nat i) = Some (cs ! i)"
proof (cases "cs ! i")
  case (FailedCheck_Block f)
  with failed_check_at_index [OF assms(1-3)] assms(4) show ?thesis
    by (simp add: read_failed_check_def error_check_is_authorizer_def error_check_id_def error_check_block_id_def
        error_check_rule_def c_string_def answer_def Let_def u32_u64)
next
  case (FailedCheck_Authorizer f)
  with failed_check_at_index [OF assms(1-3)] assms(4) show ?thesis
    by (simp add: read_failed_check_def error_check_is_authorizer_def error_check_id_def error_check_block_id_def
        error_check_rule_def c_string_def answer_def Let_def u32_u64)
qed

text \<open>
  C28: when an authorization is refused, \<open>authorizer_authorize\<close> answers false, and a program that asks
  for the count of the failed checks and then for each of them gets exactly the failures that the
  authorization reports, in their order: whose check it is, its block, its number and its text.  The
  texts are those that C can read, without a NUL byte.
\<close>

theorem c_failed_checks:
  assumes "authorize fmt rx oc ti a = (Err (FailedLogic e), a')"
    and "e = Unauthorized po cs \<or> e = NoMatchingPolicy cs"
    and "length cs < 2 ^ 64" "\<forall>f \<in> set cs. readable f"
  shows "\<exists>st'. authorizer_authorize fmt rx oc ti (Some a) st = Some ((False, Some a'), st') \<and>
    read_failed_checks st' = map Some cs"
proof -
  let ?st = "update_last_error (Error_Biscuit (FailedLogic e)) st"
  have checks: "failed_checks_of (cs_last_error ?st) = Some cs"
    using assms(2) by (auto simp: update_last_error_def)
  have "error_check_count ?st = Some (of_nat (length cs), ?st)"
    by (simp add: error_check_count_def checks answer_def)
  then have "read_failed_checks ?st = map (\<lambda>i. read_failed_check ?st (of_nat i)) [0..<length cs]"
    using u64_small [OF assms(3)] by (simp add: read_failed_checks_def)
  also have "\<dots> = map (\<lambda>i. Some (cs ! i)) [0..<length cs]"
    using read_failed_check_index [OF checks assms(3)] assms(4) by simp
  also have "\<dots> = map Some (map ((!) cs) [0..<length cs])" by simp
  also have "\<dots> = map Some cs" by (simp only: map_nth)
  finally show ?thesis
    using assms(1) by (simp add: authorizer_authorize_def c_calls)
qed

text \<open>An authorizer with a check without queries, which fails.\<close>

definition failing_authorizer :: authorizer where
  "failing_authorizer = authorizer_new\<lparr>au_block := bb_new\<lparr>bb_checks := [\<lparr>bc_queries = [], bc_kind = One_kind\<rparr>]\<rparr>\<rparr>"

definition failing_check :: failed_check where
  "failing_check = FailedCheck_Authorizer \<lparr>fa_check_id = 0, fa_rule = ''check if ''\<rparr>"

lemma failing_refused:
  "\<exists>a'. authorize demo_formats (\<lambda>_. None) oc demo_timing failing_authorizer =
     (Err (FailedLogic (NoMatchingPolicy [failing_check])), a')"
proof -
  let ?w = "au_world failing_authorizer"
  let ?a = "failing_authorizer\<lparr>au_world := ?w, au_execution_time := Some 0\<rparr>"
  have run: "run_with_limits (\<lambda>_. None) (ti_run demo_timing) (au_symbols failing_authorizer) (au_limits failing_authorizer) ?w =
      (Ok (), ?w)"
    by (rule run_without_rules) (simp add: failing_authorizer_def authorizer_new_def world_new_def)
  from authorize_after_run [OF run, of demo_formats oc] obtain limits where
    "fst (authorize demo_formats (\<lambda>_. None) oc demo_timing failing_authorizer) =
       fst (authorize_inner demo_formats (\<lambda>_. None) demo_timing limits ?a)"
    by (auto simp: failing_authorizer_def authorizer_new_def world_new_def demo_timing_def default_limits_def)
  moreover have "fst (authorize_inner demo_formats (\<lambda>_. None) demo_timing limits ?a) =
      Err (FailedLogic (NoMatchingPolicy [failing_check]))"
    by (simp add: Let_def authorize_inner_def authorize_body_def judge_def abind_def aconvert_def areturn_def aread_def
        authority_failures_def other_failures_def decide_def authorizer_new_def bb_new_def failing_authorizer_def
        authorizer_check_def check_convert_def print_check_def failing_check_def as_u32_def)
  ultimately show ?thesis by (metis prod.collapse)
qed

theorem c_failed_checks_witness:
  "\<exists>a' st'. authorizer_authorize demo_formats (\<lambda>_. None) True demo_timing (Some failing_authorizer) c_start =
     Some ((False, Some a'), st') \<and> read_failed_checks st' = [Some failing_check]"
proof -
  obtain a' where "authorize demo_formats (\<lambda>_. None) True demo_timing failing_authorizer =
      (Err (FailedLogic (NoMatchingPolicy [failing_check])), a')"
    using failing_refused by blast
  from c_failed_checks [OF this, of undefined "[failing_check]" c_start] show ?thesis
    by (auto simp: failing_check_def)
qed

end
