(* ===== verification/C_Errors.thy ===== *)
theory C_Errors
  imports C_Properties
begin

text \<open>
  The last error over every execution of the C interface: \<open>c_step\<close> is one call of any function, with
  any arguments.  A call changes the last error only by recording another one.
\<close>

inductive c_step :: "c_state \<Rightarrow> c_state \<Rightarrow> bool" where
  step_error_message: "error_message d st = Some (r, st') \<Longrightarrow> c_step st st'"
| step_error_kind: "error_kind st = Some (r, st') \<Longrightarrow> c_step st st'"
| step_error_check_count: "error_check_count st = Some (r, st') \<Longrightarrow> c_step st st'"
| step_error_check_id: "error_check_id i st = Some (r, st') \<Longrightarrow> c_step st st'"
| step_error_check_block_id: "error_check_block_id i st = Some (r, st') \<Longrightarrow> c_step st st'"
| step_error_check_rule: "error_check_rule i st = Some (r, st') \<Longrightarrow> c_step st st'"
| step_error_check_is_authorizer: "error_check_is_authorizer i st = Some (r, st') \<Longrightarrow> c_step st st'"
| step_key_pair_new: "key_pair_new rng seed a st = Some (r, st') \<Longrightarrow> c_step st st'"
| step_key_pair_public: "key_pair_public p kp st = Some (r, st') \<Longrightarrow> c_step st st'"
| step_key_pair_serialize: "key_pair_serialize kp st = Some (r, st') \<Longrightarrow> c_step st st'"
| step_key_pair_deserialize: "key_pair_deserialize p bs a st = Some (r, st') \<Longrightarrow> c_step st st'"
| step_key_pair_to_pem: "key_pair_to_pem pem kp st = Some (r, st') \<Longrightarrow> c_step st st'"
| step_key_pair_from_pem: "key_pair_from_pem pem m st = Some (r, st') \<Longrightarrow> c_step st st'"
| step_public_key_serialize: "public_key_serialize k st = Some (r, st') \<Longrightarrow> c_step st st'"
| step_public_key_deserialize: "public_key_deserialize p bs a st = Some (r, st') \<Longrightarrow> c_step st st'"
| step_public_key_to_pem: "public_key_to_pem pem k st = Some (r, st') \<Longrightarrow> c_step st st'"
| step_public_key_from_pem: "public_key_from_pem pem m st = Some (r, st') \<Longrightarrow> c_step st st'"
| step_public_key_equals: "public_key_equals k l st = Some (r, st') \<Longrightarrow> c_step st st'"
| step_c_biscuit_builder: "c_biscuit_builder st = Some (r, st') \<Longrightarrow> c_step st st'"
| step_biscuit_builder_set_context: "biscuit_builder_set_context h m st = Some (r, st') \<Longrightarrow> c_step st st'"
| step_biscuit_builder_set_root_key_id: "biscuit_builder_set_root_key_id h n st = Some (r, st') \<Longrightarrow> c_step st st'"
| step_biscuit_builder_add_fact: "biscuit_builder_add_fact g h m st = Some (r, st') \<Longrightarrow> c_step st st'"
| step_biscuit_builder_add_rule: "biscuit_builder_add_rule p g h m st = Some (r, st') \<Longrightarrow> c_step st st'"
| step_biscuit_builder_add_check: "biscuit_builder_add_check p g h m st = Some (r, st') \<Longrightarrow> c_step st st'"
| step_biscuit_builder_build: "biscuit_builder_build p c rng h kp seed st = Some (r, st') \<Longrightarrow> c_step st st'"
| step_c_biscuit_from: "c_biscuit_from p c bs k st = Some (r, st') \<Longrightarrow> c_step st st'"
| step_biscuit_serialized_size: "biscuit_serialized_size len t st = Some (r, st') \<Longrightarrow> c_step st st'"
| step_biscuit_sealed_size: "biscuit_sealed_size len t st = Some (r, st') \<Longrightarrow> c_step st st'"
| step_biscuit_serialize: "biscuit_serialize c len t st = Some (r, st') \<Longrightarrow> c_step st st'"
| step_biscuit_serialize_sealed: "biscuit_serialize_sealed p c len t st = Some (r, st') \<Longrightarrow> c_step st st'"
| step_biscuit_block_count: "biscuit_block_count t st = Some (r, st') \<Longrightarrow> c_step st st'"
| step_biscuit_block_context: "biscuit_block_context t n st = Some (r, st') \<Longrightarrow> c_step st st'"
| step_c_create_block: "c_create_block st = Some (r, st') \<Longrightarrow> c_step st st'"
| step_biscuit_append_block: "biscuit_append_block p c t hb kp st = Some (r, st') \<Longrightarrow> c_step st st'"
| step_block_builder_set_context: "block_builder_set_context hb m st = Some (r, st') \<Longrightarrow> c_step st st'"
| step_block_builder_add_fact: "block_builder_add_fact g hb m st = Some (r, st') \<Longrightarrow> c_step st st'"
| step_block_builder_add_rule: "block_builder_add_rule p g hb m st = Some (r, st') \<Longrightarrow> c_step st st'"
| step_block_builder_add_check: "block_builder_add_check p g hb m st = Some (r, st') \<Longrightarrow> c_step st st'"
| step_c_authorizer_builder: "c_authorizer_builder st = Some (r, st') \<Longrightarrow> c_step st st'"
| step_authorizer_builder_add_fact: "authorizer_builder_add_fact g ha m st = Some (r, st') \<Longrightarrow> c_step st st'"
| step_authorizer_builder_add_rule: "authorizer_builder_add_rule p g ha m st = Some (r, st') \<Longrightarrow> c_step st st'"
| step_authorizer_builder_add_check: "authorizer_builder_add_check p g ha m st = Some (r, st') \<Longrightarrow> c_step st st'"
| step_authorizer_builder_add_policy: "authorizer_builder_add_policy p g ha m st = Some (r, st') \<Longrightarrow> c_step st st'"
| step_authorizer_builder_build: "authorizer_builder_build fmt p ha tok st = Some (r, st') \<Longrightarrow> c_step st st'"
| step_authorizer_builder_build_unauthenticated: "authorizer_builder_build_unauthenticated fmt p ha st = Some (r, st') \<Longrightarrow> c_step st st'"
| step_biscuit_authorizer: "biscuit_authorizer fmt p t st = Some (r, st') \<Longrightarrow> c_step st st'"
| step_authorizer_authorize: "authorizer_authorize fmt rx oc ti au st = Some (r, st') \<Longrightarrow> c_step st st'"
| step_authorizer_print: "authorizer_print fmt au st = Some (r, st') \<Longrightarrow> c_step st st'"
| step_biscuit_print: "biscuit_print fmt dbg p t st = Some (r, st') \<Longrightarrow> c_step st st'"
| step_biscuit_print_block_source: "biscuit_print_block_source fmt p t n st = Some (r, st') \<Longrightarrow> c_step st st'"

definition keeps_error :: "'a c_call \<Rightarrow> bool" where
  "keeps_error m \<longleftrightarrow>
     (\<forall>st r st'. m st = Some (r, st') \<longrightarrow> cs_last_error st \<noteq> None \<longrightarrow> cs_last_error st' \<noteq> None)"

named_theorems keeping

lemma keeps_answer [keeping]: "keeps_error (answer x)"
  by (simp add: keeps_error_def answer_def)

lemma keeps_failing [keeping]: "keeps_error (failing e x)"
  by (simp add: keeps_error_def failing_def update_last_error_def)

lemma keeps_aborting [keeping]: "keeps_error aborting"
  by (simp add: keeps_error_def aborting_def)

lemma keeps_non_null [keeping]: "(\<And>v. keeps_error (f v)) \<Longrightarrow> keeps_error (non_null h x f)"
  by (cases h) (simp_all add: non_null_def keeps_failing)

lemma keeps_recorded [keeping]: "(\<And>r. keeps_error (f r)) \<Longrightarrow> keeps_error (recorded m x f)"
  by (cases m) (simp_all add: recorded_def keeps_failing keeps_aborting)

lemma keeps_dropped [keeping]: "keeps_error (dropped m)"
  by (cases m) (simp_all add: dropped_def keeps_answer keeps_aborting)

lemma keeps_or_invalid [keeping]: "(\<And>r. keeps_error (f r)) \<Longrightarrow> keeps_error (or_invalid m f)"
  by (cases m) (simp_all add: or_invalid_def keeps_failing keeps_aborting)

lemma keeps_text [keeping]: "keeps_error (text_answer s)" "keeps_error (panicking_text t)" "keeps_error (filling n bs r)"
  by (simp_all add: text_answer_def panicking_text_def filling_def keeping split: option.splits)

lemma keeps_on_builder [keeping]: "keeps_error (on_builder op h)"
  by (auto simp: on_builder_def intro!: keeping split: prod.splits)

lemma keeps_on_builder_text [keeping]: "keeps_error (on_builder_text op h m)"
  by (auto simp: on_builder_text_def intro!: keeping split: option.splits)

lemma keepsD: "keeps_error m \<Longrightarrow> m st = Some (r, st') \<Longrightarrow> cs_last_error st \<noteq> None \<Longrightarrow> cs_last_error st' \<noteq> None"
  by (simp add: keeps_error_def)

lemmas handle_functions =
    key_pair_new_def key_pair_public_def key_pair_serialize_def key_pair_deserialize_def
    key_pair_to_pem_def key_pair_from_pem_def public_key_serialize_def public_key_deserialize_def
    public_key_to_pem_def public_key_from_pem_def public_key_equals_def c_biscuit_builder_def
    biscuit_builder_set_context_def biscuit_builder_set_root_key_id_def biscuit_builder_add_fact_def
    biscuit_builder_add_rule_def biscuit_builder_add_check_def biscuit_builder_build_def
    c_biscuit_from_def biscuit_serialized_size_def biscuit_sealed_size_def biscuit_serialize_def
    biscuit_serialize_sealed_def biscuit_block_count_def biscuit_block_context_def c_create_block_def
    biscuit_append_block_def block_builder_set_context_def block_builder_add_fact_def
    block_builder_add_rule_def block_builder_add_check_def c_authorizer_builder_def
    authorizer_builder_add_fact_def authorizer_builder_add_rule_def authorizer_builder_add_check_def
    authorizer_builder_add_policy_def authorizer_builder_build_def
    authorizer_builder_build_unauthenticated_def biscuit_authorizer_def authorizer_authorize_def
    authorizer_print_def biscuit_print_def biscuit_print_block_source_def

lemma errors_keep:
  "keeps_error (error_message d)" "keeps_error error_kind" "keeps_error error_check_count"
  "keeps_error (error_check_id i)" "keeps_error (error_check_block_id i)" "keeps_error (error_check_rule i)"
  "keeps_error (error_check_is_authorizer i)"
  by (auto simp: keeps_error_def error_message_def error_kind_def error_check_count_def error_check_id_def
      error_check_block_id_def error_check_rule_def error_check_is_authorizer_def answer_def Let_def
      split: option.splits)

lemma step_keeps:
  "c_step st st' \<Longrightarrow> cs_last_error st \<noteq> None \<Longrightarrow> cs_last_error st' \<noteq> None"
  by (induction rule: c_step.induct)
    ((erule keepsD [rotated], assumption,
      (auto simp: handle_functions Let_def intro!: keeping errors_keep split: option.splits prod.splits)[1])+)

lemma kind_of_error: "kind_of e \<noteq> Kind_None"
  by (cases e rule: kind_of.cases) simp_all

lemma steps_keep: "c_step\<^sup>*\<^sup>* st st' \<Longrightarrow> cs_last_error st \<noteq> None \<Longrightarrow> cs_last_error st' \<noteq> None"
  by (induction rule: rtranclp_induct) (auto dest: step_keeps)

text \<open>
  C39: an error of the C interface is never cleared, and not every failure records one.  Once a call
  has recorded an error, \<open>error_kind\<close> answers a kind of error after every sequence of further calls,
  those that succeed included; and when reading a token or building an authorizer fails, the null
  pointer comes with the state as it was, so that the kind and message are those of an older error.
\<close>

theorem c_errors_stay:
  assumes "c_step\<^sup>*\<^sup>* st st'" "cs_last_error st = Some e"
    and "biscuit_from p c input (provider_of_key root) = Err d" "ab_build fmt p t b = Err d'"
  shows "\<exists>k. k \<noteq> Kind_None \<and> error_kind st' = Some (k, st') \<and>
    c_biscuit_from p c input (Some root) st' = Some (None, st') \<and>
    authorizer_builder_build fmt p (Some (Some b)) t st' = Some (None, st')"
proof -
  from steps_keep [OF assms(1)] assms(2) obtain e' where "cs_last_error st' = Some e'" by auto
  then have "\<exists>k. k \<noteq> Kind_None \<and> error_kind st' = Some (k, st')"
    by (cases e') (simp_all add: error_kind_def answer_def kind_of_error)
  with assms(3,4) show ?thesis
    by (simp add: c_biscuit_from_def authorizer_builder_build_def c_calls)
qed

text \<open>A token whose authority block declares an unsupported version, and bytes that do not decode.\<close>

definition old_token :: biscuit where
  "old_token = demo_biscuit\<lparr>bi_authority := empty_message\<lparr>pbl_version := Some 0\<rparr>\<rparr>"

theorem c_errors_stay_witness:
  "\<exists>st k. key_pair_public demo None c_start = Some (None, st) \<and>
     k \<noteq> Kind_None \<and> error_kind st = Some (k, st) \<and>
     c_biscuit_from demo proof_codec [] (Some (demo_key 0)) st = Some (None, st) \<and>
     authorizer_builder_build demo_formats demo (Some (Some ab_new)) old_token st = Some (None, st)"
proof -
  let ?st = "update_last_error Error_InvalidArgument c_start"
  have call: "key_pair_public demo None c_start = Some (None, ?st)" by (simp add: key_pair_public_def c_calls)
  have later: "c_step\<^sup>*\<^sup>* ?st ?st" by simp
  have e: "cs_last_error ?st = Some Error_InvalidArgument" by (simp add: update_last_error_def)
  have read: "biscuit_from demo proof_codec [] (provider_of_key (demo_key 0)) =
      Err (Token_Format (DeserializationError ''deserialization error: ''))"
    by (simp add: biscuit_from_def from_slice_def deserialize_def proof_codec_def)
  have "proto_block_to_token_block demo (empty_message\<lparr>pbl_version := Some 0\<rparr>) key = Err (version_error 0)" for key
    by (simp add: proto_block_to_token_block_def version_or_zero_def supported_version_def version_numbers)
  then have build: "ab_build demo_formats demo old_token ab_new = Err (Token_Format (version_error 0))"
    by (simp add: ab_build_def build_inner_def old_token_def demo_biscuit_def demo_container_def
        biscuit_block_results_def read_block_def)
  from c_errors_stay [OF later e read build] call show ?thesis by blast
qed

end
