(* ===== verification/Macros.thy ===== *)
theory Macros
  imports Conversions
begin

text \<open>
  The macros of \<open>biscuit-quote/src/lib.rs\<close> and the \<open>ToTokens\<close> of \<open>biscuit-parser/src/builder.rs\<close>.  The
  tokens of a statement are represented by the value that the code they spell builds; the code that
  a macro generates is a record: the bindings of the parameters, and for each statement the calls of
  \<open>set_macro_param\<close> in their order, each cloning its variable or moving it.  Rust expressions are
  values of a type \<open>'x\<close>, and the lists that a macro is given are those that syn reads.
\<close>

section \<open>Code that builds a statement\<close>

fun quoted_key :: "ast_key \<Rightarrow> bkey" where
  "quoted_key (AKParameter p) = BKParameter p"
| "quoted_key (AKInteger i) = BKInteger i"
| "quoted_key (AKStr s) = BKStr s"

fun quoted_term :: "ast_term \<Rightarrow> bterm" where
  "quoted_term (AVariable v) = BVariable v"
| "quoted_term (AInteger i) = BInteger i"
| "quoted_term (AStr s) = BStr s"
| "quoted_term (ADate d) = BDate d"
| "quoted_term (ABytes b) = BBytes b"
| "quoted_term (ABool b) = BBool b"
| "quoted_term (AParameter p) = BParameter p"
| "quoted_term (ASet ts) = BSet (bt_of_list (map quoted_term ts))"
| "quoted_term ANull = BNull"
| "quoted_term (AArray ts) = BArray (map quoted_term ts)"
| "quoted_term (AMap m) = BMap (bm_of_list (map (\<lambda>(k, t). (quoted_key k, quoted_term t)) m))"

fun quoted_scope :: "primitives \<Rightarrow> ast_scope \<Rightarrow> bscope option" where
  "quoted_scope p AScope_Authority = Some BScope_Authority"
| "quoted_scope p AScope_Previous = Some BScope_Previous"
| "quoted_scope p (AScope_PublicKey k) =
     map_option BScope_PublicKey (unwrap_outcome (public_from_bytes p (ak_key k) (ak_algorithm k)))"
| "quoted_scope p (AScope_Parameter v) = Some (BScope_Parameter v)"

definition quoted_predicate :: "ast_predicate \<Rightarrow> bpredicate" where
  "quoted_predicate q = \<lparr>bp_name = as_name q, bp_terms = map quoted_term (as_terms q)\<rparr>"

definition quoted_fact :: "ast_fact \<Rightarrow> bfact" where
  "quoted_fact f = fact_new (as_name (af_predicate f)) (map quoted_term (as_terms (af_predicate f)))"

fun quoted_unary :: "ast_unary \<Rightarrow> bunary" where
  "quoted_unary ANegate = BNegate"
| "quoted_unary AParens = BParens"
| "quoted_unary ALength = BLength"
| "quoted_unary ATypeOf = BTypeOf"
| "quoted_unary (AFfi_unary name) = BFfi_unary name"

fun quoted_binary :: "ast_binary \<Rightarrow> bbinary" where
  "quoted_binary ALessThan = BLessThan"
| "quoted_binary AGreaterThan = BGreaterThan"
| "quoted_binary ALessOrEqual = BLessOrEqual"
| "quoted_binary AGreaterOrEqual = BGreaterOrEqual"
| "quoted_binary AEqual = BEqual"
| "quoted_binary AContains = BContains"
| "quoted_binary APrefix = BPrefix"
| "quoted_binary ASuffix = BSuffix"
| "quoted_binary ARegex = BRegex"
| "quoted_binary AAdd = BAdd"
| "quoted_binary ASub = BSub"
| "quoted_binary AMul = BMul"
| "quoted_binary ADiv = BDiv"
| "quoted_binary AAnd_op = BAnd_op"
| "quoted_binary AOr_op = BOr_op"
| "quoted_binary AIntersection = BIntersection"
| "quoted_binary AUnion_op = BUnion_op"
| "quoted_binary ABitwiseAnd = BBitwiseAnd"
| "quoted_binary ABitwiseOr = BBitwiseOr"
| "quoted_binary ABitwiseXor = BBitwiseXor"
| "quoted_binary ANotEqual = BNotEqual"
| "quoted_binary AHeterogeneousEqual = BHeterogeneousEqual"
| "quoted_binary AHeterogeneousNotEqual = BHeterogeneousNotEqual"
| "quoted_binary ALazyAnd = BLazyAnd"
| "quoted_binary ALazyOr = BLazyOr"
| "quoted_binary AAll_op = BAll_op"
| "quoted_binary AAny_op = BAny_op"
| "quoted_binary AGet = BGet"
| "quoted_binary (AFfi name) = BFfi name"
| "quoted_binary ATryOr = BTryOr"

fun quoted_op :: "ast_op \<Rightarrow> bop" where
  "quoted_op (AValue t) = BValue (quoted_term t)"
| "quoted_op (AUnary u) = BUnary (quoted_unary u)"
| "quoted_op (ABinary b) = BBinary (quoted_binary b)"
| "quoted_op (AClosure ps ops) = BClosure ps (map quoted_op ops)"

definition quoted_expression :: "ast_expression \<Rightarrow> bexpression" where
  "quoted_expression e = \<lparr>be_ops = map quoted_op (ae_ops e)\<rparr>"

text \<open>\<open>None\<close> when a public key does not parse, in the code that is generated.\<close>

definition quoted_rule :: "primitives \<Rightarrow> ast_rule \<Rightarrow> brule option" where
  "quoted_rule p r =
     map_option (rule_new (quoted_predicate (ar_head r)) (map quoted_predicate (ar_body r))
         (map quoted_expression (ar_expressions r)))
       (those (map (quoted_scope p) (ar_scopes r)))"

fun quoted_check_kind :: "check_kind \<Rightarrow> check_kind" where
  "quoted_check_kind One_kind = One_kind"
| "quoted_check_kind All_kind = All_kind"
| "quoted_check_kind Reject_kind = Reject_kind"

definition quoted_check :: "primitives \<Rightarrow> ast_check \<Rightarrow> bcheck option" where
  "quoted_check p c =
     map_option (\<lambda>qs. \<lparr>bc_queries = qs, bc_kind = quoted_check_kind (ac_kind c)\<rparr>)
       (those (map (quoted_rule p) (ac_queries c)))"

fun quoted_policy_kind :: "policy_kind \<Rightarrow> policy_kind" where
  "quoted_policy_kind Allow = Allow"
| "quoted_policy_kind Deny = Deny"

definition quoted_policy :: "primitives \<Rightarrow> ast_policy \<Rightarrow> policy option" where
  "quoted_policy p c =
     map_option (\<lambda>qs. \<lparr>po_queries = qs, po_kind = quoted_policy_kind (ay_kind c)\<rparr>)
       (those (map (quoted_rule p) (ay_queries c)))"

section \<open>The builder of a macro\<close>

text \<open>A parameter that is given twice has its last value.\<close>

definition parsed_parameters :: "(string \<times> 'x) list \<Rightarrow> (string \<times> 'x) list" where
  "parsed_parameters pairs = fold (\<lambda>(k, v). AList.update k v) pairs []"

definition extend_names :: "string list \<Rightarrow> string list \<Rightarrow> string list" where
  "extend_names s names = fold (\<lambda>n s. if n \<in> set s then s else s @ [n]) names s"

record 'x macro_builder =
  mb_type :: string
  mb_target :: "'x option"
  mb_parameters :: "(string \<times> 'x) list"
  mb_datalog_parameters :: "string list"
  mb_macro_parameters :: "string list"
  mb_facts :: "ast_fact list"
  mb_rules :: "ast_rule list"
  mb_checks :: "ast_check list"
  mb_policies :: "ast_policy list"

definition mb_new :: "string \<Rightarrow> 'x option \<Rightarrow> (string \<times> 'x) list \<Rightarrow> 'x macro_builder" where
  "mb_new ty target parameters =
     \<lparr>mb_type = ty, mb_target = target, mb_parameters = parameters, mb_datalog_parameters = [],
      mb_macro_parameters = map fst parameters, mb_facts = [], mb_rules = [], mb_checks = [], mb_policies = []\<rparr>"

definition mb_use :: "(string \<times> 'v) list option \<Rightarrow> 'x macro_builder \<Rightarrow> 'x macro_builder" where
  "mb_use ps b =
     (case ps of
        None \<Rightarrow> b
      | Some m \<Rightarrow> b\<lparr>mb_datalog_parameters := extend_names (mb_datalog_parameters b) (map fst m)\<rparr>)"

definition mb_add_facts :: "ast_fact list \<Rightarrow> 'x macro_builder \<Rightarrow> 'x macro_builder" where
  "mb_add_facts fs b =
     fold (\<lambda>f b. let b = mb_use (af_parameters f) b in b\<lparr>mb_facts := mb_facts b @ [f]\<rparr>) fs b"

definition mb_rule_parameters :: "ast_rule \<Rightarrow> 'x macro_builder \<Rightarrow> 'x macro_builder" where
  "mb_rule_parameters r b = mb_use (ar_scope_parameters r) (mb_use (ar_parameters r) b)"

definition mb_add_rules :: "ast_rule list \<Rightarrow> 'x macro_builder \<Rightarrow> 'x macro_builder" where
  "mb_add_rules rs b =
     fold (\<lambda>r b. let b = mb_rule_parameters r b in b\<lparr>mb_rules := mb_rules b @ [r]\<rparr>) rs b"

definition mb_add_checks :: "ast_check list \<Rightarrow> 'x macro_builder \<Rightarrow> 'x macro_builder" where
  "mb_add_checks cs b =
     fold (\<lambda>c b. let b = fold mb_rule_parameters (ac_queries c) b in b\<lparr>mb_checks := mb_checks b @ [c]\<rparr>) cs b"

definition mb_add_policies :: "ast_policy list \<Rightarrow> 'x macro_builder \<Rightarrow> 'x macro_builder" where
  "mb_add_policies cs b =
     fold (\<lambda>c b. let b = fold mb_rule_parameters (ay_queries c) b in b\<lparr>mb_policies := mb_policies b @ [c]\<rparr>) cs b"

definition mb_validate :: "'x macro_builder \<Rightarrow> (language_error, unit) outcome" where
  "mb_validate b =
     (if set (mb_macro_parameters b) \<subseteq> set (mb_datalog_parameters b) then Ok ()
      else Err (Parameters [] (filter (\<lambda>n. n \<notin> set (mb_datalog_parameters b)) (mb_macro_parameters b))))"

definition mb_add_block_source :: "ast_source \<Rightarrow> 'x macro_builder \<Rightarrow> 'x macro_builder" where
  "mb_add_block_source src b =
     mb_add_checks (map snd (sr_checks src)) (mb_add_rules (map snd (sr_rules src)) (mb_add_facts (map snd (sr_facts src)) b))"

text \<open>\<open>None\<close> when the parser does not return.\<close>

definition mb_block_source ::
    "(string \<Rightarrow> ast_scope list option parsed) \<Rightarrow> (string \<Rightarrow> source_element parsed) \<Rightarrow> string \<Rightarrow> 'x option \<Rightarrow> string \<Rightarrow>
     (string \<times> 'x) list \<Rightarrow> (language_error, 'x macro_builder) outcome option" where
  "mb_block_source scopes element ty target source parameters =
     map_option
       (\<lambda>res. obind (omap_err language_error_of res) (\<lambda>src.
          let b = mb_add_block_source src (mb_new ty target parameters) in
          obind (mb_validate b) (\<lambda>_. Ok b)))
       (parse_block_source scopes element source)"

definition mb_source ::
    "(string \<Rightarrow> source_element parsed) \<Rightarrow> string \<Rightarrow> 'x option \<Rightarrow> string \<Rightarrow> (string \<times> 'x) list \<Rightarrow>
     (language_error, 'x macro_builder) outcome option" where
  "mb_source element ty target source parameters =
     map_option
       (\<lambda>res. obind (omap_err language_error_of res) (\<lambda>src.
          let b = mb_add_policies (map snd (sr_policies src))
                (mb_add_block_source src (mb_new ty target parameters)) in
          obind (mb_validate b) (\<lambda>_. Ok b)))
       (parse_source element source)"

section \<open>The code of a statement\<close>

datatype item_start = Start_fact ast_fact | Start_rule ast_rule | Start_check ast_check | Start_policy ast_policy

datatype item_end = End_add | End_value

record macro_item =
  it_parameters :: "string list"
  it_start :: item_start
  it_middle :: "(string \<times> bool) list"
  it_end :: item_end

definition names_of :: "(string \<times> 'v) list option \<Rightarrow> string list" where
  "names_of ps = (case ps of None \<Rightarrow> [] | Some m \<Rightarrow> map fst m)"

definition item_fact :: "ast_fact \<Rightarrow> macro_item" where
  "item_fact f = \<lparr>it_parameters = names_of (af_parameters f), it_start = Start_fact f, it_middle = [], it_end = End_add\<rparr>"

definition rule_params :: "ast_rule \<Rightarrow> string list" where
  "rule_params r = names_of (ar_parameters r) @ names_of (ar_scope_parameters r)"

definition item_rule :: "ast_rule \<Rightarrow> macro_item" where
  "item_rule r = \<lparr>it_parameters = rule_params r, it_start = Start_rule r, it_middle = [], it_end = End_add\<rparr>"

definition item_check :: "ast_check \<Rightarrow> macro_item" where
  "item_check c =
     \<lparr>it_parameters = concat (map rule_params (ac_queries c)), it_start = Start_check c, it_middle = [], it_end = End_add\<rparr>"

definition item_policy :: "ast_policy \<Rightarrow> macro_item" where
  "item_policy c =
     \<lparr>it_parameters = concat (map rule_params (ay_queries c)), it_start = Start_policy c, it_middle = [], it_end = End_add\<rparr>"

definition needs_param :: "string \<Rightarrow> macro_item \<Rightarrow> bool" where
  "needs_param name i \<longleftrightarrow> name \<in> set (it_parameters i)"

text \<open>\<open>__biscuit_auth_item.set_macro_param(name, ident).unwrap()\<close>, with the variable or its clone.\<close>

definition add_param :: "string \<Rightarrow> bool \<Rightarrow> macro_item \<Rightarrow> macro_item" where
  "add_param name clone i = i\<lparr>it_middle := it_middle i @ [(name, clone)]\<rparr>"

section \<open>The code of a macro\<close>

text \<open>The loop over the statements that need a parameter: all but the last clone its variable.\<close>

fun distribute :: "string \<Rightarrow> macro_item list \<Rightarrow> macro_item list" where
  "distribute name [] = []"
| "distribute name (i # is) =
     (if needs_param name i then add_param name (\<exists>j \<in> set is. needs_param name j) i else i) # distribute name is"

record 'x generated_code =
  gc_type :: string
  gc_target :: "'x option"
  gc_bindings :: "(string \<times> 'x) list"
  gc_items :: "macro_item list"

definition mb_items :: "'x macro_builder \<Rightarrow> macro_item list" where
  "mb_items b = map item_fact (mb_facts b) @ map item_rule (mb_rules b) @ map item_check (mb_checks b) @
     map item_policy (mb_policies b)"

definition mb_to_tokens :: "'x macro_builder \<Rightarrow> 'x generated_code" where
  "mb_to_tokens b =
     \<lparr>gc_type = mb_type b, gc_target = mb_target b, gc_bindings = mb_parameters b,
      gc_items = fold distribute (mb_datalog_parameters b) (mb_items b)\<rparr>"

text \<open>An error of the builder is an error of the compilation.\<close>

type_synonym 'x expansion = "(language_error, 'x generated_code) outcome option"

definition expand :: "(language_error, 'x macro_builder) outcome option \<Rightarrow> 'x expansion" where
  "expand m = map_option (\<lambda>res. obind res (\<lambda>b. Ok (mb_to_tokens b))) m"

definition block_macro where
  "block_macro scopes element source pairs =
     expand (mb_block_source scopes element ''BlockBuilder'' None source (parsed_parameters pairs))"

definition block_merge_macro where
  "block_merge_macro scopes element target source pairs =
     expand (mb_block_source scopes element ''BlockBuilder'' (Some target) source (parsed_parameters pairs))"

definition authorizer_macro where
  "authorizer_macro element source pairs =
     expand (mb_source element ''AuthorizerBuilder'' None source (parsed_parameters pairs))"

definition authorizer_merge_macro where
  "authorizer_merge_macro element target source pairs =
     expand (mb_source element ''AuthorizerBuilder'' (Some target) source (parsed_parameters pairs))"

definition biscuit_macro where
  "biscuit_macro scopes element source pairs =
     expand (mb_block_source scopes element ''BiscuitBuilder'' None source (parsed_parameters pairs))"

definition biscuit_merge_macro where
  "biscuit_merge_macro scopes element target source pairs =
     expand (mb_block_source scopes element ''BiscuitBuilder'' (Some target) source (parsed_parameters pairs))"

section \<open>Macros for one statement\<close>

text \<open>The statement is the value of the code, and every parameter is moved into it.\<close>

definition single_item :: "'x macro_builder \<Rightarrow> macro_item \<Rightarrow> (string \<times> 'x) list \<times> macro_item" where
  "single_item b i =
     (mb_parameters b,
      fold (\<lambda>name i. if needs_param name i then add_param name False i else i) (mb_datalog_parameters b)
        (i\<lparr>it_end := End_value\<rparr>))"

text \<open>\<open>None\<close> is the abort of a source with anything but one statement of the kind.\<close>

definition rule_macro_item :: "'x macro_builder \<Rightarrow> ((string \<times> 'x) list \<times> macro_item) option" where
  "rule_macro_item b =
     (case mb_rules b of
        [r] \<Rightarrow> if mb_facts b = [] \<and> mb_checks b = [] then Some (single_item b (item_rule r)) else None
      | _ \<Rightarrow> None)"

definition fact_macro_item :: "'x macro_builder \<Rightarrow> ((string \<times> 'x) list \<times> macro_item) option" where
  "fact_macro_item b =
     (case mb_facts b of
        [f] \<Rightarrow> if mb_rules b = [] \<and> mb_checks b = [] then Some (single_item b (item_fact f)) else None
      | _ \<Rightarrow> None)"

definition check_macro_item :: "'x macro_builder \<Rightarrow> ((string \<times> 'x) list \<times> macro_item) option" where
  "check_macro_item b =
     (case mb_checks b of
        [c] \<Rightarrow> if mb_facts b = [] \<and> mb_rules b = [] then Some (single_item b (item_check c)) else None
      | _ \<Rightarrow> None)"

definition policy_macro_item :: "'x macro_builder \<Rightarrow> ((string \<times> 'x) list \<times> macro_item) option" where
  "policy_macro_item b =
     (case mb_policies b of
        [c] \<Rightarrow>
          if mb_facts b = [] \<and> mb_rules b = [] \<and> mb_checks b = [] then Some (single_item b (item_policy c)) else None
      | _ \<Rightarrow> None)"

definition single_macro where
  "single_macro f m = map_option (\<lambda>res. obind res (\<lambda>b. Ok (f b))) m"

definition rule_macro where
  "rule_macro scopes element source pairs =
     single_macro rule_macro_item (mb_block_source scopes element ''BlockBuilder'' None source (parsed_parameters pairs))"

definition fact_macro where
  "fact_macro scopes element source pairs =
     single_macro fact_macro_item (mb_block_source scopes element ''BlockBuilder'' None source (parsed_parameters pairs))"

definition check_macro where
  "check_macro scopes element source pairs =
     single_macro check_macro_item (mb_block_source scopes element ''BlockBuilder'' None source (parsed_parameters pairs))"

definition policy_macro where
  "policy_macro element source pairs =
     single_macro policy_macro_item (mb_source element ''Authorizer'' None source (parsed_parameters pairs))"

end
