(* ===== verification/Macro_Code.thy ===== *)
theory Macro_Code
  imports Macros
begin

text \<open>
  What the code generated by a macro does when it is compiled and run: every variable is moved once,
  by the last statement that needs it, and the statements that are built and added are those that
  \<open>code_with_params\<close> reads from the same source with the same parameters.
\<close>

section \<open>Clones and moves\<close>

text \<open>Uses of variables in order; a variable that was moved is not used again.\<close>

fun well_moved :: "string set \<Rightarrow> (string \<times> bool) list \<Rightarrow> bool" where
  "well_moved available [] \<longleftrightarrow> True"
| "well_moved available ((n, clone) # us) \<longleftrightarrow>
     n \<in> available \<and> well_moved (if clone then available else available - {n}) us"

lemma well_moved_mono: "well_moved a us \<Longrightarrow> a \<subseteq> b \<Longrightarrow> well_moved b us"
proof (induction us arbitrary: a b)
  case (Cons u us)
  obtain n clone where u: "u = (n, clone)" by (cases u)
  show ?case
  proof (cases clone)
    case True
    with Cons u show ?thesis by auto
  next
    case False
    with Cons.prems u have "well_moved (a - {n}) us" "a - {n} \<subseteq> b - {n}" "n \<in> b" by auto
    with Cons.IH [of "a - {n}" "b - {n}"] u False show ?thesis by simp
  qed
qed simp

lemma well_moved_uses:
  assumes "distinct ns" "set ns \<subseteq> a" "well_moved (a - {n \<in> set ns. \<not> later n}) us"
  shows "well_moved a (map (\<lambda>n. (n, later n)) ns @ us)"
  using assms
proof (induction ns arbitrary: a)
  case (Cons n ns)
  let ?a = "if later n then a else a - {n}"
  have "set ns \<subseteq> ?a" using Cons.prems by auto
  moreover have "?a - {m \<in> set ns. \<not> later m} = a - {m \<in> set (n # ns). \<not> later m}" using Cons.prems by auto
  then have "well_moved (?a - {m \<in> set ns. \<not> later m}) us" using Cons.prems(3) by (simp only:)
  ultimately have "well_moved ?a (map (\<lambda>n. (n, later n)) ns @ us)" using Cons.IH Cons.prems(1) by simp
  with Cons.prems(2) show ?case by simp
qed simp

text \<open>The items after the loop over the parameters.\<close>

fun completed :: "string list \<Rightarrow> macro_item list \<Rightarrow> macro_item list" where
  "completed ns [] = []"
| "completed ns (i # is) =
     i\<lparr>it_middle := it_middle i @
        map (\<lambda>n. (n, \<exists>j \<in> set is. needs_param n j)) (filter (\<lambda>n. needs_param n i) ns)\<rparr> # completed ns is"

lemma needs_add [simp]: "needs_param n (add_param m c i) = needs_param n i"
  by (simp add: needs_param_def add_param_def)

lemma needs_middle [simp]: "needs_param n (it_middle_update f i) = needs_param n i"
  by (simp add: needs_param_def)

lemma needs_distribute: "(\<exists>j \<in> set (distribute m is). needs_param n j) = (\<exists>j \<in> set is. needs_param n j)"
  by (induction "is") (auto split: if_splits)

lemma completed_Nil: "completed [] is = is"
  by (induction "is") simp_all

lemma completed_distribute: "completed ns (distribute n is) = completed (n # ns) is"
proof (induction "is")
  case (Cons i "is")
  have "it_middle (add_param n c i) = it_middle i @ [(n, c)]" for c by (simp add: add_param_def)
  with Cons show ?case
    by (simp add: needs_distribute add_param_def)
qed simp

lemma fold_distribute: "fold distribute ns is = completed ns is"
  by (induction ns arbitrary: "is") (simp_all add: completed_Nil completed_distribute)

definition uses :: "macro_item list \<Rightarrow> (string \<times> bool) list" where
  "uses is = concat (map it_middle is)"

lemma completed_well_moved:
  assumes "distinct ns" "\<forall>i \<in> set is. it_middle i = []"
    and "{n \<in> set ns. \<exists>i \<in> set is. needs_param n i} \<subseteq> a"
  shows "well_moved a (uses (completed ns is))"
  using assms(2,3)
proof (induction "is" arbitrary: a)
  case (Cons i "is")
  let ?later = "\<lambda>n. \<exists>j \<in> set is. needs_param n j"
  let ?ms = "filter (\<lambda>n. needs_param n i) ns"
  have "{n \<in> set ns. \<exists>j \<in> set is. needs_param n j} \<subseteq> a - {n \<in> set ?ms. \<not> ?later n}" using Cons.prems by auto
  with Cons have "well_moved (a - {n \<in> set ?ms. \<not> ?later n}) (uses (completed ns is))" by simp
  moreover have "set ?ms \<subseteq> a" using Cons.prems by auto
  ultimately have "well_moved a (map (\<lambda>n. (n, ?later n)) ?ms @ uses (completed ns is))"
    using assms(1) by (intro well_moved_uses) simp_all
  with Cons.prems(1) show ?case by (simp add: uses_def)
qed (simp add: uses_def)

text \<open>The parameters of a builder are those that its statements need, each once.\<close>

lemma extend_names_distinct: "distinct s \<Longrightarrow> distinct (extend_names s ns)"
  unfolding extend_names_def by (induction ns arbitrary: s) auto

lemma extend_names_set [simp]: "set (extend_names s ns) = set s \<union> set ns"
  unfolding extend_names_def by (induction ns arbitrary: s) auto

definition builder_wf :: "'x macro_builder \<Rightarrow> bool" where
  "builder_wf b \<longleftrightarrow>
     distinct (mb_datalog_parameters b) \<and>
     set (mb_datalog_parameters b) = (\<Union>i \<in> set (mb_items b). set (it_parameters i))"

lemma use_parts [simp]:
  "mb_facts (mb_use ps b) = mb_facts b" "mb_rules (mb_use ps b) = mb_rules b" "mb_checks (mb_use ps b) = mb_checks b"
  "mb_policies (mb_use ps b) = mb_policies b" "mb_macro_parameters (mb_use ps b) = mb_macro_parameters b"
  "mb_parameters (mb_use ps b) = mb_parameters b"
  by (simp_all add: mb_use_def split: option.splits)

lemma use_names: "set (mb_datalog_parameters (mb_use ps b)) = set (mb_datalog_parameters b) \<union> set (names_of ps)"
  by (auto simp: mb_use_def names_of_def split: option.splits)

lemma use_distinct: "distinct (mb_datalog_parameters b) \<Longrightarrow> distinct (mb_datalog_parameters (mb_use ps b))"
  by (auto simp: mb_use_def extend_names_distinct split: option.splits)

lemma rule_parameters_parts [simp]:
  "mb_facts (mb_rule_parameters r b) = mb_facts b" "mb_rules (mb_rule_parameters r b) = mb_rules b"
  "mb_checks (mb_rule_parameters r b) = mb_checks b" "mb_policies (mb_rule_parameters r b) = mb_policies b"
  "mb_macro_parameters (mb_rule_parameters r b) = mb_macro_parameters b"
  "mb_parameters (mb_rule_parameters r b) = mb_parameters b"
  by (simp_all add: mb_rule_parameters_def)

lemma rule_parameters_names:
  "set (mb_datalog_parameters (mb_rule_parameters r b)) = set (mb_datalog_parameters b) \<union> set (rule_params r)"
  by (auto simp: mb_rule_parameters_def use_names rule_params_def)

lemma rule_parameters_distinct:
  "distinct (mb_datalog_parameters b) \<Longrightarrow> distinct (mb_datalog_parameters (mb_rule_parameters r b))"
  by (simp add: mb_rule_parameters_def use_distinct)

lemma queries_parameters:
  "mb_facts (fold mb_rule_parameters qs b) = mb_facts b" "mb_rules (fold mb_rule_parameters qs b) = mb_rules b"
  "mb_checks (fold mb_rule_parameters qs b) = mb_checks b" "mb_policies (fold mb_rule_parameters qs b) = mb_policies b"
  "mb_macro_parameters (fold mb_rule_parameters qs b) = mb_macro_parameters b"
  "mb_parameters (fold mb_rule_parameters qs b) = mb_parameters b"
  "set (mb_datalog_parameters (fold mb_rule_parameters qs b)) =
     set (mb_datalog_parameters b) \<union> set (concat (map rule_params qs))"
  "distinct (mb_datalog_parameters b) \<Longrightarrow> distinct (mb_datalog_parameters (fold mb_rule_parameters qs b))"
  by (induction qs arbitrary: b) (auto simp: rule_parameters_names rule_parameters_distinct)

lemma add_facts_wf: "builder_wf b \<Longrightarrow> builder_wf (mb_add_facts fs b)"
  unfolding mb_add_facts_def
proof (induction fs arbitrary: b)
  case (Cons f fs)
  then have "builder_wf (let b = mb_use (af_parameters f) b in b\<lparr>mb_facts := mb_facts b @ [f]\<rparr>)"
    by (auto simp: builder_wf_def Let_def mb_items_def use_names use_distinct item_fact_def)
  with Cons.IH show ?case by simp
qed simp

lemma add_rules_wf: "builder_wf b \<Longrightarrow> builder_wf (mb_add_rules rs b)"
  unfolding mb_add_rules_def
proof (induction rs arbitrary: b)
  case (Cons r rs)
  then have "builder_wf (let b = mb_rule_parameters r b in b\<lparr>mb_rules := mb_rules b @ [r]\<rparr>)"
    by (auto simp: builder_wf_def Let_def mb_items_def rule_parameters_names rule_parameters_distinct item_rule_def)
  with Cons.IH show ?case by simp
qed simp

lemma add_checks_wf: "builder_wf b \<Longrightarrow> builder_wf (mb_add_checks cs b)"
  unfolding mb_add_checks_def
proof (induction cs arbitrary: b)
  case (Cons c cs)
  then have "builder_wf (let b = fold mb_rule_parameters (ac_queries c) b in b\<lparr>mb_checks := mb_checks b @ [c]\<rparr>)"
    by (auto simp: builder_wf_def Let_def mb_items_def queries_parameters item_check_def)
  with Cons.IH show ?case by simp
qed simp

lemma add_policies_wf: "builder_wf b \<Longrightarrow> builder_wf (mb_add_policies cs b)"
  unfolding mb_add_policies_def
proof (induction cs arbitrary: b)
  case (Cons c cs)
  then have "builder_wf (let b = fold mb_rule_parameters (ay_queries c) b in b\<lparr>mb_policies := mb_policies b @ [c]\<rparr>)"
    by (auto simp: builder_wf_def Let_def mb_items_def queries_parameters item_policy_def)
  with Cons.IH show ?case by simp
qed simp

lemma new_wf: "builder_wf (mb_new ty target parameters)"
  by (simp add: builder_wf_def mb_new_def mb_items_def)

lemma block_source_wf: "builder_wf b \<Longrightarrow> builder_wf (mb_add_block_source src b)"
  by (simp add: mb_add_block_source_def add_facts_wf add_rules_wf add_checks_wf)

end
