(* ===== verification/Macro_Meaning.thy ===== *)
theory Macro_Meaning
  imports Macro_Code
begin

text \<open>
  Running the code that a macro generates, and its agreement with \<open>code_with_params\<close>.  Both set the
  same parameters of the same statements: filling in the tables of parameters is the operation that
  the two ways have in common.
\<close>

section \<open>Running the code\<close>

datatype statement = Made_fact bfact | Made_rule brule | Made_check bcheck | Made_policy policy

text \<open>\<open>None\<close> is a panic.\<close>

fun start_value :: "primitives \<Rightarrow> item_start \<Rightarrow> statement option" where
  "start_value p (Start_fact f) = Some (Made_fact (quoted_fact f))"
| "start_value p (Start_rule r) = map_option Made_rule (quoted_rule p r)"
| "start_value p (Start_check c) = map_option Made_check (quoted_check p c)"
| "start_value p (Start_policy c) = map_option Made_policy (quoted_policy p c)"

fun set_param :: "string \<Rightarrow> any_param \<Rightarrow> statement \<Rightarrow> statement option" where
  "set_param n v (Made_fact f) = map_option Made_fact (unwrap_outcome (fact_set_macro_param n v f))"
| "set_param n v (Made_rule r) = map_option Made_rule (unwrap_outcome (rule_set_macro_param n v r))"
| "set_param n v (Made_check c) =
     (case check_set_macro_param n v c of (c', Ok u) \<Rightarrow> Some (Made_check c') | _ \<Rightarrow> None)"
| "set_param n v (Made_policy c) =
     (case policy_set_macro_param n v c of (c', Ok u) \<Rightarrow> Some (Made_policy c') | _ \<Rightarrow> None)"

fun set_params :: "(string \<Rightarrow> any_param) \<Rightarrow> (string \<times> bool) list \<Rightarrow> statement \<Rightarrow> statement option" where
  "set_params env [] s = Some s"
| "set_params env ((n, clone) # us) s =
     (case set_param n (env n) s of None \<Rightarrow> None | Some s' \<Rightarrow> set_params env us s')"

text \<open>A policy is not added to the builder of a block: that code does not compile.\<close>

fun add_statement :: "statement \<Rightarrow> block_builder \<Rightarrow> block_builder option" where
  "add_statement (Made_fact f) bb = unwrap_outcome (bb_fact f bb)"
| "add_statement (Made_rule r) bb = unwrap_outcome (bb_rule r bb)"
| "add_statement (Made_check c) bb = unwrap_outcome (bb_check c bb)"
| "add_statement (Made_policy c) bb = None"

definition run_item :: "primitives \<Rightarrow> (string \<Rightarrow> any_param) \<Rightarrow> macro_item \<Rightarrow> block_builder \<Rightarrow> block_builder option" where
  "run_item p env i bb =
     (case start_value p (it_start i) of
        None \<Rightarrow> None
      | Some s \<Rightarrow> (case set_params env (it_middle i) s of None \<Rightarrow> None | Some s' \<Rightarrow> add_statement s' bb))"

fun run_items :: "primitives \<Rightarrow> (string \<Rightarrow> any_param) \<Rightarrow> macro_item list \<Rightarrow> block_builder \<Rightarrow> block_builder option" where
  "run_items p env [] bb = Some bb"
| "run_items p env (i # is) bb = (case run_item p env i bb of None \<Rightarrow> None | Some bb' \<Rightarrow> run_items p env is bb')"

section \<open>Filling in parameters\<close>

definition fill :: "(string \<rightharpoonup> 'v) \<Rightarrow> (string \<times> 'v option) list \<Rightarrow> (string \<times> 'v option) list" where
  "fill g ps = map (\<lambda>(k, v). (k, case g k of Some t \<Rightarrow> Some t | None \<Rightarrow> v)) ps"

lemma fill_names [simp]: "map fst (fill g ps) = map fst ps"
  by (induction ps) (auto simp: fill_def)

lemma fill_empty [simp]: "fill Map.empty ps = ps"
  by (induction ps) (auto simp: fill_def)

lemma fill_fill: "fill g (fill h ps) = fill (h ++ g) ps"
  by (induction ps) (auto simp: fill_def map_add_def split: option.splits)

lemma fill_absent: "n \<notin> fst ` set ps \<Longrightarrow> fill [n \<mapsto> v] ps = ps"
  by (induction ps) (auto simp: fill_def)

lemma fill_cong: "(\<And>k. k \<in> fst ` set ps \<Longrightarrow> g k = h k) \<Longrightarrow> fill g ps = fill h ps"
  unfolding fill_def by (rule map_cong) (force split: option.splits)+

lemma fill_update: "distinct (map fst ps) \<Longrightarrow> n \<in> fst ` set ps \<Longrightarrow> AList.update n (Some v) ps = fill [n \<mapsto> v] ps"
proof (induction ps)
  case (Cons x ps)
  obtain k w where x: "x = (k, w)" by (cases x)
  show ?case
  proof (cases "k = n")
    case True
    with Cons.prems x have "n \<notin> fst ` set ps" by auto
    with True x fill_absent [of n ps v] show ?thesis by (simp add: fill_def)
  next
    case False
    with Cons x show ?thesis by (auto simp: fill_def)
  qed
qed simp

text \<open>A table of parameters, present and without repetition.\<close>

definition table_ok :: "(string \<times> 'v option) list option \<Rightarrow> bool" where
  "table_ok ps \<longleftrightarrow> (\<exists>m. ps = Some m \<and> distinct (map fst m))"

lemma table_ok_fill [simp]: "table_ok ps \<Longrightarrow> table_ok (map_option (fill g) ps)"
  by (auto simp: table_ok_def)

lemma set_parameter_fill:
  assumes "table_ok ps"
  shows "set_parameter n v ps =
    (if n \<in> set (names_of ps) then Ok (map_option (fill [n \<mapsto> v]) ps) else Err (unused_parameter n))"
    "set_parameter_lenient n v ps = Ok (map_option (fill [n \<mapsto> v]) ps)"
    "n \<notin> set (names_of ps) \<Longrightarrow> map_option (fill [n \<mapsto> v]) ps = ps"
proof -
  from assms obtain m where m: "ps = Some m" "distinct (map fst m)" by (auto simp: table_ok_def)
  have "map_of m n = None \<longleftrightarrow> n \<notin> fst ` set m" by (rule map_of_eq_None_iff)
  with m fill_update [of m n v] fill_absent [of n m v]
  show "set_parameter n v ps =
      (if n \<in> set (names_of ps) then Ok (map_option (fill [n \<mapsto> v]) ps) else Err (unused_parameter n))"
    "set_parameter_lenient n v ps = Ok (map_option (fill [n \<mapsto> v]) ps)"
    "n \<notin> set (names_of ps) \<Longrightarrow> map_option (fill [n \<mapsto> v]) ps = ps"
    by (auto simp: set_parameter_def set_parameter_lenient_def names_of_def split: option.splits)
qed

definition fill_fact :: "(string \<rightharpoonup> bterm) \<Rightarrow> bfact \<Rightarrow> bfact" where
  "fill_fact g f = f\<lparr>bf_parameters := map_option (fill g) (bf_parameters f)\<rparr>"

definition fill_rule :: "(string \<rightharpoonup> bterm) \<Rightarrow> (string \<rightharpoonup> public_key) \<Rightarrow> brule \<Rightarrow> brule" where
  "fill_rule g h r =
     r\<lparr>br_parameters := map_option (fill g) (br_parameters r),
       br_scope_parameters := map_option (fill h) (br_scope_parameters r)\<rparr>"

definition fill_check :: "(string \<rightharpoonup> bterm) \<Rightarrow> (string \<rightharpoonup> public_key) \<Rightarrow> bcheck \<Rightarrow> bcheck" where
  "fill_check g h c = c\<lparr>bc_queries := map (fill_rule g h) (bc_queries c)\<rparr>"

definition rule_ok :: "brule \<Rightarrow> bool" where
  "rule_ok r \<longleftrightarrow> table_ok (br_parameters r) \<and> table_ok (br_scope_parameters r)"

lemma map_option_fill: "map_option (fill g) (map_option (fill h) ps) = map_option (fill (h ++ g)) ps"
  by (cases ps) (simp_all add: fill_fill)

lemma map_option_fill_empty [simp]: "map_option (fill Map.empty) ps = ps"
  by (cases ps) simp_all

lemma fill_twice:
  "fill_fact g (fill_fact g' f) = fill_fact (g' ++ g) f"
  "fill_rule g h (fill_rule g' h' r) = fill_rule (g' ++ g) (h' ++ h) r"
  "fill_check g h (fill_check g' h' c) = fill_check (g' ++ g) (h' ++ h) c"
  by (simp_all add: fill_fact_def fill_rule_def fill_check_def map_option_fill)

lemma fill_nothing [simp]:
  "fill_fact Map.empty f = f" "fill_rule Map.empty Map.empty r = r" "fill_check Map.empty Map.empty c = c"
  by (simp_all add: fill_fact_def fill_rule_def fill_check_def map_idI)

lemma fill_ok [simp]:
  "table_ok (bf_parameters f) \<Longrightarrow> table_ok (bf_parameters (fill_fact g f))" "rule_ok r \<Longrightarrow> rule_ok (fill_rule g h r)"
  "\<forall>q \<in> set (bc_queries c). rule_ok q \<Longrightarrow> \<forall>q \<in> set (bc_queries (fill_check g h c)). rule_ok q"
  by (simp_all add: fill_fact_def fill_rule_def fill_check_def rule_ok_def)

section \<open>Setting is filling\<close>

named_theorems setting

lemma fact_setting [setting]:
  assumes "table_ok (bf_parameters f)"
  shows "ignore_unused (fact_set n t f) f = Ok (fill_fact [n \<mapsto> t] f)"
    "fact_set_lenient n t f = Ok (fill_fact [n \<mapsto> t] f)"
  using set_parameter_fill [OF assms, of n t]
  by (simp_all add: fact_set_def fact_set_lenient_def fill_fact_def ignore_unused_def unused_parameter_def)

lemma rule_setting [setting]:
  assumes "rule_ok r"
  shows "ignore_unused (rule_set n t r) r = Ok (fill_rule [n \<mapsto> t] Map.empty r)"
    "rule_set_lenient n t r = Ok (fill_rule [n \<mapsto> t] Map.empty r)"
    "ignore_unused (rule_set_scope n k r) r = Ok (fill_rule Map.empty [n \<mapsto> k] r)"
    "rule_set_scope_lenient n k r = Ok (fill_rule Map.empty [n \<mapsto> k] r)"
  using assms set_parameter_fill [of "br_parameters r" n t] set_parameter_fill [of "br_scope_parameters r" n k]
  by (simp_all add: rule_ok_def rule_set_def rule_set_lenient_def rule_set_scope_def rule_set_scope_lenient_def
      fill_rule_def ignore_unused_def unused_parameter_def)

text \<open>A query that does not know the parameter is left as it is.\<close>

lemma set_queries_fill:
  assumes "\<And>q. q \<in> set qs \<Longrightarrow> ignore_unused (f q) q = Ok (g q)"
    and "\<And>q. q \<in> set qs \<Longrightarrow> f q = Ok (g q) \<or> f q = Err (unused_parameter n)"
  shows "set_queries f n qs = Ok (map g qs) \<or> (set_queries f n qs = Err (unused_parameter n) \<and> map g qs = qs)"
proof -
  have g: "g q = q" if "q \<in> set qs" "f q = Err (unused_parameter n)" for q
    using assms(1) [OF that(1)] that(2) by (simp add: ignore_unused_def unused_parameter_def)
  show ?thesis
  proof (cases "\<exists>q \<in> set qs. is_ok (f q)")
    case True
    have "(case f q of Ok q' \<Rightarrow> q' | _ \<Rightarrow> q) = g q" if "q \<in> set qs" for q
      using assms(2) [OF that] g [OF that] by auto
    with True show ?thesis by (simp add: set_queries_def)
  next
    case False
    then have "f q = Err (unused_parameter n)" if "q \<in> set qs" for q
      using assms(2) [OF that] that by auto
    with g have "map g qs = qs" by (simp add: map_idI)
    with False show ?thesis by (auto simp: set_queries_def)
  qed
qed

lemma rule_set_cases:
  assumes "rule_ok r"
  shows "rule_set n t r = Ok (fill_rule [n \<mapsto> t] Map.empty r) \<or> rule_set n t r = Err (unused_parameter n)"
    "rule_set_scope n k r = Ok (fill_rule Map.empty [n \<mapsto> k] r) \<or> rule_set_scope n k r = Err (unused_parameter n)"
  using assms set_parameter_fill [of "br_parameters r" n t] set_parameter_fill [of "br_scope_parameters r" n k]
  by (simp_all add: rule_ok_def rule_set_def rule_set_scope_def fill_rule_def)

lemma lenient_queries:
  "(\<And>q. q \<in> set qs \<Longrightarrow> f q = Ok (g q)) \<Longrightarrow> set_queries_lenient f qs = (map g qs, Ok ())"
  by (induction qs) simp_all

lemma check_setting [setting]:
  assumes "\<forall>q \<in> set (bc_queries c). rule_ok q"
  shows "ignore_unused (check_set n t c) c = Ok (fill_check [n \<mapsto> t] Map.empty c)"
    "check_set_lenient n t c = (fill_check [n \<mapsto> t] Map.empty c, Ok ())"
    "ignore_unused (check_set_scope n k c) c = Ok (fill_check Map.empty [n \<mapsto> k] c)"
    "check_set_scope_lenient n k c = (fill_check Map.empty [n \<mapsto> k] c, Ok ())"
proof -
  have "set_queries (rule_set n t) n (bc_queries c) = Ok (map (fill_rule [n \<mapsto> t] Map.empty) (bc_queries c)) \<or>
      (set_queries (rule_set n t) n (bc_queries c) = Err (unused_parameter n) \<and>
       map (fill_rule [n \<mapsto> t] Map.empty) (bc_queries c) = bc_queries c)"
    using assms by (intro set_queries_fill) (auto simp: rule_setting dest: rule_set_cases)
  then show "ignore_unused (check_set n t c) c = Ok (fill_check [n \<mapsto> t] Map.empty c)"
    by (auto simp: check_set_def fill_check_def ignore_unused_def unused_parameter_def)
  have "set_queries (rule_set_scope n k) n (bc_queries c) = Ok (map (fill_rule Map.empty [n \<mapsto> k]) (bc_queries c)) \<or>
      (set_queries (rule_set_scope n k) n (bc_queries c) = Err (unused_parameter n) \<and>
       map (fill_rule Map.empty [n \<mapsto> k]) (bc_queries c) = bc_queries c)"
    using assms by (intro set_queries_fill) (auto simp: rule_setting dest: rule_set_cases)
  then show "ignore_unused (check_set_scope n k c) c = Ok (fill_check Map.empty [n \<mapsto> k] c)"
    by (auto simp: check_set_scope_def fill_check_def ignore_unused_def unused_parameter_def)
  show "check_set_lenient n t c = (fill_check [n \<mapsto> t] Map.empty c, Ok ())"
    using assms lenient_queries [of "bc_queries c" "rule_set_lenient n t" "fill_rule [n \<mapsto> t] Map.empty"]
    by (simp add: check_set_lenient_def fill_check_def rule_setting)
  show "check_set_scope_lenient n k c = (fill_check Map.empty [n \<mapsto> k] c, Ok ())"
    using assms lenient_queries [of "bc_queries c" "rule_set_scope_lenient n k" "fill_rule Map.empty [n \<mapsto> k]"]
    by (simp add: check_set_scope_lenient_def fill_check_def rule_setting)
qed

section \<open>A list of parameters\<close>

locale filler =
  fixes ok :: "'a \<Rightarrow> bool"
    and put :: "string \<Rightarrow> 'v \<Rightarrow> 'a \<Rightarrow> (token_error, 'a) outcome"
    and filled :: "(string \<rightharpoonup> 'v) \<Rightarrow> 'a \<Rightarrow> 'a"
  assumes put: "ok x \<Longrightarrow> ignore_unused (put n v x) x = Ok (filled [n \<mapsto> v] x)"
    and keep: "ok x \<Longrightarrow> ok (filled g x)"
    and twice: "filled g (filled h x) = filled (h ++ g) x"
    and unfilled: "filled Map.empty x = x"
begin

lemma set_all_filled:
  "ok x \<Longrightarrow> distinct (map fst ps) \<Longrightarrow> set_all put ps x = Ok (filled (map_of ps) x)"
proof (induction ps arbitrary: x)
  case Nil
  show ?case by (simp add: unfilled)
next
  case (Cons y ps)
  obtain n v where y: "y = (n, v)" by (cases y)
  with Cons.prems have "map_of ps n = None" by (auto simp: map_of_eq_None_iff)
  then have join: "[n \<mapsto> v] ++ map_of ps = map_of (y # ps)" by (auto simp: y map_add_def fun_eq_iff split: option.splits)
  have "set_all put ps (filled [n \<mapsto> v] x) = Ok (filled (map_of ps) (filled [n \<mapsto> v] x))"
    using Cons.prems by (intro Cons.IH keep) simp_all
  also have "\<dots> = Ok (filled (map_of (y # ps)) x)" by (simp only: twice join)
  finally show ?case using put [OF Cons.prems(1), of n v] by (simp only: y set_all.simps obind.simps)
qed

end

interpretation fact_filler: filler "\<lambda>f. table_ok (bf_parameters f)" fact_set fill_fact
  by unfold_locales (simp_all add: setting fill_twice)

interpretation rule_filler: filler rule_ok rule_set "\<lambda>g. fill_rule g Map.empty"
  by unfold_locales (simp_all add: setting fill_twice)

interpretation rule_scope_filler: filler rule_ok rule_set_scope "\<lambda>h. fill_rule Map.empty h"
  by unfold_locales (simp_all add: setting fill_twice)

interpretation check_filler: filler "\<lambda>c. \<forall>q \<in> set (bc_queries c). rule_ok q" check_set "\<lambda>g. fill_check g Map.empty"
proof unfold_locales
  fix x :: bcheck and n v assume "\<forall>q \<in> set (bc_queries x). rule_ok q"
  then show "ignore_unused (check_set n v x) x = Ok (fill_check [n \<mapsto> v] Map.empty x)" by (rule setting)
next
  fix x :: bcheck and g assume "\<forall>q \<in> set (bc_queries x). rule_ok q"
  then show "\<forall>q \<in> set (bc_queries (fill_check g Map.empty x)). rule_ok q" by (rule fill_ok)
qed (simp_all add: fill_twice)

interpretation check_scope_filler: filler "\<lambda>c. \<forall>q \<in> set (bc_queries c). rule_ok q" check_set_scope "\<lambda>h. fill_check Map.empty h"
proof unfold_locales
  fix x :: bcheck and n v assume "\<forall>q \<in> set (bc_queries x). rule_ok q"
  then show "ignore_unused (check_set_scope n v x) x = Ok (fill_check Map.empty [n \<mapsto> v] x)" by (rule setting)
next
  fix x :: bcheck and g assume "\<forall>q \<in> set (bc_queries x). rule_ok q"
  then show "\<forall>q \<in> set (bc_queries (fill_check Map.empty g x)). rule_ok q" by (rule fill_ok)
qed (simp_all add: fill_twice)

text \<open>What the variables of the generated code give.\<close>

definition env_terms :: "(string \<Rightarrow> any_param) \<Rightarrow> string set \<Rightarrow> string \<rightharpoonup> bterm" where
  "env_terms env ns = (\<lambda>n. if n \<in> ns then (case env n of AnyTerm t \<Rightarrow> Some t | AnyKey k \<Rightarrow> None) else None)"

definition env_keys :: "(string \<Rightarrow> any_param) \<Rightarrow> string set \<Rightarrow> string \<rightharpoonup> public_key" where
  "env_keys env ns = (\<lambda>n. if n \<in> ns then (case env n of AnyTerm t \<Rightarrow> None | AnyKey k \<Rightarrow> Some k) else None)"

lemma env_insert:
  "env n = AnyTerm t \<Longrightarrow> [n \<mapsto> t] ++ env_terms env ns = env_terms env (insert n ns)"
  "env n = AnyTerm t \<Longrightarrow> env_keys env (insert n ns) = env_keys env ns"
  "env n = AnyKey k \<Longrightarrow> [n \<mapsto> k] ++ env_keys env ns = env_keys env (insert n ns)"
  "env n = AnyKey k \<Longrightarrow> env_terms env (insert n ns) = env_terms env ns"
  by (auto simp: env_terms_def env_keys_def map_add_def fun_eq_iff split: option.splits)

lemma env_none [simp]: "env_terms env {} = Map.empty" "env_keys env {} = Map.empty"
  by (auto simp: env_terms_def env_keys_def)

lemma set_params_fact:
  "table_ok (bf_parameters f) \<Longrightarrow>
   set_params env us (Made_fact f) = Some (Made_fact (fill_fact (env_terms env (fst ` set us)) f))"
proof (induction us arbitrary: f)
  case (Cons u us)
  obtain n clone where u: "u = (n, clone)" by (cases u)
  show ?case
  proof (cases "env n")
    case (AnyTerm t)
    with Cons u show ?thesis by (simp add: fact_set_macro_param_def setting fill_twice env_insert)
  next
    case (AnyKey k)
    with Cons u show ?thesis by (simp add: fact_set_macro_param_def env_insert)
  qed
qed simp

lemma set_params_rule:
  "rule_ok r \<Longrightarrow> set_params env us (Made_rule r) =
     Some (Made_rule (fill_rule (env_terms env (fst ` set us)) (env_keys env (fst ` set us)) r))"
proof (induction us arbitrary: r)
  case (Cons u us)
  obtain n clone where u: "u = (n, clone)" by (cases u)
  show ?case
  proof (cases "env n")
    case (AnyTerm t)
    with Cons u show ?thesis by (simp add: rule_set_macro_param_def setting fill_twice env_insert)
  next
    case (AnyKey k)
    with Cons u show ?thesis by (simp add: rule_set_macro_param_def setting fill_twice env_insert)
  qed
qed simp

lemma set_params_check:
  "\<forall>q \<in> set (bc_queries c). rule_ok q \<Longrightarrow> set_params env us (Made_check c) =
     Some (Made_check (fill_check (env_terms env (fst ` set us)) (env_keys env (fst ` set us)) c))"
proof (induction us arbitrary: c)
  case (Cons u us)
  obtain n clone where u: "u = (n, clone)" by (cases u)
  note ok = check_filler.keep [OF Cons.prems] check_scope_filler.keep [OF Cons.prems]
  show ?case
  proof (cases "env n")
    case (AnyTerm t)
    with Cons.IH [OF ok(1)] u show ?thesis
      by (simp add: check_set_macro_param_def check_setting [OF Cons.prems] fill_twice env_insert)
  next
    case (AnyKey k)
    with Cons.IH [OF ok(2)] u show ?thesis
      by (simp add: check_set_macro_param_def check_setting [OF Cons.prems] fill_twice env_insert)
  qed
qed simp

end
