(* ===== verification/Macro_Agreement.thy ===== *)
theory Macro_Agreement
  imports Macro_Meaning
begin

text \<open>
  The statements that the generated code builds are those that the parser's statements convert to,
  when no parameter is inside a set, an array or a map; the code of one statement then does what reading
  it does, and the code of all statements follows from the code of each.  The end of the theory has what
  the macros do with the variables.
\<close>

section \<open>Quoted statements\<close>

named_theorems quoting

lemma quoted_key_ast [quoting]: "quoted_key k = key_from_ast k"
  by (cases k) simp_all

lemma quoted_term_ast [quoting]: "quoted_term t = term_from_ast t"
proof (induction t)
  case (AMap m)
  then have "map (\<lambda>(k, t). (quoted_key k, quoted_term t)) m = map (\<lambda>(k, t). (key_from_ast k, term_from_ast t)) m"
    by (auto simp: quoted_key_ast)
  then show ?case by (simp only: quoted_term.simps term_from_ast.simps)
qed (simp_all cong: map_cong)

lemma quoted_unary_ast [quoting]: "quoted_unary u = unary_from_ast u"
  by (cases u) simp_all

lemma quoted_binary_ast [quoting]: "quoted_binary b = binary_from_ast b"
  by (cases b) simp_all

lemma quoted_op_ast [quoting]: "quoted_op o1 = op_from_ast o1"
  by (induction o1) (simp_all add: quoting cong: map_cong)

lemma quoted_parts [quoting]:
  "quoted_predicate q = predicate_from_ast q" "quoted_expression e = expression_from_ast e"
  "quoted_check_kind k = k" "quoted_policy_kind l = l"
  by (simp_all add: quoted_predicate_def predicate_from_ast_def quoted_expression_def expression_from_ast_def quoting
      cong: map_cong)
    (cases k; cases l; simp)+

lemma quoted_scope_ast [quoting]: "quoted_scope p s = scope_from_ast p s"
  by (cases s) (auto simp: key_from_ast_key_def split: outcome.splits)

section \<open>Parameters outside collections\<close>

definition plain_term :: "ast_term \<Rightarrow> bool" where
  "plain_term t \<longleftrightarrow> (\<exists>p. t = AParameter p) \<or> ast_term_parameters t = []"

fun plain_op :: "ast_op \<Rightarrow> bool" where
  "plain_op (AValue t) \<longleftrightarrow> plain_term t"
| "plain_op (AClosure ps ops) \<longleftrightarrow> (\<forall>x \<in> set ops. plain_op x)"
| "plain_op _ \<longleftrightarrow> True"

text \<open>Facts and rules made by the parser's constructors, which collect their parameters.\<close>

definition built_fact :: "ast_fact \<Rightarrow> bool" where
  "built_fact f \<longleftrightarrow> f = ast_fact_new (as_name (af_predicate f)) (as_terms (af_predicate f))"

definition built_rule :: "ast_rule \<Rightarrow> bool" where
  "built_rule r \<longleftrightarrow> r = ast_rule_new (ar_head r) (ar_body r) (ar_expressions r) (ar_scopes r)"

definition plain_fact :: "ast_fact \<Rightarrow> bool" where
  "plain_fact f \<longleftrightarrow>
     built_fact f \<and>
     (\<forall>t \<in> set (as_terms (af_predicate f)). plain_term t)"

definition plain_rule :: "ast_rule \<Rightarrow> bool" where
  "plain_rule r \<longleftrightarrow>
     built_rule r \<and>
     (\<forall>t \<in> set (as_terms (ar_head r)). plain_term t) \<and>
     (\<forall>q \<in> set (ar_body r). \<forall>t \<in> set (as_terms q). plain_term t) \<and>
     (\<forall>e \<in> set (ar_expressions r). \<forall>x \<in> set (ae_ops e). plain_op x)"

definition plain_source :: "ast_source \<Rightarrow> bool" where
  "plain_source src \<longleftrightarrow>
     (\<forall>f \<in> set (map snd (sr_facts src)). plain_fact f) \<and> (\<forall>r \<in> set (map snd (sr_rules src)). plain_rule r) \<and>
     (\<forall>c \<in> set (map snd (sr_checks src)). \<forall>r \<in> set (ac_queries c). plain_rule r)"

lemma key_without_parameters: "ast_key_parameters k = [] \<Longrightarrow> key_parameters (key_from_ast k) = []"
  by (cases k) simp_all

lemma without_parameters: "ast_term_parameters t = [] \<Longrightarrow> term_parameters (term_from_ast t) = []"
proof (induction t)
  case (AMap m)
  let ?m = "map (\<lambda>(k, t). (key_from_ast k, term_from_ast t)) m"
  have "key_parameters k = [] \<and> term_parameters u = []" if "(k, u) \<in> set (bm_of_list ?m)" for k u
  proof -
    from that have "(k, u) \<in> set ?m" using set_bm_of_list_subset [of ?m] by blast
    then obtain k' t where "(k', t) \<in> set m" "k = key_from_ast k'" "u = term_from_ast t" by auto
    with AMap key_without_parameters [of k'] show ?thesis by fastforce
  qed
  then show ?case by auto
qed auto

definition converted :: "ast_params \<Rightarrow> params" where
  "converted = map (\<lambda>(k, v). (k, map_option term_from_ast v))"

lemma converted_update: "converted (AList.update p None ps) = AList.update p None (converted ps)"
  by (induction ps) (auto simp: converted_def)

lemma extract_plain:
  "plain_term t \<Longrightarrow> extract_parameters (term_from_ast t) (converted ps) = converted (ast_extract_parameters t ps)"
  by (auto simp: plain_term_def extract_parameters_def ast_extract_parameters_def converted_update without_parameters)

lemma extract_terms:
  "\<forall>t \<in> set ts. plain_term t \<Longrightarrow>
   fold extract_parameters (map term_from_ast ts) (converted ps) = converted (fold ast_extract_parameters ts ps)"
  by (induction ts arbitrary: ps) (simp_all add: extract_plain)

lemma extract_bodies:
  "\<forall>q \<in> set qs. \<forall>t \<in> set (as_terms q). plain_term t \<Longrightarrow>
   fold (\<lambda>q. fold extract_parameters (bp_terms q)) (map predicate_from_ast qs) (converted ps) =
     converted (fold (\<lambda>q. fold ast_extract_parameters (as_terms q)) qs ps)"
  by (induction qs arbitrary: ps) (simp_all add: extract_terms predicate_from_ast_def)

lemma collect_plain:
  "plain_op x \<Longrightarrow> op_collect_parameters (op_from_ast x) (converted ps) = converted (ast_op_collect x ps)"
proof (induction x arbitrary: ps)
  case (AValue t)
  have none: "(case u of BParameter p \<Rightarrow> AList.update p None qs | _ \<Rightarrow> qs) = extract_parameters u qs"
    if "term_parameters u = []" for u qs
  proof -
    have "extract_parameters u qs = qs" using that by (simp add: extract_parameters_def)
    then show ?thesis using that by (auto split: bterm.splits)
  qed
  have "(case term_from_ast t of BParameter p \<Rightarrow> AList.update p None qs | _ \<Rightarrow> qs) = extract_parameters (term_from_ast t) qs"
    if "plain_term t" for qs
  proof (cases "ast_term_parameters t = []")
    case True
    then show ?thesis by (rule none [OF without_parameters])
  next
    case False
    with that show ?thesis by (auto simp: plain_term_def extract_parameters_def)
  qed
  with AValue extract_plain [of t ps] show ?case by simp
next
  case (AClosure ps' ops)
  then have step: "op_collect_parameters (op_from_ast y) (converted qs) = converted (ast_op_collect y qs)"
    if "y \<in> set ops" for y qs using that by simp
  have "fold op_collect_parameters (map op_from_ast ys) (converted qs) = converted (fold ast_op_collect ys qs)"
    if "set ys \<subseteq> set ops" for ys qs
    using that by (induction ys arbitrary: qs) (simp_all add: step)
  then show ?case by simp
qed simp_all

lemma collect_ops:
  "\<forall>x \<in> set xs. plain_op x \<Longrightarrow>
   fold op_collect_parameters (map op_from_ast xs) (converted ps) = converted (fold ast_op_collect xs ps)"
  by (induction xs arbitrary: ps) (simp_all add: collect_plain)

lemma collect_expressions:
  "\<forall>e \<in> set es. \<forall>x \<in> set (ae_ops e). plain_op x \<Longrightarrow>
   fold (\<lambda>e. fold op_collect_parameters (be_ops e)) (map expression_from_ast es) (converted ps) =
     converted (fold (\<lambda>e. fold ast_op_collect (ae_ops e)) es ps)"
  by (induction es arbitrary: ps) (simp_all add: collect_ops expression_from_ast_def)

lemma converted_Nil: "converted [] = []"
  by (simp add: converted_def)

lemma quoted_fact_ast:
  assumes "plain_fact f"
  shows "quoted_fact f = fact_from_ast f"
proof -
  let ?q = "af_predicate f"
  have f: "af_parameters f = Some (fold ast_extract_parameters (as_terms ?q) [])"
    using assms by (metis plain_fact_def built_fact_def ast_fact_new_def ast_fact.select_convs(2))
  have "fold extract_parameters (map term_from_ast (as_terms ?q)) [] =
      converted (fold ast_extract_parameters (as_terms ?q) [])"
    using extract_terms [of "as_terms ?q" "[]"] assms by (simp add: plain_fact_def converted_Nil)
  then show ?thesis
    by (simp add: quoted_fact_def fact_new_def fact_from_ast_def predicate_from_ast_def quoting f params_from_ast_def
        converted_def cong: map_cong)
qed

text \<open>The parameters of the scopes, none of which has a value.\<close>

definition blank :: "ast_scope_params \<Rightarrow> scope_params" where
  "blank = map (\<lambda>(k, v). (k, None))"

definition unset :: "ast_scope_params \<Rightarrow> bool" where
  "unset qs \<longleftrightarrow> (\<forall>(k, v) \<in> set qs. v = None)"

lemma unset_update: "unset qs \<Longrightarrow> unset (AList.update n None qs)"
  by (induction qs) (auto simp: unset_def)

lemma unset_scopes: "unset qs \<Longrightarrow> unset (fold ast_scope_collect ss qs)"
proof (induction ss arbitrary: qs)
  case (Cons s ss)
  have "unset (ast_scope_collect s qs)" using Cons.prems by (cases s) (simp_all add: unset_update)
  with Cons.IH show ?case by simp
qed simp

lemma unset_from_ast: "unset qs \<Longrightarrow> scope_params_from_ast p (Some qs) = Some (Some (blank qs))"
proof -
  assume "unset qs"
  then have "those (map (scope_param_from_ast p) qs) = Some (blank qs)"
    by (induction qs) (auto simp: unset_def blank_def)
  then show ?thesis by (simp add: scope_params_from_ast_def)
qed

lemma blank_update: "blank (AList.update n None qs) = AList.update n None (blank qs)"
  by (induction qs) (auto simp: blank_def)

lemma blank_scopes:
  "those (map (scope_from_ast p) ss) = Some us \<Longrightarrow> fold scope_collect us (blank qs) = blank (fold ast_scope_collect ss qs)"
proof (induction ss arbitrary: us qs)
  case (Cons s ss)
  then obtain u vs where u: "scope_from_ast p s = Some u" "those (map (scope_from_ast p) ss) = Some vs" "us = u # vs"
    by (auto split: option.splits)
  have "scope_collect u (blank qs) = blank (ast_scope_collect s qs)"
    using u(1) by (cases s) (auto simp: blank_update)
  with Cons.IH [OF u(2)] u(3) show ?case by simp
qed simp

lemma quoted_rule_ast:
  assumes "plain_rule r"
  shows "quoted_rule p r = rule_from_ast p r"
proof (cases "those (map (scope_from_ast p) (ar_scopes r))")
  case None
  then show ?thesis by (simp add: quoted_rule_def rule_from_ast_def quoting cong: map_cong)
next
  case (Some us)
  let ?ps = "fold (\<lambda>e. fold ast_op_collect (ae_ops e)) (ar_expressions r)
      (fold (\<lambda>p. fold ast_extract_parameters (as_terms p)) (ar_body r)
        (fold ast_extract_parameters (as_terms (ar_head r)) []))"
  let ?qs = "fold ast_scope_collect (ar_scopes r) []"
  have r: "ar_parameters r = Some ?ps" "ar_scope_parameters r = Some ?qs"
    using assms by (metis plain_rule_def built_rule_def ast_rule_new_def ast_rule.select_convs(4,6))+
  have "fold (\<lambda>e. fold op_collect_parameters (be_ops e)) (map expression_from_ast (ar_expressions r))
      (fold (\<lambda>q. fold extract_parameters (bp_terms q)) (map predicate_from_ast (ar_body r))
        (fold extract_parameters (bp_terms (predicate_from_ast (ar_head r))) (converted []))) = converted ?ps"
    using assms by (simp add: plain_rule_def extract_terms extract_bodies collect_expressions predicate_from_ast_def)
  moreover have "fold scope_collect us [] = blank ?qs"
    using blank_scopes [OF Some, of "[]"] by (simp add: blank_def)
  moreover have "scope_params_from_ast p (Some ?qs) = Some (Some (blank ?qs))"
    by (intro unset_from_ast unset_scopes) (simp add: unset_def)
  ultimately show ?thesis
    using Some
    by (simp add: quoted_rule_def rule_from_ast_def quoting rule_new_def r params_from_ast_def converted_Nil
        converted_def [symmetric] cong: map_cong)
qed

lemma quoted_queries_ast:
  "\<forall>r \<in> set rs. plain_rule r \<Longrightarrow> map (quoted_rule p) rs = map (rule_from_ast p) rs"
  by (simp add: quoted_rule_ast)

lemma quoted_check_ast:
  "\<forall>r \<in> set (ac_queries c). plain_rule r \<Longrightarrow> quoted_check p c = check_from_ast p c"
  by (simp add: quoted_check_def check_from_ast_def quoted_queries_ast quoting)

section \<open>Tables of parsed statements\<close>

lemma distinct_extract: "distinct (map fst ps) \<Longrightarrow> distinct (map fst (ast_extract_parameters t ps))"
proof -
  have "distinct (map fst ps) \<Longrightarrow> distinct (map fst (fold (\<lambda>p m. AList.update p None m) ns ps))" for ns and ps :: ast_params
    by (induction ns arbitrary: ps) (simp_all add: distinct_update)
  then show "distinct (map fst ps) \<Longrightarrow> distinct (map fst (ast_extract_parameters t ps))"
    by (simp add: ast_extract_parameters_def)
qed

lemma distinct_collect: "distinct (map fst ps) \<Longrightarrow> distinct (map fst (ast_op_collect x ps))"
proof (induction x arbitrary: ps)
  case (AClosure ps' ops)
  have "distinct (map fst qs) \<Longrightarrow> distinct (map fst (fold ast_op_collect ys qs))" if "set ys \<subseteq> set ops" for ys qs
    using that by (induction ys arbitrary: qs) (simp_all add: AClosure.IH)
  with AClosure.prems show ?case by simp
qed (simp_all add: distinct_extract)

lemma distinct_fold:
  "(\<And>x ps. distinct (map fst ps) \<Longrightarrow> distinct (map fst (f x ps))) \<Longrightarrow> distinct (map fst ps) \<Longrightarrow>
   distinct (map fst (fold f xs ps))"
  by (induction xs arbitrary: ps) simp_all

lemma distinct_scopes: "distinct (map fst ps) \<Longrightarrow> distinct (map fst (ast_scope_collect s ps))"
  by (cases s) (simp_all add: distinct_update)

lemma built_fact_table: "built_fact f \<Longrightarrow> table_ok (af_parameters f)"
proof -
  assume "built_fact f"
  then have "af_parameters f = Some (fold ast_extract_parameters (as_terms (af_predicate f)) [])"
    by (metis built_fact_def ast_fact_new_def ast_fact.select_convs(2))
  moreover have "distinct (map fst (fold ast_extract_parameters (as_terms (af_predicate f)) []))"
    by (rule distinct_fold) (simp_all add: distinct_extract)
  ultimately show ?thesis by (simp add: table_ok_def)
qed

lemma built_rule_tables: "built_rule r \<Longrightarrow> table_ok (ar_parameters r) \<and> table_ok (ar_scope_parameters r)"
proof -
  assume "built_rule r"
  then have "r = ast_rule_new (ar_head r) (ar_body r) (ar_expressions r) (ar_scopes r)" by (simp add: built_rule_def)
  moreover have "table_ok (ar_parameters (ast_rule_new h b e s)) \<and> table_ok (ar_scope_parameters (ast_rule_new h b e s))"
    for h b e s
    by (auto simp: ast_rule_new_def Let_def table_ok_def intro!: distinct_fold distinct_extract distinct_collect distinct_scopes)
  ultimately show ?thesis by metis
qed

lemma params_from_ast_names [simp]: "names_of (params_from_ast ps) = names_of ps"
  by (cases ps) (auto simp: names_of_def params_from_ast_def)

lemma params_from_ast_ok: "table_ok ps \<Longrightarrow> table_ok (params_from_ast ps)"
  by (auto simp: table_ok_def params_from_ast_def comp_def case_prod_beta')

lemma scope_params_from_ast_names:
  "scope_params_from_ast p qs = Some us \<Longrightarrow> names_of us = names_of qs \<and> (table_ok qs \<longrightarrow> table_ok us)"
proof (cases qs)
  case (Some xs)
  have "those (map (scope_param_from_ast p) xs) = Some ys \<Longrightarrow> map fst ys = map fst xs" for xs ys
  proof (induction xs arbitrary: ys)
    case (Cons x xs)
    have "scope_param_from_ast p x = Some y \<Longrightarrow> fst y = fst x" for y
      by (cases "(p, x)" rule: scope_param_from_ast.cases) auto
    with Cons show ?case by (auto split: option.splits)
  qed simp
  then show "scope_params_from_ast p qs = Some us \<Longrightarrow> ?thesis"
    using Some by (auto simp: scope_params_from_ast_def names_of_def table_ok_def)
qed (simp add: scope_params_from_ast_def names_of_def table_ok_def)

lemma rule_from_ast_tables:
  assumes "rule_from_ast p r = Some r'"
  shows "names_of (br_parameters r') = names_of (ar_parameters r)"
    "names_of (br_scope_parameters r') = names_of (ar_scope_parameters r)" "built_rule r \<Longrightarrow> rule_ok r'"
proof -
  from assms obtain qs where "scope_params_from_ast p (ar_scope_parameters r) = Some qs"
    "br_parameters r' = params_from_ast (ar_parameters r)" "br_scope_parameters r' = qs"
    by (auto simp: rule_from_ast_def split: option.splits)
  with scope_params_from_ast_names [of p "ar_scope_parameters r" qs]
  show "names_of (br_parameters r') = names_of (ar_parameters r)"
    "names_of (br_scope_parameters r') = names_of (ar_scope_parameters r)" "built_rule r \<Longrightarrow> rule_ok r'"
    using built_rule_tables [of r] by (auto simp: rule_ok_def params_from_ast_ok)
qed

section \<open>Running is reading with parameters\<close>

text \<open>The parameters given to \<open>code_with_params\<close> and the variables of the generated code are the same.\<close>

definition same_values ::
    "(string \<Rightarrow> any_param) \<Rightarrow> (string \<times> bterm) list \<Rightarrow> (string \<times> public_key) list \<Rightarrow> string set \<Rightarrow> bool" where
  "same_values env params scope_params ns \<longleftrightarrow>
     distinct (map fst params) \<and> distinct (map fst scope_params) \<and>
     (\<forall>n \<in> ns. map_of params n = env_terms env {n} n \<and> map_of scope_params n = env_keys env {n} n)"

lemma same_on:
  assumes "same_values env params scope_params ns" "n \<in> ns" "n \<in> s"
  shows "env_terms env s n = map_of params n" "env_keys env s n = map_of scope_params n"
  using assms by (auto simp: same_values_def env_terms_def env_keys_def)

lemma fill_same: "set (names_of ps) \<subseteq> s \<Longrightarrow> (\<And>n. n \<in> s \<Longrightarrow> g n = h n) \<Longrightarrow> map_option (fill g) ps = map_option (fill h) ps"
  by (cases ps) (auto simp: names_of_def intro!: fill_cong)

lemma fill_rule_same:
  assumes "set (names_of (br_parameters r)) \<subseteq> s" "set (names_of (br_scope_parameters r)) \<subseteq> s"
    and "\<And>n. n \<in> s \<Longrightarrow> g n = g' n" "\<And>n. n \<in> s \<Longrightarrow> h n = h' n"
  shows "fill_rule g h r = fill_rule g' h' r"
  using fill_same [OF assms(1,3)] fill_same [OF assms(2,4)] by (simp add: fill_rule_def)

definition code_fact :: "(string \<times> bterm) list \<Rightarrow> ast_fact \<Rightarrow> block_builder \<Rightarrow> (token_error, block_builder) outcome" where
  "code_fact params f bb = obind (set_all fact_set params (fact_from_ast f)) (\<lambda>f'. bb_fact f' bb)"

definition code_rule ::
    "primitives \<Rightarrow> (string \<times> bterm) list \<Rightarrow> (string \<times> public_key) list \<Rightarrow> ast_rule \<Rightarrow> block_builder \<Rightarrow>
     (token_error, block_builder) outcome" where
  "code_rule p params scope_params r bb =
     obind (or_panic (rule_from_ast p r)) (\<lambda>r'.
     obind (set_all rule_set params r') (\<lambda>r1. obind (set_all rule_set_scope scope_params r1) (\<lambda>r2. bb_rule r2 bb)))"

definition code_check ::
    "primitives \<Rightarrow> (string \<times> bterm) list \<Rightarrow> (string \<times> public_key) list \<Rightarrow> ast_check \<Rightarrow> block_builder \<Rightarrow>
     (token_error, block_builder) outcome" where
  "code_check p params scope_params c bb =
     obind (or_panic (check_from_ast p c)) (\<lambda>c'.
     obind (set_all check_set params c') (\<lambda>c1. obind (set_all check_set_scope scope_params c1) (\<lambda>c2. bb_check c2 bb)))"

lemma run_fact:
  assumes "plain_fact f" "same_values env params scope_params ns" "fst ` set us \<subseteq> ns"
    and "set (names_of (af_parameters f)) \<subseteq> fst ` set us"
  shows "run_item p env (item_fact f\<lparr>it_middle := us\<rparr>) bb = unwrap_outcome (code_fact params f bb)"
proof -
  let ?s = "fst ` set us" and ?f = "fact_from_ast f"
  have names: "names_of (bf_parameters ?f) = names_of (af_parameters f)" and ok: "table_ok (bf_parameters ?f)"
    using built_fact_table [of f] assms(1) by (simp_all add: plain_fact_def fact_from_ast_def params_from_ast_ok)
  have same: "env_terms env ?s n = map_of params n" if "n \<in> ?s" for n
    using that assms(3) by (intro same_on(1) [OF assms(2)]) auto
  have "map_option (fill (env_terms env ?s)) (bf_parameters ?f) = map_option (fill (map_of params)) (bf_parameters ?f)"
    using assms(4) same by (intro fill_same [of _ ?s]) (simp_all add: names)
  then have "fill_fact (env_terms env ?s) ?f = fill_fact (map_of params) ?f"
    by (simp add: fill_fact_def)
  moreover have "set_all fact_set params ?f = Ok (fill_fact (map_of params) ?f)"
    using assms(2) ok by (intro fact_filler.set_all_filled) (simp_all add: same_values_def)
  ultimately show ?thesis
    using set_params_fact [OF ok, of env us]
    by (simp add: run_item_def item_fact_def quoted_fact_ast [OF assms(1)] code_fact_def)
qed

lemma set_all_rule:
  assumes "rule_ok r" "same_values env params scope_params ns"
  shows "set_all rule_set params r = Ok (fill_rule (map_of params) Map.empty r)"
    "set_all rule_set_scope scope_params (fill_rule (map_of params) Map.empty r) =
       Ok (fill_rule (map_of params) (map_of scope_params) r)"
proof -
  show "set_all rule_set params r = Ok (fill_rule (map_of params) Map.empty r)"
    using assms by (intro rule_filler.set_all_filled) (simp_all add: same_values_def)
  have "set_all rule_set_scope scope_params (fill_rule (map_of params) Map.empty r) =
      Ok (fill_rule Map.empty (map_of scope_params) (fill_rule (map_of params) Map.empty r))"
    using assms by (intro rule_scope_filler.set_all_filled) (simp_all add: same_values_def)
  then show "set_all rule_set_scope scope_params (fill_rule (map_of params) Map.empty r) =
       Ok (fill_rule (map_of params) (map_of scope_params) r)"
    by (simp add: fill_twice)
qed

lemma run_rule:
  assumes "plain_rule r" "same_values env params scope_params ns" "fst ` set us \<subseteq> ns"
    and "set (rule_params r) \<subseteq> fst ` set us"
  shows "run_item p env (item_rule r\<lparr>it_middle := us\<rparr>) bb = unwrap_outcome (code_rule p params scope_params r bb)"
proof (cases "rule_from_ast p r")
  case None
  then show ?thesis by (simp add: run_item_def item_rule_def quoted_rule_ast [OF assms(1)] code_rule_def)
next
  case (Some r')
  let ?s = "fst ` set us"
  note tables = rule_from_ast_tables [OF Some]
  have ok: "rule_ok r'" using assms(1) by (intro tables(3)) (simp add: plain_rule_def)
  have same: "env_terms env ?s n = map_of params n" "env_keys env ?s n = map_of scope_params n" if "n \<in> ?s" for n
    using that assms(3) by (intro same_on [OF assms(2)]; auto)+
  have "fill_rule (env_terms env ?s) (env_keys env ?s) r' = fill_rule (map_of params) (map_of scope_params) r'"
    using assms(4) same by (intro fill_rule_same [of _ ?s]) (simp_all add: rule_params_def tables)
  then show ?thesis
    using set_params_rule [OF ok, of env us] set_all_rule [OF ok assms(2)] Some
    by (simp add: run_item_def item_rule_def quoted_rule_ast [OF assms(1)] code_rule_def)
qed

lemma check_from_ast_tables:
  assumes "check_from_ast p c = Some c'" "\<forall>r \<in> set (ac_queries c). built_rule r" "q \<in> set (bc_queries c')"
  shows "rule_ok q"
    "set (names_of (br_parameters q)) \<subseteq> set (concat (map rule_params (ac_queries c)))"
    "set (names_of (br_scope_parameters q)) \<subseteq> set (concat (map rule_params (ac_queries c)))"
proof -
  from assms(1) have "those (map (rule_from_ast p) (ac_queries c)) = Some (bc_queries c')"
    by (auto simp: check_from_ast_def)
  moreover have "those (map f xs) = Some ys \<Longrightarrow> q \<in> set ys \<Longrightarrow> \<exists>x \<in> set xs. f x = Some q" for f :: "ast_rule \<Rightarrow> brule option" and xs ys
    by (induction xs arbitrary: ys) (auto split: option.splits)
  ultimately obtain r where r: "r \<in> set (ac_queries c)" "rule_from_ast p r = Some q" using assms(3) by blast
  note tables = rule_from_ast_tables [OF r(2)]
  show "rule_ok q" using tables(3) assms(2) r(1) by blast
  show "set (names_of (br_parameters q)) \<subseteq> set (concat (map rule_params (ac_queries c)))"
    "set (names_of (br_scope_parameters q)) \<subseteq> set (concat (map rule_params (ac_queries c)))"
    using r(1) by (auto simp: tables(1,2) rule_params_def)
qed

lemma set_all_check:
  assumes "\<forall>q \<in> set (bc_queries c). rule_ok q" "same_values env params scope_params ns"
  shows "set_all check_set params c = Ok (fill_check (map_of params) Map.empty c)"
    "set_all check_set_scope scope_params (fill_check (map_of params) Map.empty c) =
       Ok (fill_check (map_of params) (map_of scope_params) c)"
proof -
  show "set_all check_set params c = Ok (fill_check (map_of params) Map.empty c)"
    using assms(2) by (intro check_filler.set_all_filled [OF assms(1)]) (simp add: same_values_def)
  have "set_all check_set_scope scope_params (fill_check (map_of params) Map.empty c) =
      Ok (fill_check Map.empty (map_of scope_params) (fill_check (map_of params) Map.empty c))"
    using assms(2)
    by (intro check_scope_filler.set_all_filled [OF check_filler.keep [OF assms(1)]]) (simp add: same_values_def)
  then show "set_all check_set_scope scope_params (fill_check (map_of params) Map.empty c) =
       Ok (fill_check (map_of params) (map_of scope_params) c)"
    by (simp add: fill_twice)
qed

lemma run_check:
  assumes "\<forall>r \<in> set (ac_queries c). plain_rule r" "same_values env params scope_params ns" "fst ` set us \<subseteq> ns"
    and "set (concat (map rule_params (ac_queries c))) \<subseteq> fst ` set us"
  shows "run_item p env (item_check c\<lparr>it_middle := us\<rparr>) bb = unwrap_outcome (code_check p params scope_params c bb)"
proof (cases "check_from_ast p c")
  case None
  then show ?thesis by (simp add: run_item_def item_check_def quoted_check_ast [OF assms(1)] code_check_def)
next
  case (Some c')
  let ?s = "fst ` set us"
  have "\<forall>r \<in> set (ac_queries c). built_rule r" using assms(1) by (simp add: plain_rule_def)
  note tables = check_from_ast_tables [OF Some this]
  have ok: "\<forall>q \<in> set (bc_queries c'). rule_ok q" using tables(1) by blast
  have same: "env_terms env ?s n = map_of params n" "env_keys env ?s n = map_of scope_params n" if "n \<in> ?s" for n
    using that assms(3) by (intro same_on [OF assms(2)]; auto)+
  have "fill_rule (env_terms env ?s) (env_keys env ?s) q = fill_rule (map_of params) (map_of scope_params) q"
    if "q \<in> set (bc_queries c')" for q
    using assms(4) tables(2,3) [OF that] same by (intro fill_rule_same [of _ ?s]) blast+
  then have "fill_check (env_terms env ?s) (env_keys env ?s) c' = fill_check (map_of params) (map_of scope_params) c'"
    by (simp add: fill_check_def)
  then show ?thesis
    using set_params_check [OF ok, of env us] set_all_check [OF ok assms(2)] Some
    by (simp add: run_item_def item_check_def quoted_check_ast [OF assms(1)] code_check_def)
qed

section \<open>Running all the items\<close>

fun code_all ::
    "('x \<Rightarrow> block_builder \<Rightarrow> (token_error, block_builder) outcome) \<Rightarrow> 'x list \<Rightarrow> block_builder \<Rightarrow>
     (token_error, block_builder) outcome" where
  "code_all f [] bb = Ok bb"
| "code_all f (x # xs) bb = obind (f x bb) (code_all f xs)"

lemma code_facts_all: "bb_code_facts params (map fact_from_ast fs) = code_all (code_fact params) fs"
  by (induction fs) (rule ext, simp add: code_fact_def obind_assoc)+

lemma code_rules_all: "code_rules p params scope_params rs = code_all (code_rule p params scope_params) rs"
proof -
  have "bb_code_rules params scope_params [] = Ok" by (simp add: fun_eq_iff)
  then show ?thesis by (induction rs) (rule ext, simp add: code_rule_def obind_assoc obind_Ok)+
qed

lemma code_checks_all: "code_checks p params scope_params cs = code_all (code_check p params scope_params) cs"
proof -
  have "bb_code_checks params scope_params [] = Ok" by (simp add: fun_eq_iff)
  then show ?thesis by (induction cs) (rule ext, simp add: code_check_def obind_assoc obind_Ok)+
qed

text \<open>
  The code of one statement does to a builder what reading the statement does, as far as \<open>view\<close> can
  see.
\<close>

definition simulates where
  "simulates view p env names item code x \<longleftrightarrow>
     (\<forall>us bb bb'. fst ` set us \<subseteq> set names \<longrightarrow> set (it_parameters (item x)) \<subseteq> fst ` set us \<longrightarrow> view bb = view bb' \<longrightarrow>
        map_option view (run_item p env (item x\<lparr>it_middle := us\<rparr>) bb) = map_option view (unwrap_outcome (code x bb')))"

lemma run_completed:
  assumes "\<And>x. x \<in> set xs \<Longrightarrow> simulates view p env names item code x"
    and "\<And>x. x \<in> set xs \<Longrightarrow> it_middle (item x) = []"
    and "\<And>x. x \<in> set xs \<Longrightarrow> set (it_parameters (item x)) \<subseteq> set names"
    and "\<And>b b'. view b = view b' \<Longrightarrow>
      map_option view (run_items p env (completed names rest) b) = map_option view (unwrap_outcome (continue b'))"
    and "view bb = view bb'"
  shows "map_option view (run_items p env (completed names (map item xs @ rest)) bb) =
    map_option view (unwrap_outcome (obind (code_all code xs bb') continue))"
  using assms(1-3,5)
proof (induction xs arbitrary: bb bb')
  case Nil
  then show ?case by (simp add: assms(4))
next
  case (Cons x xs)
  let ?us = "map (\<lambda>n. (n, \<exists>j \<in> set (map item xs @ rest). needs_param n j)) (filter (\<lambda>n. needs_param n (item x)) names)"
  have us: "fst ` set ?us \<subseteq> set names" "set (it_parameters (item x)) \<subseteq> fst ` set ?us"
    using Cons.prems(3) [of x] by (force simp: needs_param_def image_iff)+
  have "simulates view p env names item code x" by (rule Cons.prems(1)) simp
  then have step: "map_option view (run_item p env (item x\<lparr>it_middle := ?us\<rparr>) bb) = map_option view (unwrap_outcome (code x bb'))"
    using us Cons.prems(4) unfolding simulates_def by blast
  have rest: "map_option view (run_items p env (completed names (map item xs @ rest)) b) =
      map_option view (unwrap_outcome (obind (code_all code xs b') continue))" if "view b = view b'" for b b'
    using Cons.prems that by (intro Cons.IH) simp_all
  have items: "completed names (map item (x # xs) @ rest) = item x\<lparr>it_middle := ?us\<rparr> # completed names (map item xs @ rest)"
    using Cons.prems(2) [of x] by simp
  show ?case
    using step rest unfolding items
    by (cases "run_item p env (item x\<lparr>it_middle := ?us\<rparr>) bb"; cases "code x bb'")
      (simp_all del: completed.simps)
qed

lemma builder_needs:
  assumes "builder_wf b" "i \<in> set (mb_items b)"
  shows "set (it_parameters i) \<subseteq> set (mb_datalog_parameters b)"
  using assms by (auto simp: builder_wf_def)

lemma add_parts [simp]:
  "mb_facts (mb_add_facts fs b) = mb_facts b @ fs" "mb_rules (mb_add_facts fs b) = mb_rules b"
  "mb_checks (mb_add_facts fs b) = mb_checks b" "mb_policies (mb_add_facts fs b) = mb_policies b"
  "mb_facts (mb_add_rules rs b) = mb_facts b" "mb_rules (mb_add_rules rs b) = mb_rules b @ rs"
  "mb_checks (mb_add_rules rs b) = mb_checks b" "mb_policies (mb_add_rules rs b) = mb_policies b"
  "mb_facts (mb_add_checks cs b) = mb_facts b" "mb_rules (mb_add_checks cs b) = mb_rules b"
  "mb_checks (mb_add_checks cs b) = mb_checks b @ cs" "mb_policies (mb_add_checks cs b) = mb_policies b"
proof -
  show "mb_facts (mb_add_facts fs b) = mb_facts b @ fs" "mb_rules (mb_add_facts fs b) = mb_rules b"
    "mb_checks (mb_add_facts fs b) = mb_checks b" "mb_policies (mb_add_facts fs b) = mb_policies b"
    unfolding mb_add_facts_def by (induction fs arbitrary: b) (simp_all add: Let_def)
  show "mb_facts (mb_add_rules rs b) = mb_facts b" "mb_rules (mb_add_rules rs b) = mb_rules b @ rs"
    "mb_checks (mb_add_rules rs b) = mb_checks b" "mb_policies (mb_add_rules rs b) = mb_policies b"
    unfolding mb_add_rules_def by (induction rs arbitrary: b) (simp_all add: Let_def)
  show "mb_facts (mb_add_checks cs b) = mb_facts b" "mb_rules (mb_add_checks cs b) = mb_rules b"
    "mb_checks (mb_add_checks cs b) = mb_checks b @ cs" "mb_policies (mb_add_checks cs b) = mb_policies b"
    unfolding mb_add_checks_def by (induction cs arbitrary: b) (simp_all add: Let_def queries_parameters)
qed

lemma block_source_items:
  "mb_items (mb_add_block_source src (mb_new ty target parameters)) =
     map item_fact (map snd (sr_facts src)) @ map item_rule (map snd (sr_rules src)) @ map item_check (map snd (sr_checks src)) @ []"
  by (simp add: mb_items_def mb_add_block_source_def) (simp add: mb_new_def)

lemma block_source_builder:
  assumes "mb_block_source scopes element ty target source parameters = Some (Ok b)"
  obtains src where "parse_block_source scopes element source = Some (Ok src)"
    "b = mb_add_block_source src (mb_new ty target parameters)" "mb_validate b = Ok ()"
  using assms by (auto simp: mb_block_source_def outcome_simps Let_def)

lemma run_source:
  assumes "builder_wf b"
    and items: "mb_items b = map item_fact (map snd (sr_facts src)) @ map item_rule (map snd (sr_rules src)) @
      map item_check (map snd (sr_checks src)) @ []"
    and "\<And>f. f \<in> set (map snd (sr_facts src)) \<Longrightarrow>
      simulates view p env (mb_datalog_parameters b) item_fact (code_fact params) f"
    and "\<And>r. r \<in> set (map snd (sr_rules src)) \<Longrightarrow>
      simulates view p env (mb_datalog_parameters b) item_rule (code_rule p params scope_params) r"
    and "\<And>c. c \<in> set (map snd (sr_checks src)) \<Longrightarrow>
      simulates view p env (mb_datalog_parameters b) item_check (code_check p params scope_params) c"
  shows "map_option view (run_items p env (gc_items (mb_to_tokens b)) bb) =
    map_option view (unwrap_outcome (code_source p params scope_params src bb))"
proof -
  let ?ns = "mb_datalog_parameters b"
  have needs: "x \<in> set (map snd (sr_facts src)) \<Longrightarrow> set (it_parameters (item_fact x)) \<subseteq> set ?ns"
    "y \<in> set (map snd (sr_rules src)) \<Longrightarrow> set (it_parameters (item_rule y)) \<subseteq> set ?ns"
    "z \<in> set (map snd (sr_checks src)) \<Longrightarrow> set (it_parameters (item_check z)) \<subseteq> set ?ns" for x y z
    by (rule builder_needs [OF assms(1)], force simp: items)+
  have checks: "map_option view (run_items p env (completed ?ns (map item_check (map snd (sr_checks src)) @ [])) b1) =
      map_option view (unwrap_outcome (obind (code_all (code_check p params scope_params) (map snd (sr_checks src)) b2) Ok))"
    if "view b1 = view b2" for b1 b2
    by (rule run_completed [OF assms(5) _ needs(3) _ that]) (simp_all add: item_check_def)
  have rules: "map_option view (run_items p env (completed ?ns (map item_rule (map snd (sr_rules src)) @
        map item_check (map snd (sr_checks src)) @ [])) b1) =
      map_option view (unwrap_outcome (obind (code_all (code_rule p params scope_params) (map snd (sr_rules src)) b2)
        (\<lambda>b. obind (code_all (code_check p params scope_params) (map snd (sr_checks src)) b) Ok)))"
    if "view b1 = view b2" for b1 b2
    by (rule run_completed [OF assms(4) _ needs(2) checks that]) (simp_all add: item_rule_def)
  have "map_option view (run_items p env (completed ?ns (mb_items b)) bb) =
      map_option view (unwrap_outcome (obind (code_all (code_fact params) (map snd (sr_facts src)) bb)
        (\<lambda>b. obind (code_all (code_rule p params scope_params) (map snd (sr_rules src)) b)
          (\<lambda>b. obind (code_all (code_check p params scope_params) (map snd (sr_checks src)) b) Ok))))"
    unfolding items
    by (rule run_completed [OF assms(3) _ needs(1) rules refl]) (simp_all add: item_fact_def)
  moreover have "map (\<lambda>(_, f). fact_from_ast f) (sr_facts src) = map fact_from_ast (map snd (sr_facts src))"
    by (simp add: case_prod_beta' comp_def)
  ultimately show ?thesis
    by (simp only: mb_to_tokens_def fold_distribute generated_code.simps code_source_def code_facts_all code_rules_all
        code_checks_all obind_Ok)
qed

text \<open>With no parameter inside a collection, the builders are the same.\<close>

lemma plain_simulated:
  assumes "same_values env params scope_params (set names)"
  shows "plain_fact f \<Longrightarrow> simulates id p env names item_fact (code_fact params) f"
    and "plain_rule r \<Longrightarrow> simulates id p env names item_rule (code_rule p params scope_params) r"
    and "\<forall>r \<in> set (ac_queries c). plain_rule r \<Longrightarrow> simulates id p env names item_check (code_check p params scope_params) c"
  using run_fact [OF _ assms, of f _ p] run_rule [OF _ assms, of r _ p] run_check [OF _ assms, of c _ p]
  by (simp_all add: simulates_def item_fact_def item_rule_def item_check_def)

section \<open>The macros\<close>

lemma completed_uses:
  assumes "\<forall>i \<in> set is. it_middle i = []"
  shows "fst ` set (uses (completed ns is)) = {n \<in> set ns. \<exists>i \<in> set is. needs_param n i}"
    "n \<in> fst ` set (uses (completed ns is)) \<Longrightarrow> (n, False) \<in> set (uses (completed ns is))"
proof -
  have uses_Cons: "set (uses (completed ns (i # is))) =
      set (it_middle i) \<union> (\<lambda>n. (n, \<exists>j \<in> set is. needs_param n j)) ` {n \<in> set ns. needs_param n i} \<union> set (uses (completed ns is))"
    for i "is" by (auto simp: uses_def)
  show names: "fst ` set (uses (completed ns is)) = {n \<in> set ns. \<exists>i \<in> set is. needs_param n i}"
    using assms
  proof (induction "is")
    case (Cons i "is")
    then show ?case by (auto simp: uses_Cons image_Un image_image simp del: completed.simps)
  qed (simp add: uses_def)
  have moved: "n \<in> set ns \<Longrightarrow> \<exists>i \<in> set is. needs_param n i \<Longrightarrow> (n, False) \<in> set (uses (completed ns is))"
  proof (induction "is")
    case (Cons i "is")
    then show ?case by (cases "\<exists>j \<in> set is. needs_param n j") (auto simp: uses_Cons image_iff simp del: completed.simps)
  qed simp
  show "n \<in> fst ` set (uses (completed ns is)) \<Longrightarrow> (n, False) \<in> set (uses (completed ns is))"
    unfolding names using moved by auto
qed

lemma items_blank: "\<forall>i \<in> set (mb_items b). it_middle i = []"
  by (auto simp: mb_items_def item_fact_def item_rule_def item_check_def item_policy_def)

lemma tokens_uses:
  assumes "builder_wf b"
  shows "fst ` set (uses (gc_items (mb_to_tokens b))) = set (mb_datalog_parameters b)"
proof -
  have "set (mb_datalog_parameters b) = (\<Union>i \<in> set (mb_items b). set (it_parameters i))"
    using assms by (simp add: builder_wf_def)
  then show ?thesis
    by (simp only: completed_uses(1) [OF items_blank] mb_to_tokens_def fold_distribute generated_code.simps)
      (auto simp: needs_param_def)
qed

lemma validated: "mb_validate b = Ok u \<longleftrightarrow> set (mb_macro_parameters b) \<subseteq> set (mb_datalog_parameters b)"
  by (simp add: mb_validate_def)

lemma add_macro_parameters [simp]:
  "mb_macro_parameters (mb_add_facts fs b) = mb_macro_parameters b"
  "mb_macro_parameters (mb_add_rules rs b) = mb_macro_parameters b"
  "mb_macro_parameters (mb_add_checks cs b) = mb_macro_parameters b"
  "mb_macro_parameters (mb_add_policies ps b) = mb_macro_parameters b"
  "mb_parameters (mb_add_facts fs b) = mb_parameters b"
  "mb_parameters (mb_add_rules rs b) = mb_parameters b"
  "mb_parameters (mb_add_checks cs b) = mb_parameters b"
  "mb_parameters (mb_add_policies ps b) = mb_parameters b"
  unfolding mb_add_facts_def mb_add_rules_def mb_add_checks_def mb_add_policies_def
        apply (induction fs arbitrary: b; simp add: Let_def)
       apply (induction rs arbitrary: b; simp add: Let_def)
      apply (induction cs arbitrary: b; simp add: Let_def queries_parameters)
     apply (induction ps arbitrary: b; simp add: Let_def queries_parameters)
    apply (induction fs arbitrary: b; simp add: Let_def)
   apply (induction rs arbitrary: b; simp add: Let_def)
  apply (induction cs arbitrary: b; simp add: Let_def queries_parameters)
  by (induction ps arbitrary: b; simp add: Let_def queries_parameters)

text \<open>What a macro makes of a source: a builder whose statements need its parameters, all of those given.\<close>

definition macro_made :: "(string \<times> 'x) list \<Rightarrow> 'x macro_builder \<Rightarrow> bool" where
  "macro_made parameters b \<longleftrightarrow>
     builder_wf b \<and> mb_parameters b = parameters \<and> fst ` set parameters \<subseteq> set (mb_datalog_parameters b)"

lemma new_parameters [simp]:
  "mb_macro_parameters (mb_new ty target parameters) = map fst parameters"
  "mb_parameters (mb_new ty target parameters) = parameters"
  by (simp_all add: mb_new_def)

lemma add_block_source_parameters [simp]:
  "mb_macro_parameters (mb_add_block_source src b) = mb_macro_parameters b"
  "mb_parameters (mb_add_block_source src b) = mb_parameters b"
  by (simp_all add: mb_add_block_source_def)

lemma block_source_made: "mb_block_source scopes element ty target source parameters = Some (Ok b) \<Longrightarrow> macro_made parameters b"
  by (erule block_source_builder) (simp add: macro_made_def block_source_wf new_wf validated)

lemma source_made:
  assumes "mb_source element ty target source parameters = Some (Ok b)"
  shows "macro_made parameters b"
proof -
  from assms obtain src where
    "b = mb_add_policies (map snd (sr_policies src)) (mb_add_block_source src (mb_new ty target parameters))"
    "mb_validate b = Ok ()"
    by (auto simp: mb_source_def outcome_simps Let_def)
  then show ?thesis by (simp add: macro_made_def block_source_wf add_policies_wf new_wf validated)
qed

text \<open>The names of the parameters of a source.\<close>

definition source_names :: "ast_source \<Rightarrow> string set" where
  "source_names src =
     (\<Union>f \<in> set (map snd (sr_facts src)). set (names_of (af_parameters f))) \<union>
     (\<Union>r \<in> set (map snd (sr_rules src)). set (rule_params r)) \<union>
     (\<Union>c \<in> set (map snd (sr_checks src)). \<Union>r \<in> set (ac_queries c). set (rule_params r))"

lemma block_source_names:
  "set (mb_datalog_parameters (mb_add_block_source src (mb_new ty target parameters))) = source_names src"
  (is "set (mb_datalog_parameters ?b) = _")
proof -
  have "builder_wf ?b" by (simp add: block_source_wf new_wf)
  then have "set (mb_datalog_parameters ?b) = (\<Union>i \<in> set (mb_items ?b). set (it_parameters i))"
    by (simp add: builder_wf_def)
  then show ?thesis
    by (simp add: block_source_items source_names_def item_fact_def item_rule_def item_check_def Un_assoc)
qed

lemma names_update: "fst ` set (AList.update k v ps) = insert k (fst ` set ps)"
  by (induction ps) auto

lemma parsed_parameters_names [simp]: "fst ` set (parsed_parameters pairs) = fst ` set pairs"
proof -
  have "fst ` set (fold (\<lambda>(k, v). AList.update k v) pairs ps) = fst ` set pairs \<union> fst ` set ps" for ps
    by (induction pairs arbitrary: ps) (simp_all add: case_prod_beta' names_update)
  then show ?thesis by (simp add: parsed_parameters_def)
qed

text \<open>The source \<open>f([1, {x}])\<close>.\<close>

definition quoted_scopes :: "string \<Rightarrow> ast_scope list option parsed" where
  "quoted_scopes i = PDone i None"

definition quoted_element :: "string \<Rightarrow> source_element parsed" where
  "quoted_element i = PDone [] (El_Fact ''f'' (ast_fact_new ''f'' [AArray [AInteger 1, AParameter ''x'']]))"

lemma quoted_source:
  "parse_block_source quoted_scopes quoted_element ''f'' =
     Some (Ok (source_empty\<lparr>sr_facts := [(''f'', ast_fact_new ''f'' [AArray [AInteger 1, AParameter ''x'']])]\<rparr>))"
  by (simp add: parse_block_source_def quoted_scopes_def source_loop.simps quoted_element_def source_empty_def)

definition quoted_code :: "nat generated_code" where
  "quoted_code =
     \<lparr>gc_type = ''BlockBuilder'', gc_target = Some 0, gc_bindings = [(''x'', 7)],
      gc_items = [item_fact (ast_fact_new ''f'' [AArray [AInteger 1, AParameter ''x'']])\<lparr>it_middle := [(''x'', False)]\<rparr>]\<rparr>"

lemma quoted_macro:
  "block_merge_macro quoted_scopes quoted_element 0 ''f'' [(''x'', 7)] = Some (Ok quoted_code)"
  by (simp add: block_merge_macro_def expand_def mb_block_source_def quoted_source parsed_parameters_def Let_def
      mb_add_block_source_def source_empty_def mb_add_checks_def mb_add_rules_def mb_add_facts_def mb_new_def mb_use_def
      ast_fact_new_def ast_extract_parameters_def extend_names_def mb_validate_def mb_to_tokens_def mb_items_def
      item_fact_def needs_param_def names_of_def add_param_def quoted_code_def)

text \<open>
  C30: the code that a macro generates uses every variable for the last time exactly where it moves
  it: each variable is moved, a moved variable is not used again, and every parameter that the macro
  was given is used.
\<close>

theorem macro_moves:
  assumes "m = block_merge_macro scopes element target source pairs \<or> m = authorizer_merge_macro element target source pairs"
    and "m = Some (Ok g)"
  shows "well_moved (fst ` set (uses (gc_items g))) (uses (gc_items g)) \<and>
    (\<forall>n \<in> fst ` set (uses (gc_items g)). (n, False) \<in> set (uses (gc_items g))) \<and>
    fst ` set (gc_bindings g) = fst ` set pairs \<and> fst ` set pairs \<subseteq> fst ` set (uses (gc_items g))"
proof -
  have expanded: "\<exists>b. x = Some (Ok b) \<and> g = mb_to_tokens b" if "expand x = Some (Ok g)" for x
    using that by (auto simp: expand_def outcome_simps)
  from assms have "block_merge_macro scopes element target source pairs = Some (Ok g) \<or>
      authorizer_merge_macro element target source pairs = Some (Ok g)" by metis
  then obtain b where b: "macro_made (parsed_parameters pairs) b" and g: "g = mb_to_tokens b"
    by (auto simp: block_merge_macro_def authorizer_merge_macro_def dest!: expanded block_source_made source_made)
  have wf: "builder_wf b" using b by (simp add: macro_made_def)
  have items: "gc_items g = completed (mb_datalog_parameters b) (mb_items b)"
    by (simp add: g mb_to_tokens_def fold_distribute)
  have "well_moved (fst ` set (uses (gc_items g))) (uses (gc_items g))"
    unfolding items completed_uses(1) [OF items_blank]
    by (rule completed_well_moved [OF _ items_blank]) (use wf in \<open>simp_all add: builder_wf_def\<close>)
  moreover have "\<forall>n \<in> fst ` set (uses (gc_items g)). (n, False) \<in> set (uses (gc_items g))"
    unfolding items using completed_uses(2) [OF items_blank] by blast
  moreover have "gc_bindings g = parsed_parameters pairs" using b by (simp add: g mb_to_tokens_def macro_made_def)
  moreover have "fst ` set pairs \<subseteq> fst ` set (uses (gc_items g))"
    using b tokens_uses [OF wf] by (simp add: g macro_made_def)
  ultimately show ?thesis by simp
qed

theorem macro_moves_witness:
  "well_moved (fst ` set (uses (gc_items quoted_code))) (uses (gc_items quoted_code)) \<and> (''x'', False) \<in> set (uses (gc_items quoted_code))"
proof -
  have "''x'' \<in> fst ` set (uses (gc_items quoted_code))" by (simp add: uses_def quoted_code_def)
  with macro_moves [OF disjI1 [OF refl] quoted_macro] show ?thesis by blast
qed

text \<open>
  A macro whose source parses is compiled when the source uses every parameter it is given; the
  error lists exactly the parameters that the source does not use.
\<close>

theorem macro_unused:
  assumes "parse_block_source scopes element source = Some (Ok src)"
  shows "case block_merge_macro scopes element target source pairs of
      Some (Ok g) \<Rightarrow> fst ` set pairs \<subseteq> source_names src
    | Some (Err e) \<Rightarrow> \<exists>u. u \<noteq> [] \<and> e = Parameters [] u \<and> set u = fst ` set pairs - source_names src
    | _ \<Rightarrow> False"
proof -
  let ?b = "mb_add_block_source src (mb_new ''BlockBuilder'' (Some target) (parsed_parameters pairs))"
  have macro: "block_merge_macro scopes element target source pairs =
      Some (obind (mb_validate ?b) (\<lambda>u. Ok (mb_to_tokens ?b)))"
    using assms by (cases "mb_validate ?b") (simp_all add: block_merge_macro_def expand_def mb_block_source_def Let_def)
  have names: "set (mb_macro_parameters ?b) = fst ` set pairs" by simp
  let ?u = "filter (\<lambda>n. n \<notin> source_names src) (mb_macro_parameters ?b)"
  have "set ?u = fst ` set pairs - source_names src" using names by auto
  moreover have "?u \<noteq> []" if "\<not> fst ` set pairs \<subseteq> source_names src"
    using that names by (auto simp: filter_empty_conv)
  ultimately show ?thesis
    by (simp add: macro mb_validate_def block_source_names del: add_block_source_parameters new_parameters)
      (auto simp: names)
qed

theorem macro_unused_witness:
  "fst ` set [(''x'', 7 :: nat)] \<subseteq> source_names (source_empty\<lparr>sr_facts := [(''f'', ast_fact_new ''f'' [AArray [AInteger 1, AParameter ''x'']])]\<rparr>)"
  using macro_unused [OF quoted_source, where target = 0 and pairs = "[(''x'', 7 :: nat)]"] by (simp add: quoted_macro)

end
