(* ===== verification/Macro_Collections.thy ===== *)
theory Macro_Collections
  imports Macro_Agreement Portable
begin

text \<open>
  Macros whose parameters are inside sets, arrays and maps.  The tables of parameters that the
  generated code and the parser make then list their names in other orders, and for an expression
  the parser's table has names that the builder's has not, so the builders that result are compared
  as they are built: with their parameters applied.
\<close>

section \<open>Names in tables\<close>

text \<open>The keys of a map of the parser are distinct, since it is a \<open>BTreeMap\<close>.\<close>

fun distinct_keys :: "ast_term \<Rightarrow> bool" where
  "distinct_keys (ASet ts) \<longleftrightarrow> (\<forall>t \<in> set ts. distinct_keys t)"
| "distinct_keys (AArray ts) \<longleftrightarrow> (\<forall>t \<in> set ts. distinct_keys t)"
| "distinct_keys (AMap m) \<longleftrightarrow> distinct (map fst m) \<and> (\<forall>(k, t) \<in> set m. distinct_keys t)"
| "distinct_keys _ \<longleftrightarrow> True"

lemma key_from_ast_eq [simp]: "key_from_ast k = key_from_ast l \<longleftrightarrow> k = l"
  by (cases k; cases l) simp_all

lemma key_names: "key_parameters (key_from_ast k) = ast_key_parameters k"
  by (cases k) simp_all

lemma term_names: "distinct_keys t \<Longrightarrow> set (term_parameters (term_from_ast t)) = set (ast_term_parameters t)"
proof (induction t)
  case (AMap m)
  let ?m = "map (\<lambda>(k, t). (key_from_ast k, term_from_ast t)) m"
  have "distinct (map key_from_ast ks)" if "distinct ks" for ks
    using that by (induction ks) auto
  moreover have "map fst ?m = map key_from_ast (map fst m)" by (simp add: case_prod_beta' comp_def)
  ultimately have "distinct (map fst ?m)" using AMap.prems by (simp del: map_map)
  then have entries: "set (bm_of_list ?m) = set ?m" by (rule set_bm_of_list_distinct)
  have "set (term_parameters (BMap xs)) = (\<Union>(k, u) \<in> set xs. set (key_parameters k) \<union> set (term_parameters u))" for xs
    by auto
  then have "set (term_parameters (term_from_ast (AMap m))) =
      (\<Union>(k, u) \<in> set ?m. set (key_parameters k) \<union> set (term_parameters u))"
    by (simp only: term_from_ast.simps entries)
  also have "\<dots> = (\<Union>(k, t) \<in> set m. set (ast_key_parameters k) \<union> set (term_parameters (term_from_ast t)))"
    by (auto simp: key_names)
  also have "\<dots> = (\<Union>(k, t) \<in> set m. set (ast_key_parameters k) \<union> set (ast_term_parameters t))"
  proof (rule SUP_cong [OF refl])
    fix x assume x: "x \<in> set m"
    obtain k t where kt: "x = (k, t)" by (cases x)
    with x AMap.prems have "distinct_keys t" by auto
    with x kt AMap.IH [OF x, of t]
    show "(case x of (k, t) \<Rightarrow> set (ast_key_parameters k) \<union> set (term_parameters (term_from_ast t))) =
        (case x of (k, t) \<Rightarrow> set (ast_key_parameters k) \<union> set (ast_term_parameters t))"
      by simp
  qed
  also have "\<dots> = set (ast_term_parameters (AMap m))" by auto
  finally show ?case .
qed auto

text \<open>Tables before any parameter is set.\<close>

definition unset_table :: "(string \<times> 'v option) list \<Rightarrow> bool" where
  "unset_table ps \<longleftrightarrow> distinct (map fst ps) \<and> (\<forall>(k, v) \<in> set ps. v = None)"

lemma unset_Nil [simp]: "unset_table []"
  by (simp add: unset_table_def)

lemma unset_add: "unset_table ps \<Longrightarrow> unset_table (AList.update n None ps)"
  by (induction ps) (auto simp: unset_table_def names_update image_iff)

lemma unset_names: "unset_table ps \<Longrightarrow> unset_table (fold (\<lambda>p m. AList.update p None m) ns ps)"
  by (induction ns arbitrary: ps) (simp_all add: unset_add)

lemma fold_names: "fst ` set (fold (\<lambda>p m. AList.update p v m) ns ps) = set ns \<union> fst ` set ps"
  by (induction ns arbitrary: ps) (auto simp: names_update)

lemma extract_names:
  "fst ` set (extract_parameters t ps) = set (term_parameters t) \<union> fst ` set ps"
  "fst ` set (ast_extract_parameters u qs) = set (ast_term_parameters u) \<union> fst ` set qs"
  "unset_table ps \<Longrightarrow> unset_table (extract_parameters t ps)"
  "unset_table qs \<Longrightarrow> unset_table (ast_extract_parameters u qs)"
  by (simp_all add: extract_parameters_def ast_extract_parameters_def fold_names unset_names)

lemma fold_table_names:
  "(\<And>x ps. fst ` set (f x ps) = N x \<union> fst ` set ps) \<Longrightarrow>
   fst ` set (fold f xs ps) = (\<Union>x \<in> set xs. N x) \<union> fst ` set ps"
  by (induction xs arbitrary: ps) auto

lemma fold_table_unset:
  "(\<And>x ps. unset_table ps \<Longrightarrow> unset_table (f x ps)) \<Longrightarrow> unset_table ps \<Longrightarrow> unset_table (fold f xs ps)"
  by (induction xs arbitrary: ps) auto

lemma map_of_fill: "unset_table ps \<Longrightarrow> map_of (fill g ps) n = (if n \<in> fst ` set ps then Some (g n) else None)"
  by (induction ps) (auto simp: fill_def unset_table_def split: option.splits)

lemma unset_fill: "unset_table ps \<Longrightarrow> unset_parameters (fill g ps) = [] \<longleftrightarrow> (\<forall>n \<in> fst ` set ps. g n \<noteq> None)"
  by (induction ps) (auto simp: unset_parameters_def fill_def unset_table_def split: option.splits)

section \<open>Applying parameters\<close>

lemma key_apply_cong: "map_of ps = map_of qs \<Longrightarrow> key_apply_parameters ps k = key_apply_parameters qs k"
  by (cases k) simp_all

lemma term_apply_cong: "map_of ps = map_of qs \<Longrightarrow> term_apply_parameters ps t = term_apply_parameters qs t"
proof (induction t)
  case (BMap m)
  then have "map (\<lambda>(k, t). (key_apply_parameters ps k, term_apply_parameters ps t)) m =
      map (\<lambda>(k, t). (key_apply_parameters qs k, term_apply_parameters qs t)) m"
    by (auto simp: key_apply_cong [OF BMap.prems])
  then show ?case by (simp only: term_apply_parameters.simps)
qed (simp_all cong: map_cong)

text \<open>A rule replaces a term, or the value of an expression, only when it is a parameter itself.\<close>

fun own_name :: "bterm \<Rightarrow> string set" where
  "own_name (BParameter p) = {p}"
| "own_name _ = {}"

fun op_names :: "bop \<Rightarrow> string set" where
  "op_names (BValue t) = own_name t"
| "op_names (BClosure ps ops) = (\<Union>x \<in> set ops. op_names x)"
| "op_names _ = {}"

definition rule_names :: "brule \<Rightarrow> string set" where
  "rule_names r =
     (\<Union>t \<in> set (bp_terms (br_head r)). own_name t) \<union> (\<Union>q \<in> set (br_body r). \<Union>t \<in> set (bp_terms q). own_name t) \<union>
     (\<Union>e \<in> set (br_expressions r). \<Union>x \<in> set (be_ops e). op_names x)"

lemma top_apply_cong: "\<forall>n \<in> own_name t. map_of ps n = map_of qs n \<Longrightarrow> top_apply_parameters ps t = top_apply_parameters qs t"
  by (cases t) simp_all

lemma op_apply_cong: "\<forall>n \<in> op_names x. map_of ps n = map_of qs n \<Longrightarrow> op_apply_parameters ps x = op_apply_parameters qs x"
proof (induction x)
  case (BValue t)
  then show ?case by (cases t) simp_all
qed simp_all

lemma rule_apply_cong:
  assumes "\<forall>n \<in> rule_names r. map_of ps n = map_of qs n"
  shows "settle_rule (r\<lparr>br_parameters := Some ps, br_scope_parameters := h\<rparr>) =
    settle_rule (r\<lparr>br_parameters := Some qs, br_scope_parameters := h\<rparr>)"
proof -
  have "map (top_apply_parameters ps) (bp_terms q) = map (top_apply_parameters qs) (bp_terms q)"
    if "q = br_head r \<or> q \<in> set (br_body r)" for q
    using assms that by (auto simp: rule_names_def intro!: top_apply_cong)
  then have predicate: "predicate_apply ps q = predicate_apply qs q" if "q = br_head r \<or> q \<in> set (br_body r)" for q
    using that by (simp add: predicate_apply_def)
  have head: "predicate_apply ps (br_head r) = predicate_apply qs (br_head r)" by (rule predicate) simp
  have body: "map (predicate_apply ps) (br_body r) = map (predicate_apply qs) (br_body r)"
    using predicate by simp
  have expressions: "map (\<lambda>e. e\<lparr>be_ops := map (op_apply_parameters ps) (be_ops e)\<rparr>) (br_expressions r) =
      map (\<lambda>e. e\<lparr>be_ops := map (op_apply_parameters qs) (be_ops e)\<rparr>) (br_expressions r)"
  proof (rule map_cong [OF refl])
    fix e assume "e \<in> set (br_expressions r)"
    then have "\<forall>n \<in> op_names x. map_of ps n = map_of qs n" if "x \<in> set (be_ops e)" for x
      using assms that unfolding rule_names_def by blast
    then have "map (op_apply_parameters ps) (be_ops e) = map (op_apply_parameters qs) (be_ops e)"
      by (simp add: op_apply_cong)
    then show "e\<lparr>be_ops := map (op_apply_parameters ps) (be_ops e)\<rparr> = e\<lparr>be_ops := map (op_apply_parameters qs) (be_ops e)\<rparr>"
      by (rule arg_cong)
  qed
  show ?thesis
    by (simp add: settle_rule_def rule_apply_parameters_def forget_parameters_def Let_def head body expressions
        split: option.split)
qed

section \<open>Facts\<close>

text \<open>Adding what is alike to builders that are alike.\<close>

lemma bb_fact_alike:
  assumes "settle bb = settle bb'" "settle_fact f = settle_fact f'" "is_ok (fact_validate f) = is_ok (fact_validate f')"
  shows "map_option settle (unwrap_outcome (bb_fact f bb)) = map_option settle (unwrap_outcome (bb_fact f' bb'))"
proof -
  have "settle (b\<lparr>bb_facts := bb_facts b @ [x]\<rparr>) = (settle b)\<lparr>bb_facts := bb_facts (settle b) @ [settle_fact x]\<rparr>" for b x
    by (simp add: settle_def)
  with assms show ?thesis
    by (cases "fact_validate f"; cases "fact_validate f'") (simp_all add: bb_fact_def)
qed

lemma bb_rule_alike:
  assumes "settle bb = settle bb'" "settle_rule r = settle_rule r'"
    and "is_ok (rule_validate_parameters r) = is_ok (rule_validate_parameters r')"
  shows "map_option settle (unwrap_outcome (bb_rule r bb)) = map_option settle (unwrap_outcome (bb_rule r' bb'))"
proof -
  have "settle (b\<lparr>bb_rules := bb_rules b @ [x]\<rparr>) = (settle b)\<lparr>bb_rules := bb_rules (settle b) @ [settle_rule x]\<rparr>" for b x
    by (simp add: settle_def)
  with assms show ?thesis
    by (cases "rule_validate_parameters r"; cases "rule_validate_parameters r'") (simp_all add: bb_rule_def)
qed

lemma bb_check_alike:
  assumes "settle bb = settle bb'" "settle_check c = settle_check c'"
    and "is_ok (check_validate_parameters c) = is_ok (check_validate_parameters c')"
  shows "map_option settle (unwrap_outcome (bb_check c bb)) = map_option settle (unwrap_outcome (bb_check c' bb'))"
proof -
  have "settle (b\<lparr>bb_checks := bb_checks b @ [x]\<rparr>) = (settle b)\<lparr>bb_checks := bb_checks (settle b) @ [settle_check x]\<rparr>" for b x
    by (simp add: settle_def)
  with assms show ?thesis
    by (cases "check_validate_parameters c"; cases "check_validate_parameters c'") (simp_all add: bb_check_def)
qed

lemma fact_validate_fill:
  assumes "bf_parameters f = Some ps" "unset_table ps"
  shows "is_ok (fact_validate (fill_fact g f)) \<longleftrightarrow> (\<forall>n \<in> fst ` set ps. g n \<noteq> None)"
  using assms unset_fill [OF assms(2), of g] by (simp add: fact_validate_def fill_fact_def)

lemma quoted_fact_tables:
  assumes "built_fact f" "\<forall>t \<in> set (as_terms (af_predicate f)). distinct_keys t"
  obtains ps qs where "quoted_fact f = \<lparr>bf_predicate = predicate_from_ast (af_predicate f), bf_parameters = Some ps\<rparr>"
    "fact_from_ast f = \<lparr>bf_predicate = predicate_from_ast (af_predicate f), bf_parameters = Some qs\<rparr>"
    "unset_table ps" "unset_table qs" "fst ` set ps = fst ` set qs" "set (names_of (af_parameters f)) = fst ` set qs"
proof -
  let ?ts = "as_terms (af_predicate f)"
  let ?ps = "fold extract_parameters (map term_from_ast ?ts) []"
  let ?qs = "fold ast_extract_parameters ?ts []"
  have f: "af_parameters f = Some ?qs"
    using assms(1) by (metis built_fact_def ast_fact_new_def ast_fact.select_convs(2))
  have ps: "fst ` set ?ps = (\<Union>t \<in> set (map term_from_ast ?ts). set (term_parameters t))"
    using fold_table_names [of extract_parameters "\<lambda>t. set (term_parameters t)" _ "[]"] by (simp add: extract_names)
  have ps': "unset_table ?ps"
    by (rule fold_table_unset) (simp_all add: extract_names)
  have qs: "fst ` set ?qs = (\<Union>t \<in> set ?ts. set (ast_term_parameters t))"
    using fold_table_names [of ast_extract_parameters "\<lambda>t. set (ast_term_parameters t)" _ "[]"] by (simp add: extract_names)
  have qs2: "unset_table ?qs"
    by (rule fold_table_unset) (simp_all add: extract_names)
  let ?qs' = "map (\<lambda>(k, v). (k, map_option term_from_ast v)) ?qs"
  have qs': "unset_table ?qs'" "fst ` set ?qs' = fst ` set ?qs"
    using qs2 by (auto simp: unset_table_def comp_def case_prod_beta' image_image)
  show ?thesis
  proof (rule that [of ?ps ?qs'])
    show "quoted_fact f = \<lparr>bf_predicate = predicate_from_ast (af_predicate f), bf_parameters = Some ?ps\<rparr>"
      by (simp add: quoted_fact_def fact_new_def predicate_from_ast_def quoting cong: map_cong)
    show "fact_from_ast f = \<lparr>bf_predicate = predicate_from_ast (af_predicate f), bf_parameters = Some ?qs'\<rparr>"
      by (simp add: fact_from_ast_def f params_from_ast_def)
    show "fst ` set ?ps = fst ` set ?qs'" using ps qs qs'(2) assms(2) by (simp add: term_names)
    show "set (names_of (af_parameters f)) = fst ` set ?qs'" using qs'(2) by (simp add: f names_of_def)
  qed (use ps' qs' in simp_all)
qed

lemma fact_simulated:
  assumes "same_values env params scope_params (set names)" "built_fact f"
    and "\<forall>t \<in> set (as_terms (af_predicate f)). distinct_keys t"
  shows "simulates settle p env names item_fact (code_fact params) f"
  unfolding simulates_def
proof (intro allI impI)
  fix us :: "(string \<times> bool) list" and bb bb' :: block_builder
  assume us: "fst ` set us \<subseteq> set names" "set (it_parameters (item_fact f)) \<subseteq> fst ` set us" and bb: "settle bb = settle bb'"
  let ?s = "fst ` set us" and ?f = "fact_from_ast f" and ?g = "map_of params"
  obtain ps qs where
    q: "quoted_fact f = \<lparr>bf_predicate = predicate_from_ast (af_predicate f), bf_parameters = Some ps\<rparr>" and
    a: "fact_from_ast f = \<lparr>bf_predicate = predicate_from_ast (af_predicate f), bf_parameters = Some qs\<rparr>" and
    unset: "unset_table ps" "unset_table qs" and names: "fst ` set ps = fst ` set qs" "set (names_of (af_parameters f)) = fst ` set qs"
    by (rule quoted_fact_tables [OF assms(2,3)])
  have ok: "table_ok (bf_parameters (quoted_fact f))" "table_ok (bf_parameters ?f)"
    using unset by (simp_all add: q a table_ok_def unset_table_def)
  have same: "env_terms env ?s n = ?g n" if "n \<in> ?s" for n
    using that us(1) by (intro same_on(1) [OF assms(1)]) auto
  have sub: "fst ` set ps \<subseteq> ?s" using us(2) names by (simp add: item_fact_def)
  have "fill (env_terms env ?s) ps = fill ?g ps"
    using sub same by (intro fill_cong) blast
  then have env: "fill_fact (env_terms env ?s) (quoted_fact f) = fill_fact ?g (quoted_fact f)"
    by (simp add: fill_fact_def q)
  have "map_of (fill ?g ps) = map_of (fill ?g qs)"
    using names(1) by (simp add: fun_eq_iff map_of_fill unset)
  then have "term_apply_parameters (fill ?g ps) = term_apply_parameters (fill ?g qs)"
    by (intro ext) (rule term_apply_cong)
  then have "settle_fact (fill_fact ?g (quoted_fact f)) = settle_fact (fill_fact ?g ?f)"
    by (simp add: settle_fact_def fact_apply_parameters_def fill_fact_def q a)
  moreover have "is_ok (fact_validate (fill_fact ?g (quoted_fact f))) = is_ok (fact_validate (fill_fact ?g ?f))"
    using fact_validate_fill [of "quoted_fact f" ps ?g] fact_validate_fill [of ?f qs ?g] unset names(1) by (simp add: q a)
  moreover have "set_all fact_set params ?f = Ok (fill_fact ?g ?f)"
    using assms(1) ok(2) by (intro fact_filler.set_all_filled) (simp_all add: same_values_def)
  ultimately show "map_option settle (run_item p env (item_fact f\<lparr>it_middle := us\<rparr>) bb) =
      map_option settle (unwrap_outcome (code_fact params f bb'))"
    using set_params_fact [OF ok(1), of env us] bb_fact_alike [OF bb]
    by (simp add: run_item_def item_fact_def code_fact_def env)
qed

section \<open>Rules\<close>

text \<open>The parameters inside the collections of an expression, which only the parser's table has.\<close>

fun op_collected :: "ast_op \<Rightarrow> string set" where
  "op_collected (AValue t) = (case t of AParameter p \<Rightarrow> {} | _ \<Rightarrow> set (ast_term_parameters t))"
| "op_collected (AClosure ps ops) = (\<Union>x \<in> set ops. op_collected x)"
| "op_collected _ = {}"

definition rule_collected :: "ast_rule \<Rightarrow> string set" where
  "rule_collected r = (\<Union>e \<in> set (ar_expressions r). \<Union>x \<in> set (ae_ops e). op_collected x)"

definition rule_distinct_keys :: "ast_rule \<Rightarrow> bool" where
  "rule_distinct_keys r \<longleftrightarrow>
     (\<forall>t \<in> set (as_terms (ar_head r)). distinct_keys t) \<and> (\<forall>q \<in> set (ar_body r). \<forall>t \<in> set (as_terms q). distinct_keys t)"

lemma own_name_ast: "own_name (term_from_ast t) \<union> op_collected (AValue t) = set (ast_term_parameters t)"
  by (cases t) auto

lemma own_name_parameters: "own_name t \<subseteq> set (term_parameters t)"
  by (cases t) simp_all

lemma collect_names:
  "fst ` set (op_collect_parameters x ps) = op_names x \<union> fst ` set ps"
  "unset_table ps \<Longrightarrow> unset_table (op_collect_parameters x ps)"
proof (induction x arbitrary: ps)
  case (BValue t)
  { case 1 show ?case by (cases t) (simp_all add: names_update) }
  { case 2 then show ?case by (cases t) (simp_all add: unset_add) }
next
  case (BClosure qs ops)
  { case 1
    have "fst ` set (fold op_collect_parameters ys ps) = (\<Union>x \<in> set ys. op_names x) \<union> fst ` set ps" if "set ys \<subseteq> set ops" for ys ps
      using that by (induction ys arbitrary: ps) (auto simp: BClosure.IH(1))
    then show ?case by simp }
  { case 2
    have "unset_table (fold op_collect_parameters ys ps)" if "set ys \<subseteq> set ops" "unset_table ps" for ys ps
      using that by (induction ys arbitrary: ps) (simp_all add: BClosure.IH(2))
    with 2 show ?case by simp }
qed simp_all

lemma ast_collect_names:
  "fst ` set (ast_op_collect x ps) = op_names (op_from_ast x) \<union> op_collected x \<union> fst ` set ps"
  "unset_table ps \<Longrightarrow> unset_table (ast_op_collect x ps)"
proof (induction x arbitrary: ps)
  case (AValue t)
  { case 1 show ?case using own_name_ast [of t] by (simp add: extract_names) }
  { case 2 then show ?case by (simp add: extract_names) }
next
  case (AClosure qs ops)
  { case 1
    have "fst ` set (fold ast_op_collect ys ps) =
        (\<Union>x \<in> set ys. op_names (op_from_ast x) \<union> op_collected x) \<union> fst ` set ps" if "set ys \<subseteq> set ops" for ys ps
      using that by (induction ys arbitrary: ps) (auto simp: AClosure.IH(1))
    then show ?case by auto }
  { case 2
    have "unset_table (fold ast_op_collect ys ps)" if "set ys \<subseteq> set ops" "unset_table ps" for ys ps
      using that by (induction ys arbitrary: ps) (simp_all add: AClosure.IH(2))
    with 2 show ?case by simp }
qed simp_all

text \<open>The table of a rule, in the builder and in the parser.\<close>

definition builder_table :: "bpredicate \<Rightarrow> bpredicate list \<Rightarrow> bexpression list \<Rightarrow> params" where
  "builder_table head body es =
     fold (\<lambda>e. fold op_collect_parameters (be_ops e)) es
       (fold (\<lambda>p. fold extract_parameters (bp_terms p)) body (fold extract_parameters (bp_terms head) []))"

definition parser_table :: "ast_rule \<Rightarrow> ast_params" where
  "parser_table r =
     fold (\<lambda>e. fold ast_op_collect (ae_ops e)) (ar_expressions r)
       (fold (\<lambda>p. fold ast_extract_parameters (as_terms p)) (ar_body r)
         (fold ast_extract_parameters (as_terms (ar_head r)) []))"

lemma builder_table_names:
  "fst ` set (builder_table head body es) =
     (\<Union>t \<in> set (bp_terms head). set (term_parameters t)) \<union> (\<Union>q \<in> set body. \<Union>t \<in> set (bp_terms q). set (term_parameters t)) \<union>
     (\<Union>e \<in> set es. \<Union>x \<in> set (be_ops e). op_names x)"
  "unset_table (builder_table head body es)"
proof -
  have terms: "fst ` set (fold extract_parameters ts ps) = (\<Union>t \<in> set ts. set (term_parameters t)) \<union> fst ` set ps" for ts ps
    by (rule fold_table_names) (rule extract_names)
  have ops: "fst ` set (fold op_collect_parameters xs ps) = (\<Union>x \<in> set xs. op_names x) \<union> fst ` set ps" for xs ps
    by (rule fold_table_names) (rule collect_names)
  have body: "fst ` set (fold (\<lambda>p. fold extract_parameters (bp_terms p)) qs ps) =
      (\<Union>q \<in> set qs. \<Union>t \<in> set (bp_terms q). set (term_parameters t)) \<union> fst ` set ps" for qs ps
    by (rule fold_table_names) (rule terms)
  have expressions: "fst ` set (fold (\<lambda>e. fold op_collect_parameters (be_ops e)) es ps) =
      (\<Union>e \<in> set es. \<Union>x \<in> set (be_ops e). op_names x) \<union> fst ` set ps" for es ps
    by (rule fold_table_names) (rule ops)
  show "fst ` set (builder_table head body es) =
     (\<Union>t \<in> set (bp_terms head). set (term_parameters t)) \<union> (\<Union>q \<in> set body. \<Union>t \<in> set (bp_terms q). set (term_parameters t)) \<union>
     (\<Union>e \<in> set es. \<Union>x \<in> set (be_ops e). op_names x)"
    by (simp add: builder_table_def terms body expressions Un_ac)
  show "unset_table (builder_table head body es)"
    unfolding builder_table_def by (intro fold_table_unset) (simp_all add: extract_names collect_names)
qed

lemma parser_table_names:
  "fst ` set (parser_table r) =
     (\<Union>t \<in> set (as_terms (ar_head r)). set (ast_term_parameters t)) \<union>
     (\<Union>q \<in> set (ar_body r). \<Union>t \<in> set (as_terms q). set (ast_term_parameters t)) \<union>
     (\<Union>e \<in> set (ar_expressions r). \<Union>x \<in> set (ae_ops e). op_names (op_from_ast x) \<union> op_collected x)"
  "unset_table (parser_table r)"
proof -
  have terms: "fst ` set (fold ast_extract_parameters ts ps) = (\<Union>t \<in> set ts. set (ast_term_parameters t)) \<union> fst ` set ps" for ts ps
    by (rule fold_table_names) (rule extract_names)
  have ops: "fst ` set (fold ast_op_collect xs ps) = (\<Union>x \<in> set xs. op_names (op_from_ast x) \<union> op_collected x) \<union> fst ` set ps" for xs ps
    by (rule fold_table_names) (rule ast_collect_names)
  have body: "fst ` set (fold (\<lambda>p. fold ast_extract_parameters (as_terms p)) qs ps) =
      (\<Union>q \<in> set qs. \<Union>t \<in> set (as_terms q). set (ast_term_parameters t)) \<union> fst ` set ps" for qs ps
    by (rule fold_table_names) (rule terms)
  have expressions: "fst ` set (fold (\<lambda>e. fold ast_op_collect (ae_ops e)) es ps) =
      (\<Union>e \<in> set es. \<Union>x \<in> set (ae_ops e). op_names (op_from_ast x) \<union> op_collected x) \<union> fst ` set ps" for es ps
    by (rule fold_table_names) (rule ops)
  show "fst ` set (parser_table r) =
     (\<Union>t \<in> set (as_terms (ar_head r)). set (ast_term_parameters t)) \<union>
     (\<Union>q \<in> set (ar_body r). \<Union>t \<in> set (as_terms q). set (ast_term_parameters t)) \<union>
     (\<Union>e \<in> set (ar_expressions r). \<Union>x \<in> set (ae_ops e). op_names (op_from_ast x) \<union> op_collected x)"
    by (simp add: parser_table_def terms body expressions Un_ac)
  show "unset_table (parser_table r)"
    unfolding parser_table_def by (intro fold_table_unset) (simp_all add: extract_names ast_collect_names)
qed

lemma tables_differ:
  assumes "rule_distinct_keys r"
  shows "fst ` set (parser_table r) =
    fst ` set (builder_table (predicate_from_ast (ar_head r)) (map predicate_from_ast (ar_body r))
      (map expression_from_ast (ar_expressions r))) \<union> rule_collected r"
proof -
  have "(\<Union>t \<in> set (as_terms q). set (ast_term_parameters t)) = (\<Union>t \<in> set (bp_terms (predicate_from_ast q)). set (term_parameters t))"
    if "q = ar_head r \<or> q \<in> set (ar_body r)" for q
    using assms that by (auto simp: rule_distinct_keys_def predicate_from_ast_def term_names)
  then show ?thesis
    unfolding parser_table_names builder_table_names rule_collected_def
    by (auto simp: expression_from_ast_def)
qed

text \<open>
  A quoted rule and the converted rule with their parameters set: the same when they are applied,
  and complete together.
\<close>

definition alike :: "(string \<rightharpoonup> bterm) \<Rightarrow> (string \<rightharpoonup> public_key) \<Rightarrow> brule \<Rightarrow> brule \<Rightarrow> bool" where
  "alike g h q r \<longleftrightarrow>
     rule_ok q \<and> rule_ok r \<and> settle_rule (fill_rule g h q) = settle_rule (fill_rule g h r) \<and>
     is_ok (rule_validate_parameters (fill_rule g h q)) = is_ok (rule_validate_parameters (fill_rule g h r)) \<and>
     set (names_of (br_parameters q)) \<subseteq> set (names_of (br_parameters r)) \<and>
     set (names_of (br_scope_parameters q)) \<subseteq> set (names_of (br_scope_parameters r))"

lemma rule_validate_fill:
  assumes "br_parameters r = Some ps" "br_scope_parameters r = Some hs" "unset_table ps" "unset_table hs"
  shows "is_ok (rule_validate_parameters (fill_rule g h r)) \<longleftrightarrow>
    (\<forall>n \<in> fst ` set ps. g n \<noteq> None) \<and> (\<forall>n \<in> fst ` set hs. h n \<noteq> None)"
  using assms(1,2) unset_fill [OF assms(3), of g] unset_fill [OF assms(4), of h]
  by (simp add: rule_validate_parameters_def fill_rule_def Let_def)

lemma unset_blank: "distinct (map fst qs) \<Longrightarrow> unset_table (blank qs)"
  by (auto simp: unset_table_def blank_def comp_def case_prod_beta')

lemma alike_tables:
  assumes unset: "unset_table ps" "unset_table qs" "unset_table hs"
    and "fst ` set ps \<subseteq> fst ` set qs" "rule_names r \<subseteq> fst ` set ps" "\<forall>n \<in> fst ` set qs - fst ` set ps. g n \<noteq> None"
  shows "alike g h (r\<lparr>br_parameters := Some ps, br_scope_parameters := Some hs\<rparr>)
    (r\<lparr>br_parameters := Some qs, br_scope_parameters := Some hs\<rparr>)" (is "alike g h ?q ?r")
proof -
  have "\<forall>n \<in> rule_names r. map_of (fill g ps) n = map_of (fill g qs) n"
    using assms(4,5) by (auto simp: map_of_fill unset)
  from rule_apply_cong [OF this, of "Some (fill h hs)"]
  have "settle_rule (fill_rule g h ?q) = settle_rule (fill_rule g h ?r)" by (simp add: fill_rule_def)
  moreover have "is_ok (rule_validate_parameters (fill_rule g h ?q)) = is_ok (rule_validate_parameters (fill_rule g h ?r))"
  proof -
    have "is_ok (rule_validate_parameters (fill_rule g h ?q)) \<longleftrightarrow>
        (\<forall>n \<in> fst ` set ps. g n \<noteq> None) \<and> (\<forall>n \<in> fst ` set hs. h n \<noteq> None)"
      by (rule rule_validate_fill [OF _ _ unset(1,3)]) simp_all
    moreover have "is_ok (rule_validate_parameters (fill_rule g h ?r)) \<longleftrightarrow>
        (\<forall>n \<in> fst ` set qs. g n \<noteq> None) \<and> (\<forall>n \<in> fst ` set hs. h n \<noteq> None)"
      by (rule rule_validate_fill [OF _ _ unset(2,3)]) simp_all
    moreover have "(\<forall>n \<in> fst ` set ps. g n \<noteq> None) \<longleftrightarrow> (\<forall>n \<in> fst ` set qs. g n \<noteq> None)"
    proof
      assume ps: "\<forall>n \<in> fst ` set ps. g n \<noteq> None"
      show "\<forall>n \<in> fst ` set qs. g n \<noteq> None"
      proof
        fix n assume "n \<in> fst ` set qs"
        then show "g n \<noteq> None" using ps assms(6) by (cases "n \<in> fst ` set ps") blast+
      qed
    qed (use assms(4) in blast)
    ultimately show ?thesis by (simp only:)
  qed
  ultimately show ?thesis
    using unset assms(4) by (simp add: alike_def rule_ok_def table_ok_def unset_table_def names_of_def)
qed

lemma quoted_rule_alike:
  assumes "built_rule r" "rule_distinct_keys r" "\<forall>n \<in> rule_collected r. g n \<noteq> None"
  shows "rel_option (alike g h) (quoted_rule p r) (rule_from_ast p r)"
proof (cases "those (map (scope_from_ast p) (ar_scopes r))")
  case None
  then show ?thesis by (simp add: quoted_rule_def rule_from_ast_def quoting cong: map_cong)
next
  case (Some us)
  let ?head = "predicate_from_ast (ar_head r)" and ?body = "map predicate_from_ast (ar_body r)"
    and ?es = "map expression_from_ast (ar_expressions r)"
  let ?ps = "builder_table ?head ?body ?es" and ?pt = "parser_table r"
    and ?ht = "fold ast_scope_collect (ar_scopes r) []"
  let ?qs = "map (\<lambda>(k, v). (k, map_option term_from_ast v)) ?pt" and ?hs = "blank ?ht"
  let ?R = "\<lparr>br_head = ?head, br_body = ?body, br_expressions = ?es, br_parameters = None, br_scopes = us,
    br_scope_parameters = None\<rparr>"
  have r: "ar_parameters r = Some ?pt" "ar_scope_parameters r = Some ?ht"
    using assms(1) unfolding parser_table_def by (metis built_rule_def ast_rule_new_def ast_rule.select_convs(4,6))+
  have scopes: "fold scope_collect us [] = ?hs"
    using blank_scopes [OF Some, of "[]"] by (simp add: blank_def)
  have params: "scope_params_from_ast p (Some ?ht) = Some (Some ?hs)"
    by (intro unset_from_ast unset_scopes) (simp add: unset_def)
  have quoted: "quoted_rule p r = Some (?R\<lparr>br_parameters := Some ?ps, br_scope_parameters := Some ?hs\<rparr>)"
    using Some by (simp add: quoted_rule_def rule_new_def builder_table_def scopes quoting cong: map_cong)
  have converted: "rule_from_ast p r = Some (?R\<lparr>br_parameters := Some ?qs, br_scope_parameters := Some ?hs\<rparr>)"
    using Some params by (simp add: rule_from_ast_def r params_from_ast_def)
  have qs: "unset_table ?qs" "fst ` set ?qs = fst ` set ?pt"
    using parser_table_names(2) [of r] by (auto simp: unset_table_def comp_def case_prod_beta' image_image)
  have hs: "unset_table ?hs" by (intro unset_blank distinct_fold) (simp_all add: distinct_scopes)
  have names: "fst ` set ?qs = fst ` set ?ps \<union> rule_collected r"
    using tables_differ [OF assms(2)] qs(2) by simp
  have own: "rule_names ?R \<subseteq> fst ` set ?ps"
    unfolding rule_names_def builder_table_names using own_name_parameters by fastforce
  have "alike g h (?R\<lparr>br_parameters := Some ?ps, br_scope_parameters := Some ?hs\<rparr>)
      (?R\<lparr>br_parameters := Some ?qs, br_scope_parameters := Some ?hs\<rparr>)"
    by (rule alike_tables [OF builder_table_names(2) qs(1) hs _ own]) (use names assms(3) in auto)
  then show ?thesis by (simp only: quoted converted option.rel_inject)
qed

lemma rule_simulated:
  assumes "same_values env params scope_params (set names)" "built_rule r" "rule_distinct_keys r"
    and "\<forall>n \<in> rule_collected r. map_of params n \<noteq> None"
  shows "simulates settle p env names item_rule (code_rule p params scope_params) r"
  unfolding simulates_def
proof (intro allI impI)
  fix us :: "(string \<times> bool) list" and bb bb' :: block_builder
  assume us: "fst ` set us \<subseteq> set names" "set (it_parameters (item_rule r)) \<subseteq> fst ` set us" and bb: "settle bb = settle bb'"
  let ?s = "fst ` set us" and ?g = "map_of params" and ?h = "map_of scope_params"
  have same: "env_terms env ?s n = ?g n" "env_keys env ?s n = ?h n" if "n \<in> ?s" for n
    using that us(1) by (intro same_on [OF assms(1)]; auto)+
  show "map_option settle (run_item p env (item_rule r\<lparr>it_middle := us\<rparr>) bb) =
      map_option settle (unwrap_outcome (code_rule p params scope_params r bb'))"
    using quoted_rule_alike [OF assms(2-4), of ?h p]
  proof (cases rule: option.rel_cases)
    case None
    then show ?thesis by (simp add: run_item_def item_rule_def code_rule_def)
  next
    case (Some q r')
    then have q: "rule_ok q" "rule_ok r'" "settle_rule (fill_rule ?g ?h q) = settle_rule (fill_rule ?g ?h r')"
      "is_ok (rule_validate_parameters (fill_rule ?g ?h q)) = is_ok (rule_validate_parameters (fill_rule ?g ?h r'))"
      "set (names_of (br_parameters q)) \<subseteq> set (names_of (br_parameters r'))"
      "set (names_of (br_scope_parameters q)) \<subseteq> set (names_of (br_scope_parameters r'))"
      by (simp_all add: alike_def)
    have "set (names_of (br_parameters q)) \<subseteq> ?s" "set (names_of (br_scope_parameters q)) \<subseteq> ?s"
      using q(5,6) us(2) rule_from_ast_tables(1,2) [OF Some(2)] by (auto simp: item_rule_def rule_params_def)
    then have env: "fill_rule (env_terms env ?s) (env_keys env ?s) q = fill_rule ?g ?h q"
      using same by (intro fill_rule_same [of _ ?s])
    show ?thesis
      using set_params_rule [OF q(1), of env us] set_all_rule [OF q(2) assms(1)] Some bb_rule_alike [OF bb q(3,4)]
      by (simp add: run_item_def item_rule_def code_rule_def env)
  qed
qed

lemma those_alike:
  "(\<And>x. x \<in> set xs \<Longrightarrow> rel_option R (f x) (f' x)) \<Longrightarrow> rel_option (list_all2 R) (those (map f xs)) (those (map f' xs))"
proof (induction xs)
  case (Cons x xs)
  from Cons.prems [of x] Cons.IH Cons.prems show ?case
    by (cases "f x"; cases "f' x"; cases "those (map f xs)"; cases "those (map f' xs)") auto
qed simp

lemma traverse_ok: "is_ok (traverse f xs) \<longleftrightarrow> (\<forall>x \<in> set xs. is_ok (f x))"
proof (induction xs)
  case (Cons x xs)
  then show ?case by (cases "f x"; cases "traverse f xs") auto
qed simp

lemma check_simulated:
  assumes "same_values env params scope_params (set names)"
    and built: "\<And>r. r \<in> set (ac_queries c) \<Longrightarrow> built_rule r \<and> rule_distinct_keys r \<and> (\<forall>n \<in> rule_collected r. map_of params n \<noteq> None)"
  shows "simulates settle p env names item_check (code_check p params scope_params) c"
  unfolding simulates_def
proof (intro allI impI)
  fix us :: "(string \<times> bool) list" and bb bb' :: block_builder
  assume us: "fst ` set us \<subseteq> set names" "set (it_parameters (item_check c)) \<subseteq> fst ` set us" and bb: "settle bb = settle bb'"
  let ?s = "fst ` set us" and ?g = "map_of params" and ?h = "map_of scope_params"
  have same: "env_terms env ?s n = ?g n" "env_keys env ?s n = ?h n" if "n \<in> ?s" for n
    using that us(1) by (intro same_on [OF assms(1)]; auto)+
  have "rel_option (list_all2 (alike ?g ?h)) (those (map (quoted_rule p) (ac_queries c))) (those (map (rule_from_ast p) (ac_queries c)))"
    using built by (intro those_alike quoted_rule_alike) auto
  then show "map_option settle (run_item p env (item_check c\<lparr>it_middle := us\<rparr>) bb) =
      map_option settle (unwrap_outcome (code_check p params scope_params c bb'))"
  proof (cases rule: option.rel_cases)
    case None
    then show ?thesis by (simp add: run_item_def item_check_def code_check_def quoted_check_def check_from_ast_def)
  next
    case (Some qs rs)
    let ?c = "\<lparr>bc_queries = qs, bc_kind = ac_kind c\<rparr>" and ?c' = "\<lparr>bc_queries = rs, bc_kind = ac_kind c\<rparr>"
    have c': "check_from_ast p c = Some ?c'" using Some(2) by (simp add: check_from_ast_def)
    have c: "quoted_check p c = Some ?c" using Some(1) by (simp add: quoted_check_def quoting)
    have ok: "\<forall>q \<in> set (bc_queries ?c). rule_ok q" "\<forall>q \<in> set (bc_queries ?c'). rule_ok q"
      using Some(3) by (auto simp: list_all2_conv_all_nth in_set_conv_nth alike_def)
    have names: "set (names_of (br_parameters q)) \<subseteq> ?s \<and> set (names_of (br_scope_parameters q)) \<subseteq> ?s" if "q \<in> set qs" for q
    proof -
      have "list_all2 R xs ys \<Longrightarrow> x \<in> set xs \<Longrightarrow> \<exists>y \<in> set ys. R x y" for R :: "brule \<Rightarrow> brule \<Rightarrow> bool" and xs ys x
        by (induction rule: list_all2_induct) auto
      from this [OF Some(3) that] obtain r where "r \<in> set (bc_queries ?c')" "alike ?g ?h q r" by auto
      then have "set (names_of (br_parameters q)) \<subseteq> set (names_of (br_parameters r))"
        "set (names_of (br_scope_parameters q)) \<subseteq> set (names_of (br_scope_parameters r))"
        by (simp_all add: alike_def)
      moreover have "\<forall>r \<in> set (ac_queries c). built_rule r" using built by blast
      note check_from_ast_tables(2,3) [OF c' this \<open>r \<in> set (bc_queries ?c')\<close>]
      moreover have "set (concat (map rule_params (ac_queries c))) \<subseteq> ?s" using us(2) by (simp add: item_check_def)
      ultimately show ?thesis by blast
    qed
    have "fill_rule (env_terms env ?s) (env_keys env ?s) q = fill_rule ?g ?h q" if "q \<in> set qs" for q
      using names [OF that] same by (intro fill_rule_same [of _ ?s]) blast+
    then have env: "fill_check (env_terms env ?s) (env_keys env ?s) ?c = fill_check ?g ?h ?c"
      by (simp add: fill_check_def)
    have "map settle_rule (map (fill_rule ?g ?h) qs) = map settle_rule (map (fill_rule ?g ?h) rs)"
      using Some(3) by (auto simp: list_all2_conv_all_nth alike_def intro!: nth_equalityI)
    then have settled: "settle_check (fill_check ?g ?h ?c) = settle_check (fill_check ?g ?h ?c')"
      by (simp add: settle_check_def fill_check_def)
    have "(\<forall>q \<in> set qs. is_ok (rule_validate_parameters (fill_rule ?g ?h q))) =
        (\<forall>r \<in> set rs. is_ok (rule_validate_parameters (fill_rule ?g ?h r)))"
      using Some(3) by (induction rule: list_all2_induct) (simp_all add: alike_def)
    moreover have "is_ok (check_validate_parameters d) \<longleftrightarrow> (\<forall>q \<in> set (bc_queries d). is_ok (rule_validate_parameters q))" for d
      unfolding check_validate_parameters_def traverse_ok [symmetric]
      by (cases "traverse rule_validate_parameters (bc_queries d)") simp_all
    ultimately have valid: "is_ok (check_validate_parameters (fill_check ?g ?h ?c)) =
        is_ok (check_validate_parameters (fill_check ?g ?h ?c'))"
      by (simp add: fill_check_def)
    show ?thesis
      using set_params_check [OF ok(1), of env us] set_all_check [OF ok(2) assms(1)] c c' bb_check_alike [OF bb settled valid]
      by (simp add: run_item_def item_check_def code_check_def env)
  qed
qed

section \<open>The code of a macro\<close>

text \<open>
  What the parser makes: statements by their constructors, maps with distinct keys.  The second
  definition collects the parameters inside the collections of its expressions.
\<close>

definition built_source :: "ast_source \<Rightarrow> bool" where
  "built_source src \<longleftrightarrow>
     (\<forall>f \<in> set (map snd (sr_facts src)). built_fact f \<and> (\<forall>t \<in> set (as_terms (af_predicate f)). distinct_keys t)) \<and>
     (\<forall>r \<in> set (map snd (sr_rules src)). built_rule r \<and> rule_distinct_keys r) \<and>
     (\<forall>c \<in> set (map snd (sr_checks src)). \<forall>r \<in> set (ac_queries c). built_rule r \<and> rule_distinct_keys r)"

definition source_collected :: "ast_source \<Rightarrow> string set" where
  "source_collected src =
     (\<Union>r \<in> set (map snd (sr_rules src)). rule_collected r) \<union>
     (\<Union>c \<in> set (map snd (sr_checks src)). \<Union>r \<in> set (ac_queries c). rule_collected r)"

text \<open>
  C29: the code that \<open>block_merge!\<close> generates does, when it runs, what
  \<open>BlockBuilder::code_with_params\<close> does with the same source and the values of the variables: it
  panics where the builder fails, and else the two leave builders that are equal once their parameters
  are applied, and build the same block.  Parameters may be anywhere in the source; those inside a
  set, an array or a map of an expression must have a term as their value.  When no parameter of the
  source is inside a set, an array or a map, the builders are the same even before parameters are
  applied.
\<close>

theorem macro_is_code:
  assumes "block_merge_macro scopes element target source pairs = Some (Ok g)"
    and "parse_block_source scopes element source = Some (Ok src)" "built_source src"
    and "same_values env params scope_params (fst ` set (uses (gc_items g)))"
    and "\<forall>n \<in> source_collected src. map_of params n \<noteq> None"
  shows "let run = run_items p env (gc_items g) bb;
      code = (case bb_code_text_with_params p scopes element source params scope_params bb of
        Some (Ok bb') \<Rightarrow> Some bb' | _ \<Rightarrow> None)
    in map_option settle run = map_option settle code \<and>
       map_option (\<lambda>b. bb_build b symbols) run = map_option (\<lambda>b. bb_build b symbols) code \<and>
       (plain_source src \<longrightarrow> run = code)"
proof -
  from assms(1) obtain b where b: "mb_block_source scopes element ''BlockBuilder'' (Some target) source (parsed_parameters pairs) = Some (Ok b)"
    and g: "g = mb_to_tokens b"
    by (auto simp: block_merge_macro_def expand_def outcome_simps)
  have wf: "builder_wf b" using block_source_made [OF b] by (simp add: macro_made_def)
  have items: "mb_items b = map item_fact (map snd (sr_facts src)) @ map item_rule (map snd (sr_rules src)) @
      map item_check (map snd (sr_checks src)) @ []"
    using b assms(2) by (elim block_source_builder) (simp add: block_source_items)
  have same: "same_values env params scope_params (set (mb_datalog_parameters b))"
    using assms(4) by (simp only: g tokens_uses [OF wf])
  have code: "(case bb_code_text_with_params p scopes element source params scope_params bb of Some (Ok bb') \<Rightarrow> Some bb' | _ \<Rightarrow> None) =
      unwrap_outcome (code_source p params scope_params src bb)"
    using assms(2) by (cases "code_source p params scope_params src bb") (simp_all add: bb_code_text_with_params_def)
  have settled: "map_option settle (run_items p env (gc_items g) bb) =
      map_option settle (unwrap_outcome (code_source p params scope_params src bb))"
    unfolding g
  proof (rule run_source [OF wf items])
    show "f \<in> set (map snd (sr_facts src)) \<Longrightarrow> simulates settle p env (mb_datalog_parameters b) item_fact (code_fact params) f" for f
      using assms(3) by (intro fact_simulated [OF same]) (auto simp: built_source_def)
    show "r \<in> set (map snd (sr_rules src)) \<Longrightarrow>
        simulates settle p env (mb_datalog_parameters b) item_rule (code_rule p params scope_params) r" for r
      using assms(3,5) by (intro rule_simulated [OF same]) (auto simp: built_source_def source_collected_def)
    show "c \<in> set (map snd (sr_checks src)) \<Longrightarrow>
        simulates settle p env (mb_datalog_parameters b) item_check (code_check p params scope_params) c" for c
      using assms(3,5) by (intro check_simulated [OF same]) (auto simp: built_source_def source_collected_def)
  qed
  moreover have "run_items p env (gc_items g) bb = unwrap_outcome (code_source p params scope_params src bb)" if "plain_source src"
  proof -
    have "map_option id (run_items p env (gc_items g) bb) = map_option id (unwrap_outcome (code_source p params scope_params src bb))"
      unfolding g using that by (intro run_source [OF wf items] plain_simulated [OF same]) (auto simp: plain_source_def)
    then show ?thesis by (simp add: option.map_id)
  qed
  moreover have "map_option (\<lambda>b. bb_build b symbols) x = map_option (\<lambda>b. bb_build b symbols) y"
    if "map_option settle x = map_option settle y" for x y
    using that build_settle by (cases x; cases y) (simp_all, metis)
  ultimately show ?thesis unfolding code Let_def by blast
qed

text \<open>\<open>f([1, {x}])\<close> with \<open>x = 1\<close>.\<close>

theorem macro_is_code_witness:
  "map_option settle (run_items demo (\<lambda>n. AnyTerm (BInteger 1)) (gc_items quoted_code) bb_new) =
     map_option settle (case bb_code_text_with_params demo quoted_scopes quoted_element ''f'' [(''x'', BInteger 1)] [] bb_new of
       Some (Ok bb') \<Rightarrow> Some bb' | _ \<Rightarrow> None)"
proof -
  have "built_source (source_empty\<lparr>sr_facts := [(''f'', ast_fact_new ''f'' [AArray [AInteger 1, AParameter ''x'']])]\<rparr>)"
    by (simp add: built_source_def source_empty_def built_fact_def ast_fact_new_def)
  moreover have "same_values (\<lambda>n. AnyTerm (BInteger 1)) [(''x'', BInteger 1)] [] (fst ` set (uses (gc_items quoted_code)))"
    by (simp add: same_values_def uses_def quoted_code_def env_terms_def env_keys_def)
  moreover have "\<forall>n \<in> source_collected (source_empty\<lparr>sr_facts := [(''f'', ast_fact_new ''f'' [AArray [AInteger 1, AParameter ''x'']])]\<rparr>).
      map_of [(''x'', BInteger 1)] n \<noteq> None"
    by (simp add: source_collected_def source_empty_def)
  ultimately show ?thesis
    using macro_is_code [OF quoted_macro quoted_source, of "\<lambda>n. AnyTerm (BInteger 1)" "[(''x'', BInteger 1)]" "[]" demo bb_new]
    by (simp only: Let_def)
qed

end
