(* ===== verification/Typing.thy ===== *)
theory Typing
  imports Expressions
begin

text \<open>
  Types of expressions.  The engine checks the types of operands when it evaluates; this theory says
  which expressions pass those checks.  The types are those that the operators of
  \<open>datalog/expression.rs\<close> distinguish, with one type for the elements of a collection; \<open>TAny\<close> is the
  type of every value.  Foreign functions have no type.
\<close>

section \<open>Types of values\<close>

datatype vtype =
    TAny
  | TInteger
  | TStr
  | TDate
  | TBytes
  | TBool
  | TNull
  | TSet vtype
  | TArray vtype
  | TMap vtype

text \<open>A map's type is that of its values.\<close>

fun of_type :: "vtype \<Rightarrow> dterm \<Rightarrow> bool" where
  "of_type TAny t = (case t of Variable i \<Rightarrow> False | _ \<Rightarrow> True)"
| "of_type TInteger t = (case t of Integer i \<Rightarrow> True | _ \<Rightarrow> False)"
| "of_type TStr t = (case t of Str i \<Rightarrow> True | _ \<Rightarrow> False)"
| "of_type TDate t = (case t of Date d \<Rightarrow> True | _ \<Rightarrow> False)"
| "of_type TBytes t = (case t of Bytes b \<Rightarrow> True | _ \<Rightarrow> False)"
| "of_type TBool t = (case t of Bool b \<Rightarrow> True | _ \<Rightarrow> False)"
| "of_type TNull t = (case t of Null \<Rightarrow> True | _ \<Rightarrow> False)"
| "of_type (TSet a) t = (case t of Set ts \<Rightarrow> list_all (of_type a) ts | _ \<Rightarrow> False)"
| "of_type (TArray a) t = (case t of Array ts \<Rightarrow> list_all (of_type a) ts | _ \<Rightarrow> False)"
| "of_type (TMap a) t = (case t of Map m \<Rightarrow> list_all (\<lambda>(k, u). of_type a u) m | _ \<Rightarrow> False)"

fun has_length :: "vtype \<Rightarrow> bool" where
  "has_length TStr = True"
| "has_length TBytes = True"
| "has_length (TSet a) = True"
| "has_length (TArray a) = True"
| "has_length (TMap a) = True"
| "has_length _ = False"

text \<open>What a set can be asked to contain: a value of a simple type, or a set.\<close>

fun in_sets :: "vtype \<Rightarrow> bool" where
  "in_sets TInteger = True"
| "in_sets TStr = True"
| "in_sets TDate = True"
| "in_sets TBytes = True"
| "in_sets TBool = True"
| "in_sets (TSet a) = True"
| "in_sets _ = False"

text \<open>The type of what \<open>all\<close> and \<open>any\<close> go through: the entries of a map are arrays of a key and a value.\<close>

fun item_type :: "vtype \<Rightarrow> vtype option" where
  "item_type (TSet a) = Some a"
| "item_type (TArray a) = Some a"
| "item_type (TMap a) = Some (TArray TAny)"
| "item_type _ = None"

section \<open>Types of expressions\<close>

definition orderings :: "binary set" where
  "orderings = {LessThan, GreaterThan, LessOrEqual, GreaterOrEqual}"

definition arithmetic :: "binary set" where
  "arithmetic = {Add, Sub, Mul, Div, BitwiseAnd, BitwiseOr, BitwiseXor}"

inductive typed :: "(nat \<rightharpoonup> vtype) \<Rightarrow> expr_tree \<Rightarrow> vtype \<Rightarrow> bool" where
  Value: "of_type a t \<Longrightarrow> typed G (EValue t) a"
| Var: "G i = Some a \<Longrightarrow> typed G (EValue (Variable i)) a"
| Any: "typed G e a \<Longrightarrow> typed G e TAny"
| Negate: "typed G e TBool \<Longrightarrow> typed G (EUnary Negate e) TBool"
| Parens: "typed G e a \<Longrightarrow> typed G (EUnary Parens e) a"
| Length: "typed G e a \<Longrightarrow> has_length a \<Longrightarrow> typed G (EUnary Length e) TInteger"
| TypeOf: "typed G e a \<Longrightarrow> typed G (EUnary TypeOf e) TStr"
| Order: "typed G l a \<Longrightarrow> typed G r a \<Longrightarrow> a \<in> {TInteger, TDate} \<Longrightarrow> b \<in> orderings \<Longrightarrow> typed G (EBinary b l r) TBool"
| Equal: "typed G l a \<Longrightarrow> typed G r a \<Longrightarrow> a \<noteq> TAny \<Longrightarrow> b \<in> {Equal, NotEqual} \<Longrightarrow> typed G (EBinary b l r) TBool"
| Hetero: "typed G l a \<Longrightarrow> typed G r c \<Longrightarrow> b \<in> {HeterogeneousEqual, HeterogeneousNotEqual} \<Longrightarrow>
    typed G (EBinary b l r) TBool"
| Contains_str: "typed G l TStr \<Longrightarrow> typed G r TStr \<Longrightarrow> typed G (EBinary Contains l r) TBool"
| Contains_set: "typed G l (TSet a) \<Longrightarrow> typed G r c \<Longrightarrow> in_sets c \<Longrightarrow> typed G (EBinary Contains l r) TBool"
| Contains_items: "typed G l c \<Longrightarrow> c \<in> {TArray a, TMap a} \<Longrightarrow> typed G r d \<Longrightarrow> typed G (EBinary Contains l r) TBool"
| Affix: "typed G l a \<Longrightarrow> typed G r c \<Longrightarrow> a = TStr \<and> c = TStr \<or> a = TArray d \<and> c = TArray f \<Longrightarrow> b \<in> {Prefix, Suffix} \<Longrightarrow>
    typed G (EBinary b l r) TBool"
| Regex: "typed G l TStr \<Longrightarrow> typed G r TStr \<Longrightarrow> typed G (EBinary Regex l r) TBool"
| Arithmetic: "typed G l TInteger \<Longrightarrow> typed G r TInteger \<Longrightarrow> b \<in> arithmetic \<Longrightarrow> typed G (EBinary b l r) TInteger"
| Concat: "typed G l TStr \<Longrightarrow> typed G r TStr \<Longrightarrow> typed G (EBinary Add l r) TStr"
| Logic: "typed G l TBool \<Longrightarrow> typed G r TBool \<Longrightarrow> b \<in> {And_op, Or_op} \<Longrightarrow> typed G (EBinary b l r) TBool"
| Intersection: "typed G l (TSet a) \<Longrightarrow> typed G r (TSet c) \<Longrightarrow> typed G (EBinary Intersection l r) (TSet a)"
| Union: "typed G l (TSet a) \<Longrightarrow> typed G r (TSet a) \<Longrightarrow> typed G (EBinary Union_op l r) (TSet a)"
| Get: "typed G l c \<Longrightarrow> typed G r d \<Longrightarrow> c = TArray a \<and> d = TInteger \<or> c = TMap a \<and> d \<in> {TInteger, TStr} \<Longrightarrow>
    typed G (EBinary Get l r) TAny"
| Lazy: "typed G l TBool \<Longrightarrow> typed G r TBool \<Longrightarrow> b \<in> {LazyAnd, LazyOr} \<Longrightarrow> typed G (EBinary b l (EClosure [] r)) TBool"
| Items: "typed G l c \<Longrightarrow> item_type c = Some a \<Longrightarrow> G i = None \<Longrightarrow> typed (G(i \<mapsto> a)) r TBool \<Longrightarrow> b \<in> {All_op, Any_op} \<Longrightarrow>
    typed G (EBinary b l (EClosure [i] r)) TBool"
| TryOr: "typed G l a \<Longrightarrow> typed G r a \<Longrightarrow> typed G (EBinary TryOr (EClosure [] l) r) a"

section \<open>Well-typed expressions evaluate\<close>

text \<open>The errors that the types do not exclude.\<close>

fun value_error :: "expr_error \<Rightarrow> bool" where
  "value_error Overflow = True"
| "value_error DivideByZero = True"
| "value_error (UnknownSymbol i) = True"
| "value_error _ = False"

definition result_ok :: "vtype \<Rightarrow> (expr_error, dterm) outcome \<Rightarrow> bool" where
  "result_ok a r = (case r of Ok t \<Rightarrow> of_type a t | Err e \<Rightarrow> value_error e | Panic \<Rightarrow> False)"

text \<open>Bindings that give every typed variable a value of its type, and no other variable a value.\<close>

definition bindings_ok :: "(nat \<rightharpoonup> vtype) \<Rightarrow> bindings \<Rightarrow> bool" where
  "bindings_ok G vs \<longleftrightarrow> (\<forall>i. rel_option of_type (G i) (vs i))"

lemma result_simps [simp]:
  "result_ok a (Ok t) = of_type a t" "result_ok a (Err e) = value_error e" "\<not> result_ok a Panic"
  by (simp_all add: result_ok_def)

lemma of_type_any: "of_type a t \<Longrightarrow> of_type TAny t"
  by (cases a; cases t) simp_all

lemma result_any: "result_ok a r \<Longrightarrow> result_ok TAny r"
  using of_type_any by (cases r) auto

lemma typed_open: "typed G e a \<Longrightarrow> \<not> is_closure e"
  by (induction rule: typed.induct) simp_all

lemma of_type_cases [simp]:
  "of_type TInteger t \<longleftrightarrow> (\<exists>i. t = Integer i)" "of_type TStr t \<longleftrightarrow> (\<exists>i. t = Str i)"
  "of_type TDate t \<longleftrightarrow> (\<exists>d. t = Date d)" "of_type TBytes t \<longleftrightarrow> (\<exists>b. t = Bytes b)"
  "of_type TBool t \<longleftrightarrow> (\<exists>b. t = Bool b)" "of_type TNull t \<longleftrightarrow> t = Null"
  "of_type (TSet a) t \<longleftrightarrow> (\<exists>ts. t = Set ts \<and> list_all (of_type a) ts)"
  "of_type (TArray a) t \<longleftrightarrow> (\<exists>ts. t = Array ts \<and> list_all (of_type a) ts)"
  "of_type (TMap a) t \<longleftrightarrow> (\<exists>m. t = Map m \<and> list_all (\<lambda>(k, u). of_type a u) m)"
  by (cases t; auto)+

lemma of_type_values [simp]:
  "of_type TAny Null" "of_type TAny (Array ts)" "of_type TAny (Integer j)" "of_type TAny (Str i)"
  by simp_all

declare of_type.simps [simp del]

lemma checked_ok: "value_error e \<Longrightarrow> result_ok TInteger (checked_result e r)"
  by (cases r) (simp_all add: checked_result_def)

lemma string_test_ok: "result_ok TBool (string_test s f x y)"
  by (simp add: string_test_def two_strings_def split: option.split)

lemma intern_ok: "result_ok TStr (fst (intern_string x s))"
  by (simp add: intern_string_def split: prod.split)

section \<open>Operators on typed values\<close>

lemma order_ok:
  "of_type a x \<Longrightarrow> of_type a y \<Longrightarrow> a \<in> {TInteger, TDate} \<Longrightarrow> b \<in> orderings \<Longrightarrow>
   result_ok TBool (fst (binary_evaluate rx externs b x y s))"
  by (auto simp: orderings_def pure_result_def)

lemma equal_ok:
  "of_type a x \<Longrightarrow> of_type a y \<Longrightarrow> a \<noteq> TAny \<Longrightarrow> b \<in> {Equal, NotEqual} \<Longrightarrow>
   result_ok TBool (fst (binary_evaluate rx externs b x y s))"
  by (cases a) (auto simp: pure_result_def strict_equality_def)

lemma hetero_ok:
  "b \<in> {HeterogeneousEqual, HeterogeneousNotEqual} \<Longrightarrow> result_ok TBool (fst (binary_evaluate rx externs b x y s))"
  by (auto simp: pure_result_def hetero_equality_def split: option.split)

lemma contains_ok:
  "of_type TStr x \<Longrightarrow> of_type TStr y \<Longrightarrow> result_ok TBool (fst (binary_evaluate rx externs Contains x y s))"
  "of_type (TSet a) x \<Longrightarrow> of_type c y \<Longrightarrow> in_sets c \<Longrightarrow> result_ok TBool (fst (binary_evaluate rx externs Contains x y s))"
  "of_type c x \<Longrightarrow> c \<in> {TArray a, TMap a} \<Longrightarrow> result_ok TBool (fst (binary_evaluate rx externs Contains x y s))"
proof -
  show "of_type TStr x \<Longrightarrow> of_type TStr y \<Longrightarrow> result_ok TBool (fst (binary_evaluate rx externs Contains x y s))"
    by (auto simp: pure_result_def string_test_ok)
  show "of_type (TSet a) x \<Longrightarrow> of_type c y \<Longrightarrow> in_sets c \<Longrightarrow> result_ok TBool (fst (binary_evaluate rx externs Contains x y s))"
    by (cases c) (auto simp: pure_result_def)
  show "of_type c x \<Longrightarrow> c \<in> {TArray a, TMap a} \<Longrightarrow> result_ok TBool (fst (binary_evaluate rx externs Contains x y s))"
    by (auto simp: pure_result_def)
qed

lemma string_ops_ok:
  "of_type a x \<Longrightarrow> of_type c y \<Longrightarrow> a = TStr \<and> c = TStr \<or> a = TArray d \<and> c = TArray f \<Longrightarrow> b \<in> {Prefix, Suffix} \<Longrightarrow>
   result_ok TBool (fst (binary_evaluate rx externs b x y s))"
  "of_type TStr x \<Longrightarrow> of_type TStr y \<Longrightarrow> result_ok TBool (fst (binary_evaluate rx externs Regex x y s))"
  "of_type TStr x \<Longrightarrow> of_type TStr y \<Longrightarrow> result_ok TStr (fst (binary_evaluate rx externs Add x y s))"
  by (auto simp: pure_result_def string_test_ok intern_ok two_strings_def split: option.split)

lemma arithmetic_ok:
  "of_type TInteger x \<Longrightarrow> of_type TInteger y \<Longrightarrow> b \<in> arithmetic \<Longrightarrow>
   result_ok TInteger (fst (binary_evaluate rx externs b x y s))"
  unfolding arithmetic_def
  by (auto simp: pure_result_def checked_ok)

lemma logic_ok:
  "of_type TBool x \<Longrightarrow> of_type TBool y \<Longrightarrow> b \<in> {And_op, Or_op} \<Longrightarrow>
   result_ok TBool (fst (binary_evaluate rx externs b x y s))"
  by (auto simp: pure_result_def)

lemma set_ops_ok:
  "of_type (TSet a) x \<Longrightarrow> of_type (TSet c) y \<Longrightarrow> result_ok (TSet a) (fst (binary_evaluate rx externs Intersection x y s))"
  "of_type (TSet a) x \<Longrightarrow> of_type (TSet a) y \<Longrightarrow> result_ok (TSet a) (fst (binary_evaluate rx externs Union_op x y s))"
  by (auto simp: pure_result_def set_intersection_def set_union_def list_all_iff set_bt_of_list)

lemma get_ok:
  assumes "of_type c x" "of_type d y" "c = TArray a \<and> d = TInteger \<or> c = TMap a \<and> d \<in> {TInteger, TStr}"
  shows "result_ok TAny (fst (binary_evaluate rx externs Get x y s))"
proof -
  have map: "of_type TAny (map_get m k)" if "list_all (\<lambda>(k, u). of_type a u) m" for m k
    using that of_type_any by (auto simp: map_get_def list_all_iff dest!: map_of_SomeD split: option.split)
  have array: "of_type TAny (array_get ts i)" if "list_all (of_type a) ts" for ts i
    using that by (auto simp: array_get_def nth_opt_def list_all_iff intro!: of_type_any [of a] split: option.split)
  from assms map array show ?thesis by (auto simp: pure_result_def)
qed

lemma unary_ok:
  "of_type TBool x \<Longrightarrow> result_ok TBool (fst (unary_evaluate externs Negate x s))"
  "of_type a x \<Longrightarrow> result_ok a (fst (unary_evaluate externs Parens x s))"
  "of_type a x \<Longrightarrow> has_length a \<Longrightarrow> result_ok TInteger (fst (unary_evaluate externs Length x s))"
  "of_type a x \<Longrightarrow> result_ok TStr (fst (unary_evaluate externs TypeOf x s))"
proof -
  show "of_type TBool x \<Longrightarrow> result_ok TBool (fst (unary_evaluate externs Negate x s))"
    by (auto simp: pure_result_def)
  show "of_type a x \<Longrightarrow> result_ok a (fst (unary_evaluate externs Parens x s))"
    by (simp add: pure_result_def)
  show "of_type a x \<Longrightarrow> has_length a \<Longrightarrow> result_ok TInteger (fst (unary_evaluate externs Length x s))"
    by (cases a) (auto simp: pure_result_def len_i64_def split: option.split)
  assume "of_type a x"
  then have "of_type TAny x" by (rule of_type_any)
  then show "result_ok TStr (fst (unary_evaluate externs TypeOf x s))"
    by (cases x) (simp_all add: of_type.simps(1) intern_ok)
qed

lemmas operators_ok = order_ok equal_ok hetero_ok contains_ok string_ops_ok arithmetic_ok logic_ok set_ops_ok get_ok

section \<open>Soundness\<close>

lemma push_ok:
  "result_ok a (fst q) \<Longrightarrow> (\<And>t s. of_type a t \<Longrightarrow> result_ok c (fst (k t s))) \<Longrightarrow> result_ok c (fst (and_push q k))"
proof -
  assume q: "result_ok a (fst q)" and k: "\<And>t s. of_type a t \<Longrightarrow> result_ok c (fst (k t s))"
  obtain r s where "q = (r, s)" by fastforce
  with q k show ?thesis by (cases r) (simp_all add: and_push_def)
qed

lemma closure_loop_ok:
  assumes "\<And>v s. v \<in> set items \<Longrightarrow> result_ok TBool (fst (ev (values(i \<mapsto> v)) s))" "values i = None"
  shows "result_ok TBool (fst (closure_loop ev goal i items values s))"
  using assms
proof (induction items arbitrary: s)
  case (Cons v vs)
  have same: "values(i := None) = values" using Cons.prems(2) by auto
  obtain r s' where ev: "ev (values(i \<mapsto> v)) s = (r, s')" by fastforce
  have "result_ok TBool (fst (ev (values(i \<mapsto> v)) s))" by (rule Cons.prems(1)) simp
  then have r: "result_ok TBool r" by (simp only: ev fst_conv)
  have "result_ok TBool (fst (closure_loop ev goal i vs values s'))" using Cons by simp
  with r show ?case by (cases r) (auto simp: ev same)
qed simp

lemma items_typed:
  "of_type c t \<Longrightarrow> item_type c = Some a \<Longrightarrow> \<exists>items. collection_items t = Some items \<and> (\<forall>v \<in> set items. of_type a v)"
proof -
  have key: "of_type TAny (key_term k)" for k by (cases k) simp_all
  have entry: "of_type TAny u" if "list_all (\<lambda>(k, u). of_type d u) m" "(k, u) \<in> set m" for d m k u
    using that by (auto simp: list_all_iff intro: of_type_any [of d])
  show "of_type c t \<Longrightarrow> item_type c = Some a \<Longrightarrow> ?thesis"
    by (cases c) (auto simp: list_all_iff [of "of_type _"] key entry)
qed

lemma bindings_none: "bindings_ok G vs \<Longrightarrow> G i = None \<Longrightarrow> vs i = None"
  unfolding bindings_ok_def by (metis option.rel_distinct(1) option.exhaust)

lemma bindings_update: "bindings_ok G vs \<Longrightarrow> of_type a v \<Longrightarrow> bindings_ok (G(i \<mapsto> a)) (vs(i \<mapsto> v))"
  by (simp add: bindings_ok_def)

lemma binary_push:
  assumes "typed G l a" "typed G r c"
    and "\<And>s. result_ok a (fst (tree_eval rx externs l vs s))" "\<And>s. result_ok c (fst (tree_eval rx externs r vs s))"
    and "\<And>x y s. of_type a x \<Longrightarrow> of_type c y \<Longrightarrow> result_ok d (fst (binary_evaluate rx externs b x y s))"
  shows "result_ok d (fst (tree_eval rx externs (EBinary b l r) vs s))"
proof -
  have "result_ok d (fst (and_push (tree_eval rx externs l vs s)
      (\<lambda>x s. and_push (tree_eval rx externs r vs s) (\<lambda>y s. binary_evaluate rx externs b x y s))))"
    by (rule push_ok [OF assms(3)], rule push_ok [OF assms(4)], rule assms(5))
  then show ?thesis using typed_open [OF assms(1)] typed_open [OF assms(2)] by simp
qed

lemma typed_evaluates:
  "typed G e a \<Longrightarrow> bindings_ok G vs \<Longrightarrow> result_ok a (fst (tree_eval rx externs e vs s))"
proof (induction arbitrary: vs s rule: typed.induct)
  case (Value a t G)
  then have "of_type TAny t" by (intro of_type_any)
  then have "value_result vs t = Ok t" by (cases t) (simp_all add: of_type.simps(1))
  with Value show ?case by simp
next
  case (Var G i a)
  then obtain t where "vs i = Some t" "of_type a t"
    unfolding bindings_ok_def by (metis option.rel_cases option.distinct(1) option.inject)
  then show ?case by simp
next
  case (Any G e a)
  then show ?case by (blast intro: result_any)
next
  case (Lazy G l r b)
  have "result_ok TBool (fst (evaluate_with_closure (tree_eval rx externs r) b t [] vs s'))" if "of_type TBool t" for t s'
    using that Lazy by (auto simp: evaluate_with_closure_def split: bool.split)
  then show ?case
    using Lazy.IH(1) [OF Lazy.prems] typed_open [OF Lazy.hyps(1)]
    by (auto simp: shadows_def intro!: push_ok [where a = TBool])
next
  case (Items G l c a i r b)
  have fresh: "vs i = None" by (rule bindings_none [OF Items.prems Items.hyps(3)])
  have "result_ok TBool (fst (evaluate_with_closure (tree_eval rx externs r) b t [i] vs s'))" if t: "of_type c t" for t s'
  proof -
    from items_typed [OF t Items.hyps(2)] obtain items
      where items: "collection_items t = Some items" "\<forall>v \<in> set items. of_type a v" by blast
    have "result_ok TBool (fst (closure_loop (tree_eval rx externs r) goal i items vs s'))" for goal
    proof (rule closure_loop_ok)
      show "result_ok TBool (fst (tree_eval rx externs r (vs(i \<mapsto> v)) s))" if "v \<in> set items" for v s
        using that items(2) by (intro Items.IH(2) bindings_update [OF Items.prems]) simp
    qed (rule fresh)
    with items(1) Items.hyps(5) show ?thesis
      by (auto simp: evaluate_with_closure_def collection_loop_def)
  qed
  then show ?case
    using Items.IH(1) [OF Items.prems] typed_open [OF Items.hyps(1)] fresh
    by (auto simp: shadows_def intro!: push_ok [where a = c])
next
  case (TryOr G l a r)
  have "result_ok a (fst (evaluate_with_closure (tree_eval rx externs l) TryOr t [] vs s'))" if "of_type a t" for t s'
    using that TryOr.IH(1) [OF TryOr.prems, of s']
    by (auto simp: evaluate_with_closure_def split: prod.split outcome.split)
  then show ?case
    using TryOr.IH(2) [OF TryOr.prems] typed_open [OF TryOr.hyps(2)]
    by (auto simp: shadows_def intro!: push_ok [where a = a])
qed ((auto intro!: push_ok unary_ok; fail) | (rule binary_push, assumption, assumption, blast, blast, blast intro: operators_ok))+

section \<open>The property\<close>

text \<open>
  C33: A well-typed expression evaluates.  Compiled and run by the stack machine, with bindings that
  give its variables values of their types, it yields a value of its type, or stops at an integer
  that overflows, a division by zero or a string index without a string: its operators never meet
  operands they refuse, its variables are bound and not shadowed, and its stack is never wrong.
\<close>

theorem well_typed_evaluates:
  assumes "typed G e a" "bindings_ok G vs"
  shows "case fst (expr_evaluate rx externs \<lparr>e_ops = opcodes e\<rparr> vs s) of
      Ok t \<Rightarrow> of_type a t
    | Err er \<Rightarrow> value_error er
    | Panic \<Rightarrow> False"
proof -
  have "expr_evaluate rx externs \<lparr>e_ops = opcodes e\<rparr> vs s = tree_eval rx externs e vs s"
    using eval_opcodes [THEN conjunct1, rule_format, of rx externs e "[]" "[]"]
    by (simp add: expr_evaluate_def run_tree_final)
  with typed_evaluates [OF assms] show ?thesis by (simp add: result_ok_def)
qed

text \<open>\<open>[1, 2].any($1 -> $1 > $0 || (6 / $1).try_or(0) === 3)\<close>.\<close>

definition typed_sample :: expr_tree where
  "typed_sample =
     EBinary Any_op (EValue (Array [Integer 1, Integer 2]))
       (EClosure [1]
         (EBinary LazyOr (EBinary GreaterThan (EValue (Variable 1)) (EValue (Variable 0)))
           (EClosure []
             (EBinary Equal
               (EBinary TryOr (EClosure [] (EBinary Div (EValue (Integer 6)) (EValue (Variable 1)))) (EValue (Integer 0)))
               (EValue (Integer 3))))))"

lemma typed_sample_typed: "typed [0 \<mapsto> TInteger] typed_sample TBool"
  unfolding typed_sample_def
proof (rule typed.Items [where c = "TArray TInteger" and a = TInteger])
  let ?G = "[0 \<mapsto> TInteger, 1 \<mapsto> TInteger]"
  have v: "typed ?G (EValue (Variable 0)) TInteger" "typed ?G (EValue (Variable 1)) TInteger"
    "typed ?G (EValue (Integer j)) TInteger" for j
    by (auto intro: typed.Var typed.Value)
  have "typed ?G (EBinary Div (EValue (Integer 6)) (EValue (Variable 1))) TInteger"
    by (rule typed.Arithmetic [OF v(3,2)]) (simp add: arithmetic_def)
  then have "typed ?G (EBinary Equal (EBinary TryOr (EClosure [] (EBinary Div (EValue (Integer 6)) (EValue (Variable 1))))
      (EValue (Integer 0))) (EValue (Integer 3))) TBool"
    by (intro typed.Equal [OF typed.TryOr [OF _ v(3)] v(3)]) simp_all
  then show "typed ?G (EBinary LazyOr (EBinary GreaterThan (EValue (Variable 1)) (EValue (Variable 0)))
      (EClosure [] (EBinary Equal (EBinary TryOr (EClosure [] (EBinary Div (EValue (Integer 6)) (EValue (Variable 1))))
        (EValue (Integer 0))) (EValue (Integer 3))))) TBool"
    by (intro typed.Lazy typed.Order [OF v(2,1)]) (simp_all add: orderings_def)
  show "typed [0 \<mapsto> TInteger] (EValue (Array [Integer 1, Integer 2])) (TArray TInteger)"
    by (rule typed.Value) simp
qed simp_all

theorem well_typed_evaluates_witness:
  "case fst (expr_evaluate (\<lambda>_. None) (\<lambda>_. None) \<lparr>e_ops = opcodes typed_sample\<rparr> [0 \<mapsto> Integer 5] (tmp_new st_new)) of
      Ok t \<Rightarrow> of_type TBool t
    | Err er \<Rightarrow> value_error er
    | Panic \<Rightarrow> False"
  by (rule well_typed_evaluates [OF typed_sample_typed]) (simp add: bindings_ok_def)

end
