(* ===== verification/Spec2Isabelle.thy ===== *)
theory Spec2Isabelle
  imports Versions Blocks Saturation Attenuated_Token Symbol_Order Snapshot_Properties Key_Text Conversions Expiration C_Errors Macro_Collections Typing
begin

text \<open>
  Verification of the Biscuit authorization token library (\<open>src/biscuit-auth\<close>, with the data of
  \<open>src/biscuit-parser\<close>), of its C interface (\<open>src/biscuit-capi\<close>) and of its quasi-quotation macros
  (\<open>src/biscuit-quote\<close>).

  \<^bold>\<open>The program.\<close>  A token is a chain of signed blocks.  A block holds Datalog facts, rules and
  checks; the first is the authority block, and whoever holds the token can attenuate it with more,
  or ask a third party for a block signed with the third party's key.  An authorizer loads the
  blocks of a token beside facts, rules, checks and policies of its own, computes the facts that
  follow (each with its origin, the set of blocks it depends on), and decides: the first policy that
  matches must allow, and every check must pass, each query seeing only facts whose origin it trusts.
  Builders hold statements over strings and parameters; building a block interns strings and keys
  in tables; a token is written in the protobuf schema and signed bytes are exactly those bytes.

  \<^bold>\<open>Conventions.\<close>  A fallible operation returns an \<open>outcome\<close>: \<open>Ok\<close>, \<open>Err\<close> with the code's error, or
  \<open>Panic\<close>; where the only failure is a panic, an option.  \<open>i64\<close> and \<open>u8\<close> are words; indices, lengths,
  dates and counters are natural numbers.  Strings are lists of bytes.  A \<open>BTreeSet\<close> or \<open>BTreeMap\<close> is
  a strictly sorted list in the derived order, a \<open>HashMap\<close> an association list in insertion order.
  Mutable tables are threaded.  Code of other crates is a parameter: the signature primitives, hash
  and random keys (record \<open>primitives\<close>), the protobuf codec of prost (\<open>codec\<close>), the regex crate, the
  text of dates and bytes (\<open>formats\<close>), hexadecimal (\<open>hex_codec\<close>), the clock (a function from readings
  to times), the host's foreign functions, and the parser of one Datalog statement.

  \<^bold>\<open>Theories.\<close>  In the order of the imports:
  \<^item> \<open>Prelude\<close>: outcomes, traversals, ordered collections.  \<open>Errors\<close>: \<open>error.rs\<close>.
  \<^item> \<open>Terms\<close>, \<open>Symbols\<close>, \<open>Origins\<close>: the data of \<open>datalog/mod.rs\<close>, the tables of \<open>datalog/symbol.rs\<close> and
    \<open>token/public_keys.rs\<close>, and \<open>datalog/origin.rs\<close>.
  \<^item> \<open>Operators\<close>, \<open>Expressions\<close>: \<open>datalog/expression.rs\<close>.  The stack machine on compiled code is the
    meaning of the expression tree; it does not panic, keeps the table, and integer arithmetic is
    exact or an error.  \<open>Typing\<close>: types of expressions, and that well-typed ones do not go wrong.
  \<^item> \<open>Matching\<close>, \<open>Facts\<close>, \<open>Rules\<close>, \<open>World\<close>, \<open>Saturation\<close>: the rest of \<open>datalog/mod.rs\<close>.  \<open>CombineIt\<close>
    is a step function that ends and yields the substitutions of a body; applying a rule yields its
    consequences; a successful run is the least model, and saturation ends.
  \<^item> \<open>Versions\<close>: schema versions.  \<open>Printing\<close>: the printing methods of the symbol table.
  \<^item> \<open>Builder_Terms\<close>, \<open>Builder\<close>, \<open>Builder_Roundtrip\<close>, \<open>Stability\<close>: \<open>token/builder/*.rs\<close>, parameters and
    the trait \<open>Convert\<close>; converting and reading back, and converting twice.
  \<^item> \<open>Schema\<close>, \<open>Convert\<close>, \<open>Wire\<close>: \<open>format/schema.rs\<close> and \<open>format/convert.rs\<close>; what can be written is
    read back.
  \<^item> \<open>Keys\<close>, \<open>Key_Text\<close>, \<open>Crypto\<close>, \<open>Container\<close>, \<open>Chain\<close>: \<open>crypto/*.rs\<close>, \<open>bwk.rs\<close> and \<open>format/mod.rs\<close>; the
    signed byte strings, and what a verified chain says.
  \<^item> \<open>Blocks\<close>, \<open>Tokens\<close>, \<open>Token_Invariant\<close>, \<open>Portable\<close>: building blocks, \<open>token/mod.rs\<close>,
    \<open>token/unverified.rs\<close>, \<open>token/third_party.rs\<close>; the invariant that a token is what its bytes say.
  \<^item> \<open>Authorizer_Builder\<close>, \<open>Authorizer\<close>, \<open>Authorization\<close>, \<open>Attenuation\<close>, \<open>Loading\<close>, \<open>Built\<close>,
    \<open>Attenuated_Token\<close>, \<open>Symbol_Order\<close>, \<open>Expiration\<close>: \<open>token/authorizer.rs\<close> and its builder; what a
    decision means, from the blocks of the token to the policy, and that attenuation restricts.
    \<open>Samples\<close> runs small tokens from end to end.
  \<^item> \<open>Snapshot\<close>, \<open>Snapshot_Properties\<close>: \<open>token/authorizer/snapshot.rs\<close>.
  \<^item> \<open>Display\<close>, \<open>Display_Agreement\<close>: \<open>Display\<close> and \<open>dump_code\<close>, against the printing of the engine.
  \<^item> \<open>Parsed\<close>, \<open>Parsed_Rules\<close>, \<open>Conversions\<close>: what the parser produces, its way into the builder, the
    loops that read a source, and conversions of Rust values.  \<open>Statement_Text\<close>: statements and keys
    read from text, ready-made statements, and the text of \<open>error.rs\<close>.
  \<^item> \<open>Entry_Points\<close>: base64 forms, fresh keys and the operations of \<open>token/unverified.rs\<close> that wrap
    others; working before and after the signatures are checked is the same, except for third-party
    blocks with keys.
  \<^item> \<open>C_Api\<close>, \<open>C_Handles\<close>, \<open>C_Sessions\<close>, \<open>C_Properties\<close>, \<open>C_Errors\<close>: \<open>src/biscuit-capi/src/lib.rs\<close>, one
    definition per function, threading the state of the thread; sessions on builder handles against
    the Rust builders, keys and tokens in buffers, the last error over every sequence of calls.
  \<^item> \<open>Macros\<close>, \<open>Macro_Code\<close>, \<open>Macro_Meaning\<close>, \<open>Macro_Agreement\<close>, \<open>Macro_Collections\<close>: \<open>src/biscuit-quote/src/lib.rs\<close> and the
    \<open>ToTokens\<close> of the parser's data.  The code that a macro generates is a record, and running it is a
    function on builders: it moves each variable in its last use, and does what \<open>code_with_params\<close>
    does with the same source, also with parameters inside collections.

  \<^bold>\<open>Interfaces.\<close>  Locales state what one part relies on in another, and each is interpreted on the
  model's own definitions.  \<open>interner\<close> is a table that numbers its entries and only grows: the public
  keys, the symbol table and the temporary table of an evaluation are its interpretations.
  \<open>term_table\<close> extends it with the conversion of terms, \<open>rust_type\<close> is a type of values that convert
  to terms and back, and \<open>builder_call\<close> a function of the C interface that adds a statement given as
  text to a builder behind a handle; its twelve interpretations are the functions of the interface.
  \<open>filler\<close> is setting a parameter of a statement, which fills in its table: facts, rules, checks and
  their scopes are its interpretations, on which running a macro and reading with parameters meet.

  \<^bold>\<open>Bounds.\<close>  Every loop of the model ends without fuel: the saturation loop by the number of facts
  its limits still allow, the evaluation by the size of the code, the iterator by what is left of its
  inputs.  The reader of a source is a partial function, since it ends only when the parser of a
  statement consumes input, which is the hypothesis under which it is shown to return.

  \<^bold>\<open>Limits of the code that the properties record.\<close>  That attenuation cannot grant needs that loading
  the block adds no symbol to the authorizer's table: sets of strings are ordered by symbol numbers,
  and \<open>Symbol_Order\<close> has an authorizer for which it fails otherwise.

  \<^bold>\<open>Not modelled.\<close>  The grammar of Datalog (\<open>src/biscuit-parser/src/parser.rs\<close>) is written in the
  combinators of nom, which is not part of the repository: the parser of a statement is a parameter,
  and what the grammar assembles is modelled.  The arguments of a macro are those that syn reads, and
  the tokens that quote spells are represented by what they say.  In the C interface, freeing a
  handle and reading outside a buffer are left out.  Base64, hexadecimal, DER, PEM and protobuf encodings,
  random generation, zeroizing and the clock are other crates or the platform.  Capacity limits of memory are ignored,
  and the iteration order of hash maps is the insertion order.
\<close>

end
